(* ===== verification/Prelude.thy ===== *)
theory Prelude
  imports Complex_Main "HOL-Library.AList" "HOL-Library.Sublist"
begin

text \<open>
  The vocabulary shared by every component of the development.

  \<^item> Python values: a JSON-like value is a \<open>py\<close>; a dict is an association list in
    insertion order (\<open>dict\<close>), because Python dicts iterate in insertion order and
    assignment to an existing key keeps its position, which is what \<open>AList.update\<close> does.
  \<^item> Exceptions: a call that may raise returns \<open>py_error + 'a\<close> (\<open>'a res\<close>), \<open>Inl\<close>
    for the exception.
  \<^item> The idioms \<open>d.get(k, default)\<close>, \<open>a or b\<close>, \<open>dict(d.get(k, {}) or {})\<close>,
    \<open>list(d.get(k, []) or [])\<close>, \<open>str(d.get(k) or "")\<close>, \<open>s.strip()\<close>, \<open>s.lower()\<close>,
    \<open>xs.index(x)\<close>, and \<open>dedupe_keep_order\<close> of mobility_agent/utils.py.
  \<^item> Two locales: a finite chain of names (an ordered pipeline), and a step function with
    an invariant; both are interpreted on the program's own definitions by the components.

  Floats are modelled by rationals together with the two infinities and NaN: rounding of
  IEEE arithmetic is not modelled, so a literal such as \<open>0.9\<close> is the exact decimal.
  Characters are the code points below 256.
\<close>

section \<open>Exceptions\<close>

datatype py_error =
    KeyError string
  | ValueError string
  | TypeError string
  | AttributeError string
  | IndexError string
  | OverflowError string
  | RuntimeError string
  | FileNotFoundError string
  | OSError string
  | NotImplementedError string
  | ManualFixValidationError string
  | StageDependencyError string
  | ValidationError string

type_synonym 'a res = "py_error + 'a"

definition bindR :: "'a res \<Rightarrow> ('a \<Rightarrow> 'b res) \<Rightarrow> 'b res" where
  "bindR r f = (case r of Inl e \<Rightarrow> Inl e | Inr x \<Rightarrow> f x)"

lemma bindR_simps [simp]:
  "bindR (Inl e) f = Inl e"
  "bindR (Inr x) f = f x"
  by (simp_all add: bindR_def)

lemma bindR_eq_Inr [simp]: "bindR r f = Inr y \<longleftrightarrow> (\<exists>x. r = Inr x \<and> f x = Inr y)"
  by (cases r) auto

lemma bindR_eq_Inl: "bindR r f = Inl e \<longleftrightarrow> r = Inl e \<or> (\<exists>x. r = Inr x \<and> f x = Inl e)"
  by (cases r) auto

text \<open>\<open>yields P r\<close>: if the call returns, its result satisfies \<open>P\<close>.\<close>

definition yields :: "('a \<Rightarrow> bool) \<Rightarrow> 'a res \<Rightarrow> bool" where
  "yields P r \<longleftrightarrow> (\<forall>x. r = Inr x \<longrightarrow> P x)"

lemma yields_bindR: "(\<And>x. r = Inr x \<Longrightarrow> yields P (f x)) \<Longrightarrow> yields P (bindR r f)"
  by (auto simp: yields_def)

lemma yields_if: "(c \<Longrightarrow> yields P r) \<Longrightarrow> (\<not> c \<Longrightarrow> yields P s) \<Longrightarrow> yields P (if c then r else s)"
  by simp

lemma yields_Inr: "P x \<Longrightarrow> yields P (Inr x)"
  by (simp add: yields_def)

lemma yieldsD: "yields P r \<Longrightarrow> r = Inr x \<Longrightarrow> P x"
  by (simp add: yields_def)

text \<open>Python's \<open>try: ... except Exception: fallback\<close>.\<close>

definition try_except :: "'a res \<Rightarrow> 'a \<Rightarrow> 'a" where
  "try_except r d = (case r of Inl _ \<Rightarrow> d | Inr x \<Rightarrow> x)"

lemma try_except_simps [simp]:
  "try_except (Inl e) d = d"
  "try_except (Inr x) d = x"
  by (simp_all add: try_except_def)

text \<open>A list of calls, stopping at the first exception.\<close>

fun mapR :: "('a \<Rightarrow> 'b res) \<Rightarrow> 'a list \<Rightarrow> 'b list res" where
  "mapR f [] = Inr []"
| "mapR f (x # xs) = bindR (f x) (\<lambda>y. bindR (mapR f xs) (\<lambda>ys. Inr (y # ys)))"

lemma mapR_total: "(\<And>x. x \<in> set xs \<Longrightarrow> f x = Inr (g x)) \<Longrightarrow> mapR f xs = Inr (map g xs)"
  by (induction xs) auto

lemma mapR_length: "mapR f xs = Inr ys \<Longrightarrow> length ys = length xs"
  by (induction xs arbitrary: ys) auto

section \<open>Strings\<close>

definition code_of :: "char \<Rightarrow> nat" where
  "code_of c = of_char c"

definition is_space :: "char \<Rightarrow> bool" where
  "is_space c \<longleftrightarrow> code_of c \<in> {9, 10, 11, 12, 13, 28, 29, 30, 31, 32, 133, 160}"

definition py_lstrip :: "string \<Rightarrow> string" where
  "py_lstrip s = dropWhile is_space s"

definition py_rstrip :: "string \<Rightarrow> string" where
  "py_rstrip s = rev (dropWhile is_space (rev s))"

definition py_strip :: "string \<Rightarrow> string" where
  "py_strip s = py_rstrip (py_lstrip s)"

definition lower_char :: "char \<Rightarrow> char" where
  "lower_char c =
     (let n = code_of c
      in if (65 \<le> n \<and> n \<le> 90) \<or> (192 \<le> n \<and> n \<le> 222 \<and> n \<noteq> 215) then char_of (n + 32) else c)"

definition py_lower :: "string \<Rightarrow> string" where
  "py_lower s = map lower_char s"

definition upper_char :: "char \<Rightarrow> char" where
  "upper_char c =
     (let n = code_of c
      in if (97 \<le> n \<and> n \<le> 122) \<or> (224 \<le> n \<and> n \<le> 254 \<and> n \<noteq> 247) then char_of (n - 32) else c)"

definition py_upper :: "string \<Rightarrow> string" where
  "py_upper s = map upper_char s"

definition startswith :: "string \<Rightarrow> string \<Rightarrow> bool" where
  "startswith s p \<longleftrightarrow> take (length p) s = p"

definition endswith :: "string \<Rightarrow> string \<Rightarrow> bool" where
  "endswith s p \<longleftrightarrow> length p \<le> length s \<and> drop (length s - length p) s = p"

text \<open>Substring test \<open>p in s\<close>, and \<open>s.split(p, 1)\<close> where \<open>p\<close> occurs.\<close>

fun split_once :: "string \<Rightarrow> string \<Rightarrow> (string \<times> string) option" where
  "split_once p [] = (if p = [] then Some ([], []) else None)"
| "split_once p (c # s) =
     (if startswith (c # s) p then Some ([], drop (length p) (c # s))
      else map_option (\<lambda>(a, b). (c # a, b)) (split_once p s))"

definition contains :: "string \<Rightarrow> string \<Rightarrow> bool" where
  "contains s p \<longleftrightarrow> split_once p s \<noteq> None"

fun join :: "string \<Rightarrow> string list \<Rightarrow> string" where
  "join sep [] = []"
| "join sep [s] = s"
| "join sep (s # t # ss) = s @ sep @ join sep (t # ss)"

fun nat_digits :: "nat \<Rightarrow> string" where
  "nat_digits n = (if n < 10 then [char_of (48 + n)] else nat_digits (n div 10) @ [char_of (48 + n mod 10)])"

declare nat_digits.simps [simp del]

definition show_int :: "int \<Rightarrow> string" where
  "show_int i = (if i < 0 then ''-'' @ nat_digits (nat (- i)) else nat_digits (nat i))"

lemma startswith_append [simp]: "startswith (p @ s) p"
  by (simp add: startswith_def)

lemma contains_mid: "contains (a @ p @ b) p"
proof -
  have "split_once p (a @ p @ b) \<noteq> None"
  proof (induction a)
    case Nil
    have "startswith (p @ b) p" by simp
    then show ?case by (cases "p @ b") auto
  next
    case (Cons x a)
    then show ?case by (cases "startswith (x # a @ p @ b) p") auto
  qed
  then show ?thesis by (simp add: contains_def)
qed

lemma contains_refl [simp]: "contains s s"
  using contains_mid [of "[]" s "[]"] by simp

lemma startswith_Nil [simp]: "startswith s []"
  by (simp add: startswith_def)

lemma split_once_Some: "split_once p s = Some (a, b) \<Longrightarrow> s = a @ p @ b"
proof (induction s arbitrary: a b)
  case Nil
  then show ?case by (auto split: if_splits)
next
  case (Cons c s)
  show ?case
  proof (cases "startswith (c # s) p")
    case True
    with Cons.prems have "a = []" "b = drop (length p) (c # s)" by auto
    with True show ?thesis
      by (metis append_Nil append_take_drop_id startswith_def)
  next
    case False
    with Cons.prems obtain a' where "split_once p s = Some (a', b)" "a = c # a'" by auto
    with Cons.IH show ?thesis by simp
  qed
qed

lemma dropWhile_idem: "dropWhile P (dropWhile P xs) = dropWhile P xs"
  by (induction xs) auto

lemma dropWhile_rev_keep:
  "xs = [] \<or> \<not> P (hd xs) \<Longrightarrow>
   rev (dropWhile P (rev xs)) = [] \<or> \<not> P (hd (rev (dropWhile P (rev xs))))"
proof -
  assume a: "xs = [] \<or> \<not> P (hd xs)"
  have "xs = rev (dropWhile P (rev xs)) @ rev (takeWhile P (rev xs))"
    by (metis rev_append rev_rev_ident takeWhile_dropWhile_id)
  with a show ?thesis by (metis hd_append Nil_is_append_conv)
qed

lemma dropWhile_neq_Cons: "dropWhile P xs \<noteq> a # xs"
  using length_dropWhile_le [of P xs] by (metis impossible_Cons)

lemma dropWhile_id_iff: "dropWhile P xs = xs \<longleftrightarrow> xs = [] \<or> \<not> P (hd xs)"
  by (cases xs) (simp_all add: dropWhile_neq_Cons)

lemma py_strip_idem [simp]: "py_strip (py_strip s) = py_strip s"
proof -
  let ?l = "dropWhile is_space s"
  have l: "?l = [] \<or> \<not> is_space (hd ?l)" by (metis hd_dropWhile)
  let ?t = "rev (dropWhile is_space (rev ?l))"
  have t: "?t = [] \<or> \<not> is_space (hd ?t)" using l by (rule dropWhile_rev_keep)
  have "dropWhile is_space ?t = ?t" using t by (simp add: dropWhile_id_iff)
  moreover have "rev (dropWhile is_space (rev ?t)) = ?t" by (simp add: dropWhile_idem)
  ultimately show ?thesis by (simp add: py_strip_def py_lstrip_def py_rstrip_def)
qed

text \<open>\<open>s or d\<close> for an optional string: \<open>None\<close> and the empty string are falsy.\<close>

definition str_or :: "string option \<Rightarrow> string \<Rightarrow> string" where
  "str_or s d = (case s of None \<Rightarrow> d | Some t \<Rightarrow> if t = [] then d else t)"

lemma str_or_simps [simp]:
  "str_or None d = d"
  "str_or (Some []) d = d"
  "t \<noteq> [] \<Longrightarrow> str_or (Some t) d = t"
  by (simp_all add: str_or_def)

section \<open>Python values\<close>

datatype flt = Fin rat | PosInf | NegInf | NaN

datatype py =
    PNone
  | PBool bool
  | PInt int
  | PFloat flt
  | PStr string
  | PList "py list"
  | PDict "(string \<times> py) list"

type_synonym dict = "(string \<times> py) list"


text \<open>Truth value of a Python value, and the value of \<open>a or b\<close>.\<close>

fun truthy :: "py \<Rightarrow> bool" where
  "truthy PNone = False"
| "truthy (PBool b) = b"
| "truthy (PInt i) = (i \<noteq> 0)"
| "truthy (PFloat x) = (x \<noteq> Fin 0)"
| "truthy (PStr s) = (s \<noteq> [])"
| "truthy (PList xs) = (xs \<noteq> [])"
| "truthy (PDict d) = (d \<noteq> [])"

definition py_or :: "py \<Rightarrow> py \<Rightarrow> py" where
  "py_or a b = (if truthy a then a else b)"

text \<open>\<open>d.get(k, v)\<close>, \<open>d.get(k)\<close>, \<open>d[k]\<close>, \<open>d[k] = v\<close>, \<open>{**a, **b}\<close>.\<close>

definition dget :: "dict \<Rightarrow> string \<Rightarrow> py \<Rightarrow> py" where
  "dget d k v = (case map_of d k of None \<Rightarrow> v | Some x \<Rightarrow> x)"

definition dget0 :: "dict \<Rightarrow> string \<Rightarrow> py" where
  "dget0 d k = dget d k PNone"

definition ditem :: "dict \<Rightarrow> string \<Rightarrow> py res" where
  "ditem d k = (case map_of d k of None \<Rightarrow> Inl (KeyError k) | Some x \<Rightarrow> Inr x)"

definition dset :: "dict \<Rightarrow> string \<Rightarrow> py \<Rightarrow> dict" where
  "dset d k v = AList.update k v d"

fun dmerge :: "dict \<Rightarrow> dict \<Rightarrow> dict" where
  "dmerge d [] = d"
| "dmerge d ((k, v) # u) = dmerge (dset d k v) u"

lemma map_of_dset [simp]: "map_of (dset d k v) = (map_of d)(k \<mapsto> v)"
  by (simp add: dset_def update_conv')

lemma dget_dset [simp]: "dget (dset d k v) k' w = (if k' = k then v else dget d k' w)"
  by (simp add: dget_def)

lemma dget0_dset [simp]: "dget0 (dset d k v) k' = (if k' = k then v else dget0 d k')"
  by (simp add: dget0_def)

lemma dset_keys [simp]: "fst ` set (dset d k v) = insert k (fst ` set d)"
  by (simp add: dset_def dom_update)

lemma distinct_dset [simp]: "distinct (map fst d) \<Longrightarrow> distinct (map fst (dset d k v))"
  by (simp add: dset_def distinct_update)

lemma dset_neq_Nil [simp]: "dset d k v \<noteq> []"
  by (cases d) (auto simp: dset_def)

lemma map_of_dmerge: "distinct (map fst u) \<Longrightarrow> map_of (dmerge d u) = map_of d ++ map_of u"
proof (induction d u rule: dmerge.induct)
  case (2 d k v u)
  then have "map_of u k = None" by (simp add: map_of_eq_None_iff)
  with 2 show ?case by (auto simp: fun_eq_iff map_add_def split: option.splits)
qed simp

lemma distinct_dmerge: "distinct (map fst d) \<Longrightarrow> distinct (map fst (dmerge d u))"
  by (induction d u rule: dmerge.induct) auto

text \<open>
  \<open>dict(v)\<close>, \<open>list(v)\<close>. The form of \<open>dict()\<close> that takes a sequence of pairs is out of
  scope and raises here: the program only applies it to JSON objects.
\<close>

fun to_dict :: "py \<Rightarrow> dict res" where
  "to_dict (PDict d) = Inr d"
| "to_dict _ = Inl (TypeError ''dict'')"

fun to_list :: "py \<Rightarrow> py list res" where
  "to_list (PList xs) = Inr xs"
| "to_list (PDict d) = Inr (map (PStr \<circ> fst) d)"
| "to_list (PStr s) = Inr (map (\<lambda>c. PStr [c]) s)"
| "to_list _ = Inl (TypeError ''not iterable'')"

definition is_dict :: "py \<Rightarrow> bool" where
  "is_dict v = (case v of PDict _ \<Rightarrow> True | _ \<Rightarrow> False)"

definition is_str :: "py \<Rightarrow> bool" where
  "is_str v = (case v of PStr _ \<Rightarrow> True | _ \<Rightarrow> False)"

text \<open>\<open>dict(d.get(k, {}) or {})\<close> and \<open>list(d.get(k, []) or [])\<close>.\<close>

definition get_dict :: "dict \<Rightarrow> string \<Rightarrow> dict res" where
  "get_dict d k = to_dict (py_or (dget d k (PDict [])) (PDict []))"

definition get_list :: "dict \<Rightarrow> string \<Rightarrow> py list res" where
  "get_list d k = to_list (py_or (dget d k (PList [])) (PList []))"

text \<open>A field that holds an object (or nothing, or \<open>None\<close>) is read without an exception.\<close>

definition objects :: "dict \<Rightarrow> string \<Rightarrow> bool" where
  "objects d k = (case map_of d k of None \<Rightarrow> True | Some v \<Rightarrow> \<not> truthy v \<or> is_dict v)"

lemma get_dict_total: "objects d k \<Longrightarrow> \<exists>r. get_dict d k = Inr r"
  by (auto simp: objects_def get_dict_def dget_def py_or_def is_dict_def split: option.splits py.splits)

lemma get_dict_dset:
  "get_dict (dset d k v) k' = (if k' = k then to_dict (py_or v (PDict [])) else get_dict d k')"
  by (simp add: get_dict_def)

lemma get_list_dset:
  "get_list (dset d k v) k' = (if k' = k then to_list (py_or v (PList [])) else get_list d k')"
  by (simp add: get_list_def)

lemma py_or_PDict [simp]: "py_or (PDict d) (PDict []) = PDict d"
  by (simp add: py_or_def)

lemma py_or_PList [simp]: "py_or (PList xs) (PList []) = PList xs"
  by (simp add: py_or_def)

lemma py_or_PNone [simp]: "py_or PNone b = b"
  by (simp add: py_or_def)

lemma py_or_PStr [simp]: "py_or (PStr s) (PStr []) = PStr s"
  by (simp add: py_or_def)

text \<open>
  \<open>str(v)\<close> and \<open>repr(v)\<close>. A float is written as its integer part with \<open>.0\<close> when it is
  whole and as its reduced fraction otherwise, an injective stand-in for the shortest
  decimal that Python prints.
\<close>

definition repr_char :: "char \<Rightarrow> string" where
  "repr_char c =
     (if c = CHR 0x27 then [CHR 0x5C, CHR 0x27]
      else if c = CHR 0x5C then [CHR 0x5C, CHR 0x5C]
      else if c = CHR 0x0A then [CHR 0x5C, CHR ''n'']
      else if c = CHR 0x0D then [CHR 0x5C, CHR ''r'']
      else if c = CHR 0x09 then [CHR 0x5C, CHR ''t'']
      else [c])"

definition repr_str :: "string \<Rightarrow> string" where
  "repr_str s = [CHR 0x27] @ concat (map repr_char s) @ [CHR 0x27]"

fun str_flt :: "flt \<Rightarrow> string" where
  "str_flt (Fin q) =
     (let (n, d) = quotient_of q
      in if d = 1 then show_int n @ ''.0'' else show_int n @ ''/'' @ show_int d)"
| "str_flt PosInf = ''inf''"
| "str_flt NegInf = ''-inf''"
| "str_flt NaN = ''nan''"

fun py_repr :: "py \<Rightarrow> string" where
  "py_repr PNone = ''None''"
| "py_repr (PBool b) = (if b then ''True'' else ''False'')"
| "py_repr (PInt i) = show_int i"
| "py_repr (PFloat x) = str_flt x"
| "py_repr (PStr s) = repr_str s"
| "py_repr (PList xs) = ''['' @ join '', '' (map py_repr xs) @ '']''"
| "py_repr (PDict d) = ''{'' @ join '', '' (map (\<lambda>(k, v). repr_str k @ '': '' @ py_repr v) d) @ ''}''"

definition py_str :: "py \<Rightarrow> string" where
  "py_str v = (case v of PStr s \<Rightarrow> s | _ \<Rightarrow> py_repr v)"

lemma py_str_PStr [simp]: "py_str (PStr s) = s"
  by (simp add: py_str_def)

text \<open>\<open>str(d.get(k) or "")\<close>.\<close>

definition get_str :: "dict \<Rightarrow> string \<Rightarrow> string" where
  "get_str d k = py_str (py_or (dget0 d k) (PStr []))"

lemma get_str_dset [simp]:
  "get_str (dset d k v) k' = (if k' = k then py_str (py_or v (PStr [])) else get_str d k')"
  by (simp add: get_str_def)

section \<open>Numbers\<close>

text \<open>\<open>int(s)\<close> and \<open>float(s)\<close> of a string: surrounding space, a sign, digits with single
  underscores between them, a fraction, an exponent, or the names of the special values.\<close>

definition digit_val :: "char \<Rightarrow> nat option" where
  "digit_val c = (let n = code_of c in if 48 \<le> n \<and> n \<le> 57 then Some (n - 48) else None)"

definition is_digit :: "char \<Rightarrow> bool" where
  "is_digit c \<longleftrightarrow> digit_val c \<noteq> None"

fun drop_underscores :: "string \<Rightarrow> string" where
  "drop_underscores (a # u # b # s) =
     (if u = CHR ''_'' \<and> is_digit a \<and> is_digit b then a # drop_underscores (b # s)
      else a # drop_underscores (u # b # s))"
| "drop_underscores s = s"

fun take_digits :: "nat \<Rightarrow> string \<Rightarrow> nat \<times> nat \<times> string" where
  "take_digits acc [] = (acc, 0, [])"
| "take_digits acc (c # s) =
     (case digit_val c of
        None \<Rightarrow> (acc, 0, c # s)
      | Some d \<Rightarrow> (let (v, n, r) = take_digits (10 * acc + d) s in (v, Suc n, r)))"

fun take_sign :: "string \<Rightarrow> int \<times> string" where
  "take_sign [] = (1, [])"
| "take_sign (c # s) = (if c = CHR ''-'' then (-1, s) else if c = CHR ''+'' then (1, s) else (1, c # s))"

definition parse_int :: "string \<Rightarrow> int option" where
  "parse_int s =
     (let (sg, r) = take_sign (drop_underscores (py_strip s));
          (v, n, rest) = take_digits 0 r
      in if 0 < n \<and> rest = [] then Some (sg * int v) else None)"

definition scale10 :: "rat \<Rightarrow> int \<Rightarrow> rat" where
  "scale10 q e = (if 0 \<le> e then q * 10 ^ nat e else q / 10 ^ nat (- e))"

definition parse_exponent :: "string \<Rightarrow> int option" where
  "parse_exponent s =
     (case s of [] \<Rightarrow> Some 0
      | c # r \<Rightarrow>
          if c = CHR ''e'' \<or> c = CHR ''E''
          then (let (sg, r') = take_sign r; (v, n, rest) = take_digits 0 r'
                in if 0 < n \<and> rest = [] then Some (sg * int v) else None)
          else None)"

definition parse_float :: "string \<Rightarrow> flt option" where
  "parse_float s =
     (let (sg, r) = take_sign (drop_underscores (py_strip s))
      in if py_lower r \<in> {''inf'', ''infinity''} then Some (if sg < 0 then NegInf else PosInf)
         else if py_lower r = ''nan'' then Some NaN
         else
           (let (v, n, r1) = take_digits 0 r;
                (w, m, r2) = (case r1 of c # r' \<Rightarrow> if c = CHR ''.'' then take_digits v r' else (v, 0, r1)
                                       | [] \<Rightarrow> (v, 0, r1))
            in if n + m = 0 then None
               else map_option (\<lambda>e. Fin (scale10 (of_int sg * of_nat w) (e - int m))) (parse_exponent r2)))"

fun to_float :: "py \<Rightarrow> flt res" where
  "to_float (PFloat x) = Inr x"
| "to_float (PInt i) = Inr (Fin (of_int i))"
| "to_float (PBool b) = Inr (Fin (if b then 1 else 0))"
| "to_float (PStr s) = (case parse_float s of None \<Rightarrow> Inl (ValueError s) | Some x \<Rightarrow> Inr x)"
| "to_float _ = Inl (TypeError ''float'')"

definition trunc_rat :: "rat \<Rightarrow> int" where
  "trunc_rat q = (if q < 0 then \<lceil>q\<rceil> else \<lfloor>q\<rfloor>)"

fun to_int :: "py \<Rightarrow> int res" where
  "to_int (PInt i) = Inr i"
| "to_int (PBool b) = Inr (if b then 1 else 0)"
| "to_int (PFloat (Fin q)) = Inr (trunc_rat q)"
| "to_int (PFloat NaN) = Inl (ValueError ''nan'')"
| "to_int (PFloat _) = Inl (OverflowError ''inf'')"
| "to_int (PStr s) = (case parse_int s of None \<Rightarrow> Inl (ValueError s) | Some i \<Rightarrow> Inr i)"
| "to_int _ = Inl (TypeError ''int'')"

text \<open>\<open>int(d.get(k, 0) or 0)\<close>.\<close>

definition get_int :: "dict \<Rightarrow> string \<Rightarrow> int res" where
  "get_int d k = to_int (py_or (dget d k (PInt 0)) (PInt 0))"

lemma get_int_dset:
  "get_int (dset d k v) k' = (if k' = k then to_int (py_or v (PInt 0)) else get_int d k')"
  by (simp add: get_int_def)

lemma to_int_or_zero [simp]: "to_int (py_or (PInt i) (PInt 0)) = Inr i"
  by (simp add: py_or_def)

text \<open>Comparison and arithmetic of floats: every comparison with NaN is false.\<close>

fun flt_lt :: "flt \<Rightarrow> flt \<Rightarrow> bool" where
  "flt_lt (Fin a) (Fin b) = (a < b)"
| "flt_lt NegInf (Fin _) = True"
| "flt_lt NegInf PosInf = True"
| "flt_lt (Fin _) PosInf = True"
| "flt_lt _ _ = False"

definition flt_le :: "flt \<Rightarrow> flt \<Rightarrow> bool" where
  "flt_le a b \<longleftrightarrow> flt_lt a b \<or> (a = b \<and> a \<noteq> NaN)"

fun is_finite :: "flt \<Rightarrow> bool" where
  "is_finite (Fin _) = True"
| "is_finite _ = False"

fun flt_abs :: "flt \<Rightarrow> flt" where
  "flt_abs (Fin a) = Fin \<bar>a\<bar>"
| "flt_abs NegInf = PosInf"
| "flt_abs PosInf = PosInf"
| "flt_abs NaN = NaN"

text \<open>Python's \<open>min(a, b)\<close> keeps \<open>a\<close> unless \<open>b < a\<close>; \<open>min\<close> of a list folds it.\<close>

definition py_min :: "flt \<Rightarrow> flt \<Rightarrow> flt" where
  "py_min a b = (if flt_lt b a then b else a)"

definition py_max :: "flt \<Rightarrow> flt \<Rightarrow> flt" where
  "py_max a b = (if flt_lt a b then b else a)"

definition min_list :: "flt list \<Rightarrow> flt \<Rightarrow> flt" where
  "min_list xs d = (case xs of [] \<Rightarrow> d | y # ys \<Rightarrow> foldl py_min y ys)"

definition max_list :: "flt list \<Rightarrow> flt \<Rightarrow> flt" where
  "max_list xs d = (case xs of [] \<Rightarrow> d | y # ys \<Rightarrow> foldl py_max y ys)"

text \<open>The quotient \<open>a / b\<close> where the program has excluded a zero divisor.\<close>

fun flt_div :: "flt \<Rightarrow> flt \<Rightarrow> flt" where
  "flt_div (Fin a) (Fin b) = Fin (a / b)"
| "flt_div (Fin _) PosInf = Fin 0"
| "flt_div (Fin _) NegInf = Fin 0"
| "flt_div PosInf (Fin b) = (if b < 0 then NegInf else PosInf)"
| "flt_div NegInf (Fin b) = (if b < 0 then PosInf else NegInf)"
| "flt_div _ _ = NaN"

lemma is_finite_iff: "is_finite x \<longleftrightarrow> (\<exists>q. x = Fin q)"
  by (cases x) auto

lemma flt_le_Fin [simp]: "flt_le (Fin a) (Fin b) \<longleftrightarrow> a \<le> b"
  by (auto simp: flt_le_def)

lemma flt_lt_irrefl [simp]: "\<not> flt_lt a a"
  by (cases a) auto

lemma flt_lt_trans: "flt_lt a b \<Longrightarrow> flt_lt b c \<Longrightarrow> flt_lt a c"
  by (cases a; cases b; cases c) auto

lemma flt_le_lt_trans: "flt_le a b \<Longrightarrow> flt_lt b c \<Longrightarrow> flt_lt a c"
  by (cases a; cases b; cases c) (auto simp: flt_le_def)

lemma flt_lt_le_trans: "flt_lt a b \<Longrightarrow> flt_le b c \<Longrightarrow> flt_lt a c"
  by (cases a; cases b; cases c) (auto simp: flt_le_def)

lemma flt_not_lt: "a \<noteq> NaN \<Longrightarrow> b \<noteq> NaN \<Longrightarrow> \<not> flt_lt a b \<longleftrightarrow> flt_le b a"
  by (cases a; cases b) (auto simp: flt_le_def)

section \<open>dedupe_keep_order\<close>

text \<open>
  mobility_agent/utils.py: the first occurrence of each item is kept. The marker of a
  hashable item is the item itself, that of an unhashable one (a list or a dict) is its
  \<open>repr\<close>; the marker function is the argument \<open>f\<close>.
\<close>

fun dedupe_loop :: "('a \<Rightarrow> 'm) \<Rightarrow> 'm list \<Rightarrow> 'a list \<Rightarrow> 'a list" where
  "dedupe_loop f seen [] = []"
| "dedupe_loop f seen (x # xs) =
     (if f x \<in> set seen then dedupe_loop f seen xs else x # dedupe_loop f (f x # seen) xs)"

definition dedupe_by :: "('a \<Rightarrow> 'm) \<Rightarrow> 'a list \<Rightarrow> 'a list" where
  "dedupe_by f xs = dedupe_loop f [] xs"

definition dedupe :: "'a list \<Rightarrow> 'a list" where
  "dedupe xs = dedupe_by (\<lambda>x. x) xs"

datatype marker = MNone | MNum flt | MText string

fun py_marker :: "py \<Rightarrow> marker" where
  "py_marker PNone = MNone"
| "py_marker (PBool b) = MNum (Fin (if b then 1 else 0))"
| "py_marker (PInt i) = MNum (Fin (of_int i))"
| "py_marker (PFloat x) = MNum x"
| "py_marker (PStr s) = MText s"
| "py_marker v = MText (py_repr v)"

definition py_dedupe :: "py list \<Rightarrow> py list" where
  "py_dedupe xs = dedupe_by py_marker xs"

lemma dedupe_loop_cong: "set s = set t \<Longrightarrow> dedupe_loop f s xs = dedupe_loop f t xs"
proof (induction xs arbitrary: s t)
  case (Cons x xs)
  have "set (f x # s) = set (f x # t)" using Cons.prems by simp
  from Cons.IH [OF this] Cons.IH [OF Cons.prems] Cons.prems show ?case by simp
qed simp

lemma dedupe_loop_markers: "f ` set (dedupe_loop f s xs) = f ` set xs - set s"
proof (induction xs arbitrary: s)
  case (Cons x xs)
  then show ?case by (cases "f x \<in> set s") auto
qed simp

lemma dedupe_loop_distinct: "distinct (map f (dedupe_loop f s xs))"
proof (induction xs arbitrary: s)
  case (Cons x xs)
  have "f x \<notin> f ` set (dedupe_loop f (f x # s) xs)"
    unfolding dedupe_loop_markers by simp
  with Cons show ?case by simp
qed simp

lemma dedupe_loop_subseq: "subseq (dedupe_loop f s xs) xs"
  by (induction xs arbitrary: s) auto

lemma dedupe_loop_id: "distinct (map f xs) \<Longrightarrow> f ` set xs \<inter> set s = {} \<Longrightarrow> dedupe_loop f s xs = xs"
  by (induction xs arbitrary: s) auto

lemma dedupe_by_distinct: "distinct (map f (dedupe_by f xs))"
  by (simp add: dedupe_by_def dedupe_loop_distinct)

lemma dedupe_by_markers: "f ` set (dedupe_by f xs) = f ` set xs"
  by (simp add: dedupe_by_def dedupe_loop_markers)

lemma dedupe_by_idem: "dedupe_by f (dedupe_by f xs) = dedupe_by f xs"
  by (simp add: dedupe_by_def dedupe_loop_id dedupe_loop_distinct)

lemma set_dedupe [simp]: "set (dedupe xs) = set xs"
  using dedupe_by_markers [of "\<lambda>x. x" xs] by (simp add: dedupe_def)

lemma distinct_dedupe [simp]: "distinct (dedupe xs)"
  using dedupe_by_distinct [of "\<lambda>x. x" xs] by (simp add: dedupe_def)

lemma dedupe_id [simp]: "distinct xs \<Longrightarrow> dedupe xs = xs"
  by (simp add: dedupe_def dedupe_by_def dedupe_loop_id)

lemma dedupe_idem: "dedupe (dedupe xs) = dedupe xs"
  by simp

lemma dedupe_Nil [simp]: "dedupe [] = []"
  by (simp add: dedupe_def dedupe_by_def)

lemma dedupe_eq_Nil [simp]: "dedupe xs = [] \<longleftrightarrow> xs = []"
  by (metis set_dedupe set_empty)

lemma subseq_dedupe: "subseq (dedupe xs) xs"
  by (simp add: dedupe_def dedupe_by_def dedupe_loop_subseq)

lemma sorted_dedupe_loop: "sorted xs \<Longrightarrow> sorted (dedupe_loop (\<lambda>x. x) s xs)"
proof (induction xs arbitrary: s)
  case (Cons x xs)
  have "set (dedupe_loop (\<lambda>x. x) (x # s) xs) \<subseteq> set xs"
    using dedupe_loop_markers [of "\<lambda>x. x" "x # s" xs] by auto
  with Cons show ?case by auto
qed simp

lemma sorted_dedupe: "sorted xs \<Longrightarrow> sorted (dedupe xs)"
  by (simp add: dedupe_def dedupe_by_def sorted_dedupe_loop)

section \<open>Chains and state machines\<close>

text \<open>\<open>xs.index(x)\<close>.\<close>

fun index_of :: "'a list \<Rightarrow> 'a \<Rightarrow> nat option" where
  "index_of [] x = None"
| "index_of (y # ys) x = (if x = y then Some 0 else map_option Suc (index_of ys x))"

lemma index_of_None [simp]: "index_of xs x = None \<longleftrightarrow> x \<notin> set xs"
  by (induction xs) auto

lemma index_of_notin [simp]: "x \<notin> set xs \<Longrightarrow> index_of xs x = None"
  by simp

lemma index_of_in: "x \<in> set xs \<Longrightarrow> \<exists>i. index_of xs x = Some i"
  by (metis index_of_None not_Some_eq)

lemma index_of_Some_in: "index_of xs x = Some i \<Longrightarrow> x \<in> set xs"
  by (metis index_of_None option.distinct(1))

lemma index_of_SomeD: "index_of xs x = Some i \<Longrightarrow> i < length xs \<and> xs ! i = x"
  by (induction xs arbitrary: i) (auto split: if_splits)

lemma index_of_nth: "distinct xs \<Longrightarrow> i < length xs \<Longrightarrow> index_of xs (xs ! i) = Some i"
proof (induction xs arbitrary: i)
  case (Cons a xs)
  then show ?case by (cases i) auto
qed simp

lemma index_of_inj: "index_of xs x = Some i \<Longrightarrow> index_of xs y = Some i \<Longrightarrow> x = y"
  using index_of_SomeD by metis

text \<open>
  A finite chain of distinct names: the order in which a pipeline runs. The position of a
  name is a strict linear order on the members, and what follows a name in the list are
  exactly the members after it.
\<close>

locale chain =
  fixes order :: "'a list"
  assumes distinct_order: "distinct order"
begin

definition before :: "'a \<Rightarrow> 'a \<Rightarrow> bool" where
  "before x y \<longleftrightarrow> (\<exists>i j. index_of order x = Some i \<and> index_of order y = Some j \<and> i < j)"

lemma before_code:
  "before x y \<longleftrightarrow> (case index_of order x of None \<Rightarrow> False | Some i \<Rightarrow>
                   (case index_of order y of None \<Rightarrow> False | Some j \<Rightarrow> i < j))"
  by (auto simp: before_def split: option.splits dest: index_of_Some_in)

lemma before_irrefl: "\<not> before x x"
  by (auto simp: before_def)

lemma before_trans: "before x y \<Longrightarrow> before y z \<Longrightarrow> before x z"
  by (auto simp: before_def)

lemma before_total: "x \<in> set order \<Longrightarrow> y \<in> set order \<Longrightarrow> x \<noteq> y \<Longrightarrow> before x y \<or> before y x"
proof -
  assume "x \<in> set order" "y \<in> set order" "x \<noteq> y"
  then obtain i j where "index_of order x = Some i" "index_of order y = Some j" "i \<noteq> j"
    by (metis index_of_None index_of_inj not_Some_eq)
  then show ?thesis by (auto simp: before_def)
qed

lemma before_members: "before x y \<Longrightarrow> x \<in> set order \<and> y \<in> set order"
  by (metis before_def index_of_None option.distinct(1))

lemma set_drop_order: "set (drop n order) = {y. \<exists>j. index_of order y = Some j \<and> n \<le> j}"
proof (intro equalityI subsetI)
  fix y assume "y \<in> set (drop n order)"
  then obtain k where k: "k < length (drop n order)" "drop n order ! k = y"
    by (auto simp: in_set_conv_nth)
  then have "index_of order y = Some (n + k)"
    using index_of_nth [OF distinct_order, of "n + k"] by simp
  then show "y \<in> {y. \<exists>j. index_of order y = Some j \<and> n \<le> j}" by auto
next
  fix y assume "y \<in> {y. \<exists>j. index_of order y = Some j \<and> n \<le> j}"
  then obtain j where j: "index_of order y = Some j" "n \<le> j" by auto
  then have "j < length order" "order ! j = y" by (auto dest: index_of_SomeD)
  then show "y \<in> set (drop n order)"
    using j by (auto simp: in_set_conv_nth intro!: exI [of _ "j - n"])
qed

lemma after_index: "index_of order x = Some i \<Longrightarrow> set (drop (Suc i) order) = {y. before x y}"
  by (auto simp: set_drop_order before_def Suc_le_eq)

lemma from_index: "index_of order x = Some i \<Longrightarrow> set (drop i order) = insert x {y. before x y}"
proof -
  assume i: "index_of order x = Some i"
  then have "i < length order" "order ! i = x" by (auto dest: index_of_SomeD)
  then have "drop i order = x # drop (Suc i) order" by (metis Cons_nth_drop_Suc)
  with after_index [OF i] show ?thesis by simp
qed

end

text \<open>
  A deterministic machine: a step function on states, an invariant that every enabled step
  keeps, and the runs it has.
\<close>

locale machine =
  fixes step :: "'e \<Rightarrow> 's \<Rightarrow> 's"
    and enabled :: "'e \<Rightarrow> 's \<Rightarrow> bool"
    and inv :: "'s \<Rightarrow> bool"
  assumes step_inv: "inv s \<Longrightarrow> enabled e s \<Longrightarrow> inv (step e s)"
begin

fun run :: "'e list \<Rightarrow> 's \<Rightarrow> 's" where
  "run [] s = s"
| "run (e # es) s = run es (step e s)"

fun enabled_run :: "'e list \<Rightarrow> 's \<Rightarrow> bool" where
  "enabled_run [] s = True"
| "enabled_run (e # es) s = (enabled e s \<and> enabled_run es (step e s))"

lemma run_inv: "inv s \<Longrightarrow> enabled_run es s \<Longrightarrow> inv (run es s)"
  by (induction es arbitrary: s) (auto intro: step_inv)

lemma run_append: "run (es @ fs) s = run fs (run es s)"
  by (induction es arbitrary: s) auto

lemma enabled_run_append:
  "enabled_run (es @ fs) s \<longleftrightarrow> enabled_run es s \<and> enabled_run fs (run es s)"
  by (induction es arbitrary: s) auto

end

end
