(* ===== verification/Files.thy ===== *)
theory Files
  imports Prelude "HOL-Library.Char_ord" "HOL-Library.List_Lexorder"
begin

text \<open>
  The part of the file system the runtime touches: a finite table from absolute,
  normalised paths to files (with their text) and directories, with the operations of
  \<open>os\<close>, \<open>shutil\<close> and \<open>glob\<close> the program calls. Permission errors and partial failures of
  the operating system are not modelled. The interface \<open>key_store\<close> states what any table
  with lookup, store and delete promises; the file table and the Python dict provide it.
\<close>

section \<open>A keyed store\<close>

locale key_store =
  fixes look :: "'m \<Rightarrow> 'k \<Rightarrow> 'v option"
    and put :: "'m \<Rightarrow> 'k \<Rightarrow> 'v \<Rightarrow> 'm"
    and del :: "'m \<Rightarrow> 'k \<Rightarrow> 'm"
  assumes look_put: "look (put m k v) j = (if j = k then Some v else look m j)"
    and look_del: "look (del m k) j = (if j = k then None else look m j)"
begin

definition copy :: "'m \<Rightarrow> 'k \<Rightarrow> 'k \<Rightarrow> 'm option" where
  "copy m src dst = map_option (put m dst) (look m src)"

lemma copy_spec:
  "copy m src dst = Some m' \<Longrightarrow> look m' dst = look m src \<and> (\<forall>j. j \<noteq> dst \<longrightarrow> look m' j = look m j)"
  by (auto simp: copy_def look_put)

lemma look_put_put: "look (put (put m k v) k w) = look (put m k w)"
  by (auto simp: look_put)

fun del_all :: "'m \<Rightarrow> 'k list \<Rightarrow> 'm" where
  "del_all m [] = m"
| "del_all m (k # ks) = del_all (del m k) ks"

lemma look_del_all: "look (del_all m ks) j = (if j \<in> set ks then None else look m j)"
  by (induction ks arbitrary: m) (auto simp: look_del)

end

section \<open>Paths\<close>

text \<open>\<open>os.path.join(a, b)\<close>.\<close>

definition path_join :: "string \<Rightarrow> string \<Rightarrow> string" where
  "path_join a b =
     (if startswith b ''/'' then b
      else if a = [] \<or> endswith a ''/'' then a @ b
      else a @ ''/'' @ b)"

text \<open>\<open>fnmatch\<close> for the wildcards \<open>*\<close> and \<open>?\<close>.\<close>

fun fnmatch :: "string \<Rightarrow> string \<Rightarrow> bool" where
  "fnmatch [] s = (s = [])"
| "fnmatch (c # p) [] = (c = CHR ''*'' \<and> fnmatch p [])"
| "fnmatch (c # p) (d # s) =
     (if c = CHR ''*'' then fnmatch p (d # s) \<or> fnmatch (c # p) s
      else (c = CHR ''?'' \<or> c = d) \<and> fnmatch p s)"

lemma fnmatch_star: "fnmatch [CHR ''*''] s"
  by (induction s) auto

lemma fnmatch_literal_prefix:
  "CHR ''*'' \<notin> set p \<Longrightarrow> CHR ''?'' \<notin> set p \<Longrightarrow> fnmatch (p @ [CHR ''*'']) s \<longleftrightarrow> startswith s p"
proof (induction p arbitrary: s)
  case Nil
  then show ?case by (simp add: fnmatch_star startswith_def)
next
  case (Cons a p)
  then show ?case by (cases s) (auto simp: startswith_def)
qed

section \<open>The file table\<close>

datatype fnode = FDir | FFile string

type_synonym fs = "(string \<times> fnode) list"

definition path_exists :: "fs \<Rightarrow> string \<Rightarrow> bool" where
  "path_exists f p \<longleftrightarrow> map_of f p \<noteq> None"

definition is_dir :: "fs \<Rightarrow> string \<Rightarrow> bool" where
  "is_dir f p \<longleftrightarrow> map_of f p = Some FDir"

definition read_file :: "fs \<Rightarrow> string \<Rightarrow> string option" where
  "read_file f p = (case map_of f p of Some (FFile t) \<Rightarrow> Some t | _ \<Rightarrow> None)"

definition fs_put :: "fs \<Rightarrow> string \<Rightarrow> fnode \<Rightarrow> fs" where
  "fs_put f p n = AList.update p n f"

definition write_file :: "fs \<Rightarrow> string \<Rightarrow> string \<Rightarrow> fs" where
  "write_file f p t = fs_put f p (FFile t)"

definition fs_del :: "fs \<Rightarrow> string \<Rightarrow> fs" where
  "fs_del f p = filter (\<lambda>(q, n). q \<noteq> p) f"

text \<open>Whether \<open>q\<close> is \<open>p\<close> itself or lies below the directory \<open>p\<close>.\<close>

definition below :: "string \<Rightarrow> string \<Rightarrow> bool" where
  "below p q \<longleftrightarrow> q = p \<or> startswith q (p @ ''/'')"

text \<open>\<open>shutil.rmtree(p, ignore_errors=True)\<close>.\<close>

definition rmtree :: "fs \<Rightarrow> string \<Rightarrow> fs" where
  "rmtree f p = filter (\<lambda>(q, n). \<not> below p q) f"

text \<open>\<open>sorted(glob.glob(os.path.join(dir, pattern)))\<close> for a pattern of one path component.\<close>

definition glob_in :: "fs \<Rightarrow> string \<Rightarrow> string \<Rightarrow> string list" where
  "glob_in f d pat =
     sort (remdups (filter (\<lambda>q.
       let b = d @ ''/''; n = drop (length b) q
       in startswith q b \<and> CHR ''/'' \<notin> set n \<and> n \<noteq> [] \<and> hd n \<noteq> CHR ''.'' \<and> fnmatch pat n) (map fst f)))"

text \<open>\<open>os.listdir(d)\<close>, sorted, and \<open>os.path.basename(p)\<close>, \<open>os.path.dirname(p)\<close>.\<close>

definition listdir :: "fs \<Rightarrow> string \<Rightarrow> string list" where
  "listdir f d =
     sort (remdups (filter (\<lambda>n. n \<noteq> [] \<and> CHR ''/'' \<notin> set n)
       (map (drop (length d + 1)) (filter (\<lambda>q. startswith q (d @ ''/'')) (map fst f)))))"

definition basename :: "string \<Rightarrow> string" where
  "basename p = rev (takeWhile (\<lambda>c. c \<noteq> CHR ''/'') (rev p))"

definition dirname :: "string \<Rightarrow> string" where
  "dirname p =
     (let h = rev (dropWhile (\<lambda>c. c \<noteq> CHR ''/'') (rev p));
          t = rev (dropWhile (\<lambda>c. c = CHR ''/'') (rev h))
      in if t = [] then h else t)"

text \<open>\<open>os.makedirs(d, exist_ok=True)\<close> for an absolute path none of whose parts is a file.\<close>

definition makedirs :: "fs \<Rightarrow> string \<Rightarrow> fs" where
  "makedirs f d =
     fold (\<lambda>p f. if path_exists f p then f else fs_put f p FDir)
       (map (\<lambda>i. take i d) (filter (\<lambda>i. 0 < i \<and> (i = length d \<or> d ! i = CHR ''/'')) [0..<length d + 1])) f"

text \<open>\<open>Path(p).touch()\<close>.\<close>

definition touch :: "fs \<Rightarrow> string \<Rightarrow> fs" where
  "touch f p = (if path_exists f p then f else write_file f p [])"

text \<open>\<open>os.path.getsize(p)\<close>, where \<open>p\<close> exists: a directory has a positive size.\<close>

definition file_size :: "fs \<Rightarrow> string \<Rightarrow> nat" where
  "file_size f p = (case map_of f p of Some (FFile t) \<Rightarrow> length t | Some FDir \<Rightarrow> 4096 | None \<Rightarrow> 0)"

lemma map_of_filter_keys: "map_of (filter (\<lambda>(q, n). P q) f) p = (if P p then map_of f p else None)"
  by (induction f) auto

lemma map_of_fs_put [simp]: "map_of (fs_put f p n) = (map_of f)(p \<mapsto> n)"
  by (simp add: fs_put_def update_conv')

lemma map_of_write_file [simp]: "map_of (write_file f p t) = (map_of f)(p \<mapsto> FFile t)"
  by (simp add: write_file_def)

lemma map_of_fs_del: "map_of (fs_del f p) q = (if q = p then None else map_of f q)"
  by (simp add: fs_del_def map_of_filter_keys)

lemma map_of_rmtree: "map_of (rmtree f p) q = (if below p q then None else map_of f q)"
  by (simp add: rmtree_def map_of_filter_keys)

lemma read_write_file [simp]: "read_file (write_file f p t) q = (if q = p then Some t else read_file f q)"
  by (simp add: read_file_def)

lemma exists_write_file [simp]: "path_exists (write_file f p t) q \<longleftrightarrow> q = p \<or> path_exists f q"
  by (simp add: path_exists_def)

lemma below_refl [simp]: "below p p"
  by (simp add: below_def)

lemma glob_in_exists: "q \<in> set (glob_in f d pat) \<Longrightarrow> path_exists f q"
  by (auto simp: glob_in_def path_exists_def Let_def map_of_eq_None_iff)

lemma startswith_iff: "startswith q b \<longleftrightarrow> (\<exists>n. q = b @ n)"
  by (metis append_take_drop_id startswith_append startswith_def)

lemma set_listdir: "set (listdir f d) = {n. path_exists f (d @ ''/'' @ n) \<and> n \<noteq> [] \<and> CHR ''/'' \<notin> set n}"
proof -
  have e: "path_exists f q \<longleftrightarrow> q \<in> fst ` set f" for q
    by (metis path_exists_def map_of_eq_None_iff)
  show ?thesis
    unfolding listdir_def by (force simp: startswith_iff e image_iff)
qed

lemma map_of_touch: "map_of (touch f p) q = (if q = p \<and> map_of f p = None then Some (FFile []) else map_of f q)"
  by (simp add: touch_def path_exists_def)

lemma set_glob_in:
  "set (glob_in f d pat) = {q. path_exists f q \<and> (\<exists>n. q = d @ ''/'' @ n \<and> CHR ''/'' \<notin> set n \<and>
     n \<noteq> [] \<and> hd n \<noteq> CHR ''.'' \<and> fnmatch pat n)}"
proof -
  have e: "path_exists f q \<longleftrightarrow> q \<in> fst ` set f" for q
    by (metis path_exists_def map_of_eq_None_iff)
  have s: "startswith q b \<longleftrightarrow> (\<exists>n. q = b @ n)" for q b :: string
    by (metis append_take_drop_id startswith_append startswith_def)
  show ?thesis
    unfolding glob_in_def Let_def by (auto simp: s e)
qed

interpretation files: key_store map_of fs_put fs_del
  by unfold_locales (auto simp: map_of_fs_del)

interpretation dicts: key_store "map_of :: dict \<Rightarrow> string \<Rightarrow> py option" dset "\<lambda>d k. AList.delete k d"
  by unfold_locales (auto simp: delete_conv')

end
