(* ===== verification/Stage_Contracts.thy ===== *)
theory Stage_Contracts
  imports Files
begin

text \<open>
  mobility_agent/graph/stage_contracts.py: the order of the stages, the contract of each
  stage, the resolution of a manual-fix request into a resume stage with a cleanup policy,
  and the preview of what a cleanup would remove. Stage names, policies and strategies are
  strings, as in the code, which checks them at run time: the interactive callers pass what
  the user typed. A Literal-typed pydantic field that gets another value raises
  \<open>ValidationError\<close>. Work directories are absolute and normalised, so \<open>abspath\<close> of a path
  below them is the path itself, and contain no wildcard.
\<close>

section \<open>The stages and their contracts\<close>

definition STAGE_ORDER :: "string list" where
  "STAGE_ORDER =
     [''prepare'', ''relax'', ''scf'', ''band'', ''effective_mass'', ''strain_loop'',
      ''refinement'', ''mobility'', ''validation'', ''report'']"

definition cleanup_policy_names :: "string list" where
  "cleanup_policy_names = [''retry_current_stage_only'', ''invalidate_downstream'', ''restart_from_stage'']"

definition modification_types :: "string list" where
  "modification_types = [''INCAR'', ''KPOINTS'', ''POSCAR'', ''multiple'', ''custom'']"

definition resume_strategy_names :: "string list" where
  "resume_strategy_names =
     [''default_rule'', ''retry_current_stage'', ''rerun_previous_stage'', ''rerun_from_relax'', ''custom_stage'']"

record StageContract =
  sc_stage :: string
  sc_required_inputs :: "string list"
  sc_canonical_outputs :: "string list"
  sc_failure_outputs :: "string list"
  sc_retryable :: bool
  sc_invalidates_downstream :: "string list"
  sc_artifact_patterns :: "string list"

record CleanupPreview =
  cp_cleanup_policy :: string
  cp_resume_stage :: string
  cp_invalidated_stages :: "string list"
  cp_invalidated_artifacts :: "string list"
  cp_warnings :: "string list"

record ResumeRuleContract =
  rr_modified_files :: "string list"
  rr_modification_type :: string
  rr_requested_resume_strategy :: string
  rr_resume_stage :: string
  rr_cleanup_policy :: string
  rr_invalidated_stages :: "string list"
  rr_warnings :: "string list"

record manual_fix_default =
  md_modified_files :: "string list"
  md_requested_resume_strategy :: string
  md_resume_stage_ref :: string
  md_cleanup_policy :: string
  md_warnings :: "string list"

definition MANUAL_FIX_DEFAULTS :: "(string \<times> manual_fix_default) list" where
  "MANUAL_FIX_DEFAULTS =
     [(''INCAR'', \<lparr>md_modified_files = [''INCAR''], md_requested_resume_strategy = ''default_rule'',
         md_resume_stage_ref = ''current'', md_cleanup_policy = ''retry_current_stage_only'', md_warnings = []\<rparr>),
      (''KPOINTS'', \<lparr>md_modified_files = [''KPOINTS''], md_requested_resume_strategy = ''default_rule'',
         md_resume_stage_ref = ''scf'', md_cleanup_policy = ''invalidate_downstream'', md_warnings = []\<rparr>),
      (''POSCAR'', \<lparr>md_modified_files = [''POSCAR''], md_requested_resume_strategy = ''default_rule'',
         md_resume_stage_ref = ''relax'', md_cleanup_policy = ''restart_from_stage'', md_warnings = []\<rparr>),
      (''multiple'', \<lparr>md_modified_files = [], md_requested_resume_strategy = ''default_rule'',
         md_resume_stage_ref = ''relax'', md_cleanup_policy = ''restart_from_stage'',
         md_warnings = [''explicit_confirmation_required_for_multiple_files'']\<rparr>),
      (''custom'', \<lparr>md_modified_files = [], md_requested_resume_strategy = ''default_rule'',
         md_resume_stage_ref = ''current'', md_cleanup_policy = ''retry_current_stage_only'', md_warnings = []\<rparr>)]"

definition downstream_from :: "string \<Rightarrow> string list" where
  "downstream_from stage =
     (case index_of STAGE_ORDER stage of None \<Rightarrow> [] | Some idx \<Rightarrow> drop (idx + 1) STAGE_ORDER)"

definition STAGE_CONTRACTS :: "(string \<times> StageContract) list" where
  "STAGE_CONTRACTS =
     [(''prepare'', \<lparr>sc_stage = ''prepare'',
         sc_required_inputs = [''task.root_path'', ''material.poscar_path'', ''material.potcar_path''],
         sc_canonical_outputs = [''execution.workdir'', ''material.structure_summary'', ''material.preflight_summary'',
            ''execution.environment_summary''],
         sc_failure_outputs = [''diagnostics.last_error'', ''diagnostics.raw_evidence.prepare''],
         sc_retryable = True, sc_invalidates_downstream = downstream_from ''prepare'',
         sc_artifact_patterns = []\<rparr>),
      (''relax'', \<lparr>sc_stage = ''relax'',
         sc_required_inputs = [''execution.workdir'', ''material.poscar_path'', ''material.potcar_path''],
         sc_canonical_outputs = [''physics_results.relaxed_structure_path'', ''physics_results.reciprocal_lattice'',
            ''physics_results.relax_summary''],
         sc_failure_outputs = [''diagnostics.recovery_summary'', ''diagnostics.raw_evidence.relax''],
         sc_retryable = True,
         sc_invalidates_downstream = [''scf'', ''band'', ''effective_mass'', ''strain_loop'', ''mobility'',
            ''validation'', ''report''],
         sc_artifact_patterns = [''01_relax'']\<rparr>),
      (''scf'', \<lparr>sc_stage = ''scf'',
         sc_required_inputs = [''physics_results.relaxed_structure_path'', ''material.potcar_path''],
         sc_canonical_outputs = [''physics_results.fermi_energy'', ''execution.artifact_paths.CHGCAR'',
            ''physics_results.scf_summary''],
         sc_failure_outputs = [''diagnostics.last_error'', ''diagnostics.raw_evidence.scf''],
         sc_retryable = True,
         sc_invalidates_downstream = [''band'', ''effective_mass'', ''strain_loop'', ''mobility'', ''validation'', ''report''],
         sc_artifact_patterns = [''02_scf'']\<rparr>),
      (''band'', \<lparr>sc_stage = ''band'',
         sc_required_inputs = [''physics_results.relaxed_structure_path'', ''material.potcar_path''],
         sc_canonical_outputs = [''physics_results.band_summary'', ''physics_results.vbm_energy'', ''physics_results.cbm_energy''],
         sc_failure_outputs = [''diagnostics.last_error'', ''diagnostics.raw_evidence.band''],
         sc_retryable = True,
         sc_invalidates_downstream = [''effective_mass'', ''mobility'', ''validation'', ''report''],
         sc_artifact_patterns = [''03_band'']\<rparr>),
      (''effective_mass'', \<lparr>sc_stage = ''effective_mass'',
         sc_required_inputs = [''physics_results.band_summary'', ''physics_results.reciprocal_lattice''],
         sc_canonical_outputs = [''physics_results.masses'', ''physics_results.effective_mass_summary''],
         sc_failure_outputs = [''diagnostics.last_error'', ''diagnostics.raw_evidence.effective_mass''],
         sc_retryable = True,
         sc_invalidates_downstream = [''mobility'', ''validation'', ''report''],
         sc_artifact_patterns = [''04_effmass_*'']\<rparr>),
      (''strain_loop'', \<lparr>sc_stage = ''strain_loop'',
         sc_required_inputs = [''physics_results.relaxed_structure_path'', ''material.potcar_path''],
         sc_canonical_outputs = [''physics_results.strain_data'', ''diagnostics.strain_summary''],
         sc_failure_outputs = [''diagnostics.last_error'', ''diagnostics.raw_evidence.strain_loop''],
         sc_retryable = True,
         sc_invalidates_downstream = [''mobility'', ''validation'', ''report''],
         sc_artifact_patterns = [''05_strain'']\<rparr>),
      (''refinement'', \<lparr>sc_stage = ''refinement'',
         sc_required_inputs = [''diagnostics.strain_summary'', ''workflow.refinement_rounds''],
         sc_canonical_outputs = [''workflow.refinement_rounds'', ''physics_results.accepted_channels'',
            ''physics_results.rejected_channels''],
         sc_failure_outputs = [''diagnostics.consultation_trace''],
         sc_retryable = False,
         sc_invalidates_downstream = [''mobility'', ''validation'', ''report''],
         sc_artifact_patterns = []\<rparr>),
      (''mobility'', \<lparr>sc_stage = ''mobility'',
         sc_required_inputs = [''physics_results.strain_data'', ''physics_results.masses''],
         sc_canonical_outputs = [''physics_results.mobility'', ''physics_results.E1'', ''physics_results.C2D'',
            ''physics_results.mobility_summary'', ''diagnostics.fit_diagnostics''],
         sc_failure_outputs = [''diagnostics.last_error'', ''diagnostics.raw_evidence.mobility''],
         sc_retryable = True,
         sc_invalidates_downstream = [''validation'', ''report''],
         sc_artifact_patterns = [''mobility_results.json'', ''fit_diagnostics.json'', ''decision_trace.json'',
            ''tool_trace.json'', ''recovery_trace.json'', ''validation_report.json'', ''final_summary.json'',
            ''strain_data.csv'', ''strain_status.csv'', ''material_outcome.json'']\<rparr>),
      (''validation'', \<lparr>sc_stage = ''validation'',
         sc_required_inputs = [''physics_results.mobility'', ''diagnostics.fit_diagnostics''],
         sc_canonical_outputs = [''diagnostics.validation_report'', ''diagnostics.confidence_score''],
         sc_failure_outputs = [''diagnostics.validation_report''],
         sc_retryable = False,
         sc_invalidates_downstream = [''report''],
         sc_artifact_patterns = [''validation_report.json'', ''final_summary.json'', ''material_outcome.json'']\<rparr>),
      (''report'', \<lparr>sc_stage = ''report'',
         sc_required_inputs = [''diagnostics.validation_report'', ''execution.artifact_paths''],
         sc_canonical_outputs = [''execution.artifact_paths.final_summary_path''],
         sc_failure_outputs = [''diagnostics.last_error'', ''diagnostics.raw_evidence.report''],
         sc_retryable = False,
         sc_invalidates_downstream = [],
         sc_artifact_patterns = [''final_summary.json'', ''material_outcome.json'']\<rparr>)]"

definition get_stage_contract :: "string \<Rightarrow> StageContract res" where
  "get_stage_contract stage =
     (case map_of STAGE_CONTRACTS stage of
        None \<Rightarrow> Inl (KeyError (''unknown_stage_contract:'' @ stage))
      | Some c \<Rightarrow> Inr c)"

text \<open>\<open>STAGE_ORDER.index(left) < STAGE_ORDER.index(right)\<close>: a name that is no stage raises.\<close>

definition stage_index :: "string \<Rightarrow> nat res" where
  "stage_index stage =
     (case index_of STAGE_ORDER stage of None \<Rightarrow> Inl (ValueError stage) | Some i \<Rightarrow> Inr i)"

definition stage_before :: "string \<Rightarrow> string \<Rightarrow> bool res" where
  "stage_before left right =
     bindR (stage_index left) (\<lambda>l. bindR (stage_index right) (\<lambda>r. Inr (l < r)))"

definition downstream_stages :: "string \<Rightarrow> string list res" where
  "downstream_stages stage =
     bindR (get_stage_contract stage) (\<lambda>c. Inr (sc_invalidates_downstream c))"

definition find_previous_stage :: "string \<Rightarrow> string option" where
  "find_previous_stage stage =
     (case index_of STAGE_ORDER stage of
        None \<Rightarrow> None
      | Some idx \<Rightarrow> if idx = 0 then None else Some (STAGE_ORDER ! (idx - 1)))"

definition validate_stage_name :: "string \<Rightarrow> string res" where
  "validate_stage_name stage =
     (if map_of STAGE_CONTRACTS stage = None
      then Inl (ManualFixValidationError (''invalid_resume_stage:'' @ stage))
      else Inr stage)"

section \<open>Resolving a manual-fix request\<close>

definition default_cleanup_policy_for_resume_stage :: "string \<Rightarrow> string \<Rightarrow> string res" where
  "default_cleanup_policy_for_resume_stage current_stage resume_stage =
     bindR (validate_stage_name current_stage) (\<lambda>current.
     bindR (validate_stage_name resume_stage) (\<lambda>target.
       Inr (if target = current then ''retry_current_stage_only''
            else if target = ''relax'' then ''restart_from_stage''
            else ''invalidate_downstream'')))"

definition resolve_stage_reference :: "string \<Rightarrow> string \<Rightarrow> (string \<times> string list) res" where
  "resolve_stage_reference current_stage stage_ref =
     (if stage_ref = ''current'' then
        bindR (validate_stage_name current_stage) (\<lambda>s. Inr (s, []))
      else if stage_ref = ''previous'' then
        (case find_previous_stage current_stage of
           None \<Rightarrow> bindR (validate_stage_name current_stage)
                     (\<lambda>s. Inr (s, [''no_previous_stage_available_using_current_stage'']))
         | Some previous \<Rightarrow> Inr (previous, []))
      else bindR (validate_stage_name stage_ref) (\<lambda>s. Inr (s, [])))"

definition invalidated_stages_for :: "string \<Rightarrow> string \<Rightarrow> string list res" where
  "invalidated_stages_for resume_stage cleanup_policy =
     bindR (validate_stage_name resume_stage) (\<lambda>stage_name.
       if cleanup_policy = ''retry_current_stage_only'' then Inr [stage_name]
       else if cleanup_policy = ''invalidate_downstream'' then downstream_stages stage_name
       else bindR (downstream_stages stage_name) (\<lambda>ds. Inr ([stage_name] @ ds)))"

definition validate_resume_request :: "string \<Rightarrow> string \<Rightarrow> string \<Rightarrow> string res" where
  "validate_resume_request current_stage resume_stage cleanup_policy =
     bindR (validate_stage_name current_stage) (\<lambda>current.
     bindR (validate_stage_name resume_stage) (\<lambda>target.
     bindR (stage_index target) (\<lambda>t.
     bindR (stage_index current) (\<lambda>c.
       if t > c then
         Inl (ManualFixValidationError (''incompatible_resume_stage:'' @ target @ '':after_current_stage:'' @ current))
       else if cleanup_policy = ''retry_current_stage_only'' \<and> target \<noteq> current then
         Inl (ManualFixValidationError (''incompatible_cleanup_policy:'' @ cleanup_policy
               @ '':requires_current_stage:'' @ current @ '':got:'' @ target))
       else if cleanup_policy = ''invalidate_downstream'' \<and> target = current then
         Inl (ManualFixValidationError (''incompatible_cleanup_policy:'' @ cleanup_policy
               @ '':requires_restart_before_current_stage:'' @ current))
       else Inr target))))"

definition manual_fix_defaults_for :: "string \<Rightarrow> manual_fix_default" where
  "manual_fix_defaults_for modification_type =
     (case map_of MANUAL_FIX_DEFAULTS modification_type of
        Some d \<Rightarrow> d
      | None \<Rightarrow> the (map_of MANUAL_FIX_DEFAULTS ''custom''))"

text \<open>The pydantic constructor: the three Literal fields are checked.\<close>

definition make_resume_rule ::
  "string list \<Rightarrow> string \<Rightarrow> string \<Rightarrow> string \<Rightarrow> string \<Rightarrow> string list \<Rightarrow> string list \<Rightarrow> ResumeRuleContract res" where
  "make_resume_rule modified_files modification_type requested stage_name cleanup_policy invalidated warnings =
     (if modification_type \<notin> set modification_types then Inl (ValidationError ''modification_type'')
      else if requested \<notin> set resume_strategy_names then Inl (ValidationError ''requested_resume_strategy'')
      else if cleanup_policy \<notin> set cleanup_policy_names then Inl (ValidationError ''cleanup_policy'')
      else Inr \<lparr>rr_modified_files = modified_files, rr_modification_type = modification_type,
                rr_requested_resume_strategy = requested, rr_resume_stage = stage_name,
                rr_cleanup_policy = cleanup_policy, rr_invalidated_stages = invalidated,
                rr_warnings = warnings\<rparr>)"

text \<open>The branch taken for the requested strategy: stage, cleanup policy and warnings.\<close>

definition resolve_strategy ::
  "string \<Rightarrow> string \<Rightarrow> manual_fix_default \<Rightarrow> string option \<Rightarrow> string option
     \<Rightarrow> (string \<times> string \<times> string list) res" where
  "resolve_strategy current requested defaults selected_resume_stage selected_cleanup_policy =
     (let warnings = md_warnings defaults in
      if requested = ''default_rule'' then
        bindR (resolve_stage_reference current (str_or (Some (md_resume_stage_ref defaults)) ''current''))
          (\<lambda>(stage_name, stage_warnings).
            if md_cleanup_policy defaults \<noteq> [] then
              Inr (stage_name, md_cleanup_policy defaults, warnings @ stage_warnings)
            else bindR (default_cleanup_policy_for_resume_stage current stage_name) (\<lambda>p.
              Inr (stage_name, p, warnings @ stage_warnings)))
      else if requested = ''retry_current_stage'' then
        Inr (current, str_or selected_cleanup_policy ''retry_current_stage_only'', warnings)
      else if requested = ''rerun_previous_stage'' then
        bindR (resolve_stage_reference current ''previous'') (\<lambda>(stage_name, stage_warnings).
          if str_or selected_cleanup_policy [] \<noteq> [] then
            Inr (stage_name, str_or selected_cleanup_policy [], warnings @ stage_warnings)
          else bindR (default_cleanup_policy_for_resume_stage current stage_name) (\<lambda>p.
            Inr (stage_name, p, warnings @ stage_warnings)))
      else if requested = ''rerun_from_relax'' then
        Inr (''relax'', str_or selected_cleanup_policy ''restart_from_stage'', warnings)
      else if requested = ''custom_stage'' then
        (if py_strip (str_or selected_resume_stage []) = [] then
           Inl (ManualFixValidationError ''custom_stage_requires_resume_stage'')
         else
           bindR (validate_stage_name (str_or selected_resume_stage [])) (\<lambda>stage_name.
             if str_or selected_cleanup_policy [] \<noteq> [] then
               Inr (stage_name, str_or selected_cleanup_policy [], warnings)
             else bindR (default_cleanup_policy_for_resume_stage current stage_name) (\<lambda>p.
               Inr (stage_name, p, warnings))))
      else Inl (ManualFixValidationError (''invalid_requested_resume_strategy:'' @ requested)))"

definition resolve_resume_contract ::
  "string \<Rightarrow> string \<Rightarrow> string option \<Rightarrow> string option \<Rightarrow> string option \<Rightarrow> string list option
     \<Rightarrow> ResumeRuleContract res" where
  "resolve_resume_contract current_stage modification_type requested_resume_strategy
       selected_resume_stage selected_cleanup_policy modified_files =
     bindR (validate_stage_name current_stage) (\<lambda>current.
     let defaults = manual_fix_defaults_for modification_type;
         requested = str_or requested_resume_strategy
                       (str_or (Some (md_requested_resume_strategy defaults)) ''default_rule'')
     in
     bindR (resolve_strategy current requested defaults selected_resume_stage selected_cleanup_policy)
       (\<lambda>(stage_name, cleanup_policy, warnings).
     bindR (validate_resume_request current stage_name cleanup_policy) (\<lambda>_.
     bindR (invalidated_stages_for stage_name cleanup_policy) (\<lambda>invalidated.
       make_resume_rule
         (case modified_files of
            Some (f # fs) \<Rightarrow> f # fs
          | _ \<Rightarrow> md_modified_files defaults)
         modification_type requested stage_name cleanup_policy invalidated (dedupe warnings)))))"

section \<open>What a cleanup removes\<close>

definition stage_artifacts :: "fs \<Rightarrow> string \<Rightarrow> string \<Rightarrow> string list res" where
  "stage_artifacts f workdir stage =
     bindR (get_stage_contract stage) (\<lambda>c.
       Inr (filter (path_exists f)
         (concat (map (\<lambda>pattern.
            if CHR ''*'' \<in> set pattern then glob_in f workdir pattern
            else [path_join workdir pattern]) (sc_artifact_patterns c)))))"

definition build_cleanup_preview :: "fs \<Rightarrow> string \<Rightarrow> string \<Rightarrow> string \<Rightarrow> CleanupPreview res" where
  "build_cleanup_preview f workdir resume_stage cleanup_policy =
     bindR (invalidated_stages_for resume_stage cleanup_policy) (\<lambda>invalidated_stages.
     bindR (mapR (stage_artifacts f workdir) invalidated_stages) (\<lambda>arts.
       let invalidated_artifacts = concat arts;
           warnings =
             (if invalidated_stages = [] then [''no_stage_invalidation''] else [])
             @ (if invalidated_stages \<noteq> [] \<and> invalidated_artifacts = [] then [''no_matching_artifacts_found''] else [])
       in if cleanup_policy \<notin> set cleanup_policy_names then Inl (ValidationError ''cleanup_policy'')
          else Inr \<lparr>cp_cleanup_policy = cleanup_policy, cp_resume_stage = resume_stage,
                    cp_invalidated_stages = invalidated_stages,
                    cp_invalidated_artifacts = sort (remdups invalidated_artifacts),
                    cp_warnings = warnings\<rparr>))"

section \<open>The chain of stages\<close>

interpretation stages: chain STAGE_ORDER
  by unfold_locales (simp add: STAGE_ORDER_def)

lemma contract_keys: "map fst STAGE_CONTRACTS = STAGE_ORDER"
  by (simp add: STAGE_CONTRACTS_def STAGE_ORDER_def)

lemma contract_None [simp]: "map_of STAGE_CONTRACTS s = None \<longleftrightarrow> s \<notin> set STAGE_ORDER"
  by (metis contract_keys map_of_eq_None_iff set_map)

lemma validate_stage_name_Inr [simp]:
  "validate_stage_name s = Inr t \<longleftrightarrow> t = s \<and> s \<in> set STAGE_ORDER"
  by (auto simp: validate_stage_name_def)

lemma validate_stage_name_ok: "s \<in> set STAGE_ORDER \<Longrightarrow> validate_stage_name s = Inr s"
  by simp

lemma stage_index_Inr [simp]: "stage_index s = Inr i \<longleftrightarrow> index_of STAGE_ORDER s = Some i"
  by (auto simp: stage_index_def split: option.splits dest: index_of_Some_in)

lemma stage_before_iff: "stage_before l r = Inr b \<longleftrightarrow>
  l \<in> set STAGE_ORDER \<and> r \<in> set STAGE_ORDER \<and> b = stages.before l r"
proof -
  have "(\<exists>i. index_of STAGE_ORDER x = Some i) \<longleftrightarrow> x \<in> set STAGE_ORDER" for x
    by (metis index_of_None not_Some_eq)
  then show ?thesis
    by (auto simp: stage_before_def stages.before_code split: option.splits)
qed

lemma stage_before_True [simp]: "stage_before l r = Inr True \<longleftrightarrow> stages.before l r"
  using stages.before_members by (auto simp: stage_before_iff)

text \<open>The position of each stage, and the downstream lists, one equation per stage.\<close>

lemma stage_rank [simp]:
  "index_of STAGE_ORDER ''prepare'' = Some 0" "index_of STAGE_ORDER ''relax'' = Some 1"
  "index_of STAGE_ORDER ''scf'' = Some 2" "index_of STAGE_ORDER ''band'' = Some 3"
  "index_of STAGE_ORDER ''effective_mass'' = Some 4" "index_of STAGE_ORDER ''strain_loop'' = Some 5"
  "index_of STAGE_ORDER ''refinement'' = Some 6" "index_of STAGE_ORDER ''mobility'' = Some 7"
  "index_of STAGE_ORDER ''validation'' = Some 8" "index_of STAGE_ORDER ''report'' = Some 9"
  by (simp_all add: STAGE_ORDER_def)

lemma downstream_table:
  "downstream_stages ''prepare'' = Inr [''relax'', ''scf'', ''band'', ''effective_mass'', ''strain_loop'',
      ''refinement'', ''mobility'', ''validation'', ''report'']"
  "downstream_stages ''relax'' = Inr [''scf'', ''band'', ''effective_mass'', ''strain_loop'', ''mobility'',
      ''validation'', ''report'']"
  "downstream_stages ''scf'' = Inr [''band'', ''effective_mass'', ''strain_loop'', ''mobility'', ''validation'', ''report'']"
  "downstream_stages ''band'' = Inr [''effective_mass'', ''mobility'', ''validation'', ''report'']"
  "downstream_stages ''effective_mass'' = Inr [''mobility'', ''validation'', ''report'']"
  "downstream_stages ''strain_loop'' = Inr [''mobility'', ''validation'', ''report'']"
  "downstream_stages ''refinement'' = Inr [''mobility'', ''validation'', ''report'']"
  "downstream_stages ''mobility'' = Inr [''validation'', ''report'']"
  "downstream_stages ''validation'' = Inr [''report'']"
  "downstream_stages ''report'' = Inr []"
  by (simp_all add: downstream_stages_def get_stage_contract_def STAGE_CONTRACTS_def downstream_from_def STAGE_ORDER_def)

lemma stage_cases [consumes 1]:
  assumes "s \<in> set STAGE_ORDER"
  obtains "s = ''prepare''" | "s = ''relax''" | "s = ''scf''" | "s = ''band''" | "s = ''effective_mass''"
    | "s = ''strain_loop''" | "s = ''refinement''" | "s = ''mobility''" | "s = ''validation''" | "s = ''report''"
  using assms unfolding STAGE_ORDER_def list.set by (elim insertE emptyE) (erule that)+

lemma downstream_ok: "s \<in> set STAGE_ORDER \<Longrightarrow> \<exists>ds. downstream_stages s = Inr ds"
  by (erule stage_cases) (simp_all add: downstream_table)

lemma downstream_known: "downstream_stages s = Inr ds \<Longrightarrow> s \<in> set STAGE_ORDER"
  by (auto simp: downstream_stages_def get_stage_contract_def split: option.splits)
    (metis contract_None option.distinct(1))

lemma downstream_later: "downstream_stages s = Inr ds \<Longrightarrow> t \<in> set ds \<Longrightarrow> stages.before s t"
proof -
  assume d: "downstream_stages s = Inr ds" and t: "t \<in> set ds"
  from downstream_known [OF d] d t show ?thesis
    by (elim stage_cases) (auto simp: downstream_table stages.before_code)
qed

lemma invalidated_later:
  "invalidated_stages_for r p = Inr iv \<Longrightarrow> t \<in> set iv \<Longrightarrow> t = r \<or> stages.before r t"
  by (auto simp: invalidated_stages_for_def downstream_later split: if_splits)

lemma invalidated_total: "r \<in> set STAGE_ORDER \<Longrightarrow> \<exists>iv. invalidated_stages_for r p = Inr iv"
  using downstream_ok by (auto simp: invalidated_stages_for_def)

lemma validate_resume_request_iff:
  "validate_resume_request c r p = Inr t \<longleftrightarrow>
     t = r \<and> c \<in> set STAGE_ORDER \<and> r \<in> set STAGE_ORDER \<and> \<not> stages.before c r
     \<and> (p = ''retry_current_stage_only'' \<longrightarrow> r = c) \<and> (p = ''invalidate_downstream'' \<longrightarrow> r \<noteq> c)"
proof -
  have ix: "x \<in> set STAGE_ORDER \<Longrightarrow> \<exists>i. index_of STAGE_ORDER x = Some i" for x
    by (metis index_of_None not_Some_eq)
  show ?thesis
    by (auto simp: validate_resume_request_def stages.before_code not_less dest!: ix
        dest: index_of_Some_in split: if_splits option.splits)
qed

lemma resolve_resume_contract_Inr:
  assumes "resolve_resume_contract c mt req srs scp mf = Inr r"
  shows "validate_resume_request c (rr_resume_stage r) (rr_cleanup_policy r) = Inr (rr_resume_stage r)"
    and "invalidated_stages_for (rr_resume_stage r) (rr_cleanup_policy r) = Inr (rr_invalidated_stages r)"
    and "rr_cleanup_policy r \<in> set cleanup_policy_names"
    and "rr_modification_type r = mt"
    and "distinct (rr_warnings r)"
  using assms
  by (auto simp: resolve_resume_contract_def make_resume_rule_def validate_resume_request_iff Let_def split: if_splits)

section \<open>Resolving the default rules\<close>

lemma retry_current_ok:
  assumes "c \<in> set STAGE_ORDER" "mt \<in> set modification_types"
  shows "\<exists>r. resolve_resume_contract c mt (Some ''retry_current_stage'') None None None = Inr r
           \<and> rr_resume_stage r = c \<and> rr_cleanup_policy r = ''retry_current_stage_only''
           \<and> rr_invalidated_stages r = [c]"
  using assms
  by (simp add: resolve_resume_contract_def resolve_strategy_def invalidated_stages_for_def validate_stage_name_ok
        validate_resume_request_iff stages.before_irrefl make_resume_rule_def resume_strategy_names_def
        cleanup_policy_names_def Let_def)

lemma defaults_table:
  "md_cleanup_policy (manual_fix_defaults_for ''INCAR'') = ''retry_current_stage_only''"
  "md_resume_stage_ref (manual_fix_defaults_for ''INCAR'') = ''current''"
  "md_cleanup_policy (manual_fix_defaults_for ''custom'') = ''retry_current_stage_only''"
  "md_resume_stage_ref (manual_fix_defaults_for ''custom'') = ''current''"
  "md_cleanup_policy (manual_fix_defaults_for ''KPOINTS'') = ''invalidate_downstream''"
  "md_resume_stage_ref (manual_fix_defaults_for ''KPOINTS'') = ''scf''"
  "md_cleanup_policy (manual_fix_defaults_for ''POSCAR'') = ''restart_from_stage''"
  "md_resume_stage_ref (manual_fix_defaults_for ''POSCAR'') = ''relax''"
  "md_cleanup_policy (manual_fix_defaults_for ''multiple'') = ''restart_from_stage''"
  "md_resume_stage_ref (manual_fix_defaults_for ''multiple'') = ''relax''"
  by (simp_all add: manual_fix_defaults_for_def MANUAL_FIX_DEFAULTS_def)

lemma defaults_nonempty:
  "mt \<in> set modification_types \<Longrightarrow> md_cleanup_policy (manual_fix_defaults_for mt) \<in> set cleanup_policy_names"
  by (auto simp: modification_types_def defaults_table cleanup_policy_names_def)

text \<open>
  Under the default rule the request succeeds exactly when the table's stage and policy
  pass the validation at the current stage.
\<close>

lemma default_rule_Inr:
  assumes c: "c \<in> set STAGE_ORDER" and mt: "mt \<in> set modification_types"
    and ref: "resolve_stage_reference c (md_resume_stage_ref (manual_fix_defaults_for mt)) = Inr (s, w)"
    and ne: "md_resume_stage_ref (manual_fix_defaults_for mt) \<noteq> []"
  shows "(\<exists>r. resolve_resume_contract c mt (Some ''default_rule'') None None None = Inr r) \<longleftrightarrow>
         validate_resume_request c s (md_cleanup_policy (manual_fix_defaults_for mt)) = Inr s"
proof -
  let ?p = "md_cleanup_policy (manual_fix_defaults_for mt)"
  have p: "?p \<in> set cleanup_policy_names" using mt by (rule defaults_nonempty)
  then have "?p \<noteq> []" by (auto simp: cleanup_policy_names_def)
  then have strat: "resolve_strategy c ''default_rule'' (manual_fix_defaults_for mt) None None
      = Inr (s, ?p, md_warnings (manual_fix_defaults_for mt) @ w)"
    using ref ne by (simp add: resolve_strategy_def Let_def)
  show ?thesis
  proof
    assume "\<exists>r. resolve_resume_contract c mt (Some ''default_rule'') None None None = Inr r"
    then show "validate_resume_request c s ?p = Inr s"
      using c strat by (auto simp: resolve_resume_contract_def validate_stage_name_ok validate_resume_request_iff Let_def)
  next
    assume v: "validate_resume_request c s ?p = Inr s"
    then have "s \<in> set STAGE_ORDER" by (simp add: validate_resume_request_iff)
    then obtain iv where "invalidated_stages_for s ?p = Inr iv" using invalidated_total by blast
    with v c strat p mt show "\<exists>r. resolve_resume_contract c mt (Some ''default_rule'') None None None = Inr r"
      by (simp add: resolve_resume_contract_def validate_stage_name_ok make_resume_rule_def
            resume_strategy_names_def Let_def)
  qed
qed

section \<open>Properties\<close>

text \<open>C15: Whatever the user asks for, a resolved manual-fix request resumes at a known stage that is
  not after the current one, its cleanup policy fits that stage (retrying only the current
  stage, invalidating downstream only from an earlier one), every stage it invalidates is
  the resume stage or a later one, and its warnings have no duplicates.\<close>

theorem resume_contract_sound:
  assumes "resolve_resume_contract c mt req srs scp mf = Inr r"
  shows "rr_resume_stage r \<in> set STAGE_ORDER \<and> stage_before c (rr_resume_stage r) = Inr False
    \<and> rr_cleanup_policy r \<in> set cleanup_policy_names
    \<and> (rr_cleanup_policy r = ''retry_current_stage_only'' \<longrightarrow>
         rr_resume_stage r = c \<and> rr_invalidated_stages r = [c])
    \<and> (rr_cleanup_policy r = ''invalidate_downstream'' \<longrightarrow> stage_before (rr_resume_stage r) c = Inr True)
    \<and> (\<forall>t\<in>set (rr_invalidated_stages r). t = rr_resume_stage r \<or> stage_before (rr_resume_stage r) t = Inr True)
    \<and> distinct (rr_warnings r)"
proof -
  note v = resolve_resume_contract_Inr [OF assms]
  have inv: "t = rr_resume_stage r \<or> stages.before (rr_resume_stage r) t"
    if "t \<in> set (rr_invalidated_stages r)" for t
    using invalidated_later [OF v(2) that] .
  have k: "c \<in> set STAGE_ORDER" "rr_resume_stage r \<in> set STAGE_ORDER" "\<not> stages.before c (rr_resume_stage r)"
    using v(1) by (simp_all add: validate_resume_request_iff)
  then have "stage_before c (rr_resume_stage r) = Inr False" by (simp add: stage_before_iff)
  moreover have "rr_cleanup_policy r = ''invalidate_downstream'' \<Longrightarrow> stages.before (rr_resume_stage r) c"
    using v(1) k stages.before_total by (fastforce simp: validate_resume_request_iff)
  moreover have "rr_cleanup_policy r = ''retry_current_stage_only'' \<Longrightarrow>
      rr_resume_stage r = c \<and> rr_invalidated_stages r = [c]"
    using v(1,2) k by (simp add: validate_resume_request_iff invalidated_stages_for_def validate_stage_name_ok)
  ultimately show ?thesis using v(3,5) k inv by auto
qed

theorem resume_contract_sound_witness:
  "\<exists>r. resolve_resume_contract ''band'' ''KPOINTS'' None None None None = Inr r
     \<and> rr_resume_stage r = ''scf''
     \<and> (\<forall>t\<in>set (rr_invalidated_stages r). t = rr_resume_stage r \<or> stage_before (rr_resume_stage r) t = Inr True)"
proof -
  let ?r = "\<lparr>rr_modified_files = [''KPOINTS''], rr_modification_type = ''KPOINTS'',
     rr_requested_resume_strategy = ''default_rule'', rr_resume_stage = ''scf'',
     rr_cleanup_policy = ''invalidate_downstream'',
     rr_invalidated_stages = [''band'', ''effective_mass'', ''strain_loop'', ''mobility'', ''validation'', ''report''],
     rr_warnings = []\<rparr>"
  have "resolve_resume_contract ''band'' ''KPOINTS'' None None None None = Inr ?r" by code_simp
  with resume_contract_sound [OF this] show ?thesis by auto
qed

text \<open>The downstream lists of the contract table are consistent: an invalidated stage comes later
  in the stage order, no list repeats a stage, and invalidation is transitive (whatever an
  invalidated stage would invalidate is invalidated too).\<close>

theorem downstream_closed:
  assumes "downstream_stages s = Inr ds" and "t \<in> set ds"
  shows "stage_before s t = Inr True \<and> distinct ds
    \<and> (\<exists>es. downstream_stages t = Inr es \<and> set es \<subseteq> set ds)"
proof -
  have b: "stages.before s t" using assms by (rule downstream_later)
  from assms have "distinct ds \<and> (\<exists>es. downstream_stages t = Inr es \<and> set es \<subseteq> set ds)"
  proof -
    have s: "s \<in> set STAGE_ORDER" using assms(1) by (rule downstream_known)
    have "\<forall>s\<in>set STAGE_ORDER. \<forall>ds. downstream_stages s = Inr ds \<longrightarrow> distinct ds \<and>
        (\<forall>t\<in>set ds. \<exists>es. downstream_stages t = Inr es \<and> set es \<subseteq> set ds)"
      by (simp add: STAGE_ORDER_def downstream_table)
    with s assms show ?thesis by blast
  qed
  with b show ?thesis by (simp add: stage_before_iff stages.before_members)
qed

theorem downstream_closed_witness:
  "\<exists>es. downstream_stages ''band'' = Inr es \<and>
     set es \<subseteq> {''band'', ''effective_mass'', ''strain_loop'', ''mobility'', ''validation'', ''report''}"
  using downstream_closed [OF downstream_table(3), of "''band''"] by auto

text \<open>When the default rule of a modification resolves: an INCAR or custom change always does, a
  KPOINTS change (resume at scf, invalidate downstream) only after scf, and a POSCAR or
  multiple change (restart from relax) from relax on; everywhere else the default rule
  raises instead of returning a rule.\<close>

theorem default_rule_resolves_iff:
  assumes "c \<in> set STAGE_ORDER" and "mt \<in> set modification_types"
  shows "(\<exists>r. resolve_resume_contract c mt (Some ''default_rule'') None None None = Inr r) \<longleftrightarrow>
    (if mt = ''KPOINTS'' then stage_before ''scf'' c = Inr True
     else if mt = ''POSCAR'' \<or> mt = ''multiple'' then c \<noteq> ''prepare''
     else True)"
proof -
  have known: "''scf'' \<in> set STAGE_ORDER" "''relax'' \<in> set STAGE_ORDER" by (simp_all add: STAGE_ORDER_def)
  have relax: "\<not> stages.before c ''relax'' \<longleftrightarrow> c \<noteq> ''prepare''"
    using assms(1) by (elim stage_cases) (simp_all add: stages.before_code)
  have scf: "\<not> stages.before c ''scf'' \<and> ''scf'' \<noteq> c \<longleftrightarrow> stages.before ''scf'' c"
    using assms(1) by (elim stage_cases) (simp_all add: stages.before_code)
  have ref: "resolve_stage_reference c ''current'' = Inr (c, [])"
      "resolve_stage_reference c ''scf'' = Inr (''scf'', [])" "resolve_stage_reference c ''relax'' = Inr (''relax'', [])"
    using assms(1) known by (simp_all add: resolve_stage_reference_def validate_stage_name_ok)
  consider "mt = ''INCAR''" | "mt = ''KPOINTS''" | "mt = ''POSCAR''" | "mt = ''multiple''" | "mt = ''custom''"
    using assms(2) unfolding modification_types_def list.set by (elim insertE emptyE) (erule that)+
  then show ?thesis
    using assms known relax scf ref
    by cases (simp_all add: default_rule_Inr defaults_table validate_resume_request_iff stages.before_irrefl
        stage_before_iff)
qed

theorem default_rule_resolves_iff_witness:
  "\<not> (\<exists>r. resolve_resume_contract ''scf'' ''KPOINTS'' (Some ''default_rule'') None None None = Inr r)"
proof -
  have h: "''scf'' \<in> set STAGE_ORDER" "''KPOINTS'' \<in> set modification_types"
    by (simp_all add: STAGE_ORDER_def modification_types_def)
  show ?thesis using default_rule_resolves_iff [OF h] by (simp add: stage_before_iff stages.before_irrefl)
qed

end
