(* ===== verification/Human_Loop.thy ===== *)
theory Human_Loop
  imports Stage_Contracts
begin

text \<open>
  mobility_agent/hitl: cleanup, resume rules, the manual-fix instruction, the decisions a
  human (or the timeout) may return, and the dialogue that produces them. What the terminal
  prints is not modelled; what it reads is an argument: the answer to the first prompt and
  the list of command lines typed afterwards. After the last line the terminal is at end of
  file, where \<open>readline\<close> returns the empty string for ever. A response file is observed once
  per poll, already parsed.
\<close>

section \<open>Cleanup\<close>

definition preview_cleanup :: "fs \<Rightarrow> string \<Rightarrow> string \<Rightarrow> string \<Rightarrow> CleanupPreview res" where
  "preview_cleanup f workdir resume_stage cleanup_policy =
     build_cleanup_preview f workdir resume_stage cleanup_policy"

text \<open>One path of the loop: a directory goes with everything below it, a file alone, and a
  path that is gone is skipped.\<close>

definition cleanup_path :: "fs \<Rightarrow> string \<Rightarrow> fs" where
  "cleanup_path f path = (if is_dir f path then rmtree f path else fs_del f path)"

fun apply_cleanup_loop :: "fs \<Rightarrow> string list \<Rightarrow> fs" where
  "apply_cleanup_loop f [] = f"
| "apply_cleanup_loop f (path # paths) = apply_cleanup_loop (cleanup_path f path) paths"

definition apply_cleanup :: "fs \<Rightarrow> CleanupPreview \<Rightarrow> fs" where
  "apply_cleanup f preview = apply_cleanup_loop f (cp_invalidated_artifacts preview)"

section \<open>Resume rules and the manual-fix instruction\<close>

definition compute_default_resume_rule :: "string \<Rightarrow> string \<Rightarrow> ResumeRuleContract res" where
  "compute_default_resume_rule current_stage modification_type =
     resolve_resume_contract current_stage modification_type (Some ''default_rule'') None None None"

definition build_custom_resume_rule ::
  "string \<Rightarrow> string \<Rightarrow> string list \<Rightarrow> string option \<Rightarrow> string \<Rightarrow> string \<Rightarrow> ResumeRuleContract res" where
  "build_custom_resume_rule resume_stage cleanup_policy modified_files current_stage
       modification_type requested_resume_strategy =
     resolve_resume_contract (str_or current_stage resume_stage) modification_type
       (Some requested_resume_strategy) (Some resume_stage) (Some cleanup_policy) (Some modified_files)"

record ManualFixPreview =
  mp_modified_files :: "string list"
  mp_requested_resume_strategy :: string
  mp_computed_resume_stage :: string
  mp_cleanup_policy :: string
  mp_invalidated_stages :: "string list"
  mp_invalidated_artifacts :: "string list"
  mp_warnings :: "string list"

definition normalize_preview :: "ManualFixPreview \<Rightarrow> ManualFixPreview" where
  "normalize_preview p =
     p\<lparr>mp_modified_files := dedupe (mp_modified_files p),
       mp_invalidated_stages := dedupe (mp_invalidated_stages p),
       mp_invalidated_artifacts := dedupe (mp_invalidated_artifacts p),
       mp_warnings := dedupe (mp_warnings p)\<rparr>"

record ManualFixInstruction =
  mi_modified_files :: "string list"
  mi_modification_type :: string
  mi_requested_resume_strategy :: string
  mi_resume_stage :: string
  mi_cleanup_policy :: string
  mi_invalidated_stages :: "string list"
  mi_invalidated_artifacts :: "string list"
  mi_preview :: "ManualFixPreview option"
  mi_reason :: string

definition normalize_instruction :: "ManualFixInstruction \<Rightarrow> ManualFixInstruction" where
  "normalize_instruction i0 =
     (let i = i0\<lparr>mi_modified_files := dedupe (mi_modified_files i0),
                 mi_invalidated_stages := dedupe (mi_invalidated_stages i0),
                 mi_invalidated_artifacts := dedupe (mi_invalidated_artifacts i0)\<rparr>
      in case mi_preview i of
           None \<Rightarrow> i
         | Some p \<Rightarrow>
             i\<lparr>mi_invalidated_stages := (if mi_invalidated_stages i = [] then mp_invalidated_stages p
                                          else mi_invalidated_stages i),
               mi_invalidated_artifacts := (if mi_invalidated_artifacts i = [] then mp_invalidated_artifacts p
                                             else mi_invalidated_artifacts i),
               mi_modified_files := (if mi_modified_files i = [] then mp_modified_files p
                                      else mi_modified_files i),
               mi_requested_resume_strategy := (if mi_requested_resume_strategy i = []
                                      then mp_requested_resume_strategy p else mi_requested_resume_strategy i),
               mi_resume_stage := (if mi_resume_stage i = [] then mp_computed_resume_stage p
                                    else mi_resume_stage i),
               mi_cleanup_policy := (if mi_cleanup_policy i = [] then mp_cleanup_policy p
                                      else mi_cleanup_policy i)\<rparr>)"

definition build_manual_fix_instruction ::
  "fs \<Rightarrow> string \<Rightarrow> string \<Rightarrow> string \<Rightarrow> string option \<Rightarrow> string option \<Rightarrow> string option
     \<Rightarrow> ManualFixInstruction res" where
  "build_manual_fix_instruction f current_stage workdir modification_type
       requested_resume_strategy selected_resume_stage selected_cleanup_policy =
     bindR (compute_default_resume_rule current_stage modification_type) (\<lambda>base0.
     let resolved_strategy = str_or requested_resume_strategy (rr_requested_resume_strategy base0);
         resolved_stage = str_or selected_resume_stage (rr_resume_stage base0);
         resolved_policy = str_or selected_cleanup_policy (rr_cleanup_policy base0)
     in
     bindR (if resolved_strategy \<noteq> rr_requested_resume_strategy base0
               \<or> resolved_stage \<noteq> rr_resume_stage base0
               \<or> resolved_policy \<noteq> rr_cleanup_policy base0
            then build_custom_resume_rule resolved_stage resolved_policy (rr_modified_files base0)
                   (Some current_stage) modification_type resolved_strategy
            else Inr base0) (\<lambda>base_rule.
     bindR (preview_cleanup f workdir (rr_resume_stage base_rule) (rr_cleanup_policy base_rule)) (\<lambda>cleanup.
     let preview = normalize_preview
           \<lparr>mp_modified_files = dedupe (rr_modified_files base_rule
               @ (if modification_type \<notin> set (rr_modified_files base_rule) then [modification_type] else [])),
             mp_requested_resume_strategy = rr_requested_resume_strategy base_rule,
             mp_computed_resume_stage = rr_resume_stage base_rule,
             mp_cleanup_policy = rr_cleanup_policy base_rule,
             mp_invalidated_stages = cp_invalidated_stages cleanup,
             mp_invalidated_artifacts = cp_invalidated_artifacts cleanup,
             mp_warnings = dedupe (cp_warnings cleanup @ rr_warnings base_rule)\<rparr>
     in Inr (normalize_instruction
           \<lparr>mi_modified_files = mp_modified_files preview,
             mi_modification_type = modification_type,
             mi_requested_resume_strategy = mp_requested_resume_strategy preview,
             mi_resume_stage = rr_resume_stage base_rule,
             mi_cleanup_policy = rr_cleanup_policy base_rule,
             mi_invalidated_stages = mp_invalidated_stages preview,
             mi_invalidated_artifacts = mp_invalidated_artifacts preview,
             mi_preview = Some preview,
             mi_reason = ''user_manual_fix''\<rparr>))))"

section \<open>Decisions\<close>

definition hitl_actions :: "string list" where
  "hitl_actions = [''retry_current_stage'', ''rerun_previous_stage'', ''modify_params_and_retry'',
     ''copy_contcar_to_poscar_and_retry'', ''manual_fix_resume'', ''skip_point'', ''skip_material'', ''abort_task'']"

definition hitl_sources :: "string list" where
  "hitl_sources = [''interactive'', ''response_file'', ''timeout_default'', ''precomputed'']"

record HITLDecision =
  hd_action :: string
  hd_instruction :: "ManualFixInstruction option"
  hd_reason :: string
  hd_source :: string
  hd_warnings :: "string list"

definition make_decision ::
  "string \<Rightarrow> ManualFixInstruction option \<Rightarrow> string \<Rightarrow> string \<Rightarrow> string list \<Rightarrow> HITLDecision res" where
  "make_decision action instruction reason src warnings =
     (if action \<notin> set hitl_actions then Inl (ValidationError ''action'')
      else if src \<notin> set hitl_sources then Inl (ValidationError ''source'')
      else if action = ''manual_fix_resume'' \<and> instruction = None
        then Inl (ValidationError ''manual_fix_resume_requires_instruction'')
      else Inr \<lparr>hd_action = action, hd_instruction = instruction, hd_reason = py_strip reason,
                hd_source = src, hd_warnings = dedupe warnings\<rparr>)"

text \<open>Fields of a JSON object as pydantic reads them: a string, a list of strings.\<close>

definition read_str :: "dict \<Rightarrow> string \<Rightarrow> string option \<Rightarrow> string res" where
  "read_str d k dflt =
     (case map_of d k of
        None \<Rightarrow> (case dflt of None \<Rightarrow> Inl (ValidationError k) | Some s \<Rightarrow> Inr s)
      | Some (PStr s) \<Rightarrow> Inr s
      | Some _ \<Rightarrow> Inl (ValidationError k))"

fun str_item :: "py \<Rightarrow> string res" where
  "str_item (PStr s) = Inr s"
| "str_item _ = Inl (ValidationError ''string_type'')"

definition read_str_list :: "dict \<Rightarrow> string \<Rightarrow> string list res" where
  "read_str_list d k =
     (case map_of d k of
        None \<Rightarrow> Inr []
      | Some (PList xs) \<Rightarrow> mapR str_item xs
      | Some _ \<Rightarrow> Inl (ValidationError k))"

definition parse_preview :: "dict \<Rightarrow> ManualFixPreview res" where
  "parse_preview d =
     bindR (read_str_list d ''modified_files'') (\<lambda>mf.
     bindR (read_str d ''requested_resume_strategy'' None) (\<lambda>rs.
     bindR (read_str d ''computed_resume_stage'' None) (\<lambda>st.
     bindR (read_str d ''cleanup_policy'' None) (\<lambda>cp.
     bindR (read_str_list d ''invalidated_stages'') (\<lambda>is.
     bindR (read_str_list d ''invalidated_artifacts'') (\<lambda>ia.
     bindR (read_str_list d ''warnings'') (\<lambda>w.
       Inr (normalize_preview \<lparr>mp_modified_files = mf, mp_requested_resume_strategy = rs,
         mp_computed_resume_stage = st, mp_cleanup_policy = cp, mp_invalidated_stages = is,
         mp_invalidated_artifacts = ia, mp_warnings = w\<rparr>))))))))"

definition parse_instruction :: "dict \<Rightarrow> ManualFixInstruction res" where
  "parse_instruction d =
     bindR (read_str d ''action'' (Some ''manual_fix_resume'')) (\<lambda>action.
     if action \<noteq> ''manual_fix_resume'' then Inl (ValidationError ''action'') else
     bindR (read_str_list d ''modified_files'') (\<lambda>mf.
     bindR (read_str d ''modification_type'' (Some ''custom'')) (\<lambda>mt.
     bindR (read_str d ''requested_resume_strategy'' (Some ''default_rule'')) (\<lambda>rs.
     bindR (read_str d ''resume_stage'' None) (\<lambda>st.
     bindR (read_str d ''cleanup_policy'' None) (\<lambda>cp.
     bindR (read_str_list d ''invalidated_stages'') (\<lambda>is.
     bindR (read_str_list d ''invalidated_artifacts'') (\<lambda>ia.
     bindR (case map_of d ''preview'' of
              None \<Rightarrow> Inr None
            | Some PNone \<Rightarrow> Inr None
            | Some (PDict p) \<Rightarrow> bindR (parse_preview p) (\<lambda>q. Inr (Some q))
            | Some _ \<Rightarrow> Inl (ValidationError ''preview'')) (\<lambda>pv.
     bindR (read_str d ''reason'' (Some ''user_manual_fix'')) (\<lambda>r.
       Inr (normalize_instruction \<lparr>mi_modified_files = mf, mi_modification_type = mt,
         mi_requested_resume_strategy = rs, mi_resume_stage = st, mi_cleanup_policy = cp,
         mi_invalidated_stages = is, mi_invalidated_artifacts = ia, mi_preview = pv,
         mi_reason = r\<rparr>)))))))))))"

definition str_list :: "string list \<Rightarrow> py" where
  "str_list ss = PList (map PStr ss)"

definition dump_preview :: "ManualFixPreview \<Rightarrow> dict" where
  "dump_preview p =
     [(''modified_files'', str_list (mp_modified_files p)),
      (''requested_resume_strategy'', PStr (mp_requested_resume_strategy p)),
      (''computed_resume_stage'', PStr (mp_computed_resume_stage p)),
      (''cleanup_policy'', PStr (mp_cleanup_policy p)),
      (''invalidated_stages'', str_list (mp_invalidated_stages p)),
      (''invalidated_artifacts'', str_list (mp_invalidated_artifacts p)),
      (''warnings'', str_list (mp_warnings p))]"

definition dump_instruction :: "ManualFixInstruction \<Rightarrow> dict" where
  "dump_instruction i =
     [(''action'', PStr ''manual_fix_resume''),
      (''modified_files'', str_list (mi_modified_files i)),
      (''modification_type'', PStr (mi_modification_type i)),
      (''requested_resume_strategy'', PStr (mi_requested_resume_strategy i)),
      (''resume_stage'', PStr (mi_resume_stage i)),
      (''cleanup_policy'', PStr (mi_cleanup_policy i)),
      (''invalidated_stages'', str_list (mi_invalidated_stages i)),
      (''invalidated_artifacts'', str_list (mi_invalidated_artifacts i)),
      (''preview'', (case mi_preview i of None \<Rightarrow> PNone | Some p \<Rightarrow> PDict (dump_preview p))),
      (''reason'', PStr (mi_reason i))]"

definition normalize_hitl_decision :: "dict \<Rightarrow> string \<Rightarrow> HITLDecision res" where
  "normalize_hitl_decision action_payload src =
     (let action = py_strip (py_str (py_or (py_or (dget0 action_payload ''action'')
                                             (dget0 action_payload ''decision'')) (PStr [])))
      in if action = ''manual_fix_resume'' then
           bindR (parse_instruction
                    (case dget0 action_payload ''instruction'' of PDict d \<Rightarrow> d | _ \<Rightarrow> action_payload))
             (\<lambda>instruction.
           bindR (get_list action_payload ''warnings'') (\<lambda>ws.
           bindR (mapR str_item ws) (\<lambda>warnings.
             make_decision ''manual_fix_resume'' (Some instruction)
               (py_strip (py_str (py_or (py_or (dget0 action_payload ''reason'') (PStr (mi_reason instruction))) (PStr []))))
               src warnings)))
         else
           bindR (get_list action_payload ''warnings'') (\<lambda>ws.
           bindR (mapR str_item ws) (\<lambda>warnings.
             make_decision action None (py_strip (get_str action_payload ''reason'')) src warnings)))"

definition build_resume_command :: "HITLDecision \<Rightarrow> dict res" where
  "build_resume_command decision =
     (if hd_action decision = ''manual_fix_resume'' then
        bindR (parse_instruction
                 (case hd_instruction decision of Some i \<Rightarrow> dump_instruction i | None \<Rightarrow> [])) (\<lambda>instruction.
          Inr [(''action'', PStr ''manual_fix_resume''), (''instruction'', PDict (dump_instruction instruction))])
      else
        Inr ([(''action'', PStr (hd_action decision))]
             @ (if hd_reason decision \<noteq> [] then [(''reason'', PStr (hd_reason decision))] else [])
             @ (if hd_warnings decision \<noteq> [] then [(''warnings'', str_list (hd_warnings decision))] else [])))"

section \<open>Waiting for an answer\<close>

datatype response_poll = Absent | Unreadable | Json py

text \<open>The polls made before the deadline, one per second; \<open>None\<close> when the file never appears
  or cannot be parsed.\<close>

fun wait_for_response_file :: "response_poll list \<Rightarrow> py option" where
  "wait_for_response_file [] = None"
| "wait_for_response_file (Absent # ps) = wait_for_response_file ps"
| "wait_for_response_file (Unreadable # ps) = None"
| "wait_for_response_file (Json v # ps) = Some v"

definition timeout_actions :: "string list" where
  "timeout_actions = [''retry_current_stage'', ''rerun_previous_stage'', ''modify_params_and_retry'',
     ''copy_contcar_to_poscar_and_retry'', ''skip_point'', ''skip_material'', ''abort_task'']"

definition timeout_decision :: "string \<Rightarrow> string option \<Rightarrow> HITLDecision res" where
  "timeout_decision policy default_action =
     (let action0 = (if policy = ''non_interactive_abort_on_timeout'' then ''abort_task''
                     else str_or default_action ''skip_material'');
          action = (if action0 \<notin> set timeout_actions then ''skip_material'' else action0)
      in make_decision action None (policy @ ''_timeout'') ''timeout_default'' [])"

section \<open>Which stage is the escalation about\<close>

definition is_valid_resume_stage :: "string \<Rightarrow> bool" where
  "is_valid_resume_stage stage \<longleftrightarrow>
     (let text = py_strip stage in
      text \<noteq> [] \<and> (case validate_stage_name text of Inl _ \<Rightarrow> False | Inr _ \<Rightarrow> True))"

definition stage_aliases :: "(string \<times> string) list" where
  "stage_aliases =
     [(''prepare'', ''prepare''), (''00_prepare'', ''prepare''),
      (''relax'', ''relax''), (''01_relax'', ''relax''),
      (''scf'', ''scf''), (''02_scf'', ''scf''),
      (''band'', ''band''), (''03_band'', ''band''),
      (''effective_mass'', ''effective_mass''), (''effmass'', ''effective_mass''), (''04_effmass'', ''effective_mass''),
      (''strain'', ''strain_loop''), (''05_strain'', ''strain_loop''), (''strain_loop'', ''strain_loop''),
      (''refinement'', ''refinement''), (''mobility'', ''mobility''), (''validation'', ''validation''),
      (''report'', ''report''), (''final_report'', ''report'')]"

definition normalize_stage_alias :: "string \<Rightarrow> string option" where
  "normalize_stage_alias raw =
     (let text = py_lower (py_strip raw) in if text = [] then None else map_of stage_aliases text)"

definition infer_stage_from_error_summary :: "dict \<Rightarrow> string option" where
  "infer_stage_from_error_summary payload =
     (let summary = py_lower (get_str payload ''error_summary'') in
      if summary = [] then None
      else if contains summary ''band'' then Some ''band''
      else if contains summary ''scf'' then Some ''scf''
      else if contains summary ''relax'' then Some ''relax''
      else if contains summary ''eff'' \<and> contains summary ''mass'' then Some ''effective_mass''
      else if contains summary ''strain'' then Some ''strain_loop''
      else if contains summary ''mobility'' then Some ''mobility''
      else if contains summary ''validation'' then Some ''validation''
      else if contains summary ''report'' then Some ''report''
      else None)"

definition log_path_tokens :: "(string \<times> string) list" where
  "log_path_tokens =
     [(''/03_band'', ''band''), (''/02_scf'', ''scf''), (''/01_relax'', ''relax''), (''effmass'', ''effective_mass''),
      (''strain'', ''strain_loop''), (''mobility'', ''mobility''), (''validation'', ''validation'')]"

fun first_token :: "string list \<Rightarrow> (string \<times> string) list \<Rightarrow> string option" where
  "first_token paths [] = None"
| "first_token paths ((token, stage) # rest) =
     (if list_ex (\<lambda>item. contains item token) paths then Some stage else first_token paths rest)"

definition infer_stage_from_log_paths :: "dict \<Rightarrow> string option res" where
  "infer_stage_from_log_paths payload =
     bindR (get_list payload ''log_paths'') (\<lambda>ps.
       Inr (first_token (map (\<lambda>p. py_lower (py_str p)) ps) log_path_tokens))"

definition named_stages :: "dict \<Rightarrow> string list \<Rightarrow> string list" where
  "named_stages d ks = filter (\<lambda>v. v \<noteq> []) (map (\<lambda>k. py_strip (get_str d k)) ks)"

fun history_stages :: "py list \<Rightarrow> string list" where
  "history_stages [] = []"
| "history_stages (PDict d # items) =
     named_stages d [''target_stage'', ''stage'', ''current_stage''] @ history_stages items"
| "history_stages (_ # items) = history_stages items"

text \<open>The loop over the candidates: the alias of a candidate first, then the candidate.\<close>

fun first_valid_stage :: "string list \<Rightarrow> string option" where
  "first_valid_stage [] = None"
| "first_valid_stage (stage # stages) =
     (case normalize_stage_alias stage of
        Some alias \<Rightarrow>
          if alias \<noteq> [] \<and> is_valid_resume_stage alias then Some alias
          else if is_valid_resume_stage stage then Some stage
          else first_valid_stage stages
      | None \<Rightarrow> if is_valid_resume_stage stage then Some stage else first_valid_stage stages)"

definition inferred_stage :: "string option \<Rightarrow> string option" where
  "inferred_stage inferred =
     (case inferred of None \<Rightarrow> None
      | Some s \<Rightarrow> if s \<noteq> [] \<and> is_valid_resume_stage s then Some s else None)"

definition resolve_current_stage :: "dict \<Rightarrow> string res" where
  "resolve_current_stage payload =
     bindR (get_list payload ''recovery_history_summary'') (\<lambda>history.
     case first_valid_stage
            (named_stages payload [''current_stage'', ''recovery_stage'', ''resume_stage'', ''target_stage'']
             @ history_stages (rev history)) of
       Some s \<Rightarrow> Inr s
     | None \<Rightarrow>
         (case inferred_stage (infer_stage_from_error_summary payload) of
            Some s \<Rightarrow> Inr s
          | None \<Rightarrow>
              bindR (infer_stage_from_log_paths payload) (\<lambda>t.
                case inferred_stage t of Some s \<Rightarrow> Inr s | None \<Rightarrow> Inr ''relax'')))"

section \<open>The dialogue\<close>

definition manual_fix_continue_decision :: "fs \<Rightarrow> string \<Rightarrow> string \<Rightarrow> string \<Rightarrow> HITLDecision res" where
  "manual_fix_continue_decision f current_stage workdir raw_command =
     (let command = py_strip raw_command; lowered = py_lower command in
      if lowered \<in> {''skip'', ''skip_material''} then
        make_decision ''skip_material'' None ''interactive_skip_after_manual_pause'' ''interactive'' []
      else if lowered \<in> {''abort'', ''abort_task''} then
        make_decision ''abort_task'' None ''interactive_abort_after_manual_pause'' ''interactive'' []
      else if startswith lowered ''continue'' then
        (let tail = py_strip (drop 8 command) in
         bindR (if tail = [] then Inr (current_stage, None, None, None)
                else (let alias = str_or (normalize_stage_alias tail) tail in
                      if \<not> is_valid_resume_stage alias
                      then Inl (ValueError (''invalid_resume_stage:'' @ tail))
                      else bindR (default_cleanup_policy_for_resume_stage current_stage alias) (\<lambda>policy.
                             Inr (alias, Some ''custom_stage'', Some alias, Some policy))))
           (\<lambda>(resume_stage, strategy, selected_stage, policy).
         bindR (build_manual_fix_instruction f current_stage workdir ''custom'' strategy selected_stage policy)
           (\<lambda>instruction.
             make_decision ''manual_fix_resume'' (Some instruction)
               (''user_manual_fix_continue:'' @ resume_stage) ''interactive'' [])))
      else Inl (ValueError (''unsupported_manual_command:'' @ command)))"

text \<open>
  The command loop: an empty or a rejected line asks again. \<open>None\<close> is the loop that never
  returns: past the last line every read is the empty string.
\<close>

fun command_loop :: "fs \<Rightarrow> string \<Rightarrow> string \<Rightarrow> string list \<Rightarrow> HITLDecision option" where
  "command_loop f stage workdir [] = None"
| "command_loop f stage workdir (line # lines) =
     (let raw_command = py_strip line in
      if raw_command = [] then command_loop f stage workdir lines
      else (case manual_fix_continue_decision f stage workdir raw_command of
              Inr d \<Rightarrow> Some d
            | Inl _ \<Rightarrow> command_loop f stage workdir lines))"

text \<open>\<open>xs[i]\<close> with Python's negative indices.\<close>

definition py_index :: "'a list \<Rightarrow> int \<Rightarrow> 'a res" where
  "py_index xs i =
     (let from_end = length xs - nat (- i)
      in if i < - int (length xs) \<or> int (length xs) \<le> i then Inl (IndexError ''list index out of range'')
         else Inr (xs ! (if i < 0 then from_end else nat i)))"

datatype prompt_answer = TimedOut | Line string

definition default_options :: "py list" where
  "default_options = map PStr [''manual_fix_resume'', ''retry_current_stage'', ''skip_material'', ''abort_task'']"

definition recommended_options :: "dict \<Rightarrow> py list res" where
  "recommended_options payload =
     to_list (py_or (dget payload ''recommended_options'' (PList [])) (PList default_options))"

definition select_option :: "py list \<Rightarrow> string \<Rightarrow> prompt_answer \<Rightarrow> py res" where
  "select_option recommended default_action answer =
     (case answer of
        TimedOut \<Rightarrow> if PStr default_action \<in> set recommended then Inr (PStr default_action)
                    else py_index recommended 0
      | Line raw0 \<Rightarrow>
          (let raw = (if py_strip raw0 = [] then ''1'' else py_strip raw0) in
           case bindR (to_int (PStr raw)) (\<lambda>i. py_index recommended (i - 1)) of
             Inr v \<Rightarrow> Inr v
           | Inl _ \<Rightarrow> py_index recommended 0))"

text \<open>The outer option is the dialogue that never returns.\<close>

definition interactive_decision ::
  "fs \<Rightarrow> string \<Rightarrow> dict \<Rightarrow> string \<Rightarrow> prompt_answer \<Rightarrow> string list \<Rightarrow> HITLDecision res option" where
  "interactive_decision f cwd payload default_action answer lines =
     (case resolve_current_stage payload of Inl e \<Rightarrow> Some (Inl e) | Inr stage \<Rightarrow>
      (case recommended_options payload of Inl e \<Rightarrow> Some (Inl e) | Inr recommended \<Rightarrow>
      (case get_list payload ''log_paths'' of Inl e \<Rightarrow> Some (Inl e) | Inr log_paths \<Rightarrow>
      (case select_option recommended default_action answer of Inl e \<Rightarrow> Some (Inl e) | Inr selected \<Rightarrow>
        if selected = PStr ''manual_fix_resume'' then
          map_option Inr (command_loop f stage
            (py_str (py_or (dget0 payload ''working_directory'') (PStr cwd))) lines)
        else (case selected of
                PStr action \<Rightarrow> Some (make_decision action None ''interactive_selection'' ''interactive'' [])
              | _ \<Rightarrow> Some (Inl (ValidationError ''action'')))))))"

definition HITL_POLICY_ALIASES :: "(string \<times> string) list" where
  "HITL_POLICY_ALIASES =
     [(''interactive'', ''interactive''),
      (''non_interactive_skip_on_timeout'', ''non_interactive_skip_on_timeout''),
      (''non_interactive_abort_on_timeout'', ''non_interactive_abort_on_timeout''),
      (''non_interactive_wait'', ''non_interactive_skip_on_timeout''),
      (''non_interactive_skip'', ''non_interactive_skip_on_timeout'')]"

definition normalize_hitl_policy :: "string option \<Rightarrow> string" where
  "normalize_hitl_policy value =
     (let raw = py_lower (py_strip (str_or value [])) in
      if raw = [] then ''interactive''
      else (case map_of HITL_POLICY_ALIASES raw of Some p \<Rightarrow> p | None \<Rightarrow> ''interactive''))"

definition resolve_human_decision ::
  "fs \<Rightarrow> string \<Rightarrow> dict \<Rightarrow> string option \<Rightarrow> bool \<Rightarrow> prompt_answer \<Rightarrow> string list \<Rightarrow> response_poll list
     \<Rightarrow> HITLDecision res option" where
  "resolve_human_decision f cwd payload hitl_policy can_prompt answer lines polls =
     (let policy = normalize_hitl_policy hitl_policy;
          default_action = py_str (py_or (dget0 payload ''default_timeout_action'') (PStr ''skip_material''))
      in if policy = ''interactive'' \<and> can_prompt then
           interactive_decision f cwd payload default_action answer lines
         else (case wait_for_response_file polls of
                 Some response \<Rightarrow>
                   if truthy response
                   then Some (case response of
                                PDict d \<Rightarrow> normalize_hitl_decision d ''response_file''
                              | _ \<Rightarrow> Inl (AttributeError ''get''))
                   else Some (timeout_decision policy (Some default_action))
               | None \<Rightarrow> Some (timeout_decision policy (Some default_action))))"

section \<open>Cleanup removes the listed artifacts and nothing else\<close>

lemma below_trans: "below a b \<Longrightarrow> below b c \<Longrightarrow> below a c"
  by (auto simp: below_def startswith_iff)

definition removes :: "fs \<Rightarrow> string \<Rightarrow> string \<Rightarrow> bool" where
  "removes f p q \<longleftrightarrow> q = p \<or> (is_dir f p \<and> below p q)"

lemma map_of_cleanup_path: "map_of (cleanup_path f p) q = (if removes f p q then None else map_of f q)"
  by (auto simp: cleanup_path_def removes_def map_of_rmtree map_of_fs_del)

lemma is_dir_cleanup_path: "is_dir (cleanup_path f p) q \<longleftrightarrow> is_dir f q \<and> \<not> removes f p q"
  by (simp add: is_dir_def map_of_cleanup_path)

lemma map_of_apply_cleanup_loop:
  "map_of (apply_cleanup_loop f ps) q = (if \<exists>p\<in>set ps. removes f p q then None else map_of f q)"
proof (induction ps arbitrary: f)
  case (Cons p ps)
  have "(\<exists>p'\<in>set ps. removes (cleanup_path f p) p' q) \<or> removes f p q \<longleftrightarrow>
        (\<exists>p'\<in>set (p # ps). removes f p' q)" (is "?l \<longleftrightarrow> ?r")
  proof
    assume ?l
    then show ?r by (auto simp: removes_def is_dir_cleanup_path)
  next
    assume ?r
    then consider "removes f p q" | p' where "p' \<in> set ps" "removes f p' q" by auto
    then show ?l
    proof cases
      case 2
      show ?thesis
      proof (cases "removes (cleanup_path f p) p' q")
        case False
        with 2 have "is_dir f p'" "below p' q" "removes f p p'"
          by (auto simp: removes_def is_dir_cleanup_path)
        then have "removes f p q" using below_trans by (auto simp: removes_def)
        then show ?thesis by simp
      qed (use 2 in auto)
    qed simp
  qed
  then show ?case using Cons by (auto simp: map_of_cleanup_path)
qed simp

lemma map_of_apply_cleanup:
  "map_of (apply_cleanup f pv) q =
     (if \<exists>p\<in>set (cp_invalidated_artifacts pv). removes f p q then None else map_of f q)"
  by (simp add: apply_cleanup_def map_of_apply_cleanup_loop)

text \<open>Two names without a slash under one directory have nothing in common below them.\<close>

lemma name_prefix_eq:
  "x @ a = y @ b \<Longrightarrow> CHR ''/'' \<notin> set x \<Longrightarrow> CHR ''/'' \<notin> set y \<Longrightarrow>
   (a = [] \<or> hd a = CHR ''/'') \<Longrightarrow> (b = [] \<or> hd b = CHR ''/'') \<Longrightarrow> x = y"
proof (induction x arbitrary: y)
  case Nil
  then show ?case by (cases y) auto
next
  case (Cons c x)
  then show ?case by (cases y) auto
qed

lemma below_names:
  assumes "below (w @ ''/'' @ x) q" "below (w @ ''/'' @ y) q" "CHR ''/'' \<notin> set x" "CHR ''/'' \<notin> set y"
  shows "x = y"
proof -
  have "\<exists>a. q = w @ ''/'' @ z @ a \<and> (a = [] \<or> hd a = CHR ''/'')" if "below (w @ ''/'' @ z) q" for z
    using that by (auto simp: below_def startswith_iff)
  with assms obtain a b where "q = w @ ''/'' @ x @ a" "a = [] \<or> hd a = CHR ''/''"
    "q = w @ ''/'' @ y @ b" "b = [] \<or> hd b = CHR ''/''" by metis
  with assms(3,4) show ?thesis using name_prefix_eq [of x a y b] by simp
qed

text \<open>The names a stage's artifacts can have in the work directory.\<close>

definition artifact_name :: "string \<Rightarrow> string \<Rightarrow> bool" where
  "artifact_name s x \<longleftrightarrow> (\<exists>c. get_stage_contract s = Inr c \<and>
     (\<exists>pat\<in>set (sc_artifact_patterns c). if CHR ''*'' \<in> set pat then fnmatch pat x else x = pat)) \<and> CHR ''/'' \<notin> set x"

definition normal_dir :: "string \<Rightarrow> bool" where
  "normal_dir w \<longleftrightarrow> w \<noteq> [] \<and> \<not> endswith w ''/''"

lemma patterns_plain:
  "get_stage_contract s = Inr c \<Longrightarrow> pat \<in> set (sc_artifact_patterns c) \<Longrightarrow>
   CHR ''/'' \<notin> set pat \<and> \<not> startswith pat ''/''"
proof -
  assume g: "get_stage_contract s = Inr c" and p: "pat \<in> set (sc_artifact_patterns c)"
  have all: "\<forall>(k, c)\<in>set STAGE_CONTRACTS. \<forall>pat\<in>set (sc_artifact_patterns c). CHR ''/'' \<notin> set pat"
    by (simp add: STAGE_CONTRACTS_def)
  from g have "(s, c) \<in> set STAGE_CONTRACTS"
    by (auto simp: get_stage_contract_def split: option.splits dest: map_of_SomeD)
  with all p have n: "CHR ''/'' \<notin> set pat" by blast
  then have "\<not> startswith pat ''/''" by (auto simp: startswith_iff)
  with n show ?thesis by simp
qed

lemma stage_artifacts_names:
  assumes "stage_artifacts f w s = Inr as" "a \<in> set as" "normal_dir w"
  shows "\<exists>x. a = w @ ''/'' @ x \<and> artifact_name s x \<and> path_exists f a"
proof -
  from assms(1,2) obtain c pat where c: "get_stage_contract s = Inr c"
    and pat: "pat \<in> set (sc_artifact_patterns c)" and ex: "path_exists f a"
    and a: "a \<in> set (if CHR ''*'' \<in> set pat then glob_in f w pat else [path_join w pat])"
    by (auto simp: stage_artifacts_def)
  note pl = patterns_plain [OF c pat]
  show ?thesis
  proof (cases "CHR ''*'' \<in> set pat")
    case True
    with a obtain n where "a = w @ ''/'' @ n" "CHR ''/'' \<notin> set n" "fnmatch pat n"
      by (auto simp: set_glob_in)
    with True c pat ex show ?thesis by (auto simp: artifact_name_def)
  next
    case False
    with a pl assms(3) have "a = w @ ''/'' @ pat" by (simp add: path_join_def normal_dir_def)
    with False c pat pl ex show ?thesis by (auto simp: artifact_name_def)
  qed
qed

lemma mapR_member: "mapR f xs = Inr ys \<Longrightarrow> x \<in> set xs \<Longrightarrow> \<exists>y\<in>set ys. f x = Inr y"
  by (induction xs arbitrary: ys) auto

lemma mapR_source: "mapR f xs = Inr ys \<Longrightarrow> y \<in> set ys \<Longrightarrow> \<exists>x\<in>set xs. f x = Inr y"
  by (induction xs arbitrary: ys) auto

lemma preview_artifacts:
  assumes "build_cleanup_preview f w r p = Inr pv"
  shows "a \<in> set (cp_invalidated_artifacts pv) \<longleftrightarrow>
    (\<exists>s as. s \<in> set (cp_invalidated_stages pv) \<and> stage_artifacts f w s = Inr as \<and> a \<in> set as)"
proof -
  from assms obtain arts where iv: "invalidated_stages_for r p = Inr (cp_invalidated_stages pv)"
    and arts: "mapR (stage_artifacts f w) (cp_invalidated_stages pv) = Inr arts"
    and eq: "cp_invalidated_artifacts pv = sort (remdups (concat arts))"
    by (auto simp: build_cleanup_preview_def Let_def split: if_splits)
  have "a \<in> set (concat arts) \<longleftrightarrow>
    (\<exists>s as. s \<in> set (cp_invalidated_stages pv) \<and> stage_artifacts f w s = Inr as \<and> a \<in> set as)"
  proof
    assume "a \<in> set (concat arts)"
    then obtain y where y: "y \<in> set arts" "a \<in> set y" by auto
    from mapR_source [OF arts y(1)] y(2)
    show "\<exists>s as. s \<in> set (cp_invalidated_stages pv) \<and> stage_artifacts f w s = Inr as \<and> a \<in> set as" by blast
  next
    assume "\<exists>s as. s \<in> set (cp_invalidated_stages pv) \<and> stage_artifacts f w s = Inr as \<and> a \<in> set as"
    then obtain s as where s: "s \<in> set (cp_invalidated_stages pv)" "stage_artifacts f w s = Inr as" "a \<in> set as" by blast
    from mapR_member [OF arts s(1)] s(2,3) show "a \<in> set (concat arts)" by auto
  qed
  with eq show ?thesis by simp
qed

lemma preview_stages:
  "build_cleanup_preview f w r p = Inr pv \<Longrightarrow> invalidated_stages_for r p = Inr (cp_invalidated_stages pv)"
  by (auto simp: build_cleanup_preview_def Let_def split: if_splits)

lemma artifact_name_table:
  "artifact_name ''prepare'' x \<longleftrightarrow> False"
  "artifact_name ''relax'' x \<longleftrightarrow> x = ''01_relax''"
  "artifact_name ''scf'' x \<longleftrightarrow> x = ''02_scf''"
  "artifact_name ''band'' x \<longleftrightarrow> x = ''03_band''"
  "artifact_name ''effective_mass'' x \<longleftrightarrow> startswith x ''04_effmass_'' \<and> CHR ''/'' \<notin> set x"
  "artifact_name ''strain_loop'' x \<longleftrightarrow> x = ''05_strain''"
  "artifact_name ''refinement'' x \<longleftrightarrow> False"
  "artifact_name ''mobility'' x \<longleftrightarrow> x \<in> set [''mobility_results.json'', ''fit_diagnostics.json'',
     ''decision_trace.json'', ''tool_trace.json'', ''recovery_trace.json'', ''validation_report.json'',
     ''final_summary.json'', ''strain_data.csv'', ''strain_status.csv'', ''material_outcome.json'']"
  "artifact_name ''validation'' x \<longleftrightarrow> x \<in> set [''validation_report.json'', ''final_summary.json'', ''material_outcome.json'']"
  "artifact_name ''report'' x \<longleftrightarrow> x \<in> set [''final_summary.json'', ''material_outcome.json'']"
proof -
  have e: "fnmatch ''04_effmass_*'' x \<longleftrightarrow> startswith x ''04_effmass_''"
    using fnmatch_literal_prefix [of "''04_effmass_''" x] by simp
  show "artifact_name ''effective_mass'' x \<longleftrightarrow> startswith x ''04_effmass_'' \<and> CHR ''/'' \<notin> set x"
    using e by (simp add: artifact_name_def get_stage_contract_def STAGE_CONTRACTS_def)
qed (auto simp: artifact_name_def get_stage_contract_def STAGE_CONTRACTS_def)

definition vasp_stages :: "string list" where
  "vasp_stages = [''relax'', ''scf'', ''band'', ''effective_mass'', ''strain_loop'']"

lemma vasp_names_disjoint:
  assumes "s \<in> set vasp_stages" "t \<in> set STAGE_ORDER" "artifact_name s x" "artifact_name t x"
  shows "t = s"
proof -
  have names: "\<not> startswith y ''04_effmass_''" if "y \<in> set [''01_relax'', ''02_scf'', ''03_band'', ''05_strain'',
      ''mobility_results.json'', ''fit_diagnostics.json'', ''decision_trace.json'', ''tool_trace.json'',
      ''recovery_trace.json'', ''validation_report.json'', ''final_summary.json'', ''strain_data.csv'',
      ''strain_status.csv'', ''material_outcome.json'']" for y
    using that unfolding list.set by (elim insertE emptyE) (simp_all add: startswith_def)
  from assms(1) consider "s = ''relax''" | "s = ''scf''" | "s = ''band''" | "s = ''effective_mass''" | "s = ''strain_loop''"
    unfolding vasp_stages_def list.set by (elim insertE emptyE) (erule that)+
  then show ?thesis
    using assms(2-4) names
    by cases (elim stage_cases; simp add: artifact_name_table; elim disjE; simp)+
qed

lemma invalidated_later_stage:
  "build_cleanup_preview f w r p = Inr pv \<Longrightarrow> t \<in> set (cp_invalidated_stages pv) \<Longrightarrow>
   t \<in> set STAGE_ORDER \<and> (t = r \<or> stages.before r t)"
  using preview_stages [of f w r p pv] invalidated_later [of r p "cp_invalidated_stages pv" t]
    stages.before_members [of r t] by (auto simp: invalidated_stages_for_def)

lemma stage_artifacts_anti_mono:
  assumes "\<And>q. path_exists g q \<Longrightarrow> path_exists f q" "stage_artifacts g w s = Inr as" "a \<in> set as"
  shows "path_exists g a \<and> (\<exists>bs. stage_artifacts f w s = Inr bs \<and> a \<in> set bs)"
  using assms by (fastforce simp: stage_artifacts_def set_glob_in split: if_splits)

section \<open>Properties of cleanup\<close>

text \<open>Applying a cleanup preview removes exactly the listed artifacts, a listed directory
  together with everything below it; every other path of the file system keeps its content.\<close>

theorem apply_cleanup_exact:
  "map_of (apply_cleanup f pv) q =
     (if \<exists>p\<in>set (cp_invalidated_artifacts pv). q = p \<or> (is_dir f p \<and> below p q) then None
      else map_of f q)"
  by (simp add: map_of_apply_cleanup removes_def)

text \<open>C16: A manual-fix cleanup never touches the results of an earlier VASP stage: whatever lies in
  an artifact of relax, scf, band, effective_mass or strain_loop survives the cleanup for
  any resume stage that comes after that stage.\<close>

theorem cleanup_keeps_upstream:
  assumes "build_cleanup_preview f w r p = Inr pv" and "normal_dir w"
    and "s \<in> set vasp_stages" and "stage_before s r = Inr True"
    and "stage_artifacts f w s = Inr as" and "a \<in> set as" and "below a q"
  shows "map_of (apply_cleanup f pv) q = map_of f q"
proof -
  obtain x where x: "a = w @ ''/'' @ x" "artifact_name s x"
    using stage_artifacts_names [OF assms(5,6,2)] by blast
  have False if b: "b \<in> set (cp_invalidated_artifacts pv)" "removes f b q" for b
  proof -
    from b(1) preview_artifacts [OF assms(1)] obtain t bs where
      t: "t \<in> set (cp_invalidated_stages pv)" "stage_artifacts f w t = Inr bs" "b \<in> set bs" by blast
    obtain y where y: "b = w @ ''/'' @ y" "artifact_name t y"
      using stage_artifacts_names [OF t(2,3) assms(2)] by blast
    have "below b q" using b(2) by (auto simp: removes_def)
    then have "x = y"
      using assms(7) x y by (intro below_names [of w x q y]) (auto simp: artifact_name_def)
    moreover note tr = invalidated_later_stage [OF assms(1) t(1)]
    ultimately have "t = s" using vasp_names_disjoint assms(3) x(2) y(2) by metis
    with tr assms(4) show False
      using stages.before_irrefl stages.before_trans by auto
  qed
  then show ?thesis by (auto simp: map_of_apply_cleanup)
qed

definition demo_fs :: fs where
  "demo_fs = [(''/w'', FDir), (''/w/01_relax'', FDir), (''/w/01_relax/CONTCAR'', FFile ''relaxed''),
     (''/w/02_scf'', FDir), (''/w/02_scf/CHGCAR'', FFile ''rho''),
     (''/w/04_effmass_x'', FDir), (''/w/mobility_results.json'', FFile ''{}'')]"

theorem cleanup_keeps_upstream_witness:
  "\<exists>pv. build_cleanup_preview demo_fs ''/w'' ''scf'' ''restart_from_stage'' = Inr pv
     \<and> cp_invalidated_artifacts pv = [''/w/02_scf'', ''/w/04_effmass_x'', ''/w/mobility_results.json'']
     \<and> map_of (apply_cleanup demo_fs pv) ''/w/01_relax/CONTCAR'' = map_of demo_fs ''/w/01_relax/CONTCAR''"
proof -
  let ?pv = "\<lparr>cp_cleanup_policy = ''restart_from_stage'', cp_resume_stage = ''scf'',
     cp_invalidated_stages = [''scf'', ''band'', ''effective_mass'', ''strain_loop'', ''mobility'', ''validation'', ''report''],
     cp_invalidated_artifacts = [''/w/02_scf'', ''/w/04_effmass_x'', ''/w/mobility_results.json''],
     cp_warnings = []\<rparr>"
  have h: "build_cleanup_preview demo_fs ''/w'' ''scf'' ''restart_from_stage'' = Inr ?pv" by code_simp
  have a: "stage_artifacts demo_fs ''/w'' ''relax'' = Inr [''/w/01_relax'']" by code_simp
  have "map_of (apply_cleanup demo_fs ?pv) ''/w/01_relax/CONTCAR'' = map_of demo_fs ''/w/01_relax/CONTCAR''"
    by (rule cleanup_keeps_upstream [OF h _ _ _ a, of "''/w/01_relax''"]) code_simp+
  with h show ?thesis by simp
qed

text \<open>A cleanup is complete: after it was applied, a new preview for the same request lists no
  artifact any more.\<close>

theorem cleanup_complete:
  assumes "build_cleanup_preview f w r p = Inr pv"
  shows "\<exists>pv'. build_cleanup_preview (apply_cleanup f pv) w r p = Inr pv'
           \<and> cp_invalidated_artifacts pv' = [] \<and> cp_invalidated_stages pv' = cp_invalidated_stages pv"
proof -
  let ?g = "apply_cleanup f pv"
  have iv: "invalidated_stages_for r p = Inr (cp_invalidated_stages pv)" and p: "p \<in> set cleanup_policy_names"
    using assms by (auto simp: build_cleanup_preview_def Let_def split: if_splits)
  have "\<exists>as. stage_artifacts ?g w s = Inr as" if "s \<in> set (cp_invalidated_stages pv)" for s
  proof -
    have "s \<in> set STAGE_ORDER" using invalidated_later_stage [OF assms that] by simp
    then show ?thesis by (cases "map_of STAGE_CONTRACTS s") (auto simp: stage_artifacts_def get_stage_contract_def)
  qed
  then have "\<exists>arts. mapR (stage_artifacts ?g w) (cp_invalidated_stages pv) = Inr arts"
    by (metis mapR_total)
  then obtain arts where arts: "mapR (stage_artifacts ?g w) (cp_invalidated_stages pv) = Inr arts" by blast
  then have "\<exists>pv'. build_cleanup_preview ?g w r p = Inr pv'"
    using iv p by (simp add: build_cleanup_preview_def)
  then obtain pv' where pv': "build_cleanup_preview ?g w r p = Inr pv'" by blast
  have st: "cp_invalidated_stages pv' = cp_invalidated_stages pv" using preview_stages [OF pv'] iv by simp
  have none: "a \<notin> set (cp_invalidated_artifacts pv')" for a
  proof
    assume "a \<in> set (cp_invalidated_artifacts pv')"
    then obtain s as where s: "s \<in> set (cp_invalidated_stages pv)" "stage_artifacts ?g w s = Inr as" "a \<in> set as"
      using preview_artifacts [OF pv'] st by auto
    have sub: "path_exists f q" if "path_exists ?g q" for q
      using that by (auto simp: path_exists_def map_of_apply_cleanup split: if_splits)
    from stage_artifacts_anti_mono [OF sub s(2,3)] have ex: "path_exists ?g a"
      and "\<exists>bs. stage_artifacts f w s = Inr bs \<and> a \<in> set bs" by blast+
    then have "a \<in> set (cp_invalidated_artifacts pv)" using preview_artifacts [OF assms] s(1) by blast
    with ex show False by (auto simp: path_exists_def map_of_apply_cleanup removes_def split: if_splits)
  qed
  have "cp_invalidated_artifacts pv' = []"
  proof (cases "cp_invalidated_artifacts pv'")
    case (Cons a as)
    with none [of a] show ?thesis by simp
  qed
  with pv' st show ?thesis by blast
qed

theorem cleanup_complete_witness:
  "\<exists>pv pv'. build_cleanup_preview demo_fs ''/w'' ''relax'' ''restart_from_stage'' = Inr pv
     \<and> cp_invalidated_artifacts pv \<noteq> []
     \<and> build_cleanup_preview (apply_cleanup demo_fs pv) ''/w'' ''relax'' ''restart_from_stage'' = Inr pv'
     \<and> cp_invalidated_artifacts pv' = []"
proof -
  have "case build_cleanup_preview demo_fs ''/w'' ''relax'' ''restart_from_stage'' of
      Inl _ \<Rightarrow> False | Inr pv \<Rightarrow> cp_invalidated_artifacts pv \<noteq> []" by code_simp
  then obtain pv where pv: "build_cleanup_preview demo_fs ''/w'' ''relax'' ''restart_from_stage'' = Inr pv"
    "cp_invalidated_artifacts pv \<noteq> []" by (auto split: sum.splits)
  from cleanup_complete [OF pv(1)] pv show ?thesis by blast
qed

section \<open>Decisions are well formed\<close>

definition wf_decision :: "HITLDecision \<Rightarrow> bool" where
  "wf_decision d \<longleftrightarrow> hd_action d \<in> set hitl_actions \<and> hd_source d \<in> set hitl_sources
     \<and> (hd_action d = ''manual_fix_resume'' \<longrightarrow> hd_instruction d \<noteq> None)
     \<and> py_strip (hd_reason d) = hd_reason d \<and> distinct (hd_warnings d)"

lemma make_decision_wf: "make_decision a i r src w = Inr d \<Longrightarrow> wf_decision d"
  by (auto simp: make_decision_def wf_decision_def split: if_splits)

lemma make_decision_fields:
  "make_decision a i r src w = Inr d \<Longrightarrow> hd_action d = a \<and> hd_instruction d = i \<and> hd_source d = src"
  by (auto simp: make_decision_def split: if_splits)

lemma normalize_hitl_decision_wf: "normalize_hitl_decision p src = Inr d \<Longrightarrow> wf_decision d"
  by (auto simp: normalize_hitl_decision_def Let_def split: if_splits dest: make_decision_wf)

lemma timeout_decision_wf: "timeout_decision p a = Inr d \<Longrightarrow> wf_decision d"
  by (simp add: timeout_decision_def Let_def make_decision_wf)

lemma manual_fix_continue_wf: "manual_fix_continue_decision f c w cmd = Inr d \<Longrightarrow> wf_decision d"
  by (auto simp: manual_fix_continue_decision_def Let_def split: if_splits dest: make_decision_wf)

lemma command_loop_Some:
  "command_loop f c w lines = Some d \<Longrightarrow>
   \<exists>line\<in>set lines. py_strip line \<noteq> [] \<and> manual_fix_continue_decision f c w (py_strip line) = Inr d"
  by (induction lines) (auto simp: Let_def split: if_splits sum.splits)

lemma interactive_decision_wf: "interactive_decision f cwd p da an ls = Some (Inr d) \<Longrightarrow> wf_decision d"
  by (auto simp: interactive_decision_def split: sum.splits if_splits py.splits
      dest!: command_loop_Some dest: make_decision_wf manual_fix_continue_wf)

lemma resolve_human_decision_wf:
  "resolve_human_decision f cwd p pol tty an ls polls = Some (Inr d) \<Longrightarrow> wf_decision d"
  by (auto simp: resolve_human_decision_def Let_def split: if_splits option.splits py.splits
      dest: interactive_decision_wf normalize_hitl_decision_wf timeout_decision_wf)

section \<open>The stage an escalation resolves to\<close>

lemma alias_values: "map_of stage_aliases t = Some a \<Longrightarrow> a \<in> set STAGE_ORDER"
proof -
  have "\<forall>(k, v)\<in>set stage_aliases. v \<in> set STAGE_ORDER"
    by (simp add: stage_aliases_def STAGE_ORDER_def)
  then show "map_of stage_aliases t = Some a \<Longrightarrow> a \<in> set STAGE_ORDER"
    by (auto dest: map_of_SomeD)
qed

lemma normalize_alias_values: "normalize_stage_alias s = Some a \<Longrightarrow> a \<in> set STAGE_ORDER"
  by (auto simp: normalize_stage_alias_def Let_def alias_values split: if_splits)

lemma valid_resume_stage_iff: "is_valid_resume_stage s \<longleftrightarrow> py_strip s \<in> set STAGE_ORDER"
proof -
  have "[] \<notin> set STAGE_ORDER" by (simp add: STAGE_ORDER_def)
  then show ?thesis
    by (auto simp: is_valid_resume_stage_def Let_def validate_stage_name_def split: sum.splits)
qed

lemma first_valid_stage_valid:
  "first_valid_stage ss = Some t \<Longrightarrow> \<forall>s\<in>set ss. py_strip s = s \<Longrightarrow> t \<in> set STAGE_ORDER"
  by (induction ss)
    (auto simp: valid_resume_stage_iff split: option.splits if_splits dest: normalize_alias_values)

lemma named_stages_stripped: "s \<in> set (named_stages d ks) \<Longrightarrow> py_strip s = s"
  by (auto simp: named_stages_def)

lemma history_stages_stripped: "s \<in> set (history_stages xs) \<Longrightarrow> py_strip s = s"
  by (induction xs rule: history_stages.induct) (auto dest: named_stages_stripped)

lemma error_summary_values: "infer_stage_from_error_summary p = Some s \<Longrightarrow> s \<in> set STAGE_ORDER"
  by (auto simp: infer_stage_from_error_summary_def STAGE_ORDER_def Let_def split: if_splits)

lemma first_token_values: "first_token ps ts = Some s \<Longrightarrow> s \<in> snd ` set ts"
  by (induction ps ts rule: first_token.induct) (auto split: if_splits)

lemma log_path_values: "infer_stage_from_log_paths p = Inr (Some s) \<Longrightarrow> s \<in> set STAGE_ORDER"
proof -
  assume "infer_stage_from_log_paths p = Inr (Some s)"
  then have "s \<in> snd ` set log_path_tokens"
    by (auto simp: infer_stage_from_log_paths_def dest: first_token_values)
  moreover have "snd ` set log_path_tokens \<subseteq> set STAGE_ORDER"
    by (simp add: log_path_tokens_def STAGE_ORDER_def)
  ultimately show ?thesis by blast
qed

lemma inferred_stage_Some: "inferred_stage t = Some s \<Longrightarrow> t = Some s"
  by (auto simp: inferred_stage_def split: option.splits if_splits)

lemma resolve_current_stage_valid: "resolve_current_stage p = Inr s \<Longrightarrow> s \<in> set STAGE_ORDER"
proof -
  assume r: "resolve_current_stage p = Inr s"
  have relax: "''relax'' \<in> set STAGE_ORDER" by (simp add: STAGE_ORDER_def)
  from r obtain h where h:
    "(case first_valid_stage (named_stages p [''current_stage'', ''recovery_stage'', ''resume_stage'', ''target_stage'']
        @ history_stages (rev h)) of
       Some s \<Rightarrow> Inr s
     | None \<Rightarrow> (case inferred_stage (infer_stage_from_error_summary p) of
            Some s \<Rightarrow> Inr s
          | None \<Rightarrow> bindR (infer_stage_from_log_paths p) (\<lambda>t.
                case inferred_stage t of Some s \<Rightarrow> Inr s | None \<Rightarrow> Inr ''relax''))) = Inr s"
    unfolding resolve_current_stage_def bindR_eq_Inr by blast
  have "\<forall>x\<in>set (named_stages p [''current_stage'', ''recovery_stage'', ''resume_stage'', ''target_stage'']
      @ history_stages (rev h)). py_strip x = x"
    using named_stages_stripped history_stages_stripped by auto
  note cand = first_valid_stage_valid [OF _ this]
  have logs: "s \<in> set STAGE_ORDER" if t: "infer_stage_from_log_paths p = Inr t"
    "(case inferred_stage t of Some s \<Rightarrow> Inr s | None \<Rightarrow> Inr ''relax'') = (Inr s :: string res)" for t
  proof (cases "inferred_stage t")
    case (Some u)
    with t inferred_stage_Some [OF Some] show ?thesis by (auto dest: log_path_values)
  qed (use t relax in simp)
  from h show ?thesis
    using logs by (auto split: option.splits dest!: cand dest: inferred_stage_Some error_summary_values)
qed

section \<open>Manual-fix instructions are sound\<close>

lemma custom_rule_Inr:
  "build_custom_resume_rule rs cp mf (Some c) mt req = Inr r \<Longrightarrow> c \<noteq> [] \<Longrightarrow>
   resolve_resume_contract c mt (Some req) (Some rs) (Some cp) (Some mf) = Inr r"
  by (simp add: build_custom_resume_rule_def)

lemma rule_current_known: "resolve_resume_contract c mt req srs scp mf = Inr r \<Longrightarrow> c \<in> set STAGE_ORDER"
  by (auto simp: resolve_resume_contract_def)

lemma build_manual_fix_rule:
  assumes "build_manual_fix_instruction f c w mt rs st cp = Inr i"
  obtains rl pv req srs scp mf where
    "resolve_resume_contract c mt req srs scp mf = Inr rl"
    "build_cleanup_preview f w (rr_resume_stage rl) (rr_cleanup_policy rl) = Inr pv"
    "mi_resume_stage i = rr_resume_stage rl" "mi_cleanup_policy i = rr_cleanup_policy rl"
    "set (mi_invalidated_stages i) = set (cp_invalidated_stages pv)"
    "set (mi_invalidated_artifacts i) = set (cp_invalidated_artifacts pv)"
proof -
  have ne: "[] \<notin> set STAGE_ORDER" "[] \<notin> set cleanup_policy_names"
    by (simp_all add: STAGE_ORDER_def cleanup_policy_names_def)
  from assms obtain b0 rl pv where b0: "compute_default_resume_rule c mt = Inr b0"
    and rl: "(if str_or rs (rr_requested_resume_strategy b0) \<noteq> rr_requested_resume_strategy b0
               \<or> str_or st (rr_resume_stage b0) \<noteq> rr_resume_stage b0
               \<or> str_or cp (rr_cleanup_policy b0) \<noteq> rr_cleanup_policy b0
            then build_custom_resume_rule (str_or st (rr_resume_stage b0)) (str_or cp (rr_cleanup_policy b0))
                   (rr_modified_files b0) (Some c) mt (str_or rs (rr_requested_resume_strategy b0))
            else Inr b0) = Inr rl"
    and pv: "preview_cleanup f w (rr_resume_stage rl) (rr_cleanup_policy rl) = Inr pv"
    and i: "mi_resume_stage i = (if rr_resume_stage rl = [] then rr_resume_stage rl else rr_resume_stage rl)"
      "mi_cleanup_policy i = (if rr_cleanup_policy rl = [] then rr_cleanup_policy rl else rr_cleanup_policy rl)"
      "set (mi_invalidated_stages i) = set (cp_invalidated_stages pv)"
      "set (mi_invalidated_artifacts i) = set (cp_invalidated_artifacts pv)"
    unfolding build_manual_fix_instruction_def bindR_eq_Inr Let_def
    by (elim exE conjE) (force simp: normalize_instruction_def normalize_preview_def Let_def)
  note d = b0 [unfolded compute_default_resume_rule_def]
  have c: "c \<noteq> []" using rule_current_known [OF d] ne by auto
  have "\<exists>req srs scp mf. resolve_resume_contract c mt req srs scp mf = Inr rl"
    using rl d custom_rule_Inr [OF _ c] by (metis (no_types, lifting) Inr_inject)
  then show thesis using that pv i unfolding preview_cleanup_def by auto
qed

lemma build_manual_fix_sound:
  assumes "build_manual_fix_instruction f c w mt rs st cp = Inr i"
  shows "c \<in> set STAGE_ORDER \<and> mi_resume_stage i \<in> set STAGE_ORDER \<and> \<not> stages.before c (mi_resume_stage i)
    \<and> (\<forall>t\<in>set (mi_invalidated_stages i). t = mi_resume_stage i \<or> stages.before (mi_resume_stage i) t)"
proof -
  from assms obtain rl pv req srs scp mf where r: "resolve_resume_contract c mt req srs scp mf = Inr rl"
    and pv: "build_cleanup_preview f w (rr_resume_stage rl) (rr_cleanup_policy rl) = Inr pv"
    and i: "mi_resume_stage i = rr_resume_stage rl" "set (mi_invalidated_stages i) = set (cp_invalidated_stages pv)"
    by (rule build_manual_fix_rule)
  from resolve_resume_contract_Inr(1) [OF r] have v: "c \<in> set STAGE_ORDER" "rr_resume_stage rl \<in> set STAGE_ORDER"
    "\<not> stages.before c (rr_resume_stage rl)" by (simp_all add: validate_resume_request_iff)
  show ?thesis using v i invalidated_later_stage [OF pv] by simp
qed

lemma continue_decision_sound:
  assumes "manual_fix_continue_decision f c w cmd = Inr d" and "hd_action d = ''manual_fix_resume''"
  obtains i rs st cp where "hd_instruction d = Some i" "build_manual_fix_instruction f c w ''custom'' rs st cp = Inr i"
proof -
  have "\<exists>i rs st cp. hd_instruction d = Some i \<and> build_manual_fix_instruction f c w ''custom'' rs st cp = Inr i"
    using assms unfolding manual_fix_continue_decision_def Let_def
    by (auto split: if_splits dest!: make_decision_fields)
  then show thesis using that by blast
qed

section \<open>Round trip of a decision through its resume command\<close>

lemma mapR_str_item [simp]: "mapR str_item (map PStr xs) = Inr xs"
  by (induction xs) auto

lemma parse_dump_preview: "parse_preview (dump_preview p) = Inr (normalize_preview p)"
  by (cases p) (simp add: parse_preview_def dump_preview_def read_str_def read_str_list_def str_list_def)

lemma parse_dump_instruction:
  "parse_instruction (dump_instruction i) =
     Inr (normalize_instruction (i\<lparr>mi_preview := map_option normalize_preview (mi_preview i)\<rparr>))"
  by (cases i; cases "mi_preview i")
    (simp_all add: parse_instruction_def dump_instruction_def read_str_def read_str_list_def str_list_def
      parse_dump_preview)

text \<open>A decision whose instruction went through its constructor once.\<close>

definition normal_instruction :: "ManualFixInstruction \<Rightarrow> bool" where
  "normal_instruction i \<longleftrightarrow> normalize_instruction i = i \<and> map_option normalize_preview (mi_preview i) = mi_preview i"

definition normal_decision :: "HITLDecision \<Rightarrow> bool" where
  "normal_decision d \<longleftrightarrow> wf_decision d \<and>
     (case hd_instruction d of None \<Rightarrow> hd_action d \<noteq> ''manual_fix_resume''
      | Some i \<Rightarrow> hd_action d = ''manual_fix_resume'' \<and> normal_instruction i)"

lemma parse_dump_normal:
  assumes "normal_instruction i"
  shows "parse_instruction (dump_instruction i) = Inr i"
proof -
  from assms have p: "map_option normalize_preview (mi_preview i) = mi_preview i"
    and n: "normalize_instruction i = i" by (simp_all add: normal_instruction_def)
  show ?thesis by (simp add: parse_dump_instruction p n)
qed

lemma strip_actions: "a \<in> set hitl_actions \<Longrightarrow> py_strip a = a \<and> a \<noteq> []"
proof -
  have "\<forall>a\<in>set hitl_actions. py_strip a = a \<and> a \<noteq> []" by code_simp
  then show "a \<in> set hitl_actions \<Longrightarrow> py_strip a = a \<and> a \<noteq> []" by blast
qed

lemma roundtrip_plain:
  assumes wf: "wf_decision d" and none: "hd_instruction d = None" and act: "hd_action d \<noteq> ''manual_fix_resume''"
    and src: "src \<in> set hitl_sources"
  shows "\<exists>cmd. build_resume_command d = Inr cmd \<and> normalize_hitl_decision cmd src = Inr (d\<lparr>hd_source := src\<rparr>)"
proof -
  let ?cmd = "[(''action'', PStr (hd_action d))]
      @ (if hd_reason d \<noteq> [] then [(''reason'', PStr (hd_reason d))] else [])
      @ (if hd_warnings d \<noteq> [] then [(''warnings'', str_list (hd_warnings d))] else [])"
  have b: "build_resume_command d = Inr ?cmd" using act by (simp add: build_resume_command_def)
  from wf have a: "hd_action d \<in> set hitl_actions" and w: "distinct (hd_warnings d)"
    and r: "py_strip (hd_reason d) = hd_reason d" by (simp_all add: wf_decision_def)
  from strip_actions [OF a] have sa: "py_strip (hd_action d) = hd_action d" and an: "hd_action d \<noteq> []" by auto
  have 1: "py_strip (py_str (py_or (py_or (dget0 ?cmd ''action'') (dget0 ?cmd ''decision'')) (PStr []))) = hd_action d"
    using sa an by (simp add: dget0_def dget_def py_or_def)
  have 2: "get_str ?cmd ''reason'' = hd_reason d"
    by (simp add: get_str_def dget0_def dget_def py_or_def)
  have 3: "get_list ?cmd ''warnings'' = Inr (map PStr (hd_warnings d))"
    by (simp add: get_list_def dget_def str_list_def)
  have "normalize_hitl_decision ?cmd src = make_decision (hd_action d) None (hd_reason d) src (hd_warnings d)"
    unfolding normalize_hitl_decision_def Let_def 1 2 3 by (simp add: act r)
  also have "\<dots> = Inr (d\<lparr>hd_source := src\<rparr>)"
    using a src act none r w by (simp add: make_decision_def)
  finally show ?thesis using b by blast
qed

lemma roundtrip_manual:
  assumes wf: "wf_decision d" and i: "hd_instruction d = Some i" and act: "hd_action d = ''manual_fix_resume''"
    and n: "normal_instruction i" and src: "src \<in> set hitl_sources"
  shows "\<exists>cmd. build_resume_command d = Inr cmd \<and> normalize_hitl_decision cmd src =
     Inr (d\<lparr>hd_source := src, hd_reason := py_strip (mi_reason i), hd_warnings := []\<rparr>)"
proof -
  let ?cmd = "[(''action'', PStr ''manual_fix_resume''), (''instruction'', PDict (dump_instruction i))]"
  have b: "build_resume_command d = Inr ?cmd"
    using act i parse_dump_normal [OF n] by (simp add: build_resume_command_def)
  have m: "py_strip ''manual_fix_resume'' = ''manual_fix_resume''" by code_simp
  have a: "''manual_fix_resume'' \<in> set hitl_actions" by (simp add: hitl_actions_def)
  have 1: "py_strip (py_str (py_or (py_or (dget0 ?cmd ''action'') (dget0 ?cmd ''decision'')) (PStr []))) = ''manual_fix_resume''"
    using m by (simp add: dget0_def dget_def py_or_def)
  have 2: "py_str (py_or (py_or (dget0 ?cmd ''reason'') (PStr (mi_reason i))) (PStr [])) = mi_reason i"
    by (simp add: dget0_def dget_def)
  have 3: "dget0 ?cmd ''instruction'' = PDict (dump_instruction i)" by (simp add: dget0_def dget_def)
  have 4: "get_list ?cmd ''warnings'' = Inr (map PStr [])" by (simp add: get_list_def dget_def)
  have "normalize_hitl_decision ?cmd src =
      make_decision ''manual_fix_resume'' (Some i) (py_strip (mi_reason i)) src []"
    unfolding normalize_hitl_decision_def Let_def 1 3 4
    using parse_dump_normal [OF n] 2 by (simp del: list.map)
  also have "\<dots> = Inr (d\<lparr>hd_source := src, hd_reason := py_strip (mi_reason i), hd_warnings := []\<rparr>)"
    using a src act i by (simp add: make_decision_def)
  finally show ?thesis using b by blast
qed

section \<open>Properties of the decisions\<close>

text \<open>C18: Round trip: the resume command that is written for a decision, read back as a response from
  any source, is the same decision with that source; of a manual fix the instruction
  survives, while its reason becomes the instruction's and its warnings are lost.\<close>

theorem resume_command_roundtrip:
  assumes "normal_decision d" and "src \<in> set hitl_sources"
  shows "\<exists>cmd. build_resume_command d = Inr cmd \<and>
    normalize_hitl_decision cmd src =
      Inr (case hd_instruction d of
             None \<Rightarrow> d\<lparr>hd_source := src\<rparr>
           | Some i \<Rightarrow> d\<lparr>hd_source := src, hd_reason := py_strip (mi_reason i), hd_warnings := []\<rparr>)"
  using assms roundtrip_plain [of d src] roundtrip_manual [of d _ src]
  by (cases "hd_instruction d") (simp_all add: normal_decision_def)

theorem resume_command_roundtrip_witness:
  "let d = \<lparr>hd_action = ''skip_material'', hd_instruction = None, hd_reason = ''no time'',
            hd_source = ''interactive'', hd_warnings = [''w'']\<rparr>
   in normal_decision d \<and> (\<exists>cmd. build_resume_command d = Inr cmd
        \<and> normalize_hitl_decision cmd ''response_file'' = Inr (d\<lparr>hd_source := ''response_file''\<rparr>))"
proof -
  let ?d = "\<lparr>hd_action = ''skip_material'', hd_instruction = None, hd_reason = ''no time'',
            hd_source = ''interactive'', hd_warnings = [''w'']\<rparr>"
  have n: "normal_decision ?d" by code_simp
  have s: "''response_file'' \<in> set hitl_sources" by code_simp
  from resume_command_roundtrip [OF n s] n show ?thesis by (simp add: Let_def)
qed

text \<open>C17: Every decision the escalation returns, typed at the terminal, read from a response file or
  taken at the timeout, is well formed: a known action and source, an instruction whenever
  it is a manual fix, a stripped reason and no repeated warning; and the stage the
  escalation is about is a stage of the pipeline.\<close>

theorem escalation_well_formed:
  assumes "resolve_human_decision f cwd payload pol tty ans lines polls = Some (Inr d)"
  shows "wf_decision d \<and> (\<forall>s. resolve_current_stage payload = Inr s \<longrightarrow> s \<in> set STAGE_ORDER)"
  using resolve_human_decision_wf [OF assms] resolve_current_stage_valid by blast

theorem escalation_well_formed_witness:
  "\<exists>d. resolve_human_decision [] ''/w'' [(''error_summary'', PStr ''SCF did not converge'')]
         (Some ''non_interactive_wait'') False TimedOut [] [Absent] = Some (Inr d)
     \<and> wf_decision d \<and> hd_reason d = ''non_interactive_skip_on_timeout_timeout''"
proof -
  let ?d = "\<lparr>hd_action = ''skip_material'', hd_instruction = None,
     hd_reason = ''non_interactive_skip_on_timeout_timeout'', hd_source = ''timeout_default'', hd_warnings = []\<rparr>"
  have h: "resolve_human_decision [] ''/w'' [(''error_summary'', PStr ''SCF did not converge'')]
         (Some ''non_interactive_wait'') False TimedOut [] [Absent] = Some (Inr ?d)" by code_simp
  from escalation_well_formed [OF h] h show ?thesis by simp
qed

text \<open>A manual fix chosen at the terminal is sound: it carries an instruction whose resume stage
  is a known stage not after the stage the escalation is about, and everything it
  invalidates is that stage or a later one.\<close>

theorem interactive_manual_fix_sound:
  assumes "interactive_decision f cwd payload dflt ans lines = Some (Inr d)"
    and "hd_action d = ''manual_fix_resume''"
  shows "\<exists>c i. resolve_current_stage payload = Inr c \<and> hd_instruction d = Some i
    \<and> mi_resume_stage i \<in> set STAGE_ORDER \<and> stage_before c (mi_resume_stage i) = Inr False
    \<and> (\<forall>t\<in>set (mi_invalidated_stages i). t = mi_resume_stage i \<or> stage_before (mi_resume_stage i) t = Inr True)"
proof -
  from assms obtain c w where c: "resolve_current_stage payload = Inr c"
    and loop: "command_loop f c w lines = Some d"
    by (auto simp: interactive_decision_def split: sum.splits if_splits py.splits dest!: make_decision_fields)
  from command_loop_Some [OF loop] obtain l where
    "manual_fix_continue_decision f c w (py_strip l) = Inr d" by blast
  from continue_decision_sound [OF this assms(2)] obtain i rs st cp where
    i: "hd_instruction d = Some i" "build_manual_fix_instruction f c w ''custom'' rs st cp = Inr i" by blast
  from build_manual_fix_sound [OF i(2)] i(1) c show ?thesis by (auto simp: stage_before_iff dest: stages.before_members)
qed

theorem interactive_manual_fix_sound_witness:
  "\<exists>d i. interactive_decision demo_fs ''/w'' [(''current_stage'', PStr ''mobility''), (''working_directory'', PStr ''/w'')]
           ''skip_material'' (Line ''1'') [''nonsense'', [], ''continue 01_relax''] = Some (Inr d)
     \<and> hd_instruction d = Some i \<and> mi_resume_stage i \<in> set STAGE_ORDER"
proof -
  let ?r = "interactive_decision demo_fs ''/w'' [(''current_stage'', PStr ''mobility''), (''working_directory'', PStr ''/w'')]
           ''skip_material'' (Line ''1'') [''nonsense'', [], ''continue 01_relax'']"
  have "case ?r of Some (Inr d) \<Rightarrow> hd_action d = ''manual_fix_resume'' | _ \<Rightarrow> False" by code_simp
  then obtain d where d: "?r = Some (Inr d)" "hd_action d = ''manual_fix_resume''"
    by (auto split: option.splits sum.splits)
  from interactive_manual_fix_sound [OF d] d(1) show ?thesis by blast
qed

text \<open>The decision at the timeout always exists and never is a manual fix: abort under the
  abort policy, the default action when it is one a timeout may take, and skip_material
  otherwise.\<close>

theorem timeout_decision_total:
  "timeout_decision policy dflt =
     Inr \<lparr>hd_action = (if policy = ''non_interactive_abort_on_timeout'' then ''abort_task''
                        else if str_or dflt ''skip_material'' \<in> set timeout_actions then str_or dflt ''skip_material''
                        else ''skip_material''),
          hd_instruction = None, hd_reason = py_strip (policy @ ''_timeout''),
          hd_source = ''timeout_default'', hd_warnings = []\<rparr>
   \<and> ''manual_fix_resume'' \<notin> set timeout_actions"
proof -
  have sub: "set timeout_actions \<subseteq> set hitl_actions" by (simp add: timeout_actions_def hitl_actions_def)
  have s: "''skip_material'' \<in> set timeout_actions" "''abort_task'' \<in> set timeout_actions"
    and m: "''manual_fix_resume'' \<notin> set timeout_actions" by (simp_all add: timeout_actions_def)
  have src: "''timeout_default'' \<in> set hitl_sources" by (simp add: hitl_sources_def)
  have mk: "make_decision a None r ''timeout_default'' [] =
      Inr \<lparr>hd_action = a, hd_instruction = None, hd_reason = py_strip r, hd_source = ''timeout_default'', hd_warnings = []\<rparr>"
    if "a \<in> set timeout_actions" for a r
  proof -
    from that sub m have "a \<in> set hitl_actions" "a \<noteq> ''manual_fix_resume''" by (blast, metis)
    with src show ?thesis by (simp add: make_decision_def)
  qed
  show ?thesis
    using s m mk by (simp add: timeout_decision_def Let_def)
qed



text \<open>The prompt counts options from one, and the answer 0 is not rejected: it selects the last
  option of the list, because Python reads the index minus one from the end.\<close>

theorem option_zero_selects_last:
  assumes "recommended \<noteq> []"
  shows "select_option recommended dflt (Line ''0'') = Inr (last recommended)"
proof -
  have z: "py_strip ''0'' = ''0''" "parse_int ''0'' = Some 0" by code_simp+
  have "py_index recommended (-1) = Inr (last recommended)"
    using assms by (simp add: py_index_def Let_def last_conv_nth nat_diff_distrib')
  then show ?thesis by (simp add: select_option_def Let_def z)
qed

theorem option_zero_selects_last_witness:
  "select_option default_options ''skip_material'' (Line ''0'') = Inr (PStr ''abort_task'')"
  using option_zero_selects_last [of default_options "''skip_material''"] by (simp add: default_options_def)

end
