(* ===== verification/State_Status.thy ===== *)
theory State_Status
  imports Human_Loop
begin

text \<open>
  The status vocabulary of the graph state (first part of mobility_agent/graph/state.py),
  the terminal status (graph/termination.py), the escalation predicates
  (graph/escalation.py), the recovery registry (graph/recovery_registry.py) and the payload
  handed to the human (graph/human_gate.py). A payload argument that may be \<open>None\<close> is the
  empty dict, which is what \<open>dict(payload or {})\<close> makes of it.
\<close>

section \<open>Capabilities and statuses\<close>

definition CAPABILITY_SEQUENCE :: "string list" where
  "CAPABILITY_SEQUENCE =
     [''prepare'', ''relax'', ''scf'', ''band'', ''effective_mass'', ''strain_loop'', ''mobility'', ''validation'']"

definition CAPABILITY_DEPENDENCIES :: "(string \<times> string list) list" where
  "CAPABILITY_DEPENDENCIES =
     [(''prepare'', []), (''relax'', [''prepare'']), (''scf'', [''relax'']), (''band'', [''scf'']),
      (''effective_mass'', [''band'']), (''strain_loop'', [''effective_mass'']),
      (''mobility'', [''strain_loop'']), (''validation'', [''mobility''])]"

definition COMPUTE_CAPABILITIES :: "string list" where
  "COMPUTE_CAPABILITIES = filter (\<lambda>c. c \<noteq> ''validation'') CAPABILITY_SEQUENCE"

definition TERMINAL_RUN_STATUSES :: "string list" where
  "TERMINAL_RUN_STATUSES = [''completed'', ''failed'', ''aborted'', ''skipped'']"

definition WAITING_RUN_STATUSES :: "string list" where
  "WAITING_RUN_STATUSES = [''waiting_external'', ''needs_human'']"

section \<open>The compute status\<close>

definition has_mobility_results_payload :: "dict \<Rightarrow> bool res" where
  "has_mobility_results_payload results =
     bindR (get_dict results ''results_by_direction'') (\<lambda>d. Inr (d \<noteq> []))"

definition has_failed_compute_stage :: "dict \<Rightarrow> bool" where
  "has_failed_compute_stage stage_status =
     list_ex (\<lambda>stage. get_str stage_status stage = ''failed'') COMPUTE_CAPABILITIES"

definition has_completed_compute_payload :: "dict \<Rightarrow> dict \<Rightarrow> bool res" where
  "has_completed_compute_payload results stage_status =
     bindR (has_mobility_results_payload results) (\<lambda>b. Inr (b \<and> \<not> has_failed_compute_stage stage_status))"

definition raw_run_status :: "string option \<Rightarrow> string" where
  "raw_run_status run_status =
     (let s = py_strip (str_or run_status []) in if s = [] then ''pending'' else s)"

definition derive_compute_status :: "string option \<Rightarrow> dict \<Rightarrow> dict \<Rightarrow> string res" where
  "derive_compute_status run_status results stage_status =
     (let raw_status = raw_run_status run_status in
      if raw_status = ''ready_to_finalize'' then Inr ''running''
      else if raw_status \<in> set WAITING_RUN_STATUSES \<or> raw_status \<in> {''pending'', ''running''} then Inr raw_status
      else
        (let compute_failed = has_failed_compute_stage stage_status in
         bindR (has_completed_compute_payload results stage_status) (\<lambda>completed.
           if completed then Inr ''completed''
           else if compute_failed \<or> raw_status \<in> {''failed'', ''aborted''} then Inr ''failed''
           else if raw_status \<in> {''completed'', ''skipped''} then Inr ''skipped''
           else Inr raw_status)))"

definition payload_has_substance :: "py \<Rightarrow> bool" where
  "payload_has_substance value =
     (case value of
        PNone \<Rightarrow> False
      | PStr s \<Rightarrow> py_strip s \<noteq> []
      | PList xs \<Rightarrow> xs \<noteq> []
      | PDict d \<Rightarrow> d \<noteq> []
      | _ \<Rightarrow> True)"

definition meaningful_keys :: "string list" where
  "meaningful_keys =
     [''decision'', ''recommended_action'', ''fit_metrics'', ''channel_reviews'', ''accepted_channels'',
      ''rejected_channels'', ''retained_subchannels'', ''rejected_subchannels'', ''all_subchannels'',
      ''warnings'', ''failed_checks'', ''anomaly_flags'', ''confidence_score'']"

definition has_structured_validation_report_payload :: "dict \<Rightarrow> bool" where
  "has_structured_validation_report_payload validation =
     (if validation = [] then False
      else list_ex (\<lambda>key. payload_has_substance (dget0 validation key)) meaningful_keys)"

definition validation_report_supports_finalize :: "dict \<Rightarrow> string option \<Rightarrow> dict \<Rightarrow> bool" where
  "validation_report_supports_finalize validation validation_stage_status latest =
     (if validation = [] then False
      else if py_strip (str_or validation_stage_status []) = ''success'' then True
      else if py_strip (get_str latest ''target_capability'') = ''validation''
              \<and> py_strip (get_str latest ''status'') \<in> {''success'', ''completed''} then True
      else has_structured_validation_report_payload validation)"

definition derive_compute_status_from_outcome_payload :: "dict \<Rightarrow> string res" where
  "derive_compute_status_from_outcome_payload outcome =
     (let explicit_status = py_strip (get_str outcome ''status'');
          explicit_final_status = py_strip (get_str outcome ''final_status'');
          derive = bindR (get_dict outcome ''results'') (\<lambda>results.
                   bindR (get_dict outcome ''stage_status'') (\<lambda>stage_status.
                     derive_compute_status
                       (Some (if explicit_final_status \<noteq> [] then explicit_final_status
                              else if explicit_status \<noteq> [] then explicit_status else ''pending''))
                       results stage_status))
      in if explicit_status \<noteq> [] \<and> explicit_final_status = [] then
           (if explicit_status = ''ready_to_finalize'' then Inr ''running''
            else if explicit_status \<in> set WAITING_RUN_STATUSES \<or> explicit_status \<in> set TERMINAL_RUN_STATUSES
                    \<or> explicit_status \<in> {''pending'', ''running''} then Inr explicit_status
            else derive)
         else derive)"

definition resolve_outcome_scientific_decision :: "dict \<Rightarrow> string option res" where
  "resolve_outcome_scientific_decision outcome =
     bindR (get_dict outcome ''validation_report'') (\<lambda>validation.
       let decision = py_strip (py_str (py_or (py_or (dget0 outcome ''final_acceptance'')
                                                (dget0 validation ''decision'')) (PStr [])))
       in Inr (if decision = [] then None else Some decision))"

definition scientific_decision_bucket :: "string option \<Rightarrow> string" where
  "scientific_decision_bucket decision =
     (let normalized = py_lower (py_strip (str_or decision [])) in
      if normalized \<in> {''pass'', ''accepted''} then ''passed''
      else if normalized \<in> {''pass_with_warning'', ''accepted_with_warning''} then ''warning''
      else if normalized \<in> {''fail'', ''rejected''} then ''failed''
      else ''unknown'')"

definition resolve_terminal_status ::
  "string option \<Rightarrow> string option \<Rightarrow> string list \<Rightarrow> string option \<Rightarrow> string" where
  "resolve_terminal_status final_acceptance termination_reason errors current_status =
     (if current_status = Some ''skipped'' then ''skipped''
      else if termination_reason \<in> {Some ''abort_task'', Some ''abort_batch''} then ''failed''
      else if termination_reason \<in> {Some ''skip_material'', Some ''skip_point''} then ''skipped''
      else if final_acceptance \<in> {Some ''pass'', Some ''accepted''} then ''completed''
      else if final_acceptance \<in> {Some ''pass_with_warning'', Some ''accepted_with_warning''} then ''completed''
      else if final_acceptance \<in> {Some ''fail'', Some ''rejected''} then ''failed''
      else if errors \<noteq> [] then ''failed''
      else ''completed'')"

section \<open>Escalation\<close>

text \<open>\<open>float(d.get(k, dflt) or 0.0)\<close>.\<close>

definition get_confidence :: "py \<Rightarrow> flt res" where
  "get_confidence v = to_float (py_or v (PFloat (Fin 0)))"

definition should_escalate_recovery :: "dict \<Rightarrow> dict \<Rightarrow> bool res" where
  "should_escalate_recovery summary decision =
     bindR (get_int summary ''retries_used'') (\<lambda>retries_used.
     bindR (get_confidence (dget decision ''confidence'' (PFloat (Fin 1)))) (\<lambda>confidence.
     let error_type = get_str summary ''error_type'' in
     if dget0 decision ''decision'' = PStr ''manual_fix_resume'' then Inr True
     else
       bindR (to_int (py_or (dget summary ''max_retries'' (PInt 2)) (PInt 2))) (\<lambda>max_retries.
       if retries_used \<ge> max_retries then Inr True
       else if error_type \<in> {''unknown_failure'', ''missing_output''} \<and> flt_lt confidence (Fin (3/4)) then Inr True
       else Inr (truthy (dget decision ''should_escalate'' (PBool False))))))"

definition should_escalate_validation :: "dict \<Rightarrow> bool res" where
  "should_escalate_validation validation =
     (let decision = get_str validation ''decision'' in
      bindR (get_confidence (dget validation ''confidence''
               (dget validation ''confidence_score'' (PFloat (Fin 1))))) (\<lambda>confidence.
        Inr (decision = ''escalate'' \<or> flt_lt confidence (Fin (45/100)))))"

definition should_escalate_refinement :: "dict \<Rightarrow> bool" where
  "should_escalate_refinement refinement \<longleftrightarrow> get_str refinement ''decision'' = ''escalate''"

definition STAGE_ALLOWED_ACTIONS :: "(string \<times> string list) list" where
  "STAGE_ALLOWED_ACTIONS =
     [(''prepare'', [''retry_current_stage'', ''manual_fix_resume'', ''skip_material'', ''abort_task'']),
      (''relax'', [''retry_current_stage'', ''modify_params_and_retry'', ''copy_contcar_to_poscar_and_retry'',
         ''manual_fix_resume'', ''skip_material'', ''abort_task'']),
      (''scf'', [''retry_current_stage'', ''rerun_previous_stage'', ''manual_fix_resume'', ''skip_material'', ''abort_task'']),
      (''band'', [''retry_current_stage'', ''rerun_previous_stage'', ''manual_fix_resume'', ''skip_material'', ''abort_task'']),
      (''effective_mass'', [''retry_current_stage'', ''rerun_previous_stage'', ''manual_fix_resume'', ''skip_material'', ''abort_task'']),
      (''strain_loop'', [''retry_current_stage'', ''rerun_previous_stage'', ''manual_fix_resume'', ''skip_point'',
         ''skip_material'', ''abort_task'']),
      (''mobility'', [''retry_current_stage'', ''rerun_previous_stage'', ''manual_fix_resume'', ''skip_material'', ''abort_task''])]"

definition allowed_actions_for_stage :: "string \<Rightarrow> string list" where
  "allowed_actions_for_stage stage =
     (case map_of STAGE_ALLOWED_ACTIONS stage of None \<Rightarrow> [''skip_material'', ''abort_task''] | Some xs \<Rightarrow> xs)"

section \<open>The payload handed to the human\<close>

definition resolve_recovery_stage :: "dict \<Rightarrow> string option res" where
  "resolve_recovery_stage state =
     bindR (get_dict state ''diagnostics'') (\<lambda>diagnostics.
     bindR (get_dict state ''execution'') (\<lambda>execution.
     bindR (get_dict state ''workflow'') (\<lambda>workflow.
     bindR (get_dict execution ''current_action'') (\<lambda>current_action.
     let stage1 = py_strip (get_str current_action ''target_capability'') in
     if stage1 \<noteq> [] then Inr (Some stage1) else
     bindR (get_dict diagnostics ''recovery_summary'') (\<lambda>recovery_summary.
     let stage2 = py_strip (py_str (py_or (py_or (dget0 recovery_summary ''stage'')
                    (dget0 recovery_summary ''current_stage'')) (PStr []))) in
     if stage2 \<noteq> [] then Inr (Some stage2) else
     bindR (get_dict execution ''latest_execution_observation'') (\<lambda>latest_observation.
     let stage3 = py_strip (py_str (py_or (py_or (py_or (dget0 latest_observation ''target_capability'')
                    (dget0 latest_observation ''stage'')) (dget0 latest_observation ''current_stage'')) (PStr []))) in
     if stage3 \<noteq> [] then Inr (Some stage3) else
     (let stage4 = py_strip (get_str workflow ''current_stage'')
      in Inr (if stage4 = [] then None else Some stage4))))))))"

text \<open>The two loops over one piece of evidence: its log paths, then the stdout and stderr paths.\<close>

definition add_log_path :: "string list \<Rightarrow> py \<Rightarrow> string list" where
  "add_log_path log_paths path =
     (let text = py_str path in if text \<noteq> [] \<and> text \<notin> set log_paths then log_paths @ [text] else log_paths)"

definition add_stream_path :: "dict \<Rightarrow> string list \<Rightarrow> string \<Rightarrow> string list" where
  "add_stream_path evidence log_paths key =
     (let v = dget0 evidence key in
      if truthy v then (if py_str v \<notin> set log_paths then log_paths @ [py_str v] else log_paths) else log_paths)"

fun collect_log_paths :: "string list \<Rightarrow> dict \<Rightarrow> string list res" where
  "collect_log_paths log_paths [] = Inr log_paths"
| "collect_log_paths log_paths ((_, PDict evidence) # rest) =
     bindR (get_list evidence ''log_paths'') (\<lambda>paths.
       collect_log_paths
         (foldl (add_stream_path evidence) (foldl add_log_path log_paths paths) [''stdout_path'', ''stderr_path''])
         rest)"
| "collect_log_paths log_paths (_ # rest) = collect_log_paths log_paths rest"

text \<open>\<open>v[-n:]\<close>: a slice of a list or a string.\<close>

definition slice_last :: "nat \<Rightarrow> py \<Rightarrow> py res" where
  "slice_last n v =
     (case v of
        PList xs \<Rightarrow> Inr (PList (drop (length xs - n) xs))
      | PStr s \<Rightarrow> Inr (PStr (drop (length s - n) s))
      | _ \<Rightarrow> Inl (TypeError ''slice''))"

definition opt_str :: "string option \<Rightarrow> py" where
  "opt_str s = (case s of None \<Rightarrow> PNone | Some t \<Rightarrow> PStr t)"

text \<open>\<open>(state.get(k, {}) or {}).get(j, {}) or {}\<close> as a dict.\<close>

definition get_or_empty :: "dict \<Rightarrow> string \<Rightarrow> dict res" where
  "get_or_empty d k =
     (case py_or (dget d k (PDict [])) (PDict []) of PDict e \<Rightarrow> Inr e | _ \<Rightarrow> Inl (AttributeError ''get''))"

definition build_human_escalation_payload :: "dict \<Rightarrow> string list \<Rightarrow> dict res" where
  "build_human_escalation_payload state options =
     bindR (get_dict state ''task'') (\<lambda>task.
     bindR (get_dict state ''material'') (\<lambda>material.
     bindR (get_dict state ''workflow'') (\<lambda>workflow.
     bindR (get_dict state ''diagnostics'') (\<lambda>diagnostics.
     bindR (get_dict state ''execution'') (\<lambda>execution.
     bindR (get_dict diagnostics ''raw_evidence'') (\<lambda>raw_evidence.
     bindR (collect_log_paths [] raw_evidence) (\<lambda>log_paths.
     bindR (resolve_recovery_stage state) (\<lambda>effective_stage.
     bindR (slice_last 3 (dget diagnostics ''recovery_history'' (PList []))) (\<lambda>recent.
     bindR (get_dict execution ''latest_execution_observation'') (\<lambda>latest.
     bindR (get_or_empty state ''physics_results'') (\<lambda>physics.
     bindR (get_dict physics ''results'') (\<lambda>results.
       Inr [(''task_id'', dget0 task ''task_id''),
            (''material_id'', dget0 material ''material_id''),
            (''current_stage'', opt_str effective_stage),
            (''graph_node'', dget0 workflow ''current_stage''),
            (''error_summary'', dget0 diagnostics ''last_error''),
            (''recovery_history_summary'', recent),
            (''validation_summary'', dget0 diagnostics ''validation_report''),
            (''recommended_options'', str_list options),
            (''working_directory'', dget0 execution ''workdir''),
            (''log_paths'', str_list log_paths),
            (''timeout_policy'', PStr ''skip_material_after_300s''),
            (''latest_observation_status'', dget0 latest ''status''),
            (''compute_completed'', PBool (truthy (dget0 results ''results_by_direction'')))]))))))))))))"

section \<open>The capability chain\<close>

interpretation caps: chain CAPABILITY_SEQUENCE
  by unfold_locales (simp add: CAPABILITY_SEQUENCE_def)

lemma dependencies_table:
  "map_of CAPABILITY_DEPENDENCIES c = Some ds \<Longrightarrow> d \<in> set ds \<Longrightarrow> caps.before d c"
proof -
  have "\<forall>(c, ds)\<in>set CAPABILITY_DEPENDENCIES. \<forall>d\<in>set ds. caps.before d c"
    unfolding caps.before_code by code_simp
  then show "map_of CAPABILITY_DEPENDENCIES c = Some ds \<Longrightarrow> d \<in> set ds \<Longrightarrow> caps.before d c"
    by (auto dest!: map_of_SomeD)
qed

lemma compute_capabilities_values:
  "COMPUTE_CAPABILITIES = [''prepare'', ''relax'', ''scf'', ''band'', ''effective_mass'', ''strain_loop'', ''mobility'']"
  by (simp add: COMPUTE_CAPABILITIES_def CAPABILITY_SEQUENCE_def)

section \<open>Log paths\<close>

lemma add_log_path_inv: "distinct ls \<and> [] \<notin> set ls \<Longrightarrow> distinct (add_log_path ls p) \<and> [] \<notin> set (add_log_path ls p)"
  by (auto simp: add_log_path_def Let_def)

lemma py_repr_ne: "py_repr v = [] \<Longrightarrow> v = PNone"
proof (induction v rule: py_repr.induct)
  case (3 i)
  have "nat_digits n \<noteq> []" for n by (subst nat_digits.simps) simp
  with 3 show ?case by (simp add: show_int_def split: if_splits)
next
  case (4 x)
  have "nat_digits n \<noteq> []" for n by (subst nat_digits.simps) simp
  then have "str_flt x \<noteq> []" by (cases x rule: str_flt.cases) (auto simp: show_int_def split: prod.splits)
  with 4 show ?case by simp
qed (auto simp: repr_str_def split: if_splits)

lemma truthy_text: "truthy v \<Longrightarrow> py_str v \<noteq> []"
  using py_repr_ne [of v] by (cases v) (auto simp: py_str_def)

lemma add_stream_path_inv:
  "distinct ls \<and> [] \<notin> set ls \<Longrightarrow> distinct (add_stream_path e ls k) \<and> [] \<notin> set (add_stream_path e ls k)"
  using truthy_text by (force simp: add_stream_path_def Let_def)

lemma foldl_inv: "P a \<Longrightarrow> (\<And>a x. P a \<Longrightarrow> P (f a x)) \<Longrightarrow> P (foldl f a xs)"
  by (induction xs arbitrary: a) auto

lemma collect_log_paths_inv:
  "collect_log_paths ls ev = Inr rs \<Longrightarrow> distinct ls \<and> [] \<notin> set ls \<Longrightarrow> distinct rs \<and> [] \<notin> set rs"
proof (induction ls ev rule: collect_log_paths.induct)
  case (2 ls k evidence rest)
  from 2(2) obtain paths where p: "get_list evidence ''log_paths'' = Inr paths"
    and c: "collect_log_paths (foldl (add_stream_path evidence) (foldl add_log_path ls paths)
              [''stdout_path'', ''stderr_path'']) rest = Inr rs" by auto
  let ?inv = "\<lambda>ls. distinct ls \<and> [] \<notin> set ls"
  have "?inv (foldl add_log_path ls paths)"
    using 2(3) by (rule foldl_inv) (rule add_log_path_inv)
  then have "?inv (foldl (add_stream_path evidence) (foldl add_log_path ls paths) [''stdout_path'', ''stderr_path''])"
    by (rule foldl_inv) (rule add_stream_path_inv)
  with 2(1) [OF c] show ?case by blast
qed auto

lemma collect_log_paths_mono: "collect_log_paths ls ev = Inr rs \<Longrightarrow> set ls \<subseteq> set rs"
proof (induction ls ev rule: collect_log_paths.induct)
  case (2 ls k evidence rest)
  have a: "set ls \<subseteq> set (foldl add_log_path ls ps)" for ls ps
    by (rule foldl_inv) (auto simp: add_log_path_def Let_def)
  have b: "set ls \<subseteq> set (foldl (add_stream_path evidence) ls ks)" for ls ks
    by (rule foldl_inv) (auto simp: add_stream_path_def Let_def)
  from 2(2) obtain paths where p: "get_list evidence ''log_paths'' = Inr paths"
    and c: "collect_log_paths (foldl (add_stream_path evidence) (foldl add_log_path ls paths)
              [''stdout_path'', ''stderr_path'']) rest = Inr rs" by auto
  from 2(1) [OF c] a b show ?case by blast
qed auto

section \<open>The stage of the payload\<close>

lemma alias_of_stage: "s \<in> set STAGE_ORDER \<Longrightarrow> normalize_stage_alias s = Some s \<and> py_strip s = s \<and> s \<noteq> []"
proof -
  have "\<forall>s\<in>set STAGE_ORDER. normalize_stage_alias s = Some s \<and> py_strip s = s \<and> s \<noteq> []" by code_simp
  then show "s \<in> set STAGE_ORDER \<Longrightarrow> normalize_stage_alias s = Some s \<and> py_strip s = s \<and> s \<noteq> []" by blast
qed

lemma first_valid_stage_hd:
  "s \<in> set STAGE_ORDER \<Longrightarrow> first_valid_stage (s # ss) = Some s"
  using alias_of_stage [of s] by (simp add: valid_resume_stage_iff)

lemma slice_last_list: "slice_last n v = Inr w \<Longrightarrow> \<exists>xs. to_list (py_or w (PList [])) = Inr xs"
  by (cases v) (auto simp: slice_last_def py_or_def)

lemma payload_fields:
  assumes "build_human_escalation_payload state opts = Inr p"
  obtains stage ev ls hist where
    "resolve_recovery_stage state = Inr stage" "dget0 p ''current_stage'' = opt_str stage"
    "collect_log_paths [] ev = Inr ls" "dget0 p ''log_paths'' = str_list ls"
    "get_list p ''recovery_history_summary'' = Inr hist"
proof -
  from assms obtain stage ev ls diag recent where
    s: "resolve_recovery_stage state = Inr stage" and l: "collect_log_paths [] ev = Inr ls"
    and r: "slice_last 3 (dget diag ''recovery_history'' (PList [])) = Inr recent"
    and p: "dget0 p ''current_stage'' = opt_str stage" "dget0 p ''log_paths'' = str_list ls"
      "dget p ''recovery_history_summary'' (PList []) = recent"
    unfolding build_human_escalation_payload_def bindR_eq_Inr
    by (elim exE conjE) (force simp: dget0_def dget_def)
  from slice_last_list [OF r] obtain hist where "get_list p ''recovery_history_summary'' = Inr hist"
    using p(3) by (auto simp: get_list_def)
  with that s l p(1,2) show thesis by blast
qed

section \<open>Properties of the statuses and of escalation\<close>

text \<open>A run counts as completed exactly when it is neither waiting nor still to run, has mobility
  results for some direction and no compute stage that failed; in particular a run whose
  status says completed but which has no results is never reported as completed.\<close>

theorem compute_status_completed_iff:
  "derive_compute_status rs results stage_status = Inr ''completed'' \<longleftrightarrow>
     has_mobility_results_payload results = Inr True \<and> \<not> has_failed_compute_stage stage_status
     \<and> raw_run_status rs \<notin> set ([''ready_to_finalize'', ''pending'', ''running''] @ WAITING_RUN_STATUSES)"
proof -
  have w: "''completed'' \<notin> set WAITING_RUN_STATUSES" by (simp add: WAITING_RUN_STATUSES_def)
  let ?r = "raw_run_status rs"
  consider "?r = ''ready_to_finalize''" | "?r \<noteq> ''ready_to_finalize''" "?r \<in> set WAITING_RUN_STATUSES \<or> ?r \<in> {''pending'', ''running''}"
    | "?r \<noteq> ''ready_to_finalize''" "\<not> (?r \<in> set WAITING_RUN_STATUSES \<or> ?r \<in> {''pending'', ''running''})" by blast
  then show ?thesis
  proof cases
    case 2
    then have "?r \<noteq> ''completed''" using w by auto
    with 2 show ?thesis by (auto simp: derive_compute_status_def Let_def)
  next
    case 3
    then show ?thesis
      by (cases "has_mobility_results_payload results")
        (simp_all add: derive_compute_status_def has_completed_compute_payload_def Let_def)
  qed (simp add: derive_compute_status_def Let_def)
qed

text \<open>The terminal status of a run that nobody stopped agrees with the bucket of its scientific
  decision, for a decision in canonical spelling: passed and warning complete the run,
  failed fails it, and without a known decision the recorded errors decide.\<close>

theorem terminal_status_agrees_with_bucket:
  assumes "py_lower (py_strip a) = a"
  shows "resolve_terminal_status (Some a) None errors None =
    (if scientific_decision_bucket (Some a) \<in> {''passed'', ''warning''} then ''completed''
     else if scientific_decision_bucket (Some a) = ''failed'' then ''failed''
     else if errors \<noteq> [] then ''failed'' else ''completed'')"
proof -
  have "str_or (Some a) [] = a" by (simp add: str_or_def)
  then show ?thesis
    using assms by (simp add: resolve_terminal_status_def scientific_decision_bucket_def Let_def)
qed

theorem terminal_status_agrees_with_bucket_witness:
  "resolve_terminal_status (Some ''accepted_with_warning'') None [''e''] None = ''completed''"
proof -
  have "py_lower (py_strip ''accepted_with_warning'') = ''accepted_with_warning''" by code_simp
  from terminal_status_agrees_with_bucket [OF this, of "[''e'']"]
  show ?thesis by (simp add: scientific_decision_bucket_def Let_def \<open>py_lower _ = _\<close>)
qed

text \<open>When a recovery is escalated: the decision asks for a manual fix or for escalation, the
  retries reach the budget, or an unknown failure is judged with low confidence. A budget of
  zero retries is read as two.\<close>

theorem recovery_escalation_bound:
  assumes "get_int summary ''retries_used'' = Inr r"
    and "get_confidence (dget decision ''confidence'' (PFloat (Fin 1))) = Inr c"
  shows "should_escalate_recovery (dset summary ''max_retries'' (PInt m)) decision =
    Inr (dget0 decision ''decision'' = PStr ''manual_fix_resume''
       \<or> (if m = 0 then 2 else m) \<le> r
       \<or> (get_str summary ''error_type'' \<in> {''unknown_failure'', ''missing_output''} \<and> flt_lt c (Fin (3/4)))
       \<or> truthy (dget decision ''should_escalate'' (PBool False)))"
proof -
  define k where "k = (if m = 0 then 2 else m)"
  have m: "to_int (py_or (PInt m) (PInt 2)) = Inr k" by (simp add: py_or_def k_def)
  show ?thesis
    unfolding k_def [symmetric] should_escalate_recovery_def get_int_dset get_str_dset dget_dset
    using assms by (simp add: Let_def m)
qed

theorem recovery_escalation_bound_witness:
  "should_escalate_recovery (dset [(''retries_used'', PInt 1), (''error_type'', PStr ''zbrent'')] ''max_retries'' (PInt 0)) []
     = Inr False"
proof -
  have "get_int [(''retries_used'', PInt 1), (''error_type'', PStr ''zbrent'')] ''retries_used'' = Inr 1"
    and "get_confidence (dget [] ''confidence'' (PFloat (Fin 1))) = Inr (Fin 1)" by code_simp+
  from recovery_escalation_bound [OF this, of 0]
  show ?thesis by (simp add: get_str_def dget0_def dget_def py_or_def)
qed

text \<open>The payload handed to the human is one the dialogue can start from: its log paths are
  non-empty and never repeated, and the stage the dialogue works on is a stage of the
  pipeline, the stage under recovery itself whenever that is one.\<close>

theorem escalation_payload_sound:
  assumes "build_human_escalation_payload state opts = Inr p"
    and "resolve_recovery_stage state = Inr (Some t)" and "t \<in> set STAGE_ORDER"
  shows "resolve_current_stage p = Inr t
    \<and> (\<exists>ls. dget0 p ''log_paths'' = str_list ls \<and> distinct ls \<and> [] \<notin> set ls)"
proof -
  from assms(1) obtain stage ev ls hist where f: "resolve_recovery_stage state = Inr stage"
    "dget0 p ''current_stage'' = opt_str stage" "collect_log_paths [] ev = Inr ls"
    "dget0 p ''log_paths'' = str_list ls" "get_list p ''recovery_history_summary'' = Inr hist"
    by (rule payload_fields)
  from f(1) assms(2) have "stage = Some t" by simp
  with f(2) have c: "dget0 p ''current_stage'' = PStr t" by (simp add: opt_str_def)
  from alias_of_stage [OF assms(3)] have t: "py_strip t = t" "t \<noteq> []" by auto
  have "named_stages p [''current_stage'', ''recovery_stage'', ''resume_stage'', ''target_stage'']
      = t # named_stages p [''recovery_stage'', ''resume_stage'', ''target_stage'']"
    using c t by (simp add: named_stages_def get_str_def)
  then have "resolve_current_stage p = Inr t"
    using f(5) first_valid_stage_hd [OF assms(3)] by (simp add: resolve_current_stage_def del: first_valid_stage.simps)
  with f(4) collect_log_paths_inv [OF f(3)] show ?thesis by auto
qed

theorem escalation_payload_sound_witness:
  "\<exists>p. build_human_escalation_payload
      [(''execution'', PDict [(''current_action'', PDict [(''target_capability'', PStr ''scf '')])]),
       (''diagnostics'', PDict [(''raw_evidence'', PDict [(''e1'', PDict [(''stdout_path'', PStr ''/w/a''), (''log_paths'', PList [PStr ''/w/a''])])])])]
      [''skip_material''] = Inr p \<and> resolve_current_stage p = Inr ''scf''"
proof -
  let ?s = "[(''execution'', PDict [(''current_action'', PDict [(''target_capability'', PStr ''scf '')])]),
       (''diagnostics'', PDict [(''raw_evidence'', PDict [(''e1'', PDict [(''stdout_path'', PStr ''/w/a''), (''log_paths'', PList [PStr ''/w/a''])])])])]"
  have "\<not> isl (build_human_escalation_payload ?s [''skip_material''])" by code_simp
  then obtain p where p: "build_human_escalation_payload ?s [''skip_material''] = Inr p"
    by (cases "build_human_escalation_payload ?s [''skip_material'']") auto
  have r: "resolve_recovery_stage ?s = Inr (Some ''scf'')" and m: "''scf'' \<in> set STAGE_ORDER" by code_simp+
  from escalation_payload_sound [OF p r m] p show ?thesis by blast
qed

end
