(* ===== verification/State_Model.thy ===== *)
theory State_Model
  imports State_Status
begin

text \<open>
  The shared state of a run (mobility_agent/graph/state.py): the section models with their
  field types and defaults, validation of a JSON payload, and the normalisation every state
  goes through. A state is the dict of its sections, as \<open>to_dict\<close> dumps it.

  The conversion of one field value to its declared type is done by pydantic, which is not
  part of the repository: it is the parameter \<open>coerce\<close>. What the development relies on is
  the interface \<open>validator\<close>: a validated value has the declared type, and a value that
  already has the declared type is kept as it is. The clock and the fresh identifiers are
  the record \<open>env\<close>; the clock is read once per validation.
\<close>

section \<open>Field types\<close>

datatype ftype =
    TStr | TOptStr | TBool | TInt | TOptInt | TFloat | TOptFloat | TLit "string list"
  | TDict | TDictStr | TDictInt | TDictFloats | TListStr | TListDict | TListFloat | TListFloats

definition is_float :: "py \<Rightarrow> bool" where
  "is_float v = (case v of PFloat _ \<Rightarrow> True | _ \<Rightarrow> False)"

definition is_int :: "py \<Rightarrow> bool" where
  "is_int v = (case v of PInt _ \<Rightarrow> True | _ \<Rightarrow> False)"

definition list_of :: "(py \<Rightarrow> bool) \<Rightarrow> py \<Rightarrow> bool" where
  "list_of p v = (case v of PList xs \<Rightarrow> list_all p xs | _ \<Rightarrow> False)"

definition dict_of :: "(py \<Rightarrow> bool) \<Rightarrow> py \<Rightarrow> bool" where
  "dict_of p v = (case v of PDict d \<Rightarrow> distinct (map fst d) \<and> list_all (p \<circ> snd) d | _ \<Rightarrow> False)"

fun of_type :: "ftype \<Rightarrow> py \<Rightarrow> bool" where
  "of_type TStr v = is_str v"
| "of_type TOptStr v = (v = PNone \<or> is_str v)"
| "of_type TBool v = (v = PBool True \<or> v = PBool False)"
| "of_type TInt v = is_int v"
| "of_type TOptInt v = (v = PNone \<or> is_int v)"
| "of_type TFloat v = is_float v"
| "of_type TOptFloat v = (v = PNone \<or> is_float v)"
| "of_type (TLit xs) v = (v \<in> set (map PStr xs))"
| "of_type TDict v = dict_of (\<lambda>_. True) v"
| "of_type TDictStr v = dict_of is_str v"
| "of_type TDictInt v = dict_of is_int v"
| "of_type TDictFloats v = dict_of (list_of is_float) v"
| "of_type TListStr v = list_of is_str v"
| "of_type TListDict v = list_of (dict_of (\<lambda>_. True)) v"
| "of_type TListFloat v = list_of is_float v"
| "of_type TListFloats v = list_of (list_of is_float) v"

type_synonym coercion = "ftype \<Rightarrow> py \<Rightarrow> py res"

type_synonym fields = "(string \<times> ftype \<times> py) list"

record env =
  now :: string
  fresh_id :: string
  cwd :: string

section \<open>The sections of the state\<close>

definition TaskSection :: "env \<Rightarrow> fields" where
  "TaskSection e =
     [(''task_id'', TStr, PStr (fresh_id e)),
      (''task_type'', TLit [''single_material'', ''batch_database''], PStr ''single_material''),
      (''user_goal'', TStr, PStr []),
      (''root_path'', TStr, PStr []),
      (''collection_name'', TOptStr, PNone),
      (''parent_batch_id'', TOptStr, PNone),
      (''created_at'', TStr, PStr (now e)),
      (''updated_at'', TStr, PStr (now e)),
      (''dry_run'', TBool, PBool False)]"

definition MaterialSection :: fields where
  "MaterialSection =
     [(''material_id'', TStr, PStr ''2D_Material''),
      (''composition'', TOptStr, PNone),
      (''structure_summary'', TDict, PDict []),
      (''structure_metadata'', TDict, PDict []),
      (''atom_count'', TInt, PInt 0),
      (''preflight_summary'', TDict, PDict []),
      (''preflight_tags'', TListStr, PList []),
      (''warnings'', TListStr, PList []),
      (''poscar_path'', TOptStr, PNone),
      (''potcar_path'', TOptStr, PNone)]"

definition WorkflowSection :: fields where
  "WorkflowSection =
     [(''current_stage'', TStr, PStr ''observe_state''),
      (''completed_stages'', TListStr, PList []),
      (''stage_status'', TDictStr, PDict []),
      (''run_status'', TStr, PStr ''pending''),
      (''next_action'', TOptStr, PNone),
      (''retry_budget'', TInt, PInt 2),
      (''retry_counts'', TDictInt, PDict []),
      (''refinement_rounds'', TInt, PInt 0),
      (''max_refinement_rounds'', TInt, PInt 1),
      (''termination_reason'', TOptStr, PNone),
      (''wait_reason'', TOptStr, PNone),
      (''escalated_to_human'', TBool, PBool False),
      (''pending_human_action'', TDict, PDict []),
      (''pending_action_payload'', TDict, PDict [])]"

definition MissionSection :: fields where
  "MissionSection =
     [(''user_goal'', TStr, PStr []),
      (''material_id'', TStr, PStr ''2D_Material''),
      (''required_outputs'', TListStr, str_list [''mobility_results'', ''validation_report'', ''final_summary'']),
      (''reliability_target'', TStr, PStr ''high''),
      (''cost_budget'', TDict, PDict [(''retry_budget'', PInt 2), (''refinement_budget'', PInt 1)]),
      (''runtime_constraints'', TDict, PDict [])]"

definition BlackboardSection :: fields where
  "BlackboardSection =
     [(''validated_facts'', TDict, PDict []),
      (''observations'', TListDict, PList []),
      (''parsed_artifacts'', TDict, PDict []),
      (''intermediate_results'', TDict, PDict []),
      (''risk_flags'', TListStr, PList []),
      (''anomaly_flags'', TListStr, PList []),
      (''latest_execution_observation'', TDict, PDict [])]"

definition TaskBoardSection :: fields where
  "TaskBoardSection =
     [(''pending_tasks'', TListDict, PList []),
      (''active_tasks'', TListDict, PList []),
      (''completed_tasks'', TListDict, PList []),
      (''blocked_tasks'', TListDict, PList []),
      (''abandoned_tasks'', TListDict, PList [])]"

definition DeliberationSection :: fields where
  "DeliberationSection =
     [(''round_index'', TInt, PInt 0),
      (''rounds'', TListDict, PList []),
      (''proposals'', TListDict, PList []),
      (''critiques'', TListDict, PList []),
      (''preferences'', TListDict, PList []),
      (''arbitrations'', TListDict, PList []),
      (''selected_actions'', TListDict, PList []),
      (''reflections'', TListDict, PList []),
      (''disagreement_records'', TListDict, PList []),
      (''rationale_history'', TListStr, PList [])]"

definition ExecutionSection :: fields where
  "ExecutionSection =
     [(''workdir'', TStr, PStr []),
      (''thread_id'', TOptStr, PNone),
      (''artifact_paths'', TDictStr, PDict []),
      (''artifact_registry'', TDictStr, PDict []),
      (''latest_tool_name'', TOptStr, PNone),
      (''latest_tool_result'', TDict, PDict []),
      (''latest_execution_observation'', TDict, PDict []),
      (''current_action'', TDict, PDict []),
      (''action_status'', TStr, PStr ''pending''),
      (''tool_trace'', TListDict, PList []),
      (''tool_invocations'', TListDict, PList []),
      (''skill_trace'', TListDict, PList []),
      (''failure_history'', TListDict, PList []),
      (''job_ids'', TDict, PDict []),
      (''external_jobs'', TListDict, PList []),
      (''pending_events'', TListDict, PList []),
      (''event_history'', TListDict, PList []),
      (''consumed_event_ids'', TListStr, PList []),
      (''latest_event'', TDict, PDict []),
      (''resume_markers'', TDict, PDict []),
      (''environment_summary'', TDict, PDict []),
      (''compatibility_checkpoint_path'', TOptStr, PNone),
      (''compatibility_checkpoint_history'', TListStr, PList []),
      (''workdir_inputs_ready'', TBool, PBool False),
      (''pending_parameter_updates'', TDict, PDict []),
      (''execution_checkpoint'', TDict, PDict [])]"

definition DiagnosticsSection :: fields where
  "DiagnosticsSection =
     [(''errors'', TListStr, PList []),
      (''last_error'', TOptStr, PNone),
      (''recovery_history'', TListDict, PList []),
      (''recovery_summary'', TDict, PDict []),
      (''fit_diagnostics'', TDict, PDict []),
      (''strain_summary'', TDict, PDict []),
      (''confidence_score'', TOptFloat, PNone),
      (''low_confidence_reason'', TOptStr, PNone),
      (''validation_report'', TDict, PDict []),
      (''quality_grade'', TOptStr, PNone),
      (''consultation_trace'', TListDict, PList []),
      (''raw_evidence'', TDict, PDict []),
      (''recovery_diagnosis'', TDict, PDict [])]"

definition default_strains :: py where
  "default_strains = PList (map (PFloat \<circ> Fin) [-2/100, -1/100, 0, 1/100, 2/100])"

definition PhysicsResultsSection :: fields where
  "PhysicsResultsSection =
     [(''prepare_summary'', TDict, PDict []),
      (''relax_summary'', TDict, PDict []),
      (''scf_summary'', TDict, PDict []),
      (''band_summary'', TDict, PDict []),
      (''effective_mass_summary'', TDict, PDict []),
      (''strain_data_summary'', TDict, PDict []),
      (''deformation_potential_summary'', TDict, PDict []),
      (''elasticity_summary'', TDict, PDict []),
      (''mobility_summary'', TDict, PDict []),
      (''masses'', TDict, PDict []),
      (''E1'', TDict, PDict []),
      (''C2D'', TDict, PDict []),
      (''mobility'', TDict, PDict []),
      (''accepted_channels'', TListStr, str_list [''x'', ''y'']),
      (''rejected_channels'', TListStr, PList []),
      (''strain_plan_by_direction'', TDictFloats, PDict [(''x'', default_strains), (''y'', default_strains)]),
      (''strain_data'', TListDict, PList []),
      (''relaxed_structure_path'', TOptStr, PNone),
      (''reciprocal_lattice'', TListFloats, PList []),
      (''fermi_energy'', TOptFloat, PNone),
      (''vbm_energy'', TOptFloat, PNone),
      (''cbm_energy'', TOptFloat, PNone),
      (''vbm_kpoint'', TListFloat, PList []),
      (''cbm_kpoint'', TListFloat, PList []),
      (''vbm_band_index'', TOptInt, PNone),
      (''cbm_band_index'', TOptInt, PNone),
      (''vbm_spin'', TOptInt, PNone),
      (''cbm_spin'', TOptInt, PNone),
      (''results'', TDict, PDict [])]"

definition AgentSection :: fields where
  "AgentSection =
     [(''decision_engine'', TStr, PStr ''llm_required''),
      (''llm_required'', TBool, PBool True),
      (''llm_provider'', TStr, PStr ''openai''),
      (''agent_decisions'', TListDict, PList []),
      (''decision_trace'', TListDict, PList []),
      (''loaded_skills'', TListStr, PList [])]"

definition AgentWorkspacesSection :: fields where
  "AgentWorkspacesSection =
     [(''orchestrator_workspace'', TDict, PDict []),
      (''planner_workspace'', TDict, PDict []),
      (''recovery_workspace'', TDict, PDict []),
      (''critic_workspace'', TDict, PDict []),
      (''judge_workspace'', TDict, PDict []),
      (''cost_guardian_workspace'', TDict, PDict []),
      (''executor_workspace'', TDict, PDict []),
      (''reporter_workspace'', TDict, PDict [])]"

definition MemorySection :: fields where
  "MemorySection =
     [(''recovered_case_patterns'', TListDict, PList []),
      (''validation_case_patterns'', TListDict, PList []),
      (''historical_failures'', TListDict, PList []),
      (''reusable_heuristics'', TListDict, PList [])]"

definition ServicesSection :: fields where
  "ServicesSection =
     [(''loaded_skills'', TListStr, PList []),
      (''skill_resolution'', TDict, PDict []),
      (''available_agent_tools'', TListDict, PList []),
      (''llm_context_summary'', TDict, PDict []),
      (''pending_human_payload'', TDict, PDict []),
      (''latest_human_decision'', TDict, PDict []),
      (''termination_requested'', TBool, PBool False),
      (''final_report'', TDict, PDict []),
      (''selected_action_requires_execution'', TBool, PBool False),
      (''deliberation_mode'', TStr, PStr ''hierarchical_multi_agent''),
      (''framework_diagnostics'', TListDict, PList []),
      (''parameter_plans'', TDict, PDict []),
      (''retrieval_trace'', TListDict, PList []),
      (''workflow_contract'', TDict, PDict []),
      (''workflow_contract_history'', TListDict, PList []),
      (''capability_registry'', TListDict, PList []),
      (''decision_ledger'', TListDict, PList []),
      (''step_checkpoints'', TListDict, PList []),
      (''material_job'', TDict, PDict []),
      (''council_output_cache'', TDict, PDict []),
      (''council_round_metrics'', TListDict, PList []),
      (''runtime_strategy'', TDict, PDict [])]"

definition BatchSection :: fields where
  "BatchSection =
     [(''queue'', TListDict, PList []),
      (''running_items'', TListDict, PList []),
      (''completed_items'', TListDict, PList []),
      (''failed_items'', TListDict, PList []),
      (''skipped_items'', TListDict, PList []),
      (''global_statistics'', TDict, PDict [])]"

definition MaterialTaskState :: "env \<Rightarrow> (string \<times> fields) list" where
  "MaterialTaskState e =
     [(''task'', TaskSection e), (''material'', MaterialSection), (''workflow'', WorkflowSection),
      (''mission'', MissionSection), (''blackboard'', BlackboardSection), (''task_board'', TaskBoardSection),
      (''deliberation'', DeliberationSection), (''execution'', ExecutionSection),
      (''diagnostics'', DiagnosticsSection), (''physics_results'', PhysicsResultsSection),
      (''agent'', AgentSection), (''agent_workspaces'', AgentWorkspacesSection),
      (''memory'', MemorySection), (''services'', ServicesSection), (''batch'', BatchSection)]"

definition STATE_TOP_LEVEL_SECTIONS :: "string list" where
  "STATE_TOP_LEVEL_SECTIONS = map fst (MaterialTaskState \<lparr>now = [], fresh_id = [], cwd = []\<rparr>)"

section \<open>Validation\<close>

fun validate_fields :: "coercion \<Rightarrow> fields \<Rightarrow> dict \<Rightarrow> dict res" where
  "validate_fields coerce [] d = Inr []"
| "validate_fields coerce ((k, t, dflt) # fs) d =
     bindR (case map_of d k of None \<Rightarrow> Inr dflt | Some v \<Rightarrow> coerce t v) (\<lambda>x.
     bindR (validate_fields coerce fs d) (\<lambda>r. Inr ((k, x) # r)))"

fun validate_sections :: "coercion \<Rightarrow> (string \<times> fields) list \<Rightarrow> dict \<Rightarrow> dict res" where
  "validate_sections coerce [] d = Inr []"
| "validate_sections coerce ((s, fs) # rest) d =
     bindR (case map_of d s of
              None \<Rightarrow> validate_fields coerce fs []
            | Some (PDict sd) \<Rightarrow> validate_fields coerce fs sd
            | Some _ \<Rightarrow> Inl (ValidationError s)) (\<lambda>x.
     bindR (validate_sections coerce rest d) (\<lambda>r. Inr ((s, PDict x) # r)))"

section \<open>Normalisation\<close>

definition normalize_llm_provider :: "string \<Rightarrow> string" where
  "normalize_llm_provider value =
     (let raw = py_lower (py_strip value) in
      if raw = [] then ''openai''
      else if raw \<in> {''openai_compatible'', ''openai-compatible''} then ''openai''
      else raw)"

text \<open>A section of a state and a field of it, and the assignment \<open>state.section.field = v\<close>.\<close>

definition sec :: "dict \<Rightarrow> string \<Rightarrow> dict" where
  "sec st s = (case dget0 st s of PDict d \<Rightarrow> d | _ \<Rightarrow> [])"

definition fld :: "dict \<Rightarrow> string \<Rightarrow> string \<Rightarrow> py" where
  "fld st s k = dget0 (sec st s) k"

definition set_fld :: "string \<Rightarrow> string \<Rightarrow> py \<Rightarrow> dict \<Rightarrow> dict" where
  "set_fld s k v st = dset st s (PDict (dset (sec st s) k v))"

definition items :: "py \<Rightarrow> py list" where
  "items v = (case v of PList xs \<Rightarrow> xs | _ \<Rightarrow> [])"

definition entries :: "py \<Rightarrow> dict" where
  "entries v = (case v of PDict d \<Rightarrow> d | _ \<Rightarrow> [])"

text \<open>\<open>[str(x) for x in dedupe_keep_order(state.section.field or [])]\<close>.\<close>

definition tidy_list :: "string \<Rightarrow> string \<Rightarrow> dict \<Rightarrow> dict" where
  "tidy_list s k st = set_fld s k (PList (map (PStr \<circ> py_str) (py_dedupe (items (fld st s k))))) st"

definition initial_pending_tasks :: "py list" where
  "initial_pending_tasks =
     map (\<lambda>capability. PDict
       [(''task_id'', PStr (''capability::'' @ capability)),
        (''task_type'', PStr ''capability''),
        (''capability'', PStr capability),
        (''depends_on'', str_list (case map_of CAPABILITY_DEPENDENCIES capability of None \<Rightarrow> [] | Some ds \<Rightarrow> ds)),
        (''status'', PStr ''pending'')]) CAPABILITY_SEQUENCE"

text \<open>\<open>if not a.x: a.x = b.y\<close>.\<close>

definition fill :: "string \<Rightarrow> string \<Rightarrow> string \<Rightarrow> string \<Rightarrow> dict \<Rightarrow> dict" where
  "fill s k t j st = (if truthy (fld st s k) then st else set_fld s k (fld st t j) st)"

definition merge_registry :: "dict \<Rightarrow> dict" where
  "merge_registry st =
     set_fld ''execution'' ''artifact_registry''
       (PDict (dmerge (entries (fld st ''execution'' ''artifact_paths''))
                      (entries (fld st ''execution'' ''artifact_registry'')))) st"

definition fill_task_board :: "dict \<Rightarrow> dict" where
  "fill_task_board st =
     (if \<not> truthy (fld st ''task_board'' ''pending_tasks'') \<and> \<not> truthy (fld st ''task_board'' ''completed_tasks'')
         \<and> \<not> truthy (fld st ''task_board'' ''active_tasks'')
      then set_fld ''task_board'' ''pending_tasks'' (PList initial_pending_tasks) st
      else st)"

definition tidied_lists :: "(string \<times> string) list" where
  "tidied_lists =
     [(''material'', ''preflight_tags''), (''material'', ''warnings''), (''workflow'', ''completed_stages''),
      (''physics_results'', ''accepted_channels''), (''physics_results'', ''rejected_channels''),
      (''agent'', ''loaded_skills''), (''services'', ''loaded_skills''),
      (''blackboard'', ''risk_flags''), (''blackboard'', ''anomaly_flags'')]"

definition normalize_state :: "env \<Rightarrow> dict \<Rightarrow> dict" where
  "normalize_state e st0 =
     (let st1 = set_fld ''task'' ''updated_at'' (PStr (now e)) st0;
          st2 = fill ''mission'' ''material_id'' ''material'' ''material_id'' st1;
          st3 = fill ''mission'' ''user_goal'' ''task'' ''user_goal'' st2;
          st4 = fill ''material'' ''material_id'' ''mission'' ''material_id'' st3;
          st5 = fill ''task'' ''user_goal'' ''mission'' ''user_goal'' st4;
          st6 = foldl (\<lambda>st (s, k). tidy_list s k st) st5 tidied_lists;
          st7 = set_fld ''agent'' ''llm_provider''
                  (PStr (normalize_llm_provider (py_str (py_or (fld st6 ''agent'' ''llm_provider'') (PStr []))))) st6
      in fill_task_board (merge_registry st7))"

definition model_validate :: "coercion \<Rightarrow> env \<Rightarrow> dict \<Rightarrow> dict res" where
  "model_validate coerce e payload =
     bindR (validate_sections coerce (MaterialTaskState e) payload) (\<lambda>st. Inr (normalize_state e st))"

section \<open>Well-typed states\<close>

definition typed :: "fields \<Rightarrow> dict \<Rightarrow> bool" where
  "typed fs d \<longleftrightarrow> list_all2 (\<lambda>(k, t, _) (k', v). k' = k \<and> of_type t v) fs d"

definition section_typed :: "string \<times> fields \<Rightarrow> string \<times> py \<Rightarrow> bool" where
  "section_typed x y \<longleftrightarrow> fst y = fst x \<and> (case snd y of PDict d \<Rightarrow> typed (snd x) d | _ \<Rightarrow> False)"

lemma section_typed_pair [simp]:
  "section_typed (s, fs) (s', v) \<longleftrightarrow> s' = s \<and> (\<exists>d. v = PDict d \<and> typed fs d)"
  by (auto simp: section_typed_def split: py.splits)

definition well_typed :: "env \<Rightarrow> dict \<Rightarrow> bool" where
  "well_typed e st \<longleftrightarrow> list_all2 section_typed (MaterialTaskState e) st"

definition ftype_of :: "env \<Rightarrow> string \<Rightarrow> string \<Rightarrow> ftype option" where
  "ftype_of e s k =
     (case map_of (MaterialTaskState e) s of None \<Rightarrow> None | Some fs \<Rightarrow> map_option fst (map_of fs k))"

lemmas section_defs = TaskSection_def MaterialSection_def WorkflowSection_def MissionSection_def
  BlackboardSection_def TaskBoardSection_def DeliberationSection_def ExecutionSection_def
  DiagnosticsSection_def PhysicsResultsSection_def AgentSection_def AgentWorkspacesSection_def
  MemorySection_def ServicesSection_def BatchSection_def

definition good_fields :: "fields \<Rightarrow> bool" where
  "good_fields fs \<longleftrightarrow> distinct (map fst fs) \<and> list_all (\<lambda>(k, t, v). of_type t v) fs"

lemma good_sections: "(s, fs) \<in> set (MaterialTaskState e) \<Longrightarrow> good_fields fs"
proof -
  have "list_all (good_fields \<circ> snd) (MaterialTaskState e)"
    by (simp add: MaterialTaskState_def good_fields_def section_defs default_strains_def str_list_def
        is_str_def is_int_def list_of_def dict_of_def is_float_def)
  then show "(s, fs) \<in> set (MaterialTaskState e) \<Longrightarrow> good_fields fs" by (auto simp: list_all_iff)
qed

lemma distinct_sections: "distinct (map fst (MaterialTaskState e))"
  by (simp add: MaterialTaskState_def)

lemma typed_keys: "typed fs d \<Longrightarrow> map fst d = map fst fs"
  unfolding typed_def by (induction rule: list_all2_induct) auto

lemma well_typed_keys: "well_typed e st \<Longrightarrow> map fst st = map fst (MaterialTaskState e)"
  unfolding well_typed_def by (induction rule: list_all2_induct) (auto simp: section_typed_def)

lemma typed_map_of: "typed fs d \<Longrightarrow> map_of fs k = Some (t, dflt) \<Longrightarrow> \<exists>v. map_of d k = Some v \<and> of_type t v"
  unfolding typed_def by (induction rule: list_all2_induct) (auto split: if_splits)

lemma typed_dset:
  "typed fs d \<Longrightarrow> map_of fs k = Some (t, dflt) \<Longrightarrow> of_type t v \<Longrightarrow> typed fs (dset d k v)"
  unfolding typed_def by (induction rule: list_all2_induct) (auto simp: dset_def split: if_splits)

lemma section_map_of:
  "list_all2 section_typed ss st \<Longrightarrow> map_of ss s = Some fs \<Longrightarrow> \<exists>d. map_of st s = Some (PDict d) \<and> typed fs d"
  by (induction rule: list_all2_induct) (auto simp: section_typed_def split: if_splits py.splits)

lemma section_dset:
  "list_all2 section_typed ss st \<Longrightarrow> map_of ss s = Some fs \<Longrightarrow> typed fs d \<Longrightarrow>
   list_all2 section_typed ss (dset st s (PDict d))"
  by (induction rule: list_all2_induct) (auto simp: dset_def split: if_splits)

lemma ftype_of_Some:
  "ftype_of e s k = Some t \<longleftrightarrow> (\<exists>fs dflt. map_of (MaterialTaskState e) s = Some fs \<and> map_of fs k = Some (t, dflt))"
  by (auto simp: ftype_of_def split: option.splits)

lemma fld_typed:
  assumes "well_typed e st" "ftype_of e s k = Some t"
  shows "of_type t (fld st s k)" and "set_fld s k (fld st s k) st = st"
proof -
  have same: "map_of d k = Some v \<Longrightarrow> dset d k v = d" for d :: dict and k v
    by (induction d) (auto simp: dset_def)
  from assms obtain fs dflt where f: "map_of (MaterialTaskState e) s = Some fs" "map_of fs k = Some (t, dflt)"
    by (auto simp: ftype_of_Some)
  from section_map_of [OF assms(1) [unfolded well_typed_def] f(1)] obtain d where
    d: "map_of st s = Some (PDict d)" "typed fs d" by blast
  from typed_map_of [OF d(2) f(2)] obtain v where v: "map_of d k = Some v" "of_type t v" by blast
  have sv: "sec st s = d" "fld st s k = v" using d v by (simp_all add: sec_def fld_def dget0_def dget_def)
  from sv v show "of_type t (fld st s k)" by simp
  show "set_fld s k (fld st s k) st = st" using sv d v by (simp add: set_fld_def same)
qed

lemma well_typed_set_fld:
  assumes "well_typed e st" "ftype_of e s k = Some t" "of_type t v"
  shows "well_typed e (set_fld s k v st)"
proof -
  from assms obtain fs dflt where f: "map_of (MaterialTaskState e) s = Some fs" "map_of fs k = Some (t, dflt)"
    by (auto simp: ftype_of_Some)
  from section_map_of [OF assms(1) [unfolded well_typed_def] f(1)] obtain d where
    d: "map_of st s = Some (PDict d)" "typed fs d" by blast
  then have "sec st s = d" by (simp add: sec_def dget0_def dget_def)
  with section_dset [OF assms(1) [unfolded well_typed_def] f(1) typed_dset [OF d(2) f(2) assms(3)]]
  show ?thesis by (simp add: set_fld_def well_typed_def)
qed

lemma fld_set_fld [simp]: "fld (set_fld s k v st) s' k' = (if s' = s \<and> k' = k then v else fld st s' k')"
  by (auto simp: fld_def set_fld_def sec_def)

section \<open>The interface of the validator\<close>

locale validator =
  fixes coerce :: coercion
  assumes typed_result: "coerce t v = Inr w \<Longrightarrow> of_type t w"
    and keeps_typed: "of_type t v \<Longrightarrow> coerce t v = Inr v"
begin

lemma validate_fields_typed:
  "validate_fields coerce fs d = Inr r \<Longrightarrow> list_all (\<lambda>(k, t, v). of_type t v) fs \<Longrightarrow> typed fs r"
  unfolding typed_def
  by (induction fs arbitrary: r) (auto split: option.splits dest: typed_result)

lemma validate_sections_typed:
  "validate_sections coerce ss d = Inr r \<Longrightarrow> \<forall>(s, fs)\<in>set ss. good_fields fs \<Longrightarrow> list_all2 section_typed ss r"
proof (induction ss arbitrary: r)
  case (Cons x ss)
  obtain s fs where x: "x = (s, fs)" by (cases x)
  from Cons.prems x obtain y r' where y: "r = (s, PDict y) # r'" and r': "validate_sections coerce ss d = Inr r'"
    and v: "\<exists>sd. validate_fields coerce fs sd = Inr y"
    by (auto split: option.splits py.splits)
  from v Cons.prems(2) x have "typed fs y"
    by (auto simp: good_fields_def intro: validate_fields_typed)
  with Cons.IH [OF r'] Cons.prems(2) x y show ?case by (auto simp: section_typed_def)
qed simp

lemma validate_fields_keep:
  "typed fs r \<Longrightarrow> \<forall>(k, v)\<in>set r. map_of d k = Some v \<Longrightarrow> validate_fields coerce fs d = Inr r"
  unfolding typed_def by (induction rule: list_all2_induct) (auto dest: keeps_typed)

lemma validate_sections_keep:
  "list_all2 section_typed ss r \<Longrightarrow> \<forall>(s, fs)\<in>set ss. good_fields fs \<Longrightarrow>
   \<forall>(k, v)\<in>set r. map_of d k = Some v \<Longrightarrow> validate_sections coerce ss d = Inr r"
proof (induction rule: list_all2_induct)
  case (Cons x xs y ys)
  obtain s fs where x: "x = (s, fs)" by (cases x)
  with Cons.hyps(1) obtain sd where y: "y = (s, PDict sd)" and t: "typed fs sd"
    by (cases y) (auto simp: section_typed_def split: py.splits)
  have "distinct (map fst sd)" using typed_keys [OF t] Cons.prems(1) x by (auto simp: good_fields_def)
  then have "validate_fields coerce fs sd = Inr sd" using t by (intro validate_fields_keep) auto
  moreover have "map_of d s = Some (PDict sd)" using Cons.prems(2) y by auto
  ultimately show ?case using Cons x y by auto
qed simp

lemma validate_well_typed: "validate_sections coerce (MaterialTaskState e) d = Inr st \<Longrightarrow> well_typed e st"
  using validate_sections_typed [of "MaterialTaskState e" d st] good_sections by (auto simp: well_typed_def)

lemma validate_keeps: "well_typed e st \<Longrightarrow> validate_sections coerce (MaterialTaskState e) st = Inr st"
proof -
  assume w: "well_typed e st"
  then have "distinct (map fst st)" using well_typed_keys distinct_sections by metis
  then have "\<forall>(k, v)\<in>set st. map_of st k = Some v" by auto
  with w show ?thesis
    unfolding well_typed_def by (intro validate_sections_keep) (auto intro: good_sections)
qed

end

section \<open>Normalisation is idempotent\<close>

lemma code_of_char_of [simp]: "n < 256 \<Longrightarrow> code_of (char_of n) = n"
  by (simp add: code_of_def)

lemma code_of_lt: "code_of c < 256"
  by (simp add: code_of_def)

lemma code_lower_char:
  "code_of (lower_char c) =
     (if (65 \<le> code_of c \<and> code_of c \<le> 90) \<or> (192 \<le> code_of c \<and> code_of c \<le> 222 \<and> code_of c \<noteq> 215)
      then code_of c + 32 else code_of c)"
  by (auto simp: lower_char_def Let_def)

lemma is_space_lower [simp]: "is_space (lower_char c) = is_space c"
  by (auto simp: is_space_def code_lower_char)

lemma lower_lower_char [simp]: "lower_char (lower_char c) = lower_char c"
proof -
  have n: "((65 \<le> code_of (lower_char c) \<and> code_of (lower_char c) \<le> 90)
      \<or> (192 \<le> code_of (lower_char c) \<and> code_of (lower_char c) \<le> 222 \<and> code_of (lower_char c) \<noteq> 215)) = False"
    by (auto simp: code_lower_char)
  show ?thesis by (simp only: lower_char_def [of "lower_char c"] Let_def n if_False)
qed

lemma py_lower_idem [simp]: "py_lower (py_lower s) = py_lower s"
  by (simp add: py_lower_def)

lemma py_strip_lower: "py_strip (py_lower s) = py_lower (py_strip s)"
proof -
  have "dropWhile is_space (map lower_char xs) = map lower_char (dropWhile is_space xs)" for xs
    by (simp add: dropWhile_map comp_def)
  then show ?thesis by (simp add: py_strip_def py_lstrip_def py_rstrip_def py_lower_def rev_map)
qed

lemma normalize_llm_provider_idem [simp]:
  "normalize_llm_provider (normalize_llm_provider s) = normalize_llm_provider s"
proof -
  have o: "normalize_llm_provider ''openai'' = ''openai''" by code_simp
  have "normalize_llm_provider (py_lower (py_strip s)) = normalize_llm_provider s"
    by (simp add: normalize_llm_provider_def py_strip_lower)
  moreover have "normalize_llm_provider s \<in> {''openai'', py_lower (py_strip s)}"
    by (simp add: normalize_llm_provider_def Let_def)
  ultimately show ?thesis using o by (metis insertE singletonD)
qed

lemma normalize_llm_provider_ne [simp]: "normalize_llm_provider s \<noteq> []"
  by (simp add: normalize_llm_provider_def Let_def)

lemma dedupe_by_PStr: "py_dedupe (map PStr ss) = map PStr (dedupe ss)"
proof -
  have "MText ` set seen = set ms \<Longrightarrow>
      dedupe_loop py_marker ms (map PStr ss) = map PStr (dedupe_loop (\<lambda>x. x) seen ss)" for ms seen
  proof (induction ss arbitrary: ms seen)
    case (Cons s ss)
    have "MText s \<in> set ms \<longleftrightarrow> s \<in> set seen" using Cons.prems by (metis image_iff marker.inject(2))
    moreover have "MText ` set (s # seen) = set (MText s # ms)" using Cons.prems by simp
    ultimately show ?case using Cons.IH [of "s # seen" "MText s # ms"] Cons.IH [OF Cons.prems] by simp
  qed simp
  from this [of "[]" "[]"] show ?thesis by (simp add: py_dedupe_def dedupe_def dedupe_by_def)
qed

lemma list_of_str: "list_of is_str v \<longleftrightarrow> (\<exists>ss. v = str_list ss)"
proof
  assume "list_of is_str v"
  then obtain xs where xs: "v = PList xs" "list_all is_str xs" by (auto simp: list_of_def split: py.splits)
  from xs(2) have "\<exists>ss. xs = map PStr ss"
  proof (induction xs)
    case (Cons x xs)
    then obtain ss s where "xs = map PStr ss" "x = PStr s" by (auto simp: is_str_def split: py.splits)
    then show ?case by (metis list.simps(9))
  qed simp
  with xs(1) show "\<exists>ss. v = str_list ss" by (auto simp: str_list_def)
qed (auto simp: list_of_def str_list_def list_all_iff is_str_def)

text \<open>One list of strings, cleaned.\<close>

definition tidied :: "py \<Rightarrow> py" where
  "tidied v = PList (map (PStr \<circ> py_str) (py_dedupe (items v)))"

lemma tidied_str_list [simp]: "tidied (str_list ss) = str_list (dedupe ss)"
  by (simp add: tidied_def str_list_def items_def dedupe_by_PStr)

lemma fld_tidy [simp]:
  "fld (tidy_list s k st) s' k' = (if s' = s \<and> k' = k then tidied (fld st s k) else fld st s' k')"
  by (simp add: tidy_list_def tidied_def)

lemma fld_fill [simp]:
  "fld (fill s k t j st) s' k' =
     (if s' = s \<and> k' = k \<and> \<not> truthy (fld st s k) then fld st t j else fld st s' k')"
  by (simp add: fill_def)

lemma dmerge_prefix:
  "distinct (map fst p) \<Longrightarrow> distinct (map fst (p @ q)) \<Longrightarrow> map fst p' = map fst p \<Longrightarrow> dmerge (a @ p) (p' @ q) = dmerge (a @ p') q"
  if "fst ` set a \<inter> fst ` set p = {}"
  using that
proof (induction p arbitrary: a p')
  case (Cons x p)
  then obtain y p'' where p': "p' = y # p''" and yk: "fst y = fst x" and pk: "map fst p'' = map fst p" by (cases p') auto
  have a: "fst x \<notin> fst ` set a" using Cons.prems by auto
  then have "dset (a @ x # p) (fst x) (snd y) = (a @ [y]) @ p"
    using yk by (induction a) (auto simp: dset_def, metis prod.collapse)
  then have step: "dmerge (a @ x # p) (p' @ q) = dmerge ((a @ [y]) @ p) (p'' @ q)"
    using p' yk by (cases y) simp
  have "dmerge ((a @ [y]) @ p) (p'' @ q) = dmerge ((a @ [y]) @ p'') q"
  proof (rule Cons.IH)
    show "fst ` set (a @ [y]) \<inter> fst ` set p = {}" using Cons.prems yk by auto
  qed (use Cons.prems pk in auto)
  with step p' show ?case by simp
qed simp

lemma dmerge_new: "distinct (map fst (a @ q)) \<Longrightarrow> dmerge a q = a @ q"
proof (induction q arbitrary: a)
  case (Cons x q)
  have "dset a (fst x) (snd x) = a @ [x]"
    using Cons.prems by (induction a) (auto simp: dset_def)
  then show ?case using Cons.IH [of "a @ [x]"] Cons.prems by (cases x) simp
qed simp

lemma dmerge_shape: "\<exists>p' q. dmerge p u = p' @ q \<and> map fst p' = map fst p"
proof (induction p u rule: dmerge.induct)
  case (2 d k v u)
  then obtain p' q where e: "dmerge (dset d k v) u = p' @ q" "map fst p' = map fst (dset d k v)" by blast
  have len: "\<exists>r. map fst (dset d k v) = map fst d @ r"
    by (induction d) (auto simp: dset_def)
  then obtain r where r: "map fst p' = map fst d @ r" using e by auto
  have "map fst (take (length d) p') = map fst d"
    using r by (metis append_eq_conv_conj length_map take_map)
  moreover have "dmerge (dset d k v) u = take (length d) p' @ (drop (length d) p' @ q)" using e by simp
  ultimately show ?case by (metis dmerge.simps(2))
qed auto

lemma dmerge_again: "distinct (map fst p) \<Longrightarrow> dmerge p (dmerge p u) = dmerge p u"
proof -
  assume d: "distinct (map fst p)"
  obtain p' q where e: "dmerge p u = p' @ q" "map fst p' = map fst p" using dmerge_shape by blast
  have "distinct (map fst (p' @ q))" using distinct_dmerge [OF d, of u] e by simp
  then have "distinct (map fst (p @ q))" using e by simp
  from dmerge_prefix [of "[]" p q p', OF _ d this e(2)] have "dmerge p (p' @ q) = dmerge p' q" by simp
  also have "\<dots> = p' @ q" by (rule dmerge_new) fact
  finally show ?thesis using e by simp
qed

lemma ftype_table:
  "ftype_of e ''task'' ''updated_at'' = Some TStr"
  "ftype_of e ''task'' ''user_goal'' = Some TStr"
  "ftype_of e ''mission'' ''material_id'' = Some TStr"
  "ftype_of e ''mission'' ''user_goal'' = Some TStr"
  "ftype_of e ''material'' ''material_id'' = Some TStr"
  "ftype_of e ''agent'' ''llm_provider'' = Some TStr"
  "ftype_of e ''execution'' ''artifact_paths'' = Some TDictStr"
  "ftype_of e ''execution'' ''artifact_registry'' = Some TDictStr"
  "ftype_of e ''task_board'' ''pending_tasks'' = Some TListDict"
  "\<forall>(s, k)\<in>set tidied_lists. ftype_of e s k = Some TListStr"
  by (simp_all add: ftype_of_def MaterialTaskState_def section_defs tidied_lists_def)

text \<open>The states that normalisation leaves alone.\<close>

definition filled :: "dict \<Rightarrow> string \<Rightarrow> string \<Rightarrow> string \<Rightarrow> string \<Rightarrow> bool" where
  "filled st s k t j \<longleftrightarrow> truthy (fld st s k) \<or> fld st s k = fld st t j"

definition normal_state :: "env \<Rightarrow> dict \<Rightarrow> bool" where
  "normal_state e st \<longleftrightarrow>
     fld st ''task'' ''updated_at'' = PStr (now e)
   \<and> filled st ''mission'' ''material_id'' ''material'' ''material_id''
   \<and> filled st ''mission'' ''user_goal'' ''task'' ''user_goal''
   \<and> filled st ''material'' ''material_id'' ''mission'' ''material_id''
   \<and> filled st ''task'' ''user_goal'' ''mission'' ''user_goal''
   \<and> (\<forall>(s, k)\<in>set tidied_lists. tidied (fld st s k) = fld st s k)
   \<and> PStr (normalize_llm_provider (py_str (py_or (fld st ''agent'' ''llm_provider'') (PStr [])))) = fld st ''agent'' ''llm_provider''
   \<and> PDict (dmerge (entries (fld st ''execution'' ''artifact_paths'')) (entries (fld st ''execution'' ''artifact_registry'')))
       = fld st ''execution'' ''artifact_registry''
   \<and> (truthy (fld st ''task_board'' ''pending_tasks'') \<or> truthy (fld st ''task_board'' ''completed_tasks'')
       \<or> truthy (fld st ''task_board'' ''active_tasks''))"

lemma foldl_tidy_id:
  "\<forall>(s, k)\<in>set xs. tidy_list s k st = st \<Longrightarrow> foldl (\<lambda>st (s, k). tidy_list s k st) st xs = st"
  by (induction xs) auto

lemma normal_state_fix:
  assumes w: "well_typed e st" and n: "normal_state e st"
  shows "normalize_state e st = st"
proof -
  note keep = fld_typed(2) [OF w]
  note tab = ftype_table [of e]
  have 1: "set_fld ''task'' ''updated_at'' (PStr (now e)) st = st"
    using keep [OF tab(1)] n by (simp add: normal_state_def)
  have fl: "fill s k t j st = st" if "filled st s k t j" "ftype_of e s k = Some TStr" for s k t j
    using that keep [OF that(2)] by (auto simp: filled_def fill_def)
  have 2: "fill ''mission'' ''material_id'' ''material'' ''material_id'' st = st"
    "fill ''mission'' ''user_goal'' ''task'' ''user_goal'' st = st"
    "fill ''material'' ''material_id'' ''mission'' ''material_id'' st = st"
    "fill ''task'' ''user_goal'' ''mission'' ''user_goal'' st = st"
    using n tab by (simp_all add: normal_state_def fl)
  have "\<forall>(s, k)\<in>set tidied_lists. tidy_list s k st = st"
    using n tab(10) keep unfolding normal_state_def tidy_list_def tidied_def [symmetric] by fastforce
  then have 3: "foldl (\<lambda>st (s, k). tidy_list s k st) st tidied_lists = st" by (rule foldl_tidy_id)
  have 4: "set_fld ''agent'' ''llm_provider''
      (PStr (normalize_llm_provider (py_str (py_or (fld st ''agent'' ''llm_provider'') (PStr []))))) st = st"
    using n keep [OF tab(6)] by (simp add: normal_state_def)
  have 5: "merge_registry st = st" using n keep [OF tab(8)] by (simp add: normal_state_def merge_registry_def)
  have 6: "fill_task_board st = st" using n by (auto simp: normal_state_def fill_task_board_def)
  show ?thesis unfolding normalize_state_def Let_def 1 2 3 4 5 6 ..
qed

lemma initial_tasks_typed: "list_all (dict_of (\<lambda>_. True)) initial_pending_tasks"
  by (simp add: initial_pending_tasks_def list_all_iff dict_of_def)

lemma well_typed_fill:
  "well_typed e st \<Longrightarrow> ftype_of e s k = Some TStr \<Longrightarrow> ftype_of e t j = Some TStr \<Longrightarrow> well_typed e (fill s k t j st)"
  using fld_typed(1) [of e st t j TStr] by (auto simp: fill_def intro: well_typed_set_fld)

lemma well_typed_tidy:
  "well_typed e st \<Longrightarrow> ftype_of e s k = Some TListStr \<Longrightarrow> well_typed e (tidy_list s k st)"
  unfolding tidy_list_def
  by (rule well_typed_set_fld) (auto simp: list_of_def list_all_iff is_str_def)

lemma foldl_tidy_typed:
  "well_typed e st \<Longrightarrow> \<forall>(s, k)\<in>set xs. ftype_of e s k = Some TListStr \<Longrightarrow>
   well_typed e (foldl (\<lambda>st (s, k). tidy_list s k st) st xs)"
  by (induction xs arbitrary: st) (auto intro: well_typed_tidy)

lemma entries_typed: "of_type TDictStr v \<Longrightarrow> \<exists>d. v = PDict d \<and> entries v = d \<and> distinct (map fst d) \<and> list_all (is_str \<circ> snd) d"
  by (auto simp: dict_of_def entries_def split: py.splits)

lemma dset_values: "list_all (p \<circ> snd) d \<Longrightarrow> p v \<Longrightarrow> list_all (p \<circ> snd) (dset d k v)"
  by (induction d) (auto simp: dset_def)

lemma dmerge_values: "list_all (p \<circ> snd) d \<Longrightarrow> list_all (p \<circ> snd) u \<Longrightarrow> list_all (p \<circ> snd) (dmerge d u)"
  by (induction d u rule: dmerge.induct) (auto simp: dset_values)

lemma well_typed_registry:
  assumes "well_typed e st"
  shows "well_typed e (merge_registry st)"
proof -
  note tab = ftype_table [of e]
  from entries_typed [OF fld_typed(1) [OF assms tab(7)]] obtain p where p: "entries (fld st ''execution'' ''artifact_paths'') = p"
    "distinct (map fst p)" "list_all (is_str \<circ> snd) p" by auto
  from entries_typed [OF fld_typed(1) [OF assms tab(8)]] obtain r where r: "entries (fld st ''execution'' ''artifact_registry'') = r"
    "list_all (is_str \<circ> snd) r" by auto
  show ?thesis
    unfolding merge_registry_def p(1) r(1)
    by (rule well_typed_set_fld [OF assms tab(8)])
      (use p r distinct_dmerge dmerge_values in \<open>auto simp: dict_of_def\<close>)
qed

lemma well_typed_board: "well_typed e st \<Longrightarrow> well_typed e (fill_task_board st)"
  using ftype_table(9) [of e] initial_tasks_typed
  by (auto simp: fill_task_board_def list_of_def intro!: well_typed_set_fld)

lemma normalize_well_typed:
  assumes "well_typed e st"
  shows "well_typed e (normalize_state e st)"
  unfolding normalize_state_def Let_def
  by (intro well_typed_board well_typed_registry well_typed_set_fld [OF _ ftype_table(6)] foldl_tidy_typed
      well_typed_fill well_typed_set_fld [OF _ ftype_table(1)] assms ftype_table)
    (simp_all add: is_str_def)

lemma str_tidy_fixed:
  assumes "well_typed e st" "(s, k) \<in> set tidied_lists"
  shows "\<exists>ss. fld st s k = str_list ss"
  using fld_typed(1) [OF assms(1), of s k TListStr] ftype_table(10) [of e] assms(2) list_of_str by auto

lemma fld_registry [simp]:
  "fld (merge_registry st) s k =
     (if s = ''execution'' \<and> k = ''artifact_registry''
      then PDict (dmerge (entries (fld st ''execution'' ''artifact_paths'')) (entries (fld st ''execution'' ''artifact_registry'')))
      else fld st s k)"
  by (simp add: merge_registry_def)

lemma fld_board:
  "fld (fill_task_board st) s k =
     (if s = ''task_board'' \<and> k = ''pending_tasks'' \<and> \<not> truthy (fld st ''task_board'' ''pending_tasks'')
         \<and> \<not> truthy (fld st ''task_board'' ''completed_tasks'') \<and> \<not> truthy (fld st ''task_board'' ''active_tasks'')
      then PList initial_pending_tasks else fld st s k)"
  by (simp add: fill_task_board_def)

lemma fld_foldl_tidy:
  "distinct xs \<Longrightarrow> fld (foldl (\<lambda>st (s, k). tidy_list s k st) st xs) s k =
     (if (s, k) \<in> set xs then tidied (fld st s k) else fld st s k)"
  by (induction xs arbitrary: st) (auto split: if_splits)

lemma distinct_tidied: "distinct tidied_lists"
  by (simp add: tidied_lists_def)

text \<open>The state before the lists are cleaned: the clock and the four mutual defaults.\<close>

definition filled_state :: "env \<Rightarrow> dict \<Rightarrow> dict" where
  "filled_state e st =
     fill ''task'' ''user_goal'' ''mission'' ''user_goal''
       (fill ''material'' ''material_id'' ''mission'' ''material_id''
         (fill ''mission'' ''user_goal'' ''task'' ''user_goal''
           (fill ''mission'' ''material_id'' ''material'' ''material_id''
             (set_fld ''task'' ''updated_at'' (PStr (now e)) st))))"

lemma not_tidied:
  "(''task'', k) \<notin> set tidied_lists" "(''mission'', k) \<notin> set tidied_lists" "(''execution'', k) \<notin> set tidied_lists"
  "(''task_board'', k) \<notin> set tidied_lists" "(''material'', ''material_id'') \<notin> set tidied_lists"
  "(''agent'', ''llm_provider'') \<notin> set tidied_lists"
  by (simp_all add: tidied_lists_def)

lemma fld_normalize:
  "fld (normalize_state e st) s k =
     (let x = filled_state e st in
      if s = ''task_board'' \<and> k = ''pending_tasks'' \<and> \<not> truthy (fld x ''task_board'' ''pending_tasks'')
         \<and> \<not> truthy (fld x ''task_board'' ''completed_tasks'') \<and> \<not> truthy (fld x ''task_board'' ''active_tasks'')
        then PList initial_pending_tasks
      else if s = ''execution'' \<and> k = ''artifact_registry''
        then PDict (dmerge (entries (fld x ''execution'' ''artifact_paths'')) (entries (fld x ''execution'' ''artifact_registry'')))
      else if s = ''agent'' \<and> k = ''llm_provider''
        then PStr (normalize_llm_provider (py_str (py_or (fld x ''agent'' ''llm_provider'') (PStr []))))
      else if (s, k) \<in> set tidied_lists then tidied (fld x s k)
      else fld x s k)"
  unfolding normalize_state_def Let_def filled_state_def [symmetric]
  by (simp add: fld_board fld_foldl_tidy [OF distinct_tidied] not_tidied)

lemma well_typed_filled: "well_typed e st \<Longrightarrow> well_typed e (filled_state e st)"
  unfolding filled_state_def
  by (intro well_typed_fill well_typed_set_fld [OF _ ftype_table(1)] ftype_table) (simp_all add: is_str_def)

lemma normalize_normal:
  assumes w: "well_typed e st"
  shows "normal_state e (normalize_state e st)"
proof -
  let ?x = "filled_state e st"
  note wx = well_typed_filled [OF w]
  have t: "tidied (fld (normalize_state e st) s k) = fld (normalize_state e st) s k" if m: "(s, k) \<in> set tidied_lists" for s k
  proof -
    obtain ss where ss: "fld ?x s k = str_list ss" using str_tidy_fixed [OF wx m] by blast
    have "\<not> (s = ''task_board'' \<and> k = ''pending_tasks'')" "\<not> (s = ''execution'' \<and> k = ''artifact_registry'')"
      "\<not> (s = ''agent'' \<and> k = ''llm_provider'')" using m not_tidied by auto
    then have "fld (normalize_state e st) s k = tidied (fld ?x s k)"
      using m unfolding fld_normalize Let_def by (simp only: if_False if_True simp_thms) auto
    with ss show ?thesis by simp
  qed
  from entries_typed [OF fld_typed(1) [OF wx ftype_table(7)]] have
    p: "distinct (map fst (entries (fld ?x ''execution'' ''artifact_paths'')))" by auto
  have en: "entries (PDict d) = d" for d by (simp add: entries_def)
  have b: "truthy (PList initial_pending_tasks)"
    by (simp add: initial_pending_tasks_def CAPABILITY_SEQUENCE_def)
  have f: "fld ?x ''task'' ''updated_at'' = PStr (now e)"
    "filled ?x ''mission'' ''material_id'' ''material'' ''material_id''"
    "filled ?x ''mission'' ''user_goal'' ''task'' ''user_goal''"
    "filled ?x ''material'' ''material_id'' ''mission'' ''material_id''"
    "filled ?x ''task'' ''user_goal'' ''mission'' ''user_goal''"
    by (simp_all add: filled_state_def filled_def)
  show ?thesis
    unfolding normal_state_def
  proof (intro conjI)
    show "\<forall>(s, k)\<in>set tidied_lists. tidied (fld (normalize_state e st) s k) = fld (normalize_state e st) s k"
      using t by blast
  qed (use f b p in \<open>simp_all add: fld_normalize Let_def not_tidied filled_def en dmerge_again py_or_def\<close>)
qed

lemma normalize_state_idem: "well_typed e st \<Longrightarrow> normalize_state e (normalize_state e st) = normalize_state e st"
  by (intro normal_state_fix normalize_well_typed normalize_normal)

end
