(* ===== verification/State_Ops.thy ===== *)
theory State_Ops
  imports State_Model
begin

text \<open>
  The operations on the shared state (rest of mobility_agent/graph/state.py): loading a
  payload, importing the legacy flat layout, the initial state of a run, merging updates,
  patches, stage status, tool results, external events and the outcome of a run. A state
  that goes through \<open>MaterialTaskState.from_dict(...).to_dict()\<close> is validated and
  normalised again; the record \<open>env\<close> is the clock at that moment.
\<close>

section \<open>Paths\<close>

fun split_on :: "char \<Rightarrow> string \<Rightarrow> string \<Rightarrow> string list" where
  "split_on c acc [] = [rev acc]"
| "split_on c acc (x # xs) = (if x = c then rev acc # split_on c [] xs else split_on c (x # acc) xs)"

text \<open>\<open>posixpath.normpath\<close> of an absolute path, and \<open>os.path.abspath\<close>.\<close>

fun norm_parts :: "string list \<Rightarrow> string list \<Rightarrow> string list" where
  "norm_parts acc [] = rev acc"
| "norm_parts acc (p # ps) =
     (if p = [] \<or> p = ''.'' then norm_parts acc ps
      else if p = ''..'' then norm_parts (case acc of [] \<Rightarrow> [] | _ # r \<Rightarrow> r) ps
      else norm_parts (p # acc) ps)"

definition normpath_abs :: "string \<Rightarrow> string" where
  "normpath_abs p =
     (if startswith p ''//'' \<and> \<not> startswith p ''///'' then ''//'' else ''/'')
       @ join ''/'' (norm_parts [] (split_on (CHR ''/'') [] p))"

definition abspath :: "env \<Rightarrow> string \<Rightarrow> string" where
  "abspath e p = normpath_abs (if startswith p ''/'' then p else path_join (cwd e) p)"

section \<open>Loading a state\<close>

definition py_len :: "py \<Rightarrow> int res" where
  "py_len v =
     (case v of
        PList xs \<Rightarrow> Inr (int (length xs))
      | PDict d \<Rightarrow> Inr (int (length d))
      | PStr s \<Rightarrow> Inr (int (length s))
      | _ \<Rightarrow> Inl (TypeError ''len''))"

definition legacy_status :: "dict \<Rightarrow> (string \<times> bool) list" where
  "legacy_status payload =
     [(''relax'', truthy (dget0 payload ''relax_completed'')),
      (''scf'', truthy (dget0 payload ''scf_completed'')),
      (''band'', truthy (dget0 payload ''band_completed'')),
      (''effective_mass'', truthy (dget0 payload ''effmass_completed'')),
      (''strain_loop'', truthy (dget0 payload ''strain_completed''))]"

definition str_default :: "dict \<Rightarrow> string \<Rightarrow> string \<Rightarrow> string" where
  "str_default d k s = py_str (py_or (dget0 d k) (PStr s))"

text \<open>\<open>dict(payload.get(k, {}) or {})\<close> and \<open>list(payload.get(k, []) or [])\<close> for several keys.\<close>

definition dicts :: "dict \<Rightarrow> (string \<times> string) list \<Rightarrow> dict res" where
  "dicts payload kks = mapR (\<lambda>(name, k). bindR (get_dict payload k) (\<lambda>d. Inr (name, PDict d))) kks"

definition lists :: "dict \<Rightarrow> (string \<times> string) list \<Rightarrow> dict res" where
  "lists payload kks = mapR (\<lambda>(name, k). bindR (get_list payload k) (\<lambda>xs. Inr (name, PList xs))) kks"

definition copied :: "dict \<Rightarrow> (string \<times> string) list \<Rightarrow> dict" where
  "copied payload kks = map (\<lambda>(name, k). (name, dget0 payload k)) kks"

definition legacy_state_to_shared_state :: "coercion \<Rightarrow> env \<Rightarrow> dict \<Rightarrow> dict res" where
  "legacy_state_to_shared_state coerce e payload =
     (let base_dir = get_str payload ''base_dir'';
          material_id = str_default payload ''material_id'' ''2D_Material'';
          user_goal = str_default payload ''user_goal'' ''calculate_2d_mobility'' in
      bindR (dicts payload [(''structure_summary'', ''structure_summary''), (''structure_metadata'', ''material_metadata'')]) (\<lambda>md1.
      bindR (bindR (get_or_empty payload ''structure_summary'') (\<lambda>s. get_int s ''atom_count'')) (\<lambda>atoms.
      bindR (dicts payload [(''preflight_summary'', ''preflight_summary'')]) (\<lambda>md2.
      bindR (lists payload [(''preflight_tags'', ''preflight_tags''), (''warnings'', ''warnings'')]) (\<lambda>ml.
      bindR (py_len (py_or (dget payload ''relax_retry_backups'' (PList [])) (PList []))) (\<lambda>backups.
      bindR (get_int payload ''refinement_rounds'') (\<lambda>rounds.
      bindR (to_int (py_or (dget payload ''max_refinement_rounds'' (PInt 1)) (PInt 1))) (\<lambda>max_rounds.
      bindR (dicts payload [(''parsed_artifacts'', ''artifact_paths''), (''intermediate_results'', ''results'')]) (\<lambda>bd.
      bindR (dicts payload [(''artifact_paths'', ''artifact_paths''), (''artifact_registry'', ''artifact_paths''),
                            (''latest_tool_result'', ''latest_tool_result'')]) (\<lambda>ed.
      bindR (lists payload [(''tool_trace'', ''tool_trace''), (''tool_invocations'', ''tool_trace'')]) (\<lambda>el.
      bindR (get_list payload ''errors'') (\<lambda>errors.
      bindR (lists payload [(''recovery_history'', ''recovery_trace''), (''consultation_trace'', ''decision_trace'')]) (\<lambda>dl.
      bindR (dicts payload [(''recovery_summary'', ''recovery_summary''), (''fit_diagnostics'', ''fit_diagnostics''),
                            (''strain_summary'', ''strain_summary''), (''validation_report'', ''validation_report'')]) (\<lambda>dd.
      bindR (dicts payload [(''band_summary'', ''band_summary''), (''effective_mass_summary'', ''mass_summary''),
                            (''strain_data_summary'', ''strain_summary''), (''mobility_summary'', ''mobility_summary''),
                            (''results'', ''results'')]) (\<lambda>pd.
      bindR (lists payload [(''strain_data'', ''strain_data''), (''reciprocal_lattice'', ''reciprocal_lattice''),
                            (''vbm_kpoint'', ''vbm_kpoint''), (''cbm_kpoint'', ''cbm_kpoint'')]) (\<lambda>pl.
      bindR (lists payload [(''agent_decisions'', ''decision_trace''), (''decision_trace'', ''decision_trace'')]) (\<lambda>al.
        model_validate coerce e
         [(''task'', PDict [(''task_type'', PStr ''single_material''), (''user_goal'', PStr user_goal),
             (''root_path'', PStr (abspath e (if base_dir = [] then cwd e else base_dir))), (''dry_run'', PBool False)]),
          (''material'', PDict ([(''material_id'', PStr material_id), (''atom_count'', PInt atoms)] @ md1 @ md2 @ ml
             @ copied payload [(''poscar_path'', ''poscar_path''), (''potcar_path'', ''potcar_path'')])),
          (''workflow'', PDict
            [(''current_stage'', PStr (str_default payload ''current_stage'' ''observe_state'')),
             (''completed_stages'', str_list (map fst (filter snd (legacy_status payload)))),
             (''stage_status'', PDict (map (\<lambda>(stage, done). (stage, PStr (if done then ''success'' else ''pending''))) (legacy_status payload))),
             (''run_status'', PStr (str_default payload ''run_status'' ''pending'')),
             (''retry_budget'', PInt 3),
             (''retry_counts'', PDict [(''relax'', PInt backups)]),
             (''refinement_rounds'', PInt rounds),
             (''max_refinement_rounds'', PInt max_rounds),
             (''termination_reason'', dget0 payload ''low_confidence_reason''),
             (''escalated_to_human'', PBool (truthy (dget0 payload ''human_review_summary'')))]),
          (''mission'', PDict [(''user_goal'', PStr user_goal), (''material_id'', PStr material_id),
             (''runtime_constraints'', PDict [(''legacy_imported'', PBool True)])]),
          (''blackboard'', PDict ((''validated_facts'', PDict [(''legacy_imported'', PBool True)]) # bd)),
          (''execution'', PDict ([(''workdir'', PStr (if base_dir = [] then [] else abspath e base_dir))] @ ed @ el
             @ copied payload [(''thread_id'', ''thread_id''), (''latest_tool_name'', ''latest_tool_name'')]
             @ [(''environment_summary'', PDict []),
                (''compatibility_checkpoint_path'',
                   if base_dir = [] then PNone else PStr (path_join base_dir ''checkpoint.pkl''))])),
          (''diagnostics'', PDict ([(''errors'', PList errors),
             (''last_error'', if errors = [] then PNone else last errors)] @ dl @ dd
             @ copied payload [(''confidence_score'', ''confidence_score''), (''low_confidence_reason'', ''low_confidence_reason'')])),
          (''physics_results'', PDict (pd @ pl
             @ [(''masses'', PDict (copied payload (map (\<lambda>k. (k, k))
                   [''electron_mass_x'', ''electron_mass_y'', ''electron_mass_dos'', ''hole_mass_x'', ''hole_mass_y'', ''hole_mass_dos'']))),
                (''accepted_channels'', str_list [''x'', ''y'']), (''rejected_channels'', PList [])]
             @ copied payload ((''relaxed_structure_path'', ''relaxed_poscar'') # map (\<lambda>k. (k, k))
                   [''fermi_energy'', ''vbm_energy'', ''cbm_energy'', ''vbm_band_index'', ''cbm_band_index'', ''vbm_spin'', ''cbm_spin'']))),
          (''agent'', PDict ([(''decision_engine'', PStr (py_str (py_or (py_or (dget0 payload ''decision_engine'')
                (dget0 payload ''planner_mode'')) (PStr ''llm_required'')))),
             (''llm_required'', PBool (truthy (dget payload ''llm_required'' (dget payload ''llm_enabled'' (PBool True))))),
             (''llm_provider'', PStr (normalize_llm_provider (str_default payload ''llm_provider'' ''openai'')))] @ al)),
          (''services'', PDict [(''loaded_skills'', PList [])])])))))))))))))))))"

definition from_dict :: "coercion \<Rightarrow> env \<Rightarrow> dict \<Rightarrow> dict res" where
  "from_dict coerce e payload =
     (if payload = [] then model_validate coerce e []
      else if map_of payload ''task'' \<noteq> None then model_validate coerce e payload
      else legacy_state_to_shared_state coerce e payload)"

definition make_initial_material_state ::
  "coercion \<Rightarrow> env \<Rightarrow> string \<Rightarrow> string \<Rightarrow> string \<Rightarrow> string \<Rightarrow> string \<Rightarrow> string \<Rightarrow> string \<Rightarrow> bool \<Rightarrow> string
     \<Rightarrow> int \<Rightarrow> bool \<Rightarrow> string option \<Rightarrow> string option \<Rightarrow> dict res" where
  "make_initial_material_state coerce e material_id root_path workdir poscar_path potcar_path user_goal
       decision_engine llm_required llm_provider max_refinement_rounds dry_run task_id thread_id =
     (let root_abs = abspath e root_path;
          workdir_abs = abspath e workdir;
          runtime_constraints = PDict [(''dry_run'', PBool dry_run), (''max_refinement_rounds'', PInt max_refinement_rounds)]
      in model_validate coerce e
         [(''task'', PDict [(''task_id'', PStr (str_or task_id (fresh_id e))), (''task_type'', PStr ''single_material''),
             (''user_goal'', PStr user_goal), (''root_path'', PStr root_abs), (''dry_run'', PBool dry_run)]),
          (''material'', PDict [(''material_id'', PStr material_id), (''poscar_path'', PStr (abspath e poscar_path)),
             (''potcar_path'', PStr (abspath e potcar_path))]),
          (''workflow'', PDict [(''current_stage'', PStr ''observe_state''), (''stage_status'', PDict []),
             (''retry_budget'', PInt 3), (''retry_counts'', PDict []),
             (''max_refinement_rounds'', PInt max_refinement_rounds)]),
          (''mission'', PDict [(''user_goal'', PStr user_goal), (''material_id'', PStr material_id),
             (''cost_budget'', PDict [(''retry_budget'', PInt 2), (''refinement_budget'', PInt max_refinement_rounds)]),
             (''runtime_constraints'', runtime_constraints)]),
          (''blackboard'', PDict [(''validated_facts'', PDict [(''material_id'', PStr material_id)]),
             (''parsed_artifacts'', PDict [(''poscar_path'', PStr (abspath e poscar_path)),
                (''potcar_path'', PStr (abspath e potcar_path))])]),
          (''task_board'', PDict [(''pending_tasks'', PList initial_pending_tasks)]),
          (''execution'', PDict [(''workdir'', PStr workdir_abs), (''thread_id'', opt_str thread_id),
             (''environment_summary'', PDict [(''cwd'', PStr root_abs)]),
             (''compatibility_checkpoint_path'', PStr (path_join workdir_abs ''checkpoint.pkl'')),
             (''artifact_registry'', PDict [])]),
          (''agent'', PDict [(''decision_engine'', PStr decision_engine), (''llm_required'', PBool llm_required),
             (''llm_provider'', PStr (normalize_llm_provider llm_provider))]),
          (''services'', PDict [])])"

section \<open>Merging updates\<close>

definition APPEND_FIELDS :: "string list" where
  "APPEND_FIELDS =
     [''material.warnings'', ''workflow.completed_stages'', ''diagnostics.errors'', ''diagnostics.recovery_history'',
      ''diagnostics.consultation_trace'', ''execution.tool_trace'', ''execution.tool_invocations'',
      ''execution.failure_history'', ''execution.skill_trace'', ''execution.external_jobs'',
      ''execution.pending_events'', ''execution.event_history'', ''execution.consumed_event_ids'',
      ''execution.compatibility_checkpoint_history'', ''agent.agent_decisions'', ''agent.decision_trace'',
      ''blackboard.observations'', ''blackboard.risk_flags'', ''blackboard.anomaly_flags'',
      ''deliberation.rounds'', ''deliberation.proposals'', ''deliberation.critiques'', ''deliberation.preferences'',
      ''deliberation.arbitrations'', ''deliberation.selected_actions'', ''deliberation.reflections'',
      ''deliberation.disagreement_records'', ''deliberation.rationale_history'',
      ''memory.recovered_case_patterns'', ''memory.validation_case_patterns'', ''memory.historical_failures'',
      ''memory.reusable_heuristics'', ''services.framework_diagnostics'', ''services.retrieval_trace'',
      ''services.workflow_contract_history'', ''services.decision_ledger'', ''services.step_checkpoints'',
      ''batch.queue'', ''batch.running_items'', ''batch.completed_items'', ''batch.failed_items'', ''batch.skipped_items'']"

definition child_path :: "string \<Rightarrow> string \<Rightarrow> string" where
  "child_path path key = (if path \<noteq> [] then path @ ''.'' @ key else key)"

text \<open>The recursion of \<open>deep_merge\<close>, and its loop over the updates of a dict.\<close>

function (sequential) deep_merge :: "string \<Rightarrow> py \<Rightarrow> py \<Rightarrow> py"
  and merge_items :: "string \<Rightarrow> dict \<Rightarrow> dict \<Rightarrow> dict" where
  "deep_merge path (PDict base) (PDict updates) = PDict (merge_items path base updates)"
| "deep_merge path (PList base) (PList updates) =
     (if path \<in> set APPEND_FIELDS then PList (py_dedupe (base @ updates)) else PList updates)"
| "deep_merge path base updates = updates"
| "merge_items path merged [] = merged"
| "merge_items path merged ((key, value) # rest) =
     (case map_of merged key of
        Some old \<Rightarrow> merge_items path (dset merged key (deep_merge (child_path path key) old value)) rest
      | None \<Rightarrow> merge_items path (dset merged key value) rest)"
  by pat_completeness auto
termination
  by (relation "measure (\<lambda>x. case x of Inl (_, _, u) \<Rightarrow> size u | Inr (_, _, u) \<Rightarrow> size_list (size_prod (\<lambda>_. 0) size) u)")
    auto

definition apply_state_updates :: "coercion \<Rightarrow> env \<Rightarrow> dict \<Rightarrow> dict \<Rightarrow> dict res" where
  "apply_state_updates coerce e state_payload updates =
     bindR (from_dict coerce e state_payload) (\<lambda>base.
       from_dict coerce e (entries (deep_merge [] (PDict base) (PDict updates))))"

section \<open>Patches\<close>

text \<open>\<open>==\<close> on JSON values: numbers by value, dicts without regard to the order of keys. Two
  values are equal when their canonical forms are.\<close>

fun canon :: "py \<Rightarrow> py" where
  "canon (PBool b) = PFloat (Fin (if b then 1 else 0))"
| "canon (PInt i) = PFloat (Fin (of_int i))"
| "canon (PList xs) = PList (map canon xs)"
| "canon (PDict d) = PDict (sort_key fst (map (\<lambda>(k, v). (k, canon v)) d))"
| "canon v = v"

definition py_eq :: "py \<Rightarrow> py \<Rightarrow> bool" where
  "py_eq a b \<longleftrightarrow> canon a = canon b"

definition blank_clock :: "string \<Rightarrow> py \<Rightarrow> py" where
  "blank_clock section v =
     (if section = ''task'' then (case v of PDict d \<Rightarrow> PDict (dset d ''updated_at'' (PStr [])) | _ \<Rightarrow> v) else v)"

fun patch_loop :: "dict \<Rightarrow> dict \<Rightarrow> string list \<Rightarrow> dict \<Rightarrow> dict" where
  "patch_loop before after [] patch = patch"
| "patch_loop before after (section # sections) patch =
     patch_loop before after sections
       (if py_eq (blank_clock section (dget0 before section)) (blank_clock section (dget0 after section))
        then patch else dset patch section (dget0 after section))"

definition build_state_patch :: "coercion \<Rightarrow> env \<Rightarrow> dict \<Rightarrow> dict \<Rightarrow> string list option \<Rightarrow> dict res" where
  "build_state_patch coerce e before_payload after_payload sections =
     bindR (from_dict coerce e before_payload) (\<lambda>before.
     bindR (from_dict coerce e after_payload) (\<lambda>after.
       Inr (patch_loop before after
              (case sections of None \<Rightarrow> STATE_TOP_LEVEL_SECTIONS
               | Some ss \<Rightarrow> if ss = [] then STATE_TOP_LEVEL_SECTIONS else ss) [])))"

definition apply_state_patch :: "coercion \<Rightarrow> env \<Rightarrow> dict \<Rightarrow> dict \<Rightarrow> dict res" where
  "apply_state_patch coerce e state_payload patch =
     bindR (from_dict coerce e state_payload) (\<lambda>base. from_dict coerce e (dmerge base patch))"

section \<open>Stage status and resolved errors\<close>

definition record_stage_status :: "coercion \<Rightarrow> env \<Rightarrow> dict \<Rightarrow> string \<Rightarrow> string \<Rightarrow> dict res" where
  "record_stage_status coerce e payload stage status =
     (let p1 = set_fld ''workflow'' ''current_stage'' (PStr stage) payload;
          p2 = set_fld ''workflow'' ''stage_status''
                 (PDict (dset (entries (fld p1 ''workflow'' ''stage_status'')) stage (PStr status))) p1;
          p3 = (if status = ''success'' then
                  set_fld ''blackboard'' ''validated_facts''
                    (PDict (dset (entries (fld p2 ''blackboard'' ''validated_facts'')) (stage @ ''_completed'') (PBool True)))
                    (set_fld ''workflow'' ''completed_stages''
                       (PList (py_dedupe (items (fld p2 ''workflow'' ''completed_stages'') @ [PStr stage]))) p2)
                else p2)
      in from_dict coerce e p3)"

definition clear_resolved_error_state :: "coercion \<Rightarrow> env \<Rightarrow> dict \<Rightarrow> string option \<Rightarrow> dict res" where
  "clear_resolved_error_state coerce e state_payload resolved_stage =
     bindR (from_dict coerce e state_payload) (\<lambda>payload.
     bindR (get_dict payload ''diagnostics'') (\<lambda>diagnostics.
     bindR (bindR (get_or_empty payload ''execution'') (\<lambda>x. get_dict x ''latest_execution_observation'')) (\<lambda>latest_observation.
     bindR (get_dict diagnostics ''recovery_summary'') (\<lambda>recovery_summary.
     bindR (get_list diagnostics ''errors'') (\<lambda>errors.
     let recovery_stage = py_str (py_or (py_or (dget0 recovery_summary ''stage'') (dget0 recovery_summary ''current_stage'')) (PStr []));
         previous_failed_stage = py_str (py_or (py_or (dget0 latest_observation ''target_capability'')
                                                       (dget0 latest_observation ''stage'')) (PStr []));
         previous_failed = get_str latest_observation ''status'' = ''failed'';
         has_errors = truthy (dget0 diagnostics ''last_error'') \<or> errors \<noteq> [];
         anywhere = str_or resolved_stage [] = [];
         should_clear = has_errors \<and> (anywhere \<or> Some recovery_stage = resolved_stage
                          \<or> (previous_failed \<and> Some previous_failed_stage = resolved_stage));
         cleared = set_fld ''diagnostics'' ''errors'' (PList []) (set_fld ''diagnostics'' ''last_error'' PNone payload)
     in from_dict coerce e
          (if should_clear then
             (if anywhere \<or> Some recovery_stage = resolved_stage
              then set_fld ''diagnostics'' ''recovery_summary'' (PDict []) cleared else cleared)
           else payload))))))"

section \<open>Tool results\<close>

record ToolFailureEvidence =
  ev_returncode :: "int option"
  ev_stdout_path :: "string option"
  ev_stderr_path :: "string option"
  ev_log_paths :: "string list"
  ev_parser_payload :: dict
  ev_exception_type :: "string option"
  ev_exception_message :: "string option"
  ev_raw_payload :: dict

definition normalize_evidence :: "ToolFailureEvidence \<Rightarrow> ToolFailureEvidence" where
  "normalize_evidence v = v\<lparr>ev_log_paths := filter (\<lambda>p. p \<noteq> []) (dedupe (ev_log_paths v))\<rparr>"

definition dump_evidence :: "ToolFailureEvidence \<Rightarrow> py" where
  "dump_evidence v = PDict
     [(''returncode'', (case ev_returncode v of None \<Rightarrow> PNone | Some i \<Rightarrow> PInt i)),
      (''stdout_path'', opt_str (ev_stdout_path v)),
      (''stderr_path'', opt_str (ev_stderr_path v)),
      (''log_paths'', str_list (ev_log_paths v)),
      (''parser_payload'', PDict (ev_parser_payload v)),
      (''exception_type'', opt_str (ev_exception_type v)),
      (''exception_message'', opt_str (ev_exception_message v)),
      (''raw_payload'', PDict (ev_raw_payload v))]"

record ToolExecutionResult =
  tr_stage :: string
  tr_status :: string
  tr_error_summary :: "string option"
  tr_warnings :: "string list"
  tr_artifact_paths :: "(string \<times> string) list"
  tr_key_summary :: dict
  tr_state_updates :: dict
  tr_raw_evidence :: ToolFailureEvidence
  tr_invocation_source :: string
  tr_duration_s :: flt

definition normalize_result :: "ToolExecutionResult \<Rightarrow> ToolExecutionResult" where
  "normalize_result r =
     r\<lparr>tr_warnings := dedupe (tr_warnings r),
       tr_artifact_paths := filter (\<lambda>(k, v). v \<noteq> []) (tr_artifact_paths r),
       tr_invocation_source := (if tr_invocation_source r = [] then ''native_tool'' else tr_invocation_source r)\<rparr>"

definition str_dict :: "(string \<times> string) list \<Rightarrow> dict" where
  "str_dict d = map (\<lambda>(k, v). (k, PStr v)) d"

definition dump_result :: "ToolExecutionResult \<Rightarrow> py" where
  "dump_result r = PDict
     [(''stage'', PStr (tr_stage r)),
      (''status'', PStr (tr_status r)),
      (''error_summary'', opt_str (tr_error_summary r)),
      (''warnings'', str_list (tr_warnings r)),
      (''artifact_paths'', PDict (str_dict (tr_artifact_paths r))),
      (''key_summary'', PDict (tr_key_summary r)),
      (''state_updates'', PDict (tr_state_updates r)),
      (''raw_evidence'', dump_evidence (tr_raw_evidence r)),
      (''invocation_source'', PStr (tr_invocation_source r)),
      (''duration_s'', PFloat (tr_duration_s r))]"

definition tool_success :: "ToolExecutionResult \<Rightarrow> bool" where
  "tool_success r \<longleftrightarrow> tr_status r = ''success''"

text \<open>\<open>payload[s][k] = dedupe_keep_order(list(payload[s].get(k, []) or []) + xs)\<close>, and a merge of
  a dict into a field.\<close>

definition extend_fld :: "string \<Rightarrow> string \<Rightarrow> py list \<Rightarrow> dict \<Rightarrow> dict" where
  "extend_fld s k xs st = set_fld s k (PList (py_dedupe (items (fld st s k) @ xs))) st"

definition merge_fld :: "string \<Rightarrow> string \<Rightarrow> dict \<Rightarrow> dict \<Rightarrow> dict" where
  "merge_fld s k d st = set_fld s k (deep_merge [] (fld st s k) (PDict d)) st"

definition trace_item :: "ToolExecutionResult \<Rightarrow> py" where
  "trace_item r = PDict
     [(''stage'', PStr (tr_stage r)),
      (''status'', PStr (tr_status r)),
      (''error_summary'', opt_str (tr_error_summary r)),
      (''warnings'', str_list (tr_warnings r)),
      (''artifact_paths'', PDict (str_dict (tr_artifact_paths r))),
      (''key_summary'', PDict (tr_key_summary r)),
      (''invocation_source'', PStr (tr_invocation_source r)),
      (''duration_s'', PFloat (tr_duration_s r))]"

text \<open>The writes of \<open>register_tool_result\<close> before the state updates of the result are merged.\<close>

definition register_writes :: "ToolExecutionResult \<Rightarrow> dict \<Rightarrow> dict" where
  "register_writes r p0 =
     (let p1 = set_fld ''execution'' ''latest_tool_name'' (PStr (tr_stage r)) p0;
          p2 = set_fld ''execution'' ''latest_tool_result'' (dump_result r) p1;
          p3 = merge_fld ''execution'' ''artifact_paths'' (str_dict (tr_artifact_paths r)) p2;
          p4 = merge_fld ''execution'' ''artifact_registry'' (str_dict (tr_artifact_paths r)) p3;
          p5 = extend_fld ''execution'' ''tool_trace'' [trace_item r] p4;
          p6 = extend_fld ''execution'' ''tool_invocations'' [trace_item r] p5;
          p7 = set_fld ''diagnostics'' ''raw_evidence''
                 (PDict (dset (entries (fld p6 ''diagnostics'' ''raw_evidence'')) (tr_stage r) (dump_evidence (tr_raw_evidence r)))) p6;
          err = str_or (tr_error_summary r) [];
          p8 = (if err \<noteq> [] then
                  extend_fld ''execution'' ''failure_history''
                    [PDict [(''stage'', PStr (tr_stage r)), (''error_summary'', PStr err)]]
                    (extend_fld ''diagnostics'' ''errors'' [PStr err]
                      (set_fld ''diagnostics'' ''last_error'' (PStr err) p7))
                else p7);
          p9 = (if tr_warnings r \<noteq> [] then
                  extend_fld ''blackboard'' ''risk_flags'' (map PStr (tr_warnings r))
                    (extend_fld ''material'' ''warnings'' (map PStr (tr_warnings r)) p8)
                else p8)
      in merge_fld ''blackboard'' ''parsed_artifacts'' (str_dict (tr_artifact_paths r)) p9)"

definition register_tool_result :: "coercion \<Rightarrow> env \<Rightarrow> dict \<Rightarrow> ToolExecutionResult \<Rightarrow> dict res" where
  "register_tool_result coerce e state_payload r =
     bindR (from_dict coerce e state_payload) (\<lambda>p0.
     let merged = entries (deep_merge [] (PDict (register_writes r p0)) (PDict (tr_state_updates r))) in
     bindR (if tool_success r then clear_resolved_error_state coerce e merged (Some (tr_stage r)) else Inr merged) (\<lambda>payload.
       from_dict coerce e payload))"

section \<open>The outcome of a run\<close>

definition MaterialRunOutcome :: fields where
  "MaterialRunOutcome =
     [(''task_id'', TStr, PStr []),
      (''material_id'', TStr, PStr []),
      (''final_status'', TStr, PStr []),
      (''status'', TStr, PStr []),
      (''final_acceptance'', TOptStr, PNone),
      (''termination_reason'', TOptStr, PNone),
      (''workdir'', TStr, PStr []),
      (''artifact_paths'', TDictStr, PDict []),
      (''results'', TDict, PDict []),
      (''warnings'', TListStr, PList []),
      (''errors'', TListStr, PList []),
      (''confidence_score'', TOptFloat, PNone),
      (''validation_report'', TDict, PDict []),
      (''final_summary'', TDict, PDict []),
      (''accepted_channels'', TListStr, PList []),
      (''rejected_channels'', TListStr, PList []),
      (''stage_status'', TDictStr, PDict []),
      (''escalation_count'', TInt, PInt 0),
      (''manual_fix_used'', TBool, PBool False)]"

definition sync_status :: "dict \<Rightarrow> dict" where
  "sync_status o0 =
     (let o1 = (if \<not> truthy (dget0 o0 ''final_status'') \<and> truthy (dget0 o0 ''status'')
                then dset o0 ''final_status'' (dget0 o0 ''status'') else o0)
      in if \<not> truthy (dget0 o1 ''status'') \<and> truthy (dget0 o1 ''final_status'')
         then dset o1 ''status'' (dget0 o1 ''final_status'') else o1)"

definition make_outcome :: "coercion \<Rightarrow> dict \<Rightarrow> dict res" where
  "make_outcome coerce d = bindR (validate_fields coerce MaterialRunOutcome d) (\<lambda>x. Inr (sync_status x))"

text \<open>\<open>read_json\<close> is the content of the summary file, \<open>None\<close> when it cannot be read or parsed.\<close>

definition outcome_summary :: "(string \<Rightarrow> py option) \<Rightarrow> dict \<Rightarrow> py" where
  "outcome_summary read_json st =
     (let report = fld st ''services'' ''final_report'';
          base = (if truthy report then report
                  else if fld st ''workflow'' ''current_stage'' = PStr ''final_report''
                    then fld st ''execution'' ''latest_tool_result'' else PDict []);
          path = dget0 (entries (fld st ''execution'' ''artifact_paths'')) ''final_summary_path''
      in if truthy path then (case read_json (py_str path) of None \<Rightarrow> base | Some v \<Rightarrow> v) else base)"

definition build_material_outcome :: "coercion \<Rightarrow> env \<Rightarrow> (string \<Rightarrow> py option) \<Rightarrow> dict \<Rightarrow> dict res" where
  "build_material_outcome coerce e read_json state_payload =
     bindR (from_dict coerce e state_payload) (\<lambda>st.
     let final_summary = outcome_summary read_json st;
         report = entries (fld st ''diagnostics'' ''validation_report'');
         grade = fld st ''diagnostics'' ''quality_grade'';
         validation_report = (if truthy grade then dset report ''quality_grade'' grade else report);
         results = entries (fld st ''physics_results'' ''results'');
         stage_status = entries (fld st ''workflow'' ''stage_status'')
     in
     bindR (get_list validation_report ''accepted_channels'') (\<lambda>accepted0.
     bindR (get_list validation_report ''rejected_channels'') (\<lambda>rejected0.
     bindR (if accepted0 = [] \<and> rejected0 = [] then has_mobility_results_payload results else Inr False) (\<lambda>fallback.
     bindR (derive_compute_status (Some (py_str (fld st ''workflow'' ''run_status''))) results stage_status) (\<lambda>status.
     bindR (if truthy (dget0 report ''decision'') then Inr (dget0 report ''decision'')
            else (case final_summary of PDict d \<Rightarrow> Inr (dget0 d ''final_acceptance'')
                  | _ \<Rightarrow> Inl (AttributeError ''get''))) (\<lambda>acceptance.
       make_outcome coerce
         [(''task_id'', fld st ''task'' ''task_id''),
          (''material_id'', fld st ''material'' ''material_id''),
          (''status'', PStr status),
          (''final_status'', fld st ''workflow'' ''run_status''),
          (''final_acceptance'', acceptance),
          (''termination_reason'', fld st ''workflow'' ''termination_reason''),
          (''workdir'', fld st ''execution'' ''workdir''),
          (''artifact_paths'', fld st ''execution'' ''artifact_paths''),
          (''results'', PDict results),
          (''warnings'', fld st ''material'' ''warnings''),
          (''errors'', fld st ''diagnostics'' ''errors''),
          (''confidence_score'', fld st ''diagnostics'' ''confidence_score''),
          (''validation_report'', PDict validation_report),
          (''final_summary'', final_summary),
          (''accepted_channels'', if fallback then fld st ''physics_results'' ''accepted_channels'' else PList accepted0),
          (''rejected_channels'', if fallback then fld st ''physics_results'' ''rejected_channels'' else PList rejected0),
          (''stage_status'', PDict stage_status),
          (''escalation_count'', PInt (int (length (filter is_dict (items (fld st ''diagnostics'' ''consultation_trace'')))))),
          (''manual_fix_used'', PBool (list_ex (\<lambda>item. get_str (entries item) ''action'' = ''manual_fix_resume'')
             (filter is_dict (items (fld st ''diagnostics'' ''recovery_history'')))))]))))))"

definition derive_compute_status_from_state_payload :: "coercion \<Rightarrow> env \<Rightarrow> dict \<Rightarrow> string res" where
  "derive_compute_status_from_state_payload coerce e state_payload =
     bindR (from_dict coerce e state_payload) (\<lambda>st.
       derive_compute_status (Some (py_str (fld st ''workflow'' ''run_status'')))
         (entries (fld st ''physics_results'' ''results'')) (entries (fld st ''workflow'' ''stage_status'')))"

definition has_completed_compute_state_payload :: "coercion \<Rightarrow> env \<Rightarrow> dict \<Rightarrow> bool res" where
  "has_completed_compute_state_payload coerce e state_payload =
     bindR (from_dict coerce e state_payload) (\<lambda>st.
       has_completed_compute_payload (entries (fld st ''physics_results'' ''results''))
         (entries (fld st ''workflow'' ''stage_status'')))"

section \<open>The legacy snapshot\<close>

definition snapshot_fields :: "(string \<times> string \<times> string) list" where
  "snapshot_fields =
     [(''material_id'', ''material'', ''material_id''),
      (''base_dir'', ''execution'', ''workdir''),
      (''poscar_path'', ''material'', ''poscar_path''),
      (''potcar_path'', ''material'', ''potcar_path''),
      (''current_stage'', ''workflow'', ''current_stage''),
      (''run_status'', ''workflow'', ''run_status''),
      (''warnings'', ''material'', ''warnings''),
      (''errors'', ''diagnostics'', ''errors''),
      (''artifact_paths'', ''execution'', ''artifact_paths''),
      (''thread_id'', ''execution'', ''thread_id''),
      (''results'', ''physics_results'', ''results''),
      (''validation_report'', ''diagnostics'', ''validation_report''),
      (''decision_trace'', ''agent'', ''decision_trace''),
      (''tool_trace'', ''execution'', ''tool_trace''),
      (''recovery_trace'', ''diagnostics'', ''recovery_history''),
      (''fit_diagnostics'', ''diagnostics'', ''fit_diagnostics''),
      (''strain_summary'', ''diagnostics'', ''strain_summary''),
      (''relaxed_poscar'', ''physics_results'', ''relaxed_structure_path''),
      (''fermi_energy'', ''physics_results'', ''fermi_energy''),
      (''vbm_energy'', ''physics_results'', ''vbm_energy''),
      (''cbm_energy'', ''physics_results'', ''cbm_energy''),
      (''vbm_kpoint'', ''physics_results'', ''vbm_kpoint''),
      (''cbm_kpoint'', ''physics_results'', ''cbm_kpoint''),
      (''vbm_band_index'', ''physics_results'', ''vbm_band_index''),
      (''cbm_band_index'', ''physics_results'', ''cbm_band_index''),
      (''vbm_spin'', ''physics_results'', ''vbm_spin''),
      (''cbm_spin'', ''physics_results'', ''cbm_spin''),
      (''reciprocal_lattice'', ''physics_results'', ''reciprocal_lattice''),
      (''strain_data'', ''physics_results'', ''strain_data''),
      (''decision_engine'', ''agent'', ''decision_engine''),
      (''llm_required'', ''agent'', ''llm_required''),
      (''planner_mode'', ''agent'', ''decision_engine''),
      (''llm_enabled'', ''agent'', ''llm_required''),
      (''llm_provider'', ''agent'', ''llm_provider'')]"

definition build_legacy_state_snapshot :: "coercion \<Rightarrow> env \<Rightarrow> dict \<Rightarrow> dict res" where
  "build_legacy_state_snapshot coerce e state_payload =
     bindR (from_dict coerce e state_payload) (\<lambda>st.
       Inr (map (\<lambda>(name, s, k). (name, fld st s k)) snapshot_fields))"

section \<open>External events\<close>

definition EXTERNAL_EVENT_TYPES :: "string list" where
  "EXTERNAL_EVENT_TYPES =
     [''job_completed'', ''job_failed'', ''job_timeout'', ''artifact_missing'', ''manual_override'', ''resume_requested'']"

record ExternalEventRecord =
  xe_event_id :: string
  xe_event_type :: string
  xe_thread_id :: "string option"
  xe_run_id :: "string option"
  xe_job_id :: "string option"
  xe_target_capability :: "string option"
  xe_action_family :: "string option"
  xe_timestamp :: string
  xe_payload :: dict
  xe_result_summary :: dict
  xe_error_summary :: "string option"
  xe_artifact_paths :: "(string \<times> string) list"
  xe_provenance :: string
  xe_status :: "string option"
  xe_retryable :: "bool option"
  xe_terminal :: "bool option"

definition strip_or :: "string \<Rightarrow> string \<Rightarrow> string" where
  "strip_or s d = (if py_strip s = [] then d else py_strip s)"

definition strip_opt :: "string option \<Rightarrow> string option" where
  "strip_opt s = (let t = py_strip (str_or s []) in if t = [] then None else Some t)"

definition normalize_event :: "ExternalEventRecord \<Rightarrow> ExternalEventRecord" where
  "normalize_event v0 =
     (let v1 = v0\<lparr>xe_event_type := strip_or (xe_event_type v0) ''resume_requested'',
                  xe_thread_id := strip_opt (xe_thread_id v0),
                  xe_run_id := strip_opt (xe_run_id v0),
                  xe_job_id := strip_opt (xe_job_id v0),
                  xe_target_capability := strip_opt (xe_target_capability v0),
                  xe_action_family := strip_opt (xe_action_family v0),
                  xe_provenance := strip_or (xe_provenance v0) ''external'',
                  xe_artifact_paths := filter (\<lambda>(k, v). v \<noteq> []) (xe_artifact_paths v0),
                  xe_status := strip_opt (xe_status v0)\<rparr>;
          v2 = (if xe_event_type v1 \<notin> set EXTERNAL_EVENT_TYPES
                then v1\<lparr>xe_event_type := str_or (Some (xe_event_type v1)) ''resume_requested''\<rparr> else v1)
      in if xe_event_id v2 = [] then
           v2\<lparr>xe_event_id := join ''::''
               [str_or (xe_thread_id v2) ''unknown-thread'',
                str_or (Some (xe_event_type v2)) ''unknown-event'',
                str_or (xe_job_id v2) (str_or (xe_target_capability v2) ''no-target''),
                str_or (Some (xe_timestamp v2)) ''no-timestamp'']\<rparr>
         else v2)"

text \<open>An event that comes as a dict has been through its constructor, which is \<open>normalize_event\<close>.\<close>

definition normalize_external_event ::
  "ExternalEventRecord \<Rightarrow> string option \<Rightarrow> string option \<Rightarrow> ExternalEventRecord" where
  "normalize_external_event event0 default_thread_id default_run_id =
     (let event1 = (if str_or default_thread_id [] \<noteq> [] \<and> str_or (xe_thread_id event0) [] = []
                    then event0\<lparr>xe_thread_id := default_thread_id\<rparr> else event0);
          event2 = (if str_or default_run_id [] \<noteq> [] \<and> str_or (xe_run_id event1) [] = []
                    then event1\<lparr>xe_run_id := default_run_id\<rparr> else event1)
      in if xe_event_id event2 = [] then normalize_event event2 else event2)"

section \<open>A loaded state is well typed and normal\<close>

lemma well_typed_env: "well_typed e st \<longleftrightarrow> well_typed e' st"
proof -
  have t: "typed (TaskSection e) d \<longleftrightarrow> typed (TaskSection e') d" for d
    by (simp add: typed_def TaskSection_def list_all2_Cons1)
  then have "section_typed (''task'', TaskSection e) y \<longleftrightarrow> section_typed (''task'', TaskSection e') y" for y
    by (cases y) simp
  then show ?thesis by (simp add: well_typed_def MaterialTaskState_def list_all2_Cons1)
qed

lemma well_typed_task:
  assumes "well_typed e st"
  shows "st \<noteq> [] \<and> map_of st ''task'' \<noteq> None"
proof -
  have "map_of (MaterialTaskState e) ''task'' = Some (TaskSection e)" by (simp add: MaterialTaskState_def)
  from section_map_of [OF assms [unfolded well_typed_def] this] show ?thesis by auto
qed

lemma normalize_state_clock: "normalize_state e (set_fld ''task'' ''updated_at'' v st) = normalize_state e st"
proof -
  have "dset (dset d k v) k w = dset d k w" for d :: dict and k v w
    by (induction d) (auto simp: dset_def)
  then have "set_fld ''task'' ''updated_at'' w (set_fld ''task'' ''updated_at'' v st) = set_fld ''task'' ''updated_at'' w st" for w
    by (simp add: set_fld_def sec_def)
  then show ?thesis by (simp add: normalize_state_def)
qed

lemma normal_state_reclock:
  "normal_state e st \<Longrightarrow> normal_state e' (set_fld ''task'' ''updated_at'' (PStr (now e')) st)"
  using not_tidied(1) [of "''updated_at''"] by (auto simp: normal_state_def filled_def)

text \<open>Normalising a normal state at another time only moves its clock.\<close>

lemma normalize_reclock:
  assumes "well_typed e st" "normal_state e st"
  shows "normalize_state e' st = set_fld ''task'' ''updated_at'' (PStr (now e')) st"
proof -
  let ?s = "set_fld ''task'' ''updated_at'' (PStr (now e')) st"
  have "well_typed e' ?s"
    using assms(1) well_typed_env ftype_table(1) by (intro well_typed_set_fld) (auto simp: is_str_def)
  from normal_state_fix [OF this normal_state_reclock [OF assms(2)]]
  show ?thesis by (simp add: normalize_state_clock)
qed

lemma legacy_validated: "legacy_state_to_shared_state coerce e p = Inr st \<Longrightarrow> \<exists>q. model_validate coerce e q = Inr st"
  unfolding legacy_state_to_shared_state_def Let_def bindR_eq_Inr by (elim exE conjE) (rule exI, assumption)

context validator
begin

lemma model_validate_result: "model_validate coerce e p = Inr st \<Longrightarrow> well_typed e st \<and> normal_state e st"
  by (auto simp: model_validate_def dest!: validate_well_typed intro: normalize_well_typed normalize_normal)

lemma model_validate_keep: "well_typed e st \<Longrightarrow> model_validate coerce e' st = Inr (normalize_state e' st)"
  using validate_keeps [of e' st] well_typed_env [of e st e'] by (simp add: model_validate_def)

lemma from_dict_result: "from_dict coerce e p = Inr st \<Longrightarrow> well_typed e st \<and> normal_state e st"
  by (auto simp: from_dict_def split: if_splits dest: model_validate_result legacy_validated)

lemma from_dict_keep: "well_typed e st \<Longrightarrow> from_dict coerce e' st = Inr (normalize_state e' st)"
  using well_typed_task [of e st] model_validate_keep by (simp add: from_dict_def)

lemma from_dict_again: "from_dict coerce e p = Inr st \<Longrightarrow> from_dict coerce e st = Inr st"
  using from_dict_result from_dict_keep normal_state_fix by metis

lemma from_dict_reclock:
  "from_dict coerce e p = Inr st \<Longrightarrow>
   from_dict coerce e' st = Inr (set_fld ''task'' ''updated_at'' (PStr (now e')) st)"
  using from_dict_result from_dict_keep normalize_reclock by metis

end

section \<open>An instance of the validator\<close>

text \<open>The coercion that accepts exactly the values that already have the declared type.\<close>

definition strict_coerce :: coercion where
  "strict_coerce t v = (if of_type t v then Inr v else Inl (ValidationError ''type''))"

interpretation strict: validator strict_coerce
  by unfold_locales (auto simp: strict_coerce_def split: if_splits)

definition demo_env :: env where
  "demo_env = \<lparr>now = ''2026-01-01T00:00:00Z'', fresh_id = ''id1'', cwd = ''/w''\<rparr>"

section \<open>Merging twice\<close>

text \<open>An update without repeated keys and without repeated list entries.\<close>

fun tidy_value :: "py \<Rightarrow> bool" where
  "tidy_value (PList xs) = (py_dedupe xs = xs)"
| "tidy_value (PDict d) = (distinct (map fst d) \<and> list_all (\<lambda>(k, v). tidy_value v) d)"
| "tidy_value v = True"

lemma dset_same: "map_of d k = Some v \<Longrightarrow> dset d k v = d"
  by (induction d) (auto simp: dset_def)

lemma map_of_merge_items:
  "distinct (map fst u) \<Longrightarrow> map_of (merge_items p m u) k =
     (case map_of u k of
        None \<Rightarrow> map_of m k
      | Some v \<Rightarrow> Some (case map_of m k of None \<Rightarrow> v | Some w \<Rightarrow> deep_merge (child_path p k) w v))"
proof (induction u arbitrary: m)
  case (Cons x u)
  obtain j v where x: "x = (j, v)" by (cases x)
  have j: "map_of u j = None" using Cons.prems x by (simp add: map_of_eq_None_iff)
  show ?case using Cons.IH Cons.prems x j by (auto split: option.splits)
qed simp

lemma merge_items_fixed:
  "\<forall>(k, v)\<in>set u. \<exists>w. map_of m k = Some w \<and> deep_merge (child_path p k) w v = w \<Longrightarrow> merge_items p m u = m"
proof (induction u)
  case (Cons x u)
  obtain k v where x: "x = (k, v)" by (cases x)
  with Cons.prems obtain w where "map_of m k = Some w" "deep_merge (child_path p k) w v = w" by auto
  with Cons x show ?case by (simp add: dset_same)
qed simp

lemma py_dedupe_append: "py_dedupe (py_dedupe (b @ u) @ u) = py_dedupe (b @ u)"
proof -
  have skip: "py_marker ` set xs \<subseteq> set s \<Longrightarrow> dedupe_loop py_marker s xs = []" for s xs
    by (induction xs) auto
  have app: "dedupe_loop f s (xs @ ys) = dedupe_loop f s xs @ dedupe_loop f (rev (map f xs) @ s) ys"
    for f :: "py \<Rightarrow> marker" and s xs ys
  proof (induction xs arbitrary: s)
    case (Cons x xs)
    have "f x \<in> set s \<Longrightarrow> dedupe_loop f (rev (map f xs) @ f x # s) ys = dedupe_loop f (rev (map f xs) @ s) ys"
      by (rule dedupe_loop_cong) auto
    with Cons show ?case by simp
  qed simp
  let ?d = "py_dedupe (b @ u)"
  have d: "dedupe_loop py_marker [] ?d = ?d" using dedupe_by_idem by (simp add: py_dedupe_def dedupe_by_def)
  have "py_marker ` set u \<subseteq> py_marker ` set ?d" using dedupe_by_markers [of py_marker "b @ u"] by (auto simp: py_dedupe_def)
  then have "dedupe_loop py_marker (rev (map py_marker ?d) @ []) u = []" by (intro skip) simp
  with d show ?thesis unfolding py_dedupe_def [of "?d @ u"] dedupe_by_def app by simp
qed

lemma py_dedupe_double: "py_dedupe u = u \<Longrightarrow> py_dedupe (u @ u) = u"
  using py_dedupe_append [of "[]" u] by simp

lemma deep_merge_twice:
  "tidy_value u \<Longrightarrow> deep_merge p (deep_merge p b u) u = deep_merge p b u \<and> deep_merge p u u = u"
proof (induction u arbitrary: p b rule: tidy_value.induct)
  case (1 xs)
  then show ?case by (cases b) (auto simp: py_dedupe_append py_dedupe_double)
next
  case (2 d)
  then have dist: "distinct (map fst d)" and tv: "\<And>k v. (k, v) \<in> set d \<Longrightarrow> tidy_value v"
    by (auto simp: list_all_iff)
  note IH = 2(1)
  have self: "merge_items p d d = d" for p
    by (rule merge_items_fixed) (use dist IH tv in \<open>auto simp: map_of_is_SomeI\<close>)
  have "merge_items p (merge_items p m d) d = merge_items p m d" for m
  proof (rule merge_items_fixed, clarify)
    fix k v assume kv: "(k, v) \<in> set d"
    with dist have "map_of d k = Some v" by simp
    then show "\<exists>w. map_of (merge_items p m d) k = Some w \<and> deep_merge (child_path p k) w v = w"
      using map_of_merge_items [OF dist, of p m k] IH [OF kv refl tv [OF kv]] by (auto split: option.splits)
  qed
  with self show ?case by (cases b) auto
qed (cases b; simp)+

section \<open>Patches\<close>

lemma map_of_sort_key: "distinct (map fst d) \<Longrightarrow> map_of (sort_key fst d) = map_of d"
  for d :: "(string \<times> 'a) list"
  by (rule map_of_inject_set [THEN iffD2]) (simp_all add: distinct_map)

lemma canon_dict_eq:
  assumes "distinct (map fst d)" "distinct (map fst d')"
  shows "canon (PDict d) = canon (PDict d') \<longleftrightarrow>
    (\<forall>k. map_option canon (map_of d k) = map_option canon (map_of d' k))"
proof -
  let ?f = "map (\<lambda>(k, v). (k, canon v))"
  have m: "map_of (?f d) k = map_option canon (map_of d k)" for d :: dict and k
    by (induction d) auto
  have k: "map fst (?f d) = map fst d" for d :: dict by (induction d) auto
  have dist: "distinct (map fst (?f d))" "distinct (map fst (?f d'))" by (simp_all only: k assms)
  have "sort_key fst (?f d) = sort_key fst (?f d') \<longleftrightarrow> map_of (?f d) = map_of (?f d')"
  proof
    assume "sort_key fst (?f d) = sort_key fst (?f d')"
    then show "map_of (?f d) = map_of (?f d')" using map_of_sort_key dist by metis
  next
    assume eq: "map_of (?f d) = map_of (?f d')"
    have "set (?f d) = set (?f d')" using eq dist by (simp only: map_of_inject_set)
    then show "sort_key fst (?f d) = sort_key fst (?f d')"
      using dist by (intro map_sorted_distinct_set_unique [of fst])
        (auto simp: distinct_map inj_on_def dest: map_of_is_SomeI)
  qed
  then show ?thesis using m by (auto simp: fun_eq_iff)
qed


lemma truthy_canon: "truthy (canon v) = truthy v"
proof -
  have "xs \<noteq> [] \<Longrightarrow> sort_key f xs \<noteq> []" for f :: "string \<times> py \<Rightarrow> string" and xs
    by (metis length_0_conv length_sort)
  then show ?thesis by (cases v) auto
qed

lemma canon_PStr: "canon v = PStr s \<longleftrightarrow> v = PStr s"
  by (cases v) auto

lemma patch_loop_map:
  "map_of (patch_loop b a ss p) s =
     (if s \<in> set ss \<and> \<not> py_eq (blank_clock s (dget0 b s)) (blank_clock s (dget0 a s))
      then Some (dget0 a s) else map_of p s)"
  by (induction ss arbitrary: p) auto

lemma patch_loop_distinct: "distinct (map fst p) \<Longrightarrow> distinct (map fst (patch_loop b a ss p))"
  by (induction ss arbitrary: p) auto

lemma section_dmerge:
  "list_all2 section_typed ss st \<Longrightarrow> \<forall>(s, v)\<in>set u. \<exists>fs d. map_of ss s = Some fs \<and> v = PDict d \<and> typed fs d \<Longrightarrow>
   list_all2 section_typed ss (dmerge st u)"
  by (induction st u rule: dmerge.induct) (auto intro: section_dset)

lemma sections_names: "STATE_TOP_LEVEL_SECTIONS = map fst (MaterialTaskState e)"
  by (simp add: STATE_TOP_LEVEL_SECTIONS_def MaterialTaskState_def)

lemma section_of:
  assumes "well_typed e st" "s \<in> set STATE_TOP_LEVEL_SECTIONS"
  obtains fs where "map_of (MaterialTaskState e) s = Some fs" "map_of st s = Some (PDict (sec st s))"
    "typed fs (sec st s)" "dget0 st s = PDict (sec st s)"
proof -
  from assms(2) obtain fs where f: "map_of (MaterialTaskState e) s = Some fs"
    using sections_names [of e] by (metis map_of_eq_None_iff option.exhaust image_set)
  from section_map_of [OF assms(1) [unfolded well_typed_def] f] obtain d where
    "map_of st s = Some (PDict d)" "typed fs d" by blast
  with that f show thesis by (simp add: sec_def dget0_def dget_def)
qed

lemma section_distinct: "well_typed e st \<Longrightarrow> s \<in> set STATE_TOP_LEVEL_SECTIONS \<Longrightarrow> distinct (map fst (sec st s))"
proof -
  assume w: "well_typed e st" "s \<in> set STATE_TOP_LEVEL_SECTIONS"
  then obtain fs where "map_of (MaterialTaskState e) s = Some fs" "typed fs (sec st s)" by (rule section_of)
  then show ?thesis using good_sections [of s fs e] typed_keys by (fastforce simp: good_fields_def dest: map_of_SomeD)
qed

text \<open>Two states agree on a section when its fields are equal, the clock of the task aside.\<close>

definition agree :: "dict \<Rightarrow> dict \<Rightarrow> string \<Rightarrow> bool" where
  "agree st st' s \<longleftrightarrow> (\<forall>k. s = ''task'' \<and> k = ''updated_at'' \<or>
     map_option canon (map_of (sec st s) k) = map_option canon (map_of (sec st' s) k))"

lemma unchanged_agree:
  assumes b: "well_typed e b" and a: "well_typed e a" and s: "s \<in> set STATE_TOP_LEVEL_SECTIONS"
    and eq: "py_eq (blank_clock s (dget0 b s)) (blank_clock s (dget0 a s))"
  shows "agree b a s"
proof -
  have d: "dget0 b s = PDict (sec b s)" "dget0 a s = PDict (sec a s)"
    using section_of [OF b s] section_of [OF a s] by metis+
  note dist = section_distinct [OF b s] section_distinct [OF a s]
  show ?thesis
  proof (cases "s = ''task''")
    case True
    have ds: "distinct (map fst (dset (sec b s) ''updated_at'' (PStr [])))"
      "distinct (map fst (dset (sec a s) ''updated_at'' (PStr [])))" using dist by simp_all
    from eq d True have "\<forall>k. map_option canon (map_of (dset (sec b s) ''updated_at'' (PStr [])) k)
        = map_option canon (map_of (dset (sec a s) ''updated_at'' (PStr [])) k)"
      using canon_dict_eq [OF ds] by (simp add: py_eq_def blank_clock_def)
    then show ?thesis using True by (auto simp: agree_def split: if_splits)
  next
    case False
    with eq d show ?thesis using canon_dict_eq [OF dist] by (simp add: agree_def py_eq_def blank_clock_def)
  qed
qed


lemma agree_string:
  assumes "well_typed e u" "well_typed e a" "agree u a s" "ftype_of e s k = Some TStr" "\<not> (s = ''task'' \<and> k = ''updated_at'')"
  shows "fld u s k = fld a s k"
proof -
  obtain x y where x: "fld u s k = PStr x" "fld a s k = PStr y"
    using fld_typed(1) [OF assms(1,4)] fld_typed(1) [OF assms(2,4)] by (auto simp: is_str_def split: py.splits)
  have o: "fld st s k = (case map_of (sec st s) k of None \<Rightarrow> PNone | Some v \<Rightarrow> v)" for st
    by (simp add: fld_def dget0_def dget_def)
  have "map_option canon (map_of (sec u s) k) = map_option canon (map_of (sec a s) k)"
    using assms(3,5) by (auto simp: agree_def)
  then show ?thesis using x unfolding o by (auto split: option.splits)
qed

text \<open>A state whose sections each come from one of two normal states and which agrees with the
  second of them is normal as soon as its clock is set.\<close>

lemma mixed_normal:
  assumes u: "well_typed e u" and a: "well_typed e a" and na: "normal_state e a" and nb: "normal_state e b"
    and mix: "\<And>s. s \<in> set STATE_TOP_LEVEL_SECTIONS \<Longrightarrow> s \<noteq> ''task'' \<Longrightarrow> sec u s = sec a s \<or> sec u s = sec b s"
    and ag: "\<And>s. s \<in> set STATE_TOP_LEVEL_SECTIONS \<Longrightarrow> agree u a s"
  shows "normal_state e' (set_fld ''task'' ''updated_at'' (PStr (now e')) u)"
proof -
  have names: "''task'' \<in> set STATE_TOP_LEVEL_SECTIONS" "''mission'' \<in> set STATE_TOP_LEVEL_SECTIONS"
    "''material'' \<in> set STATE_TOP_LEVEL_SECTIONS" "''execution'' \<in> set STATE_TOP_LEVEL_SECTIONS"
    "''agent'' \<in> set STATE_TOP_LEVEL_SECTIONS" "''task_board'' \<in> set STATE_TOP_LEVEL_SECTIONS"
    "\<forall>(s, k)\<in>set tidied_lists. s \<in> set STATE_TOP_LEVEL_SECTIONS \<and> s \<noteq> ''task''"
    by (simp_all add: STATE_TOP_LEVEL_SECTIONS_def MaterialTaskState_def tidied_lists_def)
  have str: "fld u ''mission'' ''material_id'' = fld a ''mission'' ''material_id''"
    "fld u ''material'' ''material_id'' = fld a ''material'' ''material_id''"
    "fld u ''mission'' ''user_goal'' = fld a ''mission'' ''user_goal''"
    "fld u ''task'' ''user_goal'' = fld a ''task'' ''user_goal''"
    using names ag ftype_table by (auto intro!: agree_string [OF u a])
  have one: "P (fld u s)" if "P (fld a s)" "P (fld b s)" "s \<in> set STATE_TOP_LEVEL_SECTIONS" "s \<noteq> ''task''" for P s
  proof -
    have "fld u s = fld a s \<or> fld u s = fld b s" using mix [OF that(3,4)] by (auto simp: fld_def fun_eq_iff)
    with that show ?thesis by auto
  qed
  have t: "tidied (fld u s k) = fld u s k" if m: "(s, k) \<in> set tidied_lists" for s k
    using names(7) na nb m
    by (intro one [of "\<lambda>f. tidied (f k) = f k"]) (auto simp: normal_state_def)
  have p: "PStr (normalize_llm_provider (py_str (py_or (fld u ''agent'' ''llm_provider'') (PStr [])))) = fld u ''agent'' ''llm_provider''"
    using names na nb
    by (intro one [of "\<lambda>f. PStr (normalize_llm_provider (py_str (py_or (f ''llm_provider'') (PStr [])))) = f ''llm_provider''"])
      (auto simp: normal_state_def)
  have r: "PDict (dmerge (entries (fld u ''execution'' ''artifact_paths'')) (entries (fld u ''execution'' ''artifact_registry'')))
      = fld u ''execution'' ''artifact_registry''"
    using names na nb
    by (intro one [of "\<lambda>f. PDict (dmerge (entries (f ''artifact_paths'')) (entries (f ''artifact_registry''))) = f ''artifact_registry''"])
      (auto simp: normal_state_def)
  have tb: "truthy (fld u ''task_board'' ''pending_tasks'') \<or> truthy (fld u ''task_board'' ''completed_tasks'')
       \<or> truthy (fld u ''task_board'' ''active_tasks'')"
    using names na nb
    by (intro one [of "\<lambda>f. truthy (f ''pending_tasks'') \<or> truthy (f ''completed_tasks'') \<or> truthy (f ''active_tasks'')"])
      (auto simp: normal_state_def)
  have f: "filled u ''mission'' ''material_id'' ''material'' ''material_id''"
    "filled u ''mission'' ''user_goal'' ''task'' ''user_goal''"
    "filled u ''material'' ''material_id'' ''mission'' ''material_id''"
    "filled u ''task'' ''user_goal'' ''mission'' ''user_goal''"
    using na unfolding normal_state_def filled_def str by simp_all
  show ?thesis
    using f t p r tb not_tidied(1) [of "''updated_at''"] unfolding normal_state_def filled_def by auto
qed

lemma patched:
  fixes e' :: env
  assumes b: "well_typed e b" "normal_state e b" and a: "well_typed e a" "normal_state e a"
  defines "u \<equiv> dmerge (set_fld ''task'' ''updated_at'' (PStr (now e')) b) (patch_loop b a STATE_TOP_LEVEL_SECTIONS [])"
  shows "well_typed e u \<and> normal_state e' (set_fld ''task'' ''updated_at'' (PStr (now e')) u)
    \<and> (\<forall>s\<in>set STATE_TOP_LEVEL_SECTIONS. agree u a s)"
proof -
  let ?b = "set_fld ''task'' ''updated_at'' (PStr (now e')) b"
  let ?p = "patch_loop b a STATE_TOP_LEVEL_SECTIONS []"
  let ?same = "\<lambda>s. py_eq (blank_clock s (dget0 b s)) (blank_clock s (dget0 a s))"
  have dp: "distinct (map fst ?p)" by (rule patch_loop_distinct) simp
  have mu: "map_of u s = (if s \<in> set STATE_TOP_LEVEL_SECTIONS \<and> \<not> ?same s then Some (dget0 a s) else map_of ?b s)" for s
    unfolding u_def map_of_dmerge [OF dp] by (simp add: map_add_def patch_loop_map split: option.splits)
  have wb: "well_typed e ?b" using b(1) ftype_table(1) by (intro well_typed_set_fld) (auto simp: is_str_def)
  have "\<forall>(s, v)\<in>set ?p. \<exists>fs d. map_of (MaterialTaskState e) s = Some fs \<and> v = PDict d \<and> typed fs d"
  proof clarify
    fix s v assume "(s, v) \<in> set ?p"
    with dp have "map_of ?p s = Some v" by simp
    then have s: "s \<in> set STATE_TOP_LEVEL_SECTIONS" and v: "v = dget0 a s" by (auto simp: patch_loop_map split: if_splits)
    from section_of [OF a(1) s] v show "\<exists>fs d. map_of (MaterialTaskState e) s = Some fs \<and> v = PDict d \<and> typed fs d" by metis
  qed
  then have wu: "well_typed e u" using wb unfolding u_def well_typed_def by (intro section_dmerge)
  have secu: "sec u s = sec a s \<or> (sec u s = sec ?b s \<and> agree b a s)" if s: "s \<in> set STATE_TOP_LEVEL_SECTIONS" for s
  proof (cases "?same s")
    case True
    then show ?thesis using mu unchanged_agree [OF b(1) a(1) s] by (simp add: sec_def dget0_def dget_def)
  next
    case False
    then show ?thesis using s mu section_of [OF a(1) s] by (simp add: sec_def dget0_def dget_def)
  qed
  have sb: "sec ?b s = (if s = ''task'' then dset (sec b s) ''updated_at'' (PStr (now e')) else sec b s)" for s
    by (simp add: set_fld_def sec_def)
  have ag: "agree u a s" if s: "s \<in> set STATE_TOP_LEVEL_SECTIONS" for s
    using secu [OF s] sb [of s] by (cases "s = ''task''") (auto simp: agree_def split: if_splits)
  have mix: "sec u s = sec a s \<or> sec u s = sec b s" if "s \<in> set STATE_TOP_LEVEL_SECTIONS" "s \<noteq> ''task''" for s
    using secu [OF that(1)] sb [of s] that(2) by auto
  have "normal_state e' (set_fld ''task'' ''updated_at'' (PStr (now e')) u)"
    using mix ag by (intro mixed_normal [OF wu a(1,2) b(2)]) auto
  with wu ag show ?thesis by blast
qed


lemma record_writes_typed:
  assumes "well_typed e p"
  shows "well_typed e (set_fld ''workflow'' ''stage_status''
       (PDict (dset (entries (fld p ''workflow'' ''stage_status'')) stage (PStr status)))
       (set_fld ''workflow'' ''current_stage'' (PStr stage) p))"
proof -
  have t: "ftype_of e ''workflow'' ''current_stage'' = Some TStr" "ftype_of e ''workflow'' ''stage_status'' = Some TDictStr"
    by (simp_all add: ftype_of_def MaterialTaskState_def section_defs)
  from entries_typed [OF fld_typed(1) [OF assms t(2)]] obtain d where
    d: "entries (fld p ''workflow'' ''stage_status'') = d" "distinct (map fst d)" "list_all (is_str \<circ> snd) d" by auto
  show ?thesis
    unfolding d(1)
    by (intro well_typed_set_fld [OF _ t(2)] well_typed_set_fld [OF _ t(1)] assms)
      (use d in \<open>auto simp: dict_of_def is_str_def dset_values\<close>)
qed

text \<open>The empty payload loads: every field takes its default.\<close>

lemma default_loads: "\<exists>st. from_dict coerce e [] = Inr st"
proof -
  have f: "\<exists>r. validate_fields coerce fs [] = Inr r" for fs
    by (induction fs) auto
  have "\<exists>r. validate_sections coerce ss [] = Inr r" for ss
  proof (induction ss)
    case (Cons x ss)
    with f [of "snd x"] show ?case by (cases x) auto
  qed simp
  then show ?thesis by (simp add: from_dict_def model_validate_def)
qed

text \<open>A loaded state with one field replaced loads again, normalised.\<close>

lemma update_loads:
  assumes "validator coerce" "from_dict coerce e p = Inr st" "ftype_of e s k = Some t" "of_type t v"
  shows "from_dict coerce e (set_fld s k v st) = Inr (normalize_state e (set_fld s k v st))"
  using validator.from_dict_result [OF assms(1,2)] validator.from_dict_keep [OF assms(1)]
    well_typed_set_fld [OF _ assms(3,4)] by blast

section \<open>Properties of the shared state\<close>

text \<open>C10: Normalisation is idempotent: a state that was loaded, however it came in (a full payload, an
  empty one, or the legacy flat layout), is loaded again to the same state, so the validation
  that surrounds every operation does not drift. At another time only the clock moves.\<close>

theorem from_dict_idempotent:
  assumes "validator coerce" and "from_dict coerce e payload = Inr st"
  shows "from_dict coerce e st = Inr st
    \<and> from_dict coerce e' st = Inr (set_fld ''task'' ''updated_at'' (PStr (now e')) st)"
  using validator.from_dict_again [OF assms] validator.from_dict_reclock [OF assms] by blast

theorem from_dict_idempotent_witness:
  "\<exists>st. from_dict strict_coerce demo_env [] = Inr st \<and> from_dict strict_coerce demo_env st = Inr st"
proof -
  obtain st where st: "from_dict strict_coerce demo_env [] = Inr st" using default_loads by blast
  from from_dict_idempotent [OF strict.validator_axioms st] st show ?thesis by blast
qed

text \<open>Merging the same update twice is the same as merging it once, in dicts (key by key), in the
  lists that are appended to (no entry is added again) and in the lists that are replaced,
  for an update without repeated keys or list entries.\<close>

theorem deep_merge_idempotent:
  assumes "tidy_value updates"
  shows "deep_merge path (deep_merge path base updates) updates = deep_merge path base updates"
  using deep_merge_twice [OF assms] by blast

theorem deep_merge_idempotent_witness:
  "deep_merge [] (PDict [(''diagnostics'', PDict [(''errors'', str_list [''old''])])])
       (PDict [(''diagnostics'', PDict [(''errors'', str_list [''new'', ''old''])])])
     = PDict [(''diagnostics'', PDict [(''errors'', str_list [''old'', ''new''])])]
   \<and> deep_merge [] (PDict [(''diagnostics'', PDict [(''errors'', str_list [''old'', ''new''])])])
       (PDict [(''diagnostics'', PDict [(''errors'', str_list [''new'', ''old''])])])
     = PDict [(''diagnostics'', PDict [(''errors'', str_list [''old'', ''new''])])]"
proof -
  let ?b = "PDict [(''diagnostics'', PDict [(''errors'', str_list [''old''])])]"
  let ?u = "PDict [(''diagnostics'', PDict [(''errors'', str_list [''new'', ''old''])])]"
  let ?r = "PDict [(''diagnostics'', PDict [(''errors'', str_list [''old'', ''new''])])]"
  have t: "tidy_value ?u" and m: "deep_merge [] ?b ?u = ?r" by code_simp+
  from deep_merge_idempotent [OF t, of "[]" ?b] have "deep_merge [] ?r ?u = ?r" unfolding m .
  with m show ?thesis by (rule conjI)
qed

text \<open>C9: A patch carries a state over: for two loaded states, applying the patch between them to the
  first gives a state that agrees with the second on every section (equal as JSON values,
  the order of keys aside), except for the clock of the task, which is set to the time of
  the application.\<close>

theorem patch_roundtrip:
  assumes "validator coerce"
    and "from_dict coerce e before = Inr b" and "from_dict coerce e after = Inr a"
    and "build_state_patch coerce e before after None = Inr patch"
  shows "\<exists>r. apply_state_patch coerce e' b patch = Inr r
    \<and> fld r ''task'' ''updated_at'' = PStr (now e')
    \<and> (\<forall>s\<in>set STATE_TOP_LEVEL_SECTIONS. agree r a s)"
proof -
  note res = validator.from_dict_result [OF assms(1)]
  from res [OF assms(2)] res [OF assms(3)] have
    b: "well_typed e b" "normal_state e b" and a: "well_typed e a" "normal_state e a" by auto
  let ?u = "dmerge (set_fld ''task'' ''updated_at'' (PStr (now e')) b) (patch_loop b a STATE_TOP_LEVEL_SECTIONS [])"
  have p: "patch = patch_loop b a STATE_TOP_LEVEL_SECTIONS []"
    using assms(2-4) by (simp add: build_state_patch_def)
  from patched [OF b a, of e'] have u: "well_typed e ?u"
    "normal_state e' (set_fld ''task'' ''updated_at'' (PStr (now e')) ?u)"
    "\<forall>s\<in>set STATE_TOP_LEVEL_SECTIONS. agree ?u a s" by auto
  let ?r = "set_fld ''task'' ''updated_at'' (PStr (now e')) ?u"
  have "well_typed e' ?r" using u(1) well_typed_env ftype_table(1) by (intro well_typed_set_fld) (auto simp: is_str_def)
  from normal_state_fix [OF this u(2)] have "normalize_state e' ?u = ?r" by (simp add: normalize_state_clock)
  then have "apply_state_patch coerce e' b patch = Inr ?r"
    using validator.from_dict_reclock [OF assms(1,2), of e'] validator.from_dict_keep [OF assms(1) u(1), of e'] p
    by (simp add: apply_state_patch_def)
  moreover have "\<forall>s\<in>set STATE_TOP_LEVEL_SECTIONS. agree ?r a s"
    using u(3) by (auto simp: agree_def set_fld_def sec_def)
  ultimately show ?thesis by auto
qed

theorem patch_roundtrip_witness:
  "\<exists>b a after patch r. from_dict strict_coerce demo_env [] = Inr b
     \<and> from_dict strict_coerce demo_env after = Inr a \<and> fld a ''workflow'' ''run_status'' = PStr ''running''
     \<and> build_state_patch strict_coerce demo_env [] after None = Inr patch
     \<and> apply_state_patch strict_coerce demo_env b patch = Inr r \<and> agree r a ''workflow''"
proof -
  obtain b where b: "from_dict strict_coerce demo_env [] = Inr b" using default_loads by blast
  let ?A = "set_fld ''workflow'' ''run_status'' (PStr ''running'') b"
  have "ftype_of demo_env ''workflow'' ''run_status'' = Some TStr"
    by (simp add: ftype_of_def MaterialTaskState_def section_defs)
  from update_loads [OF strict.validator_axioms b this] have
    a: "from_dict strict_coerce demo_env ?A = Inr (normalize_state demo_env ?A)" by (simp add: is_str_def)
  have s: "fld (normalize_state demo_env ?A) ''workflow'' ''run_status'' = PStr ''running''"
    by (simp add: fld_normalize Let_def filled_state_def tidied_lists_def)
  obtain p where p: "build_state_patch strict_coerce demo_env [] ?A None = Inr p"
    using a b by (simp add: build_state_patch_def)
  have w: "''workflow'' \<in> set STATE_TOP_LEVEL_SECTIONS" by code_simp
  from patch_roundtrip [OF strict.validator_axioms b a p, of demo_env] a b p s w show ?thesis by blast
qed

text \<open>Recording the status of a stage of a loaded state never fails; it makes the stage current,
  sets its status and keeps every other status, and adds the stage to the completed stages,
  without repetition, exactly when the status is success.\<close>

theorem record_stage_status_effect:
  assumes "validator coerce" and "from_dict coerce e p = Inr st"
  shows "\<exists>r cs ds. record_stage_status coerce e st stage status = Inr r
    \<and> fld r ''workflow'' ''current_stage'' = PStr stage
    \<and> map_of (entries (fld r ''workflow'' ''stage_status''))
        = (map_of (entries (fld st ''workflow'' ''stage_status'')))(stage \<mapsto> PStr status)
    \<and> fld st ''workflow'' ''completed_stages'' = str_list cs \<and> fld r ''workflow'' ''completed_stages'' = str_list ds
    \<and> distinct ds \<and> set ds = set cs \<union> (if status = ''success'' then {stage} else {})"
proof -
  from validator.from_dict_result [OF assms] have w: "well_typed e st" and n: "normal_state e st" by auto
  let ?p = "set_fld ''workflow'' ''stage_status'' (PDict (dset (entries (fld st ''workflow'' ''stage_status'')) stage (PStr status)))
       (set_fld ''workflow'' ''current_stage'' (PStr stage) st)"
  let ?c = "set_fld ''workflow'' ''completed_stages'' (PList (py_dedupe (items (fld st ''workflow'' ''completed_stages'') @ [PStr stage]))) ?p"
  let ?f = "set_fld ''blackboard'' ''validated_facts''
     (PDict (dset (entries (fld st ''blackboard'' ''validated_facts'')) (stage @ ''_completed'') (PBool True))) ?c"
  have m: "(''workflow'', ''completed_stages'') \<in> set tidied_lists" and t: "ftype_of e ''workflow'' ''completed_stages'' = Some TListStr"
    and tf: "ftype_of e ''blackboard'' ''validated_facts'' = Some TDict"
    by (simp_all add: tidied_lists_def ftype_of_def MaterialTaskState_def section_defs)
  obtain cs where cs: "fld st ''workflow'' ''completed_stages'' = str_list cs" using str_tidy_fixed [OF w m] by blast
  have app: "PList (py_dedupe (items (str_list cs) @ [PStr stage])) = str_list (dedupe (cs @ [stage]))"
    using dedupe_by_PStr [of "cs @ [stage]"] by (simp add: items_def str_list_def)
  note wp = record_writes_typed [OF w, of stage status]
  have wc: "well_typed e ?c"
    unfolding cs app by (rule well_typed_set_fld [OF wp t]) (auto simp: list_of_str)
  have "dict_of (\<lambda>_. True) (fld st ''blackboard'' ''validated_facts'')" using fld_typed(1) [OF w tf] by simp
  then have wf: "well_typed e ?f"
    by (intro well_typed_set_fld [OF wc tf]) (auto simp: dict_of_def entries_def list_all_iff split: py.splits)
  let ?r = "normalize_state e (if status = ''success'' then ?f else ?p)"
  have r: "record_stage_status coerce e st stage status = Inr ?r"
  proof -
    have "record_stage_status coerce e st stage status = from_dict coerce e (if status = ''success'' then ?f else ?p)"
      by (simp add: record_stage_status_def Let_def)
    then show ?thesis
      using validator.from_dict_keep [OF assms(1) wf, of e] validator.from_dict_keep [OF assms(1) wp, of e] by presburger
  qed
  have nt: "(''workflow'', ''current_stage'') \<notin> set tidied_lists" "(''workflow'', ''stage_status'') \<notin> set tidied_lists"
    by (simp_all add: tidied_lists_def)
  have wk: "fld (filled_state e x) ''workflow'' k = fld x ''workflow'' k" for x k
    by (simp add: filled_state_def)
  have d: "fld ?r ''workflow'' ''completed_stages'' = str_list (dedupe (if status = ''success'' then cs @ [stage] else cs))"
    using m cs app by (simp add: fld_normalize Let_def wk)
  have "fld ?r ''workflow'' ''current_stage'' = PStr stage"
    "map_of (entries (fld ?r ''workflow'' ''stage_status''))
        = (map_of (entries (fld st ''workflow'' ''stage_status'')))(stage \<mapsto> PStr status)"
    by (simp_all add: fld_normalize Let_def wk nt entries_def)
  with r cs d show ?thesis by (intro exI [of _ ?r] exI [of _ cs] exI conjI) (assumption | simp)+
qed

theorem record_stage_status_effect_witness:
  "\<exists>st r. from_dict strict_coerce demo_env [] = Inr st
     \<and> record_stage_status strict_coerce demo_env st ''relax'' ''success'' = Inr r
     \<and> fld r ''workflow'' ''current_stage'' = PStr ''relax''"
proof -
  obtain st where st: "from_dict strict_coerce demo_env [] = Inr st" using default_loads by blast
  from record_stage_status_effect [OF strict.validator_axioms st, of "''relax''" "''success''"] st show ?thesis by blast
qed

text \<open>The id of an event that arrives as a payload is fixed before the thread and the run it is
  delivered to are filled in: the id never depends on them, and is never empty.\<close>

theorem event_id_ignores_defaults:
  "xe_event_id (normalize_external_event (normalize_event v) default_thread_id default_run_id)
     = xe_event_id (normalize_event v) \<and> xe_event_id (normalize_event v) \<noteq> []"
proof -
  have "xe_event_id (normalize_event v) \<noteq> []" by (simp add: normalize_event_def Let_def)
  then show ?thesis by (simp add: normalize_external_event_def Let_def)
qed

section \<open>Registered tool results\<close>

lemma dedupe_subset: "set (py_dedupe xs) \<subseteq> set xs"
  using dedupe_loop_subseq [of py_marker "[]" xs] by (auto simp: py_dedupe_def dedupe_by_def dest: list_emb_set)

lemma well_typed_extend:
  assumes "well_typed e st" "ftype_of e s k = Some t" "t = TListStr \<and> p = is_str \<or> t = TListDict \<and> p = dict_of (\<lambda>_. True)"
    and "list_all p xs"
  shows "well_typed e (extend_fld s k xs st)"
proof -
  have "of_type t (fld st s k)" using fld_typed(1) [OF assms(1,2)] .
  then have "list_all p (items (fld st s k))" using assms(3) by (auto simp: list_of_def items_def split: py.splits)
  then have "list_all p (py_dedupe (items (fld st s k) @ xs))"
    using assms(4) dedupe_subset [of "items (fld st s k) @ xs"] by (auto simp: list_all_iff)
  then show ?thesis
    unfolding extend_fld_def using assms(3) by (intro well_typed_set_fld [OF assms(1,2)]) (auto simp: list_of_def)
qed

lemma well_typed_extend_str:
  "well_typed e st \<Longrightarrow> ftype_of e s k = Some TListStr \<Longrightarrow> well_typed e (extend_fld s k (map PStr ss) st)"
  by (rule well_typed_extend [where p = is_str]) (auto simp: list_all_iff is_str_def)

lemma well_typed_extend_dict:
  "well_typed e st \<Longrightarrow> ftype_of e s k = Some TListDict \<Longrightarrow> dict_of (\<lambda>_. True) x \<Longrightarrow>
   well_typed e (extend_fld s k [x] st)"
  by (rule well_typed_extend [where p = "dict_of (\<lambda>_. True)"]) auto

lemma merge_items_typed:
  "distinct (map fst m) \<Longrightarrow> list_all (p \<circ> snd) m \<Longrightarrow> list_all (\<lambda>(k, v). p v) u \<Longrightarrow>
   (\<And>q w v. p w \<Longrightarrow> p v \<Longrightarrow> p (deep_merge q w v)) \<Longrightarrow>
   distinct (map fst (merge_items q m u)) \<and> list_all (p \<circ> snd) (merge_items q m u)"
proof (induction u arbitrary: m)
  case (Cons x u)
  obtain k v where x: "x = (k, v)" by (cases x)
  have "p w" if "map_of m k = Some w" for w
    using map_of_SomeD [OF that] Cons.prems(2) by (fastforce simp: list_all_iff)
  moreover have "distinct (map fst (merge_items q (dset m k y) u)) \<and> list_all (p \<circ> snd) (merge_items q (dset m k y) u)"
    if "p y" for y
    using Cons.prems x dset_values [OF Cons.prems(2) that] by (intro Cons.IH) (auto simp del: o_apply)
  ultimately show ?case using Cons.prems(3,4) x by (auto simp del: o_apply split: option.splits)
qed simp

lemma well_typed_merge:
  assumes "well_typed e st" "ftype_of e s k = Some t" "t = TDictStr \<or> t = TDict"
  shows "well_typed e (merge_fld s k (str_dict ps) st)"
proof -
  let ?p = "if t = TDictStr then is_str else (\<lambda>_. True)"
  have "of_type t (fld st s k)" using fld_typed(1) [OF assms(1,2)] .
  then obtain d where d: "fld st s k = PDict d" "distinct (map fst d)" "list_all (?p \<circ> snd) d"
    using assms(3) by (auto simp: dict_of_def list_all_iff split: py.splits)
  have "list_all (\<lambda>(k, v). ?p v) (str_dict ps)" by (auto simp: str_dict_def list_all_iff is_str_def)
  moreover have "?p (deep_merge q w v)" if "?p w" "?p v" for q w v
    using that by (cases w; cases v) (auto simp: is_str_def split: if_splits)
  ultimately have "distinct (map fst (merge_items [] d (str_dict ps))) \<and> list_all (?p \<circ> snd) (merge_items [] d (str_dict ps))"
    using d(2,3) by (intro merge_items_typed) blast+
  then show ?thesis
    unfolding merge_fld_def d(1) using assms(3)
    by (intro well_typed_set_fld [OF assms(1,2)]) (auto simp: dict_of_def list_all_iff split: if_splits)
qed

lemma ftype_table2:
  "ftype_of e ''execution'' ''latest_tool_name'' = Some TOptStr"
  "ftype_of e ''execution'' ''latest_tool_result'' = Some TDict"
  "ftype_of e ''execution'' ''tool_trace'' = Some TListDict"
  "ftype_of e ''execution'' ''tool_invocations'' = Some TListDict"
  "ftype_of e ''execution'' ''failure_history'' = Some TListDict"
  "ftype_of e ''diagnostics'' ''raw_evidence'' = Some TDict"
  "ftype_of e ''diagnostics'' ''errors'' = Some TListStr"
  "ftype_of e ''diagnostics'' ''last_error'' = Some TOptStr"
  "ftype_of e ''blackboard'' ''risk_flags'' = Some TListStr"
  "ftype_of e ''material'' ''warnings'' = Some TListStr"
  "ftype_of e ''blackboard'' ''parsed_artifacts'' = Some TDict"
  by (simp_all add: ftype_of_def MaterialTaskState_def section_defs)

lemma well_typed_evidence:
  assumes "well_typed e st"
  shows "well_typed e (set_fld ''diagnostics'' ''raw_evidence''
     (PDict (dset (entries (fld st ''diagnostics'' ''raw_evidence'')) k v)) st)"
  using fld_typed(1) [OF assms ftype_table2(6)]
  by (intro well_typed_set_fld [OF assms ftype_table2(6)])
    (auto simp: dict_of_def entries_def list_all_iff split: py.splits)

lemma register_writes_typed:
  assumes "well_typed e st"
  shows "well_typed e (register_writes r st)"
proof -
  have d: "dict_of (\<lambda>_. True) (dump_result r)" "dict_of (\<lambda>_. True) (trace_item r)"
    by (simp_all add: dump_result_def trace_item_def dict_of_def)
  let ?f = "[PDict [(''stage'', PStr (tr_stage r)), (''error_summary'', PStr (str_or (tr_error_summary r) []))]]"
  have err: "well_typed e (extend_fld ''execution'' ''failure_history'' ?f
      (extend_fld ''diagnostics'' ''errors'' [PStr x] (set_fld ''diagnostics'' ''last_error'' (PStr x) y)))"
    if "well_typed e y" for x y
    using well_typed_extend_str [OF well_typed_set_fld [OF that ftype_table2(8)] ftype_table2(7), of "PStr x" "[x]"]
    by (intro well_typed_extend_dict [OF _ ftype_table2(5)]) (auto simp: is_str_def dict_of_def)
  have warn: "well_typed e (extend_fld ''blackboard'' ''risk_flags'' (map PStr xs) (extend_fld ''material'' ''warnings'' (map PStr xs) y))"
    if "well_typed e y" for xs y
    by (intro well_typed_extend_str [OF _ ftype_table2(9)] well_typed_extend_str [OF _ ftype_table2(10)] that)
  have tr: "well_typed e (extend_fld ''execution'' ''tool_trace'' [trace_item r] y)"
    "well_typed e (extend_fld ''execution'' ''tool_invocations'' [trace_item r] y)" if "well_typed e y" for y
    using well_typed_extend_dict [OF that ftype_table2(3)] well_typed_extend_dict [OF that ftype_table2(4)] d by auto
  have w7: "well_typed e y \<Longrightarrow> well_typed e (if c then x else y)" if "c \<Longrightarrow> well_typed e y \<Longrightarrow> well_typed e x" for c x y
    using that by simp
  show ?thesis
    unfolding register_writes_def Let_def
    by (rule well_typed_merge [OF w7 [OF warn w7 [OF err]] ftype_table2(11)], assumption+)
      (intro well_typed_evidence tr well_typed_merge [OF _ ftype_table(8)] well_typed_merge [OF _ ftype_table(7)]
        well_typed_set_fld [OF _ ftype_table2(2)] well_typed_set_fld [OF _ ftype_table2(1)] assms, use d in \<open>auto simp: is_str_def\<close>)
qed


lemma py_dedupe_strings: "list_all is_str xs \<Longrightarrow> set (py_dedupe xs) = set xs"
proof -
  assume "list_all is_str xs"
  then obtain ss where "xs = map PStr ss" using list_of_str [of "PList xs"] by (auto simp: list_of_def str_list_def)
  then show ?thesis by (simp add: dedupe_by_PStr)
qed

text \<open>A failed tool result is never lost: registering it on a loaded state succeeds, makes its
  error the last error, keeps every earlier error and adds the new one, and records the
  evidence of the failure under its stage.\<close>

theorem failed_result_recorded:
  assumes "validator coerce" and "from_dict coerce e p = Inr st"
    and "tr_error_summary r = Some err" and "err \<noteq> []" and "\<not> tool_success r" and "tr_state_updates r = []"
  shows "\<exists>s. register_tool_result coerce e st r = Inr s
    \<and> fld s ''diagnostics'' ''last_error'' = PStr err
    \<and> set (items (fld s ''diagnostics'' ''errors'')) = insert (PStr err) (set (items (fld st ''diagnostics'' ''errors'')))
    \<and> map_of (entries (fld s ''diagnostics'' ''raw_evidence'')) (tr_stage r) = Some (dump_evidence (tr_raw_evidence r))"
proof -
  note V = assms(1)
  from validator.from_dict_result [OF V assms(2)] have w: "well_typed e st" by simp
  let ?w = "register_writes r st"
  have ww: "well_typed e ?w" by (rule register_writes_typed [OF w])
  have "register_tool_result coerce e st r = Inr (normalize_state e ?w)"
    using validator.from_dict_again [OF V assms(2)] validator.from_dict_keep [OF V ww, of e] assms(5,6)
    by (simp add: register_tool_result_def entries_def)
  moreover have diag: "fld (normalize_state e ?w) ''diagnostics'' k = fld ?w ''diagnostics'' k" for k
  proof -
    have "(''diagnostics'', k) \<notin> set tidied_lists" by (simp add: tidied_lists_def)
    then show ?thesis by (simp add: fld_normalize Let_def filled_state_def)
  qed
  moreover have err: "str_or (tr_error_summary r) [] = err" using assms(3,4) by simp
  have fx: "fld (extend_fld s k xs y) s' k' = (if s' = s \<and> k' = k then PList (py_dedupe (items (fld y s k) @ xs)) else fld y s' k')"
    "fld (merge_fld s k d y) s' k' = (if s' = s \<and> k' = k then deep_merge [] (fld y s k) (PDict d) else fld y s' k')"
    for s k xs y s' k' d by (simp_all add: extend_fld_def merge_fld_def)
  have "fld ?w ''diagnostics'' ''last_error'' = PStr err"
    "fld ?w ''diagnostics'' ''errors'' = PList (py_dedupe (items (fld st ''diagnostics'' ''errors'') @ [PStr err]))"
    "fld ?w ''diagnostics'' ''raw_evidence'' =
       PDict (dset (entries (fld st ''diagnostics'' ''raw_evidence'')) (tr_stage r) (dump_evidence (tr_raw_evidence r)))"
    using assms(4) by (simp_all add: register_writes_def Let_def err fx)
  moreover have "list_all is_str (items (fld st ''diagnostics'' ''errors''))"
    using fld_typed(1) [OF w ftype_table2(7)] by (auto simp: list_of_def items_def split: py.splits)
  then have "set (py_dedupe (items (fld st ''diagnostics'' ''errors'') @ [PStr err]))
      = insert (PStr err) (set (items (fld st ''diagnostics'' ''errors'')))"
    by (subst py_dedupe_strings) (auto simp: is_str_def)
  moreover have "items (PList xs) = xs" "entries (PDict d) = d" for xs d by (simp_all add: items_def entries_def)
  ultimately show ?thesis by simp
qed

definition demo_result :: ToolExecutionResult where
  "demo_result =
     \<lparr>tr_stage = ''scf'', tr_status = ''failed'', tr_error_summary = Some ''scf not converged'', tr_warnings = [''w''],
      tr_artifact_paths = [(''log'', ''/w/02_scf/OUTCAR'')], tr_key_summary = [], tr_state_updates = [],
      tr_raw_evidence = \<lparr>ev_returncode = Some 1, ev_stdout_path = None, ev_stderr_path = None, ev_log_paths = [],
        ev_parser_payload = [], ev_exception_type = None, ev_exception_message = None, ev_raw_payload = []\<rparr>,
      tr_invocation_source = ''native_tool'', tr_duration_s = Fin 1\<rparr>"

theorem failed_result_recorded_witness:
  "\<exists>st s. from_dict strict_coerce demo_env [] = Inr st \<and> register_tool_result strict_coerce demo_env st demo_result = Inr s
     \<and> fld s ''diagnostics'' ''last_error'' = PStr ''scf not converged''"
proof -
  obtain st where st: "from_dict strict_coerce demo_env [] = Inr st" using default_loads by blast
  have r: "tr_error_summary demo_result = Some ''scf not converged''" "\<not> tool_success demo_result"
    "tr_state_updates demo_result = []" by (simp_all add: demo_result_def tool_success_def)
  from failed_result_recorded [OF strict.validator_axioms st r(1) _ r(2,3)] st show ?thesis by auto
qed

end
