(* ===== verification/Channels.thy ===== *)
theory Channels
  imports State_Ops
begin

text \<open>
  Transport channels and their quality: channel tokens (mobility_agent/runtime/channel_utils.py),
  quality labels (runtime/quality_label.py), the physics window (tools/physics_validator.py),
  the strain-fit summary (tools/fit_validator.py) and the basic anomalies
  (tools/anomaly_detector.py). Polynomial fitting is numpy's: \<open>fit deg xs ys\<close> stands for the
  values \<open>polyval(polyfit(xs, ys, deg), xs)\<close> and is a parameter.

  Floats are given a linear order (NaN last) so that the library's sorting applies to them;
  on the other values it is Python's order, and the order of a list with a NaN, which Python
  leaves to its sorting algorithm, is not modelled.
\<close>

section \<open>A linear order on floats, and their arithmetic\<close>

fun flt_rank :: "flt \<Rightarrow> nat" where
  "flt_rank NegInf = 0"
| "flt_rank (Fin _) = 1"
| "flt_rank PosInf = 2"
| "flt_rank NaN = 3"

fun flt_val :: "flt \<Rightarrow> rat" where
  "flt_val (Fin q) = q"
| "flt_val _ = 0"

instantiation flt :: linorder
begin

definition less_eq_flt :: "flt \<Rightarrow> flt \<Rightarrow> bool" where
  "a \<le> b \<longleftrightarrow> flt_rank a < flt_rank b \<or> (flt_rank a = flt_rank b \<and> flt_val a \<le> flt_val b)"

definition less_flt :: "flt \<Rightarrow> flt \<Rightarrow> bool" where
  "a < b \<longleftrightarrow> flt_rank a < flt_rank b \<or> (flt_rank a = flt_rank b \<and> flt_val a < flt_val b)"

instance
proof
  fix x y z :: flt
  show "x < y \<longleftrightarrow> x \<le> y \<and> \<not> y \<le> x" by (auto simp: less_eq_flt_def less_flt_def)
  show "x \<le> x" by (simp add: less_eq_flt_def)
  show "x \<le> y \<Longrightarrow> y \<le> z \<Longrightarrow> x \<le> z" by (auto simp: less_eq_flt_def)
  show "x \<le> y \<Longrightarrow> y \<le> x \<Longrightarrow> x = y" by (cases x; cases y) (auto simp: less_eq_flt_def)
  show "x \<le> y \<or> y \<le> x" by (auto simp: less_eq_flt_def)
qed

end

lemma less_flt_Python: "a \<noteq> NaN \<Longrightarrow> b \<noteq> NaN \<Longrightarrow> a < b \<longleftrightarrow> flt_lt a b"
  by (cases a; cases b) (auto simp: less_flt_def)

lemma Fin_le [simp]: "Fin a \<le> Fin b \<longleftrightarrow> a \<le> b"
  by (simp add: less_eq_flt_def)

lemma Fin_less [simp]: "Fin a < Fin b \<longleftrightarrow> a < b"
  by (simp add: less_flt_def)

fun flt_neg :: "flt \<Rightarrow> flt" where
  "flt_neg (Fin a) = Fin (- a)"
| "flt_neg PosInf = NegInf"
| "flt_neg NegInf = PosInf"
| "flt_neg NaN = NaN"

fun flt_add :: "flt \<Rightarrow> flt \<Rightarrow> flt" where
  "flt_add (Fin a) (Fin b) = Fin (a + b)"
| "flt_add NaN _ = NaN"
| "flt_add _ NaN = NaN"
| "flt_add (Fin _) b = b"
| "flt_add a (Fin _) = a"
| "flt_add a b = (if a = b then a else NaN)"

definition flt_sub :: "flt \<Rightarrow> flt \<Rightarrow> flt" where
  "flt_sub a b = flt_add a (flt_neg b)"

fun flt_square :: "flt \<Rightarrow> flt" where
  "flt_square (Fin a) = Fin (a * a)"
| "flt_square NaN = NaN"
| "flt_square _ = PosInf"

definition flt_sum :: "flt list \<Rightarrow> flt" where
  "flt_sum xs = foldl flt_add (Fin 0) xs"

definition flt_mean :: "flt list \<Rightarrow> flt" where
  "flt_mean xs = flt_div (flt_sum xs) (Fin (of_nat (length xs)))"

section \<open>Channel tokens\<close>

definition VALID_DIRECTIONS :: "string list" where
  "VALID_DIRECTIONS = [''x'', ''y'']"

definition VALID_CARRIERS :: "string list" where
  "VALID_CARRIERS = [''electron'', ''hole'']"

definition canonical_subchannel :: "string \<Rightarrow> string \<Rightarrow> string res" where
  "canonical_subchannel direction carrier =
     (let direction_token = py_lower (py_strip direction);
          carrier_token = py_lower (py_strip carrier)
      in if direction_token \<notin> set VALID_DIRECTIONS then Inl (ValueError (''invalid_direction:'' @ direction))
         else if carrier_token \<notin> set VALID_CARRIERS then Inl (ValueError (''invalid_carrier:'' @ carrier))
         else Inr (carrier_token @ ''_'' @ direction_token))"

definition default_subchannels :: "string list res" where
  "default_subchannels =
     mapR (\<lambda>(direction, carrier). canonical_subchannel direction carrier)
       (List.product VALID_DIRECTIONS VALID_CARRIERS)"

definition token_text :: "py \<Rightarrow> string" where
  "token_text token = py_lower (py_strip (py_str (py_or token (PStr []))))"

definition direction_from_channel_token :: "py \<Rightarrow> string option" where
  "direction_from_channel_token token =
     (let value = token_text token in
      if value \<in> set VALID_DIRECTIONS then Some value
      else (case split_once ''_'' value of
              None \<Rightarrow> None
            | Some (carrier, direction) \<Rightarrow>
                if carrier \<in> set VALID_CARRIERS \<and> direction \<in> set VALID_DIRECTIONS then Some direction else None))"

text \<open>\<open>values\<close> as the functions below take it: \<open>None\<close>, one string, or an iterable.\<close>

definition target_items :: "py \<Rightarrow> py list res" where
  "target_items values =
     (case values of
        PNone \<Rightarrow> Inr []
      | PStr s \<Rightarrow> Inr [PStr s]
      | v \<Rightarrow> to_list (py_or v (PList [])))"

text \<open>The carrier part of a token, \<open>value.split("_", 1)[0]\<close>.\<close>

definition split_head :: "string \<Rightarrow> string" where
  "split_head value = (case split_once ''_'' value of None \<Rightarrow> value | Some (a, _) \<Rightarrow> a)"

fun tokens_loop :: "py list \<Rightarrow> string list res" where
  "tokens_loop [] = Inr []"
| "tokens_loop (item # rest) =
     (let value = token_text item in
      if value = [] then tokens_loop rest
      else (case direction_from_channel_token (PStr value) of
              Some direction \<Rightarrow>
                bindR (if value \<in> set VALID_DIRECTIONS
                       then mapR (canonical_subchannel direction) VALID_CARRIERS
                       else mapR (canonical_subchannel direction) [split_head value]) (\<lambda>tokens.
                bindR (tokens_loop rest) (\<lambda>more. Inr (tokens @ more)))
            | None \<Rightarrow> tokens_loop rest))"

definition subchannel_tokens_from_targets :: "py \<Rightarrow> string list res" where
  "subchannel_tokens_from_targets values =
     bindR (target_items values) (\<lambda>is. bindR (tokens_loop is) (\<lambda>tokens. Inr (dedupe tokens)))"

definition directions_from_channel_tokens :: "py \<Rightarrow> string list res" where
  "directions_from_channel_tokens values =
     bindR (target_items values) (\<lambda>is. Inr (dedupe (List.map_filter direction_from_channel_token is)))"

fun acceptance_loop :: "string list \<Rightarrow> string list \<Rightarrow> string list \<Rightarrow> (string list \<times> string list) res" where
  "acceptance_loop retained rejected [] = Inr ([], [])"
| "acceptance_loop retained rejected (direction # rest) =
     bindR (mapR (canonical_subchannel direction) VALID_CARRIERS) (\<lambda>members.
     bindR (acceptance_loop retained rejected rest) (\<lambda>(acc, rej).
       Inr (if list_ex (\<lambda>m. m \<in> set retained) members then (direction # acc, rej)
            else if members \<noteq> [] \<and> list_all (\<lambda>m. m \<in> set rejected) members then (acc, direction # rej)
            else (acc, rej))))"

definition derive_direction_acceptance :: "py \<Rightarrow> py \<Rightarrow> (string list \<times> string list) res" where
  "derive_direction_acceptance retained_subchannels rejected_subchannels =
     bindR (subchannel_tokens_from_targets retained_subchannels) (\<lambda>retained.
     bindR (subchannel_tokens_from_targets rejected_subchannels) (\<lambda>rejected.
     bindR (acceptance_loop retained rejected VALID_DIRECTIONS) (\<lambda>(acc, rej).
       Inr (dedupe acc, dedupe rej))))"

section \<open>Quality labels\<close>

definition safe_float_nan :: "py \<Rightarrow> flt" where
  "safe_float_nan v = (if v = PNone then NaN else (case to_float v of Inl _ \<Rightarrow> NaN | Inr x \<Rightarrow> x))"

definition is_finite_positive :: "flt \<Rightarrow> bool" where
  "is_finite_positive v \<longleftrightarrow> is_finite v \<and> flt_lt (Fin 0) v"

text \<open>\<open>abs(sigma / base) if isfinite(sigma) and abs(base) > 1e-12 else inf\<close>.\<close>

definition rel_or_inf :: "flt \<Rightarrow> flt \<Rightarrow> flt" where
  "rel_or_inf sigma base =
     (if is_finite sigma \<and> flt_lt (Fin (1 / 10 ^ 12)) (flt_abs base) then flt_abs (flt_div sigma base) else PosInf)"

definition classify_channel_quality :: "dict \<Rightarrow> dict \<Rightarrow> string" where
  "classify_channel_quality direction_data carrier_data =
     (let mobility = safe_float_nan (dget0 carrier_data ''mobility_cm2_Vs'');
          e1 = safe_float_nan (dget0 carrier_data ''E1_eV'');
          e1_sigma = safe_float_nan (dget0 carrier_data ''E1_eV_sigma'');
          e1_fit_r2 = safe_float_nan (dget0 carrier_data ''E1_fit_R2'');
          c2d = safe_float_nan (dget0 carrier_data ''C2D_J_m2'');
          c2d_sigma = safe_float_nan (dget0 carrier_data ''C2D_sigma_J_m2'');
          c2d_fit_r2 = safe_float_nan (dget0 carrier_data ''C2D_fit_R2'');
          n_points = safe_float_nan (dget0 direction_data ''n_points'');
          usable = is_finite_positive mobility \<and> is_finite e1 \<and> is_finite c2d \<and> is_finite e1_fit_r2 \<and> is_finite c2d_fit_r2
      in if \<not> usable then ''failed''
         else
           (let rel_e1_sigma = rel_or_inf e1_sigma e1;
                rel_c2d_sigma = rel_or_inf c2d_sigma c2d;
                min_fit_r2 = py_min e1_fit_r2 c2d_fit_r2;
                e1_abs = flt_abs e1
            in if flt_le (Fin 7) n_points \<and> flt_le (Fin (985/1000)) min_fit_r2 \<and> flt_le rel_e1_sigma (Fin (25/100))
                  \<and> flt_le rel_c2d_sigma (Fin (10/100)) \<and> flt_le (Fin (10/100)) e1_abs then ''filtered''
               else if flt_le (Fin 5) n_points \<and> flt_le (Fin (95/100)) min_fit_r2 \<and> flt_le rel_e1_sigma (Fin (50/100))
                  \<and> flt_le rel_c2d_sigma (Fin (20/100)) \<and> flt_le (Fin (5/100)) e1_abs then ''caution''
               else ''weak''))"

fun quality_counts :: "dict \<Rightarrow> (nat \<times> nat) res" where
  "quality_counts [] = Inr (0, 0)"
| "quality_counts ((_, direction_data) # rest) =
     bindR (to_dict (py_or direction_data (PDict []))) (\<lambda>payload.
     bindR (mapR (\<lambda>carrier. bindR (get_dict payload carrier) (\<lambda>cd. Inr (classify_channel_quality payload cd))) [''electron'', ''hole''])
       (\<lambda>qs.
     bindR (quality_counts rest) (\<lambda>(f, c).
       Inr (f + length (filter (\<lambda>q. q = ''filtered'') qs), c + length (filter (\<lambda>q. q = ''caution'') qs)))))"

definition classify_material_quality :: "dict \<Rightarrow> string res" where
  "classify_material_quality results =
     bindR (get_dict results ''results_by_direction'') (\<lambda>by_direction.
     bindR (quality_counts by_direction) (\<lambda>(filtered_count, caution_count).
       Inr (if 0 < filtered_count then ''high-quality'' else if 0 < caution_count then ''moderate-quality'' else ''not retained'')))"

section \<open>The physics window\<close>

record window =
  w_effective :: "flt list"
  w_energy :: "flt list"
  w_edge :: "flt list"
  w_e1_sigmas :: "flt list"
  w_c2d_sigmas :: "flt list"
  w_flags :: "string list"
  w_dir_energy :: "flt list"
  w_dir_edge :: "flt list"
  w_per_direction :: dict

definition window_carrier :: "string \<Rightarrow> dict \<Rightarrow> window \<Rightarrow> string \<Rightarrow> window res" where
  "window_carrier direction direction_data w carrier =
     bindR (get_dict direction_data carrier) (\<lambda>cd.
     if cd = [] then Inr w else
     bindR (to_float (py_or (dget cd ''E1_fit_R2'' (PFloat (Fin 1))) (PFloat (Fin 0)))) (\<lambda>edge_r2.
     bindR (if dget0 cd ''E1_eV_sigma'' = PNone then Inr [] else bindR (to_float (dget0 cd ''E1_eV_sigma'')) (\<lambda>x. Inr [x])) (\<lambda>sigmas.
     bindR (if dget0 cd ''mobility_cm2_Vs'' = PNone then Inr False
            else bindR (to_float (dget0 cd ''mobility_cm2_Vs'')) (\<lambda>m. Inr (flt_lt m (Fin 0)))) (\<lambda>negative.
     let invalid = dget0 cd ''mass_valid_for_mobility'' = PBool False;
         switched = dget0 cd ''mass_dynamic_band_switch'' = PBool True \<and> invalid
     in
     bindR (if dget0 cd ''C2D_fit_R2'' = PNone then Inr [] else bindR (to_float (dget0 cd ''C2D_fit_R2'')) (\<lambda>x. Inr [x])) (\<lambda>energy.
       Inr (w\<lparr>w_edge := w_edge w @ [edge_r2], w_dir_edge := w_dir_edge w @ [edge_r2],
             w_e1_sigmas := w_e1_sigmas w @ sigmas,
             w_flags := w_flags w @ (if negative then [''negative_mobility''] else [])
               @ (if invalid then [''effective_mass_quality_failed:'' @ carrier @ ''_'' @ direction] else [])
               @ (if switched then [''effective_mass_band_switch:'' @ carrier @ ''_'' @ direction] else []),
             w_energy := w_energy w @ energy, w_dir_energy := w_dir_energy w @ energy\<rparr>))))))"

text \<open>\<open>d.get(k, {}).get(j)\<close>: an explicit value that is no dict has no \<open>get\<close>.\<close>

definition strict_nested :: "dict \<Rightarrow> string \<Rightarrow> string \<Rightarrow> py res" where
  "strict_nested d k j =
     (case dget d k (PDict []) of PDict e \<Rightarrow> Inr (dget0 e j) | _ \<Rightarrow> Inl (AttributeError ''get''))"

definition window_direction :: "window \<Rightarrow> string \<times> py \<Rightarrow> window res" where
  "window_direction w0 entry =
     (let (direction, data) = entry in
      case data of
        PDict direction_data \<Rightarrow>
          bindR (window_carrier direction direction_data (w0\<lparr>w_dir_energy := [], w_dir_edge := []\<rparr>) ''electron'') (\<lambda>w1.
          bindR (window_carrier direction direction_data w1 ''hole'') (\<lambda>w.
          bindR (strict_nested direction_data ''electron'' ''C2D_sigma_J_m2'') (\<lambda>s1.
          bindR (if truthy s1 then Inr s1 else strict_nested direction_data ''hole'' ''C2D_sigma_J_m2'') (\<lambda>sigma.
          bindR (if sigma = PNone then Inr [] else bindR (to_float sigma) (\<lambda>x. Inr [x])) (\<lambda>c2d.
          bindR (get_int direction_data ''n_points'') (\<lambda>n.
          let energy_min = min_list (w_dir_energy w) (Fin 1);
              edge_min = min_list (w_dir_edge w) (Fin 1);
              quality = py_min energy_min edge_min
          in Inr (w\<lparr>w_c2d_sigmas := w_c2d_sigmas w @ c2d,
                   w_per_direction := dset (w_per_direction w) direction (PDict
                     [(''energy_fit_r2'', PFloat energy_min), (''edge_fit_r2'', PFloat edge_min),
                      (''effective_fit_quality'', PFloat quality), (''n_points'', PInt n)]),
                   w_effective := w_effective w @ [quality]\<rparr>)))))))
      | _ \<Rightarrow> Inl (AttributeError ''get''))"

fun foldR :: "('s \<Rightarrow> 'a \<Rightarrow> 's res) \<Rightarrow> 's \<Rightarrow> 'a list \<Rightarrow> 's res" where
  "foldR f s [] = Inr s"
| "foldR f s (x # xs) = bindR (f s x) (\<lambda>t. foldR f t xs)"

definition validate_physics_window :: "dict \<Rightarrow> dict res" where
  "validate_physics_window results =
     bindR (get_dict results ''results_by_direction'') (\<lambda>by_direction.
     bindR (foldR window_direction
              \<lparr>w_effective = [], w_energy = [], w_edge = [], w_e1_sigmas = [], w_c2d_sigmas = [], w_flags = [],
               w_dir_energy = [], w_dir_edge = [], w_per_direction = []\<rparr> by_direction) (\<lambda>w.
       Inr [(''fit_r2_min'', PFloat (min_list (w_effective w) (Fin 1))),
            (''energy_fit_r2_min'', PFloat (min_list (w_energy w) (Fin 1))),
            (''edge_fit_r2_min'', PFloat (min_list (w_edge w) (Fin 1))),
            (''effective_fit_quality'', PFloat (min_list (w_effective w) (Fin 1))),
            (''e1_sigma_max'', PFloat (max_list (w_e1_sigmas w) (Fin 0))),
            (''c2d_sigma_max'', PFloat (max_list (w_c2d_sigmas w) (Fin 0))),
            (''warnings'', PList []),
            (''anomaly_flags'', PList (map PStr (w_flags w))),
            (''per_direction'', PDict (w_per_direction w))]))"

definition detect_basic_anomalies :: "dict \<Rightarrow> string list res" where
  "detect_basic_anomalies state =
     (let workflow_errors = truthy (dget0 state ''errors'') \<and>
            (dget0 state ''run_status'' = PStr ''failed''
             \<or> dget0 state ''status_label'' \<in> {PStr ''failed'', PStr ''rejected''})
      in bindR (if dget0 state ''confidence_score'' = PNone then Inr False
                else bindR (to_float (py_or (dget0 state ''confidence_score'') (PFloat (Fin 0)))) (\<lambda>c. Inr (flt_lt c (Fin (1/2))))) (\<lambda>low.
           Inr ((if workflow_errors then [''workflow_errors_present''] else [])
                @ (if low then [''low_confidence_score''] else []))))"

section \<open>The strain-fit summary\<close>

text \<open>The coefficient of determination, with numpy's sums and mean.\<close>

definition fit_r2 :: "flt list \<Rightarrow> flt list \<Rightarrow> flt" where
  "fit_r2 y_true y_pred =
     (let ss_res = flt_sum (map (\<lambda>(a, b). flt_square (flt_sub a b)) (zip y_true y_pred));
          ss_tot = flt_sum (map (\<lambda>a. flt_square (flt_sub a (flt_mean y_true))) y_true)
      in if flt_lt (Fin 0) ss_tot then flt_sub (Fin 1) (flt_div ss_res ss_tot) else Fin 1)"

definition column :: "string \<Rightarrow> dict list \<Rightarrow> flt list res" where
  "column k rows = mapR (\<lambda>row. to_float (dget row k (PFloat (Fin 0)))) rows"

definition aligned :: "string \<Rightarrow> dict list \<Rightarrow> flt list res" where
  "aligned k rows =
     mapR (\<lambda>row. bindR (to_float (dget row k (PFloat (Fin 0)))) (\<lambda>e.
                 bindR (to_float (dget row ''e_vacuum'' (PFloat (Fin 0)))) (\<lambda>v. Inr (flt_sub e v)))) rows"

definition row_completed :: "dict \<Rightarrow> bool" where
  "row_completed row = truthy (dget row ''completed'' (PBool False))"

definition row_switched :: "dict \<Rightarrow> bool" where
  "row_switched row \<longleftrightarrow>
     \<not> py_eq (dget0 row ''vbm_kpoint_global'') (dget0 row ''vbm_kpoint_ref'')
   \<or> \<not> py_eq (dget0 row ''cbm_kpoint_global'') (dget0 row ''cbm_kpoint_ref'')"

record direction_fit =
  df_n_points :: nat
  df_failed_points :: nat
  df_energy_fit_r2 :: flt
  df_edge_fit_r2 :: flt
  df_edge_fit_r2_vbm :: "flt option"
  df_edge_fit_r2_cbm :: "flt option"
  df_overall_fit_quality :: flt
  df_valley_switch_detected :: bool
  df_strain_points :: "flt list option"

definition fit_direction ::
  "(nat \<Rightarrow> flt list \<Rightarrow> flt list \<Rightarrow> flt list) \<Rightarrow> dict list \<Rightarrow> nat \<Rightarrow> direction_fit res" where
  "fit_direction fit subset0 n_failed =
     (if subset0 = [] then
        Inr \<lparr>df_n_points = 0, df_failed_points = n_failed, df_energy_fit_r2 = Fin 0, df_edge_fit_r2 = Fin 0,
             df_edge_fit_r2_vbm = None, df_edge_fit_r2_cbm = None, df_overall_fit_quality = Fin 0,
             df_valley_switch_detected = False, df_strain_points = None\<rparr>
      else
        bindR (column ''strain'' subset0) (\<lambda>keys.
        let subset1 = map snd (sort_key fst (zip keys subset0)) in
        bindR (column ''strain'' subset1) (\<lambda>strain.
        bindR (column ''total_energy'' subset1) (\<lambda>total_energy.
        bindR (aligned ''e_vbm'' subset1) (\<lambda>aligned_vbm.
        bindR (aligned ''e_cbm'' subset1) (\<lambda>aligned_cbm.
        let r2_e = (if 3 \<le> length subset1 then fit_r2 total_energy (fit 2 strain total_energy) else Fin 0);
            r2_vbm = (if 2 \<le> length subset1 then fit_r2 aligned_vbm (fit 1 strain aligned_vbm) else Fin 0);
            r2_cbm = (if 2 \<le> length subset1 then fit_r2 aligned_cbm (fit 1 strain aligned_cbm) else Fin 0);
            r2_d = (if 2 \<le> length subset1 then py_min r2_vbm r2_cbm else Fin 0)
        in Inr \<lparr>df_n_points = length subset1, df_failed_points = n_failed, df_energy_fit_r2 = r2_e, df_edge_fit_r2 = r2_d,
                df_edge_fit_r2_vbm = Some r2_vbm, df_edge_fit_r2_cbm = Some r2_cbm,
                df_overall_fit_quality = py_min r2_e r2_d,
                df_valley_switch_detected = list_ex row_switched subset1,
                df_strain_points = Some strain\<rparr>))))))"

record fit_summary =
  fs_n_points :: nat
  fs_failed_points :: nat
  fs_fit_r2 :: flt
  fs_energy_fit_r2_min :: flt
  fs_edge_fit_r2_min :: flt
  fs_valley_switch_detected :: bool
  fs_per_direction :: "(string \<times> direction_fit) list"
  fs_directions_needing_refinement :: "string list"

definition needs_points :: "direction_fit \<Rightarrow> bool" where
  "needs_points d \<longleftrightarrow> df_n_points d = 0 \<or> df_valley_switch_detected d \<or> 0 < df_failed_points d"

definition in_direction :: "string \<Rightarrow> dict \<Rightarrow> bool" where
  "in_direction direction row \<longleftrightarrow> dget0 row ''direction'' = PStr direction"

text \<open>\<open>overall_fit_quality\<close> and \<open>n_points_total\<close> repeat \<open>fit_r2\<close> and \<open>n_points\<close>; the point counts by
  direction are those of \<open>fs_per_direction\<close>.\<close>

definition summarize_strain_fit_quality ::
  "(nat \<Rightarrow> flt list \<Rightarrow> flt list \<Rightarrow> flt list) \<Rightarrow> dict list \<Rightarrow> fit_summary res" where
  "summarize_strain_fit_quality fit strain_data =
     (let completed = filter row_completed strain_data;
          failed = filter (\<lambda>row. \<not> row_completed row) strain_data
      in bindR (mapR (\<lambda>direction.
               bindR (fit_direction fit (filter (in_direction direction) completed)
                        (length (filter (in_direction direction) failed))) (\<lambda>d. Inr (direction, d))) [''x'', ''y'']) (\<lambda>per_direction.
         let fitted = filter (\<lambda>(direction, d). 0 < df_n_points d) per_direction in
         Inr \<lparr>fs_n_points = length completed, fs_failed_points = length failed,
              fs_fit_r2 = min_list (map (df_overall_fit_quality \<circ> snd) fitted) (Fin 0),
              fs_energy_fit_r2_min = min_list (map (df_energy_fit_r2 \<circ> snd) fitted) (Fin 0),
              fs_edge_fit_r2_min = min_list (map (df_edge_fit_r2 \<circ> snd) fitted) (Fin 0),
              fs_valley_switch_detected = list_ex (df_valley_switch_detected \<circ> snd) per_direction,
              fs_per_direction = per_direction,
              fs_directions_needing_refinement = map fst (filter (needs_points \<circ> snd) per_direction)\<rparr>))"

section \<open>Channel tokens, in the other direction\<close>

definition subchannel :: "string \<Rightarrow> string \<Rightarrow> string" where
  "subchannel d c = c @ ''_'' @ d"

definition all_subchannels :: "string list" where
  "all_subchannels = [''electron_x'', ''hole_x'', ''electron_y'', ''hole_y'']"

lemma direction_cases: "d \<in> set VALID_DIRECTIONS \<Longrightarrow> (d = ''x'' \<Longrightarrow> P) \<Longrightarrow> (d = ''y'' \<Longrightarrow> P) \<Longrightarrow> P"
  unfolding VALID_DIRECTIONS_def list.set by (elim insertE emptyE)

lemma carrier_cases: "c \<in> set VALID_CARRIERS \<Longrightarrow> (c = ''electron'' \<Longrightarrow> P) \<Longrightarrow> (c = ''hole'' \<Longrightarrow> P) \<Longrightarrow> P"
  unfolding VALID_CARRIERS_def list.set by (elim insertE emptyE)

lemma canonical_valid:
  "d \<in> set VALID_DIRECTIONS \<Longrightarrow> c \<in> set VALID_CARRIERS \<Longrightarrow>
   canonical_subchannel d c = Inr (subchannel d c) \<and> subchannel d c \<in> set all_subchannels
   \<and> direction_from_channel_token (PStr (subchannel d c)) = Some d \<and> token_text (PStr (subchannel d c)) = subchannel d c
   \<and> split_head (subchannel d c) = c \<and> subchannel d c \<notin> set VALID_DIRECTIONS \<and> subchannel d c \<noteq> []"
proof -
  have "\<forall>d\<in>set VALID_DIRECTIONS. \<forall>c\<in>set VALID_CARRIERS.
      canonical_subchannel d c = Inr (subchannel d c) \<and> subchannel d c \<in> set all_subchannels
   \<and> direction_from_channel_token (PStr (subchannel d c)) = Some d \<and> token_text (PStr (subchannel d c)) = subchannel d c
   \<and> split_head (subchannel d c) = c \<and> subchannel d c \<notin> set VALID_DIRECTIONS \<and> subchannel d c \<noteq> []" by code_simp
  then show "d \<in> set VALID_DIRECTIONS \<Longrightarrow> c \<in> set VALID_CARRIERS \<Longrightarrow>
   canonical_subchannel d c = Inr (subchannel d c) \<and> subchannel d c \<in> set all_subchannels
   \<and> direction_from_channel_token (PStr (subchannel d c)) = Some d \<and> token_text (PStr (subchannel d c)) = subchannel d c
   \<and> split_head (subchannel d c) = c \<and> subchannel d c \<notin> set VALID_DIRECTIONS \<and> subchannel d c \<noteq> []" by blast
qed

lemma default_subchannels_values: "default_subchannels = Inr all_subchannels"
  by code_simp

lemma all_subchannels_form: "t \<in> set all_subchannels \<Longrightarrow> \<exists>d\<in>set VALID_DIRECTIONS. \<exists>c\<in>set VALID_CARRIERS. t = subchannel d c"
proof -
  have "\<forall>t\<in>set all_subchannels. \<exists>d\<in>set VALID_DIRECTIONS. \<exists>c\<in>set VALID_CARRIERS. t = subchannel d c" by code_simp
  then show "t \<in> set all_subchannels \<Longrightarrow> \<exists>d\<in>set VALID_DIRECTIONS. \<exists>c\<in>set VALID_CARRIERS. t = subchannel d c" by blast
qed

lemma all_subchannels_distinct: "distinct all_subchannels"
  by (simp add: all_subchannels_def)

lemma token_direction_valid: "direction_from_channel_token v = Some d \<Longrightarrow> d \<in> set VALID_DIRECTIONS"
  by (auto simp: direction_from_channel_token_def Let_def split: if_splits option.splits)

lemma token_text_idem: "token_text (PStr (token_text v)) = token_text v"
proof -
  have "py_strip [] = []" "py_lower [] = []" by code_simp+
  then show ?thesis by (simp add: token_text_def py_or_def py_strip_lower)
qed

lemma token_carrier_valid:
  assumes "direction_from_channel_token (PStr v) = Some d" "v \<notin> set VALID_DIRECTIONS" "token_text (PStr v) = v"
  shows "split_head v \<in> set VALID_CARRIERS"
  using assms by (auto simp: direction_from_channel_token_def Let_def split_head_def split: if_splits option.splits)

lemma tokens_loop_total: "\<exists>ts. tokens_loop is = Inr ts \<and> set ts \<subseteq> set all_subchannels"
proof (induction "is")
  case (Cons v vs)
  then obtain ts where ts: "tokens_loop vs = Inr ts" "set ts \<subseteq> set all_subchannels" by blast
  let ?v = "token_text v"
  show ?case
  proof (cases "?v = [] \<or> direction_from_channel_token (PStr ?v) = None")
    case False
    then obtain d where d: "direction_from_channel_token (PStr ?v) = Some d" "?v \<noteq> []" by auto
    have dv: "d \<in> set VALID_DIRECTIONS" using token_direction_valid [OF d(1)] .
    show ?thesis
    proof (cases "?v \<in> set VALID_DIRECTIONS")
      case True
      have "mapR (canonical_subchannel d) VALID_CARRIERS = Inr (map (subchannel d) VALID_CARRIERS)"
        using canonical_valid [OF dv] by (intro mapR_total) blast
      moreover have "set (map (subchannel d) VALID_CARRIERS) \<subseteq> set all_subchannels" using canonical_valid [OF dv] by auto
      ultimately show ?thesis using d True ts by (simp add: Let_def)
    next
      case nd: False
      have "split_head ?v \<in> set VALID_CARRIERS" using token_carrier_valid [OF d(1) nd] token_text_idem by blast
      from canonical_valid [OF dv this] show ?thesis using d nd ts by (simp add: Let_def)
    qed
  qed (use ts in \<open>auto simp: Let_def\<close>)
qed simp

text \<open>Tokens that are canonical already are kept.\<close>

lemma tokens_loop_canonical: "set ts \<subseteq> set all_subchannels \<Longrightarrow> tokens_loop (map PStr ts) = Inr ts"
proof (induction ts)
  case (Cons t ts)
  then obtain d c where t: "t = subchannel d c" "d \<in> set VALID_DIRECTIONS" "c \<in> set VALID_CARRIERS"
    using all_subchannels_form by force
  from canonical_valid [OF t(2,3)] Cons t(1) show ?case by (simp add: Let_def)
qed simp

lemma tokens_of_str_list: "set ts \<subseteq> set all_subchannels \<Longrightarrow> subchannel_tokens_from_targets (str_list ts) = Inr (dedupe ts)"
  using tokens_loop_canonical by (simp add: subchannel_tokens_from_targets_def target_items_def str_list_def)

lemma acceptance_loop_value:
  "set ds \<subseteq> set VALID_DIRECTIONS \<Longrightarrow> acceptance_loop ret rej ds =
     Inr (filter (\<lambda>d. \<exists>c\<in>set VALID_CARRIERS. subchannel d c \<in> set ret) ds,
          filter (\<lambda>d. (\<forall>c\<in>set VALID_CARRIERS. subchannel d c \<notin> set ret) \<and> (\<forall>c\<in>set VALID_CARRIERS. subchannel d c \<in> set rej)) ds)"
proof (induction ds)
  case (Cons d ds)
  have m: "mapR (canonical_subchannel d) VALID_CARRIERS = Inr (map (subchannel d) VALID_CARRIERS)"
    using canonical_valid [of d] Cons.prems by (intro mapR_total) simp
  have ne: "VALID_CARRIERS \<noteq> []" by (simp add: VALID_CARRIERS_def)
  show ?case using Cons m ne by (auto simp: list_ex_iff list_all_iff simp del: mapR.simps)
qed simp


section \<open>Properties of channels and their quality\<close>

text \<open>Channel tokens are canonical: whatever targets are given (one string, a list, anything that
  can be iterated), the subchannels they stand for are among the four of the program, without
  repetition, and expanding them again changes nothing.\<close>

theorem subchannel_tokens_canonical:
  assumes "subchannel_tokens_from_targets v = Inr ts"
  shows "set ts \<subseteq> set all_subchannels \<and> distinct ts
    \<and> default_subchannels = Inr all_subchannels \<and> subchannel_tokens_from_targets (str_list ts) = Inr ts"
proof -
  from assms obtain xs us where u: "tokens_loop xs = Inr us" "ts = dedupe us"
    by (auto simp: subchannel_tokens_from_targets_def)
  with tokens_loop_total [of xs] have "set ts \<subseteq> set all_subchannels" "distinct ts" by auto
  with tokens_of_str_list [of ts] default_subchannels_values show ?thesis by simp
qed

theorem subchannel_tokens_canonical_witness:
  "subchannel_tokens_from_targets (PList [PStr '' X'', PStr ''Hole_y'', PNone, PStr ''hole_x'', PStr ''z'']) = Inr [''electron_x'', ''hole_x'', ''hole_y'']
   \<and> subchannel_tokens_from_targets (str_list [''electron_x'', ''hole_x'', ''hole_y'']) = Inr [''electron_x'', ''hole_x'', ''hole_y'']"
proof -
  have h: "subchannel_tokens_from_targets (PList [PStr '' X'', PStr ''Hole_y'', PNone, PStr ''hole_x'', PStr ''z''])
      = Inr [''electron_x'', ''hole_x'', ''hole_y'']" by code_simp
  from subchannel_tokens_canonical [OF h] h show ?thesis by blast
qed

text \<open>C23: A direction is accepted exactly when one of its subchannels is retained, and rejected
  exactly when none is retained and both are rejected; so no direction is both, and one that
  has neither a retained subchannel nor two rejected ones is neither.\<close>

theorem direction_acceptance_iff:
  assumes "subchannel_tokens_from_targets retained = Inr ret" and "subchannel_tokens_from_targets rejected = Inr rej"
  shows "\<exists>acc out. derive_direction_acceptance retained rejected = Inr (acc, out)
    \<and> set acc = {d \<in> set VALID_DIRECTIONS. \<exists>c\<in>set VALID_CARRIERS. subchannel d c \<in> set ret}
    \<and> set out = {d \<in> set VALID_DIRECTIONS. (\<forall>c\<in>set VALID_CARRIERS. subchannel d c \<notin> set ret \<and> subchannel d c \<in> set rej)}
    \<and> set acc \<inter> set out = {}"
proof -
  have "VALID_CARRIERS \<noteq> []" by (simp add: VALID_CARRIERS_def)
  then show ?thesis
    using assms acceptance_loop_value [of VALID_DIRECTIONS ret rej]
    by (auto simp: derive_direction_acceptance_def neq_Nil_conv)
qed

theorem direction_acceptance_iff_witness:
  "\<exists>acc out. derive_direction_acceptance (str_list [''hole_x'']) (str_list [''electron_x'', ''electron_y'', ''hole_y'']) = Inr (acc, out)
     \<and> ''x'' \<in> set acc \<and> set acc \<inter> set out = {}"
proof -
  have h: "subchannel_tokens_from_targets (str_list [''hole_x'']) = Inr [''hole_x'']"
    "subchannel_tokens_from_targets (str_list [''electron_x'', ''electron_y'', ''hole_y'']) = Inr [''electron_x'', ''electron_y'', ''hole_y'']"
    by code_simp+
  have m: "subchannel ''x'' ''hole'' \<in> set [''hole_x'']" "''hole'' \<in> set VALID_CARRIERS" "''x'' \<in> set VALID_DIRECTIONS"
    by code_simp+
  from direction_acceptance_iff [OF h] m show ?thesis by blast
qed

end
