(* ===== verification/Task_Board.thy ===== *)
theory Task_Board
  imports State_Ops "HOL-Library.Multiset"
begin

text \<open>
  The task board of a run (mobility_agent/runtime/deliberation_loop.py), the capability
  registry (runtime/capability_registry.py) and the action registry
  (runtime/action_registry.py). The board is the section \<open>TaskBoardSection\<close> of the state:
  five lists of dicts, so the tests for items that are no dict never fire. A capability
  moves between the lists; the moves of a board are an instance of the interface
  \<open>machine\<close>, with the invariant that every capability is on the board exactly once.
\<close>

section \<open>Actions\<close>

record ActionSpec =
  as_action_family :: string
  as_dependencies :: "string list"
  as_legal_parameters :: "string list"
  as_required_evidence :: "string list"
  as_expected_artifacts :: "string list"
  as_fallback_actions :: "string list"
  as_cost_class :: string
  as_risk_class :: string

definition action_spec ::
  "string \<Rightarrow> string list \<Rightarrow> string list \<Rightarrow> string list \<Rightarrow> string list \<Rightarrow> string list \<Rightarrow> string \<Rightarrow> string \<Rightarrow> string \<times> ActionSpec" where
  "action_spec fam deps params ev arts fb cost risk =
     (fam, \<lparr>as_action_family = fam, as_dependencies = deps, as_legal_parameters = params, as_required_evidence = ev,
            as_expected_artifacts = arts, as_fallback_actions = fb, as_cost_class = cost, as_risk_class = risk\<rparr>)"

definition ACTION_REGISTRY :: "(string \<times> ActionSpec) list" where
  "ACTION_REGISTRY =
     [action_spec ''run_capability'' [''target_capability''] [''target_capability''] [] [''stage_outputs'']
        [''retry_capability'', ''escalate_human''] ''medium'' ''medium'',
      action_spec ''retry_capability'' [''target_capability''] [''target_capability'', ''parameter_updates'']
        [''latest_failure''] [''retried_stage_outputs''] [''rerun_from_capability'', ''escalate_human''] ''medium'' ''medium'',
      action_spec ''rerun_from_capability'' [''target_capability''] [''target_capability'']
        [''dependency_mismatch_or_failed_downstream''] [''recomputed_downstream_outputs'']
        [''escalate_human'', ''abort_material''] ''high'' ''medium'',
      action_spec ''repair_execution_context'' [] [''repair_kind''] [''context_corruption_or_missing_artifacts'']
        [''repaired_execution_context''] [''escalate_human''] ''low'' ''medium'',
      action_spec ''refine_sampling'' [''target_capability'']
        [''target_capability'', ''target_channels'', ''target_directions'', ''suggested_points'', ''refinement_strategy'', ''target_fits'']
        [''fit_quality_warning''] [''additional_sampling_points''] [''revalidate_result'', ''abort_material''] ''high'' ''medium'',
      action_spec ''revalidate_result'' [''target_capability''] [''target_capability''] [''results_present'']
        [''validation_report''] [''escalate_human'', ''abort_material''] ''low'' ''low'',
      action_spec ''invalidate_channel'' [] [''target_channels''] [''channel_specific_anomaly'']
        [''updated_channel_registry''] [''skip_channel'', ''revalidate_result''] ''low'' ''low'',
      action_spec ''skip_channel'' [] [''target_channels''] [''channel_specific_failure'']
        [''updated_channel_registry''] [''abort_material''] ''low'' ''medium'',
      action_spec ''escalate_human'' [] [''recommended_options''] [''insufficient_automation_confidence'']
        [''human_escalation_payload''] [''abort_material''] ''low'' ''low'',
      action_spec ''finalize_material'' [] [] [''result_or_terminal_status'']
        [''final_summary'', ''material_outcome''] [] ''low'' ''low'',
      action_spec ''abort_material'' [] [''reason''] [''terminal_failure'']
        [''final_summary'', ''material_outcome''] [] ''low'' ''high'']"

definition get_action_spec :: "string \<Rightarrow> ActionSpec res" where
  "get_action_spec action_family =
     (case map_of ACTION_REGISTRY action_family of None \<Rightarrow> Inl (KeyError action_family) | Some s \<Rightarrow> Inr s)"

definition list_action_families :: "string list" where
  "list_action_families = map fst ACTION_REGISTRY"

definition capability_dependencies :: "string \<Rightarrow> string list" where
  "capability_dependencies capability =
     (case map_of CAPABILITY_DEPENDENCIES capability of None \<Rightarrow> [] | Some ds \<Rightarrow> ds)"

definition capability_sequence :: "string list" where
  "capability_sequence = CAPABILITY_SEQUENCE"

definition action_is_legal :: "string \<Rightarrow> string option \<Rightarrow> dict \<Rightarrow> bool" where
  "action_is_legal action_family target_capability parameters =
     (if action_family \<notin> set list_action_families then False
      else if action_family \<in> {''run_capability'', ''retry_capability'', ''rerun_from_capability'', ''refine_sampling'', ''revalidate_result''}
        then str_or target_capability [] \<noteq> []
      else if action_family \<in> {''invalidate_channel'', ''skip_channel''} then truthy (dget0 parameters ''target_channels'')
      else True)"

section \<open>Capabilities\<close>

record CapabilityDescriptor =
  cd_capability :: string
  cd_dependencies :: "string list"
  cd_required_inputs :: "string list"
  cd_canonical_outputs :: "string list"
  cd_failure_outputs :: "string list"
  cd_expected_artifacts :: "string list"
  cd_retryable :: bool
  cd_default_action_family :: string

definition nonblank :: "string list \<Rightarrow> string list" where
  "nonblank xs = filter (\<lambda>x. py_strip x \<noteq> []) xs"

definition normalize_descriptor :: "CapabilityDescriptor \<Rightarrow> CapabilityDescriptor" where
  "normalize_descriptor d =
     d\<lparr>cd_capability := py_strip (cd_capability d),
       cd_dependencies := nonblank (cd_dependencies d),
       cd_required_inputs := nonblank (cd_required_inputs d),
       cd_canonical_outputs := nonblank (cd_canonical_outputs d),
       cd_failure_outputs := nonblank (cd_failure_outputs d),
       cd_expected_artifacts := nonblank (cd_expected_artifacts d),
       cd_default_action_family := strip_or (str_or (Some (cd_default_action_family d)) ''run_capability'') ''run_capability''\<rparr>"

definition capability_descriptors :: "CapabilityDescriptor list res" where
  "capability_descriptors =
     mapR (\<lambda>capability. bindR (get_stage_contract capability) (\<lambda>contract.
       Inr (normalize_descriptor
         \<lparr>cd_capability = capability,
          cd_dependencies = capability_dependencies capability,
          cd_required_inputs = sc_required_inputs contract,
          cd_canonical_outputs = sc_canonical_outputs contract,
          cd_failure_outputs = sc_failure_outputs contract,
          cd_expected_artifacts = sc_artifact_patterns contract,
          cd_retryable = sc_retryable contract,
          cd_default_action_family = ''run_capability''\<rparr>))) CAPABILITY_SEQUENCE"

definition plan_from_capability :: "string option \<Rightarrow> string list" where
  "plan_from_capability start_capability =
     (let capability = py_strip (str_or start_capability []) in
      case index_of CAPABILITY_SEQUENCE capability of
        None \<Rightarrow> CAPABILITY_SEQUENCE
      | Some start_index \<Rightarrow> if capability = [] then CAPABILITY_SEQUENCE else drop start_index CAPABILITY_SEQUENCE)"

fun next_capability_after :: "string list \<Rightarrow> string list \<Rightarrow> string option" where
  "next_capability_after completed [] = None"
| "next_capability_after completed (capability # rest) =
     (if py_strip capability \<noteq> [] \<and> py_strip capability \<notin> py_strip ` set completed then Some (py_strip capability)
      else next_capability_after completed rest)"

section \<open>The board\<close>

type_synonym task = dict

record TaskBoard =
  pending_tasks :: "task list"
  active_tasks :: "task list"
  completed_tasks :: "task list"
  blocked_tasks :: "task list"
  abandoned_tasks :: "task list"

definition cap :: "task \<Rightarrow> string" where
  "cap t = get_str t ''capability''"

definition new_task :: "string \<Rightarrow> string \<Rightarrow> task" where
  "new_task capability status =
     [(''task_id'', PStr (''capability::'' @ capability)), (''task_type'', PStr ''capability''),
      (''capability'', PStr capability), (''depends_on'', str_list (capability_dependencies capability)),
      (''status'', PStr status)]"

definition build_initial_task_board :: TaskBoard where
  "build_initial_task_board =
     \<lparr>pending_tasks = map (\<lambda>c. new_task c ''pending'') capability_sequence, active_tasks = [], completed_tasks = [],
      blocked_tasks = [], abandoned_tasks = []\<rparr>"

text \<open>The first pending task whose dependencies are all completed.\<close>

definition completed_caps :: "TaskBoard \<Rightarrow> string list" where
  "completed_caps b = map cap (filter (\<lambda>t. truthy (dget0 t ''capability'')) (completed_tasks b))"

fun first_ready :: "string list \<Rightarrow> task list \<Rightarrow> task option res" where
  "first_ready completed [] = Inr None"
| "first_ready completed (item # rest) =
     bindR (get_list item ''depends_on'') (\<lambda>deps.
       if list_all (\<lambda>dep. py_str dep \<in> set completed) deps then Inr (Some item) else first_ready completed rest)"

definition next_pending_task :: "TaskBoard \<Rightarrow> task option res" where
  "next_pending_task b = first_ready (completed_caps b) (pending_tasks b)"

text \<open>Taking the first task of a capability out of a list.\<close>

fun take_task :: "string \<Rightarrow> task list \<Rightarrow> task option \<times> task list" where
  "take_task capability [] = (None, [])"
| "take_task capability (t # ts) =
     (if cap t = capability then (Some t, ts) else (let (r, rest) = take_task capability ts in (r, t # rest)))"

datatype board_key = Pending | Active | Completed | Blocked | Abandoned

fun tasks :: "board_key \<Rightarrow> TaskBoard \<Rightarrow> task list" where
  "tasks Pending b = pending_tasks b"
| "tasks Active b = active_tasks b"
| "tasks Completed b = completed_tasks b"
| "tasks Blocked b = blocked_tasks b"
| "tasks Abandoned b = abandoned_tasks b"

fun set_tasks :: "board_key \<Rightarrow> task list \<Rightarrow> TaskBoard \<Rightarrow> TaskBoard" where
  "set_tasks Pending ts b = b\<lparr>pending_tasks := ts\<rparr>"
| "set_tasks Active ts b = b\<lparr>active_tasks := ts\<rparr>"
| "set_tasks Completed ts b = b\<lparr>completed_tasks := ts\<rparr>"
| "set_tasks Blocked ts b = b\<lparr>blocked_tasks := ts\<rparr>"
| "set_tasks Abandoned ts b = b\<lparr>abandoned_tasks := ts\<rparr>"

definition move_task :: "TaskBoard \<Rightarrow> string \<Rightarrow> board_key \<Rightarrow> board_key \<Rightarrow> string \<Rightarrow> TaskBoard" where
  "move_task board capability source_key target_key status =
     (let (found, source_items) = take_task capability (tasks source_key board);
          updated = set_tasks source_key source_items board;
          item = (case found of Some t \<Rightarrow> dset t ''status'' (PStr status) | None \<Rightarrow> new_task capability status)
      in set_tasks target_key (tasks target_key updated @ [item]) updated)"

definition mark_task_started :: "TaskBoard \<Rightarrow> string \<Rightarrow> TaskBoard" where
  "mark_task_started board capability = move_task board capability Pending Active ''active''"

definition source_of :: "TaskBoard \<Rightarrow> string \<Rightarrow> board_key" where
  "source_of board capability =
     (if list_ex (\<lambda>t. cap t = capability) (active_tasks board) then Active else Pending)"

definition mark_task_completed :: "TaskBoard \<Rightarrow> string \<Rightarrow> TaskBoard" where
  "mark_task_completed board capability =
     move_task board capability (source_of board capability) Completed ''completed''"

text \<open>\<open>tasks[-1]["reason"] = reason\<close>.\<close>

definition set_last_reason :: "string \<Rightarrow> task list \<Rightarrow> task list" where
  "set_last_reason reason ts = (if ts = [] then ts else butlast ts @ [dset (last ts) ''reason'' (PStr reason)])"

definition mark_task_blocked :: "TaskBoard \<Rightarrow> string \<Rightarrow> string \<Rightarrow> TaskBoard" where
  "mark_task_blocked board capability reason =
     (let updated = move_task board capability Active Blocked ''blocked''
      in updated\<lparr>blocked_tasks := set_last_reason reason (blocked_tasks updated)\<rparr>)"

definition mark_task_abandoned :: "TaskBoard \<Rightarrow> string \<Rightarrow> string \<Rightarrow> TaskBoard" where
  "mark_task_abandoned board capability reason =
     (let updated = move_task board capability (source_of board capability) Abandoned ''abandoned''
      in updated\<lparr>abandoned_tasks := set_last_reason reason (abandoned_tasks updated)\<rparr>)"

definition all_tasks_resolved :: "TaskBoard \<Rightarrow> bool" where
  "all_tasks_resolved b \<longleftrightarrow>
     pending_tasks b = [] \<and> active_tasks b = [] \<and> blocked_tasks b = [] \<and> abandoned_tasks b = []"

definition has_blocked_or_abandoned_tasks :: "TaskBoard \<Rightarrow> bool" where
  "has_blocked_or_abandoned_tasks b \<longleftrightarrow> blocked_tasks b \<noteq> [] \<or> abandoned_tasks b \<noteq> []"

definition repend :: "task \<Rightarrow> task" where
  "repend t = dset t ''status'' (PStr ''pending'')"

definition kept_before :: "nat \<Rightarrow> task \<Rightarrow> bool" where
  "kept_before reset_index t \<longleftrightarrow>
     (case index_of capability_sequence (cap t) of None \<Rightarrow> False | Some i \<Rightarrow> i < reset_index)"

definition reset_from_capability :: "TaskBoard \<Rightarrow> string \<Rightarrow> TaskBoard" where
  "reset_from_capability board capability =
     (case index_of capability_sequence capability of
        None \<Rightarrow> board
      | Some reset_index \<Rightarrow>
         (let tail = drop reset_index capability_sequence;
              keep_completed = filter (kept_before reset_index) (completed_tasks board);
              requeued = map repend (filter (\<lambda>t. \<not> kept_before reset_index t) (completed_tasks board));
              pending = pending_tasks board @ requeued;
              active = map repend (filter (\<lambda>t. cap t \<in> set tail) (active_tasks board));
              pending_caps = set (map cap pending);
              missing = map (\<lambda>c. new_task c ''pending'') (filter (\<lambda>c. c \<notin> pending_caps) tail)
          in \<lparr>pending_tasks = pending @ missing @ active, active_tasks = [], completed_tasks = keep_completed,
              blocked_tasks = filter (\<lambda>t. cap t \<notin> set tail) (blocked_tasks board),
              abandoned_tasks = filter (\<lambda>t. cap t \<notin> set tail) (abandoned_tasks board)\<rparr>))"

section \<open>The round snapshot\<close>

definition nested_dict :: "dict \<Rightarrow> string \<Rightarrow> string \<Rightarrow> dict res" where
  "nested_dict state s k = bindR (get_or_empty state s) (\<lambda>d. get_dict d k)"

definition nested_list :: "dict \<Rightarrow> string \<Rightarrow> string \<Rightarrow> py list res" where
  "nested_list state s k = bindR (get_or_empty state s) (\<lambda>d. get_list d k)"

definition build_round_snapshot :: "dict \<Rightarrow> dict res" where
  "build_round_snapshot state =
     bindR (bindR (get_or_empty state ''deliberation'') (\<lambda>d. get_int d ''round_index'')) (\<lambda>round_id.
     bindR (nested_dict state ''blackboard'' ''latest_execution_observation'') (\<lambda>latest.
     bindR (nested_list state ''blackboard'' ''risk_flags'') (\<lambda>risks.
     bindR (nested_list state ''blackboard'' ''anomaly_flags'') (\<lambda>anomalies.
     bindR (nested_dict state ''execution'' ''current_action'') (\<lambda>action.
     bindR (get_or_empty state ''workflow'') (\<lambda>workflow.
     bindR (get_dict state ''task_board'') (\<lambda>board.
       Inr [(''round_id'', PInt round_id),
            (''latest_observation'', PDict latest),
            (''risk_flags'', PList risks),
            (''anomaly_flags'', PList anomalies),
            (''current_action'', PDict action),
            (''run_status'', PStr (get_str workflow ''run_status'')),
            (''wait_reason'', opt_str (if get_str workflow ''wait_reason'' = [] then None else Some (get_str workflow ''wait_reason''))),
            (''task_board'', PDict board)])))))))"

section \<open>Every capability is on the board once\<close>

definition all_tasks :: "TaskBoard \<Rightarrow> task list" where
  "all_tasks b = pending_tasks b @ active_tasks b @ completed_tasks b @ blocked_tasks b @ abandoned_tasks b"

definition good_task :: "task \<Rightarrow> bool" where
  "good_task t \<longleftrightarrow> map_of t ''depends_on'' = Some (str_list (capability_dependencies (cap t)))"

definition board_ok :: "TaskBoard \<Rightarrow> bool" where
  "board_ok b \<longleftrightarrow> mset (map cap (all_tasks b)) = mset CAPABILITY_SEQUENCE \<and> list_all good_task (all_tasks b)"

datatype board_event = Start string | Complete string | Block string string | Abandon string string | Reset string

fun board_step :: "board_event \<Rightarrow> TaskBoard \<Rightarrow> TaskBoard" where
  "board_step (Start c) b = mark_task_started b c"
| "board_step (Complete c) b = mark_task_completed b c"
| "board_step (Block c r) b = mark_task_blocked b c r"
| "board_step (Abandon c r) b = mark_task_abandoned b c r"
| "board_step (Reset c) b = reset_from_capability b c"

text \<open>When a move keeps the board in order: the capability is where the move takes it from, and a
  reset happens with no task active.\<close>

definition on_list :: "string \<Rightarrow> task list \<Rightarrow> bool" where
  "on_list c ts \<longleftrightarrow> c \<in> set (map cap ts)"

fun board_enabled :: "board_event \<Rightarrow> TaskBoard \<Rightarrow> bool" where
  "board_enabled (Start c) b = on_list c (pending_tasks b)"
| "board_enabled (Complete c) b = (on_list c (active_tasks b) \<or> on_list c (pending_tasks b))"
| "board_enabled (Block c r) b = on_list c (active_tasks b)"
| "board_enabled (Abandon c r) b = (on_list c (active_tasks b) \<or> on_list c (pending_tasks b))"
| "board_enabled (Reset c) b = (active_tasks b = [])"

lemma cap_dset [simp]: "k \<noteq> ''capability'' \<Longrightarrow> cap (dset t k v) = cap t"
  by (simp add: cap_def)

lemma cap_new_task [simp]: "cap (new_task c s) = c"
  by (simp add: cap_def new_task_def get_str_def dget0_def dget_def)

lemma good_new_task [simp]: "good_task (new_task c s)"
  by (simp add: good_task_def) (simp add: new_task_def)

lemma good_dset [simp]: "k \<noteq> ''capability'' \<Longrightarrow> k \<noteq> ''depends_on'' \<Longrightarrow> good_task (dset t k v) = good_task t"
  by (simp add: good_task_def)

lemma cap_repend [simp]: "cap (repend t) = cap t"
  by (simp add: repend_def)

lemma good_repend [simp]: "good_task (repend t) = good_task t"
  by (simp add: repend_def)

lemma take_task_Some:
  "take_task c ts = (Some t, rest) \<Longrightarrow> cap t = c \<and> mset ts = add_mset t (mset rest)"
  by (induction ts arbitrary: rest) (auto simp: Let_def split: if_splits prod.splits)

lemma take_task_None: "take_task c ts = (None, rest) \<Longrightarrow> rest = ts \<and> c \<notin> cap ` set ts"
  by (induction ts arbitrary: rest) (auto simp: Let_def split: if_splits prod.splits)

lemma take_task_on_list:
  assumes "on_list c ts"
  obtains t rest where "take_task c ts = (Some t, rest)" "cap t = c" "mset ts = add_mset t (mset rest)"
    "set rest \<subseteq> set ts" "t \<in> set ts"
proof (cases "take_task c ts")
  case (Pair r rest)
  with assms take_task_None obtain t where r: "r = Some t" by (cases r) (auto simp: on_list_def)
  with Pair take_task_Some have "cap t = c" and m: "mset ts = add_mset t (mset rest)" by auto
  moreover have "set ts = insert t (set rest)" using m by (metis set_mset_add_mset_insert set_mset_mset)
  ultimately show thesis using that Pair r by auto
qed

text \<open>A move between two lists keeps the tasks of the board, one of them with a new status.\<close>

lemma move_task_ok:
  assumes "board_ok b" "on_list c (tasks src b)" "src \<noteq> tgt"
  shows "board_ok (move_task b c src tgt status) \<and> tasks tgt (move_task b c src tgt status) \<noteq> []"
proof -
  obtain t rest where t: "take_task c (tasks src b) = (Some t, rest)" "cap t = c"
    "mset (tasks src b) = add_mset t (mset rest)" "set rest \<subseteq> set (tasks src b)" "t \<in> set (tasks src b)"
    using assms(2) by (rule take_task_on_list)
  have c: "image_mset cap (mset (tasks src b)) = add_mset c (image_mset cap (mset rest))"
    using t(2,3) by simp
  have g: "list_all good_task (tasks src b)" using assms(1) by (cases src) (simp_all add: board_ok_def all_tasks_def)
  then have "list_all good_task rest" "good_task t" using t(4,5) by (auto simp: list_all_iff)
  then show ?thesis
    using assms(1,3) c t(1,2)
    by (cases src; cases tgt) (simp_all add: move_task_def Let_def board_ok_def all_tasks_def)
qed

lemma set_last_reason_ok:
  "map cap (set_last_reason r ts) = map cap ts \<and> list_all good_task (set_last_reason r ts) = list_all good_task ts"
  by (cases ts rule: rev_cases) (simp_all add: set_last_reason_def)

lemma reason_ok:
  "board_ok (b\<lparr>blocked_tasks := set_last_reason r (blocked_tasks b)\<rparr>) = board_ok b"
  "board_ok (b\<lparr>abandoned_tasks := set_last_reason r (abandoned_tasks b)\<rparr>) = board_ok b"
  using set_last_reason_ok by (simp_all add: board_ok_def all_tasks_def)

lemma source_of_cases:
  "source_of b c = Active \<and> on_list c (active_tasks b) \<or> source_of b c = Pending \<and> \<not> on_list c (active_tasks b)"
  by (auto simp: source_of_def on_list_def list_ex_iff)

lemma move_from_source:
  assumes "board_ok b" "on_list c (active_tasks b) \<or> on_list c (pending_tasks b)" "tgt \<noteq> Active" "tgt \<noteq> Pending"
  shows "board_ok (move_task b c (source_of b c) tgt status)"
proof (cases "on_list c (active_tasks b)")
  case True
  then have "source_of b c = Active" using source_of_cases by blast
  with move_task_ok [OF assms(1), of c Active tgt status] True assms(3) show ?thesis by simp
next
  case False
  then have "source_of b c = Pending" using source_of_cases by blast
  with move_task_ok [OF assms(1), of c Pending tgt status] False assms(2,4) show ?thesis by simp
qed

lemma board_perm:
  "board_ok b \<longleftrightarrow> distinct (map cap (all_tasks b)) \<and> set (map cap (all_tasks b)) = set CAPABILITY_SEQUENCE
     \<and> list_all good_task (all_tasks b)"
proof -
  have d: "distinct CAPABILITY_SEQUENCE" by (rule caps.distinct_order)
  have "mset (map cap (all_tasks b)) = mset CAPABILITY_SEQUENCE \<longleftrightarrow>
      distinct (map cap (all_tasks b)) \<and> set (map cap (all_tasks b)) = set CAPABILITY_SEQUENCE"
    using d by (metis mset_eq_imp_distinct_iff mset_eq_setD set_eq_iff_mset_eq_distinct)
  then show ?thesis by (auto simp: board_ok_def)
qed

definition kept_cap :: "nat \<Rightarrow> string \<Rightarrow> bool" where
  "kept_cap n c \<longleftrightarrow> (case index_of capability_sequence c of None \<Rightarrow> False | Some i \<Rightarrow> i < n)"

lemma kept_cap_tail: "kept_cap n c \<Longrightarrow> c \<notin> set (drop n capability_sequence)"
  unfolding kept_cap_def capability_sequence_def caps.set_drop_order by (auto split: option.splits)

lemma filter_cap: "map cap (filter (\<lambda>t. P (cap t)) ts) = filter P (map cap ts)"
  by (induction ts) auto

lemma reset_ok:
  assumes ok: "board_ok b" and idle: "active_tasks b = []"
  shows "board_ok (reset_from_capability b c)"
proof (cases "index_of capability_sequence c")
  case (Some n)
  let ?r = "reset_from_capability b c"
  let ?T = "drop n capability_sequence"
  define P where "P = map cap (pending_tasks b)"
  define C where "C = map cap (completed_tasks b)"
  define B where "B = map cap (blocked_tasks b)"
  define D where "D = map cap (abandoned_tasks b)"
  define Q where "Q = filter (\<lambda>x. \<not> kept_cap n x) C"
  define K where "K = filter (kept_cap n) C"
  define M where "M = filter (\<lambda>x. x \<notin> set (P @ Q)) ?T"
  have k: "kept_before n = (\<lambda>t. kept_cap n (cap t))" by (simp add: fun_eq_iff kept_before_def kept_cap_def)
  have comp: "map (cap \<circ> repend) ts = map cap ts" "map (cap \<circ> (\<lambda>c. new_task c s)) cs = cs" for ts s cs
    by (simp_all add: comp_def)
  have im: "cap ` repend ` X = cap ` X" for X by (simp add: image_image)
  have caps': "map cap (all_tasks ?r) = P @ Q @ M @ K @ filter (\<lambda>x. x \<notin> set ?T) B @ filter (\<lambda>x. x \<notin> set ?T) D"
    using Some idle
    by (simp add: reset_from_capability_def Let_def all_tasks_def k comp P_def Q_def M_def K_def C_def B_def D_def
        filter_cap [of "\<lambda>x. \<not> kept_cap n x", symmetric] filter_cap [symmetric] image_Un im)
  have old: "distinct (P @ C @ B @ D)" "set (P @ C @ B @ D) = set CAPABILITY_SEQUENCE" "list_all good_task (all_tasks b)"
    using ok idle by (auto simp: board_perm all_tasks_def P_def C_def B_def D_def)
  have sub: "set ?T \<subseteq> set CAPABILITY_SEQUENCE" by (simp add: capability_sequence_def set_drop_subset)
  have dT: "distinct ?T" using caps.distinct_order by (simp add: capability_sequence_def)
  have kt: "x \<notin> set ?T" if "kept_cap n x" for x using kept_cap_tail that by blast
  have "distinct (map cap (all_tasks ?r))"
    unfolding caps' using old(1) dT kt by (auto simp: Q_def K_def M_def)
  moreover have "set (map cap (all_tasks ?r)) = set CAPABILITY_SEQUENCE"
    unfolding caps' using old(2) sub by (auto simp: Q_def K_def M_def)
  moreover have "list_all good_task (all_tasks ?r)"
    using old(3) Some idle by (auto simp: reset_from_capability_def Let_def all_tasks_def list_all_iff)
  ultimately show ?thesis by (simp add: board_perm)
qed (use ok in \<open>simp add: reset_from_capability_def\<close>)

lemma board_step_ok:
  assumes "board_ok b" "board_enabled ev b"
  shows "board_ok (board_step ev b)"
proof (cases ev)
  case (Start c)
  with assms move_task_ok [OF assms(1), of c Pending Active "''active''"] show ?thesis
    by (simp add: mark_task_started_def)
next
  case (Complete c)
  with assms move_from_source [OF assms(1), of c Completed "''completed''"] show ?thesis
    by (simp add: mark_task_completed_def)
next
  case (Block c r)
  with assms move_task_ok [OF assms(1), of c Active Blocked "''blocked''"] show ?thesis
    by (simp add: mark_task_blocked_def Let_def reason_ok)
next
  case (Abandon c r)
  with assms move_from_source [OF assms(1), of c Abandoned "''abandoned''"] show ?thesis
    by (simp add: mark_task_abandoned_def Let_def reason_ok)
next
  case (Reset c)
  with assms reset_ok [OF assms(1)] show ?thesis by simp
qed

interpretation board: machine board_step board_enabled board_ok
  by unfold_locales (rule board_step_ok)

lemma initial_board_ok: "board_ok build_initial_task_board"
proof -
  have "map (cap \<circ> (\<lambda>c. new_task c s)) cs = cs" for s cs by (simp add: comp_def)
  then show ?thesis
    by (simp add: board_ok_def build_initial_task_board_def all_tasks_def capability_sequence_def list_all_iff)
qed

section \<open>The next task\<close>

lemma good_task_deps:
  "good_task t \<Longrightarrow> get_list t ''depends_on'' = Inr (map PStr (capability_dependencies (cap t)))"
  by (simp add: good_task_def get_list_def dget_def str_list_def)

lemma first_ready_find:
  "list_all good_task ts \<Longrightarrow>
   first_ready cs ts = Inr (find (\<lambda>t. set (capability_dependencies (cap t)) \<subseteq> set cs) ts)"
  by (induction ts) (auto simp: good_task_deps list_all_iff)

lemma completed_caps_set: "c \<noteq> [] \<Longrightarrow> c \<in> set (map cap (completed_tasks b)) \<Longrightarrow> c \<in> set (completed_caps b)"
proof -
  assume c: "c \<noteq> []" "c \<in> set (map cap (completed_tasks b))"
  then obtain t where t: "t \<in> set (completed_tasks b)" "cap t = c" by auto
  have "truthy (dget0 t ''capability'')"
  proof (rule ccontr)
    assume "\<not> truthy (dget0 t ''capability'')"
    then have "cap t = []" by (simp add: cap_def get_str_def py_or_def)
    with t c show False by simp
  qed
  with t show "c \<in> set (completed_caps b)" by (auto simp: completed_caps_def)
qed

lemma dependencies_before: "d \<in> set (capability_dependencies c) \<Longrightarrow> caps.before d c"
  using dependencies_table [of c _ d]
  by (cases "map_of CAPABILITY_DEPENDENCIES c") (simp_all add: capability_dependencies_def)

lemma ready_task_exists:
  assumes ok: "board_ok b" and idle: "active_tasks b = []" "blocked_tasks b = []" "abandoned_tasks b = []"
    and ne: "pending_tasks b \<noteq> []"
  shows "\<exists>t\<in>set (pending_tasks b). set (capability_dependencies (cap t)) \<subseteq> set (completed_caps b)"
proof -
  have names: "[] \<notin> set CAPABILITY_SEQUENCE" by (simp add: CAPABILITY_SEQUENCE_def)
  from ok have S: "set (map cap (all_tasks b)) = set CAPABILITY_SEQUENCE" by (simp add: board_perm)
  let ?idx = "\<lambda>t. the (index_of CAPABILITY_SEQUENCE (cap t))"
  obtain t0 where "t0 \<in> set (pending_tasks b)" using ne by (cases "pending_tasks b") auto
  from ex_has_least_nat [of "\<lambda>t. t \<in> set (pending_tasks b)", OF this, of ?idx]
  obtain t where t: "t \<in> set (pending_tasks b)" "\<forall>u. u \<in> set (pending_tasks b) \<longrightarrow> ?idx t \<le> ?idx u" by blast
  have "d \<in> set (completed_caps b)" if d: "d \<in> set (capability_dependencies (cap t))" for d
  proof -
    have bf: "caps.before d (cap t)" using dependencies_before [OF d] .
    then have m: "d \<in> set CAPABILITY_SEQUENCE" using caps.before_members by blast
    have "d \<notin> set (map cap (pending_tasks b))"
    proof
      assume "d \<in> set (map cap (pending_tasks b))"
      then obtain u where "u \<in> set (pending_tasks b)" "cap u = d" by auto
      with t(2) bf show False by (fastforce simp: caps.before_def)
    qed
    with m S idle have "d \<in> set (map cap (completed_tasks b))" by (auto simp: all_tasks_def)
    with m names show ?thesis by (metis completed_caps_set)
  qed
  with t(1) show ?thesis by blast
qed

lemma two_count: "c \<in># A \<Longrightarrow> c \<in># B \<Longrightarrow> 2 \<le> count (A + B) c"
proof -
  assume "c \<in># A" "c \<in># B"
  then have "0 < count A c" "0 < count B c" by (simp_all only: count_greater_zero_iff)
  then have "2 \<le> count A c + count B c" by linarith
  then show ?thesis by simp
qed

section \<open>Properties of the task board\<close>


definition demo_moves :: "board_event list" where
  "demo_moves = [Start ''prepare'', Complete ''prepare'', Start ''relax'', Block ''relax'' ''zbrent'', Reset ''relax'']"




text \<open>Rerunning a capability duplicates it: the executor first marks the task as started and then
  resets the board from that capability, and whatever the board was, the capability is then
  pending at least twice, so that after the rerun has succeeded it is still pending.\<close>

theorem rerun_duplicates_task:
  assumes "c \<in> set capability_sequence"
  shows "2 \<le> count (mset (map cap (pending_tasks (reset_from_capability (mark_task_started b c) c)))) c
    \<and> c \<in> set (map cap (pending_tasks (mark_task_completed (reset_from_capability (mark_task_started b c) c) c)))"
proof -
  let ?s = "mark_task_started b c"
  let ?r = "reset_from_capability ?s c"
  obtain n where n: "index_of capability_sequence c = Some n" using assms index_of_in by metis
  have tail: "c \<in> set (drop n capability_sequence)"
    using caps.from_index [of c n] n by (simp add: capability_sequence_def)
  obtain t where "t \<in> set (active_tasks ?s)" "cap t = c"
  proof (cases "take_task c (pending_tasks b)")
    case (Pair x rest)
    let ?t = "case x of Some t \<Rightarrow> dset t ''status'' (PStr ''active'') | None \<Rightarrow> new_task c ''active''"
    have "cap ?t = c" using take_task_Some [of c "pending_tasks b"] Pair by (cases x) auto
    moreover have "?t \<in> set (active_tasks ?s)" using Pair by (simp add: mark_task_started_def move_task_def)
    ultimately show ?thesis using that by blast
  qed
  then have act: "c \<in># mset (map cap (map repend (filter (\<lambda>t. cap t \<in> set (drop n capability_sequence)) (active_tasks ?s))))"
    using tail by (force simp: image_image)
  have two: "2 \<le> count (mset (map cap (pending_tasks ?r))) c"
  proof -
    let ?p = "pending_tasks ?s @ map repend (filter (\<lambda>t. \<not> kept_before n t) (completed_tasks ?s))"
    let ?m = "map (\<lambda>c. new_task c ''pending'') (filter (\<lambda>c. c \<notin> set (map cap ?p)) (drop n capability_sequence))"
    let ?a = "map repend (filter (\<lambda>t. cap t \<in> set (drop n capability_sequence)) (active_tasks ?s))"
    have r: "pending_tasks ?r = ?p @ ?m @ ?a" using n unfolding reset_from_capability_def Let_def by (simp only: option.case) simp_all
    have "c \<in> set (map cap ?p) \<or> c \<in> set (map cap ?m)"
    proof (cases "c \<in> set (map cap ?p)")
      case False
      with tail have "c \<in> set (filter (\<lambda>c. c \<notin> set (map cap ?p)) (drop n capability_sequence))"
        unfolding set_filter by blast
      then have "cap (new_task c ''pending'') \<in> set (map cap ?m)" unfolding list.set_map by (intro imageI)
      then show ?thesis by simp
    qed blast
    then have "c \<in># mset (map cap (?p @ ?m))" unfolding map_append set_mset_mset set_append by blast
    moreover have "mset (map cap (pending_tasks ?r)) = mset (map cap (?p @ ?m)) + mset (map cap ?a)"
      unfolding r by simp
    ultimately show ?thesis using act by (simp only: two_count)
  qed
  have idle: "active_tasks ?r = []" using n by (simp add: reset_from_capability_def Let_def)
  then have src: "source_of ?r c = Pending" by (simp add: source_of_def)
  have on: "on_list c (pending_tasks ?r)"
    using two by (metis count_eq_zero_iff not_numeral_le_zero on_list_def set_mset_mset)
  then obtain u rest where u: "take_task c (pending_tasks ?r) = (Some u, rest)" "cap u = c"
    "mset (pending_tasks ?r) = add_mset u (mset rest)" by (rule take_task_on_list)
  have "mset (map cap (pending_tasks ?r)) = add_mset c (mset (map cap rest))" using u(2,3) by simp
  with two have "1 \<le> count (mset (map cap rest)) c" by simp
  then have "c \<in> set (map cap rest)" by (metis count_greater_eq_one_iff set_mset_mset)
  moreover have "pending_tasks (mark_task_completed ?r c) = rest"
    using u(1) src by (simp add: mark_task_completed_def move_task_def Let_def)
  ultimately show ?thesis using two by simp
qed

theorem rerun_duplicates_task_witness:
  "count (mset (map cap (pending_tasks (reset_from_capability (mark_task_started build_initial_task_board ''relax'') ''relax'')))) ''relax'' \<ge> 2"
  using rerun_duplicates_task [of "''relax''" build_initial_task_board]
  by (simp add: capability_sequence_def CAPABILITY_SEQUENCE_def)

text \<open>A successful retry does not unblock: a capability that failed is on the blocked list, and
  starting and completing it again leaves that list as it was, so the board still reports a
  blocked task and never counts as resolved.\<close>

theorem retry_keeps_blocked:
  "blocked_tasks (mark_task_completed (mark_task_started (mark_task_blocked b c reason) c) c)
     = blocked_tasks (mark_task_blocked b c reason)
   \<and> has_blocked_or_abandoned_tasks (mark_task_completed (mark_task_started (mark_task_blocked b c reason) c) c)
   \<and> \<not> all_tasks_resolved (mark_task_completed (mark_task_started (mark_task_blocked b c reason) c) c)"
proof -
  have keep: "blocked_tasks (move_task b c src tgt st) = blocked_tasks b" if "src \<noteq> Blocked" "tgt \<noteq> Blocked" for b src tgt st
    using that by (cases src; cases tgt) (simp_all add: move_task_def Let_def split: prod.splits)
  have src: "source_of b c \<noteq> Blocked" for b by (simp add: source_of_def)
  have eq: "blocked_tasks (mark_task_completed (mark_task_started x c) c) = blocked_tasks x" for x
    using keep src by (simp add: mark_task_completed_def mark_task_started_def)
  have "blocked_tasks (mark_task_blocked b c reason) \<noteq> []"
    by (simp add: mark_task_blocked_def Let_def move_task_def set_last_reason_def split: prod.splits)
  then show ?thesis by (simp add: eq has_blocked_or_abandoned_tasks_def all_tasks_resolved_def)
qed

end
