(* ===== verification/Refinement.thy ===== *)
theory Refinement
  imports Channels Task_Board "HOL-Library.Product_Lexorder"
begin

text \<open>
  Adaptive refinement of the strain sampling (mobility_agent/runtime/refinement_policy.py):
  which channels are refined, which strain points are added, and whether validation asks
  for it. Points are rounded to six decimals, half to even. A Python set of points used for
  membership is the list it was made from.
\<close>

section \<open>Points and channels\<close>

definition VALID_REFINEMENT_CHANNELS :: "string list" where
  "VALID_REFINEMENT_CHANNELS = [''x'', ''y'']"

definition DEFAULT_REFINEMENT_TARGET_POINTS :: int where
  "DEFAULT_REFINEMENT_TARGET_POINTS = 9"

definition DEFAULT_FIT_R2_THRESHOLD :: flt where
  "DEFAULT_FIT_R2_THRESHOLD = Fin (90/100)"

definition MIDPOINT_STRATEGIES :: "string list" where
  "MIDPOINT_STRATEGIES = [''midpoint'', ''midpoint_enrichment'', ''midpoint_refinement'', ''midpoint_sampling'']"

text \<open>\<open>round(q)\<close>, half to even, and \<open>round(x, 6)\<close>.\<close>

definition round_even :: "rat \<Rightarrow> int" where
  "round_even q =
     (let n = \<lfloor>q\<rfloor>; r = q - of_int n
      in if r < 1/2 then n else if 1/2 < r then n + 1 else if even n then n else n + 1)"

definition round_rat :: "rat \<Rightarrow> rat" where
  "round_rat q = of_int (round_even (q * 1000000)) / 1000000"

fun round_point :: "flt \<Rightarrow> flt" where
  "round_point (Fin q) = Fin (round_rat q)"
| "round_point x = x"

text \<open>Items that do not convert to a float are skipped.\<close>

definition read_point :: "py \<Rightarrow> flt option" where
  "read_point item = (case to_float item of Inl _ \<Rightarrow> None | Inr x \<Rightarrow> Some (round_point x))"

definition normalize_points :: "py \<Rightarrow> flt list res" where
  "normalize_points values =
     bindR (to_list (py_or values (PList []))) (\<lambda>is. Inr (sort (dedupe (List.map_filter read_point is))))"

definition normalize_channels :: "py \<Rightarrow> string list res" where
  "normalize_channels values =
     bindR (target_items values) (\<lambda>is.
       Inr (filter (\<lambda>c. c \<in> set VALID_REFINEMENT_CHANNELS)
              (dedupe (map py_lower (filter (\<lambda>s. s \<noteq> []) (map (\<lambda>i. py_strip (py_str i)) is))))))"

text \<open>The first of two values that is present and converts.\<close>

fun first_threshold :: "py list \<Rightarrow> flt \<Rightarrow> flt" where
  "first_threshold [] dflt = dflt"
| "first_threshold (v # vs) dflt =
     (if v = PNone then first_threshold vs dflt
      else (case to_float v of Inl _ \<Rightarrow> first_threshold vs dflt | Inr x \<Rightarrow> x))"

definition fit_threshold_of :: "dict \<Rightarrow> flt \<Rightarrow> flt res" where
  "fit_threshold_of state dflt =
     bindR (get_dict state ''diagnostics'') (\<lambda>diagnostics.
     bindR (get_dict diagnostics ''fit_diagnostics'') (\<lambda>fit.
     bindR (get_or_empty state ''mission'') (\<lambda>mission.
     bindR (get_or_empty mission ''runtime_constraints'') (\<lambda>constraints.
       Inr (first_threshold [dget0 fit ''fit_r2_threshold'', dget0 constraints ''fit_r2_threshold''] dflt)))))"

section \<open>Which channels\<close>

definition requested_keys :: "string list" where
  "requested_keys = [''target_channels'', ''target_directions'', ''channels'', ''directions'']"

fun first_channels :: "dict \<Rightarrow> string list \<Rightarrow> string list res" where
  "first_channels params [] = Inr []"
| "first_channels params (key # keys) =
     bindR (normalize_channels (dget0 params key)) (\<lambda>normalized.
       if normalized \<noteq> [] then Inr normalized else first_channels params keys)"

definition target_fit_channel :: "py \<Rightarrow> string option" where
  "target_fit_channel item =
     (let token = token_text item in
      if endswith token ''_x'' \<or> endswith token '':x'' \<or> endswith token ''/x'' then Some ''x''
      else if endswith token ''_y'' \<or> endswith token '':y'' \<or> endswith token ''/y'' then Some ''y''
      else None)"

definition channel_metric :: "dict \<Rightarrow> dict \<Rightarrow> flt" where
  "channel_metric payload fit =
     (let metric = dget payload ''effective_fit_quality'' (dget payload ''edge_fit_r2'' (dget fit ''fit_r2_min'' (PFloat (Fin 1))))
      in try_except (to_float (if metric = PNone then PFloat (Fin 1) else metric)) (Fin 1))"

definition weak_channels :: "dict \<Rightarrow> dict \<Rightarrow> flt \<Rightarrow> string list res" where
  "weak_channels fit per_direction threshold =
     bindR (mapR (\<lambda>channel. bindR (get_dict per_direction channel) (\<lambda>payload.
              Inr (channel, flt_lt (channel_metric payload fit) threshold))) VALID_REFINEMENT_CHANNELS) (\<lambda>cs.
       Inr (map fst (filter snd cs)))"

definition infer_refinement_channels :: "dict \<Rightarrow> dict \<Rightarrow> flt \<Rightarrow> string list res" where
  "infer_refinement_channels state params fit_threshold =
     bindR (first_channels params requested_keys) (\<lambda>requested.
     if requested \<noteq> [] then Inr requested else
     bindR (get_list params ''target_fits'') (\<lambda>fits.
     bindR (normalize_channels (str_list (List.map_filter target_fit_channel fits))) (\<lambda>targets.
     if targets \<noteq> [] then Inr targets else
     bindR (get_dict state ''diagnostics'') (\<lambda>diagnostics.
     bindR (get_dict diagnostics ''fit_diagnostics'') (\<lambda>fit.
     bindR (get_dict fit ''per_direction'') (\<lambda>per_direction.
     bindR (fit_threshold_of state fit_threshold) (\<lambda>threshold.
     bindR (weak_channels fit per_direction threshold) (\<lambda>weak.
     if weak \<noteq> [] then Inr weak else
     bindR (get_or_empty state ''physics_results'') (\<lambda>physics.
     bindR (normalize_channels (py_or (dget0 physics ''accepted_channels'') (PList []))) (\<lambda>accepted.
       Inr (if accepted \<noteq> [] then accepted else VALID_REFINEMENT_CHANNELS)))))))))))"

section \<open>Which points\<close>

definition midpoint :: "flt \<Rightarrow> flt \<Rightarrow> flt" where
  "midpoint l r = round_point (flt_div (flt_add l r) (Fin 2))"

definition midpoint_candidates :: "flt list \<Rightarrow> flt list" where
  "midpoint_candidates existing =
     (if length existing < 2 then []
      else sort_key (\<lambda>v. (flt_abs v, v))
        (dedupe (List.map_filter (\<lambda>(l, r). let m = midpoint l r in
             if m \<in> set existing \<or> flt_le m l \<or> flt_le r m then None else Some m)
           (zip existing (tl existing)))))"

text \<open>The loop that takes candidates until the remaining slots are used.\<close>

fun choose_points :: "nat \<Rightarrow> flt list \<Rightarrow> flt list \<Rightarrow> flt list \<Rightarrow> flt list \<times> flt list" where
  "choose_points slots chosen seen [] = (chosen, seen)"
| "choose_points slots chosen seen (v # vs) =
     (if v \<in> set seen then choose_points slots chosen seen vs
      else if slots \<le> length (chosen @ [v]) then (chosen @ [v], seen @ [v])
      else choose_points slots (chosen @ [v]) (seen @ [v]) vs)"

record channel_plan =
  cp_channel :: string
  cp_applied :: "flt list"
  cp_full :: "flt list"

definition plan_channel :: "dict \<Rightarrow> dict \<Rightarrow> string \<Rightarrow> nat \<Rightarrow> string \<Rightarrow> channel_plan res" where
  "plan_channel plan_by_direction suggested strategy limit channel =
     bindR (normalize_points (dget plan_by_direction channel (PList []))) (\<lambda>existing.
     if limit \<le> length existing then Inr \<lparr>cp_channel = channel, cp_applied = [], cp_full = existing\<rparr>
     else
       bindR (normalize_points (dget suggested channel (PList []))) (\<lambda>explicit.
       let fresh = filter (\<lambda>v. v \<notin> set existing) explicit;
           candidates = (if fresh = [] \<and> strategy \<in> set MIDPOINT_STRATEGIES then midpoint_candidates existing else fresh);
           (chosen, seen) = choose_points (limit - length existing) [] existing candidates
       in Inr \<lparr>cp_channel = channel, cp_applied = chosen, cp_full = sort seen\<rparr>))"

record refinement_plan =
  rp_target_channels :: "string list"
  rp_applied_points :: "(string \<times> flt list) list"
  rp_full_plan_by_direction :: "(string \<times> flt list) list"
  rp_refinement_strategy :: "string option"
  rp_max_points_per_direction :: int

text \<open>\<open>suggested_points\<close> of the result repeats \<open>applied_points\<close>.\<close>

definition resolve_refinement_sampling :: "dict \<Rightarrow> dict \<Rightarrow> int \<Rightarrow> flt \<Rightarrow> refinement_plan res" where
  "resolve_refinement_sampling state params max_points fit_threshold =
     bindR (get_or_empty state ''physics_results'') (\<lambda>physics.
     bindR (get_dict physics ''strain_plan_by_direction'') (\<lambda>plan_by_direction.
     bindR (infer_refinement_channels state params fit_threshold) (\<lambda>target_channels.
     let suggested = (case dget0 params ''suggested_points'' of PDict d \<Rightarrow> d | _ \<Rightarrow> []);
         strategy = py_lower (py_strip (get_str params ''refinement_strategy''));
         limit = max 0 (if max_points = 0 then DEFAULT_REFINEMENT_TARGET_POINTS else max_points)
     in bindR (mapR (plan_channel plan_by_direction suggested strategy (nat limit)) target_channels) (\<lambda>plans.
          Inr \<lparr>rp_target_channels = target_channels,
               rp_applied_points = map (\<lambda>p. (cp_channel p, cp_applied p)) (filter (\<lambda>p. cp_applied p \<noteq> []) plans),
               rp_full_plan_by_direction = map (\<lambda>p. (cp_channel p, cp_full p)) plans,
               rp_refinement_strategy = (if strategy = [] then None else Some strategy),
               rp_max_points_per_direction = limit\<rparr>))))"

definition midpoint_request :: dict where
  "midpoint_request = [(''refinement_strategy'', PStr ''midpoint_enrichment'')]"

definition validation_requires_refinement :: "dict \<Rightarrow> int \<Rightarrow> flt \<Rightarrow> bool res" where
  "validation_requires_refinement state max_points fit_threshold =
     bindR (get_dict state ''diagnostics'') (\<lambda>diagnostics.
     bindR (get_dict diagnostics ''fit_diagnostics'') (\<lambda>fit.
     if fit = [] then Inr False else
     let effective_fit = try_except (to_float (py_or (dget fit ''effective_fit_quality'' (dget fit ''fit_r2_min'' (PFloat (Fin 1))))
                                       (PFloat (Fin 0)))) (Fin 1) in
     bindR (fit_threshold_of state fit_threshold) (\<lambda>threshold.
     if flt_le threshold effective_fit then Inr False else
     bindR (nested_list state ''blackboard'' ''anomaly_flags'') (\<lambda>anomalies.
     if anomalies \<noteq> [] then Inr False else
     bindR (get_dict state ''workflow'') (\<lambda>workflow.
     bindR (get_int workflow ''refinement_rounds'') (\<lambda>rounds.
     bindR (get_int workflow ''max_refinement_rounds'') (\<lambda>max_rounds.
     if max_rounds \<le> rounds then Inr False else
     bindR (resolve_refinement_sampling state midpoint_request max_points fit_threshold) (\<lambda>proposal.
       Inr (rp_applied_points proposal \<noteq> [])))))))))"

section \<open>The plan of a channel\<close>

lemma normalize_points_shape: "normalize_points v = Inr ps \<Longrightarrow> sorted ps \<and> distinct ps"
  by (auto simp: normalize_points_def)

lemma choose_points_spec:
  "choose_points slots chosen seen vs = (c, s) \<Longrightarrow> distinct seen \<Longrightarrow> length chosen < slots \<Longrightarrow>
   \<exists>new. c = chosen @ new \<and> s = seen @ new \<and> distinct s \<and> set new \<subseteq> set vs \<and> length c \<le> slots"
proof (induction slots chosen seen vs rule: choose_points.induct)
  case (2 slots chosen seen v vs)
  show ?case
  proof (cases "v \<in> set seen")
    case True
    with 2 show ?thesis by fastforce
  next
    case False
    show ?thesis
    proof (cases "slots \<le> length (chosen @ [v])")
      case True
      with 2 False have "c = chosen @ [v]" "s = seen @ [v]" by auto
      with False 2 show ?thesis by (intro exI [of _ "[v]"]) auto
    next
      case slots: False
      with False 2 obtain new where "c = (chosen @ [v]) @ new" "s = (seen @ [v]) @ new" "distinct s"
        "set new \<subseteq> set vs" "length c \<le> slots" by fastforce
      then show ?thesis by (intro exI [of _ "v # new"]) auto
    qed
  qed
qed auto

text \<open>What a channel's plan promises: nothing is lost, what is added is new, and the budget is kept.\<close>

definition sound_plan :: "nat \<Rightarrow> flt list \<Rightarrow> channel_plan \<Rightarrow> bool" where
  "sound_plan limit existing p \<longleftrightarrow>
     sorted (cp_full p) \<and> distinct (cp_full p) \<and> distinct (cp_applied p)
   \<and> set (cp_full p) = set existing \<union> set (cp_applied p) \<and> set existing \<inter> set (cp_applied p) = {}
   \<and> length (cp_full p) \<le> max limit (length existing)"

lemma plan_channel_sound:
  assumes "plan_channel plan sugg strategy limit ch = Inr p"
  shows "\<exists>existing. normalize_points (dget plan ch (PList [])) = Inr existing \<and> cp_channel p = ch \<and> sound_plan limit existing p"
proof -
  from assms obtain existing where e: "normalize_points (dget plan ch (PList [])) = Inr existing"
    by (auto simp: plan_channel_def)
  note ne = normalize_points_shape [OF e]
  show ?thesis
  proof (cases "limit \<le> length existing")
    case True
    with assms e ne show ?thesis by (auto simp: plan_channel_def sound_plan_def)
  next
    case False
    with assms e obtain explicit where x: "normalize_points (dget sugg ch (PList [])) = Inr explicit"
      by (auto simp: plan_channel_def)
    let ?fresh = "filter (\<lambda>v. v \<notin> set existing) explicit"
    let ?cands = "if ?fresh = [] \<and> strategy \<in> set MIDPOINT_STRATEGIES then midpoint_candidates existing else ?fresh"
    obtain c s where cs: "choose_points (limit - length existing) [] existing ?cands = (c, s)" by fastforce
    then have p: "p = \<lparr>cp_channel = ch, cp_applied = c, cp_full = sort s\<rparr>"
      using assms e x False by (simp add: plan_channel_def Let_def)
    from choose_points_spec [OF cs] ne False have new: "s = existing @ c" "distinct s" "length c \<le> limit - length existing"
      by auto
    then show ?thesis using e False p by (auto simp: sound_plan_def)
  qed
qed

lemma first_channels_valid: "first_channels params ks = Inr cs \<Longrightarrow> set cs \<subseteq> set VALID_REFINEMENT_CHANNELS \<and> distinct cs"
  by (induction ks) (auto simp: normalize_channels_def split: if_splits)

lemma infer_channels_valid:
  assumes "infer_refinement_channels st params t = Inr cs"
  shows "set cs \<subseteq> set VALID_REFINEMENT_CHANNELS \<and> distinct cs \<and> cs \<noteq> []"
proof -
  have n: "normalize_channels v = Inr xs \<Longrightarrow> set xs \<subseteq> set VALID_REFINEMENT_CHANNELS \<and> distinct xs" for v xs
    by (auto simp: normalize_channels_def)
  have d: "distinct VALID_REFINEMENT_CHANNELS" "VALID_REFINEMENT_CHANNELS \<noteq> []"
    by (simp_all add: VALID_REFINEMENT_CHANNELS_def)
  have w: "set ws \<subseteq> set VALID_REFINEMENT_CHANNELS \<and> distinct ws" if "weak_channels fit pd th = Inr ws" for fit pd th ws
  proof -
    let ?f = "\<lambda>channel. bindR (get_dict pd channel) (\<lambda>payload. Inr (channel, flt_lt (channel_metric payload fit) th))"
    from that obtain xs where xs: "mapR ?f VALID_REFINEMENT_CHANNELS = Inr xs" "ws = map fst (filter snd xs)"
      by (auto simp: weak_channels_def)
    have "mapR ?f ks = Inr ys \<Longrightarrow> map fst ys = ks" for ks ys
      by (induction ks arbitrary: ys) auto
    with xs(1) have m: "map fst xs = VALID_REFINEMENT_CHANNELS" by blast
    have "set (map fst (filter snd xs)) \<subseteq> set (map fst xs)" by auto
    moreover have "distinct (map fst (filter snd xs))" using m d(1) by (metis distinct_map_filter)
    ultimately show ?thesis using m xs(2) by simp
  qed
  have "yields (\<lambda>cs. set cs \<subseteq> set VALID_REFINEMENT_CHANNELS \<and> distinct cs \<and> cs \<noteq> []) (infer_refinement_channels st params t)"
    unfolding infer_refinement_channels_def
    by (intro yields_bindR yields_if yields_Inr) (auto dest: first_channels_valid n w simp: d)
  from yieldsD [OF this assms] show ?thesis .
qed

lemma resolve_fields:
  assumes "resolve_refinement_sampling st params mx th = Inr p"
  obtains physics plan sugg strategy plans limit where
    "get_or_empty st ''physics_results'' = Inr physics" "get_dict physics ''strain_plan_by_direction'' = Inr plan"
    "infer_refinement_channels st params th = Inr (rp_target_channels p)"
    "limit = nat (max 0 (if mx = 0 then DEFAULT_REFINEMENT_TARGET_POINTS else mx))"
    "mapR (plan_channel plan sugg strategy limit) (rp_target_channels p) = Inr plans"
    "rp_applied_points p = map (\<lambda>p. (cp_channel p, cp_applied p)) (filter (\<lambda>p. cp_applied p \<noteq> []) plans)"
    "rp_full_plan_by_direction p = map (\<lambda>p. (cp_channel p, cp_full p)) plans"
  using assms by (auto simp: resolve_refinement_sampling_def Let_def)

lemma map_of_plans:
  "mapR (plan_channel plan sugg strategy limit) cs = Inr plans \<Longrightarrow> ch \<in> set cs \<Longrightarrow>
   \<exists>q. plan_channel plan sugg strategy limit ch = Inr q \<and> map_of (map (\<lambda>p. (cp_channel p, cp_full p)) plans) ch = Some (cp_full q)"
proof (induction cs arbitrary: plans)
  case (Cons c cs)
  then obtain q qs where q: "plan_channel plan sugg strategy limit c = Inr q"
    "mapR (plan_channel plan sugg strategy limit) cs = Inr qs" "plans = q # qs" by auto
  have "cp_channel q = c" using plan_channel_sound [OF q(1)] by blast
  then show ?case using Cons.IH [OF q(2)] Cons.prems(2) q by (cases "ch = c") auto
qed simp

definition state_plan :: "dict \<Rightarrow> dict res" where
  "state_plan st = bindR (get_or_empty st ''physics_results'') (\<lambda>ph. get_dict ph ''strain_plan_by_direction'')"

section \<open>Properties of refinement\<close>

text \<open>C21: A refinement plan is sound for every channel it targets: the channels are x or y without
  repetition, the full plan is sorted without duplicates, keeps every point the channel
  already had, adds only new ones, and has at most the allowed number of points (unless the
  channel had more to begin with).\<close>

theorem refinement_plan_sound:
  assumes "resolve_refinement_sampling st params mx th = Inr p" and "state_plan st = Inr plan"
  shows "set (rp_target_channels p) \<subseteq> set VALID_REFINEMENT_CHANNELS \<and> distinct (rp_target_channels p)
    \<and> (\<forall>ch\<in>set (rp_target_channels p). \<exists>existing full.
         normalize_points (dget plan ch (PList [])) = Inr existing
       \<and> map_of (rp_full_plan_by_direction p) ch = Some full
       \<and> sorted full \<and> distinct full \<and> set existing \<subseteq> set full
       \<and> length full \<le> max (nat (if mx = 0 then DEFAULT_REFINEMENT_TARGET_POINTS else mx)) (length existing))"
proof -
  from assms(1) obtain physics plan' sugg strategy plans limit where r:
    "get_or_empty st ''physics_results'' = Inr physics" "get_dict physics ''strain_plan_by_direction'' = Inr plan'"
    "infer_refinement_channels st params th = Inr (rp_target_channels p)"
    "limit = nat (max 0 (if mx = 0 then DEFAULT_REFINEMENT_TARGET_POINTS else mx))"
    "mapR (plan_channel plan' sugg strategy limit) (rp_target_channels p) = Inr plans"
    "rp_full_plan_by_direction p = map (\<lambda>p. (cp_channel p, cp_full p)) plans" by (rule resolve_fields)
  have plan: "plan' = plan" using assms(2) r(1,2) by (simp add: state_plan_def)
  have "\<exists>existing full. normalize_points (dget plan ch (PList [])) = Inr existing
       \<and> map_of (rp_full_plan_by_direction p) ch = Some full \<and> sorted full \<and> distinct full \<and> set existing \<subseteq> set full
       \<and> length full \<le> max limit (length existing)" if ch: "ch \<in> set (rp_target_channels p)" for ch
  proof -
    from map_of_plans [OF r(5) ch] obtain q where q: "plan_channel plan' sugg strategy limit ch = Inr q"
      "map_of (rp_full_plan_by_direction p) ch = Some (cp_full q)" unfolding r(6) by blast
    from plan_channel_sound [OF q(1)] q(2) plan show ?thesis by (auto simp: sound_plan_def)
  qed
  moreover have "limit = nat (if mx = 0 then DEFAULT_REFINEMENT_TARGET_POINTS else mx)"
    using r(4) by (simp add: DEFAULT_REFINEMENT_TARGET_POINTS_def)
  ultimately show ?thesis using infer_channels_valid [OF r(3)] by blast
qed

definition demo_state :: dict where
  "demo_state = [(''physics_results'', PDict [(''strain_plan_by_direction'',
     PDict [(''x'', PList [PFloat (Fin 0), PStr ''bad'', PFloat (Fin (-1/50)), PFloat (Fin (1/50))])])]),
     (''diagnostics'', PDict [(''fit_diagnostics'', PDict [(''fit_r2_min'', PFloat (Fin (1/2)))])]),
     (''workflow'', PDict [(''max_refinement_rounds'', PInt 1)])]"

theorem refinement_plan_sound_witness:
  "\<exists>p. resolve_refinement_sampling demo_state [(''target_channels'', PStr ''X''), (''refinement_strategy'', PStr ''midpoint'')] 4 (Fin (9/10)) = Inr p
     \<and> (\<exists>full. map_of (rp_full_plan_by_direction p) ''x'' = Some full \<and> sorted full \<and> length full \<le> 4)"
proof -
  let ?r = "resolve_refinement_sampling demo_state [(''target_channels'', PStr ''X''), (''refinement_strategy'', PStr ''midpoint'')] 4 (Fin (9/10))"
  let ?plan = "[(''x'', PList [PFloat (Fin 0), PStr ''bad'', PFloat (Fin (-1/50)), PFloat (Fin (1/50))])]"
  have "case ?r of Inl _ \<Rightarrow> False | Inr p \<Rightarrow> rp_target_channels p = [''x'']" by code_simp
  then obtain p where p: "?r = Inr p" "rp_target_channels p = [''x'']" by (auto split: sum.splits)
  have s: "state_plan demo_state = Inr ?plan" by code_simp
  have e: "normalize_points (dget ?plan ''x'' (PList [])) = Inr [Fin (-1/50), Fin 0, Fin (1/50)]" by code_simp
  from refinement_plan_sound [OF p(1) s] p(2) obtain existing full where f:
    "normalize_points (dget ?plan ''x'' (PList [])) = Inr existing" "map_of (rp_full_plan_by_direction p) ''x'' = Some full"
    "sorted full" "length full \<le> max (nat 4) (length existing)" by auto
  from f(1) e have "length existing = 3" by simp
  with f p(1) show ?thesis by auto
qed



end
