(* ===== verification/Validation.thy ===== *)
theory Validation
  imports Refinement
begin

text \<open>
  The physics validation of a result (mobility_agent/runtime/validation_policy.py): the review
  of each of the four subchannels, their summary, and the report with its decision and its
  recommended action.
\<close>

section \<open>Channel reviews\<close>

definition SEVERE_E1_FIT_R2_THRESHOLD :: flt where
  "SEVERE_E1_FIT_R2_THRESHOLD = Fin (20/100)"

definition SEVERE_MOBILITY_CM2_VS :: flt where
  "SEVERE_MOBILITY_CM2_VS = Fin 10000000"

definition SUSPICIOUS_MOBILITY_CM2_VS :: flt where
  "SUSPICIOUS_MOBILITY_CM2_VS = Fin 100000"

definition FLAT_E1_ABS_EV_THRESHOLD :: flt where
  "FLAT_E1_ABS_EV_THRESHOLD = Fin (5/100)"

definition REL_E1_SIGMA_REFINE_THRESHOLD :: flt where
  "REL_E1_SIGMA_REFINE_THRESHOLD = Fin (50/100)"

definition REL_C2D_SIGMA_REFINE_THRESHOLD :: flt where
  "REL_C2D_SIGMA_REFINE_THRESHOLD = Fin (20/100)"

definition safe_float :: "py \<Rightarrow> flt option" where
  "safe_float v = (if v = PNone then None else (case to_float v of Inl _ \<Rightarrow> None | Inr x \<Rightarrow> Some x))"

definition relative_sigma :: "flt option \<Rightarrow> flt option \<Rightarrow> flt option" where
  "relative_sigma sigma baseline =
     (case (sigma, baseline) of
        (Some s, Some b) \<Rightarrow> if flt_le (flt_abs b) (Fin (1 / 10 ^ 12)) then None else Some (flt_abs (flt_div s b))
      | _ \<Rightarrow> None)"

definition finite_value :: "flt option \<Rightarrow> bool" where
  "finite_value v = (case v of None \<Rightarrow> False | Some x \<Rightarrow> is_finite x)"

text \<open>\<open>float(v or d)\<close>: nothing and zero are read as \<open>d\<close>.\<close>

definition value_or :: "flt option \<Rightarrow> rat \<Rightarrow> flt" where
  "value_or v d = (case v of None \<Rightarrow> Fin d | Some x \<Rightarrow> if x = Fin 0 then Fin d else x)"

definition above :: "flt option \<Rightarrow> flt \<Rightarrow> bool" where
  "above v t = (case v of None \<Rightarrow> False | Some x \<Rightarrow> flt_lt t x)"

record channel_review =
  ch_channel :: string
  ch_direction :: string
  ch_carrier :: string
  ch_n_points :: int
  ch_mobility :: "flt option"
  ch_e1 :: "flt option"
  ch_e1_sigma :: "flt option"
  ch_e1_fit_r2 :: "flt option"
  ch_c2d :: "flt option"
  ch_c2d_sigma :: "flt option"
  ch_c2d_fit_r2 :: "flt option"
  ch_rel_e1_sigma :: "flt option"
  ch_rel_c2d_sigma :: "flt option"
  ch_mass_status :: string
  ch_mass_valid :: py
  ch_mass_rejection_reasons :: "py list"
  ch_mass_numbers :: "(string \<times> flt option) list"
  ch_mass_flags :: "(string \<times> py) list"
  ch_warning_reasons :: "string list"
  ch_status :: string
  ch_reason :: string

text \<open>The verdict on the numbers of a channel: status, reason and warning reasons.\<close>

definition channel_verdict :: "channel_review \<Rightarrow> flt \<Rightarrow> string \<times> string \<times> string list" where
  "channel_verdict r fit_threshold =
     (let mass_warning = (if ch_mass_valid r = PBool False \<or> ch_mass_status r = ''rejected''
                          then [''effective_mass_quality_warning''] else []);
          metrics_present = list_all finite_value
            [ch_mobility r, ch_e1 r, ch_e1_fit_r2 r, ch_c2d r, ch_c2d_fit_r2 r];
          mobility = value_or (ch_mobility r) 0;
          signed = (if flt_le mobility (Fin 0) then [''non_positive_signed_mobility''] else []);
          catastrophic_fit = flt_lt (value_or (ch_e1_fit_r2 r) 0) SEVERE_E1_FIT_R2_THRESHOLD;
          catastrophic_mobility = flt_le SEVERE_MOBILITY_CM2_VS (flt_abs mobility);
          flat_response = flt_lt (flt_abs (value_or (ch_e1 r) 0)) FLAT_E1_ABS_EV_THRESHOLD
            \<and> flt_le SUSPICIOUS_MOBILITY_CM2_VS (flt_abs mobility);
          warning_reasons = mass_warning @ signed
            @ (if catastrophic_fit then [''severe_e1_fit_quality_warning''] else [])
            @ (if flat_response then [''flat_deformation_potential_with_suspicious_mobility''] else []);
          needs_refinement = flt_lt (value_or (ch_e1_fit_r2 r) 1) fit_threshold
            \<or> flt_lt (value_or (ch_c2d_fit_r2 r) 1) fit_threshold
            \<or> above (ch_rel_e1_sigma r) REL_E1_SIGMA_REFINE_THRESHOLD
            \<or> above (ch_rel_c2d_sigma r) REL_C2D_SIGMA_REFINE_THRESHOLD
      in if \<not> metrics_present then (''rejected'', ''missing_or_non_physical_channel_metrics'', [])
         else if catastrophic_mobility then (''rejected'', ''extreme_unphysical_mobility'', [])
         else if needs_refinement then
           (''refine_candidate'', ''fit_quality_or_uncertainty_suggests_additional_sampling'', dedupe warning_reasons)
         else if warning_reasons \<noteq> [] then (''accepted_with_warning'', hd warning_reasons, dedupe warning_reasons)
         else (''accepted'', ''channel_within_validation_window'', []))"

definition channel_review :: "string \<Rightarrow> string \<Rightarrow> dict \<Rightarrow> dict \<Rightarrow> flt \<Rightarrow> channel_review res" where
  "channel_review direction carrier direction_data carrier_data fit_threshold =
     bindR (canonical_subchannel direction carrier) (\<lambda>token.
     bindR (get_int direction_data ''n_points'') (\<lambda>n_points.
     bindR (get_list carrier_data ''mass_rejection_reasons'') (\<lambda>mass_rejection_reasons.
     let num = (\<lambda>k. safe_float (dget0 carrier_data k));
         mobility = (case num ''mobility_cm2_Vs'' of None \<Rightarrow> num ''raw_mobility_cm2_Vs'' | Some x \<Rightarrow> Some x);
         review = \<lparr>ch_channel = token, ch_direction = direction, ch_carrier = carrier, ch_n_points = n_points,
           ch_mobility = mobility, ch_e1 = num ''E1_eV'', ch_e1_sigma = num ''E1_eV_sigma'',
           ch_e1_fit_r2 = num ''E1_fit_R2'', ch_c2d = num ''C2D_J_m2'', ch_c2d_sigma = num ''C2D_sigma_J_m2'',
           ch_c2d_fit_r2 = num ''C2D_fit_R2'',
           ch_rel_e1_sigma = relative_sigma (num ''E1_eV_sigma'') (num ''E1_eV''),
           ch_rel_c2d_sigma = relative_sigma (num ''C2D_sigma_J_m2'') (num ''C2D_J_m2''),
           ch_mass_status = py_strip (get_str carrier_data ''mass_status''),
           ch_mass_valid = dget0 carrier_data ''mass_valid_for_mobility'',
           ch_mass_rejection_reasons = mass_rejection_reasons,
           ch_mass_numbers = map (\<lambda>k. (k, num k)) [''mass_fit_R2'', ''mass_fixed_branch_energy_jump_max_eV'',
             ''mass_dynamic_edge_energy_jump_max_eV'', ''mass_fit_window_stability_rel''],
           ch_mass_flags = map (\<lambda>k. (k, dget0 carrier_data k)) [''mass_dynamic_band_switch'',
             ''mass_curvature_sign_ok'', ''mass_center_is_extremum''],
           ch_warning_reasons = [], ch_status = ''accepted'', ch_reason = ''channel_within_validation_window''\<rparr>;
         verdict = channel_verdict review fit_threshold
     in Inr (review\<lparr>ch_status := fst verdict, ch_reason := fst (snd verdict), ch_warning_reasons := snd (snd verdict)\<rparr>))))"

section \<open>Summary of the reviews\<close>

definition retained_status :: "string \<Rightarrow> bool" where
  "retained_status s \<longleftrightarrow> s \<in> {''accepted'', ''accepted_with_warning'', ''refine_candidate''}"

definition summarize_channel_reviews :: "channel_review list \<Rightarrow> string list \<times> string list \<times> string list" where
  "summarize_channel_reviews reviews =
     (dedupe (map (\<lambda>r. py_strip (ch_channel r)) (filter (\<lambda>r. retained_status (py_strip (ch_status r)) \<and> py_strip (ch_channel r) \<noteq> []) reviews)),
      dedupe (map (\<lambda>r. py_strip (ch_channel r)) (filter (\<lambda>r. py_strip (ch_status r) = ''rejected'' \<and> py_strip (ch_channel r) \<noteq> []) reviews)),
      dedupe (map (\<lambda>r. py_strip (ch_direction r)) (filter (\<lambda>r. py_strip (ch_status r) = ''refine_candidate'' \<and> py_strip (ch_direction r) \<noteq> []) reviews)))"

section \<open>The report\<close>

datatype preview = NotNeeded dict | Resolved refinement_plan

fun applied_points :: "preview \<Rightarrow> (string \<times> flt list) list" where
  "applied_points (NotNeeded _) = []"
| "applied_points (Resolved p) = rp_applied_points p"

record validation_report =
  vr_decision :: string
  vr_warnings :: "string list"
  vr_anomaly_flags :: "string list"
  vr_fit_metrics :: dict
  vr_channel_reviews :: "channel_review list"
  vr_retained_subchannels :: "string list"
  vr_rejected_subchannels :: "string list"
  vr_accepted_channels :: "string list"
  vr_rejected_channels :: "string list"
  vr_recommended_action :: string
  vr_refinement_targets :: "string list"
  vr_refinement_preview :: preview

definition review_all :: "dict \<Rightarrow> flt \<Rightarrow> channel_review list res" where
  "review_all results fit_threshold =
     bindR (mapR (\<lambda>direction.
         bindR (nested_dict results ''results_by_direction'' direction) (\<lambda>direction_data.
           mapR (\<lambda>carrier. bindR (get_dict direction_data carrier) (\<lambda>carrier_data.
                   channel_review direction carrier direction_data carrier_data fit_threshold)) VALID_CARRIERS))
       VALID_DIRECTIONS) (\<lambda>rss. Inr (concat rss))"

text \<open>A refinement that finds no new point: the candidates are accepted with a warning instead.\<close>

definition settle_review :: "string list \<Rightarrow> string \<Rightarrow> channel_review \<Rightarrow> channel_review" where
  "settle_review targeted unresolved_reason r =
     (if ch_status r \<noteq> ''refine_candidate'' \<or> ch_direction r \<notin> set targeted then r
      else r\<lparr>ch_status := ''accepted_with_warning'', ch_reason := unresolved_reason,
             ch_warning_reasons := dedupe (ch_warning_reasons r @ [unresolved_reason])\<rparr>)"

definition preview_refinement :: "dict \<Rightarrow> dict \<Rightarrow> string list \<Rightarrow> int \<Rightarrow> flt \<Rightarrow> preview res" where
  "preview_refinement state physics directions max_points fit_threshold =
     (if directions \<noteq> []
      then bindR (resolve_refinement_sampling state
                    [(''target_channels'', str_list directions), (''refinement_strategy'', PStr ''midpoint_enrichment'')]
                    max_points fit_threshold) (\<lambda>p. Inr (Resolved p))
      else bindR (get_dict physics ''strain_plan_by_direction'') (\<lambda>d. Inr (NotNeeded d)))"

definition settle_reviews ::
  "dict \<Rightarrow> string list \<Rightarrow> preview \<Rightarrow> string list \<Rightarrow> channel_review list \<Rightarrow> (string list \<times> channel_review list) res" where
  "settle_reviews state directions preview raw_warnings reviews =
     (if directions \<noteq> [] \<and> applied_points preview = []
      then bindR (get_dict state ''workflow'') (\<lambda>workflow.
           bindR (get_int workflow ''refinement_rounds'') (\<lambda>rounds.
           bindR (get_int workflow ''max_refinement_rounds'') (\<lambda>max_rounds.
             let unresolved_reason = (if max_rounds \<le> rounds then ''refinement_budget_exhausted'' else ''no_fresh_refinement_points'')
             in Inr (dedupe (raw_warnings @ [unresolved_reason, ''unresolved_refinement_targets:'' @ join '','' directions]),
                     map (settle_review directions unresolved_reason) reviews))))
      else Inr (raw_warnings, reviews))"

definition recommend :: "string list \<Rightarrow> string list \<Rightarrow> string list \<Rightarrow> preview \<Rightarrow> string" where
  "recommend retained rejected directions preview =
     (if retained = [] \<and> rejected \<noteq> [] then ''finalize''
      else if directions \<noteq> [] \<and> applied_points preview \<noteq> [] then ''refine_sampling'' else ''finalize'')"

definition decide :: "string list \<Rightarrow> string list \<Rightarrow> preview \<Rightarrow> string \<Rightarrow> string list \<Rightarrow> string list \<Rightarrow> string" where
  "decide retained rejected preview action anomaly_flags raw_warnings =
     (if retained = [] \<and> applied_points preview = [] then ''fail''
      else if action = ''refine_sampling'' \<or> rejected \<noteq> [] \<or> anomaly_flags \<noteq> []
              \<or> filter (\<lambda>w. w \<noteq> ''dry_run_mode'') raw_warnings \<noteq> [] then ''pass_with_warning''
      else ''pass'')"

definition finish_report ::
  "string list \<Rightarrow> channel_review list \<Rightarrow> preview \<Rightarrow> string list \<Rightarrow> dict \<Rightarrow> validation_report res" where
  "finish_report raw_warnings reviews preview anomaly_flags fit_metrics =
     (let summary = summarize_channel_reviews reviews;
          retained = fst summary; rejected = fst (snd summary); directions = snd (snd summary);
          action = recommend retained rejected directions preview
      in bindR (derive_direction_acceptance (str_list retained) (str_list rejected)) (\<lambda>acceptance.
           Inr \<lparr>vr_decision = decide retained rejected preview action anomaly_flags raw_warnings,
                vr_warnings = raw_warnings, vr_anomaly_flags = dedupe anomaly_flags,
                vr_fit_metrics = fit_metrics, vr_channel_reviews = reviews,
                vr_retained_subchannels = retained, vr_rejected_subchannels = rejected,
                vr_accepted_channels = fst acceptance, vr_rejected_channels = snd acceptance,
                vr_recommended_action = action, vr_refinement_targets = directions,
                vr_refinement_preview = preview\<rparr>))"

text \<open>\<open>failed_checks\<close> repeats the anomaly flags, \<open>reason\<close> is the constant
  \<open>physics_validation_review\<close> and \<open>all_subchannels\<close> is \<open>default_subchannels\<close>.\<close>

definition build_validation_report ::
  "dict \<Rightarrow> flt \<Rightarrow> int \<Rightarrow> string list \<Rightarrow> string list \<Rightarrow> validation_report res" where
  "build_validation_report state fit_threshold max_points anomaly_flags warnings =
     bindR (get_dict state ''physics_results'') (\<lambda>physics.
     bindR (get_dict state ''diagnostics'') (\<lambda>diagnostics.
     bindR (get_dict physics ''results'') (\<lambda>results.
     bindR (validate_physics_window results) (\<lambda>window.
     bindR (get_dict diagnostics ''fit_diagnostics'') (\<lambda>fit_diagnostics.
     bindR (review_all results fit_threshold) (\<lambda>reviews.
     let directions = snd (snd (summarize_channel_reviews reviews)) in
     bindR (preview_refinement state physics directions max_points fit_threshold) (\<lambda>preview.
     bindR (settle_reviews state directions preview (dedupe warnings) reviews) (\<lambda>settled.
       finish_report (fst settled) (snd settled) preview anomaly_flags (dmerge window fit_diagnostics)))))))))"

section \<open>Reviews\<close>

lemma status_texts:
  "py_strip ''accepted'' = ''accepted''" "py_strip ''rejected'' = ''rejected''"
  "py_strip ''accepted_with_warning'' = ''accepted_with_warning''" "py_strip ''refine_candidate'' = ''refine_candidate''"
  by code_simp+

definition good_status :: "string \<Rightarrow> bool" where
  "good_status s \<longleftrightarrow> (retained_status s \<or> s = ''rejected'') \<and> py_strip s = s"

lemma verdict_status: "good_status (fst (channel_verdict r t))"
  by (simp add: channel_verdict_def Let_def good_status_def retained_status_def status_texts)

text \<open>A review of one of the four subchannels, with a status of the program.\<close>

definition good_review :: "string \<Rightarrow> string \<Rightarrow> channel_review \<Rightarrow> bool" where
  "good_review d c r \<longleftrightarrow> ch_channel r = subchannel d c \<and> ch_direction r = d \<and> good_status (ch_status r)"

lemma channel_review_good:
  assumes "channel_review d c dd cd t = Inr r" "d \<in> set VALID_DIRECTIONS" "c \<in> set VALID_CARRIERS"
  shows "good_review d c r"
  using assms canonical_valid [OF assms(2,3)] verdict_status
  by (auto simp: channel_review_def Let_def good_review_def)

lemma review_all_good:
  assumes "review_all results t = Inr rs"
  obtains r1 r2 r3 r4 where "rs = [r1, r2, r3, r4]" "good_review ''x'' ''electron'' r1" "good_review ''x'' ''hole'' r2"
    "good_review ''y'' ''electron'' r3" "good_review ''y'' ''hole'' r4"
proof -
  have v: "''x'' \<in> set VALID_DIRECTIONS" "''y'' \<in> set VALID_DIRECTIONS"
    "''electron'' \<in> set VALID_CARRIERS" "''hole'' \<in> set VALID_CARRIERS" by code_simp+
  have d: "VALID_DIRECTIONS = [''x'', ''y'']" "VALID_CARRIERS = [''electron'', ''hole'']"
    by (simp_all add: VALID_DIRECTIONS_def VALID_CARRIERS_def)
  from assms that show thesis
    unfolding review_all_def d
    by (auto dest!: channel_review_good [OF _ v(1) v(3)] channel_review_good [OF _ v(1) v(4)]
        channel_review_good [OF _ v(2) v(3)] channel_review_good [OF _ v(2) v(4)])
qed

section \<open>What the summary says\<close>

text \<open>A list of reviews, one for each of the four subchannels.\<close>

definition full_reviews :: "channel_review list \<Rightarrow> bool" where
  "full_reviews rs \<longleftrightarrow> distinct (map ch_channel rs) \<and> set (map ch_channel rs) = set all_subchannels
     \<and> list_all (\<lambda>r. good_status (ch_status r)) rs"

lemma strip_subchannel: "t \<in> set all_subchannels \<Longrightarrow> py_strip t = t \<and> t \<noteq> []"
proof -
  have "\<forall>t\<in>set all_subchannels. py_strip t = t \<and> t \<noteq> []" by code_simp
  then show "t \<in> set all_subchannels \<Longrightarrow> py_strip t = t \<and> t \<noteq> []" by blast
qed

lemma review_all_full: "review_all results t = Inr rs \<Longrightarrow> full_reviews rs"
proof -
  assume "review_all results t = Inr rs"
  then obtain r1 r2 r3 r4 where r: "rs = [r1, r2, r3, r4]" "good_review ''x'' ''electron'' r1" "good_review ''x'' ''hole'' r2"
    "good_review ''y'' ''electron'' r3" "good_review ''y'' ''hole'' r4" by (rule review_all_good)
  then have "map ch_channel rs = all_subchannels"
    by (simp add: good_review_def subchannel_def all_subchannels_def)
  then show ?thesis using r by (simp add: full_reviews_def all_subchannels_distinct good_review_def)
qed

lemma settle_fields:
  "ch_channel (settle_review ds u r) = ch_channel r"
  "good_status (ch_status r) \<Longrightarrow> good_status (ch_status (settle_review ds u r))"
  "retained_status (ch_status (settle_review ds u r)) = retained_status (ch_status r)"
  by (simp_all add: settle_review_def good_status_def retained_status_def status_texts)

lemma full_settle: "full_reviews rs \<Longrightarrow> full_reviews (map (settle_review ds u) rs)"
proof -
  have "map ch_channel (map (settle_review ds u) rs) = map ch_channel rs" by (simp add: settle_fields)
  then show "full_reviews rs \<Longrightarrow> ?thesis"
    unfolding full_reviews_def by (simp only: list_all_iff) (auto simp: settle_fields(2))
qed

lemma summary_sets:
  assumes "full_reviews rs"
  shows "set (fst (summarize_channel_reviews rs)) = ch_channel ` {r \<in> set rs. retained_status (ch_status r)}"
    and "set (fst (snd (summarize_channel_reviews rs))) = ch_channel ` {r \<in> set rs. ch_status r = ''rejected''}"
    and "set (snd (snd (summarize_channel_reviews rs))) \<subseteq> py_strip ` ch_direction ` {r \<in> set rs. ch_status r = ''refine_candidate''}"
proof -
  have ch: "py_strip (ch_channel r) = ch_channel r \<and> ch_channel r \<noteq> []" if "r \<in> set rs" for r
    using assms strip_subchannel that by (auto simp: full_reviews_def)
  have st: "py_strip (ch_status r) = ch_status r" if "r \<in> set rs" for r
    using assms that by (auto simp: full_reviews_def list_all_iff good_status_def)
  have im: "(\<lambda>r. py_strip (ch_channel r)) ` {r \<in> set rs. P (py_strip (ch_status r)) \<and> py_strip (ch_channel r) \<noteq> []}
      = ch_channel ` {r \<in> set rs. P (ch_status r)}" for P
    using ch st by (intro image_cong) auto
  show "set (fst (summarize_channel_reviews rs)) = ch_channel ` {r \<in> set rs. retained_status (ch_status r)}"
    using im [of retained_status] by (simp add: summarize_channel_reviews_def)
  show "set (fst (snd (summarize_channel_reviews rs))) = ch_channel ` {r \<in> set rs. ch_status r = ''rejected''}"
    using im [of "\<lambda>s. s = ''rejected''"] by (simp add: summarize_channel_reviews_def)
  show "set (snd (snd (summarize_channel_reviews rs))) \<subseteq> py_strip ` ch_direction ` {r \<in> set rs. ch_status r = ''refine_candidate''}"
    using st by (auto simp: summarize_channel_reviews_def)
qed

lemma summary_spec:
  assumes f: "full_reviews rs"
  defines "ret \<equiv> fst (summarize_channel_reviews rs)" and "rej \<equiv> fst (snd (summarize_channel_reviews rs))"
    and "dirs \<equiv> snd (snd (summarize_channel_reviews rs))"
  shows "set ret \<union> set rej = set all_subchannels" "set ret \<inter> set rej = {}" "ret = [] \<Longrightarrow> dirs = []"
proof -
  note S = summary_sets [OF f, folded ret_def rej_def dirs_def]
  have st: "retained_status (ch_status r) \<or> ch_status r = ''rejected''" if "r \<in> set rs" for r
    using f that by (auto simp: full_reviews_def list_all_iff good_status_def)
  have inj: "inj_on ch_channel (set rs)" and all: "ch_channel ` set rs = set all_subchannels"
    using f by (auto simp: full_reviews_def distinct_map)
  have nr: "\<not> retained_status ''rejected''" and rc: "retained_status ''refine_candidate''" by (simp_all add: retained_status_def)
  show "set ret \<union> set rej = set all_subchannels" unfolding S(1,2) all [symmetric] using st by blast
  show "set ret \<inter> set rej = {}"
  proof (rule ccontr)
    assume "set ret \<inter> set rej \<noteq> {}"
    then obtain r r' where "r \<in> set rs" "r' \<in> set rs" "ch_channel r = ch_channel r'"
      "retained_status (ch_status r)" "ch_status r' = ''rejected''" unfolding S(1,2) by blast
    with inj nr show False by (metis inj_onD)
  qed
  show "dirs = []" if "ret = []"
  proof -
    have "{r \<in> set rs. ch_status r = ''refine_candidate''} = {}"
    proof -
      have "{r \<in> set rs. retained_status (ch_status r)} = {}" using S(1) that by simp
      then show ?thesis using rc by auto
    qed
    with S(3) have "set dirs \<subseteq> {}" by (simp only: image_empty)
    then show ?thesis by simp
  qed
qed

lemma settle_reviews_cases:
  "settle_reviews st dirs pv raw rs = Inr s \<Longrightarrow> snd s = rs \<or> (\<exists>u. snd s = map (settle_review dirs u) rs)"
  by (auto simp: settle_reviews_def Let_def split: if_splits)

lemma preview_none: "preview_refinement st ph [] mx t = Inr pv \<Longrightarrow> applied_points pv = []"
  by (auto simp: preview_refinement_def)

lemma settled_retained:
  assumes "full_reviews rs" "settle_reviews st dirs pv raw rs = Inr s"
  shows "full_reviews (snd s)"
    and "set (fst (summarize_channel_reviews (snd s))) = set (fst (summarize_channel_reviews rs))"
proof -
  show f: "full_reviews (snd s)" using settle_reviews_cases [OF assms(2)] assms(1) full_settle by metis
  have "ch_channel ` {r \<in> set (map (settle_review dirs u) rs). retained_status (ch_status r)}
      = ch_channel ` {r \<in> set rs. retained_status (ch_status r)}" for u
  proof -
    have "{r \<in> set (map (settle_review dirs u) rs). retained_status (ch_status r)}
        = settle_review dirs u ` {r \<in> set rs. retained_status (ch_status r)}" by (auto simp: settle_fields)
    then show ?thesis by (simp add: image_image settle_fields)
  qed
  then show "set (fst (summarize_channel_reviews (snd s))) = set (fst (summarize_channel_reviews rs))"
    unfolding summary_sets(1) [OF f] summary_sets(1) [OF assms(1)]
    using settle_reviews_cases [OF assms(2)] by metis
qed

lemma finish_report_fields:
  "finish_report raw rs pv flags fm = Inr rep \<Longrightarrow>
   (let s = summarize_channel_reviews rs in
     vr_retained_subchannels rep = fst s \<and> vr_rejected_subchannels rep = fst (snd s)
   \<and> vr_refinement_preview rep = pv \<and> vr_warnings rep = raw
   \<and> vr_recommended_action rep = recommend (fst s) (fst (snd s)) (snd (snd s)) pv
   \<and> vr_decision rep = decide (fst s) (fst (snd s)) pv (vr_recommended_action rep) flags raw)"
  by (auto simp: finish_report_def Let_def)

section \<open>Properties of validation\<close>

text \<open>A fit of the elastic modulus whose coefficient of determination is exactly zero is judged as
  a perfect fit: the status, the reason and the warnings of the channel are those it would
  have with the coefficient one, whatever the other numbers are.\<close>

theorem zero_fit_quality_reads_as_perfect:
  "channel_verdict (r\<lparr>ch_c2d_fit_r2 := Some (Fin 0)\<rparr>) t = channel_verdict (r\<lparr>ch_c2d_fit_r2 := Some (Fin 1)\<rparr>) t"
  by (simp add: channel_verdict_def value_or_def finite_value_def)

text \<open>C20: The report decides soundly: every subchannel is either retained or rejected and none is
  both; the decision is fail exactly when nothing is retained, it is pass only when all four
  subchannels are retained, no anomaly is flagged and no warning but the dry-run mode is
  left, and a refinement is recommended only when there are new points to sample.\<close>

theorem validation_report_sound:
  assumes "build_validation_report st t mx flags ws = Inr rep"
  shows "set (vr_retained_subchannels rep) \<union> set (vr_rejected_subchannels rep) = set all_subchannels
    \<and> set (vr_retained_subchannels rep) \<inter> set (vr_rejected_subchannels rep) = {}
    \<and> (vr_decision rep = ''fail'' \<longleftrightarrow> vr_retained_subchannels rep = [])
    \<and> (vr_decision rep = ''pass'' \<longrightarrow> set (vr_retained_subchannels rep) = set all_subchannels \<and> flags = []
         \<and> set (vr_warnings rep) \<subseteq> {''dry_run_mode''} \<and> vr_recommended_action rep = ''finalize'')
    \<and> (vr_recommended_action rep = ''refine_sampling'' \<longrightarrow> applied_points (vr_refinement_preview rep) \<noteq> [])"
proof -
  from assms obtain results ph rs pv s fm where rs: "review_all results t = Inr rs"
    and pv: "preview_refinement st ph (snd (snd (summarize_channel_reviews rs))) mx t = Inr pv"
    and s: "settle_reviews st (snd (snd (summarize_channel_reviews rs))) pv (dedupe ws) rs = Inr s"
    and rep: "finish_report (fst s) (snd s) pv flags fm = Inr rep"
    by (auto simp: build_validation_report_def Let_def)
  note f0 = review_all_full [OF rs]
  note f1 = settled_retained(1) [OF f0 s]
  let ?z = "summarize_channel_reviews (snd s)"
  note S1 = summary_spec [OF f1]
  note R = finish_report_fields [OF rep, unfolded Let_def]
  have none: "applied_points pv = []" if "fst ?z = []"
  proof -
    have "fst (summarize_channel_reviews rs) = []" using settled_retained(2) [OF f0 s] that by simp
    with summary_spec(3) [OF f0] pv preview_none show ?thesis by metis
  qed
  have fp: "vr_decision rep = ''fail'' \<longleftrightarrow> fst ?z = []"
    using none R by (auto simp: decide_def split: if_splits)
  have pass: "fst (snd ?z) = [] \<and> flags = [] \<and> set (fst s) \<subseteq> {''dry_run_mode''} \<and> vr_recommended_action rep = ''finalize''"
    if "vr_decision rep = ''pass''"
    using that R by (auto simp: decide_def recommend_def filter_empty_conv split: if_splits)
  have rec: "applied_points pv \<noteq> []" if "vr_recommended_action rep = ''refine_sampling''"
    using that R by (auto simp: recommend_def split: if_splits)
  have r: "vr_retained_subchannels rep = fst ?z" "vr_rejected_subchannels rep = fst (snd ?z)"
    "vr_refinement_preview rep = pv" "vr_warnings rep = fst s" using R by blast+
  have all: "set (fst ?z) = set all_subchannels" if "vr_decision rep = ''pass''"
    using S1(1) pass [OF that] by simp
  show ?thesis
    unfolding r using S1(1,2) fp pass rec all by (intro conjI impI; blast)
qed


definition demo_carrier :: py where
  "demo_carrier = PDict [(''mobility_cm2_Vs'', PInt 200), (''E1_eV'', PInt 3), (''E1_fit_R2'', PInt 1),
     (''C2D_J_m2'', PInt 100), (''C2D_fit_R2'', PInt 1)]"

definition demo_results :: dict where
  "demo_results = [(''physics_results'', PDict [(''results'', PDict [(''results_by_direction'', PDict
     [(''x'', PDict [(''electron'', demo_carrier)])])])])]"

theorem validation_report_sound_witness:
  "\<exists>rep. build_validation_report demo_results (Fin (9/10)) 9 [] [] = Inr rep
     \<and> vr_decision rep = ''pass_with_warning'' \<and> vr_rejected_subchannels rep = [''hole_x'', ''electron_y'', ''hole_y'']
     \<and> set (vr_retained_subchannels rep) \<union> set (vr_rejected_subchannels rep) = set all_subchannels"
proof -
  let ?r = "build_validation_report demo_results (Fin (9/10)) 9 [] []"
  have "case ?r of Inl _ \<Rightarrow> False
      | Inr rep \<Rightarrow> vr_decision rep = ''pass_with_warning'' \<and> vr_rejected_subchannels rep = [''hole_x'', ''electron_y'', ''hole_y'']" by code_simp
  then obtain rep where rep: "?r = Inr rep" "vr_decision rep = ''pass_with_warning''" "vr_rejected_subchannels rep = [''hole_x'', ''electron_y'', ''hole_y'']"
    by (auto split: sum.splits)
  from validation_report_sound [OF rep(1)] rep show ?thesis by blast
qed

end
