(* ===== verification/State_Reads.thy ===== *)
theory State_Reads
  imports Task_Board
begin

text \<open>
  Reading and writing the fields of a loaded state.

  The runtime components read a state through \<open>dict((state.get(s, {}) or {}).get(k, {}) or {})\<close>
  and its relatives. On a state that went through \<open>MaterialTaskState\<close> these reads cannot raise,
  and \<open>fld_dict\<close>, \<open>fld_list\<close>, \<open>fld_text\<close> and \<open>fld_int\<close> are their values: \<open>read_dict\<close>, \<open>read_list\<close>
  and \<open>read_int\<close> prove it for the field table of \<open>State_Model\<close>. The task board of a state is the
  record of \<open>Task_Board\<close> (\<open>board_of\<close>, \<open>put_board\<close>).
\<close>

section \<open>Reads\<close>

definition fld_dict :: "dict \<Rightarrow> string \<Rightarrow> string \<Rightarrow> dict" where
  "fld_dict st s k = entries (fld st s k)"

definition fld_list :: "dict \<Rightarrow> string \<Rightarrow> string \<Rightarrow> py list" where
  "fld_list st s k = items (fld st s k)"

definition fld_text :: "dict \<Rightarrow> string \<Rightarrow> string \<Rightarrow> string" where
  "fld_text st s k = get_str (sec st s) k"

definition int_or0 :: "py \<Rightarrow> int" where
  "int_or0 v = try_except (to_int (py_or v (PInt 0))) 0"

definition fld_int :: "dict \<Rightarrow> string \<Rightarrow> string \<Rightarrow> int" where
  "fld_int st s k = int_or0 (fld st s k)"

text \<open>\<open>dict(d.get(k, {}) or {})\<close> inside a free-form dict, where anything but an object reads as empty.\<close>

definition sub_dict :: "dict \<Rightarrow> string \<Rightarrow> dict" where
  "sub_dict d k = entries (dget0 d k)"

definition sub_list :: "dict \<Rightarrow> string \<Rightarrow> py list" where
  "sub_list d k = items (dget0 d k)"

definition objects_in :: "py list \<Rightarrow> dict list" where
  "objects_in xs = map entries (filter is_dict xs)"

definition texts_in :: "py list \<Rightarrow> string list" where
  "texts_in xs = map py_str xs"

text \<open>An entry of a list that is there when a condition holds.\<close>

definition on :: "bool \<Rightarrow> 'a \<Rightarrow> 'a list" where
  "on c x = (if c then [x] else [])"

lemma on_eq_Nil [simp]: "on c x = [] \<longleftrightarrow> \<not> c"
  by (simp add: on_def)

lemma on_simps [simp]: "on True x = [x]" "on False x = []"
  by (simp_all add: on_def)

lemma set_on [simp]: "set (on c x) = (if c then {x} else {})"
  by (cases c) simp_all

section \<open>The task board of a state\<close>

definition board_of :: "dict \<Rightarrow> TaskBoard" where
  "board_of st =
     (let tasks_at = (\<lambda>k. objects_in (fld_list st ''task_board'' k))
      in \<lparr>pending_tasks = tasks_at ''pending_tasks'', active_tasks = tasks_at ''active_tasks'',
          completed_tasks = tasks_at ''completed_tasks'', blocked_tasks = tasks_at ''blocked_tasks'',
          abandoned_tasks = tasks_at ''abandoned_tasks''\<rparr>)"

definition dump_board :: "TaskBoard \<Rightarrow> dict" where
  "dump_board b =
     [(''pending_tasks'', PList (map PDict (pending_tasks b))), (''active_tasks'', PList (map PDict (active_tasks b))),
      (''completed_tasks'', PList (map PDict (completed_tasks b))), (''blocked_tasks'', PList (map PDict (blocked_tasks b))),
      (''abandoned_tasks'', PList (map PDict (abandoned_tasks b)))]"

definition put_board :: "TaskBoard \<Rightarrow> dict \<Rightarrow> dict" where
  "put_board b st = dset st ''task_board'' (PDict (dump_board b))"

lemma objects_in_dicts [simp]: "objects_in (map PDict ds) = ds"
proof -
  have "filter is_dict (map PDict ds) = map PDict ds" by (simp add: is_dict_def)
  then show ?thesis by (simp add: objects_in_def entries_def comp_def)
qed

lemma board_of_put [simp]: "board_of (put_board b st) = b"
proof -
  have "fld_list (put_board b st) ''task_board'' k = items (dget0 (dump_board b) k)" for k
    by (simp add: fld_list_def put_board_def fld_def sec_def)
  then show ?thesis
    by (simp add: board_of_def dump_board_def dget0_def dget_def items_def)
qed

section \<open>On a loaded state the reads do not raise\<close>

lemma loaded_section:
  assumes "well_typed e st" "map_of (MaterialTaskState e) s = Some fs"
  shows "get_or_empty st s = Inr (sec st s)" and "typed fs (sec st s)"
proof -
  from section_map_of [OF assms(1) [unfolded well_typed_def] assms(2)] obtain d where
    d: "map_of st s = Some (PDict d)" "typed fs d" by blast
  then show "get_or_empty st s = Inr (sec st s)" "typed fs (sec st s)"
    by (simp_all add: get_or_empty_def sec_def dget_def dget0_def py_or_def)
qed

lemma dget_present: "map_of d k = Some v \<Longrightarrow> dget d k w = v" "map_of d k = Some v \<Longrightarrow> dget0 d k = v"
  by (simp_all add: dget_def dget0_def)

lemma loaded_field:
  assumes "well_typed e st" "ftype_of e s k = Some t"
  shows "dget (sec st s) k w = fld st s k" and "of_type t (fld st s k)"
proof -
  from assms(2) obtain fs dflt where f: "map_of (MaterialTaskState e) s = Some fs" "map_of fs k = Some (t, dflt)"
    by (auto simp: ftype_of_Some)
  from typed_map_of [OF loaded_section(2) [OF assms(1) f(1)] f(2)] obtain v where "map_of (sec st s) k = Some v" by blast
  then show "dget (sec st s) k w = fld st s k" by (simp add: fld_def dget_present)
  from fld_typed(1) [OF assms] show "of_type t (fld st s k)" .
qed

lemma read_dict:
  assumes "well_typed e st" "ftype_of e s k = Some t" "t \<in> {TDict, TDictStr, TDictInt, TDictFloats}"
  shows "get_dict (sec st s) k = Inr (fld_dict st s k)"
proof -
  from loaded_field [OF assms(1,2)] assms(3) obtain d where "fld st s k = PDict d"
    by (auto simp: dict_of_def split: py.splits)
  with loaded_field(1) [OF assms(1,2)] show ?thesis by (simp add: get_dict_def fld_dict_def entries_def)
qed

lemma read_list:
  assumes "well_typed e st" "ftype_of e s k = Some t" "t \<in> {TListStr, TListDict, TListFloat, TListFloats}"
  shows "get_list (sec st s) k = Inr (fld_list st s k)"
proof -
  from loaded_field [OF assms(1,2)] assms(3) obtain xs where "fld st s k = PList xs"
    by (auto simp: list_of_def split: py.splits)
  with loaded_field(1) [OF assms(1,2)] show ?thesis by (simp add: get_list_def fld_list_def items_def)
qed

lemma read_int:
  assumes "well_typed e st" "ftype_of e s k = Some t" "t \<in> {TInt, TOptInt}"
  shows "get_int (sec st s) k = Inr (fld_int st s k)"
proof -
  from loaded_field [OF assms(1,2)] assms(3) consider i where "fld st s k = PInt i" | "fld st s k = PNone"
    by (auto simp: is_int_def split: py.splits)
  then show ?thesis
    by cases (simp_all add: get_int_def fld_int_def int_or0_def loaded_field(1) [OF assms(1,2)])
qed

section \<open>Numbers\<close>

fun flt_mul :: "flt \<Rightarrow> flt \<Rightarrow> flt" where
  "flt_mul (Fin a) (Fin b) = Fin (a * b)"
| "flt_mul a b =
     (if a = NaN \<or> b = NaN \<or> a = Fin 0 \<or> b = Fin 0 then NaN
      else if flt_lt a (Fin 0) \<longleftrightarrow> flt_lt b (Fin 0) then PosInf else NegInf)"

text \<open>\<open>f"{x:.3f}"\<close>, the decimal nearest to the rational.\<close>

definition fixed3_pos :: "rat \<Rightarrow> string" where
  "fixed3_pos q =
     (let x = 1000 * q; n = \<lfloor>x\<rfloor>; r = x - of_int n;
          m = nat (if r > 1 / 2 \<or> (r = 1 / 2 \<and> odd n) then n + 1 else n);
          frac = nat_digits (m mod 1000)
      in nat_digits (m div 1000) @ ''.'' @ replicate (3 - length frac) (CHR ''0'') @ frac)"

fun fixed3 :: "flt \<Rightarrow> string" where
  "fixed3 (Fin q) = (if q < 0 then ''-'' @ fixed3_pos (- q) else fixed3_pos q)"
| "fixed3 PosInf = ''inf''"
| "fixed3 NegInf = ''-inf''"
| "fixed3 NaN = ''nan''"

end
