(* ===== verification/Messages.thy ===== *)
theory Messages
  imports State_Reads
begin

text \<open>
  The messages of the agent council (mobility_agent/agents/schemas.py) and their reading from what a
  language model returns.

  A model class is a \<open>schema\<close>: its required fields, its fields with types and defaults in the order
  of the class (the fields of \<open>AgentMessage\<close> first), and what its validators do after the types were
  checked. \<open>construct\<close> is the constructor: pydantic's coercion of one value is the parameter \<open>coerce\<close> (see
  \<open>validator\<close> in \<open>State_Model\<close>), a missing field or a value outside a \<open>Literal\<close> raises. A message is
  the dict that \<open>model_dump(mode="json")\<close> returns.

  Each class that reads the output of a language model first repairs it (its validator of mode
  "before"); these are the functions \<open>coerce_proposal\<close>, \<open>coerce_selected_action\<close>,
  \<open>coerce_review_bundle\<close> and so on, for output that is JSON. Recovering JSON or fields from free text
  (\<open>_extract_json_payload_from_text\<close> and the functions named \<open>..._from_text\<close>) is not modelled.
\<close>

section \<open>Schemas\<close>

record schema =
  required :: "string list"
  members :: fields
  after :: "dict \<Rightarrow> dict"

definition construct :: "coercion \<Rightarrow> schema \<Rightarrow> dict \<Rightarrow> dict res" where
  "construct coerce sc d =
     (if list_ex (\<lambda>k. map_of d k = None) (required sc) then Inl (ValidationError ''missing'')
      else bindR (validate_fields coerce (members sc) d) (\<lambda>v. Inr (after sc v)))"

text \<open>\<open>self.k = str(self.k or "").strip()\<close> and
  \<open>self.k = [str(item) for item in dedupe_keep_order(self.k or [])]\<close>. Copies such as
  \<open>dict(self.k or {})\<close> and \<open>bool(self.k)\<close> change nothing on a value of the declared type.\<close>

definition strip_text :: "string \<Rightarrow> dict \<Rightarrow> dict" where
  "strip_text k d = dset d k (PStr (py_strip (get_str d k)))"

definition dedupe_texts :: "string \<Rightarrow> dict \<Rightarrow> dict" where
  "dedupe_texts k d = dset d k (PList (map (PStr \<circ> py_str) (py_dedupe (items (dget0 d k)))))"

definition ActionFamily :: "string list" where
  "ActionFamily =
     [''run_capability'', ''retry_capability'', ''rerun_from_capability'', ''repair_execution_context'',
      ''refine_sampling'', ''revalidate_result'', ''invalidate_channel'', ''skip_channel'', ''escalate_human'',
      ''finalize_material'', ''abort_material'']"

section \<open>The base of a message\<close>

definition AgentMessage :: "env \<Rightarrow> py \<Rightarrow> string list \<Rightarrow> fields" where
  "AgentMessage e name kinds =
     [(''agent_name'', TStr, name),
      (''message_type'', TLit kinds, PStr (hd kinds)),
      (''round_id'', TInt, PInt 0),
      (''target_task_id'', TStr, PStr []),
      (''content'', TDict, PDict []),
      (''evidence_refs'', TListStr, PList []),
      (''confidence'', TFloat, PFloat (Fin (1 / 2))),
      (''priority'', TInt, PInt 0),
      (''cost_estimate'', TFloat, PFloat (Fin 0)),
      (''risk_estimate'', TFloat, PFloat (Fin 0)),
      (''timestamp'', TStr, PStr (now e))]"

definition normalize_message :: "dict \<Rightarrow> dict" where
  "normalize_message d = dedupe_texts ''evidence_refs'' (strip_text ''target_task_id'' (strip_text ''agent_name'' d))"

definition message :: "env \<Rightarrow> py \<Rightarrow> string list \<Rightarrow> string list \<Rightarrow> fields \<Rightarrow> (dict \<Rightarrow> dict) \<Rightarrow> schema" where
  "message e name kinds needed own f =
     \<lparr>required = needed, members = AgentMessage e name kinds @ own, after = f \<circ> normalize_message\<rparr>"

section \<open>The messages of the deliberation\<close>

definition Proposal :: "env \<Rightarrow> schema" where
  "Proposal e = message e (PStr []) [''proposal''] []
     [(''proposal_id'', TStr, PStr []),
      (''action_family'', TLit ActionFamily, PStr ''run_capability''),
      (''target_capability'', TOptStr, PNone),
      (''selected_skill'', TOptStr, PNone),
      (''parameters'', TDict, PDict []),
      (''expected_benefit'', TStr, PStr []),
      (''expected_risk'', TStr, PStr []),
      (''rationale'', TStr, PStr []),
      (''expected_observation'', TStr, PStr []),
      (''success_criteria'', TListStr, PList []),
      (''fallback_if_failed'', TListStr, PList []),
      (''submit_external_job'', TBool, PBool False),
      (''wait_for_event_after_submission'', TBool, PBool False)]
     (dedupe_texts ''fallback_if_failed'' \<circ> dedupe_texts ''success_criteria'' \<circ> strip_text ''expected_observation''
        \<circ> strip_text ''rationale'' \<circ> strip_text ''expected_risk'' \<circ> strip_text ''expected_benefit'')"

definition settle_stance :: "dict \<Rightarrow> dict" where
  "settle_stance d =
     (let kind = get_str d ''message_type'' in if kind \<in> {''support'', ''objection''} then dset d ''stance'' (PStr kind) else d)"

definition Critique :: "env \<Rightarrow> schema" where
  "Critique e = message e (PStr []) [''critique'', ''support'', ''objection''] []
     [(''proposal_id'', TStr, PStr []),
      (''stance'', TLit [''support'', ''objection'', ''critique''], PStr ''critique''),
      (''concerns'', TListStr, PList []),
      (''recommendation'', TStr, PStr [])]
     (settle_stance \<circ> strip_text ''recommendation'' \<circ> dedupe_texts ''concerns'')"

definition Preference :: "env \<Rightarrow> schema" where
  "Preference e = message e (PStr []) [''preference''] []
     [(''preferred_proposal_id'', TStr, PStr []),
      (''preference_strength'', TFloat, PFloat (Fin (1 / 2))),
      (''reason'', TStr, PStr [])]
     (strip_text ''reason'')"

definition SelectedAction :: schema where
  "SelectedAction =
     \<lparr>required = [''action_family''],
      members =
        [(''action_family'', TLit ActionFamily, PStr ''run_capability''),
         (''target_capability'', TOptStr, PNone),
         (''selected_skill'', TOptStr, PNone),
         (''parameters'', TDict, PDict []),
         (''source_proposal_id'', TOptStr, PNone),
         (''rationale'', TStr, PStr []),
         (''cost_class'', TStr, PStr ''medium''),
         (''risk_class'', TStr, PStr ''medium''),
         (''expected_observation'', TStr, PStr []),
         (''success_criteria'', TListStr, PList []),
         (''fallback_if_failed'', TListStr, PList []),
         (''submit_external_job'', TBool, PBool False),
         (''wait_for_event_after_submission'', TBool, PBool False),
         (''supporting_agent_opinions'', TListStr, PList [])],
      after = dedupe_texts ''supporting_agent_opinions'' \<circ> dedupe_texts ''fallback_if_failed''
        \<circ> dedupe_texts ''success_criteria'' \<circ> strip_text ''expected_observation'' \<circ> strip_text ''rationale''\<rparr>"

section \<open>The messages of the executor\<close>

definition ExecutionCommand :: "env \<Rightarrow> schema" where
  "ExecutionCommand e = message e (PStr []) [''execution_command''] [''agent_name'', ''action_family'']
     [(''action_family'', TLit ActionFamily, PStr ''run_capability''),
      (''target_capability'', TOptStr, PNone),
      (''parameters'', TDict, PDict []),
      (''expected_artifacts'', TListStr, PList []),
      (''dependency_snapshot'', TDict, PDict []),
      (''submit_external_job'', TBool, PBool False),
      (''wait_for_event_after_submission'', TBool, PBool False)]
     (dedupe_texts ''expected_artifacts'')"

definition drop_blank_paths :: "dict \<Rightarrow> dict" where
  "drop_blank_paths d = dset d ''artifact_paths'' (PDict (filter (truthy \<circ> snd) (entries (dget0 d ''artifact_paths''))))"

definition ExecutionObservation :: "env \<Rightarrow> schema" where
  "ExecutionObservation e = message e (PStr []) [''execution_observation''] [''agent_name'', ''action_family'']
     [(''action_family'', TLit ActionFamily, PStr ''run_capability''),
      (''target_capability'', TOptStr, PNone),
      (''status'', TLit [''success'', ''failed'', ''skipped'', ''completed'', ''running''], PStr ''success''),
      (''error_summary'', TOptStr, PNone),
      (''artifact_paths'', TDictStr, PDict []),
      (''result_summary'', TDict, PDict []),
      (''raw_evidence'', TDict, PDict [])]
     drop_blank_paths"

definition ReflectionRecord :: "env \<Rightarrow> schema" where
  "ReflectionRecord e = message e (PStr []) [''reflection''] [''agent_name'']
     [(''selected_action'', TDict, PDict []),
      (''tradeoff_summary'', TListStr, PList []),
      (''failure_pattern'', TOptStr, PNone),
      (''follow_up_tasks'', TListDict, PList []),
      (''continue_deliberation'', TBool, PBool True)]
     (dedupe_texts ''tradeoff_summary'')"

section \<open>Repairing the output of a language model\<close>

definition has :: "dict \<Rightarrow> string \<Rightarrow> bool" where
  "has d k \<longleftrightarrow> map_of d k \<noteq> None"

text \<open>\<open>if k not in payload and payload.get(j) is not None: payload[k] = payload.get(j)\<close>.\<close>

definition take_alias :: "string \<Rightarrow> string \<Rightarrow> dict \<Rightarrow> dict" where
  "take_alias k j d = (if has d k \<or> dget0 d j = PNone then d else dset d k (dget0 d j))"

definition join_text_list :: "py list \<Rightarrow> string" where
  "join_text_list xs = join ''; '' (filter (\<lambda>t. t \<noteq> []) (map (py_strip \<circ> py_str) xs))"

definition join_list :: "string \<Rightarrow> dict \<Rightarrow> dict" where
  "join_list k d = (case dget0 d k of PList xs \<Rightarrow> dset d k (PStr (join_text_list xs)) | _ \<Rightarrow> d)"

definition coerce_string_list :: "py \<Rightarrow> string list" where
  "coerce_string_list v =
     (case v of
        PNone \<Rightarrow> []
      | PList xs \<Rightarrow> filter (\<lambda>t. t \<noteq> []) (map (py_strip \<circ> py_str) xs)
      | _ \<Rightarrow> (let t = py_strip (py_str v) in on (t \<noteq> []) t))"

definition take_list :: "string \<Rightarrow> string \<Rightarrow> dict \<Rightarrow> dict" where
  "take_list k j d =
     (if \<not> truthy (dget0 d k) \<and> dget0 d j \<noteq> PNone then dset d k (str_list (coerce_string_list (dget0 d j))) else d)"

definition default_family :: "dict \<Rightarrow> dict" where
  "default_family d =
     (if \<not> has d ''action_family'' \<and> truthy (dget0 d ''target_capability'')
      then dset d ''action_family'' (PStr ''run_capability'') else d)"

text \<open>Parameters that came beside the object instead of in it.\<close>

definition stray_parameters :: "dict \<Rightarrow> dict" where
  "stray_parameters d =
     (let channels = py_or (dget0 d ''target_channels'') (dget0 d ''channels'');
          points = py_or (dget0 d ''suggested_points'') (dget0 d ''suggested_strain_points'')
      in on (channels \<noteq> PNone) (''target_channels'', str_list (coerce_string_list channels))
         @ on (is_dict points) (''suggested_points'', points))"

definition gather_parameters :: "dict \<Rightarrow> dict" where
  "gather_parameters d =
     (let given = sub_dict d ''parameters''; p = (if given \<noteq> [] then given else stray_parameters d)
      in if p = [] then d else dset d ''parameters'' (PDict p))"

definition action_aliases :: "dict \<Rightarrow> dict" where
  "action_aliases d =
     take_alias ''selected_skill'' ''skill'' (take_alias ''target_capability'' ''capability'' (take_alias ''action_family'' ''action'' d))"

definition join_texts :: "dict \<Rightarrow> dict" where
  "join_texts d = join_list ''expected_observation'' (join_list ''rationale'' d)"

definition coerce_selected_action :: "dict \<Rightarrow> dict" where
  "coerce_selected_action d = gather_parameters (join_texts (default_family (action_aliases d)))"

definition coerce_proposal :: "dict \<Rightarrow> dict" where
  "coerce_proposal d0 =
     (let d1 = action_aliases d0;
          d2 = (if has d1 ''target_capability'' then d1
                else dset d1 ''target_capability'' (py_or (dget0 d1 ''target'') (dget0 d1 ''selected_capability'')))
      in gather_parameters (take_list ''fallback_if_failed'' ''fallback''
           (take_list ''success_criteria'' ''expected_artifacts'' (join_texts (default_family d2)))))"

definition selected_action :: "coercion \<Rightarrow> dict \<Rightarrow> dict res" where
  "selected_action coerce d = construct coerce SelectedAction (coerce_selected_action d)"

definition proposal :: "coercion \<Rightarrow> env \<Rightarrow> dict \<Rightarrow> dict res" where
  "proposal coerce e d = construct coerce (Proposal e) (coerce_proposal d)"

section \<open>Bundles\<close>

text \<open>A text, which would be searched for JSON first, is out of scope and is rejected here.\<close>

definition coerce_bundle :: "py \<Rightarrow> dict res" where
  "coerce_bundle v =
     (case v of
        PList xs \<Rightarrow> Inr [(''proposals'', PList xs)]
      | PDict d \<Rightarrow>
          Inr (case map_of d ''proposals'' of
             Some (PDict p) \<Rightarrow> dset d ''proposals'' (PList [PDict p])
           | Some (PList xs) \<Rightarrow> d
           | Some _ \<Rightarrow> dset d ''proposals'' (PList [])
           | None \<Rightarrow>
               if list_ex (has d) [''action_family'', ''action'', ''target_capability'', ''capability'', ''selected_skill'', ''skill'']
               then [(''proposals'', PList [PDict d])] else d)
      | _ \<Rightarrow> Inl (ValidationError ''model_type''))"

definition read_object :: "(dict \<Rightarrow> 'a res) \<Rightarrow> py \<Rightarrow> 'a res" where
  "read_object f v = (case v of PDict d \<Rightarrow> f d | _ \<Rightarrow> Inl (ValidationError ''model_type''))"

definition proposal_bundle :: "coercion \<Rightarrow> env \<Rightarrow> py \<Rightarrow> dict list res" where
  "proposal_bundle coerce e v =
     bindR (coerce_bundle v) (\<lambda>d. mapR (read_object (proposal coerce e)) (sub_list d ''proposals''))"

text \<open>\<open>_coerce_review_bundle\<close>: the verdict of a critique, its concerns, its other fields.\<close>

definition verdict_stance :: "dict \<Rightarrow> string" where
  "verdict_stance d =
     (let verdict = py_lower (py_strip (py_str (py_or (py_or (dget0 d ''verdict'') (dget0 d ''stance'')) (PStr []))))
      in if verdict \<in> {''support'', ''approve'', ''approved'', ''proceed'', ''pass''} then ''support''
         else if verdict \<in> {''objection'', ''reject'', ''rejected'', ''fail'', ''block''} then ''objection''
         else ''critique'')"

definition clean_texts :: "dict \<Rightarrow> string \<Rightarrow> string list res" where
  "clean_texts d k =
     bindR (get_list d k) (\<lambda>xs. Inr (filter (\<lambda>t. t \<noteq> []) (map (\<lambda>x. py_strip (py_str (py_or x (PStr [])))) xs)))"

definition review_concerns :: "dict \<Rightarrow> string list res" where
  "review_concerns d =
     bindR (clean_texts d ''concerns'') (\<lambda>own.
     bindR (clean_texts d ''obvious_concerns'') (\<lambda>obvious.
     bindR (get_dict d ''evidence_assessment'') (\<lambda>assessment.
     bindR (mapR (\<lambda>key. bindR (clean_texts assessment key) (\<lambda>ts. Inr (map (\<lambda>t. key @ '':'' @ t) ts)))
              [''missing_evidence'', ''weak_inference'', ''assumption_hazards'']) (\<lambda>found.
       Inr (own @ obvious @ concat found)))))"

definition first_text :: "dict \<Rightarrow> string list \<Rightarrow> string \<Rightarrow> string" where
  "first_text d ks dflt = py_str (foldr (\<lambda>k v. py_or (dget0 d k) v) ks (PStr dflt))"

definition review_critique :: "dict \<Rightarrow> dict res" where
  "review_critique d =
     bindR (review_concerns d) (\<lambda>concerns. Inr
       [(''agent_name'', PStr (first_text d [''agent_name''] ''critic'')),
        (''proposal_id'', PStr (first_text d [''proposal_id'', ''target_proposal_id''] [])),
        (''message_type'', PStr (first_text d [''message_type''] (verdict_stance d))),
        (''stance'', PStr (verdict_stance d)),
        (''concerns'', str_list (dedupe concerns)),
        (''recommendation'', PStr (first_text d [''recommendation'', ''rationale''] [])),
        (''confidence'', dget d ''confidence'' (PFloat (Fin (1 / 2))))])"

definition review_preference :: "dict \<Rightarrow> dict" where
  "review_preference d =
     [(''agent_name'', PStr (first_text d [''agent_name''] ''critic'')),
      (''preferred_proposal_id'',
         PStr (py_strip (first_text d [''preferred_proposal_id'', ''selected_proposal'', ''proposal_id''] []))),
      (''preference_strength'', dget d ''preference_strength'' (dget d ''conservative_confidence'' (PFloat (Fin (1 / 2))))),
      (''reason'', PStr (first_text d [''reason'', ''tiebreaker_rationale'', ''recommendation''] [])),
      (''confidence'', dget d ''confidence'' (PFloat (Fin (1 / 2))))]"

definition one_or_list :: "py \<Rightarrow> py list" where
  "one_or_list v = (case v of PDict d \<Rightarrow> [PDict d] | PList xs \<Rightarrow> xs | _ \<Rightarrow> [])"

definition split_reviews :: "py list \<Rightarrow> dict list \<times> dict list" where
  "split_reviews xs =
     (let is_preference = (\<lambda>d. list_ex (has d) [''preferred_proposal_id'', ''selected_proposal'', ''preference_strength''])
      in (filter (\<lambda>d. \<not> is_preference d) (objects_in xs), filter is_preference (objects_in xs)))"

definition coerce_review_bundle :: "py \<Rightarrow> (dict list \<times> dict list) res" where
  "coerce_review_bundle v =
     (case v of
        PList xs \<Rightarrow> Inr (split_reviews xs)
      | PDict d \<Rightarrow>
          bindR (mapR review_critique (objects_in (one_or_list (dget0 d ''critiques'')))) (\<lambda>critiques.
            Inr (critiques, map review_preference (objects_in (one_or_list (dget0 d ''preferences'')))))
      | _ \<Rightarrow> Inr ([], []))"

definition review_bundle :: "coercion \<Rightarrow> env \<Rightarrow> py \<Rightarrow> (dict list \<times> dict list) res" where
  "review_bundle coerce e v =
     bindR (coerce_review_bundle v) (\<lambda>b.
     bindR (mapR (construct coerce (Critique e)) (fst b)) (\<lambda>critiques.
     bindR (mapR (construct coerce (Preference e)) (snd b)) (\<lambda>preferences. Inr (critiques, preferences))))"

section \<open>The arbitration\<close>

definition ArbitrationDecisionPayload :: schema where
  "ArbitrationDecisionPayload =
     \<lparr>required = [],
      members =
        [(''selected_proposal_id'', TOptStr, PNone),
         (''rejected_proposal_ids'', TListStr, PList []),
         (''guardrail_notes'', TListStr, PList []),
         (''rationale'', TStr, PStr []),
         (''disagreement_summary'', TListStr, PList []),
         (''whether_noop'', TBool, PBool False),
         (''whether_waiting_external'', TBool, PBool False),
         (''whether_ready_to_finalize'', TBool, PBool False)],
      after = id\<rparr>"

definition nested_action :: "dict \<Rightarrow> dict" where
  "nested_action d =
     [(''action_family'', py_or (dget0 d ''action_family'') (dget0 d ''action'')),
      (''target_capability'', py_or (dget0 d ''target_capability'') (dget0 d ''capability'')),
      (''selected_skill'', py_or (dget0 d ''selected_skill'') (dget0 d ''skill'')),
      (''source_proposal_id'', dget0 d ''selected_proposal_id''),
      (''rationale'', py_or (dget0 d ''rationale'') (py_or (dget0 d ''reason'') (PStr [])))]"

definition coerce_arbitration :: "dict \<Rightarrow> dict" where
  "coerce_arbitration d0 =
     (let d = take_alias ''rationale'' ''reason'' (take_alias ''rejected_proposal_ids'' ''rejected_proposals''
                (take_alias ''selected_proposal_id'' ''selected_proposal'' d0))
      in if \<not> has d ''selected_action'' \<and> list_ex (has d) [''action_family'', ''action'', ''target_capability'', ''capability'']
         then dset d ''selected_action'' (PDict (nested_action d)) else d)"

definition optional_action :: "coercion \<Rightarrow> py \<Rightarrow> dict option res" where
  "optional_action coerce v =
     (if v = PNone then Inr None else bindR (read_object (selected_action coerce) v) (\<lambda>a. Inr (Some a)))"

definition arbitration_payload :: "coercion \<Rightarrow> dict \<Rightarrow> (dict option \<times> dict) res" where
  "arbitration_payload coerce d0 =
     (let d = coerce_arbitration d0
      in bindR (optional_action coerce (dget0 d ''selected_action'')) (\<lambda>action.
         bindR (construct coerce ArbitrationDecisionPayload d) (\<lambda>rest. Inr (action, rest))))"

section \<open>Decisions of the specialised agents\<close>

definition decision_fields :: fields where
  "decision_fields =
     [(''reason'', TStr, PStr []), (''confidence'', TFloat, PFloat (Fin 1)), (''warnings'', TListStr, PList []),
      (''should_escalate'', TBool, PBool False)]"

definition AgentDecisionBase :: "string list \<Rightarrow> fields \<Rightarrow> schema" where
  "AgentDecisionBase needed own =
     \<lparr>required = needed, members = decision_fields @ own, after = dedupe_texts ''warnings'' \<circ> strip_text ''reason''\<rparr>"

definition AdmissionDecision :: schema where
  "AdmissionDecision = AgentDecisionBase [''decision'']
     [(''decision'', TLit [''continue'', ''continue_with_warning'', ''reject''], PStr ''continue''),
      (''preflight_tags'', TListStr, PList [])]"

definition RecoveryDecision :: schema where
  "RecoveryDecision = AgentDecisionBase [''decision'']
     [(''decision'', TLit [''retry_current_stage'', ''rerun_previous_stage'', ''modify_params_and_retry'',
          ''copy_contcar_to_poscar_and_retry'', ''manual_fix_resume'', ''skip_point'', ''skip_material'', ''abort_task''],
         PStr ''retry_current_stage''),
      (''parameter_updates'', TDict, PDict []),
      (''file_updates'', TDict, PDict []),
      (''return_stage'', TOptStr, PNone),
      (''cleanup_policy'', TOptStr, PNone)]"

definition RefinementDecision :: schema where
  "RefinementDecision = AgentDecisionBase [''decision'']
     [(''decision'', TLit [''accept'', ''refine_more_points'', ''reject_channel'', ''terminate'', ''escalate''], PStr ''accept''),
      (''target_channels'', TListStr, PList []),
      (''suggested_points'', TDictFloats, PDict [])]"

definition ValidationDecision :: schema where
  "ValidationDecision = AgentDecisionBase [''decision'']
     [(''decision'', TLit [''pass'', ''pass_with_warning'', ''fail'', ''escalate''], PStr ''pass''),
      (''failed_checks'', TListStr, PList [])]"

definition HumanEscalationDecision :: schema where
  "HumanEscalationDecision = AgentDecisionBase []
     [(''should_interrupt'', TBool, PBool True),
      (''recommended_options'', TListStr, PList []),
      (''default_timeout_action'', TStr, PStr ''skip_material'')]"

definition ReportSummary :: schema where
  "ReportSummary = AgentDecisionBase []
     [(''final_summary'', TDict, PDict []),
      (''key_findings'', TListStr, PList []),
      (''artifact_references'', TDictStr, PDict [])]"

definition coerce_refinement :: "dict \<Rightarrow> dict" where
  "coerce_refinement d0 =
     (let d1 = take_alias ''decision'' ''action'' d0;
          d2 = (if has d1 ''target_channels'' then d1
                else dset d1 ''target_channels''
                  (foldr (\<lambda>k v. py_or (dget0 d1 k) v) [''channels'', ''target_directions'', ''directions''] (dget0 d1 ''target_channel'')))
      in take_alias ''reason'' ''rationale'' (take_alias ''suggested_points'' ''supply_points''
           (take_alias ''suggested_points'' ''suggested_strain_points'' d2)))"

definition coerce_report_summary :: "dict \<Rightarrow> dict res" where
  "coerce_report_summary d0 =
     (let known = [''reason'', ''confidence'', ''warnings'', ''should_escalate'', ''key_findings'', ''artifact_references''];
          d = (if has d0 ''final_summary'' then d0
               else dset d0 ''final_summary'' (PDict (filter (\<lambda>(k, v). k \<notin> set known) d0)))
      in if has d ''artifact_references'' then Inr d
         else (case dget0 d ''final_summary'' of
                 PDict s \<Rightarrow> bindR (get_dict s ''artifact_paths'') (\<lambda>paths. Inr (dset d ''artifact_references'' (PDict paths)))
               | _ \<Rightarrow> Inr d))"

section \<open>A message that was built is built again unchanged\<close>

lemma dget0_strip [simp]: "dget0 (strip_text k d) j = (if j = k then PStr (py_strip (get_str d k)) else dget0 d j)"
  by (simp add: strip_text_def)

lemma dget0_dedupe_texts [simp]: "dget0 (dedupe_texts k d) j = (if j = k then tidied (dget0 d k) else dget0 d j)"
  by (simp add: dedupe_texts_def tidied_def)

lemma get_str_dget0: "dget0 d k = PStr s \<Longrightarrow> get_str d k = s"
  by (cases s) (auto simp: get_str_def py_or_def)

lemma same_keys_eqI:
  "map fst d = map fst d' \<Longrightarrow> distinct (map fst d) \<Longrightarrow> (\<And>k. k \<in> set (map fst d) \<Longrightarrow> map_of d k = map_of d' k) \<Longrightarrow> d = d'"
proof (induction d arbitrary: d')
  case (Cons x d)
  then obtain y d'' where d': "d' = y # d''" "fst x = fst y" "map fst d = map fst d''" by (cases d') auto
  have "snd x = snd y" using Cons.prems(3) [of "fst x"] d' by (cases x; cases y) simp
  moreover have "d = d''"
  proof (rule Cons.IH [OF d'(3)])
    show "distinct (map fst d)" using Cons.prems(2) by simp
    fix k assume k: "k \<in> set (map fst d)"
    then have "k \<noteq> fst x" using Cons.prems(2) by (metis distinct.simps(2) list.simps(9))
    with Cons.prems(3) [of k] k d' show "map_of d k = map_of d'' k" by (cases x; cases y) auto
  qed
  ultimately show ?case using d' by (simp add: prod_eq_iff)
qed simp

lemma typed_eqI:
  assumes "typed fs d" "typed fs d'" "distinct (map fst fs)" "\<And>k. dget0 d k = dget0 d' k"
  shows "d = d'"
proof (rule same_keys_eqI)
  show "map fst d = map fst d'" using typed_keys [OF assms(1)] typed_keys [OF assms(2)] by simp
  show "distinct (map fst d)" using typed_keys [OF assms(1)] assms(3) by simp
  fix k assume "k \<in> set (map fst d)"
  then have "k \<in> set (map fst d)" "k \<in> set (map fst d')" using typed_keys [OF assms(1)] typed_keys [OF assms(2)] by simp_all
  then obtain v v' where "map_of d k = Some v" "map_of d' k = Some v'" by (metis map_of_eq_None_iff option.exhaust set_map)
  with assms(4) [of k] show "map_of d k = map_of d' k" by (simp add: dget0_def dget_def)
qed

lemma typed_strip:
  "typed fs d \<Longrightarrow> map_of fs k = Some (TStr, v) \<Longrightarrow> typed fs (strip_text k d)"
  unfolding strip_text_def by (erule typed_dset) (auto simp: is_str_def)

lemma typed_dedupe_texts:
  "typed fs d \<Longrightarrow> map_of fs k = Some (TListStr, v) \<Longrightarrow> typed fs (dedupe_texts k d)"
  unfolding dedupe_texts_def by (erule typed_dset) (auto simp: list_of_def list_all_iff is_str_def)

lemma typed_dget0: "typed fs d \<Longrightarrow> map_of fs k = Some (t, v) \<Longrightarrow> of_type t (dget0 d k)"
  by (drule (1) typed_map_of) (auto simp: dget0_def dget_def)

lemma tidied_twice: "list_of is_str v \<Longrightarrow> tidied (tidied v) = tidied v"
  by (auto simp: list_of_str)

lemma get_str_strip [simp]: "get_str (strip_text k d) j = (if j = k then py_strip (get_str d k) else get_str d j)"
  using get_str_dget0 [of "strip_text k d" k] by (auto simp: get_str_def)

section \<open>The interface of a message class\<close>

text \<open>What a class of messages promises: its fields are declared well, and its validators keep the types
  and change nothing the second time.\<close>

locale message_class = validator +
  fixes sc :: schema
  assumes fields_good: "good_fields (members sc)"
    and required_declared: "set (required sc) \<subseteq> set (map fst (members sc))"
    and after_typed: "typed (members sc) v \<Longrightarrow> typed (members sc) (after sc v)"
    and after_twice: "typed (members sc) v \<Longrightarrow> dget0 (after sc (after sc v)) k = dget0 (after sc v) k"
begin

lemma construct_typed: "construct coerce sc d = Inr v \<Longrightarrow> typed (members sc) v"
  using fields_good
  by (auto simp: construct_def good_fields_def split: if_splits dest!: validate_fields_typed intro: after_typed)

lemma after_idem: "typed (members sc) v \<Longrightarrow> after sc (after sc v) = after sc v"
  using fields_good by (intro typed_eqI [of "members sc"]) (auto simp: after_typed after_twice good_fields_def)

lemma construct_again:
  assumes "construct coerce sc d = Inr v"
  shows "construct coerce sc v = Inr v"
proof -
  from assms obtain u where u: "validate_fields coerce (members sc) d = Inr u" "v = after sc u"
    by (auto simp: construct_def split: if_splits)
  have tu: "typed (members sc) u" using u(1) fields_good by (auto simp: good_fields_def dest: validate_fields_typed)
  have t: "typed (members sc) v" using construct_typed [OF assms] .
  have keys: "map fst v = map fst (members sc)" using typed_keys [OF t] .
  have "distinct (map fst v)" using keys fields_good by (simp add: good_fields_def)
  then have "validate_fields coerce (members sc) v = Inr v" using t by (intro validate_fields_keep) auto
  moreover have "\<not> list_ex (\<lambda>k. map_of v k = None) (required sc)"
    using required_declared keys by (simp add: list_ex_iff map_of_eq_None_iff flip: set_map) blast
  ultimately show ?thesis using u(2) after_idem [OF tu] by (simp add: construct_def)
qed

end

section \<open>The classes keep the promise\<close>

lemmas message_defs = message_def AgentMessage_def normalize_message_def

lemmas type_simps = good_fields_def is_str_def is_int_def is_float_def list_of_def dict_of_def

lemma list_of_dget0: "typed fs d \<Longrightarrow> map_of fs k = Some (TListStr, v) \<Longrightarrow> list_of is_str (dget0 d k)"
  by (drule (1) typed_dget0) simp

text \<open>The validators of a class, one after the other.\<close>

datatype cleaning = Strip string | Dedupe string | Paths

fun clean :: "cleaning \<Rightarrow> dict \<Rightarrow> dict" where
  "clean (Strip k) = strip_text k"
| "clean (Dedupe k) = dedupe_texts k"
| "clean Paths = drop_blank_paths"

fun cleans :: "fields \<Rightarrow> cleaning \<Rightarrow> bool" where
  "cleans fs (Strip k) = (\<exists>v. map_of fs k = Some (TStr, v))"
| "cleans fs (Dedupe k) = (\<exists>v. map_of fs k = Some (TListStr, v))"
| "cleans fs Paths = (\<exists>v. map_of fs ''artifact_paths'' = Some (TDictStr, v))"

lemma typed_drop_blank:
  assumes "typed fs d" "map_of fs ''artifact_paths'' = Some (TDictStr, v)"
  shows "typed fs (drop_blank_paths d)"
proof -
  have "dict_of is_str (dget0 d ''artifact_paths'')" using typed_dget0 [OF assms] by simp
  then obtain p where p: "dget0 d ''artifact_paths'' = PDict p" "distinct (map fst p)" "list_all (is_str \<circ> snd) p"
    by (auto simp: dict_of_def split: py.splits)
  then have "of_type TDictStr (PDict (filter (truthy \<circ> snd) p))"
    by (auto simp: dict_of_def list_all_iff distinct_map_filter)
  then show ?thesis unfolding drop_blank_paths_def
    by (intro typed_dset [OF assms]) (simp add: p(1) entries_def)
qed

lemma dget0_drop_blank [simp]:
  "dget0 (drop_blank_paths d) j = (if j = ''artifact_paths''
     then PDict (filter (truthy \<circ> snd) (entries (dget0 d ''artifact_paths''))) else dget0 d j)"
  by (simp add: drop_blank_paths_def)

lemma clean_typed: "list_all (cleans fs) cs \<Longrightarrow> typed fs d \<Longrightarrow> typed fs (fold clean cs d)"
proof (induction cs arbitrary: d)
  case (Cons c cs)
  then have "typed fs (clean c d)" by (cases c) (auto intro: typed_strip typed_dedupe_texts typed_drop_blank)
  with Cons show ?case by simp
qed simp

fun cleaned :: "cleaning \<Rightarrow> string" where
  "cleaned (Strip k) = k"
| "cleaned (Dedupe k) = k"
| "cleaned Paths = ''artifact_paths''"

lemma clean_other: "k \<notin> cleaned ` set cs \<Longrightarrow> dget0 (fold clean cs d) k = dget0 d k"
proof (induction cs arbitrary: d)
  case (Cons c cs)
  then show ?case by (cases c) auto
qed simp

lemma clean_here:
  assumes "distinct (map cleaned cs)" "c \<in> set cs"
  shows "dget0 (fold clean cs d) (cleaned c) = dget0 (clean c d) (cleaned c)"
  using assms
proof (induction cs arbitrary: d)
  case (Cons b cs)
  show ?case
  proof (cases "c = b")
    case True
    then have "cleaned c \<notin> cleaned ` set cs" using Cons.prems by auto
    with True show ?thesis by (simp add: clean_other)
  next
    case False
    then have "c \<in> set cs" "cleaned b \<notin> cleaned ` set cs" using Cons.prems by simp_all
    then have c: "c \<in> set cs" "cleaned c \<noteq> cleaned b" by (simp, metis imageI)
    have "dget0 (clean c (clean b d)) (cleaned c) = dget0 (clean c d) (cleaned c)"
      using c(2) by (cases c; cases b) (simp_all add: get_str_def)
    then show ?thesis using Cons.IH [OF _ c(1), of "clean b d"] Cons.prems(1) by simp
  qed
qed simp

lemma clean_twice:
  assumes "distinct (map cleaned cs)" "list_all (cleans fs) cs" "typed fs d"
  shows "dget0 (fold clean cs (fold clean cs d)) k = dget0 (fold clean cs d) k"
proof (cases "k \<in> cleaned ` set cs")
  case False
  then show ?thesis by (simp add: clean_other)
next
  case True
  then obtain c where c: "c \<in> set cs" "k = cleaned c" by blast
  have "dget0 (clean c (fold clean cs d)) k = dget0 (clean c d) k"
  proof (cases c)
    case (Strip j)
    then have "dget0 (fold clean cs d) j = dget0 (strip_text j d) j" using clean_here [OF assms(1) c(1), of d] by simp
    then have "get_str (fold clean cs d) j = py_strip (get_str d j)" by (intro get_str_dget0) simp
    then show ?thesis using Strip c(2) by simp
  next
    case (Dedupe j)
    then have e: "dget0 (fold clean cs d) j = tidied (dget0 d j)" using clean_here [OF assms(1) c(1), of d] by simp
    have "cleans fs c" using assms(2) c(1) by (simp add: list_all_iff)
    then have "list_of is_str (dget0 d j)" using Dedupe list_of_dget0 [OF assms(3)] by auto
    then show ?thesis using Dedupe c(2) e by (simp add: tidied_twice)
  next
    case Paths
    then show ?thesis using clean_here [OF assms(1) c(1), of d] c(2) by (simp add: entries_def comp_def)
  qed
  then show ?thesis using clean_here [OF assms(1) c(1)] c(2) by simp
qed

lemma message_classI:
  assumes "validator coerce" "good_fields (members sc)" "set (required sc) \<subseteq> set (map fst (members sc))"
    and "after sc = fold clean cs" "distinct (map cleaned cs)" "list_all (cleans (members sc)) cs"
  shows "message_class coerce sc"
  using assms clean_typed clean_twice
  by (auto simp: message_class_def message_class_axioms_def)

lemma selected_action_class: "validator coerce \<Longrightarrow> message_class coerce SelectedAction"
  by (rule message_classI [where cs = "[Strip ''rationale'', Strip ''expected_observation'', Dedupe ''success_criteria'',
        Dedupe ''fallback_if_failed'', Dedupe ''supporting_agent_opinions'']"])
    (simp_all add: SelectedAction_def type_simps ActionFamily_def fun_eq_iff)

lemma proposal_class: "validator coerce \<Longrightarrow> message_class coerce (Proposal e)"
  by (rule message_classI [where cs = "[Strip ''agent_name'', Strip ''target_task_id'', Dedupe ''evidence_refs'',
        Strip ''expected_benefit'', Strip ''expected_risk'', Strip ''rationale'', Strip ''expected_observation'',
        Dedupe ''success_criteria'', Dedupe ''fallback_if_failed'']"])
    (simp_all add: Proposal_def message_defs type_simps ActionFamily_def fun_eq_iff)

lemma command_class: "validator coerce \<Longrightarrow> message_class coerce (ExecutionCommand e)"
  by (rule message_classI [where cs = "[Strip ''agent_name'', Strip ''target_task_id'', Dedupe ''evidence_refs'',
        Dedupe ''expected_artifacts'']"])
    (simp_all add: ExecutionCommand_def message_defs type_simps ActionFamily_def fun_eq_iff)

lemma observation_class: "validator coerce \<Longrightarrow> message_class coerce (ExecutionObservation e)"
  by (rule message_classI [where cs = "[Strip ''agent_name'', Strip ''target_task_id'', Dedupe ''evidence_refs'', Paths]"])
    (simp_all add: ExecutionObservation_def message_defs type_simps ActionFamily_def fun_eq_iff)

lemma reflection_class: "validator coerce \<Longrightarrow> message_class coerce (ReflectionRecord e)"
  by (rule message_classI [where cs = "[Strip ''agent_name'', Strip ''target_task_id'', Dedupe ''evidence_refs'',
        Dedupe ''tradeoff_summary'']"])
    (simp_all add: ReflectionRecord_def message_defs type_simps fun_eq_iff)

interpretation actions: message_class strict_coerce SelectedAction
  by (rule selected_action_class) (rule strict.validator_axioms)

interpretation proposals: message_class strict_coerce "Proposal e" for e
  by (rule proposal_class) (rule strict.validator_axioms)

interpretation commands: message_class strict_coerce "ExecutionCommand e" for e
  by (rule command_class) (rule strict.validator_axioms)

interpretation observations: message_class strict_coerce "ExecutionObservation e" for e
  by (rule observation_class) (rule strict.validator_axioms)

interpretation reflections: message_class strict_coerce "ReflectionRecord e" for e
  by (rule reflection_class) (rule strict.validator_axioms)

section \<open>Properties of the messages\<close>

lemma keep_alias: "has d k \<Longrightarrow> take_alias k j d = d"
  by (simp add: take_alias_def)

lemma keep_text: "is_str (dget0 d k) \<Longrightarrow> join_list k d = d"
  by (simp add: join_list_def is_str_def split: py.splits)

text \<open>A selected action is stable: the action the orchestrator validated and stored in the state is
  read back by the executor as exactly the same action; its family is one of the registered
  families, and the repair of model output changes nothing on it.\<close>

theorem selected_action_stable:
  assumes "validator coerce" and "selected_action coerce d = Inr a"
  shows "selected_action coerce a = Inr a \<and> get_str a ''action_family'' \<in> set ActionFamily"
proof -
  note cls = selected_action_class [OF assms(1)]
  have m: "construct coerce SelectedAction (coerce_selected_action d) = Inr a" using assms(2) by (simp add: selected_action_def)
  note t = message_class.construct_typed [OF cls m]
  have keys: "map fst a = map fst (members SelectedAction)" using typed_keys [OF t] .
  have has: "has a ''action_family''" "has a ''target_capability''" "has a ''selected_skill''"
    unfolding has_def map_of_eq_None_iff set_map [symmetric] keys by (simp_all add: SelectedAction_def)
  have absent: "dget0 a k = PNone" if "k \<notin> set (map fst (members SelectedAction))" for k
    using that unfolding keys [symmetric] by (simp add: dget0_def dget_def map_of_eq_None_iff [THEN iffD2])
  have s: "is_str (dget0 a ''rationale'')" "is_str (dget0 a ''expected_observation'')"
    "dict_of (\<lambda>_. True) (dget0 a ''parameters'')" "dget0 a ''action_family'' \<in> PStr ` set ActionFamily"
    using typed_dget0 [OF t, of "''rationale''"] typed_dget0 [OF t, of "''expected_observation''"]
      typed_dget0 [OF t, of "''parameters''"] typed_dget0 [OF t, of "''action_family''"]
    by (simp_all add: SelectedAction_def)
  have stray: "stray_parameters a = []"
    by (simp add: stray_parameters_def absent SelectedAction_def py_or_def is_dict_def)
  obtain p where p: "dget0 a ''parameters'' = PDict p" using s(3) by (auto simp: dict_of_def split: py.splits)
  then have "dset a ''parameters'' (PDict p) = a"
    by (intro dset_same) (auto simp: dget0_def dget_def split: option.splits)
  then have "gather_parameters a = a" using stray p by (simp add: gather_parameters_def sub_dict_def entries_def)
  then have "coerce_selected_action a = a"
    by (simp add: coerce_selected_action_def action_aliases_def keep_alias has default_family_def join_texts_def keep_text s)
  with message_class.construct_again [OF cls m] s(4) show ?thesis by (auto simp: selected_action_def dest: get_str_dget0)
qed

theorem selected_action_stable_witness:
  "\<exists>a. selected_action strict_coerce [(''action'', PStr ''run_capability''), (''capability'', PStr ''scf'')] = Inr a
     \<and> selected_action strict_coerce a = Inr a"
proof -
  have "case selected_action strict_coerce [(''action'', PStr ''run_capability''), (''capability'', PStr ''scf'')] of
      Inr _ \<Rightarrow> True | Inl _ \<Rightarrow> False"
    by code_simp
  then obtain a where a: "selected_action strict_coerce [(''action'', PStr ''run_capability''), (''capability'', PStr ''scf'')] = Inr a"
    by (auto split: sum.splits)
  from selected_action_stable [OF strict.validator_axioms a] a show ?thesis by blast
qed

end
