(* ===== verification/Json.thy ===== *)
theory Json
  imports Prelude
begin

text \<open>
  The JSON text the program writes to disk and reads back: \<open>json.dump(v, indent=2,
  ensure_ascii=False)\<close> and \<open>json.loads\<close>, on the values of \<open>Prelude\<close>. The reader takes a
  bound on its nesting as fuel; the length of the text is always enough
  (\<open>json_loads_dumps\<close>). A float is written with the stand-in of \<open>str_flt\<close>, so the round trip is
  stated for values without floats.
\<close>

section \<open>Writing\<close>

definition hex_digit :: "nat \<Rightarrow> char" where
  "hex_digit n = (if n < 10 then char_of (48 + n) else char_of (87 + n))"

definition json_escape :: "char \<Rightarrow> string" where
  "json_escape c =
     (if c = CHR 0x22 then [CHR 0x5C, CHR 0x22]
      else if c = CHR 0x5C then [CHR 0x5C, CHR 0x5C]
      else if c = CHR 0x0A then [CHR 0x5C, CHR ''n'']
      else if c = CHR 0x0D then [CHR 0x5C, CHR ''r'']
      else if c = CHR 0x09 then [CHR 0x5C, CHR ''t'']
      else if c = CHR 0x0C then [CHR 0x5C, CHR ''f'']
      else if c = CHR 0x08 then [CHR 0x5C, CHR ''b'']
      else if code_of c < 32 then
        [CHR 0x5C, CHR ''u'', CHR ''0'', CHR ''0'', hex_digit (code_of c div 16), hex_digit (code_of c mod 16)]
      else [c])"

definition json_string :: "string \<Rightarrow> string" where
  "json_string s = [CHR 0x22] @ concat (map json_escape s) @ [CHR 0x22]"

definition newline :: "nat \<Rightarrow> string" where
  "newline l = CHR 0x0A # replicate (2 * l) (CHR '' '')"

fun json_dump :: "nat \<Rightarrow> py \<Rightarrow> string" where
  "json_dump l PNone = ''null''"
| "json_dump l (PBool b) = (if b then ''true'' else ''false'')"
| "json_dump l (PInt i) = show_int i"
| "json_dump l (PFloat x) = str_flt x"
| "json_dump l (PStr s) = json_string s"
| "json_dump l (PList xs) =
     (if xs = [] then ''[]''
      else ''['' @ newline (Suc l) @ join ('','' @ newline (Suc l)) (map (json_dump (Suc l)) xs) @ newline l @ '']'')"
| "json_dump l (PDict d) =
     (if d = [] then ''{}''
      else ''{'' @ newline (Suc l)
           @ join ('','' @ newline (Suc l)) (map (\<lambda>(k, v). json_string k @ '': '' @ json_dump (Suc l) v) d)
           @ newline l @ ''}'')"

definition json_dumps :: "py \<Rightarrow> string" where
  "json_dumps v = json_dump 0 v"

section \<open>Reading\<close>

definition is_ws :: "char \<Rightarrow> bool" where
  "is_ws c \<longleftrightarrow> c = CHR '' '' \<or> c = CHR 0x09 \<or> c = CHR 0x0A \<or> c = CHR 0x0D"

definition skip_ws :: "string \<Rightarrow> string" where
  "skip_ws s = dropWhile is_ws s"

definition hex_val :: "char \<Rightarrow> nat option" where
  "hex_val c =
     (let n = code_of c
      in if 48 \<le> n \<and> n \<le> 57 then Some (n - 48)
         else if 97 \<le> n \<and> n \<le> 102 then Some (n - 87)
         else if 65 \<le> n \<and> n \<le> 70 then Some (n - 55) else None)"

definition unescape :: "char \<Rightarrow> char option" where
  "unescape c =
     (if c = CHR 0x22 then Some (CHR 0x22)
      else if c = CHR 0x5C then Some (CHR 0x5C)
      else if c = CHR ''/'' then Some (CHR ''/'')
      else if c = CHR ''n'' then Some (CHR 0x0A)
      else if c = CHR ''r'' then Some (CHR 0x0D)
      else if c = CHR ''t'' then Some (CHR 0x09)
      else if c = CHR ''f'' then Some (CHR 0x0C)
      else if c = CHR ''b'' then Some (CHR 0x08)
      else None)"

text \<open>A \<open>\\uXXXX\<close> beyond the characters of the model is not read.\<close>

definition hex_char :: "char \<Rightarrow> char \<Rightarrow> char \<Rightarrow> char \<Rightarrow> char option" where
  "hex_char a b c d =
     (case (hex_val a, hex_val b, hex_val c, hex_val d) of
        (Some 0, Some 0, Some x, Some y) \<Rightarrow> Some (char_of (16 * x + y))
      | _ \<Rightarrow> None)"

text \<open>The rest of a string after its opening quote, and what follows the closing one.\<close>

fun read_string :: "string \<Rightarrow> (string \<times> string) option" where
  "read_string [] = None"
| "read_string (c # s) =
     (if c = CHR 0x22 then Some ([], s)
      else if c = CHR 0x5C then
        (case s of
           [] \<Rightarrow> None
         | e # r \<Rightarrow>
             if e = CHR ''u'' then
               (case r of
                  a # b # x # y # r' \<Rightarrow>
                    (case hex_char a b x y of None \<Rightarrow> None
                     | Some ch \<Rightarrow> map_option (\<lambda>q. (ch # fst q, snd q)) (read_string r'))
                | _ \<Rightarrow> None)
             else
               (case unescape e of None \<Rightarrow> None
                | Some ch \<Rightarrow> map_option (\<lambda>q. (ch # fst q, snd q)) (read_string r)))
      else if code_of c < 32 then None
      else map_option (\<lambda>q. (c # fst q, snd q)) (read_string s))"

text \<open>A number: an optional sign, digits without a leading zero, an optional fraction and exponent.\<close>

definition read_fraction :: "nat \<Rightarrow> string \<Rightarrow> nat \<times> nat \<times> string" where
  "read_fraction v s =
     (case s of
        c # r \<Rightarrow> if c = CHR ''.'' then (case take_digits v r of (w, m, r') \<Rightarrow> if m = 0 then (v, 0, s) else (w, m, r'))
                 else (v, 0, s)
      | [] \<Rightarrow> (v, 0, s))"

definition read_exponent :: "string \<Rightarrow> (int \<times> string) option" where
  "read_exponent s =
     (case s of
        c # r \<Rightarrow> if c = CHR ''e'' \<or> c = CHR ''E''
                 then (let (sg, r') = take_sign r; (v, n, r'') = take_digits 0 r'
                       in if n = 0 then None else Some (sg * int v, r''))
                 else None
      | [] \<Rightarrow> None)"

definition read_digits :: "string \<Rightarrow> nat \<times> nat \<times> string" where
  "read_digits s = (case s of c # r \<Rightarrow> if c = CHR ''0'' then (0, 1, r) else take_digits 0 s | [] \<Rightarrow> (0, 0, []))"

definition read_unsigned :: "int \<Rightarrow> string \<Rightarrow> (py \<times> string) option" where
  "read_unsigned sg s =
     (case read_digits s of
        (v, n, s2) \<Rightarrow>
          (case read_fraction v s2 of
             (w, m, s3) \<Rightarrow>
               if n = 0 then None
               else (case read_exponent s3 of
                       None \<Rightarrow> if m = 0 then Some (PInt (sg * int v), s3)
                               else Some (PFloat (Fin (scale10 (of_int sg * of_nat w) (- int m))), s3)
                     | Some (e, s4) \<Rightarrow> Some (PFloat (Fin (scale10 (of_int sg * of_nat w) (e - int m))), s4))))"

definition read_number :: "string \<Rightarrow> (py \<times> string) option" where
  "read_number s =
     (case s of [] \<Rightarrow> None
      | c # r \<Rightarrow> if c = CHR ''-'' then read_unsigned (- 1) r else read_unsigned 1 s)"

definition read_word :: "string \<Rightarrow> py \<Rightarrow> string \<Rightarrow> (py \<times> string) option" where
  "read_word w v s = (if startswith s w then Some (v, drop (length w) s) else None)"

definition read_atom :: "string \<Rightarrow> (py \<times> string) option" where
  "read_atom s =
     (case List.map_filter (\<lambda>(w, v). read_word w v s)
        [(''null'', PNone), (''true'', PBool True), (''false'', PBool False), (''NaN'', PFloat NaN),
         (''Infinity'', PFloat PosInf), (''-Infinity'', PFloat NegInf)] of
        r # _ \<Rightarrow> Some r
      | [] \<Rightarrow> read_number s)"

fun read_value :: "nat \<Rightarrow> string \<Rightarrow> (py \<times> string) option"
and read_items :: "nat \<Rightarrow> string \<Rightarrow> (py list \<times> string) option"
and read_members :: "nat \<Rightarrow> string \<Rightarrow> (dict \<times> string) option" where
  "read_value 0 s = None"
| "read_value (Suc n) s =
     (case s of
        [] \<Rightarrow> None
      | c # r \<Rightarrow>
          if c = CHR 0x22 then map_option (\<lambda>q. (PStr (fst q), snd q)) (read_string r)
          else if c = CHR ''['' then
            (case skip_ws r of
               [] \<Rightarrow> None
             | d # r' \<Rightarrow> if d = CHR '']'' then Some (PList [], r')
                          else map_option (\<lambda>q. (PList (fst q), snd q)) (read_items n (d # r')))
          else if c = CHR ''{'' then
            (case skip_ws r of
               [] \<Rightarrow> None
             | d # r' \<Rightarrow> if d = CHR ''}'' then Some (PDict [], r')
                          else map_option (\<lambda>q. (PDict (dmerge [] (fst q)), snd q)) (read_members n (d # r')))
          else read_atom s)"
| "read_items 0 s = None"
| "read_items (Suc n) s =
     (case read_value n s of
        None \<Rightarrow> None
      | Some (v, r) \<Rightarrow>
          (case skip_ws r of
             [] \<Rightarrow> None
           | d # r' \<Rightarrow> if d = CHR '']'' then Some ([v], r')
                        else if d = CHR '','' then map_option (\<lambda>q. (v # fst q, snd q)) (read_items n (skip_ws r'))
                        else None))"
| "read_members 0 s = None"
| "read_members (Suc n) s =
     (case s of
        [] \<Rightarrow> None
      | c # r0 \<Rightarrow>
          if c \<noteq> CHR 0x22 then None
          else (case read_string r0 of
             None \<Rightarrow> None
           | Some (k, r1) \<Rightarrow>
               (case skip_ws r1 of
                  [] \<Rightarrow> None
                | e # r2 \<Rightarrow>
                    if e \<noteq> CHR '':'' then None
                    else (case read_value n (skip_ws r2) of
                       None \<Rightarrow> None
                     | Some (v, r) \<Rightarrow>
                         (case skip_ws r of
                            [] \<Rightarrow> None
                          | d # r' \<Rightarrow> if d = CHR ''}'' then Some ([(k, v)], r')
                                       else if d = CHR '','' then
                                         map_option (\<lambda>q. ((k, v) # fst q, snd q)) (read_members n (skip_ws r'))
                                       else None)))))"

definition json_loads :: "string \<Rightarrow> py option" where
  "json_loads s =
     (case read_value (Suc (length s)) (skip_ws s) of
        None \<Rightarrow> None
      | Some (v, r) \<Rightarrow> if skip_ws r = [] then Some v else None)"

section \<open>Strings and numbers are read back\<close>

lemma hex_val_digit: "n < 16 \<Longrightarrow> hex_val (hex_digit n) = Some n"
  by (auto simp: hex_val_def hex_digit_def Let_def code_of_def)

lemma char_of_code [simp]: "char_of (code_of c) = c"
  by (simp add: code_of_def)

lemma hex_char_escape:
  assumes "code_of c < 32"
  shows "hex_char (CHR ''0'') (CHR ''0'') (hex_digit (code_of c div 16)) (hex_digit (code_of c mod 16)) = Some c"
proof -
  have "hex_val (CHR ''0'') = Some 0" by code_simp
  moreover have "16 * (code_of c div 16) + code_of c mod 16 = code_of c" by simp
  ultimately show ?thesis using assms
    by (simp add: hex_char_def hex_val_digit)
qed

lemma read_string_escape:
  "read_string (json_escape c @ t) = map_option (\<lambda>q. (c # fst q, snd q)) (read_string t)"
  by (simp add: json_escape_def unescape_def hex_char_escape)

lemma read_string_back: "read_string (concat (map json_escape s) @ CHR 0x22 # rest) = Some (s, rest)"
  by (induction s) (simp_all add: read_string_escape)

text \<open>What follows a number must not continue it.\<close>

definition stops :: "string \<Rightarrow> bool" where
  "stops s \<longleftrightarrow> (case s of [] \<Rightarrow> True | c # _ \<Rightarrow> digit_val c = None \<and> c \<noteq> CHR ''.'' \<and> c \<noteq> CHR ''e'' \<and> c \<noteq> CHR ''E'')"

lemma digit_val_char: "d < 10 \<Longrightarrow> digit_val (char_of (48 + d)) = Some d"
  by (simp add: digit_val_def code_of_def Let_def)

lemma take_digits_stop: "stops r \<Longrightarrow> take_digits acc r = (acc, 0, r)"
  by (cases r) (auto simp: stops_def)

lemma take_digits_back:
  "\<exists>k>0. \<forall>acc r. take_digits acc (nat_digits n @ r) =
     (case take_digits (acc * 10 ^ k + n) r of (v, m, r') \<Rightarrow> (v, k + m, r'))"
proof (induction n rule: nat_digits.induct)
  case (1 n)
  show ?case
  proof (cases "n < 10")
    case True
    then show ?thesis
      by (intro exI [of _ 1])
        (subst nat_digits.simps, simp add: digit_val_char Let_def mult.commute split: prod.split)
  next
    case False
    with 1 obtain k where k: "0 < k" and
      ih: "\<And>acc r. take_digits acc (nat_digits (n div 10) @ r) =
             (case take_digits (acc * 10 ^ k + n div 10) r of (v, m, r') \<Rightarrow> (v, k + m, r'))" by blast
    have e: "10 * (acc * 10 ^ k + n div 10) + n mod 10 = acc * 10 ^ Suc k + n" for acc :: nat
      by (simp add: algebra_simps)
    have d: "digit_val (char_of (48 + n mod 10)) = Some (n mod 10)" by (rule digit_val_char) simp
    have n: "nat_digits n = nat_digits (n div 10) @ [char_of (48 + n mod 10)]"
      using False by (subst nat_digits.simps) simp
    have "take_digits acc (nat_digits n @ r) =
        (case take_digits (acc * 10 ^ Suc k + n) r of (v, m, r') \<Rightarrow> (v, Suc k + m, r'))" for acc r
      unfolding n append_assoc ih append.simps take_digits.simps d option.case e Let_def
      by (simp split: prod.split)
    then show ?thesis by (intro exI [of _ "Suc k"]) simp
  qed
qed

lemma nat_digits_head: "\<exists>(d::nat) r. nat_digits n = char_of (48 + d) # r \<and> d < 10 \<and> (d = 0 \<longrightarrow> n = 0 \<and> r = [])"
proof (induction n rule: nat_digits.induct)
  case (1 n)
  show ?case
  proof (cases "n < 10")
    case True
    then have "nat_digits n = char_of (48 + n) # []" by (subst nat_digits.simps) simp
    with True show ?thesis by blast
  next
    case False
    with 1 obtain d :: nat and r where "nat_digits (n div 10) = char_of (48 + d) # r" "d < 10" "d = 0 \<longrightarrow> n div 10 = 0" by blast
    with False have e: "nat_digits n = char_of (48 + d) # r @ [char_of (48 + n mod 10)]"
      by (subst nat_digits.simps) simp
    have "d \<noteq> 0" using False \<open>d = 0 \<longrightarrow> n div 10 = 0\<close> by auto
    with e \<open>d < 10\<close> show ?thesis by blast
  qed
qed

lemma digit_char_neq: "(d::nat) < 10 \<Longrightarrow> \<not> (48 \<le> code_of c \<and> code_of c \<le> 57) \<Longrightarrow> char_of (48 + d) \<noteq> c"
proof
  assume "d < 10" "\<not> (48 \<le> code_of c \<and> code_of c \<le> 57)" "char_of (48 + d) = c"
  moreover from this have "code_of c = 48 + d" by (auto simp: code_of_def)
  ultimately show False by simp
qed


lemma read_number_nat:
  assumes "stops rest"
  shows "read_number (nat_digits n @ rest) = Some (PInt (int n), rest)"
    and "read_number (CHR ''-'' # nat_digits n @ rest) = Some (PInt (- int n), rest)"
proof -
  obtain d :: nat and r where h: "nat_digits n = char_of (48 + d) # r" "d < 10" "d = 0 \<longrightarrow> n = 0 \<and> r = []"
    using nat_digits_head by blast
  obtain k where k: "0 < k" "take_digits 0 (nat_digits n @ rest) = (n, k, rest)"
    using take_digits_back [of n] take_digits_stop [OF assms] by fastforce
  have m: "char_of (48 + d) \<noteq> CHR ''-''" using h(2) by (rule digit_char_neq) code_simp
  have z: "char_of (48 + d) = CHR ''0'' \<longleftrightarrow> d = 0"
  proof
    assume "char_of (48 + d) = CHR ''0''"
    then have "code_of (char_of (48 + d)) = code_of (CHR ''0'')" by simp
    moreover have "code_of (CHR ''0'') = 48" by code_simp
    ultimately show "d = 0" using h(2) by (simp add: code_of_def)
  next
    assume "d = 0"
    moreover have "char_of (48 + 0 :: nat) = CHR ''0''" by code_simp
    ultimately show "char_of (48 + d) = CHR ''0''" by simp
  qed
  have f: "read_fraction v rest = (v, 0, rest)" for v
    using assms by (cases rest) (auto simp: read_fraction_def stops_def)
  have e: "read_exponent rest = None"
    using assms by (cases rest) (auto simp: read_exponent_def stops_def)
  have "read_digits (nat_digits n @ rest) = (n, if d = 0 then 1 else k, rest)"
  proof (cases "d = 0")
    case True
    then show ?thesis using h z by (simp add: read_digits_def)
  next
    case False
    then have "read_digits (nat_digits n @ rest) = take_digits 0 (nat_digits n @ rest)"
      using h(1) z by (simp add: read_digits_def)
    then show ?thesis using False k(2) by simp
  qed
  then have u: "read_unsigned sg (nat_digits n @ rest) = Some (PInt (sg * int n), rest)" for sg
    using k(1) by (simp add: read_unsigned_def f e)
  show "read_number (nat_digits n @ rest) = Some (PInt (int n), rest)"
    using h(1) m u [of 1] by (simp add: read_number_def)
  show "read_number (CHR ''-'' # nat_digits n @ rest) = Some (PInt (- int n), rest)"
    using u [of "- 1"] by (simp add: read_number_def)
qed

lemma startswith_Cons: "startswith (c # s) (d # w) \<longleftrightarrow> c = d \<and> startswith s w"
  by (auto simp: startswith_def)

lemma read_atom_number:
  assumes "digit_val c \<noteq> None"
  shows "read_atom (c # s) = read_number (c # s)" "read_atom (CHR ''-'' # c # s) = read_number (CHR ''-'' # c # s)"
proof -
  have "c \<noteq> d" if "digit_val d = None" for d using assms that by auto
  then have n: "c \<noteq> CHR ''n''" "c \<noteq> CHR ''t''" "c \<noteq> CHR ''f''" "c \<noteq> CHR ''N''" "c \<noteq> CHR ''I''" "c \<noteq> CHR ''-''"
    by (simp_all add: digit_val_def code_of_def Let_def)
  show "read_atom (c # s) = read_number (c # s)"
    using n by (simp add: read_atom_def read_word_def List.map_filter_simps startswith_Cons)
  show "read_atom (CHR ''-'' # c # s) = read_number (CHR ''-'' # c # s)"
    using n by (simp add: read_atom_def read_word_def List.map_filter_simps startswith_Cons)
qed

lemma read_atom_int:
  assumes "stops rest"
  shows "read_atom (show_int i @ rest) = Some (PInt i, rest)"
proof -
  have d: "\<exists>c r. nat_digits n = c # r \<and> digit_val c \<noteq> None" for n
    using nat_digits_head [of n] digit_val_char by fastforce
  show ?thesis
  proof (cases "i < 0")
    case True
    obtain c r where c: "nat_digits (nat (- i)) = c # r" "digit_val c \<noteq> None" using d by blast
    have "read_atom (show_int i @ rest) = read_atom (CHR ''-'' # c # r @ rest)"
      using True c(1) by (simp add: show_int_def)
    also have "\<dots> = read_number (CHR ''-'' # nat_digits (nat (- i)) @ rest)"
      using c by (simp add: read_atom_number)
    finally show ?thesis using True read_number_nat(2) [OF assms, of "nat (- i)"] by simp
  next
    case False
    obtain c r where c: "nat_digits (nat i) = c # r" "digit_val c \<noteq> None" using d by blast
    have "read_atom (show_int i @ rest) = read_atom (c # r @ rest)"
      using False c(1) by (simp add: show_int_def)
    also have "\<dots> = read_number (nat_digits (nat i) @ rest)"
      using c by (simp add: read_atom_number)
    finally show ?thesis using False read_number_nat(1) [OF assms, of "nat i"] by simp
  qed
qed

section \<open>The round trip\<close>

text \<open>Values without floats whose objects do not repeat a key, and the nesting of a value.\<close>

fun json_ok :: "py \<Rightarrow> bool" where
  "json_ok (PFloat x) = False"
| "json_ok (PList xs) = list_all json_ok xs"
| "json_ok (PDict d) = (distinct (map fst d) \<and> list_all (\<lambda>kv. json_ok (snd kv)) d)"
| "json_ok v = True"

fun depth :: "py \<Rightarrow> nat" where
  "depth (PList xs) = Suc (sum_list (map (\<lambda>x. Suc (depth x)) xs))"
| "depth (PDict d) = Suc (sum_list (map (\<lambda>kv. Suc (depth (snd kv))) d))"
| "depth v = 1"

lemma skip_ws_newline [simp]: "skip_ws (newline l @ s) = skip_ws s"
proof -
  have w: "is_ws (CHR 0x0A)" "is_ws (CHR '' '')" by (simp_all add: is_ws_def)
  have r: "dropWhile is_ws (replicate n (CHR '' '') @ s) = dropWhile is_ws s" for n
    by (induction n) (simp_all add: w)
  show ?thesis by (simp add: skip_ws_def newline_def w r)
qed

lemma skip_ws_Cons [simp]: "\<not> is_ws c \<Longrightarrow> skip_ws (c # s) = c # s"
  by (simp add: skip_ws_def)

lemma json_dump_head: "\<exists>c r. json_dump l v = c # r \<and> \<not> is_ws c \<and> c \<noteq> CHR '']'' \<and> c \<noteq> CHR ''}''" if "json_ok v" for v
proof (cases v)
  case (PInt i)
  obtain d :: nat and r where h: "nat_digits (nat i) = char_of (48 + d) # r" "d < 10"
    using nat_digits_head by blast
  have n: "char_of (48 + d) \<noteq> CHR '' ''" "char_of (48 + d) \<noteq> CHR 0x09" "char_of (48 + d) \<noteq> CHR 0x0A"
    "char_of (48 + d) \<noteq> CHR 0x0D" "char_of (48 + d) \<noteq> CHR '']''" "char_of (48 + d) \<noteq> CHR ''}''"
    by (rule digit_char_neq [OF h(2)], code_simp)+
  show ?thesis using PInt h(1) n by (auto simp: show_int_def is_ws_def)
qed (use that in \<open>auto simp: json_string_def is_ws_def\<close>)

lemma stops_simps [simp]:
  "stops (CHR '','' # s)" "stops (CHR '']'' # s)" "stops (CHR ''}'' # s)" "stops []" "stops (newline l @ s)"
  by (simp_all add: stops_def newline_def digit_val_def code_of_def Let_def)

definition reads :: "py \<Rightarrow> bool" where
  "reads v \<longleftrightarrow> (\<forall>l n rest. depth v \<le> n \<longrightarrow> stops rest \<longrightarrow> read_value n (json_dump l v @ rest) = Some (v, rest))"

lemma readsD: "reads v \<Longrightarrow> depth v \<le> n \<Longrightarrow> stops rest \<Longrightarrow> read_value n (json_dump l v @ rest) = Some (v, rest)"
  by (simp add: reads_def)

lemma read_items_back:
  "xs \<noteq> [] \<Longrightarrow> (\<And>x. x \<in> set xs \<Longrightarrow> reads x \<and> json_ok x) \<Longrightarrow> sum_list (map (\<lambda>x. Suc (depth x)) xs) \<le> n \<Longrightarrow>
   read_items n (join ('','' @ newline l) (map (json_dump l) xs) @ newline m @ '']'' @ rest) = Some (xs, rest)"
proof (induction xs arbitrary: n)
  case (Cons x xs)
  then obtain n' where n: "n = Suc n'" by (cases n) auto
  have x: "reads x" and dx: "depth x \<le> n'" using Cons.prems n by auto
  have ws: "\<not> is_ws (CHR '','')" "\<not> is_ws (CHR '']'')" by (simp_all add: is_ws_def)
  show ?case
  proof (cases xs)
    case Nil
    then show ?thesis using n readsD [OF x dx] ws by simp
  next
    case (Cons y ys)
    let ?tail = "join ('','' @ newline l) (map (json_dump l) xs) @ newline m @ '']'' @ rest"
    have "json_ok y" using Cons Cons.prems(2) by simp
    then obtain c r where c: "json_dump l y = c # r" "\<not> is_ws c" using json_dump_head by blast
    have "\<exists>r. ?tail = c # r" using Cons c(1) by (cases ys) auto
    then have t: "skip_ws ?tail = ?tail" using c(2) by auto
    have "read_items n' ?tail = Some (xs, rest)"
      using Cons Cons.IH [of n'] Cons.prems n by simp
    then show ?thesis using Cons n readsD [OF x dx] ws t by simp
  qed
qed simp


lemma read_members_back:
  "d \<noteq> [] \<Longrightarrow> (\<And>kv. kv \<in> set d \<Longrightarrow> reads (snd kv) \<and> json_ok (snd kv)) \<Longrightarrow>
   sum_list (map (\<lambda>kv. Suc (depth (snd kv))) d) \<le> n \<Longrightarrow>
   read_members n (join ('','' @ newline l) (map (\<lambda>(k, v). json_string k @ '': '' @ json_dump l v) d)
     @ newline m @ ''}'' @ rest) = Some (d, rest)"
proof (induction d arbitrary: n)
  case (Cons kv d)
  obtain k v where kv: "kv = (k, v)" by (cases kv)
  from Cons.prems obtain n' where n: "n = Suc n'" by (cases n) auto
  have v: "reads v" and ok: "json_ok v" using Cons.prems(2) [of kv] kv by simp_all
  have dv: "depth v \<le> n'" using Cons.prems(3) n kv by simp
  have ws: "\<not> is_ws (CHR '','')" "\<not> is_ws (CHR ''}'')" "\<not> is_ws (CHR '':'')" "is_ws (CHR '' '')"
    "\<not> is_ws (CHR 0x22)"
    by (simp_all add: is_ws_def)
  obtain c r where c: "json_dump l v = c # r" "\<not> is_ws c" using json_dump_head [OF ok] by blast
  have sv: "skip_ws (CHR '' '' # json_dump l v @ s) = json_dump l v @ s" for s
    using ws(4) c by (simp add: skip_ws_def)
  have key: "read_string (concat (map json_escape k) @ CHR 0x22 # s) = Some (k, s)" for s
    by (rule read_string_back)
  show ?case
  proof (cases d)
    case Nil
    have "read_value n' (json_dump l v @ newline m @ ''}'' @ rest) = Some (v, newline m @ ''}'' @ rest)"
      by (rule readsD [OF v dv]) simp
    then show ?thesis using n kv Nil ws sv key by (simp add: json_string_def)
  next
    case (Cons p ps)
    let ?tail = "join ('','' @ newline l) (map (\<lambda>(k, v). json_string k @ '': '' @ json_dump l v) d) @ newline m @ ''}'' @ rest"
    have "\<exists>r. ?tail = CHR 0x22 # r" using Cons by (cases p; cases ps) (auto simp: json_string_def)
    then have t: "skip_ws ?tail = ?tail" using ws(5) by auto
    have ih: "read_members n' ?tail = Some (d, rest)"
      using Cons Cons.IH [of n'] Cons.prems n by simp
    have "read_value n' (json_dump l v @ '','' @ newline l @ ?tail) = Some (v, '','' @ newline l @ ?tail)"
      by (rule readsD [OF v dv]) simp
    then have "read_members n (json_string k @ '': '' @ json_dump l v @ '','' @ newline l @ ?tail) = Some ((k, v) # d, rest)"
      using n ws sv key t ih by (simp add: json_string_def)
    then show ?thesis using Cons kv by simp
  qed
qed simp

lemma dmerge_pairs: "distinct (map fst (a @ d)) \<Longrightarrow> dmerge a d = a @ d"
proof (induction d arbitrary: a)
  case (Cons kv d)
  obtain k v where kv: "kv = (k, v)" by (cases kv)
  have "k \<notin> fst ` set a" using Cons.prems kv by auto
  then have "dset a k v = a @ [(k, v)]"
    unfolding dset_def by (induction a) auto
  then show ?case using Cons.IH [of "a @ [(k, v)]"] Cons.prems kv by simp
qed simp

lemma json_reads: "json_ok v \<Longrightarrow> reads v"
proof (induction v)
  case (PInt i)
  obtain d :: nat and r where h: "nat_digits (nat i) = char_of (48 + d) # r" "d < 10"
    using nat_digits_head by blast
  have "char_of (48 + d) \<noteq> CHR 0x22" "char_of (48 + d) \<noteq> CHR ''[''" "char_of (48 + d) \<noteq> CHR ''{''"
    by (rule digit_char_neq [OF h(2)], code_simp)+
  then have "\<exists>c r. show_int i = c # r \<and> c \<noteq> CHR 0x22 \<and> c \<noteq> CHR ''['' \<and> c \<noteq> CHR ''{''"
    using h(1) by (auto simp: show_int_def)
  then obtain c q where c: "show_int i = c # q" "c \<noteq> CHR 0x22" "c \<noteq> CHR ''[''" "c \<noteq> CHR ''{''" by blast
  show ?case unfolding reads_def
  proof (intro allI impI)
    fix l n rest assume "depth (PInt i) \<le> n" "stops rest"
    then obtain n' where n: "n = Suc n'" by (cases n) auto
    show "read_value n (json_dump l (PInt i) @ rest) = Some (PInt i, rest)"
      using read_atom_int [OF \<open>stops rest\<close>, of i] c n by simp
  qed
next
  case (PStr s)
  show ?case unfolding reads_def
  proof (intro allI impI)
    fix l n rest assume "depth (PStr s) \<le> n"
    then obtain n' where n: "n = Suc n'" by (cases n) auto
    show "read_value n (json_dump l (PStr s) @ rest) = Some (PStr s, rest)"
      using n read_string_back [of s rest] by (simp add: json_string_def)
  qed
next
  case (PList xs)
  have xs: "reads x \<and> json_ok x" if "x \<in> set xs" for x
    using PList that by (auto simp: list_all_iff)
  show ?case unfolding reads_def
  proof (intro allI impI)
    fix l n rest assume d: "depth (PList xs) \<le> n"
    then obtain n' where n: "n = Suc n'" by (cases n) auto
    have ws: "\<not> is_ws (CHR '']'')" by (simp add: is_ws_def)
    show "read_value n (json_dump l (PList xs) @ rest) = Some (PList xs, rest)"
    proof (cases xs)
      case Nil
      then show ?thesis using n ws by simp
    next
      case (Cons y ys)
      let ?body = "join ('','' @ newline (Suc l)) (map (json_dump (Suc l)) xs) @ newline l @ '']'' @ rest"
      obtain c r where c: "json_dump (Suc l) y = c # r" "\<not> is_ws c" "c \<noteq> CHR '']''"
        using json_dump_head xs [of y] Cons by (metis list.set_intros(1))
      have b: "\<exists>r. ?body = c # r" using Cons c(1) by (cases ys) auto
      have "read_items n' ?body = Some (xs, rest)"
        using Cons xs d n by (intro read_items_back) auto
      with b c(2,3) n Cons show ?thesis by auto
    qed
  qed
next
  case (PDict d)
  have vs: "reads (snd kv) \<and> json_ok (snd kv)" if "kv \<in> set d" for kv
    using PDict that by (cases kv) (auto simp: list_all_iff snds.simps)
  show ?case unfolding reads_def
  proof (intro allI impI)
    fix l n rest assume m: "depth (PDict d) \<le> n"
    then obtain n' where n: "n = Suc n'" by (cases n) auto
    have ws: "\<not> is_ws (CHR ''}'')" "\<not> is_ws (CHR 0x22)" by (simp_all add: is_ws_def)
    show "read_value n (json_dump l (PDict d) @ rest) = Some (PDict d, rest)"
    proof (cases d)
      case Nil
      then show ?thesis using n ws by simp
    next
      case (Cons p ps)
      let ?body = "join ('','' @ newline (Suc l)) (map (\<lambda>(k, v). json_string k @ '': '' @ json_dump (Suc l) v) d) @ newline l @ ''}'' @ rest"
      have b: "\<exists>r. ?body = CHR 0x22 # r" using Cons by (cases p; cases ps) (auto simp: json_string_def)
      have r: "read_members n' ?body = Some (d, rest)"
        using Cons vs m n by (intro read_members_back) auto
      have "dmerge [] d = d" using PDict.prems dmerge_pairs [of "[]" d] by simp
      with r b ws(2) n Cons show ?thesis by auto
    qed
  qed
next
  case PNone
  show ?case unfolding reads_def
    by (auto simp: read_atom_def read_word_def List.map_filter_simps startswith_Cons gr0_conv_Suc Suc_le_eq)
next
  case (PBool b)
  show ?case unfolding reads_def
    by (auto simp: read_atom_def read_word_def List.map_filter_simps startswith_Cons gr0_conv_Suc Suc_le_eq)
qed simp

lemma join_length: "sum_list (map (\<lambda>s. Suc (length s)) ss) \<le> Suc (length (join (c # sep) ss))"
  by (induction "c # sep" ss rule: join.induct) auto

lemma list_depth:
  assumes "\<And>x. x \<in> set xs \<Longrightarrow> g x \<le> length (f x)"
  shows "sum_list (map (\<lambda>x. Suc (g x)) xs) \<le> Suc (length (join (c # sep) (map f xs)))"
proof -
  have "sum_list (map (\<lambda>x. Suc (g x)) xs) \<le> sum_list (map (\<lambda>x. Suc (length (f x))) xs)"
    using assms by (intro sum_list_mono) simp
  also have "\<dots> = sum_list (map (\<lambda>s. Suc (length s)) (map f xs))" by (simp add: comp_def)
  finally show ?thesis using join_length [of "map f xs" c sep] by linarith
qed

lemma depth_length: "json_ok v \<Longrightarrow> depth v \<le> length (json_dump l v)"
proof (induction v arbitrary: l)
  case (PInt i)
  have "length (nat_digits n) > 0" for n by (subst nat_digits.simps) simp
  then show ?case by (auto simp: show_int_def Suc_le_eq)
next
  case (PList xs)
  then have "sum_list (map (\<lambda>x. Suc (depth x)) xs) \<le> Suc (length (join ('','' @ newline (Suc l)) (map (json_dump (Suc l)) xs)))"
    unfolding append_Cons append_Nil by (intro list_depth) (auto simp: list_all_iff)
  then show ?case by (simp add: newline_def)
next
  case (PDict d)
  have "depth (snd kv) \<le> length ((\<lambda>(k, v). json_string k @ '': '' @ json_dump (Suc l) v) kv)" if "kv \<in> set d" for kv
  proof -
    obtain k v where kv: "kv = (k, v)" by (cases kv)
    have "depth v \<le> length (json_dump (Suc l) v)"
      using that PDict.prems kv by (intro PDict.IH [OF that]) (auto simp: list_all_iff snds.simps)
    then show ?thesis using kv by simp
  qed
  then have "sum_list (map (\<lambda>kv. Suc (depth (snd kv))) d)
      \<le> Suc (length (join ('','' @ newline (Suc l)) (map (\<lambda>(k, v). json_string k @ '': '' @ json_dump (Suc l) v) d)))"
    unfolding append_Cons append_Nil by (intro list_depth) auto
  then show ?case by (simp add: newline_def)
qed (auto simp: json_string_def)

lemma json_loads_dumps: "json_ok v \<Longrightarrow> json_loads (json_dumps v) = Some v"
proof -
  assume ok: "json_ok v"
  obtain c r where c: "json_dump 0 v = c # r" "\<not> is_ws c" using json_dump_head [OF ok] by blast
  then have s: "skip_ws (json_dump 0 v) = json_dump 0 v" by simp
  have "read_value (Suc (length (json_dump 0 v))) (json_dump 0 v @ []) = Some (v, [])"
    using depth_length [OF ok, of 0] by (intro readsD [OF json_reads [OF ok]]) auto
  then show ?thesis using s by (simp add: json_loads_def json_dumps_def skip_ws_def)
qed

end
