(* ===== verification/Agent_Tools.thy ===== *)
theory Agent_Tools
  imports State_Reads Refinement Json Files
begin

text \<open>
  The tools the agents of the council call (mobility_agent/runtime/agent_tools.py).

  \<^item> \<open>check_legality\<close>, the guard every proposed action passes: what it refuses and why, with the
    evidence an action needs (\<open>required_evidence_status\<close>) and the parameters of channel actions in
    canonical form.
  \<^item> The read-only views of a run: capability metadata, execution status, observation synthesis,
    workspace and artifact inspection, the state of a human request.
  \<^item> \<open>write_runtime_artifacts\<close>, which writes the final files of a run, and the batch summary.

  A request is an argument; the state is a loaded state (see \<open>State_Reads\<close>). Retrieval of policy
  evidence, memory and skills go to services outside the program's own logic and are not modelled.
\<close>

section \<open>Tasks and evidence\<close>

definition task_lists :: "(string \<times> board_key) list" where
  "task_lists = [(''pending'', Pending), (''active'', Active), (''completed'', Completed), (''blocked'', Blocked), (''abandoned'', Abandoned)]"

definition task_status :: "dict \<Rightarrow> string option \<Rightarrow> string" where
  "task_status st capability =
     (if str_or capability [] = [] then ''none''
      else case find (\<lambda>(name, key). list_ex (\<lambda>t. cap t = the capability) (tasks key (board_of st))) task_lists of
             Some (name, _) \<Rightarrow> name | None \<Rightarrow> ''unknown'')"

definition run_status_of :: "dict \<Rightarrow> string" where
  "run_status_of st = fld_text st ''workflow'' ''run_status''"

definition finished_statuses :: "string list" where
  "finished_statuses = [''ready_to_finalize'', ''completed'', ''failed'', ''aborted'', ''skipped'']"

definition evidence_holds :: "dict \<Rightarrow> string \<Rightarrow> bool res" where
  "evidence_holds st evidence =
     (let fit = fld_dict st ''diagnostics'' ''fit_diagnostics''; last_error = truthy (fld st ''diagnostics'' ''last_error'')
      in if evidence = ''latest_failure'' then
           Inr (get_str (fld_dict st ''execution'' ''latest_execution_observation'') ''status'' = ''failed'')
         else if evidence = ''dependency_mismatch_or_failed_downstream'' then
           Inr (last_error \<or> truthy (fld st ''blackboard'' ''risk_flags''))
         else if evidence = ''fit_quality_warning'' then
           bindR (to_float (py_or (dget fit ''effective_fit_quality'' (dget fit ''fit_r2_min'' (PFloat (Fin 1)))) (PFloat (Fin 1))))
             (\<lambda>q. Inr (flt_lt q (Fin (9 / 10))))
         else if evidence = ''results_present'' then
           Inr (truthy (fld st ''physics_results'' ''results'') \<or> truthy (fld st ''diagnostics'' ''validation_report''))
         else if evidence = ''channel_specific_anomaly'' then Inr (fld_list st ''blackboard'' ''anomaly_flags'' \<noteq> [])
         else if evidence = ''channel_specific_failure'' then Inr (truthy (fld st ''physics_results'' ''rejected_channels''))
         else if evidence = ''insufficient_automation_confidence'' then
           (let confidence = fld st ''diagnostics'' ''confidence_score'' in
            if confidence = PNone then Inr True
            else bindR (to_float (py_or confidence (PFloat (Fin 0)))) (\<lambda>c. Inr (flt_lt c (Fin (3 / 4)))))
         else if evidence = ''result_or_terminal_status'' then
           Inr (truthy (fld st ''physics_results'' ''results'') \<or> run_status_of st \<in> set finished_statuses)
         else if evidence = ''terminal_failure'' then
           Inr (run_status_of st \<in> {''failed'', ''aborted'', ''needs_recovery''} \<or> last_error)
         else if evidence = ''context_corruption_or_missing_artifacts'' then Inr last_error
         else Inr False)"

definition required_evidence_status :: "dict \<Rightarrow> string list \<Rightarrow> (string \<times> bool) list res" where
  "required_evidence_status st required = mapR (\<lambda>ev. bindR (evidence_holds st ev) (\<lambda>ok. Inr (ev, ok))) required"

section \<open>Parameters of channel actions\<close>

definition alias_keys :: "string \<Rightarrow> string list" where
  "alias_keys family =
     (if family = ''invalidate_channel'' then [''channels_to_invalidate'', ''channels'', ''target_directions'', ''directions'']
      else [''channels_to_skip'', ''channels'', ''target_directions'', ''directions''])"

definition requested_channels :: "string \<Rightarrow> dict \<Rightarrow> py" where
  "requested_channels family params =
     (case find (\<lambda>k. dget0 params k \<noteq> PNone) (''target_channels'' # alias_keys family) of
        Some k \<Rightarrow> dget0 params k
      | None \<Rightarrow> (let single = py_or (dget0 params ''channel'') (dget0 params ''target_channel'')
                 in if truthy single then PList [single] else PList []))"

definition canonicalize_channel_action_parameters :: "string \<Rightarrow> dict \<Rightarrow> dict res" where
  "canonicalize_channel_action_parameters family params =
     (if family \<notin> {''invalidate_channel'', ''skip_channel''} then Inr params
      else
        (let raw = requested_channels family params; raw' = (if is_str raw then PList [raw] else raw)
         in bindR (to_list (py_or raw' (PList []))) (\<lambda>xs.
              let target_channels = filter (\<lambda>s. s \<noteq> []) (map (py_strip \<circ> py_str) xs)
              in Inr (if target_channels \<noteq> [] then dset params ''target_channels'' (str_list target_channels) else params))))"

section \<open>Legality\<close>

record legality_request =
  lq_action_family :: string
  lq_target_capability :: "string option"
  lq_parameters :: dict
  lq_submit_external_job :: bool
  lq_wait_for_event :: bool

record legality_result =
  lr_allowed :: bool
  lr_action_family :: string
  lr_target_capability :: "string option"
  lr_refusal_reasons :: "string list"
  lr_dependency_status :: "(string \<times> bool) list"
  lr_evidence_status :: "(string \<times> bool) list"
  lr_task_board_status :: string
  lr_fallback_action :: string
  lr_warnings :: "string list"

definition targeted_families :: "string list" where
  "targeted_families = [''run_capability'', ''retry_capability'', ''rerun_from_capability'', ''refine_sampling'', ''revalidate_result'']"

definition pending_job_statuses :: "string list" where
  "pending_job_statuses = [''submitted'', ''running'', ''waiting'']"

definition external_job_pending :: "dict \<Rightarrow> string \<Rightarrow> bool" where
  "external_job_pending st target \<longleftrightarrow>
     list_ex (\<lambda>job. get_str job ''target_capability'' = target \<and> get_str job ''status'' \<in> set pending_job_statuses)
       (objects_in (fld_list st ''execution'' ''external_jobs''))"

definition completed_names :: "dict \<Rightarrow> string list" where
  "completed_names st = map (\<lambda>t. py_str (dget0 t ''capability'')) (completed_tasks (board_of st))"

definition dependency_status :: "dict \<Rightarrow> string option \<Rightarrow> (string \<times> bool) list" where
  "dependency_status st target =
     map (\<lambda>dep. (dep, dep \<in> set (completed_names st))) (capability_dependencies (str_or target []))"

definition missing_dependencies :: "dict \<Rightarrow> string option \<Rightarrow> string list" where
  "missing_dependencies st target = map fst (filter (\<lambda>p. \<not> snd p) (dependency_status st target))"

definition retries_of :: "dict \<Rightarrow> string \<Rightarrow> int" where
  "retries_of st target = int_or0 (dget (fld_dict st ''workflow'' ''retry_counts'') target (PInt 0))"

definition waiting_without_event :: "dict \<Rightarrow> bool" where
  "waiting_without_event st \<longleftrightarrow>
     run_status_of st = ''waiting_external'' \<and> fld_list st ''execution'' ''pending_events'' = []"

text \<open>The refusals that come before the refinement plan is looked at, in the order of the code.\<close>

definition status_refusals :: "dict \<Rightarrow> legality_request \<Rightarrow> dict \<Rightarrow> string list" where
  "status_refusals st q params =
     (let fam = lq_action_family q; target = str_or (lq_target_capability q) [];
          constraints = fld_dict st ''mission'' ''runtime_constraints''
      in on (truthy (fld st ''services'' ''pending_human_payload'') \<and> \<not> truthy (fld st ''services'' ''latest_human_decision'')
             \<and> fam \<noteq> ''escalate_human'') ''human_override_pending''
       @ on (run_status_of st \<in> set TERMINAL_RUN_STATUSES) (''terminal_run_status:'' @ run_status_of st)
       @ on ((lq_submit_external_job q \<or> lq_wait_for_event q) \<and> truthy (dget constraints ''full_autonomy'' (PBool False))
             \<and> \<not> truthy (dget constraints ''allow_external_wait'' (PBool False))) ''external_wait_not_allowed_in_full_autonomy''
       @ on (waiting_without_event st \<and> fam \<notin> {''abort_material'', ''escalate_human''}) ''waiting_external_event''
       @ on (fam \<in> set targeted_families \<and> target = []) ''missing_target_capability''
       @ on (fam \<in> {''invalidate_channel'', ''skip_channel''} \<and> sub_list params ''target_channels'' = [])
           ''missing_required_parameter:target_channels''
       @ on (target \<noteq> [] \<and> target \<notin> set STAGE_ORDER) (''unknown_target_capability:'' @ target))"

definition target_refusals :: "dict \<Rightarrow> legality_request \<Rightarrow> string list" where
  "target_refusals st q =
     (let fam = lq_action_family q; t = str_or (lq_target_capability q) []; runs = (fam \<in> {''run_capability'', ''retry_capability''} \<and> t \<noteq> []);
          missing = missing_dependencies st (lq_target_capability q); status = task_status st (lq_target_capability q);
          budget = fld_int st ''workflow'' ''retry_budget''
      in on (runs \<and> missing \<noteq> []) (''missing_dependencies:'' @ join '','' missing)
       @ on (runs \<and> status = ''completed'' \<and> fam = ''run_capability'') (''target_task_already_completed:'' @ t)
       @ on (runs \<and> status = ''active'') (''target_task_already_active:'' @ t)
       @ on (t \<noteq> [] \<and> external_job_pending st t \<and> fam \<in> set targeted_families) (''external_job_already_pending:'' @ t)
       @ on (fam = ''retry_capability'' \<and> t \<noteq> [] \<and> budget \<le> retries_of st t)
           (''retry_budget_exhausted:'' @ t @ '':'' @ show_int (retries_of st t) @ ''/'' @ show_int budget))"

definition refinement_refusals :: "dict \<Rightarrow> legality_request \<Rightarrow> dict \<Rightarrow> string list res" where
  "refinement_refusals st q params =
     (if lq_action_family q \<noteq> ''refine_sampling'' then Inr []
      else
        (let rounds = fld_int st ''workflow'' ''refinement_rounds''; max_rounds = fld_int st ''workflow'' ''max_refinement_rounds''
         in bindR (resolve_refinement_sampling st params DEFAULT_REFINEMENT_TARGET_POINTS DEFAULT_FIT_R2_THRESHOLD) (\<lambda>plan.
              Inr (on (max_rounds \<le> rounds) (''refinement_budget_exhausted:'' @ show_int rounds @ ''/'' @ show_int max_rounds)
                   @ on (rp_applied_points plan = []) ''no_fresh_refinement_points''))))"

definition validation_ready_to_finalize :: "dict \<Rightarrow> bool" where
  "validation_ready_to_finalize st =
     validation_report_supports_finalize (fld_dict st ''diagnostics'' ''validation_report'')
       (Some (get_str (fld_dict st ''workflow'' ''stage_status'') ''validation''))
       (fld_dict st ''execution'' ''latest_execution_observation'')"

definition closing_refusals :: "dict \<Rightarrow> legality_request \<Rightarrow> string list" where
  "closing_refusals st q =
     (let fam = lq_action_family q; t = (case lq_target_capability q of None \<Rightarrow> ''None'' | Some c \<Rightarrow> c);
          status = task_status st (lq_target_capability q)
      in on (fam = ''finalize_material'' \<and> \<not> validation_ready_to_finalize st \<and> \<not> all_tasks_resolved (board_of st))
           ''finalize_requires_all_tasks_resolved''
       @ on (fam = ''finalize_material'' \<and> run_status_of st = ''waiting_external'') ''cannot_finalize_while_waiting_external''
       @ on (fam \<in> {''run_capability'', ''retry_capability''} \<and> status = ''abandoned'') (''target_task_abandoned:'' @ t)
       @ on (fam = ''escalate_human'' \<and> status = ''completed'') (''completed_task_does_not_require_escalation:'' @ t))"

definition legality_warnings :: "dict \<Rightarrow> legality_request \<Rightarrow> string list res" where
  "legality_warnings st q =
     (let fam = lq_action_family q; latest = fld_dict st ''execution'' ''latest_execution_observation''
      in bindR (if lq_target_capability q = Some ''validation'' \<and> fam \<in> {''run_capability'', ''revalidate_result''}
                then validation_requires_refinement st DEFAULT_REFINEMENT_TARGET_POINTS DEFAULT_FIT_R2_THRESHOLD
                else Inr False) (\<lambda>refine.
           Inr (on refine ''validation_has_available_refinement_followup''
                @ on (fam = ''abort_material''
                       \<and> run_status_of st \<notin> {''failed'', ''needs_recovery'', ''needs_human'', ''skipped'', ''aborted''}
                       \<and> dget0 latest ''status'' \<notin> {PStr ''failed'', PStr ''skipped''}) ''abort_without_terminal_failure'')))"

definition check_legality :: "dict \<Rightarrow> legality_request \<Rightarrow> legality_result res" where
  "check_legality st q =
     (let fam = lq_action_family q; target = lq_target_capability q; result =
        \<lparr>lr_allowed = False, lr_action_family = fam, lr_target_capability = target, lr_refusal_reasons = [],
         lr_dependency_status = [], lr_evidence_status = [], lr_task_board_status = task_status st target,
         lr_fallback_action = ''abort_material'', lr_warnings = []\<rparr>
      in if fam \<notin> set list_action_families then
           Inr (result\<lparr>lr_refusal_reasons := [''unknown_action_family:'' @ (if fam = [] then ''unset'' else fam)]\<rparr>)
         else
           bindR (get_action_spec fam) (\<lambda>spec.
           bindR (canonicalize_channel_action_parameters fam (lq_parameters q)) (\<lambda>params.
           bindR (refinement_refusals st q params) (\<lambda>refinement.
           bindR (legality_warnings st q) (\<lambda>warnings.
           bindR (required_evidence_status st (as_required_evidence spec)) (\<lambda>evidence.
             let reasons = status_refusals st q params @ target_refusals st q @ refinement @ closing_refusals st q
                   @ map (\<lambda>p. ''missing_required_evidence:'' @ fst p) (filter (\<lambda>p. \<not> snd p) evidence)
             in Inr (result\<lparr>lr_allowed := (reasons = []), lr_refusal_reasons := reasons,
                      lr_dependency_status := dependency_status st target, lr_evidence_status := evidence,
                      lr_fallback_action := (case as_fallback_actions spec of [] \<Rightarrow> ''abort_material'' | a # _ \<Rightarrow> a),
                      lr_warnings := warnings\<rparr>)))))))"

section \<open>Views of a run\<close>

record capability_metadata =
  cm_dependencies :: "string list"
  cm_legal_parameters :: "string list"
  cm_required_evidence :: "string list"
  cm_expected_artifacts :: "string list"
  cm_fallback_actions :: "string list"
  cm_cost_class :: string
  cm_risk_class :: string
  cm_required_inputs :: "string list"
  cm_canonical_outputs :: "string list"
  cm_invalidates_downstream :: "string list"

definition list_or :: "'a list \<Rightarrow> 'a list \<Rightarrow> 'a list" where
  "list_or xs ys = (if xs = [] then ys else xs)"

definition default_metadata :: capability_metadata where
  "default_metadata =
     \<lparr>cm_dependencies = [], cm_legal_parameters = [], cm_required_evidence = [], cm_expected_artifacts = [],
      cm_fallback_actions = [], cm_cost_class = ''medium'', cm_risk_class = ''medium'', cm_required_inputs = [],
      cm_canonical_outputs = [], cm_invalidates_downstream = []\<rparr>"

definition query_capability_metadata :: "string option \<Rightarrow> string option \<Rightarrow> capability_metadata res" where
  "query_capability_metadata action_family capability =
     (let family = str_or action_family []; c = str_or capability []
      in bindR (if family = [] then Inr default_metadata
                else bindR (get_action_spec family) (\<lambda>s. Inr (default_metadata
                  \<lparr>cm_dependencies := as_dependencies s, cm_legal_parameters := as_legal_parameters s,
                   cm_required_evidence := as_required_evidence s, cm_expected_artifacts := as_expected_artifacts s,
                   cm_fallback_actions := as_fallback_actions s, cm_cost_class := as_cost_class s,
                   cm_risk_class := as_risk_class s\<rparr>))) (\<lambda>m.
         if c = [] \<or> c \<notin> set STAGE_ORDER then Inr m
         else bindR (get_stage_contract c) (\<lambda>contract.
           Inr (m\<lparr>cm_dependencies := list_or (capability_dependencies c) (cm_dependencies m),
                  cm_required_inputs := sc_required_inputs contract,
                  cm_canonical_outputs := sc_canonical_outputs contract,
                  cm_invalidates_downstream := sc_invalidates_downstream contract,
                  cm_expected_artifacts := list_or (cm_expected_artifacts m) (sc_artifact_patterns contract)\<rparr>))))"

text \<open>\<open>retry_budget_remaining\<close> is a dict over a set of names: its order is not determined by the code.\<close>

record execution_status =
  es_current_stage :: string
  es_run_status :: string
  es_latest_status :: string
  es_pending :: "string list"
  es_active :: "string list"
  es_completed :: "string list"
  es_blocked :: "string list"
  es_abandoned :: "string list"
  es_retry_counts :: "(string \<times> int) list"
  es_retry_budget_remaining :: "(string \<times> int) list"
  es_refinement_rounds :: int
  es_max_refinement_rounds :: int
  es_next_pending :: "string option"
  es_latest_error :: "string option"
  es_all_tasks_resolved :: bool
  es_wait_reason :: "string option"
  es_external_jobs_pending :: "string list"
  es_pending_event_count :: nat

definition caps_of :: "task list \<Rightarrow> string list" where
  "caps_of ts = filter (\<lambda>c. py_strip c \<noteq> []) (map cap ts)"

definition some_text :: "string \<Rightarrow> string option" where
  "some_text s = (if s = [] then None else Some s)"

definition query_execution_status :: "dict \<Rightarrow> execution_status res" where
  "query_execution_status st =
     (let b = board_of st; budget = fld_int st ''workflow'' ''retry_budget'';
          counts = map (\<lambda>(k, v). (k, int_or0 v)) (fld_dict st ''workflow'' ''retry_counts'');
          names = dedupe (caps_of (pending_tasks b @ active_tasks b @ completed_tasks b @ blocked_tasks b @ abandoned_tasks b)
                          @ map fst counts);
          jobs = filter (\<lambda>job. get_str job ''status'' \<in> set pending_job_statuses)
                   (objects_in (fld_list st ''execution'' ''external_jobs''))
      in bindR (next_pending_task b) (\<lambda>nxt.
           Inr \<lparr>es_current_stage = fld_text st ''workflow'' ''current_stage'', es_run_status = run_status_of st,
                es_latest_status = fld_text st ''execution'' ''action_status'',
                es_pending = caps_of (pending_tasks b), es_active = caps_of (active_tasks b),
                es_completed = caps_of (completed_tasks b), es_blocked = caps_of (blocked_tasks b),
                es_abandoned = caps_of (abandoned_tasks b), es_retry_counts = counts,
                es_retry_budget_remaining =
                  map (\<lambda>c. (c, max 0 (budget - (case map_of counts c of None \<Rightarrow> 0 | Some n \<Rightarrow> n)))) names,
                es_refinement_rounds = fld_int st ''workflow'' ''refinement_rounds'',
                es_max_refinement_rounds = fld_int st ''workflow'' ''max_refinement_rounds'',
                es_next_pending = Option.bind nxt (\<lambda>t. some_text (cap t)),
                es_latest_error = some_text (fld_text st ''diagnostics'' ''last_error''),
                es_all_tasks_resolved = all_tasks_resolved b,
                es_wait_reason = some_text (fld_text st ''workflow'' ''wait_reason''),
                es_external_jobs_pending = filter (\<lambda>j. j \<noteq> []) (map (\<lambda>job. get_str job ''job_id'') jobs),
                es_pending_event_count = length (fld_list st ''execution'' ''pending_events'')\<rparr>))"

record observation =
  ob_anomaly_flags :: "string list"
  ob_risk_flags :: "string list"
  ob_fit_quality :: "flt option"
  ob_mobility_window :: dict
  ob_validation_summary :: dict
  ob_accepted_channels :: "py list"
  ob_rejected_channels :: "py list"
  ob_confidence_score :: py
  ob_warnings :: "py list"

definition no_window :: dict where
  "no_window =
     [(''results_present'', PBool False), (''fit_r2_min'', PNone), (''energy_fit_r2_min'', PNone), (''edge_fit_r2_min'', PNone),
      (''effective_fit_quality'', PNone), (''e1_sigma_max'', PNone), (''c2d_sigma_max'', PNone), (''warnings'', PList []),
      (''anomaly_flags'', PList []), (''per_direction'', PDict [])]"

definition mobility_metrics :: "dict \<Rightarrow> dict res" where
  "mobility_metrics raw_results =
     bindR (get_dict raw_results ''results_by_direction'') (\<lambda>by_direction.
       if by_direction = [] then Inr no_window
       else bindR (validate_physics_window raw_results) (\<lambda>w. Inr (dmerge [(''results_present'', PBool True)] w)))"

definition synthesize_observation :: "dict \<Rightarrow> observation res" where
  "synthesize_observation st =
     bindR (mobility_metrics (fld_dict st ''physics_results'' ''results'')) (\<lambda>metrics.
     bindR (detect_basic_anomalies [(''errors'', fld st ''diagnostics'' ''errors''), (''run_status'', fld st ''workflow'' ''run_status''),
              (''confidence_score'', fld st ''diagnostics'' ''confidence_score'')]) (\<lambda>basic.
     let flags = map py_str (py_dedupe (sub_list metrics ''anomaly_flags'' @ map PStr basic));
         fit = fld_dict st ''diagnostics'' ''fit_diagnostics'';
         own = dget fit ''effective_fit_quality'' (dget0 fit ''fit_r2_min'');
         quality = (if own = PNone then dget0 metrics ''effective_fit_quality'' else own)
     in bindR (if quality = PNone then Inr None else bindR (to_float quality) (\<lambda>x. Inr (Some x))) (\<lambda>q.
          Inr \<lparr>ob_anomaly_flags = flags,
               ob_risk_flags = dedupe (flags @ (case q of None \<Rightarrow> [] | Some x \<Rightarrow>
                 on (flt_lt x (Fin (9 / 10))) (''fit_quality_below_threshold:'' @ fixed3 x))),
               ob_fit_quality = q, ob_mobility_window = metrics,
               ob_validation_summary = fld_dict st ''diagnostics'' ''validation_report'',
               ob_accepted_channels = fld_list st ''physics_results'' ''accepted_channels'',
               ob_rejected_channels = fld_list st ''physics_results'' ''rejected_channels'',
               ob_confidence_score = fld st ''diagnostics'' ''confidence_score'',
               ob_warnings = fld_list st ''material'' ''warnings''\<rparr>)))"

section \<open>Workspaces and artifacts\<close>

definition existing_paths :: "env \<Rightarrow> fs \<Rightarrow> string list \<Rightarrow> string list" where
  "existing_paths e f ps = map (abspath e) (filter (\<lambda>p. p \<noteq> [] \<and> path_exists f p) ps)"

definition artifact_paths_for_stage :: "fs \<Rightarrow> string \<Rightarrow> string option \<Rightarrow> string list res" where
  "artifact_paths_for_stage f workdir capability =
     (let c = str_or capability [] in
      if c = [] \<or> c \<notin> set STAGE_ORDER then Inr []
      else bindR (stage_artifacts f workdir c) (\<lambda>ps. Inr (dedupe ps)))"

record artifact_inspection =
  ai_stage_dir_exists :: bool
  ai_expected :: "string list"
  ai_existing :: "string list"
  ai_missing :: "string list"
  ai_log_paths :: "string list"
  ai_warnings :: "string list"

definition inspect_artifacts :: "env \<Rightarrow> fs \<Rightarrow> string \<Rightarrow> string option \<Rightarrow> string list \<Rightarrow> artifact_inspection res" where
  "inspect_artifacts e f workdir0 target registry =
     (let workdir = abspath e workdir0; t = str_or target []; existing = existing_paths e f registry
      in bindR (artifact_paths_for_stage f workdir target) (\<lambda>expected.
         let missing = filter (\<lambda>p. p \<notin> set existing \<and> \<not> path_exists f p) expected
         in Inr \<lparr>ai_stage_dir_exists = (t \<noteq> [] \<and> (list_ex (\<lambda>p. contains (basename p) t) existing \<or> expected \<noteq> [])),
                 ai_expected = expected, ai_existing = existing, ai_missing = missing,
                 ai_log_paths = existing_paths e f (map (path_join workdir)
                   [''sout'', ''vasp_relax_retry.log'', ''human_escalation_log.json'']),
                 ai_warnings = on (t \<noteq> [] \<and> expected = []) ''no_expected_artifacts_declared''
                   @ on (missing \<noteq> []) ''missing_expected_artifacts''\<rparr>))"

definition escalation_paths :: "string \<Rightarrow> string \<times> string \<times> string" where
  "escalation_paths workdir =
     (path_join workdir ''human_escalation_payload.json'', path_join workdir ''human_escalation_response.json'',
      path_join workdir ''human_escalation_log.json'')"

record hitl_inspection =
  hi_paths :: "string \<times> string \<times> string"
  hi_response_exists :: bool
  hi_pending_payload_exists :: bool
  hi_timeout_seconds :: int
  hi_warnings :: "string list"

definition inspect_hitl_state :: "fs \<Rightarrow> string \<Rightarrow> int \<Rightarrow> hitl_inspection" where
  "inspect_hitl_state f workdir timeout =
     (let ps = escalation_paths workdir; payload = path_exists f (fst ps); response = path_exists f (fst (snd ps))
      in \<lparr>hi_paths = ps, hi_response_exists = response, hi_pending_payload_exists = payload,
          hi_timeout_seconds = timeout, hi_warnings = on (payload \<and> \<not> response) ''pending_human_response''\<rparr>)"

section \<open>The final files of a run\<close>

definition deliberation_trace :: "dict \<Rightarrow> py" where
  "deliberation_trace st =
     PDict (map (\<lambda>k. (k, PList (fld_list st ''deliberation'' k)))
       [''rounds'', ''proposals'', ''critiques'', ''preferences'', ''arbitrations'', ''selected_actions'', ''reflections'',
        ''disagreement_records''])"

text \<open>Key of the artifact, name of the file, what it holds.\<close>

definition runtime_files :: "dict \<Rightarrow> dict \<Rightarrow> dict \<Rightarrow> (string \<times> string \<times> py) list" where
  "runtime_files st final_summary material_outcome =
     (let d = (\<lambda>s k. PDict (fld_dict st s k)); l = (\<lambda>s k. PList (fld_list st s k))
      in [(''mobility_results_path'', ''mobility_results.json'', d ''physics_results'' ''results''),
          (''fit_diagnostics_path'', ''fit_diagnostics.json'', d ''diagnostics'' ''fit_diagnostics''),
          (''decision_trace_path'', ''decision_trace.json'', l ''agent'' ''decision_trace''),
          (''tool_trace_path'', ''tool_trace.json'', l ''execution'' ''tool_trace''),
          (''retrieval_trace_path'', ''retrieval_trace.json'', l ''services'' ''retrieval_trace''),
          (''parameter_plan_path'', ''parameter_plan.json'', d ''services'' ''parameter_plans''),
          (''skill_trace_path'', ''skill_trace.json'', PDict
             [(''loaded_skills'', l ''services'' ''loaded_skills''), (''skill_resolution'', d ''services'' ''skill_resolution''),
              (''skill_trace'', l ''execution'' ''skill_trace''), (''available_agent_tools'', l ''services'' ''available_agent_tools'')]),
          (''recovery_trace_path'', ''recovery_trace.json'', l ''diagnostics'' ''recovery_history''),
          (''recovery_diagnosis_path'', ''recovery_diagnosis.json'', d ''diagnostics'' ''recovery_diagnosis''),
          (''validation_report_path'', ''validation_report.json'', d ''diagnostics'' ''validation_report''),
          (''deliberation_trace_path'', ''deliberation_trace.json'', deliberation_trace st),
          (''workflow_contract_path'', ''workflow_contract.json'', d ''services'' ''workflow_contract''),
          (''workflow_contract_history_path'', ''workflow_contract_history.json'', l ''services'' ''workflow_contract_history''),
          (''decision_ledger_path'', ''decision_ledger.json'', l ''services'' ''decision_ledger''),
          (''execution_checkpoint_path'', ''execution_checkpoint.json'', d ''execution'' ''execution_checkpoint''),
          (''final_summary_path'', ''final_summary.json'', PDict final_summary),
          (''material_outcome_path'', ''material_outcome.json'', PDict material_outcome)])"

fun write_files :: "fs \<Rightarrow> string \<Rightarrow> (string \<times> string \<times> py) list \<Rightarrow> fs" where
  "write_files f workdir [] = f"
| "write_files f workdir ((key, name, body) # rest) =
     write_files (write_file f (path_join workdir name) (json_dumps body)) workdir rest"

definition write_runtime_artifacts :: "env \<Rightarrow> fs \<Rightarrow> string \<Rightarrow> dict \<Rightarrow> dict \<Rightarrow> dict \<Rightarrow> fs \<times> (string \<times> string) list" where
  "write_runtime_artifacts e f workdir0 st final_summary material_outcome =
     (let workdir = abspath e workdir0; files = runtime_files st final_summary material_outcome
      in (write_files (makedirs f workdir) workdir files, map (\<lambda>(key, name, _). (key, path_join workdir name)) files))"

section \<open>The summary of a batch\<close>

record batch_summary =
  bs_processed :: nat
  bs_succeeded :: nat
  bs_failed :: nat
  bs_skipped :: nat
  bs_passed :: nat
  bs_warning :: nat
  bs_science_failed :: nat
  bs_unknown :: nat
  bs_failure_stages :: "(string \<times> nat) list"

definition failure_stage_of :: "dict \<Rightarrow> string res" where
  "failure_stage_of outcome =
     bindR (get_dict outcome ''stage_status'') (\<lambda>stage_status.
       let stage = (case find (\<lambda>p. snd p = PStr ''failed'') stage_status of Some p \<Rightarrow> fst p | None \<Rightarrow> [])
       in Inr (if stage \<noteq> [] then stage else py_str (py_or (dget0 outcome ''termination_reason'') (PStr ''unknown''))))"

definition tally_status :: "string \<Rightarrow> batch_summary \<Rightarrow> batch_summary" where
  "tally_status status s =
     (if status = ''completed'' then s\<lparr>bs_succeeded := bs_succeeded s + 1\<rparr>
      else if status = ''skipped'' then s\<lparr>bs_skipped := bs_skipped s + 1\<rparr>
      else s\<lparr>bs_failed := bs_failed s + 1\<rparr>)"

definition tally_science :: "string \<Rightarrow> batch_summary \<Rightarrow> batch_summary" where
  "tally_science bucket s =
     (if bucket = ''passed'' then s\<lparr>bs_passed := bs_passed s + 1\<rparr>
      else if bucket = ''warning'' then s\<lparr>bs_warning := bs_warning s + 1\<rparr>
      else if bucket = ''failed'' then s\<lparr>bs_science_failed := bs_science_failed s + 1\<rparr>
      else s\<lparr>bs_unknown := bs_unknown s + 1\<rparr>)"

definition blame_stage :: "string \<Rightarrow> batch_summary \<Rightarrow> batch_summary" where
  "blame_stage stage s =
     s\<lparr>bs_failure_stages := AList.update stage
         ((case map_of (bs_failure_stages s) stage of None \<Rightarrow> 0 | Some n \<Rightarrow> n) + 1) (bs_failure_stages s)\<rparr>"

definition count_outcome :: "batch_summary \<Rightarrow> dict \<Rightarrow> batch_summary res" where
  "count_outcome s outcome =
     bindR (derive_compute_status_from_outcome_payload outcome) (\<lambda>status.
     bindR (resolve_outcome_scientific_decision outcome) (\<lambda>decision.
     let counted = tally_science (scientific_decision_bucket decision) (tally_status status s)
     in if status = ''completed'' then Inr counted
        else bindR (failure_stage_of outcome) (\<lambda>stage. Inr (blame_stage stage counted))))"

definition summarize_batch_outcomes :: "dict list \<Rightarrow> batch_summary res" where
  "summarize_batch_outcomes outcomes =
     foldR count_outcome
       \<lparr>bs_processed = length outcomes, bs_succeeded = 0, bs_failed = 0, bs_skipped = 0, bs_passed = 0, bs_warning = 0,
        bs_science_failed = 0, bs_unknown = 0, bs_failure_stages = []\<rparr> outcomes"

section \<open>What an allowed action satisfies\<close>

lemma legality_allowed:
  assumes "check_legality st q = Inr r" "lr_allowed r"
  obtains spec params evidence where
    "lq_action_family q \<in> set list_action_families" "get_action_spec (lq_action_family q) = Inr spec"
    "canonicalize_channel_action_parameters (lq_action_family q) (lq_parameters q) = Inr params"
    "status_refusals st q params = []" "target_refusals st q = []" "refinement_refusals st q params = Inr []"
    "closing_refusals st q = []"
    "required_evidence_status st (as_required_evidence spec) = Inr evidence" "\<forall>p\<in>set evidence. snd p"
proof -
  have k: "lq_action_family q \<in> set list_action_families"
    using assms by (auto simp: check_legality_def Let_def split: if_splits)
  with assms that show ?thesis
    by (clarsimp simp: check_legality_def Let_def filter_empty_conv)
qed

lemma evidence_shown:
  "required_evidence_status st evs = Inr evidence \<Longrightarrow> \<forall>p\<in>set evidence. snd p \<Longrightarrow> ev \<in> set evs \<Longrightarrow> evidence_holds st ev = Inr True"
  unfolding required_evidence_status_def
  by (induction evs arbitrary: evidence) auto

lemma retry_needs_failure:
  "get_action_spec ''retry_capability'' = Inr spec \<Longrightarrow> ''latest_failure'' \<in> set (as_required_evidence spec)"
  by (simp add: get_action_spec_def ACTION_REGISTRY_def action_spec_def) auto


text \<open>The scheduler and the guard read the same board: a task the scheduler offers is pending with its
  dependencies met.\<close>

lemma run_capability_spec:
  "get_action_spec ''run_capability'' = Inr (snd (hd ACTION_REGISTRY))"
  "as_required_evidence (snd (hd ACTION_REGISTRY)) = []" "''run_capability'' \<in> set list_action_families"
  by (simp_all add: get_action_spec_def ACTION_REGISTRY_def action_spec_def list_action_families_def)

lemma pending_task_status:
  assumes "t \<in> set (pending_tasks (board_of st))" "cap t \<noteq> []"
  shows "task_status st (Some (cap t)) = ''pending''"
proof -
  have "list_ex (\<lambda>u. cap u = cap t) (pending_tasks (board_of st))" using assms(1) by (auto simp: list_ex_iff)
  then show ?thesis using assms(2) by (simp add: task_status_def task_lists_def)
qed

lemma scheduled_task:
  assumes "board_ok (board_of st)" "next_pending_task (board_of st) = Inr (Some t)"
  shows "t \<in> set (pending_tasks (board_of st))" "cap t \<in> set STAGE_ORDER" "cap t \<noteq> []"
    "missing_dependencies st (Some (cap t)) = []"
proof -
  let ?b = "board_of st"
  have good: "list_all good_task (pending_tasks ?b)" using assms(1) by (simp add: board_ok_def all_tasks_def)
  with assms(2) have f: "find (\<lambda>t. set (capability_dependencies (cap t)) \<subseteq> set (completed_caps ?b)) (pending_tasks ?b) = Some t"
    by (simp add: next_pending_task_def first_ready_find)
  then show t: "t \<in> set (pending_tasks ?b)" by (auto simp: find_Some_iff)
  from f have deps: "set (capability_dependencies (cap t)) \<subseteq> set (completed_caps ?b)" by (auto simp: find_Some_iff)
  have "set (map cap (all_tasks ?b)) = set CAPABILITY_SEQUENCE"
    using assms(1) unfolding board_ok_def by (blast dest: mset_eq_setD)
  moreover have "cap t \<in> set (map cap (all_tasks ?b))" using t by (auto simp: all_tasks_def)
  ultimately have c: "cap t \<in> set CAPABILITY_SEQUENCE" by simp
  have "list_all (\<lambda>c. c \<in> set STAGE_ORDER \<and> c \<noteq> []) CAPABILITY_SEQUENCE" by code_simp
  with c show "cap t \<in> set STAGE_ORDER" "cap t \<noteq> []" by (auto simp: list_all_iff)
  have "set (completed_caps ?b) \<subseteq> set (completed_names st)"
    by (auto simp: completed_caps_def completed_names_def cap_def get_str_def py_or_def)
  with deps \<open>cap t \<noteq> []\<close> show "missing_dependencies st (Some (cap t)) = []"
    by (auto simp: missing_dependencies_def dependency_status_def filter_empty_conv)
qed

definition run_request :: "string \<Rightarrow> legality_request" where
  "run_request c = \<lparr>lq_action_family = ''run_capability'', lq_target_capability = Some c, lq_parameters = [],
                    lq_submit_external_job = False, lq_wait_for_event = False\<rparr>"

definition demo_run :: dict where
  "demo_run =
     [(''workflow'', PDict [(''run_status'', PStr ''running''), (''retry_counts'', PDict [(''relax'', PInt 1)]), (''retry_budget'', PInt 3)]),
      (''task_board'', PDict (dump_board (mark_task_completed build_initial_task_board ''prepare''))),
      (''execution'', PDict [(''latest_execution_observation'', PDict [(''status'', PStr ''failed'')])])]"

definition demo_retry :: legality_request where
  "demo_retry = (run_request ''relax'')\<lparr>lq_action_family := ''retry_capability''\<rparr>"

lemma demo_retry_allowed: "\<exists>r. check_legality demo_run demo_retry = Inr r \<and> lr_allowed r"
proof -
  have "case check_legality demo_run demo_retry of Inl _ \<Rightarrow> False | Inr r \<Rightarrow> lr_allowed r" by code_simp
  then show ?thesis by (auto split: sum.splits)
qed

section \<open>Properties of the legality check\<close>





text \<open>The guard refines the test of the action registry: what it allows, \<open>action_is_legal\<close> allows for the
  parameters in canonical form.\<close>

theorem legality_refines_registry:
  assumes "check_legality st q = Inr r" "lr_allowed r"
  shows "\<exists>params. canonicalize_channel_action_parameters (lq_action_family q) (lq_parameters q) = Inr params
           \<and> action_is_legal (lq_action_family q) (lq_target_capability q) params"
proof -
  from legality_allowed [OF assms] obtain params where
    k: "lq_action_family q \<in> set list_action_families"
    and c: "canonicalize_channel_action_parameters (lq_action_family q) (lq_parameters q) = Inr params"
    and no: "status_refusals st q params = []" by metis
  let ?fam = "lq_action_family q"
  note status = no [unfolded status_refusals_def Let_def, simplified]
  have target: "str_or (lq_target_capability q) [] \<noteq> []" if "?fam \<in> set targeted_families"
    using status that by simp
  have channels: "truthy (dget0 params ''target_channels'')" if "?fam \<in> {''invalidate_channel'', ''skip_channel''}"
  proof -
    have "sub_list params ''target_channels'' \<noteq> []" using status that by (elim insertE emptyE) simp_all
    then show ?thesis by (cases "dget0 params ''target_channels''") (simp_all add: sub_list_def items_def)
  qed
  have branches: "k \<Longrightarrow> (a \<Longrightarrow> x) \<Longrightarrow> (b \<Longrightarrow> y) \<Longrightarrow> if \<not> k then False else if a then x else if b then y else True"
    for k a b x y by simp
  have "action_is_legal ?fam (lq_target_capability q) params"
    unfolding action_is_legal_def by (rule branches [OF k target channels]) (simp_all only: targeted_families_def list.set)
  with c show ?thesis by blast
qed

theorem legality_refines_registry_witness:
  "\<exists>params. canonicalize_channel_action_parameters ''retry_capability'' (lq_parameters demo_retry) = Inr params
     \<and> action_is_legal ''retry_capability'' (Some ''relax'') params"
proof -
  obtain r where r: "check_legality demo_run demo_retry = Inr r" "lr_allowed r" using demo_retry_allowed by blast
  have f: "lq_action_family demo_retry = ''retry_capability''" "lq_target_capability demo_retry = Some ''relax''"
    by (simp_all add: demo_retry_def run_request_def)
  from legality_refines_registry [OF r, unfolded f] show ?thesis .
qed

section \<open>Files and counts\<close>

lemma path_join_inj: "\<not> startswith a ''/'' \<Longrightarrow> \<not> startswith b ''/'' \<Longrightarrow> path_join d a = path_join d b \<longleftrightarrow> a = b"
  by (simp add: path_join_def)

lemma write_files_other: "p \<notin> (path_join d \<circ> fst \<circ> snd) ` set xs \<Longrightarrow> read_file (write_files f d xs) p = read_file f p"
  by (induction f d xs rule: write_files.induct) auto

lemma write_files_read:
  "distinct (map (path_join d \<circ> fst \<circ> snd) xs) \<Longrightarrow> (key, name, body) \<in> set xs \<Longrightarrow>
   read_file (write_files f d xs) (path_join d name) = Some (json_dumps body)"
proof (induction f d xs rule: write_files.induct)
  case (2 f d k n b rest)
  show ?case
  proof (cases "(key, name, body) = (k, n, b)")
    case True
    with 2 show ?thesis by (auto simp: write_files_other)
  next
    case False
    with 2 show ?thesis by auto
  qed
qed simp

definition artifact_table :: "(string \<times> string) list" where
  "artifact_table = map (\<lambda>(key, name, _). (key, name)) (runtime_files [] [] [])"

lemma runtime_file_table: "map (\<lambda>x. (fst x, fst (snd x))) (runtime_files st s m) = artifact_table"
  by (simp add: runtime_files_def artifact_table_def)

lemma artifact_table_distinct:
  "distinct (map fst artifact_table)" "distinct (map snd artifact_table)"
  "list_all (\<lambda>n. \<not> startswith n ''/'') (map snd artifact_table)"
  by code_simp+

lemma runtime_file_names:
  "map (fst \<circ> snd) (runtime_files st s m) = map snd artifact_table"
  "map fst (runtime_files st s m) = map fst artifact_table"
  unfolding runtime_file_table [of st s m, symmetric] by (simp_all add: comp_def)

lemma runtime_names_distinct: "distinct (map (path_join d \<circ> fst \<circ> snd) (runtime_files st s m))"
proof -
  have "inj_on (path_join d) (set (map snd artifact_table))"
    using artifact_table_distinct(3) by (auto simp: inj_on_def list_all_iff path_join_inj)
  from distinct_map [THEN iffD2, OF conjI, OF artifact_table_distinct(2) this]
  have "distinct (map (path_join d) (map (fst \<circ> snd) (runtime_files st s m)))"
    unfolding runtime_file_names .
  then show ?thesis by (simp add: comp_assoc)
qed

lemma tally_status_simps [simp]:
  "bs_succeeded (tally_status c s) + bs_failed (tally_status c s) + bs_skipped (tally_status c s)
     = Suc (bs_succeeded s + bs_failed s + bs_skipped s)"
  "bs_succeeded (tally_status c s) = (if c = ''completed'' then Suc (bs_succeeded s) else bs_succeeded s)"
  "bs_processed (tally_status c s) = bs_processed s" "bs_failure_stages (tally_status c s) = bs_failure_stages s"
  "bs_passed (tally_status c s) = bs_passed s" "bs_warning (tally_status c s) = bs_warning s"
  "bs_science_failed (tally_status c s) = bs_science_failed s" "bs_unknown (tally_status c s) = bs_unknown s"
  by (simp_all add: tally_status_def)

lemma tally_science_simps [simp]:
  "bs_passed (tally_science c s) + bs_warning (tally_science c s) + bs_science_failed (tally_science c s) + bs_unknown (tally_science c s)
     = Suc (bs_passed s + bs_warning s + bs_science_failed s + bs_unknown s)"
  "bs_processed (tally_science c s) = bs_processed s" "bs_failure_stages (tally_science c s) = bs_failure_stages s"
  "bs_succeeded (tally_science c s) = bs_succeeded s" "bs_failed (tally_science c s) = bs_failed s"
  "bs_skipped (tally_science c s) = bs_skipped s"
  by (simp_all add: tally_science_def)

lemma sum_list_update:
  "sum_list (map snd (AList.update k ((case map_of d k of None \<Rightarrow> 0 | Some n \<Rightarrow> n) + 1) d)) = Suc (sum_list (map snd d))"
  for d :: "(string \<times> nat) list"
  by (induction d) auto

lemma blame_stage_simps [simp]:
  "sum_list (map snd (bs_failure_stages (blame_stage c s))) = Suc (sum_list (map snd (bs_failure_stages s)))"
  "bs_processed (blame_stage c s) = bs_processed s" "bs_succeeded (blame_stage c s) = bs_succeeded s"
  "bs_failed (blame_stage c s) = bs_failed s" "bs_skipped (blame_stage c s) = bs_skipped s"
  "bs_passed (blame_stage c s) = bs_passed s" "bs_warning (blame_stage c s) = bs_warning s"
  "bs_science_failed (blame_stage c s) = bs_science_failed s" "bs_unknown (blame_stage c s) = bs_unknown s"
  by (simp_all add: blame_stage_def sum_list_update [simplified])

lemma count_outcome_shape:
  assumes "count_outcome s out = Inr t"
  obtains status bucket counted where "counted = tally_science bucket (tally_status status s)"
    "status = ''completed'' \<and> t = counted \<or> status \<noteq> ''completed'' \<and> (\<exists>stage. t = blame_stage stage counted)"
proof -
  from assms obtain status decision where
    sd: "derive_compute_status_from_outcome_payload out = Inr status" "resolve_outcome_scientific_decision out = Inr decision"
    by (auto simp: count_outcome_def)
  let ?counted = "tally_science (scientific_decision_bucket decision) (tally_status status s)"
  show ?thesis
  proof (cases "status = ''completed''")
    case True
    then have "t = ?counted" using assms by (simp add: count_outcome_def sd)
    with True show ?thesis by (intro that [of ?counted _ status]) simp_all
  next
    case False
    then have "\<exists>stage. t = blame_stage stage ?counted" using assms by (auto simp: count_outcome_def sd)
    with False show ?thesis by (intro that [of ?counted _ status]) simp_all
  qed
qed

lemma count_outcome_sums:
  assumes "count_outcome s out = Inr t"
  shows "bs_processed t = bs_processed s
   \<and> bs_succeeded t + bs_failed t + bs_skipped t = Suc (bs_succeeded s + bs_failed s + bs_skipped s)
   \<and> bs_passed t + bs_warning t + bs_science_failed t + bs_unknown t
       = Suc (bs_passed s + bs_warning s + bs_science_failed s + bs_unknown s)
   \<and> sum_list (map snd (bs_failure_stages t)) + bs_succeeded t = Suc (sum_list (map snd (bs_failure_stages s)) + bs_succeeded s)"
proof -
  from count_outcome_shape [OF assms] obtain status bucket counted where c: "counted = tally_science bucket (tally_status status s)"
    "status = ''completed'' \<and> t = counted \<or> status \<noteq> ''completed'' \<and> (\<exists>stage. t = blame_stage stage counted)" .
  from c(2) show ?thesis
  proof
    assume "status = ''completed'' \<and> t = counted"
    then show ?thesis using tally_status_simps(1) [of status s] by (simp add: c(1))
  next
    assume "status \<noteq> ''completed'' \<and> (\<exists>stage. t = blame_stage stage counted)"
    then obtain stage where "t = blame_stage stage counted" "status \<noteq> ''completed''" by blast
    then show ?thesis using tally_status_simps(1) [of status s] by (simp add: c(1))
  qed
qed

lemma count_fold:
  "foldR count_outcome s outs = Inr t \<Longrightarrow>
     bs_processed t = bs_processed s
   \<and> bs_succeeded t + bs_failed t + bs_skipped t = length outs + (bs_succeeded s + bs_failed s + bs_skipped s)
   \<and> bs_passed t + bs_warning t + bs_science_failed t + bs_unknown t
       = length outs + (bs_passed s + bs_warning s + bs_science_failed s + bs_unknown s)
   \<and> sum_list (map snd (bs_failure_stages t)) + bs_succeeded t
       = length outs + (sum_list (map snd (bs_failure_stages s)) + bs_succeeded s)"
proof (induction outs arbitrary: s)
  case (Cons o' outs)
  from Cons.prems obtain u where u: "count_outcome s o' = Inr u" "foldR count_outcome u outs = Inr t" by auto
  from Cons.IH [OF u(2)] count_outcome_sums [OF u(1)] show ?case by simp
qed simp

text \<open>The final files of a run are what the state says: every artifact the writer reports is in the
  file table under the reported path, holds the JSON text of its value, and (for values without
  floats) reading the file back gives the value.\<close>

theorem runtime_artifacts_readable:
  assumes "write_runtime_artifacts e f workdir st summary outcome = (f', paths)"
    and "(key, name, body) \<in> set (runtime_files st summary outcome)"
  shows "map_of paths key = Some (path_join (abspath e workdir) name)
    \<and> read_file f' (path_join (abspath e workdir) name) = Some (json_dumps body)
    \<and> (json_ok body \<longrightarrow> Option.bind (read_file f' (path_join (abspath e workdir) name)) json_loads = Some body)"
proof -
  let ?fs = "runtime_files st summary outcome" and ?d = "abspath e workdir"
  have paths: "paths = map (\<lambda>x. (fst x, path_join ?d (fst (snd x)))) ?fs"
    using assms(1) by (auto simp: write_runtime_artifacts_def Let_def)
  have f': "f' = write_files (makedirs f ?d) ?d ?fs" using assms(1) by (auto simp: write_runtime_artifacts_def Let_def)
  have "distinct (map fst ?fs)" unfolding runtime_file_names by (rule artifact_table_distinct)
  then have "distinct (map fst paths)" by (simp add: paths comp_def)
  moreover have "(key, path_join ?d name) \<in> set paths" using assms(2) by (force simp: paths)
  ultimately have m: "map_of paths key = Some (path_join ?d name)" by simp
  have r: "read_file f' (path_join ?d name) = Some (json_dumps body)"
    using write_files_read [OF runtime_names_distinct assms(2)] by (simp add: f')
  from m r json_loads_dumps [of body] show ?thesis by simp
qed

theorem runtime_artifacts_readable_witness:
  "Option.bind (read_file (fst (write_runtime_artifacts demo_env [] ''/w'' demo_run [] [(''status'', PStr ''completed'')]))
     ''/w/material_outcome.json'') json_loads = Some (PDict [(''status'', PStr ''completed'')])"
proof -
  let ?out = "[(''status'', PStr ''completed'')] :: dict"
  obtain f' paths where w: "write_runtime_artifacts demo_env [] ''/w'' demo_run [] ?out = (f', paths)" by fastforce
  have i: "(''material_outcome_path'', ''material_outcome.json'', PDict ?out) \<in> set (runtime_files demo_run [] ?out)"
    by (simp add: runtime_files_def)
  have p: "path_join (abspath demo_env ''/w'') ''material_outcome.json'' = ''/w/material_outcome.json''" by code_simp
  have "json_ok (PDict ?out)" by simp
  with runtime_artifacts_readable [OF w i] show ?thesis unfolding p w fst_conv by blast
qed

text \<open>The counts of a batch add up: every outcome is counted once as succeeded, failed or skipped and
  once by its scientific decision, and the stages blamed account for exactly the outcomes that did
  not succeed.\<close>

theorem batch_counts_add_up:
  assumes "summarize_batch_outcomes outs = Inr s"
  shows "bs_processed s = length outs \<and> bs_succeeded s + bs_failed s + bs_skipped s = length outs
    \<and> bs_passed s + bs_warning s + bs_science_failed s + bs_unknown s = length outs
    \<and> sum_list (map snd (bs_failure_stages s)) = bs_failed s + bs_skipped s"
  using count_fold [OF assms [unfolded summarize_batch_outcomes_def]] by simp

theorem batch_counts_add_up_witness:
  "\<exists>s. summarize_batch_outcomes [[(''status'', PStr ''failed'')], [(''status'', PStr ''skipped'')]] = Inr s
     \<and> bs_failed s + bs_skipped s = 2"
proof -
  let ?outs = "[[(''status'', PStr ''failed'')], [(''status'', PStr ''skipped'')]] :: dict list"
  have "case summarize_batch_outcomes ?outs of Inl _ \<Rightarrow> False | Inr s \<Rightarrow> bs_succeeded s = 0" by code_simp
  then obtain s where s: "summarize_batch_outcomes ?outs = Inr s" "bs_succeeded s = 0" by (auto split: sum.splits)
  from batch_counts_add_up [OF s(1)] s show ?thesis by auto
qed

end
