(* ===== verification/Checkpointing.thy ===== *)
theory Checkpointing
  imports State_Reads Json Files
begin

text \<open>
  The files a run keeps beside its results (mobility_agent/runtime/checkpointing.py), the
  connection strings of the database (runtime/database.py) and the two files of a human request
  (hitl/escalation.py, \<open>write_escalation_payload\<close> and \<open>write_human_response\<close>).

  A function that asks for a path of the runtime directory also creates that directory, so such
  functions return the file table. A JSON file is replaced by writing \<open>path.tmp\<close> first; a reader
  that finds no object in it returns \<open>None\<close>, and a file that is no JSON text raises. The
  checkpointers themselves (LangGraph's, in memory or in PostgreSQL) are not modelled, and a write
  into a directory that does not exist succeeds here.
\<close>

section \<open>Text\<close>

text \<open>\<open>s.split(sep)\<close> and \<open>s.replace(p, q)\<close> for a non-empty separator.\<close>

lemma split_once_shorter: "split_once p s = Some (a, b) \<Longrightarrow> p \<noteq> [] \<Longrightarrow> length b < length s"
  by (auto dest!: split_once_Some)

function split_str :: "string \<Rightarrow> string \<Rightarrow> string list" where
  "split_str sep s =
     (if sep = [] then [s] else case split_once sep s of None \<Rightarrow> [s] | Some (a, b) \<Rightarrow> a # split_str sep b)"
  by pat_completeness auto
termination
  by (relation "measure (length \<circ> snd)") (auto dest: split_once_shorter)

function replace_all :: "string \<Rightarrow> string \<Rightarrow> string \<Rightarrow> string" where
  "replace_all p q s =
     (if p = [] then s else case split_once p s of None \<Rightarrow> s | Some (a, b) \<Rightarrow> a @ q @ replace_all p q b)"
  by pat_completeness auto
termination
  by (relation "measure (length \<circ> snd \<circ> snd)") (auto dest: split_once_shorter)

declare split_str.simps [simp del] replace_all.simps [simp del]

text \<open>\<open>json.dumps(v, ensure_ascii=False, sort_keys=True)\<close>, on one line.\<close>

fun json_line :: "py \<Rightarrow> string" where
  "json_line (PList xs) = ''['' @ join '', '' (map json_line xs) @ '']''"
| "json_line (PDict d) =
     ''{'' @ join '', '' (map (\<lambda>(k, t). json_string k @ '': '' @ t) (sort_key fst (map (\<lambda>(k, v). (k, json_line v)) d))) @ ''}''"
| "json_line v = json_dump 0 v"

section \<open>Connection strings\<close>

definition is_postgres_uri :: "string option \<Rightarrow> bool" where
  "is_postgres_uri v =
     (let t = py_lower (py_strip (str_or v [])) in startswith t ''postgresql://'' \<or> startswith t ''postgres://'')"

definition is_memory_uri :: "string option \<Rightarrow> bool" where
  "is_memory_uri v = startswith (py_lower (py_strip (str_or v []))) ''memory://''"

text \<open>\<open>sha1\<close> is the hexadecimal SHA-1 digest of a text.\<close>

definition normalize_database_uri :: "(string \<Rightarrow> string) \<Rightarrow> string option \<Rightarrow> string \<Rightarrow> string" where
  "normalize_database_uri sha1 v default_memory_name =
     (let t = py_strip (str_or v []) in
      if is_postgres_uri (Some t) \<or> is_memory_uri (Some t) then t
      else if t = [] then ''memory://'' @ default_memory_name
      else ''memory://'' @ sha1 t)"

definition redact_database_uri :: "string option \<Rightarrow> string" where
  "redact_database_uri v =
     (let t = py_strip (str_or v []) in
      if t = [] then []
      else if is_memory_uri (Some t) then t
      else case split_once ''@'' t of
             None \<Rightarrow> t
           | Some (front, host) \<Rightarrow>
               (case split_once ''://'' front of
                  None \<Rightarrow> t
                | Some (scheme, auth) \<Rightarrow>
                    (case split_once '':'' auth of
                       Some (username, _) \<Rightarrow> scheme @ ''://'' @ username @ '':***@'' @ host
                     | None \<Rightarrow> scheme @ ''://***@'' @ host)))"

definition replace_first :: "string \<Rightarrow> string \<Rightarrow> string \<Rightarrow> string" where
  "replace_first p q s = (case split_once p s of None \<Rightarrow> s | Some (a, b) \<Rightarrow> a @ q @ b)"

definition sqlalchemy_database_uri :: "(string \<Rightarrow> string) \<Rightarrow> string \<Rightarrow> string" where
  "sqlalchemy_database_uri sha1 v =
     (let t = normalize_database_uri sha1 (Some v) ''default'' in
      if startswith t ''postgresql+psycopg://'' then t
      else if startswith t ''postgresql://'' then replace_first ''postgresql://'' ''postgresql+psycopg://'' t
      else if startswith t ''postgres://'' then replace_first ''postgres://'' ''postgresql+psycopg://'' t
      else t)"

section \<open>Paths and atomic writes\<close>

definition runtime_dir :: "string \<Rightarrow> string \<Rightarrow> string" where
  "runtime_dir workdir subdir = path_join workdir subdir"

definition runtime_file :: "string \<Rightarrow> string \<Rightarrow> string \<Rightarrow> string" where
  "runtime_file workdir subdir name = path_join (runtime_dir workdir subdir) name"

definition make_runtime_dir :: "string \<Rightarrow> string \<Rightarrow> fs \<Rightarrow> fs" where
  "make_runtime_dir workdir subdir f = makedirs f (runtime_dir workdir subdir)"

definition metadata_path :: "string \<Rightarrow> string \<Rightarrow> string" where
  "metadata_path workdir subdir = runtime_file workdir subdir ''langgraph_checkpoint.json''"

definition state_snapshot_path :: "string \<Rightarrow> string \<Rightarrow> string" where
  "state_snapshot_path workdir subdir = runtime_file workdir subdir ''shared_state.json''"

definition ui_state_path :: "string \<Rightarrow> string \<Rightarrow> string" where
  "ui_state_path workdir subdir = runtime_file workdir subdir ''ui_state.json''"

definition ui_events_path :: "string \<Rightarrow> string \<Rightarrow> string" where
  "ui_events_path workdir subdir = runtime_file workdir subdir ''ui_events.jsonl''"

definition thread_id_path :: "string \<Rightarrow> string \<Rightarrow> string" where
  "thread_id_path workdir subdir = runtime_file workdir subdir ''thread_id.txt''"

definition write_text_atomic :: "string \<Rightarrow> string \<Rightarrow> fs \<Rightarrow> fs" where
  "write_text_atomic path text f = fs_del (write_file f path text) (path @ ''.tmp'')"

definition write_json_atomic :: "string \<Rightarrow> py \<Rightarrow> fs \<Rightarrow> fs" where
  "write_json_atomic path v f = write_text_atomic path (json_dumps v) f"

definition read_json_file :: "fs \<Rightarrow> string \<Rightarrow> dict option res" where
  "read_json_file f path =
     (case map_of f path of
        None \<Rightarrow> Inr None
      | Some FDir \<Rightarrow> Inl (OSError path)
      | Some (FFile t) \<Rightarrow>
          (case json_loads t of None \<Rightarrow> Inl (ValueError ''json'') | Some (PDict d) \<Rightarrow> Inr (Some d) | Some _ \<Rightarrow> Inr None))"

section \<open>What the console sees of a state\<close>

text \<open>The newest entry of \<open>selected_actions\<close> that names an action.\<close>

fun newest_selected :: "py list \<Rightarrow> dict" where
  "newest_selected [] = []"
| "newest_selected (item # older) =
     (case item of
        PDict d \<Rightarrow>
          (let action = sub_dict d ''selected_action'' in
           if action \<noteq> [] then action
           else if list_ex (\<lambda>k. map_of d k \<noteq> None) [''action_family'', ''target_capability'', ''parameters''] then d
           else newest_selected older)
      | _ \<Rightarrow> newest_selected older)"

definition selected_action_payload :: "dict \<Rightarrow> dict" where
  "selected_action_payload st =
     (let current = fld_dict st ''execution'' ''current_action'' in
      if current \<noteq> [] then current else newest_selected (rev (fld_list st ''deliberation'' ''selected_actions'')))"

definition latest_error_summary :: "dict \<Rightarrow> string" where
  "latest_error_summary st =
     (let errors = fld_list st ''diagnostics'' ''errors'' in
      if truthy (fld st ''diagnostics'' ''last_error'') then fld_text st ''diagnostics'' ''last_error''
      else if errors \<noteq> [] then py_str (py_or (last errors) (PStr []))
      else fld_text st ''workflow'' ''termination_reason'')"

definition all_artifact_paths :: "dict \<Rightarrow> dict" where
  "all_artifact_paths st =
     map (\<lambda>(k, v). (k, PStr (py_str v)))
       (filter (\<lambda>(k, v). py_strip (py_str (py_or v (PStr []))) \<noteq> [])
         (dmerge (fld_dict st ''execution'' ''artifact_paths'') (fld_dict st ''execution'' ''artifact_registry'')))"

definition or_none :: "string \<Rightarrow> py" where
  "or_none s = (if s = [] then PNone else PStr s)"

definition build_ui_state_snapshot :: "env \<Rightarrow> dict \<Rightarrow> dict" where
  "build_ui_state_snapshot e st =
     (let contract = fld_dict st ''services'' ''workflow_contract''; ckpt = fld_dict st ''execution'' ''execution_checkpoint''
      in [(''task_id'', PStr (fld_text st ''task'' ''task_id'')),
          (''material_id'', PStr (fld_text st ''material'' ''material_id'')),
          (''thread_id'', or_none (fld_text st ''execution'' ''thread_id'')),
          (''current_stage'', PStr (fld_text st ''workflow'' ''current_stage'')),
          (''runtime_run_status'', PStr (py_str (py_or (fld st ''workflow'' ''run_status'') (PStr ''pending'')))),
          (''stage_status'', PDict (fld_dict st ''workflow'' ''stage_status'')),
          (''selected_action'', PDict (selected_action_payload st)),
          (''hitl_pending'', PBool (fld st ''workflow'' ''run_status'' = PStr ''needs_human''
             \<or> truthy (fld st ''workflow'' ''pending_human_action'') \<or> truthy (fld st ''workflow'' ''pending_action_payload'')
             \<or> truthy (fld st ''services'' ''pending_human_payload''))),
          (''wait_reason'', or_none (fld_text st ''workflow'' ''wait_reason'')),
          (''latest_error'', or_none (latest_error_summary st)),
          (''artifact_paths'', PDict (all_artifact_paths st)),
          (''workflow_contract'', PDict
             [(''contract_id'', or_none (get_str contract ''contract_id'')), (''version'', dget0 contract ''version''),
              (''plan_status'', dget0 contract ''plan_status''), (''current_focus'', dget0 contract ''current_focus''),
              (''council_mode'', dget0 contract ''council_mode''),
              (''planned_capabilities'', PList (sub_list contract ''planned_capabilities'')),
              (''milestones'', PList (sub_list contract ''milestones'')),
              (''deliberation_reason'', dget0 contract ''deliberation_reason'')]),
          (''execution_checkpoint'', PDict
             [(''contract_id'', or_none (get_str ckpt ''contract_id'')), (''contract_version'', dget0 ckpt ''contract_version''),
              (''current_capability'', dget0 ckpt ''current_capability''), (''next_capability'', dget0 ckpt ''next_capability''),
              (''completed_capabilities'', PList (sub_list ckpt ''completed_capabilities'')),
              (''needs_deliberation'', PBool (truthy (dget ckpt ''needs_deliberation'' (PBool False)))),
              (''deliberation_reason'', dget0 ckpt ''deliberation_reason'')]),
          (''updated_at'', PStr (py_str (py_or (fld st ''task'' ''updated_at'') (PStr (now e)))))])"

definition load_ui_state_snapshot :: "fs \<Rightarrow> string \<Rightarrow> string \<Rightarrow> fs \<times> dict option res" where
  "load_ui_state_snapshot f workdir subdir =
     (let g = make_runtime_dir workdir subdir f in (g, read_json_file g (ui_state_path workdir subdir)))"

section \<open>Events for the console\<close>

definition ui_stage_status :: "dict \<Rightarrow> string" where
  "ui_stage_status ui =
     (let stage_status = sub_dict ui ''stage_status''; stage = get_str ui ''current_stage''
      in py_str (py_or (dget0 stage_status stage) (py_or (dget0 stage_status (replace_all ''01_'' [] stage)) (PStr []))))"

definition selected_action_signature :: "dict \<Rightarrow> string \<times> string \<times> string" where
  "selected_action_signature ui =
     (let selected = sub_dict ui ''selected_action''
      in (get_str selected ''action_family'',
          py_str (py_or (dget0 selected ''target_capability'') (py_or (dget0 selected ''capability'') (PStr []))),
          json_line (PDict (sub_dict selected ''parameters''))))"

definition artifact_keys :: "dict \<Rightarrow> string list" where
  "artifact_keys ui = sort (map fst (sub_dict ui ''artifact_paths''))"

definition append_ui_event :: "env \<Rightarrow> string \<Rightarrow> string \<Rightarrow> string \<Rightarrow> dict option \<Rightarrow> dict \<Rightarrow> fs \<Rightarrow> fs \<times> dict res" where
  "append_ui_event e workdir subdir event_type state extra f =
     (let g = make_runtime_dir workdir subdir f
      in case (case state of Some st \<Rightarrow> Inr (Some (build_ui_state_snapshot e st))
               | None \<Rightarrow> read_json_file g (ui_state_path workdir subdir)) of
           Inl err \<Rightarrow> (g, Inl err)
         | Inr found \<Rightarrow>
             (let ui = (case found of None \<Rightarrow> [] | Some d \<Rightarrow> d); selected = sub_dict ui ''selected_action'';
                  kind = py_strip event_type;
                  payload = dmerge
                    [(''timestamp'', PStr (now e)), (''event_type'', PStr (if kind = [] then ''runtime_event'' else kind)),
                     (''current_stage'', PStr (get_str ui ''current_stage'')),
                     (''runtime_run_status'', PStr (py_str (py_or (dget0 ui ''runtime_run_status'') (PStr ''pending'')))),
                     (''selected_action_family'', PStr (get_str selected ''action_family'')),
                     (''selected_capability'', PStr (py_str (py_or (dget0 selected ''target_capability'')
                        (py_or (dget0 selected ''capability'') (PStr []))))),
                     (''stage_status'', PStr (ui_stage_status ui)), (''hitl_pending'', PBool (truthy (dget0 ui ''hitl_pending''))),
                     (''wait_reason'', dget0 ui ''wait_reason''), (''latest_error'', dget0 ui ''latest_error''),
                     (''latest_artifact_keys'', str_list (artifact_keys ui))] extra;
                  p = ui_events_path workdir subdir;
                  old = (case read_file g p of None \<Rightarrow> [] | Some t \<Rightarrow> t)
              in (write_file g p (old @ json_line (PDict payload) @ [CHR 0x0A]), Inr payload)))"

definition status_event :: "string \<Rightarrow> string \<Rightarrow> string \<times> dict" where
  "status_event before after =
     (''run_status_changed'', [(''previous_runtime_run_status'', PStr before), (''runtime_run_status'', PStr after)])"

definition stage_event :: "string \<Rightarrow> string \<Rightarrow> string \<times> dict" where
  "stage_event before after =
     (''stage_status_changed'', [(''previous_stage_status'', PStr before), (''current_stage_status'', PStr after)])"

definition action_event :: "dict \<Rightarrow> string \<times> dict" where
  "action_event ui = (''selected_action_changed'', [(''selected_action'', PDict (sub_dict ui ''selected_action''))])"

definition artifacts_event :: "dict \<Rightarrow> string \<times> dict" where
  "artifacts_event ui = (''artifacts_updated'', [(''latest_artifact_keys'', str_list (artifact_keys ui))])"

definition ui_state_events :: "dict option \<Rightarrow> dict \<Rightarrow> (string \<times> dict) list" where
  "ui_state_events previous current =
     (let status = get_str current ''runtime_run_status''; has_action = sub_dict current ''selected_action'' \<noteq> []
      in case previous of
           None \<Rightarrow>
             [(''state_initialized'', [])]
             @ on (status \<noteq> [] \<and> status \<noteq> ''pending'') (status_event [] status)
             @ on (ui_stage_status current \<noteq> []) (stage_event [] (ui_stage_status current))
             @ on has_action (action_event current)
             @ on (artifact_keys current \<noteq> []) (artifacts_event current)
         | Some prev \<Rightarrow>
             on (get_str prev ''current_stage'' \<noteq> get_str current ''current_stage'')
               (''stage_changed'', [(''previous_stage'', dget0 prev ''current_stage''), (''current_stage'', dget0 current ''current_stage'')])
             @ on (ui_stage_status prev \<noteq> ui_stage_status current) (stage_event (ui_stage_status prev) (ui_stage_status current))
             @ on (selected_action_signature prev \<noteq> selected_action_signature current \<and> has_action) (action_event current)
             @ on (get_str prev ''runtime_run_status'' \<noteq> status) (status_event (get_str prev ''runtime_run_status'') status)
             @ on (artifact_keys prev \<noteq> artifact_keys current) (artifacts_event current))"

fun append_ui_events :: "env \<Rightarrow> string \<Rightarrow> string \<Rightarrow> (string \<times> dict) list \<Rightarrow> fs \<Rightarrow> fs \<times> unit res" where
  "append_ui_events e workdir subdir [] f = (f, Inr ())"
| "append_ui_events e workdir subdir ((kind, extra) # rest) f =
     (case append_ui_event e workdir subdir kind None extra f of
        (g, Inl err) \<Rightarrow> (g, Inl err) | (g, Inr _) \<Rightarrow> append_ui_events e workdir subdir rest g)"

definition save_ui_snapshot :: "env \<Rightarrow> string \<Rightarrow> string \<Rightarrow> dict \<Rightarrow> fs \<Rightarrow> fs \<times> unit res" where
  "save_ui_snapshot e workdir subdir st f =
     (case load_ui_state_snapshot f workdir subdir of
        (g, Inl err) \<Rightarrow> (g, Inl err)
      | (g, Inr previous) \<Rightarrow>
          (let current = build_ui_state_snapshot e st
           in append_ui_events e workdir subdir (ui_state_events previous current)
                (write_json_atomic (ui_state_path workdir subdir) (PDict current) g)))"

section \<open>Snapshots, thread ids, metadata\<close>

definition save_state_snapshot :: "env \<Rightarrow> string \<Rightarrow> string \<Rightarrow> dict \<Rightarrow> fs \<Rightarrow> fs \<times> unit res" where
  "save_state_snapshot e workdir subdir st f =
     save_ui_snapshot e workdir subdir st
       (write_json_atomic (state_snapshot_path workdir subdir) (PDict st) (make_runtime_dir workdir subdir f))"

definition load_state_snapshot :: "fs \<Rightarrow> string \<Rightarrow> string \<Rightarrow> fs \<times> dict option res" where
  "load_state_snapshot f workdir subdir =
     (let g = make_runtime_dir workdir subdir f in (g, read_json_file g (state_snapshot_path workdir subdir)))"

definition load_thread_id :: "fs \<Rightarrow> string \<Rightarrow> string \<Rightarrow> fs \<times> string option res" where
  "load_thread_id f workdir subdir =
     (let g = make_runtime_dir workdir subdir f; p = thread_id_path workdir subdir
      in (g, case map_of g p of
               None \<Rightarrow> Inr None
             | Some FDir \<Rightarrow> Inl (OSError p)
             | Some (FFile t) \<Rightarrow> Inr (if py_strip t = [] then None else Some (py_strip t))))"

definition save_thread_id :: "string \<Rightarrow> string \<Rightarrow> string \<Rightarrow> fs \<Rightarrow> fs" where
  "save_thread_id workdir subdir thread_id f =
     write_text_atomic (thread_id_path workdir subdir) (py_strip thread_id @ [CHR 0x0A]) (make_runtime_dir workdir subdir f)"

definition task_id_from_thread_id :: "string option \<Rightarrow> string option" where
  "task_id_from_thread_id thread_id =
     (let parts = split_str ''::'' (py_strip (str_or thread_id []))
      in if 4 \<le> length parts \<and> parts ! 0 = ''material'' \<and> parts ! 1 \<noteq> [] then Some (parts ! 1) else None)"

definition build_material_thread_id :: "env \<Rightarrow> string \<Rightarrow> string \<Rightarrow> string option \<Rightarrow> string" where
  "build_material_thread_id e task_id material_id run_id =
     ''material::'' @ task_id @ ''::'' @ material_id @ ''::'' @ str_or run_id (take 12 (fresh_id e))"

definition build_batch_thread_id :: "string \<Rightarrow> string" where
  "build_batch_thread_id batch_id = ''batch::'' @ batch_id"

definition save_checkpoint_metadata :: "env \<Rightarrow> string \<Rightarrow> string \<Rightarrow> string \<Rightarrow> string \<Rightarrow> fs \<Rightarrow> fs" where
  "save_checkpoint_metadata e workdir subdir thread_id database_uri f =
     write_json_atomic (metadata_path workdir subdir) (PDict
       [(''thread_id'', PStr (py_strip thread_id)), (''database_uri_raw'', PStr (py_strip database_uri)),
        (''database_uri'', PStr (redact_database_uri (Some database_uri))),
        (''backend'', PStr (if startswith database_uri ''memory://'' then ''memory'' else ''postgres'')),
        (''updated_at'', PStr (now e))]) (make_runtime_dir workdir subdir f)"

text \<open>What \<open>remove_checkpoints\<close> removes from disk.\<close>

definition checkpoint_files :: "string \<Rightarrow> string \<Rightarrow> string list" where
  "checkpoint_files workdir subdir =
     [state_snapshot_path workdir subdir, ui_state_path workdir subdir, ui_events_path workdir subdir,
      thread_id_path workdir subdir, metadata_path workdir subdir, path_join workdir ''checkpoint.pkl'']"

definition remove_checkpoints :: "string \<Rightarrow> string \<Rightarrow> fs \<Rightarrow> fs" where
  "remove_checkpoints workdir subdir f =
     fold (\<lambda>p g. fs_del g p) (checkpoint_files workdir subdir) (make_runtime_dir workdir subdir f)"

section \<open>The files of a human request\<close>

definition write_escalation_payload :: "env \<Rightarrow> string \<Rightarrow> string \<Rightarrow> dict \<Rightarrow> fs \<Rightarrow> fs \<times> unit res" where
  "write_escalation_payload e workdir subdir payload f =
     (case append_ui_event e workdir subdir ''hitl_payload_written'' None
             [(''current_stage'', PStr (get_str payload ''current_stage'')),
              (''wait_reason'', PStr (py_str (py_or (dget0 payload ''wait_reason'') (PStr ''needs_human'')))),
              (''hitl_pending'', PBool True)]
             (write_json_atomic (path_join workdir ''human_escalation_payload.json'') (PDict payload) (makedirs f workdir)) of
        (g, Inl err) \<Rightarrow> (g, Inl err) | (g, Inr _) \<Rightarrow> (g, Inr ()))"

definition write_human_response :: "env \<Rightarrow> string \<Rightarrow> string \<Rightarrow> dict \<Rightarrow> string \<Rightarrow> fs \<Rightarrow> fs \<times> dict res" where
  "write_human_response e workdir subdir response source f =
     (case bindR (normalize_hitl_decision response source) (\<lambda>d. bindR (build_resume_command d) (\<lambda>c. Inr (d, c))) of
        Inl err \<Rightarrow> (f, Inl err)
      | Inr (d, cmd) \<Rightarrow>
          (case append_ui_event e workdir subdir ''hitl_response_written'' None
                  [(''hitl_pending'', PBool False), (''human_action'', PStr (hd_action d)), (''human_reason'', or_none (hd_reason d))]
                  (write_json_atomic (path_join workdir ''human_escalation_response.json'') (PDict cmd) f) of
             (g, Inl err) \<Rightarrow> (g, Inl err) | (g, Inr _) \<Rightarrow> (g, Inr cmd)))"

section \<open>Facts on the runtime directory\<close>

lemma read_file_put_dir: "read_file (fs_put f p FDir) q = (if q = p then None else read_file f q)"
  by (simp add: read_file_def)

lemma read_file_None: "\<not> path_exists f p \<Longrightarrow> read_file f p = None"
  by (simp add: path_exists_def read_file_def)

lemma read_makedirs [simp]: "read_file (makedirs f d) q = read_file f q"
proof -
  let ?step = "\<lambda>p f. if path_exists f p then f else fs_put f p FDir"
  have "read_file (fold ?step ps f) q = read_file f q" for ps
  proof (induction ps arbitrary: f)
    case (Cons p ps)
    have "read_file (?step p f) q = read_file f q" by (simp add: read_file_put_dir read_file_None)
    with Cons.IH [of "?step p f"] show ?case by simp
  qed simp
  then show ?thesis unfolding makedirs_def by blast
qed

lemma read_make_runtime_dir [simp]: "read_file (make_runtime_dir w d f) q = read_file f q"
  by (simp add: make_runtime_dir_def)

lemma read_write_text_atomic:
  "read_file (write_text_atomic path text f) q =
     (if q = path @ ''.tmp'' then None else if q = path then Some text else read_file f q)"
  by (simp add: write_text_atomic_def read_file_def map_of_fs_del)

lemma read_write_json_atomic [simp]:
  "read_file (write_json_atomic path v f) q =
     (if q = path @ ''.tmp'' then None else if q = path then Some (json_dumps v) else read_file f q)"
  by (simp add: write_json_atomic_def read_write_text_atomic)

lemma read_json_file_Some:
  assumes "read_file f p = Some t" "json_loads t = Some (PDict d)"
  shows "read_json_file f p = Inr (Some d)"
proof -
  from assms(1) have "map_of f p = Some (FFile t)" by (auto simp: read_file_def split: option.splits fnode.splits)
  with assms(2) show ?thesis by (simp add: read_json_file_def)
qed

text \<open>The files of the runtime directory have different names, also with the suffix of a temporary file.\<close>

lemma same_tail: "xs @ ys = xs @ zs \<longleftrightarrow> ys = zs" for xs :: "'a list"
  by simp

lemma runtime_file_inj:
  "\<not> startswith a ''/'' \<Longrightarrow> \<not> startswith b ''/'' \<Longrightarrow> runtime_file w d a @ t = runtime_file w d b @ u \<longleftrightarrow> a @ t = b @ u"
  by (auto simp: runtime_file_def path_join_def)

lemma runtime_names:
  "ui_events_path w d \<noteq> state_snapshot_path w d" "ui_state_path w d \<noteq> state_snapshot_path w d"
  "ui_state_path w d @ ''.tmp'' \<noteq> state_snapshot_path w d" "ui_events_path w d \<noteq> ui_state_path w d"
  "ui_state_path w d @ ''.tmp'' \<noteq> ui_events_path w d" "state_snapshot_path w d @ ''.tmp'' \<noteq> state_snapshot_path w d"
  "ui_state_path w d @ ''.tmp'' \<noteq> ui_state_path w d"
  using runtime_file_inj [of "''ui_events.jsonl''" "''shared_state.json''" w d "[]" "[]"]
    runtime_file_inj [of "''ui_state.json''" "''shared_state.json''" w d "[]" "[]"]
    runtime_file_inj [of "''ui_state.json''" "''shared_state.json''" w d "''.tmp''" "[]"]
    runtime_file_inj [of "''ui_events.jsonl''" "''ui_state.json''" w d "[]" "[]"]
    runtime_file_inj [of "''ui_state.json''" "''ui_events.jsonl''" w d "''.tmp''" "[]"]
  by (simp_all add: ui_events_path_def state_snapshot_path_def ui_state_path_def startswith_def)

lemma append_ui_event_other:
  "q \<noteq> ui_events_path w d \<Longrightarrow> read_file (fst (append_ui_event e w d kind st extra f)) q = read_file f q"
  by (simp add: append_ui_event_def Let_def split: sum.splits)

lemma append_ui_events_other:
  "q \<noteq> ui_events_path w d \<Longrightarrow> read_file (fst (append_ui_events e w d evs f)) q = read_file f q"
proof (induction e w d evs f rule: append_ui_events.induct)
  case (2 e w d kind extra rest f)
  have a: "read_file (fst (append_ui_event e w d kind None extra f)) q = read_file f q"
    using append_ui_event_other [OF 2(2)] .
  show ?case
  proof (cases "append_ui_event e w d kind None extra f")
    case (Pair g r)
    then show ?thesis using a 2 by (cases r) auto
  qed
qed simp

lemma save_ui_snapshot_other:
  assumes "q \<notin> {ui_events_path w d, ui_state_path w d, ui_state_path w d @ ''.tmp''}"
  shows "read_file (fst (save_ui_snapshot e w d st f)) q = read_file f q"
  using assms by (auto simp: save_ui_snapshot_def load_ui_state_snapshot_def Let_def append_ui_events_other split: sum.splits)

section \<open>Facts on text\<close>

lemma split_once_first:
  assumes "c \<notin> set a" "p = c # q"
  shows "split_once p (a @ p @ b) = Some (a, b)"
  using assms(1)
proof (induction a)
  case Nil
  have "startswith (p @ b) p" by simp
  then show ?case using assms(2) by simp
next
  case (Cons x a)
  then have "\<not> startswith (x # a @ p @ b) p" using assms(2) by (auto simp: startswith_def)
  with Cons show ?case by simp
qed

lemma split_str_first: "CHR '':'' \<notin> set a \<Longrightarrow> split_str ''::'' (a @ ''::'' @ b) = a # split_str ''::'' b"
  using split_once_first [of "CHR '':''" a "''::''" "'':''" b] by (subst split_str.simps) simp

lemma split_str_length: "0 < length (split_str sep s)" "sep \<noteq> [] \<Longrightarrow> contains s sep \<Longrightarrow> 2 \<le> length (split_str sep s)"
proof -
  show pos: "0 < length (split_str sep s)" for s
    by (subst split_str.simps) (simp split: option.splits)
  assume "sep \<noteq> []" "contains s sep"
  then obtain a b where "split_once sep s = Some (a, b)" by (auto simp: contains_def)
  then show "2 \<le> length (split_str sep s)"
    using \<open>sep \<noteq> []\<close> pos [of b] by (subst split_str.simps) (simp add: Suc_le_eq)
qed

lemma rstrip_after: "\<not> is_space c \<Longrightarrow> py_rstrip (a @ c # r) = a @ c # py_rstrip r"
  by (simp add: py_rstrip_def dropWhile_append)

lemma lstrip_first: "\<not> is_space c \<Longrightarrow> py_lstrip (c # s) = c # s"
  by (simp add: py_lstrip_def)

lemma strip_newline: "py_strip (py_strip t @ [CHR 0x0A]) = py_strip t"
proof -
  have nl: "is_space (CHR 0x0A)" by code_simp
  have r: "py_rstrip (x @ [CHR 0x0A]) = py_rstrip x" for x by (simp add: py_rstrip_def nl)
  show ?thesis
  proof (cases "py_strip t")
    case Nil
    have "py_strip ([] @ [CHR 0x0A]) = []" by code_simp
    then show ?thesis by (simp only: Nil)
  next
    case (Cons c s)
    have "\<not> is_space c"
    proof
      assume "is_space c"
      moreover have "py_strip (c # s) = c # s" using Cons py_strip_idem [of t] by simp
      ultimately have "length (py_strip s) = Suc (length s)" by (simp add: py_strip_def py_lstrip_def)
      moreover have "length (py_strip s) \<le> length s"
        by (simp add: py_strip_def py_lstrip_def py_rstrip_def)
          (metis length_dropWhile_le length_rev order_trans)
      ultimately show False by simp
    qed
    then have "py_strip (py_strip t @ [CHR 0x0A]) = py_rstrip (py_strip t)"
      by (simp add: Cons py_strip_def [of "c # s @ _"] lstrip_first r [of "c # s", simplified])
    also have "\<dots> = py_strip (py_strip t)" using Cons \<open>\<not> is_space c\<close> by (simp add: py_strip_def [of "c # s"] lstrip_first)
    finally show ?thesis by simp
  qed
qed

lemma ui_events_same:
  "ui_state_events (Some (build_ui_state_snapshot e st)) (build_ui_state_snapshot e' st) = []"
proof -
  have same: "k \<noteq> ''updated_at'' \<Longrightarrow> dget0 (build_ui_state_snapshot e st) k = dget0 (build_ui_state_snapshot e' st) k" for k
    by (simp add: build_ui_state_snapshot_def Let_def dget0_def dget_def)
  have "ui_stage_status (build_ui_state_snapshot e st) = ui_stage_status (build_ui_state_snapshot e' st)"
    "selected_action_signature (build_ui_state_snapshot e st) = selected_action_signature (build_ui_state_snapshot e' st)"
    "artifact_keys (build_ui_state_snapshot e st) = artifact_keys (build_ui_state_snapshot e' st)"
    "get_str (build_ui_state_snapshot e st) ''current_stage'' = get_str (build_ui_state_snapshot e' st) ''current_stage''"
    "get_str (build_ui_state_snapshot e st) ''runtime_run_status'' = get_str (build_ui_state_snapshot e' st) ''runtime_run_status''"
    by (simp_all add: ui_stage_status_def selected_action_signature_def artifact_keys_def sub_dict_def get_str_def same)
  then show ?thesis by (simp add: ui_state_events_def Let_def)
qed

section \<open>Properties of the runtime files\<close>



text \<open>The event log of the console only grows on change: saving the same state again, also at a later
  time, appends no event.\<close>

theorem unchanged_state_is_silent:
  assumes "save_ui_snapshot e w d st f = (g, Inr ())" and "json_ok (PDict (build_ui_state_snapshot e st))"
  shows "read_file (fst (save_ui_snapshot e' w d st g)) (ui_events_path w d) = read_file g (ui_events_path w d)"
proof -
  let ?cur = "build_ui_state_snapshot e st" and ?p = "ui_state_path w d"
  obtain h previous where h: "load_ui_state_snapshot f w d = (h, Inr previous)"
    using assms(1) by (auto simp: save_ui_snapshot_def split: prod.splits sum.splits)
  have g: "g = fst (append_ui_events e w d (ui_state_events previous ?cur) (write_json_atomic ?p (PDict ?cur) h))"
    using assms(1) h by (simp add: save_ui_snapshot_def Let_def)
  have "read_file g ?p = Some (json_dumps (PDict ?cur))"
    unfolding g using runtime_names [of w d] by (subst append_ui_events_other) (auto simp: read_write_json_atomic)
  then have "read_file (make_runtime_dir w d g) ?p = Some (json_dumps (PDict ?cur))" by simp
  note loaded = read_json_file_Some [OF this json_loads_dumps [OF assms(2)]]
  have "fst (save_ui_snapshot e' w d st g) = write_json_atomic ?p (PDict (build_ui_state_snapshot e' st)) (make_runtime_dir w d g)"
    by (simp add: save_ui_snapshot_def load_ui_state_snapshot_def Let_def loaded ui_events_same)
  then show ?thesis using runtime_names [of w d] by simp
qed

theorem unchanged_state_is_silent_witness:
  "\<exists>g. save_ui_snapshot demo_env ''/w'' ''.runtime'' [] [] = (g, Inr ())
     \<and> read_file (fst (save_ui_snapshot demo_env ''/w'' ''.runtime'' [] g)) ''/w/.runtime/ui_events.jsonl''
         = read_file g ''/w/.runtime/ui_events.jsonl''"
proof -
  have "case save_ui_snapshot demo_env ''/w'' ''.runtime'' [] [] of (g, r) \<Rightarrow> r = Inr ()" by code_simp
  then obtain g where g: "save_ui_snapshot demo_env ''/w'' ''.runtime'' [] [] = (g, Inr ())" by (auto split: prod.splits)
  have j: "json_ok (PDict (build_ui_state_snapshot demo_env []))" by code_simp
  have p: "ui_events_path ''/w'' ''.runtime'' = ''/w/.runtime/ui_events.jsonl''" by code_simp
  from unchanged_state_is_silent [OF g j] g show ?thesis unfolding p by blast
qed

text \<open>The thread id of a material carries its task: saved to the runtime directory and loaded again it
  is the same id, and the task id read from it is the one it was built from.\<close>

theorem thread_id_carries_task:
  assumes "t \<noteq> []" "CHR '':'' \<notin> set t"
  shows "\<exists>tid. snd (load_thread_id (save_thread_id w d (build_material_thread_id e t m r) f) w d) = Inr (Some tid)
           \<and> task_id_from_thread_id (Some tid) = Some t"
proof -
  let ?x = "py_rstrip (str_or r (take 12 (fresh_id e)))"
  let ?id = "''material'' @ ''::'' @ t @ ''::'' @ m @ ''::'' @ ?x"
  have sp: "\<not> is_space (CHR '':'')" "\<not> is_space (CHR ''m'')" by code_simp+
  have s: "py_strip (build_material_thread_id e t m r) = ?id"
    using rstrip_after [OF sp(1), of "''material::'' @ t @ ''::'' @ m @ '':''" "str_or r (take 12 (fresh_id e))"]
    by (simp add: build_material_thread_id_def py_strip_def lstrip_first [OF sp(2)])
  let ?g = "save_thread_id w d (build_material_thread_id e t m r) f" and ?p = "thread_id_path w d"
  have "read_file (make_runtime_dir w d ?g) ?p = Some (?id @ [CHR 0x0A])"
    by (simp add: save_thread_id_def read_write_text_atomic s)
  then have "map_of (make_runtime_dir w d ?g) ?p = Some (FFile (?id @ [CHR 0x0A]))"
    by (auto simp: read_file_def split: option.splits fnode.splits)
  moreover have "py_strip (?id @ [CHR 0x0A]) = ?id"
    using strip_newline [of "build_material_thread_id e t m r"] unfolding s .
  ultimately have l: "snd (load_thread_id ?g w d) = Inr (Some ?id)" by (simp add: load_thread_id_def Let_def)
  have "split_str ''::'' ?id = ''material'' # t # split_str ''::'' (m @ ''::'' @ ?x)"
    using split_str_first [of "''material''" "t @ ''::'' @ m @ ''::'' @ ?x"]
      split_str_first [OF assms(2), of "m @ ''::'' @ ?x"] by (simp only: append.simps) simp
  moreover have "2 \<le> length (split_str ''::'' (m @ ''::'' @ ?x))" by (intro split_str_length contains_mid) simp
  moreover have "py_strip ?id = ?id" using s py_strip_idem by metis
  ultimately have "task_id_from_thread_id (Some ?id) = Some t" using assms(1) by (simp add: task_id_from_thread_id_def)
  with l show ?thesis by blast
qed

theorem thread_id_carries_task_witness:
  "\<exists>tid. snd (load_thread_id (save_thread_id ''/w'' ''.runtime'' (build_material_thread_id demo_env ''t1'' ''MoS2'' (Some ''r1'')) [])
     ''/w'' ''.runtime'') = Inr (Some tid) \<and> task_id_from_thread_id (Some tid) = Some ''t1''"
  by (rule thread_id_carries_task) simp_all

text \<open>A redacted connection string does not depend on the password: user, scheme and host are kept and
  the password is replaced (it must not contain an \<open>@\<close>, see below).\<close>

theorem redaction_hides_password:
  assumes "uri = scheme @ ''://'' @ user @ '':'' @ password @ ''@'' @ host"
    and "py_strip uri = uri" "\<not> is_memory_uri (Some uri)"
    and "CHR '':'' \<notin> set scheme" "CHR '':'' \<notin> set user"
    and "CHR ''@'' \<notin> set scheme" "CHR ''@'' \<notin> set user" "CHR ''@'' \<notin> set password"
  shows "redact_database_uri (Some uri) = scheme @ ''://'' @ user @ '':***@'' @ host"
proof -
  let ?front = "scheme @ ''://'' @ user @ '':'' @ password"
  have ne: "uri \<noteq> []" using assms(1) by simp
  have "split_once ''@'' (?front @ ''@'' @ host) = Some (?front, host)"
    by (rule split_once_first [of "CHR ''@''" _ _ "[]"]) (use assms in auto)
  then have 1: "split_once ''@'' uri = Some (?front, host)" using assms(1) by simp
  have 2: "split_once ''://'' ?front = Some (scheme, user @ '':'' @ password)"
    by (rule split_once_first [of "CHR '':''" _ _ "''//''"]) (use assms in auto)
  have 3: "split_once '':'' (user @ '':'' @ password) = Some (user, password)"
    by (rule split_once_first [of "CHR '':''" _ _ "[]"]) (use assms in auto)
  show ?thesis using ne assms(2,3) 2 3 by (simp add: redact_database_uri_def 1)
qed

theorem redaction_hides_password_witness:
  "redact_database_uri (Some ''postgres://u:secret@h/db'') = ''postgres://u:***@h/db''"
proof -
  have u: "''postgres://u:secret@h/db'' = ''postgres'' @ ''://'' @ ''u'' @ '':'' @ ''secret'' @ ''@'' @ ''h/db''" by simp
  have c: "py_strip ''postgres://u:secret@h/db'' = ''postgres://u:secret@h/db''"
    "\<not> is_memory_uri (Some ''postgres://u:secret@h/db'')" by code_simp+
  from redaction_hides_password [OF u c] show ?thesis by simp
qed

text \<open>With an \<open>@\<close> in the password the rest of the password stays readable.\<close>

lemma redaction_leaks_rest: "redact_database_uri (Some ''postgres://u:p@ss@h/db'') = ''postgres://u:***@ss@h/db''"
  by code_simp

end
