(* ===== verification/Vasp_Common.thy ===== *)
theory Vasp_Common
  imports Files
begin

text \<open>
  The helpers shared by the VASP stages: mobility_agent/tools/vasp_common.py, and the INCAR
  that mobility_agent/tools/band_tool.py writes.

  \<^item> The gate that lets a parameter plan change a stage only after that stage has failed
    (\<open>policy_stage_planning_allowed\<close>).
  \<^item> The classification of a failed run from its log files (\<open>classify_vasp_failure_text\<close>,
    \<open>summarize_vasp_failure\<close>), over the file table of \<open>Files\<close>; a log is one byte per character.
  \<^item> The k-point mesh, the KPOINTS files and the INCAR dictionaries of the relax, SCF and band
    runs, and the overrides that keep a band run compatible with the charge density of the
    SCF run. The INCAR reader of pymatgen and the lattice reader are parameters
    (\<open>parse_incar\<close>, \<open>lattice\<close>).
  \<^item> \<open>prune_dir_keep_files\<close>, which empties a finished stage directory.

  A finished VASP process is described by what it leaves: its exit code, the two streams and
  the file table (\<open>vasp_exit\<close>).
\<close>

section \<open>Tables\<close>

definition TRUE_ENV_VALUES :: "string list" where
  "TRUE_ENV_VALUES = [''1'', ''true'', ''yes'', ''on'']"

definition CHGCAR_COMPATIBLE_INCAR_KEYS :: "string list" where
  "CHGCAR_COMPATIBLE_INCAR_KEYS =
     [''ENCUT'', ''PREC'', ''LREAL'', ''LASPH'', ''ADDGRID'', ''ISPIN'', ''LSORBIT'',
      ''NGX'', ''NGY'', ''NGZ'', ''NGXF'', ''NGYF'', ''NGZF'']"

definition RECOVERY_POLICY_ACTIONS :: "string list" where
  "RECOVERY_POLICY_ACTIONS = [''retry_capability'', ''rerun_from_capability'', ''repair_execution_context'']"

definition RUNNER_ENVIRONMENT_PATTERNS :: "string list" where
  "RUNNER_ENVIRONMENT_PATTERNS =
     [''mpirun: command not found'', ''mpiexec: command not found'', ''vasp_std: command not found'',
      ''vasp_gam: command not found'', ''vasp_ncl: command not found'', ''mpirun: not found'',
      ''mpiexec: not found'', ''vasp_std: not found'', ''vasp_gam: not found'', ''vasp_ncl: not found'',
      ''error while loading shared libraries'', ''cannot open shared object file'', ''ld_library_path'',
      ''libmpi'', ''libmkl'', ''libifcore'', ''libimf'', ''orted: command not found'']"

definition CHGCAR_COMPATIBILITY_PATTERNS :: "string list" where
  "CHGCAR_COMPATIBILITY_PATTERNS =
     [''chgcar'', ''charge density'', ''fft grid'', ''ngxf'', ''ngyf'', ''ngzf'', ''number of data items'']"

text \<open>The value of MOBILITY_REUSE_COMPLETED_VASP_STAGES decides.\<close>

definition reuse_completed_vasp_stages_enabled :: "string option \<Rightarrow> bool" where
  "reuse_completed_vasp_stages_enabled v \<longleftrightarrow> py_lower (py_strip (str_or v [])) \<in> set TRUE_ENV_VALUES"

section \<open>The gate for parameter plans\<close>

definition as_dict :: "py \<Rightarrow> dict" where
  "as_dict v = (case v of PDict d \<Rightarrow> d | _ \<Rightarrow> [])"

definition stage_names :: "string \<Rightarrow> string list \<Rightarrow> string list" where
  "stage_names stage aliases = filter (\<lambda>n. n \<noteq> []) (dedupe (map py_strip (stage # aliases)))"

text \<open>\<open>str(a.get(k) or a.get(j) or "").strip()\<close> and \<open>str(a.get(k) or "").strip()\<close>.\<close>

definition strip2 :: "dict \<Rightarrow> string \<Rightarrow> string \<Rightarrow> string" where
  "strip2 d k j = py_strip (py_str (py_or (dget0 d k) (py_or (dget0 d j) (PStr []))))"

definition strip1 :: "dict \<Rightarrow> string \<Rightarrow> string" where
  "strip1 d k = py_strip (get_str d k)"

definition retried :: "dict \<Rightarrow> string \<Rightarrow> bool" where
  "retried counts n = (case to_int (py_or (dget counts n (PInt 0)) (PInt 0)) of Inl _ \<Rightarrow> False | Inr i \<Rightarrow> 0 < i)"

definition failed_entry :: "string list \<Rightarrow> py \<Rightarrow> bool" where
  "failed_entry names item \<longleftrightarrow> strip2 (as_dict item) ''target_capability'' ''stage'' \<in> set names"

definition latest_observation :: "dict \<Rightarrow> dict" where
  "latest_observation payload =
     (let o1 = as_dict (dget0 (as_dict (dget0 payload ''execution'')) ''latest_execution_observation'')
      in if o1 = [] then as_dict (dget0 (as_dict (dget0 payload ''blackboard'')) ''latest_execution_observation'')
         else o1)"

definition payload_has_failed_stage :: "dict \<Rightarrow> string list \<Rightarrow> bool res" where
  "payload_has_failed_stage payload names =
     (let workflow = as_dict (dget0 payload ''workflow'');
          stage_status = as_dict (dget0 workflow ''stage_status'');
          retry_counts = as_dict (dget0 workflow ''retry_counts'');
          recovery = as_dict (dget0 (as_dict (dget0 payload ''diagnostics'')) ''recovery_summary'');
          observation = latest_observation payload
      in if list_ex (\<lambda>n. strip1 stage_status n = ''failed'') names then Inr True
         else if list_ex (retried retry_counts) names then Inr True
         else if strip2 recovery ''stage'' ''current_stage'' \<in> set names
                 \<and> (truthy (dget0 recovery ''error_type'') \<or> truthy (dget0 recovery ''error_summary'')) then Inr True
         else if strip2 observation ''target_capability'' ''stage'' \<in> set names
                 \<and> strip1 observation ''status'' \<in> {''failed'', ''error''} then Inr True
         else bindR (to_list (py_or (dget0 (as_dict (dget0 payload ''execution'')) ''failure_history'') (PList [])))
                (\<lambda>history. Inr (list_ex (failed_entry names) history)))"

definition policy_stage_planning_allowed :: "py \<Rightarrow> string \<Rightarrow> string list \<Rightarrow> bool res" where
  "policy_stage_planning_allowed state_payload stage aliases =
     (let payload = as_dict state_payload; names = stage_names stage aliases
      in if payload = [] \<or> names = [] then Inr False
         else
           (let action = as_dict (dget0 (as_dict (dget0 payload ''execution'')) ''current_action'');
                target = strip2 action ''target_capability'' ''capability''
            in if strip1 action ''action_family'' \<notin> set RECOVERY_POLICY_ACTIONS then Inr False
               else if target \<noteq> [] \<and> target \<notin> set names then Inr False
               else payload_has_failed_stage payload names))"

section \<open>Failed runs\<close>

text \<open>\<open>xs[-n:]\<close> for a positive \<open>n\<close>.\<close>

definition last_part :: "int \<Rightarrow> 'a list \<Rightarrow> 'a list" where
  "last_part n xs = drop (nat (int (length xs) - n)) xs"

definition tail_text :: "fs \<Rightarrow> string \<Rightarrow> int \<Rightarrow> string" where
  "tail_text f p max_bytes = (case read_file f p of None \<Rightarrow> [] | Some t \<Rightarrow> last_part max_bytes t)"

definition log_names :: "string list" where
  "log_names = [''sout'', ''vasp.out'', ''stdout'', ''stderr'', ''vasp_subprocess_stdout.log'', ''vasp_subprocess_stderr.log'']"

definition log_candidates :: "fs \<Rightarrow> string \<Rightarrow> string list" where
  "log_candidates f cwd =
     map (path_join cwd) (log_names @
       filter (\<lambda>n. endswith n ''.out'' \<or> endswith n ''.err'' \<or> endswith n ''.log'') (listdir f cwd))"

definition log_chunk :: "string \<Rightarrow> string \<Rightarrow> string" where
  "log_chunk path text = [CHR 0x0A] @ ''--- '' @ basename path @ '' ---'' @ [CHR 0x0A] @ text"

definition read_vasp_failure_log_text :: "fs \<Rightarrow> string \<Rightarrow> int \<Rightarrow> string" where
  "read_vasp_failure_log_text f cwd max_bytes =
     join [CHR 0x0A] (map (\<lambda>p. log_chunk p (tail_text f p max_bytes))
       (filter (\<lambda>p. path_exists f p \<and> tail_text f p max_bytes \<noteq> []) (dedupe (log_candidates f cwd))))"

definition mentions :: "string \<Rightarrow> string list \<Rightarrow> bool" where
  "mentions text tokens \<longleftrightarrow> list_ex (contains text) tokens"

definition classify_vasp_failure_text :: "string \<Rightarrow> string \<times> string" where
  "classify_vasp_failure_text text =
     (let value = py_lower text
      in case find (contains value) RUNNER_ENVIRONMENT_PATTERNS of
           Some pattern \<Rightarrow> (''runner_environment_failure'', pattern)
         | None \<Rightarrow>
             if contains value ''command not found'' \<and> mentions value [''mpirun'', ''mpiexec'', ''vasp'']
             then (''runner_environment_failure'', ''command_not_found'')
             else if contains value ''no such file or directory''
                     \<and> mentions value [''mpirun'', ''mpiexec'', ''vasp_std'', ''vasp_gam'', ''vasp_ncl'', ''lib'']
             then (''runner_environment_failure'', ''missing_executable_or_library'')
             else if mentions value CHGCAR_COMPATIBILITY_PATTERNS
                     \<and> mentions value [''mismatch'', ''incompatible'', ''wrong'', ''different'', ''error'', ''dimension'']
             then (''chgcar_compatibility_failure'', ''chgcar_grid_or_dimension_mismatch'')
             else (''unknown_failure'', ''unknown_vasp_failure''))"

definition known_returncode :: "fs \<Rightarrow> string \<Rightarrow> int option \<Rightarrow> int option" where
  "known_returncode f cwd rc =
     (case rc of Some i \<Rightarrow> Some i
      | None \<Rightarrow> Option.bind (read_file f (path_join cwd ''vasp_returncode.txt'')) parse_int)"

definition failure_kind :: "string \<Rightarrow> int option \<Rightarrow> string \<times> string" where
  "failure_kind text rc =
     (let c = classify_vasp_failure_text text
      in case rc of
           Some i \<Rightarrow> if fst c = ''unknown_failure'' then (''nonzero_exit'', ''RETURNCODE_'' @ show_int i) else c
         | None \<Rightarrow> c)"

definition failure_message :: "string \<Rightarrow> string \<times> string \<Rightarrow> string \<Rightarrow> string \<times> string" where
  "failure_message stage k default_error =
     (let label = py_upper (if stage = [] then ''vasp'' else stage)
      in if fst k = ''runner_environment_failure''
         then (label @ '' runner/environment failure: '' @ snd k, ''repair_execution_context'')
         else if fst k = ''chgcar_compatibility_failure''
         then (label @ '' CHGCAR compatibility failure: '' @ snd k, ''repair_execution_context'')
         else if fst k = ''nonzero_exit''
         then (label @ '' nonzero exit: '' @ snd k, ''retry_capability'')
         else (default_error, ''retry_capability''))"

definition summarize_vasp_failure :: "fs \<Rightarrow> string \<Rightarrow> string \<Rightarrow> string \<Rightarrow> int option \<Rightarrow> dict" where
  "summarize_vasp_failure f cwd stage default_error returncode =
     (let k = failure_kind (read_vasp_failure_log_text f cwd 60000) (known_returncode f cwd returncode);
          m = failure_message stage k default_error
      in [(''stage'', PStr stage), (''error_type'', PStr (fst k)), (''trigger_pattern'', PStr (snd k)),
          (''error_summary'', PStr (fst m)), (''recommended_action'', PStr (snd m)),
          (''applied_action'', PStr (if snd m = ''repair_execution_context'' then ''abort_stage'' else ''retry'')),
          (''final_outcome'', PStr ''failed'')])"

section \<open>Files of a stage\<close>

text \<open>\<open>Incar.from_file\<close> is the parameter \<open>parse_incar\<close>, \<open>None\<close> where it raises.\<close>

definition read_chgcar_compatible_incar_overrides :: "(string \<Rightarrow> dict option) \<Rightarrow> fs \<Rightarrow> string \<Rightarrow> dict" where
  "read_chgcar_compatible_incar_overrides parse_incar f base_dir =
     (case Option.bind (read_file f (path_join (path_join base_dir ''02_scf'') ''INCAR'')) parse_incar of
        None \<Rightarrow> []
      | Some scf_incar \<Rightarrow>
          List.map_filter (\<lambda>k. map_option (Pair k) (map_of scf_incar k)) (sort CHGCAR_COMPATIBLE_INCAR_KEYS))"

definition pruned :: "fs \<Rightarrow> string \<Rightarrow> string list \<Rightarrow> string list" where
  "pruned f folder keep =
     filter (\<lambda>n. \<not> (n \<in> set keep \<or> startswith n ''CONTCAR.retry.'' \<or> is_dir f (path_join folder n))) (listdir f folder)"

definition prune_dir_keep_files :: "fs \<Rightarrow> string \<Rightarrow> string list \<Rightarrow> fs" where
  "prune_dir_keep_files f folder keep = files.del_all f (map (path_join folder) (pruned f folder keep))"

fun readlines :: "string \<Rightarrow> string list" where
  "readlines [] = []"
| "readlines (c # s) =
     (if c = CHR 0x0A then [c] # readlines s
      else (case readlines s of [] \<Rightarrow> [[c]] | l # ls \<Rightarrow> (c # l) # ls))"

text \<open>A file opened in text mode: \<open>\r\n\<close> and \<open>\r\<close> read as a newline.\<close>

fun universal_newlines :: "string \<Rightarrow> string" where
  "universal_newlines [] = []"
| "universal_newlines (c # s) =
     (if c = CHR 0x0D then CHR 0x0A # universal_newlines (if take 1 s = [CHR 0x0A] then drop 1 s else s)
      else c # universal_newlines s)"

definition text_lines :: "string \<Rightarrow> string list" where
  "text_lines t = readlines (universal_newlines t)"

text \<open>\<open>bool(lines and "F=" in lines[-1])\<close> of the lines of an OSZICAR.\<close>

definition oszicar_converged :: "string \<Rightarrow> bool" where
  "oszicar_converged t = (case rev (text_lines t) of [] \<Rightarrow> False | l # _ \<Rightarrow> contains l ''F='')"

text \<open>
  \<open>run_vasp\<close>: the process leaves the file table, its exit code and the two streams it wrote.
  \<open>append_file\<close> is \<open>open(p, "ab").write(t)\<close>.
\<close>

record vasp_exit =
  ve_files :: fs
  ve_returncode :: int
  ve_stdout :: string
  ve_stderr :: string

definition append_file :: "fs \<Rightarrow> string \<Rightarrow> string \<Rightarrow> fs" where
  "append_file f p t = write_file f p ((case read_file f p of None \<Rightarrow> [] | Some s \<Rightarrow> s) @ t)"

definition run_vasp :: "vasp_exit \<Rightarrow> string \<Rightarrow> bool \<Rightarrow> fs \<times> bool" where
  "run_vasp p cwd check_convergence =
     (let f1 = (if ve_stdout p = [] then ve_files p
                else append_file (ve_files p) (path_join cwd ''vasp_subprocess_stdout.log'') (ve_stdout p));
          f2 = (if ve_stderr p = [] then f1
                else append_file f1 (path_join cwd ''vasp_subprocess_stderr.log'') (ve_stderr p));
          f3 = write_file f2 (path_join cwd ''vasp_returncode.txt'') (show_int (ve_returncode p))
      in if ve_returncode p \<noteq> 0 then (f3, False)
         else if check_convergence then
           (case read_file f3 (path_join cwd ''OSZICAR'') of
              Some t \<Rightarrow> (f3, oszicar_converged t) | None \<Rightarrow> (f3, True))
         else (f3, True))"

text \<open>\<open>shutil.copy(src, dst)\<close> onto a file name.\<close>

definition copy_file :: "fs \<Rightarrow> string \<Rightarrow> string \<Rightarrow> fs res" where
  "copy_file f src dst =
     (case map_of f src of
        Some (FFile t) \<Rightarrow> Inr (write_file f dst t)
      | Some FDir \<Rightarrow> Inl (OSError src)
      | None \<Rightarrow> Inl (FileNotFoundError src))"

definition copy_poscar_potcar :: "fs \<Rightarrow> string \<Rightarrow> string \<Rightarrow> string \<Rightarrow> fs res" where
  "copy_poscar_potcar f poscar_path potcar_path dest_dir =
     bindR (copy_file f poscar_path (path_join dest_dir ''POSCAR''))
       (\<lambda>f1. copy_file f1 potcar_path (path_join dest_dir ''POTCAR''))"

section \<open>k-point meshes\<close>

definition floor_to_even :: "int \<Rightarrow> int" where
  "floor_to_even n = (if n mod 2 = 0 then n else n - 1)"

text \<open>The two in-plane lattice constants of the structure file are \<open>a\<close> and \<open>b\<close>.\<close>

definition kmesh_from_poscar_2d :: "rat \<Rightarrow> rat \<Rightarrow> rat \<Rightarrow> (int \<times> int \<times> int) res" where
  "kmesh_from_poscar_2d a b target_ka =
     (if a \<le> 0 \<or> b \<le> 0 then Inl (ValueError ''POSCAR lattice'')
      else Inr (max 2 (floor_to_even \<lfloor>target_ka / a\<rfloor>), max 2 (floor_to_even \<lfloor>target_ka / b\<rfloor>), 1))"

definition kpoints_text :: "string \<Rightarrow> bool \<Rightarrow> int \<times> int \<times> int \<Rightarrow> string" where
  "kpoints_text material_name gamma_centered mesh =
     concat (map (\<lambda>l. l @ [CHR 0x0A])
       [material_name, ''0'', if gamma_centered then ''G'' else ''M'',
        show_int (fst mesh) @ '' '' @ show_int (fst (snd mesh)) @ '' '' @ show_int (snd (snd mesh)),
        ''0 0 0''])"

text \<open>\<open>lattice\<close> reads the in-plane lattice constants from the text of a POSCAR.\<close>

definition write_relax_scf_kpoints ::
  "(string \<Rightarrow> (rat \<times> rat) res) \<Rightarrow> fs \<Rightarrow> string \<Rightarrow> string \<Rightarrow> rat \<Rightarrow> bool \<Rightarrow> (int \<times> int \<times> int) option \<Rightarrow> fs res" where
  "write_relax_scf_kpoints lattice f dest_dir material_name target_ka gamma_centered explicit_mesh =
     (let poscar_path = path_join dest_dir ''POSCAR'' in
      if \<not> path_exists f poscar_path then Inl (FileNotFoundError poscar_path)
      else bindR (case explicit_mesh of
                    Some m \<Rightarrow> Inr m
                  | None \<Rightarrow> (case read_file f poscar_path of
                        None \<Rightarrow> Inl (OSError poscar_path)
                      | Some t \<Rightarrow> bindR (lattice t) (\<lambda>ab. kmesh_from_poscar_2d (fst ab) (snd ab) target_ka)))
             (\<lambda>mesh. Inr (write_file f (path_join dest_dir ''KPOINTS'') (kpoints_text material_name gamma_centered mesh))))"

definition kpath_lines :: "string list" where
  "kpath_lines =
     [''   0.0000000000   0.0000000000   0.0000000000     GAMMA'',
      ''   0.5000000000   0.0000000000   0.0000000000     X'',
      [],
      ''   0.5000000000   0.0000000000   0.0000000000     X'',
      ''   0.5000000000   0.5000000000   0.0000000000     S'',
      [],
      ''   0.5000000000   0.5000000000   0.0000000000     S'',
      ''   0.0000000000   0.5000000000   0.0000000000     Y'',
      [],
      ''   0.0000000000   0.5000000000   0.0000000000     Y'',
      ''   0.0000000000   0.0000000000   0.0000000000     GAMMA'']"

definition write_band_kpoints :: "fs \<Rightarrow> string \<Rightarrow> int \<Rightarrow> fs" where
  "write_band_kpoints f filepath npoints_per_segment =
     (let npoints = max 8 (if npoints_per_segment = 0 then 40 else npoints_per_segment)
      in write_file f filepath (concat (map (\<lambda>l. l @ [CHR 0x0A])
           ([''KPATH: G-X-S-Y-G'', show_int npoints, ''Line-Mode'', ''Reciprocal''] @ kpath_lines))))"

section \<open>INCAR dictionaries\<close>

text \<open>The keys the three builders share, in the order of the source.\<close>

definition incar_head :: "string \<Rightarrow> int \<Rightarrow> flt \<Rightarrow> int \<Rightarrow> int \<Rightarrow> int \<Rightarrow> dict" where
  "incar_head sys icharg ediff encut nelm ivdw =
     [(''SYSTEM'', PStr sys), (''ISTART'', PInt 0), (''ICHARG'', PInt icharg), (''ISMEAR'', PInt 0),
      (''SIGMA'', PFloat (Fin (1 / 100))), (''LREAL'', PStr ''Auto''), (''PREC'', PStr ''Normal''),
      (''EDIFF'', PFloat ediff), (''ENCUT'', PInt encut), (''NELM'', PInt nelm), (''IVDW'', PInt ivdw)]"

definition build_incar_relax ::
  "string \<Rightarrow> flt \<Rightarrow> int \<Rightarrow> string option \<Rightarrow> bool \<Rightarrow> int \<Rightarrow> int \<Rightarrow> int \<Rightarrow> int \<Rightarrow> dict" where
  "build_incar_relax sys ediff isif lattice_constraints consider_spin nsw encut nelm ivdw =
     incar_head sys 2 ediff encut nelm ivdw
     @ [(''ISIF'', PInt isif), (''NSW'', PInt nsw), (''IBRION'', PInt 2), (''POTIM'', PFloat (Fin (1 / 2))),
        (''EDIFFG'', PFloat (Fin (- 1 / 100))), (''NELMIN'', PInt 4), (''ALGO'', PStr ''Normal''),
        (''LCHARG'', PBool False), (''LWAVE'', PBool False), (''LELF'', PBool False)]
     @ (case lattice_constraints of None \<Rightarrow> [] | Some c \<Rightarrow> [(''LATTICE_CONSTRAINTS'', PStr c)])
     @ (if consider_spin then [(''ISPIN'', PInt 2)] else [])"

definition build_incar_scf :: "string \<Rightarrow> bool \<Rightarrow> flt \<Rightarrow> int \<Rightarrow> int \<Rightarrow> int \<Rightarrow> bool \<Rightarrow> bool \<Rightarrow> dict" where
  "build_incar_scf sys consider_spin ediff encut nelm ivdw lvtot lvhar =
     incar_head sys 2 ediff encut nelm ivdw
     @ [(''NELMIN'', PInt 4), (''ALGO'', PStr ''Normal''), (''LCHARG'', PBool True), (''LWAVE'', PBool True),
        (''LELF'', PBool False)]
     @ (if lvtot then [(''LVTOT'', PBool True)] else [])
     @ (if lvhar then [(''LVHAR'', PBool True)] else [])
     @ (if consider_spin then [(''ISPIN'', PInt 2)] else [])"

definition build_incar_band :: "string \<Rightarrow> bool \<Rightarrow> flt \<Rightarrow> int \<Rightarrow> int \<Rightarrow> int \<Rightarrow> dict" where
  "build_incar_band sys consider_spin ediff encut nelm ivdw =
     incar_head sys 11 ediff encut nelm ivdw
     @ [(''NELMIN'', PInt 4), (''ALGO'', PStr ''Normal''), (''LCHARG'', PBool False), (''LWAVE'', PBool False),
        (''LELF'', PBool False)]
     @ (if consider_spin then [(''ISPIN'', PInt 2)] else [])"

text \<open>
  The INCAR of the band stage (mobility_agent/tools/band_tool.py): the defaults, the overrides read from the SCF
  run, the overrides of a parameter plan, when there is one, and the SCF overrides once more.
\<close>

definition band_incar :: "bool \<Rightarrow> dict \<Rightarrow> dict option \<Rightarrow> dict" where
  "band_incar consider_spin scf_overrides plan =
     (let base = dmerge (build_incar_band ''Band Structure'' consider_spin (Fin (1 / 10 ^ 6)) 600 300 12) scf_overrides
      in case plan of None \<Rightarrow> base | Some incar_overrides \<Rightarrow> dmerge (dmerge base incar_overrides) scf_overrides)"

section \<open>Facts on text and classification\<close>

lemma split_once_present: "split_once p (a @ p @ b) \<noteq> None"
proof (induction a)
  case Nil
  have "startswith (p @ b) p" by simp
  then show ?case by (cases "p @ b") auto
next
  case (Cons c a)
  then show ?case by auto
qed

lemma contains_iff: "contains s p \<longleftrightarrow> (\<exists>a b. s = a @ p @ b)"
  using split_once_present split_once_Some unfolding contains_def by fastforce

lemma contains_mono: "contains s p \<Longrightarrow> contains (a @ s @ b) p"
  unfolding contains_iff by (metis append.assoc)

lemma mentions_mono: "mentions s ps \<Longrightarrow> mentions (a @ s @ b) ps"
  unfolding mentions_def list_ex_iff using contains_mono by blast

lemma py_lower_append: "py_lower (a @ b) = py_lower a @ py_lower b"
  by (simp add: py_lower_def)

definition environment_failure :: "string \<Rightarrow> bool" where
  "environment_failure text \<longleftrightarrow> fst (classify_vasp_failure_text text) = ''runner_environment_failure''"

lemma environment_failure_iff:
  "environment_failure text \<longleftrightarrow>
     (let v = py_lower text
      in mentions v RUNNER_ENVIRONMENT_PATTERNS
         \<or> contains v ''command not found'' \<and> mentions v [''mpirun'', ''mpiexec'', ''vasp'']
         \<or> contains v ''no such file or directory''
            \<and> mentions v [''mpirun'', ''mpiexec'', ''vasp_std'', ''vasp_gam'', ''vasp_ncl'', ''lib''])"
proof -
  let ?v = "py_lower text"
  have "mentions ?v RUNNER_ENVIRONMENT_PATTERNS \<longleftrightarrow> find (contains ?v) RUNNER_ENVIRONMENT_PATTERNS \<noteq> None"
    by (auto simp: mentions_def list_ex_iff find_None_iff)
  then show ?thesis
    unfolding environment_failure_def classify_vasp_failure_text_def Let_def
    by (cases "find (contains ?v) RUNNER_ENVIRONMENT_PATTERNS") simp_all
qed

lemma environment_failure_mono: "environment_failure text \<Longrightarrow> environment_failure (a @ text @ b)"
  unfolding environment_failure_iff Let_def py_lower_append
  using contains_mono mentions_mono by metis

lemma join_member: "s \<in> set ss \<Longrightarrow> \<exists>a b. join sep ss = a @ s @ b"
proof (induction sep ss rule: join.induct)
  case (3 sep x y ys)
  show ?case
  proof (cases "s = x")
    case True
    then have "join sep (x # y # ys) = [] @ s @ (sep @ join sep (y # ys))" by simp
    then show ?thesis by blast
  next
    case False
    with 3 obtain a b where "join sep (y # ys) = a @ s @ b" by auto
    then show ?thesis by (metis append.assoc join.simps(3))
  qed
qed (auto intro: exI [of _ "[]"])

lemma log_text_member:
  assumes "p \<in> set (log_candidates f cwd)" "read_file f p = Some t" "t \<noteq> []" "int (length t) \<le> n"
  shows "\<exists>a b. read_vasp_failure_log_text f cwd n = a @ t @ b"
proof -
  have t: "tail_text f p n = t" using assms by (simp add: tail_text_def last_part_def)
  have e: "path_exists f p" using assms(2) by (auto simp: read_file_def path_exists_def split: option.splits)
  have "log_chunk p t \<in> set (map (\<lambda>p. log_chunk p (tail_text f p n))
          (filter (\<lambda>p. path_exists f p \<and> tail_text f p n \<noteq> []) (dedupe (log_candidates f cwd))))"
    using t e assms(1,3) by force
  from join_member [OF this, of "[CHR 0x0A]"] obtain a b where
    "read_vasp_failure_log_text f cwd n = a @ log_chunk p t @ b"
    by (auto simp: read_vasp_failure_log_text_def)
  then have "read_vasp_failure_log_text f cwd n = (a @ [CHR 0x0A] @ ''--- '' @ basename p @ '' ---'' @ [CHR 0x0A]) @ t @ b"
    by (simp add: log_chunk_def)
  then show ?thesis by blast
qed

lemma split_kind: "failure_kind text rc = classify_vasp_failure_text text" if "environment_failure text"
  using that by (auto simp: failure_kind_def environment_failure_def Let_def split: option.splits)

section \<open>Facts on the INCAR and the k-point mesh\<close>

lemma map_of_map_filter:
  "distinct ks \<Longrightarrow> map_of (List.map_filter (\<lambda>k. map_option (Pair k) (g k)) ks) k = (if k \<in> set ks then g k else None)"
  by (induction ks) (auto simp: List.map_filter_simps split: option.splits)

lemma map_filter_keys:
  "map fst (List.map_filter (\<lambda>k. map_option (Pair k) (g k)) ks) = filter (\<lambda>k. g k \<noteq> None) ks"
  by (induction ks) (auto simp: List.map_filter_simps split: option.splits)

lemma overrides_lookup:
  assumes "read_file f (path_join (path_join base ''02_scf'') ''INCAR'') = Some t" "parse_incar t = Some scf"
  shows "map_of (read_chgcar_compatible_incar_overrides parse_incar f base) k
           = (if k \<in> set CHGCAR_COMPATIBLE_INCAR_KEYS then map_of scf k else None)"
    and "distinct (map fst (read_chgcar_compatible_incar_overrides parse_incar f base))"
proof -
  have d: "distinct (sort CHGCAR_COMPATIBLE_INCAR_KEYS)"
    by (simp add: CHGCAR_COMPATIBLE_INCAR_KEYS_def)
  show "map_of (read_chgcar_compatible_incar_overrides parse_incar f base) k
          = (if k \<in> set CHGCAR_COMPATIBLE_INCAR_KEYS then map_of scf k else None)"
    using assms by (simp add: read_chgcar_compatible_incar_overrides_def map_of_map_filter [OF d])
  show "distinct (map fst (read_chgcar_compatible_incar_overrides parse_incar f base))"
    using assms d by (simp add: read_chgcar_compatible_incar_overrides_def map_filter_keys)
qed

lemma floor_to_even_spec:
  "floor_to_even n mod 2 = 0" "floor_to_even n \<le> n" "n < floor_to_even n + 2"
  unfolding floor_to_even_def by presburger+

lemma even_mesh:
  assumes "0 < a" and k: "k = max 2 (floor_to_even \<lfloor>t / a\<rfloor>)"
  shows "k mod 2 = 0" "2 \<le> k" "k = 2 \<or> of_int k * a \<le> t" "t < of_int (k + 2) * a"
proof -
  note fe = floor_to_even_spec [of "\<lfloor>t / a\<rfloor>"]
  show "k mod 2 = 0" using fe(1) k by (simp add: max_def)
  show "2 \<le> k" using k by simp
  show "k = 2 \<or> of_int k * a \<le> t"
  proof (cases "k = 2")
    case False
    then have "k \<le> \<lfloor>t / a\<rfloor>" using k fe(2) by linarith
    then have "of_int k \<le> t / a" by (simp add: le_floor_iff)
    with assms(1) show ?thesis by (simp add: pos_le_divide_eq)
  qed simp
  have "\<lfloor>t / a\<rfloor> < k + 2" using k fe(3) by linarith
  then have "t / a < of_int (k + 2)" by (simp only: floor_less_iff)
  with assms(1) show "t < of_int (k + 2) * a" by (simp only: pos_divide_less_eq)
qed

section \<open>Properties of the VASP helpers\<close>

text \<open>C39: The k-point mesh of a layer is even and at least two along both in-plane directions and one
  along the third, and it is the finest even mesh within the target: the product with the lattice
  constant stays within the target (unless the mesh is the minimum of two), and two points more
  would exceed it.\<close>

theorem kmesh_sound:
  assumes "0 < a" "0 < b"
  shows "\<exists>kx ky. kmesh_from_poscar_2d a b t = Inr (kx, ky, 1)
    \<and> kx mod 2 = 0 \<and> ky mod 2 = 0 \<and> 2 \<le> kx \<and> 2 \<le> ky
    \<and> (kx = 2 \<or> of_int kx * a \<le> t) \<and> (ky = 2 \<or> of_int ky * b \<le> t)
    \<and> t < of_int (kx + 2) * a \<and> t < of_int (ky + 2) * b"
  using assms even_mesh [OF assms(1) refl, of t] even_mesh [OF assms(2) refl, of t]
  by (simp add: kmesh_from_poscar_2d_def)

theorem kmesh_sound_witness:
  "kmesh_from_poscar_2d 3 4 50 = Inr (16, 12, 1) \<and> (50::rat) < of_int (16 + 2) * 3"
proof -
  have e: "kmesh_from_poscar_2d 3 4 50 = Inr (16, 12, 1)"
    by code_simp
  from kmesh_sound [of 3 4 50] e show ?thesis by auto
qed

text \<open>A band run reads the charge density on the grid it was written on: every compatibility key that
  the SCF run's INCAR sets (cutoff, precision, spin, FFT grid) has the same value in the INCAR of the
  band run, whatever a parameter plan asks for.\<close>

theorem band_keeps_scf_grid:
  assumes "read_file f (path_join (path_join base ''02_scf'') ''INCAR'') = Some t" "parse_incar t = Some scf"
    and "k \<in> set CHGCAR_COMPATIBLE_INCAR_KEYS" "map_of scf k = Some v"
  shows "map_of (band_incar consider_spin (read_chgcar_compatible_incar_overrides parse_incar f base) plan) k = Some v"
proof -
  let ?ov = "read_chgcar_compatible_incar_overrides parse_incar f base"
  have ov: "map_of ?ov k = Some v" "distinct (map fst ?ov)"
    using overrides_lookup(1) [of f base t parse_incar scf k] overrides_lookup(2) [of f base t parse_incar scf] assms by auto
  have "map_of (dmerge d ?ov) k = Some v" for d
    using ov by (simp add: map_of_dmerge map_add_def)
  then show ?thesis by (simp add: band_incar_def Let_def split: option.split)
qed

theorem band_keeps_scf_grid_witness:
  "map_of (band_incar True (read_chgcar_compatible_incar_overrides (\<lambda>t. Some [(''ENCUT'', PInt 520)])
      [(''/m/02_scf/INCAR'', FFile ''ENCUT = 520'')] ''/m'') (Some [(''ENCUT'', PInt 400)])) ''ENCUT'' = Some (PInt 520)"
proof (rule band_keeps_scf_grid)
  show "read_file [(''/m/02_scf/INCAR'', FFile ''ENCUT = 520'')] (path_join (path_join ''/m'' ''02_scf'') ''INCAR'')
          = Some ''ENCUT = 520''" by code_simp
  show "''ENCUT'' \<in> set CHGCAR_COMPATIBLE_INCAR_KEYS" by code_simp
  show "map_of [(''ENCUT'', PInt 520)] ''ENCUT'' = Some (PInt 520)" by simp
qed (rule refl)

text \<open>An environment failure is never masked by other output: when one of the log files of a stage
  directory reports a missing executable or library (within the last 60000 characters), the summary
  of the failed run says so and recommends to repair the execution context, whatever the other logs
  contain and whatever exit code is known.\<close>

theorem environment_failure_reported:
  assumes "p \<in> set (log_candidates f cwd)" "read_file f p = Some t" "int (length t) \<le> 60000"
    and "fst (classify_vasp_failure_text t) = ''runner_environment_failure''"
  shows "dget0 (summarize_vasp_failure f cwd stage default_error rc) ''error_type'' = PStr ''runner_environment_failure''
    \<and> dget0 (summarize_vasp_failure f cwd stage default_error rc) ''recommended_action'' = PStr ''repair_execution_context''"
proof -
  have env: "environment_failure t" using assms(4) by (simp add: environment_failure_def)
  have "\<not> environment_failure []" by code_simp
  with env have "t \<noteq> []" by blast
  from log_text_member [OF assms(1,2) this assms(3)] obtain a b where
    r: "read_vasp_failure_log_text f cwd 60000 = a @ t @ b" by blast
  have e: "environment_failure (a @ t @ b)" by (rule environment_failure_mono [OF env])
  then have "fst (failure_kind (a @ t @ b) rc') = ''runner_environment_failure''" for rc'
    by (simp only: split_kind) (simp add: environment_failure_def)
  then show ?thesis
    by (simp add: summarize_vasp_failure_def r failure_message_def Let_def dget0_def dget_def)
qed

theorem environment_failure_reported_witness:
  "dget0 (summarize_vasp_failure [(''/m/sout'', FFile ''sh: mpirun: command not found'')] ''/m'' ''scf'' ''SCF'' (Some 127))
     ''recommended_action'' = PStr ''repair_execution_context''"
proof -
  have "''/m/sout'' \<in> set (log_candidates [(''/m/sout'', FFile ''sh: mpirun: command not found'')] ''/m'')" by code_simp
  moreover have "read_file [(''/m/sout'', FFile ''sh: mpirun: command not found'')] ''/m/sout'' = Some ''sh: mpirun: command not found''"
    by code_simp
  moreover have "fst (classify_vasp_failure_text ''sh: mpirun: command not found'') = ''runner_environment_failure''" by code_simp
  ultimately show ?thesis
    using environment_failure_reported [of "''/m/sout''" "[(''/m/sout'', FFile ''sh: mpirun: command not found'')]" "''/m''"
        "''sh: mpirun: command not found''" "''scf''" "''SCF''" "Some 127"] by simp
qed

end
