(* ===== verification/Relax_Retry.thy ===== *)
theory Relax_Retry
  imports Vasp_Common Json
begin

text \<open>
  The retry loop of the relaxation: mobility_agent/tools/relax_retry.py.

  \<^item> The banner of a failed bracketing, the checkpoint file, the retry log, the backup and
    promotion of CONTCAR, the change of EDIFF in INCAR, the summary of a run.
  \<^item> One attempt (\<open>attempt_step\<close>): the monitor reads what the log files gained since the attempt
    began, then the exit code, the convergence and the banner decide whether the run ends or
    another attempt follows.
  \<^item> The loop over the retry numbers (\<open>retry_loop\<close>) and the whole function
    (\<open>run_relax_vasp_with_retry\<close>).

  The VASP process is the parameter \<open>rc_vasp\<close>: for the number of the attempt and the files it
  starts from, the file tables the monitor sees while the process lives, the files when it has
  ended and its exit code. Signals, sleeping and the decoding of broken UTF-8 are not modelled;
  a poll reads all files of one file table. The clock is the parameter \<open>rc_clock\<close>.
\<close>

section \<open>The banner\<close>

text \<open>A search for the parts in order with anything between them.\<close>

fun ordered_in :: "string list \<Rightarrow> string \<Rightarrow> bool" where
  "ordered_in [] s = True"
| "ordered_in (p # ps) s = (case split_once p s of None \<Rightarrow> False | Some ab \<Rightarrow> ordered_in ps (snd ab))"

definition ZBRENT_BANNER :: "string list" where
  "ZBRENT_BANNER =
     [''EEEEE'', ''ZBRENT: fatal error in bracketing'',
      ''please rerun with smaller EDIFF, or copy CONTCAR to POSCAR and continue'',
      ''I REFUSE TO CONTINUE WITH THIS SICK JOB ... BYE!!!'']"

definition detect_zbrent_banner :: "string \<Rightarrow> bool" where
  "detect_zbrent_banner text = ordered_in ZBRENT_BANNER text"

definition relax_retry_enabled :: "bool \<Rightarrow> string option \<Rightarrow> bool" where
  "relax_retry_enabled cli_no_relax_retry env_value \<longleftrightarrow>
     \<not> cli_no_relax_retry
     \<and> py_lower (py_strip (case env_value of None \<Rightarrow> ''true'' | Some v \<Rightarrow> v)) \<notin> {''0'', ''false'', ''no'', ''off''}"

section \<open>The checkpoint and the log\<close>

record RelaxCheckpoint =
  ck_material_id :: string
  ck_retry_n :: int
  ck_last_backup_file :: py

definition checkpoint_path :: "string \<Rightarrow> string" where
  "checkpoint_path workdir = path_join workdir ''.relax_checkpoint''"

definition checkpoint_load :: "fs \<Rightarrow> string \<Rightarrow> RelaxCheckpoint option" where
  "checkpoint_load f workdir =
     (case Option.bind (read_file f (checkpoint_path workdir)) json_loads of
        Some (PDict obj) \<Rightarrow>
          (case get_int obj ''retry_n'' of
             Inl _ \<Rightarrow> None
           | Inr n \<Rightarrow> Some \<lparr>ck_material_id = py_str (dget obj ''material_id'' (PStr [])), ck_retry_n = n,
                             ck_last_backup_file = dget0 obj ''last_backup_file''\<rparr>)
      | _ \<Rightarrow> None)"

definition checkpoint_save :: "RelaxCheckpoint \<Rightarrow> fs \<Rightarrow> string \<Rightarrow> fs" where
  "checkpoint_save ck f workdir =
     (let p = checkpoint_path workdir
      in fs_del (write_file f p (json_dumps (PDict
           [(''material_id'', PStr (ck_material_id ck)), (''retry_n'', PInt (ck_retry_n ck)),
            (''last_backup_file'', ck_last_backup_file ck)]))) (p @ ''.tmp''))"

definition append_retry_log :: "fs \<Rightarrow> string \<Rightarrow> string \<Rightarrow> string \<Rightarrow> int \<Rightarrow> string \<Rightarrow> py \<Rightarrow> fs" where
  "append_retry_log f log_path ts material_id retry_n error_snippet backup_file =
     append_file (makedirs f (dirname log_path)) log_path
       (''[UTC] '' @ ts @ '' | '' @ material_id @ '' | '' @ show_int retry_n @ '' | '' @ error_snippet @ '' | ''
        @ py_str (py_or backup_file (PStr [])) @ [CHR 0x0A])"

definition maybe_resume_from_checkpoint :: "fs \<Rightarrow> string \<Rightarrow> int \<times> py" where
  "maybe_resume_from_checkpoint f workdir =
     (case checkpoint_load f workdir of
        None \<Rightarrow> (0, PNone) | Some ck \<Rightarrow> (ck_retry_n ck, ck_last_backup_file ck))"

section \<open>Backup and promotion\<close>

text \<open>The first of \<open>backup.1\<close>, \<open>backup.2\<close>, \<dots> that does not exist, searched for at most \<open>n\<close> steps.\<close>

fun free_suffix :: "fs \<Rightarrow> string \<Rightarrow> nat \<Rightarrow> nat \<Rightarrow> nat" where
  "free_suffix f b 0 k = k"
| "free_suffix f b (Suc n) k = (if path_exists f (b @ ''.'' @ show_int (int k)) then free_suffix f b n (Suc k) else k)"

definition backup_name :: "fs \<Rightarrow> string \<Rightarrow> int \<Rightarrow> string" where
  "backup_name f workdir retry_n =
     (let backup = path_join workdir (''POSCAR.retry'' @ show_int retry_n @ ''.bak'')
      in if path_exists f backup then backup @ ''.'' @ show_int (int (free_suffix f backup (length f) 1)) else backup)"

text \<open>The files after the call, and the backup it returns or the exception it raises.\<close>

definition backup_and_promote_contcar :: "fs \<Rightarrow> string \<Rightarrow> int \<Rightarrow> fs \<times> string res" where
  "backup_and_promote_contcar f workdir retry_n =
     (let contcar = path_join workdir ''CONTCAR''; poscar = path_join workdir ''POSCAR'';
          backup = backup_name f workdir retry_n
      in if \<not> path_exists f contcar \<or> file_size f contcar = 0 then (f, Inl (FileNotFoundError contcar))
         else (case copy_file f (if path_exists f poscar then poscar else contcar) backup of
                 Inl e \<Rightarrow> (f, Inl e)
               | Inr f1 \<Rightarrow>
                   (case copy_file f1 contcar poscar of Inl e \<Rightarrow> (f1, Inl e) | Inr f2 \<Rightarrow> (f2, Inr backup))))"

section \<open>EDIFF\<close>

text \<open>
  \<open>f"{x:.1e}"\<close>: two significant digits, half to even, and an exponent of at least two digits. The
  decimal exponent of a double is within 324, so that 400 steps find it.
\<close>

fun decimal_exponent :: "nat \<Rightarrow> rat \<Rightarrow> int" where
  "decimal_exponent 0 q = 0"
| "decimal_exponent (Suc n) q =
     (if 10 \<le> q then 1 + decimal_exponent n (q / 10)
      else if q < 1 then decimal_exponent n (q * 10) - 1 else 0)"

definition half_even :: "rat \<Rightarrow> int" where
  "half_even q =
     (let n = \<lfloor>q\<rfloor>; r = q - of_int n
      in if r < 1 / 2 then n else if 1 / 2 < r then n + 1 else if n mod 2 = 0 then n else n + 1)"

definition two_digits :: "nat \<Rightarrow> string" where
  "two_digits n = (if n < 10 then ''0'' @ nat_digits n else nat_digits n)"

definition sci_positive :: "rat \<Rightarrow> string" where
  "sci_positive q =
     (let e0 = decimal_exponent 400 q; m0 = half_even (scale10 q (1 - e0));
          m = (if m0 = 100 then 10 else m0); e = (if m0 = 100 then e0 + 1 else e0)
      in nat_digits (nat (m div 10)) @ ''.'' @ nat_digits (nat (m mod 10)) @ ''e''
         @ (if e < 0 then ''-'' else ''+'') @ two_digits (nat \<bar>e\<bar>))"

fun format_1e :: "flt \<Rightarrow> string" where
  "format_1e (Fin q) =
     (if q = 0 then ''0.0e+00'' else if q < 0 then ''-'' @ sci_positive (- q) else sci_positive q)"
| "format_1e PosInf = ''inf''"
| "format_1e NegInf = ''-inf''"
| "format_1e NaN = ''nan''"

text \<open>
  The match of one line (without its newline) with \<open>^(\s*EDIFF\s*=\s*)([^\s#]+)(.*)$\<close>, the letters in
  any case: the three groups.
\<close>

definition spaces :: "string \<Rightarrow> string" where
  "spaces s = takeWhile is_space s"

definition ediff_match :: "string \<Rightarrow> (string \<times> string \<times> string) option" where
  "ediff_match line =
     (let s1 = py_lstrip line; key = take 5 s1; s2 = py_lstrip (drop 5 s1); eq = take 1 s2;
          s3 = py_lstrip (drop 1 s2);
          val = takeWhile (\<lambda>c. \<not> is_space c \<and> c \<noteq> CHR ''#'') s3
      in if py_upper key = ''EDIFF'' \<and> eq = ''='' \<and> val \<noteq> []
         then Some (take (length line - length s3) line, val, drop (length val) s3)
         else None)"

definition tightened :: "flt \<Rightarrow> flt" where
  "tightened old = py_max (Fin (1 / 10 ^ 7))
     (case old of Fin q \<Rightarrow> Fin (q * (1 / 10)) | PosInf \<Rightarrow> PosInf | NegInf \<Rightarrow> NegInf | NaN \<Rightarrow> NaN)"

text \<open>One line: the line to write, and the old and new value when it was replaced.\<close>

definition chomp :: "string \<Rightarrow> string" where
  "chomp l = rev (dropWhile (\<lambda>c. c = CHR 0x0A) (rev l))"

definition tighten_line :: "string \<Rightarrow> string \<times> (flt \<times> flt) option" where
  "tighten_line line =
     (case ediff_match (chomp line) of
        None \<Rightarrow> (line, None)
      | Some m \<Rightarrow>
          (case parse_float (fst (snd m)) of
             None \<Rightarrow> (line, None)
           | Some old \<Rightarrow>
               (fst m @ format_1e (tightened old) @ snd (snd m) @ [CHR 0x0A], Some (old, tightened old))))"

definition tighten_ediff_in_incar :: "fs \<Rightarrow> string \<Rightarrow> fs \<times> (flt \<times> flt) option" where
  "tighten_ediff_in_incar f workdir =
     (case read_file f (path_join workdir ''INCAR'') of
        None \<Rightarrow> (f, None)
      | Some text \<Rightarrow>
          (let lines = map tighten_line (text_lines text); changes = List.map_filter snd lines
           in if changes = [] then (f, None)
              else (write_file f (path_join workdir ''INCAR'') (concat (map fst lines)), Some (last changes))))"

section \<open>The summary of a run\<close>

definition optional :: "string \<Rightarrow> py \<Rightarrow> dict" where
  "optional k v = (if truthy v then [(k, v)] else [])"

definition make_retry_summary ::
  "string \<Rightarrow> string \<Rightarrow> int \<Rightarrow> int \<Rightarrow> string \<Rightarrow> string \<Rightarrow> string \<Rightarrow> py \<Rightarrow> py list \<Rightarrow> py \<Rightarrow> dict" where
  "make_retry_summary error_type trigger_pattern retries_used max_retries recommended applied outcome
       backup_file actions error_summary =
     [(''stage'', PStr ''relax''), (''error_type'', PStr error_type), (''trigger_pattern'', PStr trigger_pattern),
      (''retries_used'', PInt retries_used), (''max_retries'', PInt max_retries),
      (''recommended_action'', PStr recommended), (''applied_action'', PStr applied), (''final_outcome'', PStr outcome)]
     @ (if truthy backup_file
        then [(''backup_file'', backup_file), (''previous_poscar_backup_path'', backup_file)] else [])
     @ optional ''error_summary'' error_summary @ optional ''actions'' (PList actions)"

record abortable =
  ab_error_type :: string
  ab_trigger_pattern :: string
  ab_error_summary :: string

definition classify_abortable_vasp_failure :: "fs \<Rightarrow> string \<Rightarrow> string \<Rightarrow> int \<Rightarrow> abortable option" where
  "classify_abortable_vasp_failure f workdir merged_text returncode =
     (let c = classify_vasp_failure_text (merged_text @ [CHR 0x0A] @ read_vasp_failure_log_text f workdir 60000)
      in if fst c \<notin> {''runner_environment_failure'', ''chgcar_compatibility_failure''} then None
         else Some \<lparr>ab_error_type = fst c, ab_trigger_pattern = snd c @ ''; RETURNCODE_'' @ show_int returncode,
                    ab_error_summary = fst c @ '': '' @ snd c\<rparr>)"

definition abort_action :: "abortable \<Rightarrow> py" where
  "abort_action a = PDict
     [(''action'', PStr ''abort_stage_retry''), (''error_type'', PStr (ab_error_type a)),
      (''trigger_pattern'', PStr (ab_trigger_pattern a)), (''error_summary'', PStr (ab_error_summary a))]"

definition default_convergence_ok :: "fs \<Rightarrow> string \<Rightarrow> bool" where
  "default_convergence_ok f workdir =
     (case read_file f (path_join workdir ''OSZICAR'') of None \<Rightarrow> False | Some t \<Rightarrow> oszicar_converged t)"

section \<open>The monitor of one attempt\<close>

text \<open>\<open>sorted(Path(d).glob(pattern))\<close>, as strings.\<close>

definition path_glob :: "fs \<Rightarrow> string \<Rightarrow> string \<Rightarrow> string list" where
  "path_glob f d pattern = map (path_join d) (filter (fnmatch pattern) (listdir f d))"

definition discover_monitor_files :: "fs \<Rightarrow> string \<Rightarrow> string list" where
  "discover_monitor_files f workdir =
     dedupe (path_join workdir ''sout'' # path_glob f workdir ''slurm-*.out'' @ path_glob f workdir ''*.log'')"

definition monitored :: "fs \<Rightarrow> string \<Rightarrow> string list \<Rightarrow> string list" where
  "monitored f workdir extra = discover_monitor_files f workdir @ map (path_join workdir) extra"

record monitor =
  mo_offsets :: "(string \<times> nat) list"
  mo_text :: string

definition offset_of :: "(string \<times> nat) list \<Rightarrow> string \<Rightarrow> nat" where
  "offset_of offs p = (case map_of offs p of None \<Rightarrow> 0 | Some n \<Rightarrow> n)"

definition initial_offsets :: "fs \<Rightarrow> string list \<Rightarrow> (string \<times> nat) list" where
  "initial_offsets f paths = fold (\<lambda>p offs. AList.update p (file_size f p) offs) paths []"

definition read_new :: "fs \<Rightarrow> (string \<times> nat) list \<Rightarrow> string \<Rightarrow> (string \<times> nat) list \<times> string" where
  "read_new f offs p =
     (case read_file f p of
        None \<Rightarrow> (offs, [])
      | Some t \<Rightarrow>
          (let off = (if length t < offset_of offs p then 0 else offset_of offs p); data = drop off t
           in (AList.update p (off + length data) offs, data)))"

definition buf_limit :: int where
  "buf_limit = 120000"

text \<open>One poll over the paths: stop as soon as the banner is in the text.\<close>

fun poll_files :: "fs \<Rightarrow> string list \<Rightarrow> monitor \<Rightarrow> monitor \<times> bool" where
  "poll_files f [] m = (m, False)"
| "poll_files f (p # ps) m =
     (let r = read_new f (mo_offsets m) p;
          m' = \<lparr>mo_offsets = fst r, mo_text = last_part buf_limit (mo_text m @ snd r)\<rparr>
      in if detect_zbrent_banner (mo_text m') then (m', True) else poll_files f ps m')"

fun watch :: "string \<Rightarrow> string list \<Rightarrow> fs list \<Rightarrow> monitor \<Rightarrow> monitor \<times> bool" where
  "watch workdir extra [] m = (m, False)"
| "watch workdir extra (f # fs) m =
     (let r = poll_files f (dedupe (monitored f workdir extra)) m
      in if snd r then r else watch workdir extra fs (fst r))"

text \<open>\<open>s.splitlines()\<close>.\<close>

definition is_line_break :: "char \<Rightarrow> bool" where
  "is_line_break c \<longleftrightarrow> code_of c \<in> {10, 11, 12, 13, 28, 29, 30, 133}"

fun splitlines_from :: "string \<Rightarrow> string \<Rightarrow> string list" where
  "splitlines_from acc [] = (if acc = [] then [] else [rev acc])"
| "splitlines_from acc (c # s) =
     (if is_line_break c
      then rev acc # splitlines_from [] (if c = CHR 0x0D \<and> take 1 s = [CHR 0x0A] then drop 1 s else s)
      else splitlines_from (c # acc) s)"

definition banner_snippet :: "string \<Rightarrow> string" where
  "banner_snippet text =
     last_part 500 (join '' / '' (filter (\<lambda>s. s \<noteq> []) (map py_strip (last_part 12 (splitlines_from [] text)))))"

section \<open>One attempt\<close>

record attempt =
  at_polls :: "fs list"
  at_files :: fs
  at_returncode :: int

record relax_config =
  rc_material_id :: string
  rc_retry_log_path :: string
  rc_check_convergence :: bool
  rc_convergence_ok :: "fs \<Rightarrow> string \<Rightarrow> bool"
  rc_max_retries :: int
  rc_retry_on_nonzero_exit :: bool
  rc_retry_on_nonconvergence :: bool
  rc_extra_monitored_files :: "string list"
  rc_clock :: "int \<Rightarrow> string"
  rc_vasp :: "int \<Rightarrow> fs \<Rightarrow> attempt"

text \<open>How the run ends: a return value, \<open>RelaxRetryFatal\<close> with its summary, or another exception.\<close>

datatype relax_end =
    Finished bool "string list" dict
  | Fatal string dict
  | Raised py_error

text \<open>What the loop carries from one attempt to the next.\<close>

record relax_run =
  rr_files :: fs
  rr_backups :: "string list"
  rr_actions :: "py list"

definition last_backup :: "relax_run \<Rightarrow> py" where
  "last_backup r = (if rr_backups r = [] then PNone else PStr (last (rr_backups r)))"

definition sout_path :: "string \<Rightarrow> string" where
  "sout_path workdir = path_join workdir ''sout''"

text \<open>The files when the attempt has ended, its exit code, the merged text and whether the banner was seen.\<close>

definition run_attempt :: "relax_config \<Rightarrow> string \<Rightarrow> int \<Rightarrow> fs \<Rightarrow> attempt \<times> string \<times> bool" where
  "run_attempt c workdir retry_n f =
     (let f1 = touch f (sout_path workdir); extra = rc_extra_monitored_files c;
          offsets = initial_offsets f1 (monitored f1 workdir extra);
          a = rc_vasp c retry_n f1;
          m = watch workdir extra (at_polls a) \<lparr>mo_offsets = offsets, mo_text = []\<rparr>
      in (a, mo_text (fst m), snd m))"

definition retry_limit_reached :: "relax_config \<Rightarrow> string \<Rightarrow> int \<Rightarrow> relax_run \<Rightarrow> string \<Rightarrow> fs \<times> relax_end" where
  "retry_limit_reached c workdir retry_n r reason =
     (let f1 = append_retry_log (rr_files r) (rc_retry_log_path c) (rc_clock c retry_n) (rc_material_id c) retry_n reason PNone;
          f2 = checkpoint_save \<lparr>ck_material_id = rc_material_id c, ck_retry_n = rc_max_retries c,
                                ck_last_backup_file = last_backup r\<rparr> f1 workdir
      in (f2, Fatal ''RETRY_LIMIT_REACHED''
                (make_retry_summary ''retry_limit_reached'' reason (rc_max_retries c) (rc_max_retries c)
                   ''skip_material'' ''skip_material'' ''failed'' (last_backup r) (rr_actions r) PNone)))"

definition ediff_field :: "flt option \<Rightarrow> py" where
  "ediff_field v = (case v of None \<Rightarrow> PNone | Some x \<Rightarrow> PFloat x)"

definition recovery_action :: "int \<Rightarrow> string \<Rightarrow> string \<Rightarrow> string \<Rightarrow> (flt \<times> flt) option \<Rightarrow> py" where
  "recovery_action next_retry_n error_type reason backup ediff = PDict
     [(''retry_n'', PInt next_retry_n), (''error_type'', PStr error_type), (''trigger_pattern'', PStr reason),
      (''action'', PStr ''copy_contcar_to_poscar_and_retry''), (''backup_file'', PStr backup),
      (''previous_poscar_backup_path'', PStr backup), (''promoted_from'', PStr ''CONTCAR''),
      (''ediff_before'', ediff_field (map_option fst ediff)), (''ediff_after'', ediff_field (map_option snd ediff))]"

text \<open>
  The preparation of the next attempt: backup, promotion and EDIFF, then the checkpoint and the log.
  A missing CONTCAR ends the run, and is an exception only after the banner (\<open>banner\<close>).
\<close>

definition prepare_retry ::
  "relax_config \<Rightarrow> string \<Rightarrow> int \<Rightarrow> relax_run \<Rightarrow> bool \<Rightarrow> string \<Rightarrow> string \<Rightarrow> (fs \<times> relax_end) + relax_run" where
  "prepare_retry c workdir next_retry_n r banner error_type reason =
     (case backup_and_promote_contcar (rr_files r) workdir next_retry_n of
        (f1, Inl e) \<Rightarrow>
          (case (banner, e) of
             (False, FileNotFoundError _) \<Rightarrow>
               Inl (f1, Finished False (rr_backups r)
                 (make_retry_summary ''missing_output'' ''CONTCAR_MISSING'' (int (length (rr_backups r))) (rc_max_retries c)
                    ''skip_material'' ''skip_material'' ''failed'' PNone (rr_actions r) PNone))
           | _ \<Rightarrow> Inl (f1, Raised e))
      | (f1, Inr backup) \<Rightarrow>
          (let t = tighten_ediff_in_incar f1 workdir;
               f3 = checkpoint_save \<lparr>ck_material_id = rc_material_id c, ck_retry_n = next_retry_n,
                                     ck_last_backup_file = PStr backup\<rparr> (fst t) workdir;
               f4 = append_retry_log f3 (rc_retry_log_path c) (rc_clock c (next_retry_n - 1)) (rc_material_id c)
                      next_retry_n reason (PStr backup)
           in Inr \<lparr>rr_files = f4, rr_backups = rr_backups r @ [backup],
                   rr_actions = rr_actions r @ [recovery_action next_retry_n error_type reason backup (snd t)]\<rparr>))"

definition next_or_limit ::
  "relax_config \<Rightarrow> string \<Rightarrow> int \<Rightarrow> relax_run \<Rightarrow> bool \<Rightarrow> string \<Rightarrow> string \<Rightarrow> (fs \<times> relax_end) + relax_run" where
  "next_or_limit c workdir retry_n r banner error_type reason =
     (if rc_max_retries c < retry_n + 1 then Inl (retry_limit_reached c workdir retry_n r reason)
      else prepare_retry c workdir (retry_n + 1) r banner error_type reason)"

definition returncode_text :: "int \<Rightarrow> string" where
  "returncode_text rc = ''RETURNCODE_'' @ show_int rc"

definition succeeded :: "relax_config \<Rightarrow> relax_run \<Rightarrow> relax_end" where
  "succeeded c r =
     Finished True (rr_backups r)
       (make_retry_summary ''none'' ''normal_completion'' (int (length (rr_backups r))) (rc_max_retries c) ''continue''
          (if rr_actions r = [] then ''continue''
           else py_str (dget0 (as_dict (last (rr_actions r))) ''action''))
          ''success'' (last_backup r) (rr_actions r) PNone)"

definition aborted :: "relax_config \<Rightarrow> relax_run \<Rightarrow> abortable \<Rightarrow> relax_end" where
  "aborted c r a =
     Finished False (rr_backups r)
       (make_retry_summary (ab_error_type a) (ab_trigger_pattern a) (int (length (rr_backups r))) (rc_max_retries c)
          ''repair_execution_context'' ''abort_stage_retry'' ''failed'' (last_backup r)
          (rr_actions r @ [abort_action a]) (PStr (ab_error_summary a)))"

text \<open>An attempt without the banner that did not succeed: abort, give up, or try again.\<close>

definition handle_failure ::
  "relax_config \<Rightarrow> string \<Rightarrow> int \<Rightarrow> relax_run \<Rightarrow> int \<Rightarrow> string \<Rightarrow> bool \<Rightarrow> (fs \<times> relax_end) + relax_run" where
  "handle_failure c workdir retry_n r returncode text ok_conv =
     (let by_exit = returncode \<noteq> 0 \<and> rc_retry_on_nonzero_exit c;
          by_conv = \<not> ok_conv \<and> rc_retry_on_nonconvergence c;
          abort = (if by_exit then classify_abortable_vasp_failure (rr_files r) workdir text returncode else None)
      in case abort of
           Some a \<Rightarrow> Inl (rr_files r, aborted c r a)
         | None \<Rightarrow>
             if by_exit \<or> by_conv then
               next_or_limit c workdir retry_n r False
                 (if by_conv then ''nonconverged'' else ''nonzero_exit'')
                 (if by_exit then returncode_text returncode else ''NONCONVERGED'')
             else Inl (rr_files r, Finished False (rr_backups r)
                    (make_retry_summary ''unknown_failure''
                       (if returncode \<noteq> 0 then returncode_text returncode else ''NONCONVERGED'')
                       (int (length (rr_backups r))) (rc_max_retries c) ''abort_workflow'' ''abort_workflow'' ''failed''
                       (last_backup r) (rr_actions r) PNone)))"

definition attempt_step :: "relax_config \<Rightarrow> string \<Rightarrow> int \<Rightarrow> relax_run \<Rightarrow> (fs \<times> relax_end) + relax_run" where
  "attempt_step c workdir retry_n r0 =
     (let t = run_attempt c workdir retry_n (rr_files r0); a = fst t; text = fst (snd t); banner = snd (snd t);
          r = r0\<lparr>rr_files := at_files a\<rparr>
      in if banner then
           next_or_limit c workdir retry_n r True ''rerun_with_smaller_ediff_or_copy_contcar''
             (if banner_snippet text = [] then ''ZBRENT_FATAL'' else banner_snippet text)
         else
           (let ok_conv = (\<not> rc_check_convergence c \<or> rc_convergence_ok c (at_files a) workdir)
            in if at_returncode a = 0 \<and> ok_conv then Inl (at_files a, succeeded c r)
               else handle_failure c workdir retry_n r (at_returncode a) text ok_conv))"

section \<open>The loop\<close>

fun retry_loop :: "relax_config \<Rightarrow> string \<Rightarrow> int list \<Rightarrow> relax_run \<Rightarrow> fs \<times> relax_end" where
  "retry_loop c workdir [] r =
     (rr_files r, Fatal ''RETRY_LIMIT_REACHED''
        (make_retry_summary ''retry_limit_reached'' ''RETRY_LIMIT_REACHED'' (rc_max_retries c) (rc_max_retries c)
           ''skip_material'' ''skip_material'' ''failed'' (last_backup r) (rr_actions r) PNone))"
| "retry_loop c workdir (n # ns) r =
     (case attempt_step c workdir n r of Inl e \<Rightarrow> e | Inr r' \<Rightarrow> retry_loop c workdir ns r')"

text \<open>The run without retries: one process, judged by its exit code and the convergence.\<close>

definition run_once :: "relax_config \<Rightarrow> string \<Rightarrow> fs \<Rightarrow> fs \<times> relax_end" where
  "run_once c workdir f =
     (let a = rc_vasp c 0 (touch f (sout_path workdir)); f1 = at_files a; rc = at_returncode a; mx = rc_max_retries c
      in if rc \<noteq> 0 then
           (case classify_abortable_vasp_failure f1 workdir [] rc of
              Some b \<Rightarrow> (f1, Finished False [] (make_retry_summary (ab_error_type b) (ab_trigger_pattern b) 0 mx
                         ''repair_execution_context'' ''abort_stage_retry'' ''failed'' PNone [abort_action b]
                         (PStr (ab_error_summary b))))
            | None \<Rightarrow> (f1, Finished False [] (make_retry_summary ''nonzero_exit'' (returncode_text rc) 0 mx
                         ''retry'' ''retry'' ''failed'' PNone [] PNone)))
         else if rc_check_convergence c \<and> \<not> rc_convergence_ok c f1 workdir then
           (f1, Finished False [] (make_retry_summary ''nonconverged'' ''NONCONVERGED'' 0 mx
              ''retry'' ''retry'' ''failed'' PNone [] PNone))
         else (f1, Finished True [] (make_retry_summary ''none'' ''normal_completion'' 0 mx
                ''continue'' ''continue'' ''success'' PNone [] PNone)))"

text \<open>The whole function, on a working directory given as an absolute path.\<close>

definition run_relax_vasp_with_retry :: "relax_config \<Rightarrow> string \<Rightarrow> bool \<Rightarrow> fs \<Rightarrow> fs \<times> relax_end" where
  "run_relax_vasp_with_retry c workdir enabled f0 =
     (let f = makedirs f0 workdir; resume = maybe_resume_from_checkpoint f workdir; retry_n0 = fst resume
      in if rc_max_retries c \<le> retry_n0 then
           (append_retry_log f (rc_retry_log_path c) (rc_clock c retry_n0) (rc_material_id c) retry_n0
              ''SKIP_AFTER_3_RETRIES'' (snd resume),
            Fatal ''SKIP_AFTER_3_RETRIES''
              (make_retry_summary ''retry_limit_reached'' ''SKIP_AFTER_3_RETRIES'' retry_n0 (rc_max_retries c)
                 ''skip_material'' ''skip_material'' ''failed'' (snd resume) [] PNone))
         else if \<not> enabled then run_once c workdir f
         else retry_loop c workdir [retry_n0..rc_max_retries c]
                \<lparr>rr_files = f, rr_backups = [], rr_actions = []\<rparr>)"


section \<open>Backups\<close>

lemma nat_digits_inj: "nat_digits m = nat_digits n \<Longrightarrow> m = n"
proof -
  obtain k where k: "\<And>acc r. take_digits acc (nat_digits m @ r) = (case take_digits (acc * 10 ^ k + m) r of (v, j, r') \<Rightarrow> (v, k + j, r'))"
    using take_digits_back [of m] by blast
  obtain l where l: "\<And>acc r. take_digits acc (nat_digits n @ r) = (case take_digits (acc * 10 ^ l + n) r of (v, j, r') \<Rightarrow> (v, l + j, r'))"
    using take_digits_back [of n] by blast
  assume "nat_digits m = nat_digits n"
  with k [of 0 "[]"] l [of 0 "[]"] show "m = n" by simp
qed

lemma show_int_nat_inj: "show_int (int m) = show_int (int n) \<longleftrightarrow> m = n"
  using nat_digits_inj by (auto simp: show_int_def)

lemma free_suffix_spec:
  "k \<le> free_suffix f b n k \<and> free_suffix f b n k \<le> k + n
   \<and> (\<forall>i. k \<le> i \<longrightarrow> i < free_suffix f b n k \<longrightarrow> path_exists f (b @ ''.'' @ show_int (int i)))
   \<and> (free_suffix f b n k < k + n \<longrightarrow> \<not> path_exists f (b @ ''.'' @ show_int (int (free_suffix f b n k))))"
proof (induction n arbitrary: k)
  case (Suc n)
  show ?case
  proof (cases "path_exists f (b @ ''.'' @ show_int (int k))")
    case True
    have "path_exists f (b @ ''.'' @ show_int (int i))" if "k \<le> i" "i < free_suffix f b n (Suc k)" for i
      using True Suc.IH [of "Suc k"] that by (cases "i = k") auto
    with True Suc.IH [of "Suc k"] show ?thesis by auto
  next
    case False
    then show ?thesis by simp
  qed
qed simp

lemma free_suffix_free: "\<not> path_exists f (b @ ''.'' @ show_int (int (free_suffix f b (length f) 1)))"
proof
  let ?g = "\<lambda>i. b @ ''.'' @ show_int (int i)"
  let ?m = "free_suffix f b (length f) 1"
  note spec = free_suffix_spec [of 1 f b "length f"]
  assume e: "path_exists f (?g ?m)"
  with spec have "?m = 1 + length f" by (metis le_neq_implies_less)
  moreover have "path_exists f (?g i)" if "1 \<le> i" "i \<le> ?m" for i
    using spec e that by (cases "i = ?m") auto
  ultimately have "?g ` {1..1 + length f} \<subseteq> fst ` set f"
    by (auto simp: path_exists_def map_of_eq_None_iff)
  then have "card (?g ` {1..1 + length f}) \<le> card (fst ` set f)" by (rule card_mono [rotated]) simp
  also have "\<dots> \<le> length f" by (metis card_image_le card_length le_trans List.finite_set)
  also have "card (?g ` {1..1 + length f}) = Suc (length f)"
    using show_int_nat_inj by (subst card_image) (auto simp: inj_on_def)
  finally show False by simp
qed

lemma backup_name_fresh: "\<not> path_exists f (backup_name f workdir n)"
  using free_suffix_free by (simp add: backup_name_def Let_def)

lemma path_join_plain: "c \<noteq> CHR ''/'' \<Longrightarrow> path_join d (c # s) = path_join d [] @ c # s"
  by (simp add: path_join_def startswith_def)

lemma backup_not_poscar:
  "backup_name f workdir n \<noteq> path_join workdir ''POSCAR''" "backup_name f workdir n \<noteq> path_join workdir ''CONTCAR''"
  by (auto simp: backup_name_def Let_def path_join_plain)

lemma copy_file_Inr: "copy_file f s d = Inr f' \<longleftrightarrow> (\<exists>t. read_file f s = Some t \<and> f' = write_file f d t)"
  by (auto simp: copy_file_def read_file_def split: option.splits fnode.splits)

text \<open>C26: The backup of a retry never destroys anything: the backup file did not exist before, it holds the
  POSCAR that is about to be replaced (the CONTCAR when there is none), POSCAR becomes the non-empty
  CONTCAR of the failed attempt, and no other file changes.\<close>

theorem backup_preserves_poscar:
  assumes "backup_and_promote_contcar f workdir n = (f', Inr backup)"
  shows "\<not> path_exists f backup
    \<and> read_file f' backup = read_file f (if path_exists f (path_join workdir ''POSCAR'')
                                          then path_join workdir ''POSCAR'' else path_join workdir ''CONTCAR'')
    \<and> read_file f' (path_join workdir ''POSCAR'') = read_file f (path_join workdir ''CONTCAR'')
    \<and> (\<exists>t. read_file f' (path_join workdir ''POSCAR'') = Some t \<and> t \<noteq> [])
    \<and> (\<forall>p. p \<noteq> backup \<and> p \<noteq> path_join workdir ''POSCAR'' \<longrightarrow> map_of f' p = map_of f p)"
proof -
  let ?p = "path_join workdir ''POSCAR''" and ?c = "path_join workdir ''CONTCAR''"
  let ?s = "if path_exists f ?p then ?p else ?c"
  let ?b = "backup_name f workdir n"
  from assms have size: "file_size f ?c \<noteq> 0" and
    "\<exists>f1. copy_file f ?s ?b = Inr f1 \<and> copy_file f1 ?c ?p = Inr f' \<and> backup = ?b"
    by (auto simp: backup_and_promote_contcar_def Let_def split: if_splits sum.splits)
  then obtain f1 t u where b: "backup = ?b" and s: "read_file f ?s = Some t" and f1: "f1 = write_file f ?b t"
    and u: "read_file f1 ?c = Some u" and f': "f' = write_file f1 ?p u"
    by (auto simp: copy_file_Inr)
  have ne: "?b \<noteq> ?p" "?b \<noteq> ?c" by (rule backup_not_poscar)+
  have c: "read_file f ?c = Some u" using u f1 ne(2) by simp
  then have "u \<noteq> []" using size by (auto simp: file_size_def read_file_def split: option.splits fnode.splits)
  then show ?thesis using b f' f1 ne s c backup_name_fresh by simp
qed

theorem backup_preserves_poscar_witness:
  "snd (backup_and_promote_contcar
          [(''/r/POSCAR'', FFile ''old''), (''/r/CONTCAR'', FFile ''new''), (''/r/POSCAR.retry1.bak'', FFile ''older'')] ''/r'' 1)
     = Inr ''/r/POSCAR.retry1.bak.1''
   \<and> \<not> path_exists [(''/r/POSCAR'', FFile ''old''), (''/r/CONTCAR'', FFile ''new''), (''/r/POSCAR.retry1.bak'', FFile ''older'')]
        ''/r/POSCAR.retry1.bak.1''"
proof -
  let ?f = "[(''/r/POSCAR'', FFile ''old''), (''/r/CONTCAR'', FFile ''new''), (''/r/POSCAR.retry1.bak'', FFile ''older'')]"
  have "backup_and_promote_contcar ?f ''/r'' 1 = (fst (backup_and_promote_contcar ?f ''/r'' 1), Inr ''/r/POSCAR.retry1.bak.1'')"
    by code_simp
  from backup_preserves_poscar [OF this] this show ?thesis by (metis snd_conv)
qed

section \<open>EDIFF\<close>

text \<open>What the retry does to EDIFF: the last value it replaces becomes a tenth of itself but never less than
  1e-7. So a value above 1e-7 gets smaller, and a value that was already below 1e-7 gets larger: the
  retry loosens a calculation that was tighter than the bound.\<close>

theorem ediff_moves_towards_bound:
  assumes "tighten_ediff_in_incar f workdir = (f', Some (Fin old, new))"
  shows "new = Fin (max (1 / 10 ^ 7) (old / 10))
    \<and> (1 / 10 ^ 7 < old \<longrightarrow> flt_lt new (Fin old)) \<and> (old < 1 / 10 ^ 7 \<longrightarrow> flt_lt (Fin old) new)"
proof -
  from assms obtain lines where l: "List.map_filter snd (map tighten_line lines) \<noteq> []"
      "last (List.map_filter snd (map tighten_line lines)) = (Fin old, new)"
    by (auto simp: tighten_ediff_in_incar_def Let_def List.map_filter_simps split: option.splits if_splits)
  then have "(Fin old, new) \<in> set (List.map_filter snd (map tighten_line lines))" by (metis last_in_set)
  then obtain line where "snd (tighten_line line) = Some (Fin old, new)"
    by (auto simp: List.map_filter_def)
  then have n: "new = tightened (Fin old)"
    by (auto simp: tighten_line_def split: option.splits)
  then have "new = Fin (max (1 / 10 ^ 7) (old / 10))"
    by (simp add: tightened_def py_max_def max_def)
  then show ?thesis by (simp add: max_def)
qed

theorem ediff_moves_towards_bound_witness:
  "flt_lt (Fin (1 / 10 ^ 8)) (Fin (1 / 10 ^ 7))
   \<and> read_file (fst (tighten_ediff_in_incar [(''/r/INCAR'', FFile ''EDIFF = 1E-8 # tight'')] ''/r'')) ''/r/INCAR''
       = Some (''EDIFF = 1.0e-07 # tight'' @ [CHR 0x0A])"
proof -
  let ?f = "[(''/r/INCAR'', FFile ''EDIFF = 1E-8 # tight'')]"
  have "tighten_ediff_in_incar ?f ''/r''
      = ([(''/r/INCAR'', FFile (''EDIFF = 1.0e-07 # tight'' @ [CHR 0x0A]))], Some (Fin (1 / 10 ^ 8), Fin (1 / 10 ^ 7)))"
    by code_simp
  from ediff_moves_towards_bound [OF this] this show ?thesis by (simp add: read_file_def)
qed

section \<open>The checkpoint survives\<close>

lemma makedirs_keeps: "map_of f q = Some n \<Longrightarrow> map_of (makedirs f d) q = Some n"
proof -
  have k: "map_of f q = Some n \<Longrightarrow> map_of (if path_exists f p then f else fs_put f p FDir) q = Some n" for f p
    by (auto simp: path_exists_def)
  have "map_of f q = Some n \<Longrightarrow> map_of (fold (\<lambda>p f. if path_exists f p then f else fs_put f p FDir) ps f) q = Some n" for ps f
  proof (induction ps arbitrary: f)
    case (Cons p ps)
    show ?case using Cons.IH [OF k [OF Cons.prems]] by simp
  qed simp
  then show "map_of f q = Some n \<Longrightarrow> map_of (makedirs f d) q = Some n" by (simp add: makedirs_def)
qed

lemma read_file_Some: "read_file f p = Some t \<longleftrightarrow> map_of f p = Some (FFile t)"
  by (auto simp: read_file_def split: option.splits fnode.splits)

lemma read_append_log:
  "read_file f p = Some t \<Longrightarrow> p \<noteq> lg \<Longrightarrow> read_file (append_retry_log f lg ts m n e b) p = Some t"
  by (simp add: append_retry_log_def append_file_def read_file_Some makedirs_keeps)

definition plain_backup :: "py \<Rightarrow> bool" where
  "plain_backup b \<longleftrightarrow> b = PNone \<or> is_str b"

lemma plain_backup_json: "plain_backup b \<Longrightarrow> json_ok b"
  by (cases b) (auto simp: plain_backup_def is_str_def)

lemma last_backup_plain: "plain_backup (last_backup r)"
  by (simp add: last_backup_def plain_backup_def is_str_def)

lemma checkpoint_saved_text:
  "read_file (checkpoint_save ck f wd) (checkpoint_path wd) = Some (json_dumps (PDict
     [(''material_id'', PStr (ck_material_id ck)), (''retry_n'', PInt (ck_retry_n ck)),
      (''last_backup_file'', ck_last_backup_file ck)]))"
  by (simp add: checkpoint_save_def Let_def read_file_Some map_of_fs_del)

lemma checkpoint_text_load:
  assumes "read_file f (checkpoint_path wd) = Some (json_dumps (PDict
     [(''material_id'', PStr (ck_material_id ck)), (''retry_n'', PInt (ck_retry_n ck)),
      (''last_backup_file'', ck_last_backup_file ck)]))" "plain_backup (ck_last_backup_file ck)"
  shows "checkpoint_load f wd = Some ck"
  using assms by (simp add: checkpoint_load_def json_loads_dumps plain_backup_json get_int_def dget_def dget0_def)

lemma resume_after_save:
  "plain_backup (ck_last_backup_file ck) \<Longrightarrow>
   maybe_resume_from_checkpoint (checkpoint_save ck f wd) wd = (ck_retry_n ck, ck_last_backup_file ck)"
  by (simp add: maybe_resume_from_checkpoint_def checkpoint_text_load [OF checkpoint_saved_text])

lemma resume_after_log:
  assumes "plain_backup (ck_last_backup_file ck)" "lg \<noteq> checkpoint_path wd"
  shows "maybe_resume_from_checkpoint (append_retry_log (checkpoint_save ck f wd) lg ts m n e b) wd
           = (ck_retry_n ck, ck_last_backup_file ck)"
  by (simp add: maybe_resume_from_checkpoint_def
      checkpoint_text_load [OF read_append_log [OF checkpoint_saved_text assms(2) [symmetric]] assms(1)])

lemma resume_makedirs:
  assumes "maybe_resume_from_checkpoint f wd = (n, b)" "n \<noteq> 0"
  shows "maybe_resume_from_checkpoint (makedirs f d) wd = (n, b)"
proof -
  from assms obtain ck where "checkpoint_load f wd = Some ck"
    by (auto simp: maybe_resume_from_checkpoint_def split: option.splits)
  then obtain t where t: "read_file f (checkpoint_path wd) = Some t"
    by (cases "read_file f (checkpoint_path wd)") (auto simp: checkpoint_load_def)
  then have "read_file (makedirs f d) (checkpoint_path wd) = Some t"
    by (simp add: read_file_Some makedirs_keeps)
  with t assms(1) show ?thesis
    by (simp add: maybe_resume_from_checkpoint_def checkpoint_load_def)
qed

section \<open>The attempts\<close>

text \<open>An attempt that succeeds: no banner, exit code zero, converged where that is checked.\<close>

definition attempt_ok :: "relax_config \<Rightarrow> string \<Rightarrow> int \<Rightarrow> fs \<Rightarrow> bool" where
  "attempt_ok c workdir n f \<longleftrightarrow>
     (let t = run_attempt c workdir n f; a = fst t
      in \<not> snd (snd t) \<and> at_returncode a = 0 \<and> (rc_check_convergence c \<longrightarrow> rc_convergence_ok c (at_files a) workdir))"

lemma prepare_retry_Inr:
  assumes "prepare_retry c wd n r b e s = Inr r'"
  shows "\<exists>backup f. rr_backups r' = rr_backups r @ [backup] \<and>
    rr_files r' = append_retry_log (checkpoint_save \<lparr>ck_material_id = rc_material_id c, ck_retry_n = n,
                                     ck_last_backup_file = PStr backup\<rparr> f wd)
                    (rc_retry_log_path c) (rc_clock c (n - 1)) (rc_material_id c) n s (PStr backup)"
  using assms by (auto simp: prepare_retry_def Let_def split: prod.splits sum.splits py_error.splits bool.splits)

lemma prepare_retry_Inl:
  assumes "prepare_retry c wd n r b e s = Inl (f', x)"
  shows "(\<exists>bs d. x = Finished False bs d) \<or> (\<exists>err. x = Raised err)"
  using assms by (auto simp: prepare_retry_def Let_def split: prod.splits sum.splits py_error.splits bool.splits)

lemma handle_failure_cases:
  "(\<exists>bs d. handle_failure c wd n r rc text ok = Inl (rr_files r, Finished False bs d))
   \<or> (\<exists>e s. handle_failure c wd n r rc text ok = next_or_limit c wd n r False e s)"
proof -
  let ?x = "rc \<noteq> 0 \<and> rc_retry_on_nonzero_exit c" and ?v = "\<not> ok \<and> rc_retry_on_nonconvergence c"
  let ?a = "if ?x then classify_abortable_vasp_failure (rr_files r) wd text rc else None"
  show ?thesis
  proof (cases ?a)
    case (Some a)
    then show ?thesis by (simp only: handle_failure_def Let_def option.case aborted_def) blast
  next
    case None
    show ?thesis
      by (simp only: handle_failure_def Let_def None option.case, cases "?x \<or> ?v")
        (simp only: if_True if_False simp_thms, blast)+
  qed
qed

lemma attempt_step_cases:
  obtains (success) "attempt_ok c wd n (rr_files r)"
      "attempt_step c wd n r = Inl (at_files (fst (run_attempt c wd n (rr_files r))),
         succeeded c (r\<lparr>rr_files := at_files (fst (run_attempt c wd n (rr_files r)))\<rparr>))"
  | (stop) f' bs d where "\<not> attempt_ok c wd n (rr_files r)" "attempt_step c wd n r = Inl (f', Finished False bs d)"
  | (retry) b e s r1 where "\<not> attempt_ok c wd n (rr_files r)" "rr_backups r1 = rr_backups r"
      "attempt_step c wd n r = next_or_limit c wd n r1 b e s"
proof -
  let ?t = "run_attempt c wd n (rr_files r)"
  let ?r = "r\<lparr>rr_files := at_files (fst ?t)\<rparr>"
  have e: "attempt_step c wd n r =
     (if snd (snd ?t) then next_or_limit c wd n ?r True ''rerun_with_smaller_ediff_or_copy_contcar''
          (if banner_snippet (fst (snd ?t)) = [] then ''ZBRENT_FATAL'' else banner_snippet (fst (snd ?t)))
      else if attempt_ok c wd n (rr_files r) then Inl (at_files (fst ?t), succeeded c ?r)
      else handle_failure c wd n ?r (at_returncode (fst ?t)) (fst (snd ?t))
             (\<not> rc_check_convergence c \<or> rc_convergence_ok c (at_files (fst ?t)) wd))"
    by (auto simp: attempt_step_def attempt_ok_def Let_def)
  show thesis
  proof (cases "attempt_ok c wd n (rr_files r)")
    case True
    then have "\<not> snd (snd ?t)" by (simp add: attempt_ok_def Let_def)
    with True e show thesis by (intro success) auto
  next
    case False
    show thesis
    proof (cases "snd (snd ?t)")
      case True
      with False e retry [of ?r] show thesis by auto
    next
      case nb: False
      have "attempt_step c wd n r = handle_failure c wd n ?r (at_returncode (fst ?t)) (fst (snd ?t))
              (\<not> rc_check_convergence c \<or> rc_convergence_ok c (at_files (fst ?t)) wd)"
        unfolding e using False nb by simp
      then have "(\<exists>f' bs d. attempt_step c wd n r = Inl (f', Finished False bs d)) \<or>
            (\<exists>b e s. attempt_step c wd n r = next_or_limit c wd n ?r b e s)"
        using handle_failure_cases by (metis (no_types))
      with False stop retry [of ?r] show thesis by auto
    qed
  qed
qed

lemma attempt_step_Inr:
  assumes "attempt_step c wd n r = Inr r'" "rc_retry_log_path c \<noteq> checkpoint_path wd"
  shows "n + 1 \<le> rc_max_retries c" "length (rr_backups r') = Suc (length (rr_backups r))"
    "maybe_resume_from_checkpoint (rr_files r') wd = (n + 1, last_backup r')"
proof -
  obtain b e s r1 where r1: "rr_backups r1 = rr_backups r" "next_or_limit c wd n r1 b e s = Inr r'"
    using assms(1) by (cases rule: attempt_step_cases [of c wd n r]) auto
  then have le: "n + 1 \<le> rc_max_retries c" and p: "prepare_retry c wd (n + 1) r1 b e s = Inr r'"
    by (auto simp: next_or_limit_def split: if_splits)
  from prepare_retry_Inr [OF p] obtain backup f where
    bk: "rr_backups r' = rr_backups r1 @ [backup]" and
    fs: "rr_files r' = append_retry_log (checkpoint_save \<lparr>ck_material_id = rc_material_id c, ck_retry_n = n + 1,
           ck_last_backup_file = PStr backup\<rparr> f wd)
           (rc_retry_log_path c) (rc_clock c (n + 1 - 1)) (rc_material_id c) (n + 1) s (PStr backup)" by blast
  have "plain_backup (PStr backup)" by (simp add: plain_backup_def is_str_def)
  with fs assms(2) have "maybe_resume_from_checkpoint (rr_files r') wd = (n + 1, PStr backup)"
    by (simp add: resume_after_log)
  moreover have "last_backup r' = PStr backup" using bk by (simp add: last_backup_def)
  ultimately show "n + 1 \<le> rc_max_retries c" "length (rr_backups r') = Suc (length (rr_backups r))"
    "maybe_resume_from_checkpoint (rr_files r') wd = (n + 1, last_backup r')"
    using le bk r1(1) by simp_all
qed

lemma attempt_step_Fatal:
  assumes "attempt_step c wd n r = Inl (f', Fatal m d)"
  shows "maybe_resume_from_checkpoint f' wd = (rc_max_retries c, last_backup r) \<and> m = ''RETRY_LIMIT_REACHED''"
proof -
  obtain b e s r1 where r1: "rr_backups r1 = rr_backups r" "next_or_limit c wd n r1 b e s = Inl (f', Fatal m d)"
    using assms by (cases rule: attempt_step_cases [of c wd n r]) (auto simp: succeeded_def)
  then have "retry_limit_reached c wd n r1 s = (f', Fatal m d)"
    by (auto simp: next_or_limit_def split: if_splits dest!: prepare_retry_Inl)
  moreover have "last_backup r1 = last_backup r" using r1(1) by (simp add: last_backup_def)
  ultimately show ?thesis
    by (auto simp: retry_limit_reached_def Let_def resume_after_save last_backup_plain)
qed

lemma retry_loop_success:
  assumes "retry_loop c wd [n..rc_max_retries c] r = (f', Finished True bs s)"
    and "rc_retry_log_path c \<noteq> checkpoint_path wd"
  shows "\<exists>k f. n \<le> k \<and> k \<le> rc_max_retries c \<and> int (length bs) = int (length (rr_backups r)) + (k - n)
    \<and> attempt_ok c wd k f \<and> f' = at_files (fst (run_attempt c wd k f))
    \<and> dget0 s ''final_outcome'' = PStr ''success'' \<and> dget0 s ''retries_used'' = PInt (int (length bs))"
  using assms
proof (induction n "rc_max_retries c" arbitrary: r rule: upto.induct)
  case (1 n)
  have le: "n \<le> rc_max_retries c"
    using 1(2) by (cases "n \<le> rc_max_retries c") simp_all
  then have l: "[n..rc_max_retries c] = n # [n + 1..rc_max_retries c]" by (rule upto_rec1)
  show ?case
  proof (cases "attempt_step c wd n r")
    case (Inr r')
    with 1(2) l have "retry_loop c wd [n + 1..rc_max_retries c] r' = (f', Finished True bs s)" by simp
    from 1(1) [OF le this 1(3)] attempt_step_Inr [OF Inr 1(3)] show ?thesis by force
  next
    case (Inl e)
    with 1(2) l have e: "attempt_step c wd n r = Inl (f', Finished True bs s)" by simp
    show ?thesis
    proof (cases rule: attempt_step_cases [of c wd n r])
      case success
      with e have "f' = at_files (fst (run_attempt c wd n (rr_files r)))" "bs = rr_backups r"
        "dget0 s ''final_outcome'' = PStr ''success''" "dget0 s ''retries_used'' = PInt (int (length bs))"
        by (auto simp: succeeded_def make_retry_summary_def dget0_def dget_def)
      with success(1) le show ?thesis by (intro exI [of _ n] exI [of _ "rr_files r"]) simp
    next
      case (retry b e' s' r1)
      with e have "retry_limit_reached c wd n r1 s' = (f', Finished True bs s) \<or>
          prepare_retry c wd (n + 1) r1 b e' s' = Inl (f', Finished True bs s)"
        by (auto simp: next_or_limit_def split: if_splits)
      then show ?thesis using prepare_retry_Inl by (force simp: retry_limit_reached_def Let_def)
    qed (use e in auto)
  qed
qed

lemma retry_loop_Fatal:
  assumes "n \<le> rc_max_retries c" "rc_retry_log_path c \<noteq> checkpoint_path wd"
    and "retry_loop c wd [n..rc_max_retries c] r = (f', Fatal m d)"
  shows "fst (maybe_resume_from_checkpoint f' wd) = rc_max_retries c"
  using assms
proof (induction n "rc_max_retries c" arbitrary: r rule: upto.induct)
  case (1 n)
  then have l: "[n..rc_max_retries c] = n # [n + 1..rc_max_retries c]" by (simp add: upto_rec1)
  show ?case
  proof (cases "attempt_step c wd n r")
    case (Inl e)
    with 1 l attempt_step_Fatal [of c wd n r f' m d] show ?thesis by simp
  next
    case (Inr r')
    with 1 l attempt_step_Inr(1) [OF Inr 1(3)] show ?thesis by simp
  qed
qed

lemma resume_log:
  assumes "maybe_resume_from_checkpoint f wd = (n, b)" "n \<noteq> 0" "lg \<noteq> checkpoint_path wd"
  shows "maybe_resume_from_checkpoint (append_retry_log f lg ts m k e bk) wd = (n, b)"
proof -
  from assms obtain ck where "checkpoint_load f wd = Some ck"
    by (auto simp: maybe_resume_from_checkpoint_def split: option.splits)
  then obtain t where t: "read_file f (checkpoint_path wd) = Some t"
    by (cases "read_file f (checkpoint_path wd)") (auto simp: checkpoint_load_def)
  with read_append_log [OF t assms(3) [symmetric]] assms(1) show ?thesis
    by (simp add: maybe_resume_from_checkpoint_def checkpoint_load_def)
qed

lemma exhausted_run:
  assumes "fst (maybe_resume_from_checkpoint f wd) = n" "rc_max_retries c \<le> n" "n \<noteq> 0"
  shows "\<exists>lg s. run_relax_vasp_with_retry c wd enabled f = (lg, Fatal ''SKIP_AFTER_3_RETRIES'' s)"
  using assms resume_makedirs [of f wd n "snd (maybe_resume_from_checkpoint f wd)" wd]
  by (simp add: run_relax_vasp_with_retry_def Let_def prod_eq_iff)

section \<open>Properties of the retry loop\<close>

definition demo_relax :: relax_config where
  "demo_relax = \<lparr>rc_material_id = ''m'', rc_retry_log_path = ''/w/retry.log'', rc_check_convergence = True,
     rc_convergence_ok = default_convergence_ok, rc_max_retries = 3, rc_retry_on_nonzero_exit = True,
     rc_retry_on_nonconvergence = True, rc_extra_monitored_files = [], rc_clock = (\<lambda>n. ''t''),
     rc_vasp = (\<lambda>n f. if n = 0 then \<lparr>at_polls = [], at_files = write_file f ''/w/r/CONTCAR'' ''c'', at_returncode = 1\<rparr>
                       else \<lparr>at_polls = [], at_files = write_file f ''/w/r/OSZICAR'' ''1 F= -2'', at_returncode = 0\<rparr>)\<rparr>"

text \<open>A process that never gets anywhere.\<close>

definition stuck_relax :: relax_config where
  "stuck_relax = demo_relax\<lparr>rc_max_retries := 1,
     rc_vasp := (\<lambda>n f. \<lparr>at_polls = [], at_files = write_file f ''/w/r/CONTCAR'' ''c'', at_returncode = 1\<rparr>)\<rparr>"

text \<open>C24: A relaxation reported as successful did succeed: there is an attempt within the retry budget, counted
  from the checkpoint, that ended without the banner, with exit code zero and converged where that is
  checked; the files are those it left, and one backup was made for every retry before it.\<close>

theorem relax_success_sound:
  assumes "run_relax_vasp_with_retry c wd True f0 = (f', Finished True bs s)"
    and "rc_retry_log_path c \<noteq> checkpoint_path wd"
  shows "\<exists>k f. fst (maybe_resume_from_checkpoint (makedirs f0 wd) wd) \<le> k \<and> k \<le> rc_max_retries c
    \<and> int (length bs) = k - fst (maybe_resume_from_checkpoint (makedirs f0 wd) wd)
    \<and> attempt_ok c wd k f \<and> f' = at_files (fst (run_attempt c wd k f))
    \<and> dget0 s ''final_outcome'' = PStr ''success'' \<and> dget0 s ''retries_used'' = PInt (int (length bs))"
proof -
  let ?n = "fst (maybe_resume_from_checkpoint (makedirs f0 wd) wd)"
  from assms(1) have "retry_loop c wd [?n..rc_max_retries c] \<lparr>rr_files = makedirs f0 wd, rr_backups = [], rr_actions = []\<rparr>
      = (f', Finished True bs s)"
    by (auto simp: run_relax_vasp_with_retry_def Let_def split: if_splits)
  from retry_loop_success [OF this assms(2)] show ?thesis by simp
qed

theorem relax_success_sound_witness:
  "\<exists>k f. int (length [''/w/r/POSCAR.retry1.bak'']) = k \<and> attempt_ok demo_relax ''/w/r'' k f"
proof -
  let ?f = "[(''/w'', FDir), (''/w/r'', FDir), (''/w/r/POSCAR'', FFile ''p'')]"
  have r: "case run_relax_vasp_with_retry demo_relax ''/w/r'' True ?f of
      (f, Finished b bs s) \<Rightarrow> b \<and> bs = [''/w/r/POSCAR.retry1.bak''] | _ \<Rightarrow> False" by code_simp
  then obtain f' s where "run_relax_vasp_with_retry demo_relax ''/w/r'' True ?f = (f', Finished True [''/w/r/POSCAR.retry1.bak''] s)"
    by (auto split: prod.splits relax_end.splits)
  moreover have "rc_retry_log_path demo_relax \<noteq> checkpoint_path ''/w/r''" by code_simp
  moreover have "fst (maybe_resume_from_checkpoint (makedirs ?f ''/w/r'') ''/w/r'') = 0" by code_simp
  ultimately show ?thesis using relax_success_sound by force
qed

text \<open>C25: The retry limit is final for a working directory: once a run has ended with the fatal error, every
  later run in the files it left ends at once with SKIP_AFTER_3_RETRIES and starts no process, whatever
  VASP would do, until the checkpoint is removed.\<close>

theorem retry_limit_is_final:
  assumes "run_relax_vasp_with_retry c wd True f0 = (f', Fatal m s)"
    and "rc_retry_log_path c \<noteq> checkpoint_path wd" "0 < rc_max_retries c" "rc_max_retries c2 = rc_max_retries c"
  shows "\<exists>f2 s2. run_relax_vasp_with_retry c2 wd enabled f' = (f2, Fatal ''SKIP_AFTER_3_RETRIES'' s2)"
proof -
  let ?f = "makedirs f0 wd"
  let ?n = "fst (maybe_resume_from_checkpoint ?f wd)"
  have "rc_max_retries c \<le> fst (maybe_resume_from_checkpoint f' wd)"
  proof (cases "rc_max_retries c \<le> ?n")
    case True
    with assms(1) have f': "f' = append_retry_log ?f (rc_retry_log_path c) (rc_clock c ?n) (rc_material_id c) ?n
        ''SKIP_AFTER_3_RETRIES'' (snd (maybe_resume_from_checkpoint ?f wd))"
      by (auto simp: run_relax_vasp_with_retry_def Let_def)
    have "maybe_resume_from_checkpoint f' wd = (?n, snd (maybe_resume_from_checkpoint ?f wd))"
      unfolding f'
    proof (rule resume_log [OF _ _ assms(2)])
      show "maybe_resume_from_checkpoint ?f wd = (?n, snd (maybe_resume_from_checkpoint ?f wd))" by simp
      show "?n \<noteq> 0" using True assms(3) by linarith
    qed
    with True show ?thesis by simp
  next
    case False
    with assms(1) have "retry_loop c wd [?n..rc_max_retries c] \<lparr>rr_files = ?f, rr_backups = [], rr_actions = []\<rparr> = (f', Fatal m s)"
      unfolding run_relax_vasp_with_retry_def Let_def by (simp only: if_False if_True not_True_eq_False)
    from retry_loop_Fatal [OF _ assms(2) this] False show ?thesis by simp
  qed
  with exhausted_run [OF refl, of c2 f' wd enabled] assms(3,4) show ?thesis by simp
qed

theorem retry_limit_is_final_witness:
  "\<exists>f' f2 s s2. run_relax_vasp_with_retry stuck_relax ''/w/r'' True [(''/w/r'', FDir), (''/w/r/POSCAR'', FFile ''p'')]
       = (f', Fatal ''RETRY_LIMIT_REACHED'' s)
     \<and> run_relax_vasp_with_retry stuck_relax ''/w/r'' True f' = (f2, Fatal ''SKIP_AFTER_3_RETRIES'' s2)"
proof -
  let ?f = "[(''/w/r'', FDir), (''/w/r/POSCAR'', FFile ''p'')]"
  have "case run_relax_vasp_with_retry stuck_relax ''/w/r'' True ?f of (f, Fatal m s) \<Rightarrow> m = ''RETRY_LIMIT_REACHED'' | _ \<Rightarrow> False"
    by code_simp
  then obtain f' s where "run_relax_vasp_with_retry stuck_relax ''/w/r'' True ?f = (f', Fatal ''RETRY_LIMIT_REACHED'' s)"
    by (auto split: prod.splits relax_end.splits)
  moreover have "rc_retry_log_path stuck_relax \<noteq> checkpoint_path ''/w/r''" "0 < rc_max_retries stuck_relax"
    by code_simp+
  ultimately show ?thesis using retry_limit_is_final by blast
qed

text \<open>Restarting after an interruption: when the process is killed after retry \<open>n + 1\<close> was prepared, a new
  run continues with exactly that retry, keeping the budget across restarts; but when it was the last
  retry of the budget, the new run gives up at once, so that the last prepared retry is never run.\<close>

theorem interrupted_run_continues:
  assumes "attempt_step c wd n r = Inr r'" "rc_retry_log_path c \<noteq> checkpoint_path wd" "0 \<le> n"
  shows "if n + 1 = rc_max_retries c
    then \<exists>f2 s2. run_relax_vasp_with_retry c wd True (rr_files r') = (f2, Fatal ''SKIP_AFTER_3_RETRIES'' s2)
    else run_relax_vasp_with_retry c wd True (rr_files r')
           = retry_loop c wd [n + 1..rc_max_retries c]
               \<lparr>rr_files = makedirs (rr_files r') wd, rr_backups = [], rr_actions = []\<rparr>"
proof -
  note step = attempt_step_Inr [OF assms(1,2)]
  have m: "maybe_resume_from_checkpoint (makedirs (rr_files r') wd) wd = (n + 1, last_backup r')"
    using step(3) assms(3) by (intro resume_makedirs) auto
  show ?thesis
  proof (cases "n + 1 = rc_max_retries c")
    case True
    with step(3) assms(3) exhausted_run [of "rr_files r'" wd "n + 1" c True] show ?thesis by simp
  next
    case False
    with m step(1) show ?thesis by (simp add: run_relax_vasp_with_retry_def Let_def)
  qed
qed

theorem interrupted_run_continues_witness:
  "\<exists>r' f2 s2. attempt_step stuck_relax ''/w/r'' 0 \<lparr>rr_files = [(''/w/r/POSCAR'', FFile ''p'')], rr_backups = [], rr_actions = []\<rparr> = Inr r'
     \<and> run_relax_vasp_with_retry stuck_relax ''/w/r'' True (rr_files r') = (f2, Fatal ''SKIP_AFTER_3_RETRIES'' s2)"
proof -
  let ?r = "\<lparr>rr_files = [(''/w/r/POSCAR'', FFile ''p'')], rr_backups = [], rr_actions = []\<rparr>"
  have "case attempt_step stuck_relax ''/w/r'' 0 ?r of Inr r' \<Rightarrow> True | _ \<Rightarrow> False" by code_simp
  then obtain r' where r: "attempt_step stuck_relax ''/w/r'' 0 ?r = Inr r'" by (auto split: sum.splits)
  have "rc_retry_log_path stuck_relax \<noteq> checkpoint_path ''/w/r''" by code_simp
  moreover have "0 + 1 = rc_max_retries stuck_relax" by code_simp
  ultimately show ?thesis using interrupted_run_continues [OF r] r by auto
qed

text \<open>A missing CONTCAR after the banner is not handled: the attempt raises FileNotFoundError, where the
  same situation after any other failure ends the run with the result missing_output.\<close>

theorem banner_without_contcar_raises:
  assumes "snd (snd (run_attempt c wd n (rr_files r)))" "n < rc_max_retries c"
    and "\<not> path_exists (at_files (fst (run_attempt c wd n (rr_files r)))) (path_join wd ''CONTCAR'')"
  shows "attempt_step c wd n r = Inl (at_files (fst (run_attempt c wd n (rr_files r))),
           Raised (FileNotFoundError (path_join wd ''CONTCAR'')))
    \<and> (\<exists>f s. next_or_limit c wd n (r\<lparr>rr_files := at_files (fst (run_attempt c wd n (rr_files r)))\<rparr>) False e reason
          = Inl (f, Finished False (rr_backups r) s) \<and> dget0 s ''error_type'' = PStr ''missing_output'')"
  using assms
  by (simp add: attempt_step_def next_or_limit_def prepare_retry_def backup_and_promote_contcar_def
      make_retry_summary_def dget0_def dget_def Let_def)

theorem banner_without_contcar_raises_witness:
  "\<exists>c r. attempt_step c ''/w/r'' 0 r = Inl (at_files (fst (run_attempt c ''/w/r'' 0 (rr_files r))),
           Raised (FileNotFoundError (path_join ''/w/r'' ''CONTCAR'')))"
proof -
  let ?t = "''EEEEE ZBRENT: fatal error in bracketing please rerun with smaller EDIFF, or copy CONTCAR to POSCAR and continue I REFUSE TO CONTINUE WITH THIS SICK JOB ... BYE!!!''"
  let ?c = "demo_relax\<lparr>rc_vasp := (\<lambda>n f. \<lparr>at_polls = [write_file f ''/w/r/sout'' ?t], at_files = f, at_returncode = 1\<rparr>)\<rparr>"
  let ?r = "\<lparr>rr_files = [], rr_backups = [], rr_actions = []\<rparr>"
  have "snd (snd (run_attempt ?c ''/w/r'' 0 (rr_files ?r)))" by code_simp
  moreover have "(0::int) < rc_max_retries ?c" by code_simp
  moreover have "\<not> path_exists (at_files (fst (run_attempt ?c ''/w/r'' 0 (rr_files ?r)))) (path_join ''/w/r'' ''CONTCAR'')" by code_simp
  ultimately show ?thesis using banner_without_contcar_raises by blast
qed

end
