(* ===== verification/Stage_Tools.thy ===== *)
theory Stage_Tools
  imports Relax_Retry
begin

text \<open>
  The deterministic tools that run a VASP stage: mobility_agent/tools/base.py,
  mobility_agent/tools/relax_tool.py and mobility_agent/tools/scf_tool.py.

  A tool runs on the file table and returns a dict or raises; \<open>'a io\<close> is that effect, the
  files being those left behind also when it raises. \<open>tool_run\<close> is \<open>DeterministicTool.run\<close>,
  which turns every exception into a failed output. Outside the model, and fields of
  \<open>tool_env\<close>, are: the environment variable for reuse, the policy engine, pymatgen's INCAR
  writer and lattice, the Fermi level and the VASP process.
\<close>

section \<open>Effects\<close>

type_synonym 'a io = "fs \<Rightarrow> fs \<times> 'a res"

definition io_return :: "'a \<Rightarrow> 'a io" where
  "io_return x = (\<lambda>f. (f, Inr x))"

definition io_bind :: "'a io \<Rightarrow> ('a \<Rightarrow> 'b io) \<Rightarrow> 'b io" where
  "io_bind m k = (\<lambda>f. case m f of (f', Inl e) \<Rightarrow> (f', Inl e) | (f', Inr x) \<Rightarrow> k x f')"

definition io_lift :: "'a res \<Rightarrow> 'a io" where
  "io_lift r = (\<lambda>f. (f, r))"

definition io_change :: "(fs \<Rightarrow> fs) \<Rightarrow> unit io" where
  "io_change g = (\<lambda>f. (g f, Inr ()))"

definition io_try_change :: "(fs \<Rightarrow> fs res) \<Rightarrow> unit io" where
  "io_try_change g = (\<lambda>f. case g f of Inl e \<Rightarrow> (f, Inl e) | Inr f' \<Rightarrow> (f', Inr ()))"

definition io_read :: "(fs \<Rightarrow> 'a) \<Rightarrow> 'a io" where
  "io_read g = (\<lambda>f. (f, Inr (g f)))"

lemma io_bind_Inr:
  "io_bind m k f = (f', Inr y) \<longleftrightarrow> (\<exists>f1 x. m f = (f1, Inr x) \<and> k x f1 = (f', Inr y))"
  by (auto simp: io_bind_def split: prod.splits sum.splits)

lemma io_Inr [simp]:
  "io_return x f = (f', Inr y) \<longleftrightarrow> f' = f \<and> y = x"
  "io_lift r f = (f', Inr y) \<longleftrightarrow> f' = f \<and> r = Inr y"
  "io_change g f = (f', Inr u) \<longleftrightarrow> f' = g f"
  "io_read h f = (f', Inr z) \<longleftrightarrow> f' = f \<and> z = h f"
  "io_try_change t f = (f', Inr v) \<longleftrightarrow> t f = Inr f'"
  by (auto simp: io_return_def io_lift_def io_change_def io_read_def io_try_change_def split: sum.splits)

text \<open>\<open>str(exc)\<close>: the text an exception carries.\<close>

fun exc_text :: "py_error \<Rightarrow> string" where
  "exc_text (KeyError s) = repr_str s"
| "exc_text (ValueError s) = s"
| "exc_text (TypeError s) = s"
| "exc_text (AttributeError s) = s"
| "exc_text (IndexError s) = s"
| "exc_text (OverflowError s) = s"
| "exc_text (RuntimeError s) = s"
| "exc_text (FileNotFoundError s) = s"
| "exc_text (OSError s) = s"
| "exc_text (NotImplementedError s) = s"
| "exc_text (ManualFixValidationError s) = s"
| "exc_text (StageDependencyError s) = s"
| "exc_text (ValidationError s) = s"

section \<open>The frame of a tool\<close>

record ToolOutput =
  to_success :: bool
  to_warnings :: "py list"
  to_key_summary :: dict
  to_artifact_paths :: "(string \<times> string) list"
  to_error_summary :: "string option"
  to_state_updates :: dict

definition failed_output :: "py_error \<Rightarrow> ToolOutput" where
  "failed_output e =
     \<lparr>to_success = False, to_warnings = [], to_key_summary = [], to_artifact_paths = [],
      to_error_summary = Some (exc_text e), to_state_updates = [(''errors'', PList [PStr (exc_text e)])]\<rparr>"

definition tool_run :: "dict io \<Rightarrow> (fs \<Rightarrow> dict \<Rightarrow> ToolOutput res) \<Rightarrow> fs \<Rightarrow> fs \<times> ToolOutput" where
  "tool_run execute build_output f =
     (case execute f of
        (f', Inl e) \<Rightarrow> (f', failed_output e)
      | (f', Inr raw) \<Rightarrow> (case build_output f' raw of Inl e \<Rightarrow> (f', failed_output e) | Inr out \<Rightarrow> (f', out)))"

definition build_artifact_map :: "string list \<Rightarrow> (string \<times> string) list" where
  "build_artifact_map paths = fold (\<lambda>p d. if p = [] then d else AList.update (basename p) p d) paths []"

text \<open>\<open>"; ".join(raw.get("errors", [])) if raw.get("errors") else None\<close>, for a list of strings.\<close>

definition errors_text :: "dict \<Rightarrow> string option res" where
  "errors_text raw =
     (if truthy (dget0 raw ''errors'')
      then bindR (to_list (dget0 raw ''errors'')) (\<lambda>es. bindR (mapR (\<lambda>e. case e of PStr s \<Rightarrow> Inr s | _ \<Rightarrow> Inl (TypeError ''join'')) es)
             (\<lambda>ss. Inr (Some (join ''; '' ss))))
      else Inr None)"

section \<open>Parameter plans\<close>

record ParameterPlan =
  pp_incar_overrides :: dict
  pp_kpoints_policy :: dict
  pp_source :: string
  pp_confidence :: py
  pp_evidence :: "py list"
  pp_rationale :: string
  pp_dump :: py

definition policy_updates :: "string \<Rightarrow> ParameterPlan \<Rightarrow> dict" where
  "policy_updates stage p =
     [(''services'', PDict
        [(''parameter_plans'', PDict [(stage, pp_dump p)]),
         (''retrieval_trace'', PList [PDict
            [(''kind'', PStr ''parameter_plan''), (''stage'', PStr stage), (''source'', PStr (pp_source p)),
             (''confidence'', pp_confidence p), (''evidence'', PList (pp_evidence p)), (''rationale'', PStr (pp_rationale p))]])])]"

record tool_env =
  te_reuse :: "string option"
  te_engine :: "(string \<Rightarrow> dict \<Rightarrow> dict \<Rightarrow> dict \<Rightarrow> ParameterPlan) option"
  te_incar_text :: "dict \<Rightarrow> string"
  te_lattice :: "string \<Rightarrow> (rat \<times> rat) res"
  te_reciprocal_lattice :: "string \<Rightarrow> py res"
  te_fermi_energy :: "fs \<Rightarrow> string \<Rightarrow> flt res"
  te_process :: "fs \<Rightarrow> vasp_exit"
  te_consider_spin :: bool
  te_target_ka :: flt

text \<open>\<open>policy_engine is not None and policy_stage_planning_allowed(...)\<close>, and the plan.\<close>

definition stage_plan :: "tool_env \<Rightarrow> string \<Rightarrow> dict \<Rightarrow> dict \<Rightarrow> dict \<Rightarrow> ParameterPlan option res" where
  "stage_plan te stage state_payload incar kpoints =
     (case te_engine te of
        None \<Rightarrow> Inr None
      | Some plan_stage \<Rightarrow> bindR (policy_stage_planning_allowed (PDict state_payload) stage [])
          (\<lambda>allowed. Inr (if allowed then Some (plan_stage stage state_payload incar kpoints) else None)))"

definition planned_incar :: "dict \<Rightarrow> ParameterPlan option \<Rightarrow> dict" where
  "planned_incar incar plan = (case plan of None \<Rightarrow> incar | Some p \<Rightarrow> dmerge incar (pp_incar_overrides p))"

definition planned_kpoints :: "dict \<Rightarrow> ParameterPlan option \<Rightarrow> dict" where
  "planned_kpoints kpoints plan = (case plan of None \<Rightarrow> kpoints | Some p \<Rightarrow> dmerge kpoints (pp_kpoints_policy p))"

definition planned_updates :: "string \<Rightarrow> ParameterPlan option \<Rightarrow> dict" where
  "planned_updates stage plan = (case plan of None \<Rightarrow> [] | Some p \<Rightarrow> policy_updates stage p)"

definition write_incar :: "tool_env \<Rightarrow> string \<Rightarrow> dict \<Rightarrow> fs \<Rightarrow> fs" where
  "write_incar te path params f = write_file f (path_join path ''INCAR'') (te_incar_text te params)"

definition default_kpoints :: "tool_env \<Rightarrow> dict" where
  "default_kpoints te = [(''target_ka'', PFloat (te_target_ka te)), (''gamma_centered'', PBool False)]"

definition target_ka_of :: "tool_env \<Rightarrow> dict \<Rightarrow> rat res" where
  "target_ka_of te policy =
     bindR (to_float (py_or (dget policy ''target_ka'' (PFloat (te_target_ka te))) (PFloat (te_target_ka te))))
       (\<lambda>x. case x of Fin q \<Rightarrow> Inr q | NaN \<Rightarrow> Inl (ValueError ''nan'') | _ \<Rightarrow> Inl (OverflowError ''inf''))"

definition write_kpoints :: "tool_env \<Rightarrow> string \<Rightarrow> string \<Rightarrow> dict \<Rightarrow> unit io" where
  "write_kpoints te work_dir material_name policy =
     io_bind (io_lift (target_ka_of te policy)) (\<lambda>ka.
       io_try_change (\<lambda>f. write_relax_scf_kpoints (te_lattice te) f work_dir material_name ka
         (truthy (dget policy ''gamma_centered'' (PBool False))) None))"

section \<open>The relaxation tool\<close>

record RelaxToolInput =
  ri_material_id :: string
  ri_base_dir :: string
  ri_poscar_path :: string
  ri_potcar_path :: string
  ri_state_payload :: dict
  ri_recovery_param_updates :: dict
  ri_no_relax_retry :: bool

definition relax_incar :: "tool_env \<Rightarrow> dict \<Rightarrow> dict res" where
  "relax_incar te overrides =
     bindR (to_float (dget overrides ''EDIFF'' (PFloat (Fin (1 / 10 ^ 5))))) (\<lambda>ediff.
     bindR (to_int (dget overrides ''ISIF'' (PInt 3))) (\<lambda>isif.
       Inr (dmerge (build_incar_relax ''Structure Relaxation'' ediff isif (Some ''.TRUE. .TRUE. .FALSE.'')
                      (te_consider_spin te) 200 600 300 12)
             (filter (\<lambda>kv. fst kv \<notin> {''EDIFF'', ''ISIF''}) overrides))))"

definition use_existing_key :: string where
  "use_existing_key = ''__use_existing_workdir_poscar__''"

text \<open>A usable CONTCAR of an earlier run: its reciprocal lattice, or the warning why it is not used.\<close>

definition reused_contcar :: "tool_env \<Rightarrow> fs \<Rightarrow> string \<Rightarrow> py res" where
  "reused_contcar te f contcar =
     (if file_size f contcar = 0 then Inl (ValueError ''empty CONTCAR'')
      else (case read_file f contcar of None \<Rightarrow> Inl (OSError contcar) | Some t \<Rightarrow> te_reciprocal_lattice te t))"

definition relax_config_for :: "relax_config \<Rightarrow> RelaxToolInput \<Rightarrow> relax_config" where
  "relax_config_for c inputs =
     c\<lparr>rc_material_id := ri_material_id inputs,
       rc_retry_log_path := path_join (ri_base_dir inputs) ''vasp_relax_retry.log'',
       rc_check_convergence := True, rc_convergence_ok := default_convergence_ok, rc_max_retries := 3,
       rc_retry_on_nonzero_exit := True, rc_retry_on_nonconvergence := True, rc_extra_monitored_files := []\<rparr>"

definition relax_run_io :: "relax_config \<Rightarrow> string \<Rightarrow> bool \<Rightarrow> relax_end io" where
  "relax_run_io c work_dir enabled f =
     (case run_relax_vasp_with_retry c work_dir enabled f of
        (f', Raised e) \<Rightarrow> (f', Inl e) | (f', r) \<Rightarrow> (f', Inr r))"

definition retry_summary :: "string \<Rightarrow> string \<Rightarrow> nat \<Rightarrow> string \<Rightarrow> dict" where
  "retry_summary error_type trigger retries action =
     [(''stage'', PStr ''relax''), (''error_type'', PStr error_type), (''trigger_pattern'', PStr trigger),
      (''retries_used'', PInt (int retries)), (''max_retries'', PInt 3), (''recommended_action'', PStr action),
      (''applied_action'', PStr action), (''final_outcome'', PStr ''failed'')]"

definition nonempty_or :: "dict \<Rightarrow> dict \<Rightarrow> dict" where
  "nonempty_or d e = (if d = [] then e else d)"

definition relax_keep :: "string list" where
  "relax_keep = [''INCAR'', ''KPOINTS'', ''POSCAR'', ''CONTCAR'', ''POTCAR'']"

text \<open>What the tool returns for each end of the retry loop.\<close>

definition relax_finish ::
  "tool_env \<Rightarrow> string \<Rightarrow> py list \<Rightarrow> py list \<Rightarrow> dict \<Rightarrow> relax_end \<Rightarrow> dict io" where
  "relax_finish te work_dir warnings existing updates ended =
     (let contcar = path_join work_dir ''CONTCAR'' in
      case ended of
        Fatal text summary \<Rightarrow> io_return (dmerge
          [(''errors'', PList [PStr (if text = ''SKIP_AFTER_3_RETRIES'' then text else ''RELAX_FATAL:'' @ text)]),
           (''warnings'', PList warnings), (''relax_retry_backups'', PList existing),
           (''recovery_summary'', PDict (nonempty_or summary
              (retry_summary ''relax_fatal'' text (length existing) ''skip_material'')))] updates)
      | Finished False backups summary \<Rightarrow>
          (let n = length existing + length backups;
               message = py_str (py_or (dget0 summary ''error_summary'') (PStr ''relaxation failed''))
           in io_return (dmerge
                [(''errors'', PList [PStr message]), (''warnings'', PList warnings),
                 (''relax_retry_backups'', PList (existing @ map PStr backups)),
                 (''recovery_summary'', PDict (nonempty_or summary
                    (retry_summary ''relax_failed'' ''run_relax_vasp_with_retry_returned_false'' n
                       (if 3 \<le> n then ''skip_material'' else ''retry''))))] updates))
      | Finished True backups summary \<Rightarrow>
          io_bind (io_read (\<lambda>f. map_of f contcar)) (\<lambda>node.
            case node of
              None \<Rightarrow> io_return (dmerge
                [(''errors'', PList [PStr ''CONTCAR missing'']), (''warnings'', PList warnings),
                 (''recovery_summary'', PDict (retry_summary ''missing_output'' ''CONTCAR_MISSING''
                    (length existing + length backups) ''skip_material''))] updates)
            | Some FDir \<Rightarrow> io_lift (Inl (OSError contcar))
            | Some (FFile t) \<Rightarrow>
                io_bind (io_lift (te_reciprocal_lattice te t)) (\<lambda>rec.
                io_bind (io_change (\<lambda>f. prune_dir_keep_files f work_dir relax_keep)) (\<lambda>_.
                  io_return (dmerge
                    [(''relax_completed'', PBool True), (''relaxed_poscar'', PStr contcar), (''reciprocal_lattice'', rec),
                     (''relax_retry_backups'', PList (existing @ map PStr backups)), (''recovery_summary'', PDict summary),
                     (''warnings'', PList warnings), (''_tool_source'', PStr ''native_tool'')] updates))))
      | Raised e \<Rightarrow> io_lift (Inl e))"

text \<open>The native run: inputs, plan, INCAR and KPOINTS, the retry loop, the result.\<close>

definition relax_native ::
  "tool_env \<Rightarrow> relax_config \<Rightarrow> string option \<Rightarrow> RelaxToolInput \<Rightarrow> string \<Rightarrow> py list \<Rightarrow> dict io" where
  "relax_native te c retry_env inputs work_dir warnings =
     (let overrides = filter (\<lambda>kv. fst kv \<noteq> use_existing_key) (ri_recovery_param_updates inputs);
          reuse_poscar = truthy (dget (ri_recovery_param_updates inputs) use_existing_key (PBool False))
      in io_bind (io_try_change (\<lambda>f.
             if reuse_poscar \<and> path_exists f (path_join work_dir ''POSCAR'')
             then copy_file f (ri_potcar_path inputs) (path_join work_dir ''POTCAR'')
             else copy_poscar_potcar f (ri_poscar_path inputs) (ri_potcar_path inputs) work_dir)) (\<lambda>_.
         io_bind (io_lift (relax_incar te overrides)) (\<lambda>incar0.
         io_bind (io_lift (stage_plan te ''relax'' (ri_state_payload inputs) incar0 (default_kpoints te))) (\<lambda>plan.
         io_bind (io_change (write_incar te work_dir (planned_incar incar0 plan))) (\<lambda>_.
         io_bind (write_kpoints te work_dir (ri_material_id inputs) (planned_kpoints (default_kpoints te) plan)) (\<lambda>_.
         io_bind (io_lift (to_list (py_or (dget0 (ri_state_payload inputs) ''relax_retry_backups'') (PList [])))) (\<lambda>existing.
         io_bind (relax_run_io (relax_config_for c inputs) work_dir
                    (relax_retry_enabled (ri_no_relax_retry inputs) retry_env)) (\<lambda>ended.
           relax_finish te work_dir warnings existing (planned_updates ''relax'' plan) ended))))))))"

definition relax_execute ::
  "tool_env \<Rightarrow> relax_config \<Rightarrow> string option \<Rightarrow> RelaxToolInput \<Rightarrow> dict io" where
  "relax_execute te c retry_env inputs =
     (let work_dir = path_join (ri_base_dir inputs) ''01_relax''; contcar = path_join work_dir ''CONTCAR''
      in io_bind (io_change (\<lambda>f. makedirs f work_dir)) (\<lambda>_.
         io_bind (io_read (\<lambda>f. if reuse_completed_vasp_stages_enabled (te_reuse te) \<and> path_exists f contcar
                                then Some (reused_contcar te f contcar) else None)) (\<lambda>reused.
         case reused of
           None \<Rightarrow> relax_native te c retry_env inputs work_dir []
         | Some (Inl e) \<Rightarrow> relax_native te c retry_env inputs work_dir
                             [PStr (''ignored_invalid_reused_relax_contcar:'' @ exc_text e)]
         | Some (Inr rec) \<Rightarrow>
             io_bind (io_lift (to_list (py_or (dget0 (ri_state_payload inputs) ''relax_retry_backups'') (PList [])))) (\<lambda>existing.
               io_return
                 [(''relax_completed'', PBool True), (''relaxed_poscar'', PStr contcar), (''reciprocal_lattice'', rec),
                  (''relax_retry_backups'', PList existing),
                  (''recovery_summary'', PDict [(''stage'', PStr ''relax''), (''applied_action'', PStr ''reuse_completed_stage''),
                     (''final_outcome'', PStr ''success'')]),
                  (''warnings'', PList [PStr ''reused_completed_stage:relax'']),
                  (''_tool_source'', PStr ''native_tool_reuse'')]))))"

definition relax_build_output :: "RelaxToolInput \<Rightarrow> fs \<Rightarrow> dict \<Rightarrow> ToolOutput res" where
  "relax_build_output inputs f raw =
     bindR (get_list raw ''relax_retry_backups'') (\<lambda>backups.
     bindR (get_list raw ''warnings'') (\<lambda>warnings.
     bindR (get_dict raw ''recovery_summary'') (\<lambda>summary.
     bindR (errors_text raw) (\<lambda>error_summary.
       Inr \<lparr>to_success = \<not> truthy (dget0 raw ''errors''), to_warnings = warnings,
            to_key_summary =
              [(''relax_completed'', PBool (truthy (dget raw ''relax_completed'' (PBool False)))),
               (''relaxed_poscar'', dget0 raw ''relaxed_poscar''), (''retry_backups'', PList backups),
               (''recovery_summary'', PDict summary)],
            to_artifact_paths = build_artifact_map [path_join (ri_base_dir inputs) ''01_relax'',
               path_join (ri_base_dir inputs) ''vasp_relax_retry.log''],
            to_error_summary = error_summary, to_state_updates = raw\<rparr>))))"

definition relax_tool_run ::
  "tool_env \<Rightarrow> relax_config \<Rightarrow> string option \<Rightarrow> RelaxToolInput \<Rightarrow> fs \<Rightarrow> fs \<times> ToolOutput" where
  "relax_tool_run te c retry_env inputs =
     tool_run (relax_execute te c retry_env inputs) (relax_build_output inputs)"

section \<open>The SCF tool\<close>

record ScfToolInput =
  si_base_dir :: string
  si_poscar_path :: string
  si_potcar_path :: string
  si_material_name :: string
  si_state_payload :: dict

definition scf_keep :: "string list" where
  "scf_keep = [''INCAR'', ''KPOINTS'', ''POSCAR'', ''POTCAR'', ''CHGCAR'', ''OUTCAR'', ''OSZICAR'']"

definition run_vasp_io :: "tool_env \<Rightarrow> string \<Rightarrow> bool \<Rightarrow> bool io" where
  "run_vasp_io te work_dir check f = (case run_vasp (te_process te f) work_dir check of (f', ok) \<Rightarrow> (f', Inr ok))"

definition scf_finish :: "tool_env \<Rightarrow> string \<Rightarrow> py list \<Rightarrow> dict \<Rightarrow> bool \<Rightarrow> dict io" where
  "scf_finish te work_dir warnings updates ok =
     (if \<not> ok then
        io_bind (io_read (\<lambda>f. summarize_vasp_failure f work_dir ''scf'' ''SCF failed'' None)) (\<lambda>summary.
          io_return (dmerge [(''errors'', PList [PStr (py_str (dget0 summary ''error_summary''))]),
            (''warnings'', PList warnings), (''recovery_summary'', PDict summary)] updates))
      else io_bind (io_read (\<lambda>f. te_fermi_energy te f work_dir)) (\<lambda>fermi.
        case fermi of
          Inl e \<Rightarrow> io_return (dmerge [(''errors'', PList [PStr ''no Fermi energy (OUTCAR/vasprun.xml/DOSCAR)'']),
                      (''warnings'', PList warnings)] updates)
        | Inr e_fermi \<Rightarrow>
            io_bind (io_change (\<lambda>f. prune_dir_keep_files f work_dir scf_keep)) (\<lambda>_.
              io_return (dmerge [(''scf_completed'', PBool True), (''fermi_energy'', PFloat e_fermi),
                (''chgcar_path'', PStr (path_join work_dir ''CHGCAR'')), (''warnings'', PList warnings),
                (''_tool_source'', PStr ''native_tool'')] updates))))"

definition scf_native :: "tool_env \<Rightarrow> ScfToolInput \<Rightarrow> string \<Rightarrow> py list \<Rightarrow> dict io" where
  "scf_native te inputs work_dir warnings =
     io_bind (io_try_change (\<lambda>f. copy_poscar_potcar f (si_poscar_path inputs) (si_potcar_path inputs) work_dir)) (\<lambda>_.
     let incar0 = build_incar_scf ''SCF Calculation'' (te_consider_spin te) (Fin (1 / 10 ^ 6)) 600 300 12 False False in
     io_bind (io_lift (stage_plan te ''scf'' (si_state_payload inputs) incar0 (default_kpoints te))) (\<lambda>plan.
     io_bind (io_change (write_incar te work_dir (planned_incar incar0 plan))) (\<lambda>_.
     io_bind (write_kpoints te work_dir (si_material_name inputs) (planned_kpoints (default_kpoints te) plan)) (\<lambda>_.
     io_bind (run_vasp_io te work_dir True) (\<lambda>ok.
       scf_finish te work_dir warnings (planned_updates ''scf'' plan) ok)))))"

definition scf_execute :: "tool_env \<Rightarrow> ScfToolInput \<Rightarrow> dict io" where
  "scf_execute te inputs =
     (let work_dir = path_join (si_base_dir inputs) ''02_scf''; chgcar = path_join work_dir ''CHGCAR''
      in io_bind (io_change (\<lambda>f. makedirs f work_dir)) (\<lambda>_.
         io_bind (io_read (\<lambda>f. if reuse_completed_vasp_stages_enabled (te_reuse te) \<and> path_exists f chgcar
                                then Some (te_fermi_energy te f work_dir) else None)) (\<lambda>reused.
         case reused of
           None \<Rightarrow> scf_native te inputs work_dir []
         | Some (Inl e) \<Rightarrow> scf_native te inputs work_dir
             [PStr ''reused_completed_stage:scf'', PStr ''reused_scf_without_fermi_energy'',
              PStr ''reran_scf_to_restore_fermi_energy'']
         | Some (Inr e_fermi) \<Rightarrow> io_return
             [(''scf_completed'', PBool True), (''fermi_energy'', PFloat e_fermi), (''chgcar_path'', PStr chgcar),
              (''warnings'', PList [PStr ''reused_completed_stage:scf'']), (''_tool_source'', PStr ''native_tool_reuse'')])))"

definition scf_build_output :: "ScfToolInput \<Rightarrow> fs \<Rightarrow> dict \<Rightarrow> ToolOutput res" where
  "scf_build_output inputs f raw =
     (let scf_dir = path_join (si_base_dir inputs) ''02_scf''; chgcar = path_join scf_dir ''CHGCAR''
      in bindR (get_list raw ''warnings'') (\<lambda>warnings.
         bindR (errors_text raw) (\<lambda>error_summary.
           Inr \<lparr>to_success = \<not> truthy (dget0 raw ''errors''), to_warnings = warnings,
                to_key_summary =
                  [(''scf_completed'', PBool (truthy (dget raw ''scf_completed'' (PBool False)))),
                   (''fermi_energy'', dget0 raw ''fermi_energy''),
                   (''chgcar_path'', if path_exists f chgcar then PStr chgcar else PNone)],
                to_artifact_paths = build_artifact_map [scf_dir, chgcar],
                to_error_summary = error_summary, to_state_updates = raw\<rparr>)))"

definition scf_tool_run :: "tool_env \<Rightarrow> ScfToolInput \<Rightarrow> fs \<Rightarrow> fs \<times> ToolOutput" where
  "scf_tool_run te inputs = tool_run (scf_execute te inputs) (scf_build_output inputs)"

section \<open>What pruning leaves\<close>

lemma map_of_prune:
  "map_of (prune_dir_keep_files f d keep) q = (if q \<in> path_join d ` set (pruned f d keep) then None else map_of f q)"
  by (simp add: prune_dir_keep_files_def files.look_del_all)

text \<open>The names the retry loop gives to its backups.\<close>

definition backup_form :: "string \<Rightarrow> string \<Rightarrow> bool" where
  "backup_form work_dir b \<longleftrightarrow> (\<exists>s. b = path_join work_dir (''POSCAR.retry'' @ s) \<and> CHR ''/'' \<notin> set s)"

lemma show_int_plain: "CHR ''/'' \<notin> set (show_int i)"
proof -
  have "CHR ''/'' \<notin> set (nat_digits n)" for n
  proof (induction n rule: nat_digits.induct)
    case (1 n)
    have c: "CHR ''/'' \<noteq> char_of (48 + d)" if "d < 10" for d :: nat
      using digit_char_neq [OF that, of "CHR ''/''"] by (simp add: code_of_def eq_commute)
    show ?case
    proof (cases "n < 10")
      case True
      with c [OF True] show ?thesis by (subst nat_digits.simps) (simp del: char_of_eq_iff)
    next
      case False
      with 1 c [of "n mod 10"] show ?thesis by (subst nat_digits.simps) (simp del: char_of_eq_iff)
    qed
  qed
  then show ?thesis by (simp add: show_int_def)
qed

lemma backup_name_form: "backup_form work_dir (backup_name f work_dir n)"
proof -
  have "backup_name f work_dir n = path_join work_dir (''POSCAR.retry'' @ show_int n @ ''.bak'') \<or>
    (\<exists>k. backup_name f work_dir n = path_join work_dir (''POSCAR.retry'' @ show_int n @ ''.bak.'' @ show_int k))"
    by (auto simp: backup_name_def Let_def path_join_plain)
  then show ?thesis
    unfolding backup_form_def using show_int_plain by (elim disjE exE) (rule exI, rule conjI, assumption, simp)+
qed

lemma prepare_retry_backups:
  assumes "prepare_retry c wd n r b e s = Inr r'" "\<forall>x\<in>set (rr_backups r). backup_form wd x"
  shows "\<forall>x\<in>set (rr_backups r'). backup_form wd x"
  using assms backup_name_form
  by (auto simp: prepare_retry_def backup_and_promote_contcar_def Let_def split: prod.splits sum.splits if_splits
      py_error.splits bool.splits)

lemma attempt_step_backups:
  assumes "\<forall>x\<in>set (rr_backups r). backup_form wd x"
  shows "attempt_step c wd n r = Inr r' \<Longrightarrow> \<forall>x\<in>set (rr_backups r'). backup_form wd x"
    and "attempt_step c wd n r = Inl (f', Finished True bs s) \<Longrightarrow> \<forall>x\<in>set bs. backup_form wd x"
proof -
  { assume i: "attempt_step c wd n r = Inr r'"
    then obtain b e s r1 where "rr_backups r1 = rr_backups r" "next_or_limit c wd n r1 b e s = Inr r'"
      by (cases rule: attempt_step_cases [of c wd n r]) auto
    with assms prepare_retry_backups [of c wd "n + 1" r1 b e s r'] show "\<forall>x\<in>set (rr_backups r'). backup_form wd x"
      by (auto simp: next_or_limit_def split: if_splits) }
  { assume i: "attempt_step c wd n r = Inl (f', Finished True bs s)"
    then have "bs = rr_backups r"
      by (cases rule: attempt_step_cases [of c wd n r])
        (auto simp: succeeded_def next_or_limit_def retry_limit_reached_def Let_def split: if_splits dest!: prepare_retry_Inl)
    with assms show "\<forall>x\<in>set bs. backup_form wd x" by simp }
qed

lemma retry_loop_backups:
  "retry_loop c wd ns r = (f', Finished True bs s) \<Longrightarrow> \<forall>x\<in>set (rr_backups r). backup_form wd x \<Longrightarrow>
   \<forall>x\<in>set bs. backup_form wd x"
proof (induction ns arbitrary: r)
  case (Cons n ns)
  show ?case
  proof (cases "attempt_step c wd n r")
    case (Inl e)
    with Cons.prems attempt_step_backups(2) [OF Cons.prems(2)] show ?thesis by simp
  next
    case (Inr r')
    have "retry_loop c wd ns r' = (f', Finished True bs s)" using Cons.prems(1) Inr by simp
    then show ?thesis using attempt_step_backups(1) [OF Cons.prems(2) Inr] by (rule Cons.IH)
  qed
qed simp

lemma run_relax_backups:
  assumes "run_relax_vasp_with_retry c wd enabled f = (f', Finished True bs s)"
  shows "\<forall>x\<in>set bs. backup_form wd x"
proof -
  let ?n = "fst (maybe_resume_from_checkpoint (makedirs f wd) wd)"
  consider "run_once c wd (makedirs f wd) = (f', Finished True bs s)"
    | "retry_loop c wd [?n..rc_max_retries c] \<lparr>rr_files = makedirs f wd, rr_backups = [], rr_actions = []\<rparr>
         = (f', Finished True bs s)"
    using assms by (auto simp: run_relax_vasp_with_retry_def Let_def split: if_splits)
  then show ?thesis
  proof cases
    case 1
    then have "bs = []" by (auto simp: run_once_def Let_def split: if_splits option.splits)
    then show ?thesis by simp
  next
    case 2
    from retry_loop_backups [OF this] show ?thesis by simp
  qed
qed

lemma pruned_backup:
  assumes "backup_form wd b" "\<forall>n\<in>set keep. \<not> startswith n ''POSCAR.retry''" "endswith wd ''/'' = False" "wd \<noteq> []"
  shows "read_file (prune_dir_keep_files f wd keep) b = None"
proof -
  from assms(1) obtain s where b: "b = path_join wd (''POSCAR.retry'' @ s)" and s: "CHR ''/'' \<notin> set s"
    by (auto simp: backup_form_def)
  let ?n = "''POSCAR.retry'' @ s"
  have j: "path_join wd ?n = wd @ ''/'' @ ?n" using assms(3,4) by (simp add: path_join_def startswith_def)
  show ?thesis
  proof (cases "map_of f b")
    case None
    then show ?thesis by (simp add: read_file_def map_of_prune)
  next
    case (Some node)
    show ?thesis
    proof (cases node)
      case FDir
      with Some show ?thesis by (simp add: read_file_def map_of_prune)
    next
      case (FFile t)
      have "path_exists f (wd @ ''/'' @ ?n)" using Some b j by (simp add: path_exists_def)
      then have "?n \<in> set (listdir f wd)" using s by (simp only: set_listdir) simp
      moreover have "?n \<notin> set keep" using assms(2) by (auto simp: startswith_iff)
      moreover have "\<not> startswith ?n ''CONTCAR.retry.''" by (simp add: startswith_def)
      moreover have "\<not> is_dir f (path_join wd ?n)" using Some FFile b by (simp add: is_dir_def)
      ultimately have "?n \<in> set (pruned f wd keep)" by (simp add: pruned_def)
      then show ?thesis using b by (auto simp: read_file_def map_of_prune)
    qed
  qed
qed

lemma dget0_updates: "k \<noteq> ''services'' \<Longrightarrow> dget0 (dmerge d (planned_updates stage plan)) k = dget0 d k"
  by (cases plan) (simp_all add: planned_updates_def policy_updates_def)

lemma relax_run_io_Inr:
  "relax_run_io c wd en f = (f', Inr r) \<longleftrightarrow> run_relax_vasp_with_retry c wd en f = (f', r) \<and> (\<forall>e. r \<noteq> Raised e)"
  by (auto simp: relax_run_io_def split: prod.splits relax_end.splits)

lemma relax_finish_native:
  assumes "relax_finish te wd ws existing (planned_updates stage plan) r f = (f', Inr d)"
    and "dget0 d ''_tool_source'' = PStr ''native_tool''"
  shows "\<exists>backups s. r = Finished True backups s \<and> f' = prune_dir_keep_files f wd relax_keep
    \<and> dget0 d ''relax_retry_backups'' = PList (existing @ map PStr backups)"
proof (cases r)
  case (Finished ok backups s)
  show ?thesis
  proof (cases ok)
    case True
    with assms Finished show ?thesis
      by (auto simp: relax_finish_def Let_def io_bind_Inr dget0_updates split: option.splits fnode.splits)
        (auto simp: dget0_def dget_def)
  next
    case False
    with assms Finished show ?thesis
      by (auto simp: relax_finish_def Let_def dget0_updates) (auto simp: dget0_def dget_def)
  qed
next
  case (Fatal m s)
  with assms show ?thesis
    by (auto simp: relax_finish_def Let_def dget0_updates) (auto simp: dget0_def dget_def)
qed (use assms in \<open>simp add: relax_finish_def Let_def\<close>)

lemma relax_native_Inr:
  assumes "relax_native te c env inputs wd ws f = (f', Inr d)"
  obtains f1 f2 existing plan r where
    "to_list (py_or (dget0 (ri_state_payload inputs) ''relax_retry_backups'') (PList [])) = Inr existing"
    "run_relax_vasp_with_retry (relax_config_for c inputs) wd (relax_retry_enabled (ri_no_relax_retry inputs) env) f1 = (f2, r)"
    "relax_finish te wd ws existing (planned_updates ''relax'' plan) r f2 = (f', Inr d)"
  using assms by (auto simp: relax_native_def Let_def io_bind_Inr relax_run_io_Inr)

section \<open>Properties of the stage tools\<close>

text \<open>The backups a successful relaxation reports do not exist: the retry loop names them
  \<open>POSCAR.retry<n>.bak\<close>, but the cleanup of the stage directory only spares names that start with
  \<open>CONTCAR.retry.\<close>, so that it deletes every backup the result lists.\<close>

theorem reported_backups_are_gone:
  assumes "relax_execute te c env inputs f = (f', Inr d)" "dget0 d ''_tool_source'' = PStr ''native_tool''"
  shows "\<exists>existing backups.
      to_list (py_or (dget0 (ri_state_payload inputs) ''relax_retry_backups'') (PList [])) = Inr existing
    \<and> dget0 d ''relax_retry_backups'' = PList (existing @ map PStr backups)
    \<and> (\<forall>b\<in>set backups. read_file f' b = None)"
proof -
  let ?wd = "path_join (ri_base_dir inputs) ''01_relax''"
  have "''native_tool'' \<noteq> ''native_tool_reuse''" by simp
  with assms obtain g ws where native: "relax_native te c env inputs ?wd ws g = (f', Inr d)"
    by (auto simp: relax_execute_def Let_def io_bind_Inr dget0_def dget_def split: option.splits sum.splits if_splits)
  from relax_native_Inr [OF native] obtain f1 f2 existing plan r where
    ex: "to_list (py_or (dget0 (ri_state_payload inputs) ''relax_retry_backups'') (PList [])) = Inr existing" and
    run: "run_relax_vasp_with_retry (relax_config_for c inputs) ?wd (relax_retry_enabled (ri_no_relax_retry inputs) env) f1 = (f2, r)" and
    fin: "relax_finish te ?wd ws existing (planned_updates ''relax'' plan) r f2 = (f', Inr d)" by metis
  from relax_finish_native [OF fin assms(2)] obtain backups s where
    r: "r = Finished True backups s" "f' = prune_dir_keep_files f2 ?wd relax_keep"
      "dget0 d ''relax_retry_backups'' = PList (existing @ map PStr backups)" by blast
  have k: "\<forall>n\<in>set relax_keep. \<not> startswith n ''POSCAR.retry''" by code_simp
  have w: "endswith ?wd ''/'' = False" "?wd \<noteq> []"
    by (auto simp: path_join_def endswith_def startswith_def)
  have "\<forall>b\<in>set backups. backup_form ?wd b" using run_relax_backups run r(1) by blast
  then have "read_file f' b = None" if "b \<in> set backups" for b
    unfolding r(2) using that by (intro pruned_backup [OF _ k w]) simp
  with ex r(3) show ?thesis by blast
qed

definition demo_tool_env :: tool_env where
  "demo_tool_env = \<lparr>te_reuse = None, te_engine = None, te_incar_text = (\<lambda>d. ''EDIFF = 1E-5''),
     te_lattice = (\<lambda>t. Inr (3, 4)), te_reciprocal_lattice = (\<lambda>t. Inr PNone), te_fermi_energy = (\<lambda>f wd. Inr (Fin 1)),
     te_process = (\<lambda>f. \<lparr>ve_files = f, ve_returncode = 0, ve_stdout = ''done'', ve_stderr = []\<rparr>),
     te_consider_spin = False, te_target_ka = Fin 50\<rparr>"

definition demo_relax_input :: RelaxToolInput where
  "demo_relax_input = \<lparr>ri_material_id = ''m'', ri_base_dir = ''/w'', ri_poscar_path = ''/w/POSCAR'',
     ri_potcar_path = ''/w/POTCAR'', ri_state_payload = [], ri_recovery_param_updates = [], ri_no_relax_retry = False\<rparr>"

definition demo_inputs :: fs where
  "demo_inputs = [(''/w'', FDir), (''/w/POSCAR'', FFile ''p''), (''/w/POTCAR'', FFile ''q'')]"

text \<open>The first attempt fails with a CONTCAR, the second converges.\<close>

definition demo_attempts :: relax_config where
  "demo_attempts = demo_relax\<lparr>rc_vasp := (\<lambda>n f.
     if n = 0 then \<lparr>at_polls = [], at_files = write_file f ''/w/01_relax/CONTCAR'' ''c'', at_returncode = 1\<rparr>
     else \<lparr>at_polls = [], at_files = write_file f ''/w/01_relax/OSZICAR'' ''1 F= -2'', at_returncode = 0\<rparr>)\<rparr>"

theorem reported_backups_are_gone_witness:
  "\<exists>f' d. relax_execute demo_tool_env demo_attempts None demo_relax_input demo_inputs = (f', Inr d)
     \<and> dget0 d ''relax_retry_backups'' = PList [PStr ''/w/01_relax/POSCAR.retry1.bak'']
     \<and> read_file f' ''/w/01_relax/POSCAR.retry1.bak'' = None"
proof -
  let ?r = "relax_execute demo_tool_env demo_attempts None demo_relax_input demo_inputs"
  have "(case ?r of (f, Inr d) \<Rightarrow> dget0 d ''_tool_source'' = PStr ''native_tool''
          \<and> dget0 d ''relax_retry_backups'' = PList [PStr ''/w/01_relax/POSCAR.retry1.bak''] | _ \<Rightarrow> False)"
    by code_simp
  then obtain f' d where r: "?r = (f', Inr d)" "dget0 d ''_tool_source'' = PStr ''native_tool''"
      "dget0 d ''relax_retry_backups'' = PList [PStr ''/w/01_relax/POSCAR.retry1.bak'']"
    by (auto split: prod.splits sum.splits)
  have "to_list (py_or (dget0 (ri_state_payload demo_relax_input) ''relax_retry_backups'') (PList [])) = Inr []" by code_simp
  with reported_backups_are_gone [OF r(1,2)] r show ?thesis by auto
qed

lemma run_vasp_io_Inr: "run_vasp_io te wd c f = (f', Inr ok) \<longleftrightarrow> run_vasp (te_process te f) wd c = (f', ok)"
  by (auto simp: run_vasp_io_def split: prod.splits)

text \<open>An SCF stage reported as completed by its own run is sound: the VASP process exited with zero, its
  OSZICAR (if any) ends with a converged line, the reported Fermi energy is the one read from the files,
  and apart from the unneeded files of the stage directory every file is as VASP left it.\<close>

theorem scf_success_sound:
  assumes "scf_execute te inputs f = (f', Inr d)" "dget0 d ''_tool_source'' = PStr ''native_tool''"
  shows "\<exists>f1 f2 e wd. wd = path_join (si_base_dir inputs) ''02_scf'' \<and> run_vasp (te_process te f1) wd True = (f2, True)
    \<and> ve_returncode (te_process te f1) = 0
    \<and> (\<forall>t. read_file f2 (path_join wd ''OSZICAR'') = Some t \<longrightarrow> oszicar_converged t)
    \<and> te_fermi_energy te f2 wd = Inr e \<and> dget0 d ''fermi_energy'' = PFloat e
    \<and> (\<forall>q. q \<notin> path_join wd ` set (pruned f2 wd scf_keep) \<longrightarrow> map_of f' q = map_of f2 q)"
proof -
  let ?wd = "path_join (si_base_dir inputs) ''02_scf''"
  from assms obtain g ws where "scf_native te inputs ?wd ws g = (f', Inr d)"
    by (auto simp: scf_execute_def Let_def io_bind_Inr dget0_def dget_def split: option.splits sum.splits if_splits)
  then obtain f1 ok f2 plan where run: "run_vasp (te_process te f1) ?wd True = (f2, ok)"
    and fin: "scf_finish te ?wd ws (planned_updates ''scf'' plan) ok f2 = (f', Inr d)"
    by (auto simp: scf_native_def Let_def io_bind_Inr run_vasp_io_Inr)
  have ok: "ok"
  proof (rule ccontr)
    assume "\<not> ok"
    with fin assms(2) show False
      by (auto simp: scf_finish_def io_bind_Inr dget0_updates) (simp add: dget0_def dget_def)
  qed
  with fin assms(2) obtain e where e: "te_fermi_energy te f2 ?wd = Inr e" "dget0 d ''fermi_energy'' = PFloat e"
      "f' = prune_dir_keep_files f2 ?wd scf_keep"
    by (auto simp: scf_finish_def io_bind_Inr dget0_updates split: sum.splits) (auto simp: dget0_def dget_def)
  have "ve_returncode (te_process te f1) = 0 \<and> (\<forall>t. read_file f2 (path_join ?wd ''OSZICAR'') = Some t \<longrightarrow> oszicar_converged t)"
    using run ok by (auto simp: run_vasp_def Let_def split: if_splits option.splits)
  with run ok e show ?thesis by (intro exI [of _ f1] exI [of _ f2] exI [of _ e] exI [of _ ?wd]) (simp add: map_of_prune)
qed

definition demo_scf_input :: ScfToolInput where
  "demo_scf_input = \<lparr>si_base_dir = ''/w'', si_poscar_path = ''/w/POSCAR'', si_potcar_path = ''/w/POTCAR'',
     si_material_name = ''m'', si_state_payload = []\<rparr>"

theorem scf_success_sound_witness:
  "\<exists>f1. ve_returncode (te_process demo_tool_env f1) = 0
     \<and> dget0 (case scf_execute demo_tool_env demo_scf_input demo_inputs of (f, Inr d) \<Rightarrow> d | _ \<Rightarrow> []) ''scf_completed'' = PBool True"
proof -
  let ?r = "scf_execute demo_tool_env demo_scf_input demo_inputs"
  have "(case ?r of (f, Inr d) \<Rightarrow> dget0 d ''_tool_source'' = PStr ''native_tool'' \<and> dget0 d ''scf_completed'' = PBool True | _ \<Rightarrow> False)"
    by code_simp
  then obtain f' d where r: "?r = (f', Inr d)" "dget0 d ''_tool_source'' = PStr ''native_tool''" "dget0 d ''scf_completed'' = PBool True"
    by (auto split: prod.splits sum.splits)
  with scf_success_sound [OF r(1,2)] show ?thesis by auto
qed

end
