(* ===== verification/Runtime_Nodes.thy ===== *)
theory Runtime_Nodes
  imports Messages Agent_Tools Checkpointing Validation Stage_Tools Human_Loop
begin

text \<open>
  The helpers of the graph nodes (first part of mobility_agent/graph/runtime_nodes.py).

  \<^item> Where a stage works and what it needs (\<open>stage_workdir\<close>, \<open>validate_stage_dependencies\<close>), how a
    failure is classified, what a tool returns as a result (\<open>normalize_tool_output\<close>), the dry run of a
    stage, the inputs of a tool and the state updates its result is translated to.
  \<^item> What the nodes write to the state: traces, diagnostics, records of tool calls, retry counts,
    the resume strategy, observations.
  \<^item> External events, the derived run status, the validation of a result and the quality grade.

  A node works on the dict of a loaded state; reads are those of \<open>State_Reads\<close>. Parameters are
  pydantic's coercion \<open>coerce\<close> and the clock \<open>e\<close>.
\<close>

section \<open>Stages\<close>

fun nested_value :: "py \<Rightarrow> string list \<Rightarrow> py" where
  "nested_value v [] = v"
| "nested_value (PDict d) (t # ts) = nested_value (dget0 d t) ts"
| "nested_value v (t # ts) = PNone"

definition nested_get :: "dict \<Rightarrow> string \<Rightarrow> py" where
  "nested_get payload path = nested_value (PDict payload) (split_str ''.'' path)"

definition is_missing :: "py \<Rightarrow> bool" where
  "is_missing v \<longleftrightarrow> v = PNone \<or> v = PStr [] \<or> v = PList [] \<or> v = PDict []"

definition stage_workdir :: "string \<Rightarrow> string \<Rightarrow> string" where
  "stage_workdir base stage =
     (if stage = ''relax'' then path_join base ''01_relax''
      else if stage = ''scf'' then path_join base ''02_scf''
      else if stage = ''band'' then path_join base ''03_band''
      else if stage = ''strain_loop'' then path_join base ''05_strain''
      else base)"

definition log_paths_for_stage :: "fs \<Rightarrow> string \<Rightarrow> string \<Rightarrow> string list" where
  "log_paths_for_stage f base stage =
     filter (path_exists f) [path_join (stage_workdir base stage) ''sout'', path_join base ''vasp_relax_retry.log'']"

definition validate_stage_dependencies :: "dict \<Rightarrow> string \<Rightarrow> unit res" where
  "validate_stage_dependencies st stage =
     bindR (get_stage_contract stage) (\<lambda>contract.
       let missing = filter (\<lambda>p. is_missing (nested_get st p)) (sc_required_inputs contract)
       in if missing = [] then Inr () else Inl (StageDependencyError (stage @ ''_missing_inputs:'' @ join '','' missing)))"

definition classify_failure :: "string \<Rightarrow> string" where
  "classify_failure error_summary =
     (let value = py_lower error_summary; kind = fst (classify_vasp_failure_text value)
      in if kind = ''runner_environment_failure'' \<or> kind = ''chgcar_compatibility_failure'' then kind
         else if contains value ''runner/environment failure'' \<or> contains value ''runner_environment_failure''
           then ''runner_environment_failure''
         else if contains value ''chgcar compatibility failure'' \<or> contains value ''chgcar_compatibility_failure''
           then ''chgcar_compatibility_failure''
         else if contains value ''zbrent'' then ''zbrent_fatal''
         else if contains value ''contcar'' \<and> contains value ''missing'' then ''missing_output''
         else if contains value ''nonconverged'' \<or> contains value ''not converged'' then ''nonconverged''
         else if contains value ''returncode'' then ''nonzero_exit''
         else if contains value ''missing_input'' then ''missing_input''
         else ''unknown_failure'')"

text \<open>\<open>type(exc).__name__\<close>.\<close>

fun exc_name :: "py_error \<Rightarrow> string" where
  "exc_name (KeyError s) = ''KeyError''"
| "exc_name (ValueError s) = ''ValueError''"
| "exc_name (TypeError s) = ''TypeError''"
| "exc_name (AttributeError s) = ''AttributeError''"
| "exc_name (IndexError s) = ''IndexError''"
| "exc_name (OverflowError s) = ''OverflowError''"
| "exc_name (RuntimeError s) = ''RuntimeError''"
| "exc_name (FileNotFoundError s) = ''FileNotFoundError''"
| "exc_name (OSError s) = ''OSError''"
| "exc_name (NotImplementedError s) = ''NotImplementedError''"
| "exc_name (ManualFixValidationError s) = ''ManualFixValidationError''"
| "exc_name (StageDependencyError s) = ''StageDependencyError''"
| "exc_name (ValidationError s) = ''ValidationError''"

section \<open>Results of tools\<close>

definition no_evidence :: ToolFailureEvidence where
  "no_evidence =
     \<lparr>ev_returncode = None, ev_stdout_path = None, ev_stderr_path = None, ev_log_paths = [], ev_parser_payload = [],
      ev_exception_type = None, ev_exception_message = None, ev_raw_payload = []\<rparr>"

definition plain_result :: "string \<Rightarrow> string \<Rightarrow> ToolExecutionResult" where
  "plain_result stage status =
     \<lparr>tr_stage = stage, tr_status = status, tr_error_summary = None, tr_warnings = [], tr_artifact_paths = [],
      tr_key_summary = [], tr_state_updates = [], tr_raw_evidence = no_evidence, tr_invocation_source = ''native_tool'',
      tr_duration_s = Fin 0\<rparr>"

definition payload_returncode :: "coercion \<Rightarrow> dict \<Rightarrow> int option res" where
  "payload_returncode coerce raw =
     bindR (if truthy (dget0 raw ''returncode'') then Inr (dget0 raw ''returncode'')
            else (case py_or (dget raw ''recovery_summary'' (PDict [])) (PDict []) of
                    PDict d \<Rightarrow> Inr (dget0 d ''returncode'') | _ \<Rightarrow> Inl (AttributeError ''get''))) (\<lambda>v.
     bindR (coerce TOptInt v) (\<lambda>c. Inr (case c of PInt i \<Rightarrow> Some i | _ \<Rightarrow> None)))"

definition normalize_tool_output ::
  "coercion \<Rightarrow> flt \<Rightarrow> fs \<Rightarrow> string \<Rightarrow> ToolOutput \<Rightarrow> string \<Rightarrow> ToolExecutionResult res" where
  "normalize_tool_output coerce duration f stage output workdir =
     (let artifact_paths = filter (\<lambda>p. snd p \<noteq> []) (to_artifact_paths output);
          raw = to_state_updates output;
          stdout_path = path_join (stage_workdir workdir stage) ''sout''
      in bindR (payload_returncode coerce raw) (\<lambda>returncode.
         bindR (mapR str_item (to_warnings output)) (\<lambda>warnings.
           Inr (normalize_result
             \<lparr>tr_stage = stage, tr_status = (if to_success output then ''success'' else ''failed''),
              tr_error_summary = to_error_summary output, tr_warnings = warnings, tr_artifact_paths = artifact_paths,
              tr_key_summary = to_key_summary output, tr_state_updates = raw,
              tr_raw_evidence = normalize_evidence
                \<lparr>ev_returncode = returncode,
                 ev_stdout_path = (if path_exists f stdout_path then Some stdout_path else None), ev_stderr_path = None,
                 ev_log_paths = dedupe (map snd artifact_paths @ log_paths_for_stage f workdir stage),
                 ev_parser_payload = to_key_summary output, ev_exception_type = None, ev_exception_message = None,
                 ev_raw_payload = raw\<rparr>,
              tr_invocation_source = py_str (py_or (dget0 raw ''_tool_source'') (PStr ''native_tool'')),
              tr_duration_s = duration\<rparr>))))"

definition exception_result :: "fs \<Rightarrow> string \<Rightarrow> string \<Rightarrow> py_error \<Rightarrow> ToolExecutionResult" where
  "exception_result f workdir stage exc =
     (plain_result stage ''failed'')
       \<lparr>tr_error_summary := Some (exc_text exc),
        tr_raw_evidence := normalize_evidence (no_evidence
          \<lparr>ev_exception_type := Some (exc_name exc), ev_exception_message := Some (exc_text exc),
           ev_log_paths := log_paths_for_stage f workdir stage, ev_raw_payload := [(''stage'', PStr stage)]\<rparr>)\<rparr>"

section \<open>The dry run\<close>

text \<open>A decimal literal of the source.\<close>

abbreviation dec :: "int \<Rightarrow> nat \<Rightarrow> py" where
  "dec m k \<equiv> PFloat (Fin (rat_of_int m / 10 ^ k))"

abbreviation decs :: "(int \<times> nat) list \<Rightarrow> py" where
  "decs xs \<equiv> PList (map (\<lambda>(m, k). dec m k) xs)"

definition dry_carrier :: "int \<Rightarrow> int \<Rightarrow> int \<Rightarrow> int \<Rightarrow> py" where
  "dry_carrier mobility e1_tenths c2d e1_fit =
     PDict [(''mobility_cm2_Vs'', dec mobility 0), (''E1_eV'', dec e1_tenths 1), (''C2D_J_m2'', dec c2d 0),
            (''E1_fit_R2'', dec e1_fit 2), (''C2D_fit_R2'', dec 98 2)]"

definition dry_strain_point :: "string \<Rightarrow> string \<Rightarrow> rat \<times> string \<Rightarrow> py" where
  "dry_strain_point workdir direction p =
     PDict [(''direction'', PStr direction), (''strain'', PFloat (Fin (fst p))),
            (''total_energy'', PFloat (Fin (- 20 + fst p * fst p))), (''e_vbm'', PFloat (Fin (- 5 + 2 / 10 * fst p))),
            (''e_cbm'', PFloat (Fin (- 35 / 10 + 15 / 100 * fst p))), (''e_vacuum'', dec 0 0),
            (''folder'', PStr (path_join (path_join (path_join workdir ''05_strain'') direction) (snd p))),
            (''completed'', PBool True)]"

text \<open>The strains of the dry run with the names of their folders, \<open>strain_{strain:+.4f}\<close>.\<close>

definition dry_strains :: "(rat \<times> string) list" where
  "dry_strains =
     [(- 2 / 100, ''strain_-0.0200''), (- 1 / 100, ''strain_-0.0100''), (0, ''strain_+0.0000''),
      (1 / 100, ''strain_+0.0100''), (2 / 100, ''strain_+0.0200'')]"

definition dry_run_updates :: "dict \<Rightarrow> string \<Rightarrow> string \<Rightarrow> dict" where
  "dry_run_updates st workdir stage =
     (if stage = ''relax'' then
        [(''relaxed_poscar'', fld st ''material'' ''poscar_path''),
         (''reciprocal_lattice'', PList [decs [(1, 0), (0, 0), (0, 0)], decs [(0, 0), (1, 0), (0, 0)], decs [(0, 0), (0, 0), (1, 1)]]),
         (''recovery_summary'', PDict [])]
      else if stage = ''scf'' then [(''fermi_energy'', dec 5 1)]
      else if stage = ''band'' then
        [(''vbm_energy'', dec (- 50) 1), (''cbm_energy'', dec (- 35) 1), (''vbm_kpoint'', decs [(0, 0), (0, 0), (0, 0)]),
         (''cbm_kpoint'', decs [(5, 1), (0, 0), (0, 0)]), (''vbm_band_index'', PInt 5), (''cbm_band_index'', PInt 6),
         (''vbm_spin'', PInt 0), (''cbm_spin'', PInt 0)]
      else if stage = ''effective_mass'' then
        [(''electron_mass_x'', dec 35 2), (''electron_mass_y'', dec 42 2), (''electron_mass_dos'', dec 38 2),
         (''hole_mass_x'', dec 55 2), (''hole_mass_y'', dec 61 2), (''hole_mass_dos'', dec 58 2)]
      else if stage = ''strain_loop'' then
        [(''strain_data'', PList (concat (map (\<lambda>d. map (dry_strain_point workdir d) dry_strains) [''x'', ''y'']))),
         (''strain_summary'', PDict [(''completed_points'', PInt 10), (''failed_points'', PInt 0), (''dry_run'', PBool True)])]
      else if stage = ''mobility'' then
        [(''results'', PDict [(''results_by_direction'', PDict
            [(''x'', PDict [(''electron'', dry_carrier 1200 11 90 97), (''hole'', dry_carrier 800 13 90 96),
                            (''elastic_modulus_C2D_J_m2'', dec 90 0), (''n_points'', PInt 5)]),
             (''y'', PDict [(''electron'', dry_carrier 900 12 85 97), (''hole'', dry_carrier 700 14 85 96),
                            (''elastic_modulus_C2D_J_m2'', dec 85 0), (''n_points'', PInt 5)])])]),
         (''mobility_summary'', PDict [(''status_label'', PStr ''completed''), (''direction_count'', PInt 2), (''dry_run'', PBool True)]),
         (''fit_diagnostics'', PDict
            [(''fit_r2_min'', dec 96 2), (''energy_fit_r2_min'', dec 98 2), (''edge_fit_r2_min'', dec 96 2),
             (''effective_fit_quality'', dec 96 2), (''e1_sigma_max'', dec 1 1), (''c2d_sigma_max'', dec 1 0)])]
      else [])"

definition dry_run_stage :: "fs \<Rightarrow> string list \<Rightarrow> string \<Rightarrow> dict \<Rightarrow> ToolExecutionResult" where
  "dry_run_stage f fail_stages stage st =
     (let workdir = fld_text st ''execution'' ''workdir''
      in if stage \<in> set fail_stages then
           (plain_result stage ''failed'')
             \<lparr>tr_error_summary := Some (''dry_run_injected_failure:'' @ stage), tr_warnings := [''dry_run_mode''],
              tr_raw_evidence := normalize_evidence (no_evidence
                \<lparr>ev_log_paths := log_paths_for_stage f workdir stage,
                 ev_raw_payload := [(''dry_run'', PBool True), (''injected_failure'', PStr stage)]\<rparr>)\<rparr>
         else
           (plain_result stage ''success'')
             \<lparr>tr_warnings := [''dry_run_mode''], tr_key_summary := [(''dry_run'', PBool True)],
              tr_state_updates := dry_run_updates st workdir stage,
              tr_raw_evidence := no_evidence\<lparr>ev_raw_payload := [(''dry_run'', PBool True)]\<rparr>,
              tr_invocation_source := ''dry_run''\<rparr>)"

section \<open>Inputs of the tools\<close>

text \<open>What the constructor of a tool's input model receives, in its order; the checks of that model are
part of the tool.\<close>

definition common_inputs :: "dict \<Rightarrow> dict \<Rightarrow> dict" where
  "common_inputs payload st =
     [(''material_id'', fld st ''material'' ''material_id''), (''base_dir'', fld st ''execution'' ''workdir''),
      (''state_payload'', PDict payload)]"

definition structure_path :: "dict \<Rightarrow> py" where
  "structure_path st =
     PStr (py_str (py_or (fld st ''physics_results'' ''relaxed_structure_path'') (fld st ''material'' ''poscar_path'')))"

definition potcar_of :: "dict \<Rightarrow> py" where
  "potcar_of st = PStr (py_str (fld st ''material'' ''potcar_path''))"

definition copied_results :: "dict \<Rightarrow> string list \<Rightarrow> dict" where
  "copied_results st ks = map (\<lambda>k. (k, fld st ''physics_results'' k)) ks"

definition mass_keys :: "string list" where
  "mass_keys = [''electron_mass_x'', ''electron_mass_y'', ''electron_mass_dos'', ''hole_mass_x'', ''hole_mass_y'', ''hole_mass_dos'']"

definition build_tool_inputs :: "coercion \<Rightarrow> env \<Rightarrow> string \<Rightarrow> dict \<Rightarrow> dict res" where
  "build_tool_inputs coerce e stage payload =
     bindR (from_dict coerce e payload) (\<lambda>st.
     let common = common_inputs payload st; workdir = fld_text st ''execution'' ''workdir'' in
     if stage = ''relax'' then
       Inr (common @ [(''poscar_path'', PStr (py_str (fld st ''material'' ''poscar_path''))), (''potcar_path'', potcar_of st),
                      (''recovery_param_updates'', PDict (fld_dict st ''execution'' ''pending_parameter_updates''))])
     else if stage = ''scf'' then
       Inr (common @ [(''poscar_path'', structure_path st), (''potcar_path'', potcar_of st),
                      (''material_name'', fld st ''material'' ''material_id'')])
     else if stage = ''band'' then
       Inr (common @ [(''poscar_path'', structure_path st), (''potcar_path'', potcar_of st),
                      (''chgcar_path'', py_or (dget0 (fld_dict st ''execution'' ''artifact_paths'') ''CHGCAR'')
                         (PStr (path_join (path_join workdir ''02_scf'') ''CHGCAR'')))]
              @ copied_results st [''fermi_energy''])
     else if stage = ''effective_mass'' then
       Inr (common @ [(''poscar_path'', structure_path st), (''potcar_path'', potcar_of st)]
              @ copied_results st [''reciprocal_lattice'', ''vbm_kpoint'', ''cbm_kpoint'']
              @ map (\<lambda>k. (k, PInt (fld_int st ''physics_results'' k))) [''vbm_band_index'', ''cbm_band_index'']
              @ copied_results st [''vbm_spin'', ''cbm_spin'', ''fermi_energy''])
     else if stage = ''strain_loop'' then
       bindR (get_list (fld_dict st ''diagnostics'' ''recovery_summary'') ''relax_retry_backups'') (\<lambda>backups.
         Inr (common @ [(''relaxed_poscar'', structure_path st), (''potcar_path'', potcar_of st),
                        (''strain_plan_by_direction'', fld st ''physics_results'' ''strain_plan_by_direction''),
                        (''relax_retry_backups'', PList backups)]))
     else if stage = ''mobility'' then
       bindR (get_dict (fld_dict st ''physics_results'' ''effective_mass_summary'') ''mass_diagnostics'') (\<lambda>diagnostics.
         Inr (common @ copied_results st [''strain_data'']
                @ map (\<lambda>k. (k, dget0 (fld_dict st ''physics_results'' ''masses'') k)) mass_keys
                @ [(''mass_diagnostics'', PDict diagnostics)]))
     else Inl (KeyError (''unknown_stage:'' @ stage)))"

section \<open>State updates of a result\<close>

definition service_updates :: "dict \<Rightarrow> dict res" where
  "service_updates raw =
     bindR (get_dict raw ''services'') (\<lambda>services.
     bindR (if truthy (dget0 services ''parameter_plans'') then dicts services [(''parameter_plans'', ''parameter_plans'')] else Inr []) (\<lambda>plans.
     bindR (if truthy (dget0 services ''retrieval_trace'') then lists services [(''retrieval_trace'', ''retrieval_trace'')] else Inr []) (\<lambda>trace.
       Inr (plans @ trace))))"

definition with_services :: "dict \<Rightarrow> dict \<Rightarrow> dict" where
  "with_services services updates = updates @ on (services \<noteq> []) (''services'', PDict services)"

definition direction_results :: "string \<times> py \<Rightarrow> (string \<times> py \<times> dict \<times> dict) res" where
  "direction_results p =
     (case snd p of
        PDict data \<Rightarrow>
          bindR (mapR (\<lambda>carrier. bindR (get_dict data carrier) (\<lambda>d. Inr (carrier, d))) [''electron'', ''hole'']) (\<lambda>carriers.
            let found = filter (\<lambda>c. snd c \<noteq> []) carriers
            in Inr (fst p, dget0 data ''elastic_modulus_C2D_J_m2'', map (\<lambda>(c, d). (c, dget0 d ''mobility_cm2_Vs'')) found,
                    map (\<lambda>(c, d). (c, dget0 d ''E1_eV'')) found))
      | _ \<Rightarrow> Inl (AttributeError ''get''))"

definition translate_mobility :: "dict \<Rightarrow> dict res" where
  "translate_mobility raw =
     bindR (get_dict raw ''results'') (\<lambda>results.
     bindR (get_dict results ''results_by_direction'') (\<lambda>by_direction.
     bindR (mapR direction_results by_direction) (\<lambda>rows.
     bindR (get_dict raw ''mobility_summary'') (\<lambda>summary.
     bindR (get_dict raw ''fit_diagnostics'') (\<lambda>fit. Inr
       [(''physics_results'', PDict
           [(''results'', PDict results), (''mobility'', PDict (map (\<lambda>(d, _, m, _). (d, PDict m)) rows)),
            (''E1'', PDict (map (\<lambda>(d, _, _, e1). (d, PDict e1)) rows)), (''C2D'', PDict (map (\<lambda>(d, c, _). (d, c)) rows)),
            (''mobility_summary'', PDict summary)]),
        (''diagnostics'', PDict [(''fit_diagnostics'', PDict fit)])])))))"

definition translate_tool_updates :: "string \<Rightarrow> ToolExecutionResult \<Rightarrow> dict res" where
  "translate_tool_updates stage r =
     (let raw = tr_state_updates r; summary = PDict (tr_key_summary r); copied = map (\<lambda>k. (k, dget0 raw k)) in
      bindR (service_updates raw) (\<lambda>services.
      if stage = ''relax'' then
        bindR (lists raw [(''reciprocal_lattice'', ''reciprocal_lattice'')]) (\<lambda>lattice.
        bindR (dicts raw [(''recovery_summary'', ''recovery_summary'')]) (\<lambda>recovery.
          Inr (with_services services
            [(''physics_results'', PDict ([(''relaxed_structure_path'', dget0 raw ''relaxed_poscar'')] @ lattice @ [(''relax_summary'', summary)])),
             (''diagnostics'', PDict recovery),
             (''execution'', PDict [(''pending_parameter_updates'', PDict [])])])))
      else if stage = ''scf'' then
        Inr (with_services services
          [(''physics_results'', PDict [(''fermi_energy'', dget0 raw ''fermi_energy''), (''scf_summary'', summary)])])
      else if stage = ''band'' then
        bindR (lists raw [(''vbm_kpoint'', ''vbm_kpoint''), (''cbm_kpoint'', ''cbm_kpoint'')]) (\<lambda>kpoints.
          Inr (with_services services
            [(''physics_results'', PDict ([(''band_summary'', summary)] @ copied [''vbm_energy'', ''cbm_energy''] @ kpoints
                @ copied [''vbm_band_index'', ''cbm_band_index'', ''vbm_spin'', ''cbm_spin'']))]))
      else if stage = ''effective_mass'' then
        Inr [(''physics_results'', PDict [(''effective_mass_summary'', summary), (''masses'', PDict (copied mass_keys))])]
      else if stage = ''strain_loop'' then
        bindR (to_dict (py_or (py_or (dget0 raw ''strain_summary'') summary) (PDict []))) (\<lambda>strain_summary.
        bindR (get_list raw ''strain_data'') (\<lambda>strain_data.
          Inr (with_services services
            [(''physics_results'', PDict [(''strain_data'', PList strain_data), (''strain_data_summary'', PDict strain_summary)]),
             (''diagnostics'', PDict [(''strain_summary'', PDict strain_summary)])])))
      else if stage = ''mobility'' then
        bindR (translate_mobility raw) (\<lambda>updates. Inr (with_services services updates))
      else Inr []))"

section \<open>Preparing a run\<close>

text \<open>\<open>s.split()\<close>: the words between white space.\<close>

fun words_acc :: "string \<Rightarrow> string \<Rightarrow> string list" where
  "words_acc acc [] = on (acc \<noteq> []) (rev acc)"
| "words_acc acc (c # s) =
     (if is_space c then on (acc \<noteq> []) (rev acc) @ words_acc [] s else words_acc (c # acc) s)"

definition split_words :: "string \<Rightarrow> string list" where
  "split_words s = words_acc [] s"

definition read_float :: "string \<Rightarrow> flt res" where
  "read_float w = to_float (PStr w)"

definition read_count :: "string \<Rightarrow> int res" where
  "read_count w = to_int (PStr w)"

definition counts_like :: "string \<Rightarrow> bool" where
  "counts_like w = (let digits = filter (\<lambda>c. c \<noteq> CHR ''-'') w in digits \<noteq> [] \<and> list_all is_digit digits)"

definition scaled_row :: "flt \<Rightarrow> string \<Rightarrow> py res" where
  "scaled_row scale line =
     bindR (mapR read_float (take 3 (split_words line))) (\<lambda>vs. Inr (PList (map (\<lambda>v. PFloat (flt_mul scale v)) vs)))"

definition summarize_poscar :: "fs \<Rightarrow> string \<Rightarrow> dict res" where
  "summarize_poscar f path =
     (let head = (\<lambda>exists atoms. [(''path'', PStr path), (''exists'', PBool exists), (''atom_count'', PInt atoms)]) in
      if path = [] \<or> \<not> path_exists f path then Inr (head False 0)
      else case read_file f path of
        None \<Rightarrow> Inl (OSError path)
      | Some text \<Rightarrow>
          (let ls = filter (\<lambda>l. l \<noteq> []) (map py_strip (text_lines text)) in
           if length ls < 8 then Inr (head True 0 @ [(''warning'', PStr ''poscar_too_short'')])
           else
             bindR (read_float (hd (split_words (ls ! 1)))) (\<lambda>scale.
             bindR (mapR (scaled_row scale) [ls ! 2, ls ! 3, ls ! 4]) (\<lambda>lattice.
             bindR (mapR read_count (split_words (if list_all counts_like (split_words (ls ! 6)) then ls ! 6 else ls ! 7))) (\<lambda>counts.
               Inr (head True (sum_list counts)
                    @ [(''species'', str_list (split_words (ls ! 5))), (''counts'', PList (map PInt counts)),
                       (''lattice'', PList lattice)]))))))"

definition prepare_error :: "fs \<Rightarrow> py \<Rightarrow> py \<Rightarrow> string option" where
  "prepare_error f poscar potcar =
     (if \<not> truthy poscar \<or> \<not> path_exists f (py_str poscar) then Some ''prepare_missing_poscar''
      else if \<not> truthy potcar \<or> \<not> path_exists f (py_str potcar) then Some ''prepare_missing_potcar''
      else None)"

definition prepare_capability :: "coercion \<Rightarrow> env \<Rightarrow> dict \<Rightarrow> ToolExecutionResult io" where
  "prepare_capability coerce e payload =
     io_bind (io_lift (from_dict coerce e payload)) (\<lambda>st.
     io_bind (io_change (\<lambda>f. makedirs f (fld_text st ''execution'' ''workdir''))) (\<lambda>_.
     (let poscar = fld st ''material'' ''poscar_path''; potcar = fld st ''material'' ''potcar_path'' in
      io_bind (\<lambda>f. (f, summarize_poscar f (py_str (py_or poscar (PStr []))))) (\<lambda>summary.
      io_bind (io_read (\<lambda>f. prepare_error f poscar potcar)) (\<lambda>error.
        io_return ((plain_result ''prepare'' (if error = None then ''success'' else ''failed''))
          \<lparr>tr_error_summary := error,
           tr_warnings := on (truthy (dget0 summary ''warning'')) (py_str (dget0 summary ''warning'')),
           tr_key_summary := [(''structure_summary'', PDict summary)],
           tr_state_updates :=
             [(''material'', PDict [(''structure_summary'', PDict summary), (''atom_count'', PInt (int_or0 (dget0 summary ''atom_count''))),
                                    (''preflight_summary'', PDict summary)]),
              (''physics_results'', PDict [(''prepare_summary'', PDict summary)]),
              (''execution'', PDict [(''workdir_inputs_ready'', PBool (error = None))])],
           tr_raw_evidence := no_evidence\<lparr>ev_parser_payload := [(''structure_summary'', PDict summary)],
             ev_raw_payload := [(''poscar_path'', poscar), (''potcar_path'', potcar)]\<rparr>\<rparr>))))))"

section \<open>What the nodes write\<close>

definition append_decision_trace :: "dict \<Rightarrow> dict \<Rightarrow> dict" where
  "append_decision_trace record st =
     extend_fld ''agent'' ''agent_decisions'' [PDict record] (extend_fld ''agent'' ''decision_trace'' [PDict record] st)"

definition append_framework_diagnostic :: "env \<Rightarrow> string \<Rightarrow> dict \<Rightarrow> dict \<Rightarrow> dict" where
  "append_framework_diagnostic e code detail st =
     extend_fld ''services'' ''framework_diagnostics''
       [PDict [(''code'', PStr code), (''detail'', PDict detail), (''timestamp'', PStr (now e))]] st"

definition record_agent_tool_call :: "string \<Rightarrow> string \<Rightarrow> dict \<Rightarrow> dict \<Rightarrow> dict \<Rightarrow> dict" where
  "record_agent_tool_call tool_name phase payload r st =
     (let entry = PDict [(''tool_name'', PStr tool_name), (''phase'', PStr phase), (''payload'', PDict payload), (''result'', PDict r),
                         (''source'', PStr ''agent_tool'')]
      in extend_fld ''execution'' ''tool_trace'' [entry] (extend_fld ''execution'' ''tool_invocations'' [entry] st))"

definition sync_retry_counts :: "string \<Rightarrow> dict \<Rightarrow> dict" where
  "sync_retry_counts capability st =
     (let counts = fld_dict st ''execution'' ''retry_counts'';
          retries = PDict (dset counts capability (PInt (int_or0 (dget counts capability (PInt 0)) + 1)))
      in set_fld ''workflow'' ''retry_counts'' retries (set_fld ''execution'' ''retry_counts'' retries st))"

definition apply_resume_strategy :: "string \<Rightarrow> string \<Rightarrow> dict \<Rightarrow> dict" where
  "apply_resume_strategy capability reason st =
     extend_fld ''diagnostics'' ''recovery_history''
       [PDict [(''action'', PStr ''resume''), (''target_stage'', PStr capability), (''reason'', PStr reason)]]
       (set_fld ''workflow'' ''next_action'' (PStr capability)
         (set_fld ''workflow'' ''current_stage'' (PStr capability)
           (put_board (reset_from_capability (board_of st) capability) st)))"

section \<open>Observations\<close>

text \<open>What is reported of an action; the fields of a tool result, when there is one.\<close>

record report =
  ro_status :: string
  ro_error :: "string option"
  ro_artifacts :: "(string \<times> string) list"
  ro_summary :: dict
  ro_evidence :: dict
  ro_confidence :: flt

definition reported :: "string \<Rightarrow> report" where
  "reported status =
     \<lparr>ro_status = status, ro_error = None, ro_artifacts = [], ro_summary = [], ro_evidence = [], ro_confidence = Fin (9 / 10)\<rparr>"

definition report_of_result :: "ToolExecutionResult \<Rightarrow> report" where
  "report_of_result r =
     (reported (tr_status r))\<lparr>ro_error := tr_error_summary r, ro_artifacts := tr_artifact_paths r,
       ro_summary := tr_key_summary r, ro_evidence := entries (dump_evidence (tr_raw_evidence r))\<rparr>"

definition build_execution_observation ::
  "coercion \<Rightarrow> env \<Rightarrow> dict \<Rightarrow> int \<Rightarrow> string \<Rightarrow> string option \<Rightarrow> report \<Rightarrow> dict res" where
  "build_execution_observation coerce e st round_id action_family target r =
     construct coerce (ExecutionObservation e)
       [(''agent_name'', PStr ''executor''), (''round_id'', PInt round_id), (''target_task_id'', PStr (fld_text st ''task'' ''task_id'')),
        (''action_family'', PStr action_family), (''target_capability'', opt_str target), (''status'', PStr (ro_status r)),
        (''error_summary'', opt_str (ro_error r)), (''artifact_paths'', PDict (str_dict (ro_artifacts r))),
        (''result_summary'', PDict (ro_summary r)), (''raw_evidence'', PDict (ro_evidence r)),
        (''content'', PDict [(''current_stage'', fld st ''workflow'' ''current_stage'')]),
        (''confidence'', PFloat (ro_confidence r))]"

section \<open>Events from outside\<close>

definition text_option :: "py \<Rightarrow> string option" where
  "text_option v = (case v of PStr s \<Rightarrow> Some s | _ \<Rightarrow> None)"

definition event_members :: "env \<Rightarrow> fields" where
  "event_members e =
     [(''event_id'', TStr, PStr []), (''event_type'', TStr, PStr []), (''thread_id'', TOptStr, PNone), (''run_id'', TOptStr, PNone),
      (''job_id'', TOptStr, PNone), (''target_capability'', TOptStr, PNone), (''action_family'', TOptStr, PNone),
      (''timestamp'', TStr, PStr (now e)), (''payload'', TDict, PDict []), (''result_summary'', TDict, PDict []),
      (''error_summary'', TOptStr, PNone), (''artifact_paths'', TDictStr, PDict []), (''provenance'', TStr, PStr ''external''),
      (''status'', TOptStr, PNone)]"

definition read_flag :: "coercion \<Rightarrow> dict \<Rightarrow> string \<Rightarrow> bool option res" where
  "read_flag coerce d k =
     (if dget0 d k = PNone then Inr None else bindR (coerce TBool (dget0 d k)) (\<lambda>b. Inr (Some (truthy b))))"

definition read_event :: "coercion \<Rightarrow> env \<Rightarrow> dict \<Rightarrow> ExternalEventRecord res" where
  "read_event coerce e d =
     (if map_of d ''event_type'' = None then Inl (ValidationError ''missing'')
      else
        bindR (validate_fields coerce (event_members e) d) (\<lambda>v.
        bindR (read_flag coerce d ''retryable'') (\<lambda>retryable.
        bindR (read_flag coerce d ''terminal'') (\<lambda>terminal.
        let t = get_str v; opt = (\<lambda>k. text_option (dget0 v k)) in
          Inr (normalize_event
            \<lparr>xe_event_id = t ''event_id'', xe_event_type = t ''event_type'', xe_thread_id = opt ''thread_id'', xe_run_id = opt ''run_id'',
             xe_job_id = opt ''job_id'', xe_target_capability = opt ''target_capability'', xe_action_family = opt ''action_family'',
             xe_timestamp = t ''timestamp'', xe_payload = sub_dict v ''payload'', xe_result_summary = sub_dict v ''result_summary'',
             xe_error_summary = opt ''error_summary'',
             xe_artifact_paths = map (\<lambda>(k, p). (k, py_str p)) (sub_dict v ''artifact_paths''),
             xe_provenance = t ''provenance'', xe_status = opt ''status'', xe_retryable = retryable, xe_terminal = terminal\<rparr>)))))"

definition opt_bool :: "bool option \<Rightarrow> py" where
  "opt_bool b = (case b of None \<Rightarrow> PNone | Some x \<Rightarrow> PBool x)"

definition dump_event :: "ExternalEventRecord \<Rightarrow> dict" where
  "dump_event v =
     [(''event_id'', PStr (xe_event_id v)), (''event_type'', PStr (xe_event_type v)), (''thread_id'', opt_str (xe_thread_id v)),
      (''run_id'', opt_str (xe_run_id v)), (''job_id'', opt_str (xe_job_id v)), (''target_capability'', opt_str (xe_target_capability v)),
      (''action_family'', opt_str (xe_action_family v)), (''timestamp'', PStr (xe_timestamp v)), (''payload'', PDict (xe_payload v)),
      (''result_summary'', PDict (xe_result_summary v)), (''error_summary'', opt_str (xe_error_summary v)),
      (''artifact_paths'', PDict (str_dict (xe_artifact_paths v))), (''provenance'', PStr (xe_provenance v)),
      (''status'', opt_str (xe_status v)), (''retryable'', opt_bool (xe_retryable v)), (''terminal'', opt_bool (xe_terminal v))]"

definition event_status :: "ExternalEventRecord \<Rightarrow> string" where
  "event_status v = str_or (xe_status v) (xe_event_type v)"

definition event_succeeded :: "ExternalEventRecord \<Rightarrow> bool" where
  "event_succeeded v \<longleftrightarrow>
     event_status v \<in> {''completed'', ''success'', ''job_completed'', ''resume_requested'', ''manual_override''}"

definition event_target :: "dict \<Rightarrow> ExternalEventRecord \<Rightarrow> string option" where
  "event_target st v =
     some_text (py_str (py_or (opt_str (xe_target_capability v))
       (py_or (dget0 (fld_dict st ''execution'' ''resume_markers'') ''awaiting_capability'') (PStr []))))"

definition job_matches :: "ExternalEventRecord \<Rightarrow> py \<Rightarrow> bool" where
  "job_matches v job \<longleftrightarrow>
     (case job of PDict d \<Rightarrow> str_or (xe_job_id v) [] \<noteq> [] \<and> get_str d ''job_id'' = str_or (xe_job_id v) [] | _ \<Rightarrow> False)"

definition updated_job :: "env \<Rightarrow> ExternalEventRecord \<Rightarrow> py \<Rightarrow> py" where
  "updated_job e v job =
     (if job_matches v job then
        PDict (dmerge (entries job)
          [(''status'', PStr (event_status v)), (''last_event_id'', PStr (xe_event_id v)),
           (''last_event'', PDict (dump_event v)), (''updated_at'', PStr (now e))])
      else job)"

text \<open>Taking the event off the queue and into the history.\<close>

definition receive_event :: "env \<Rightarrow> ExternalEventRecord \<Rightarrow> py list \<Rightarrow> dict \<Rightarrow> dict" where
  "receive_event e v rest st =
     (let s1 = extend_fld ''execution'' ''event_history'' [PDict (dump_event v)]
                 (set_fld ''execution'' ''latest_event'' (PDict (dump_event v))
                   (set_fld ''execution'' ''pending_events'' (PList rest) st));
          s2 = (if xe_event_id v \<noteq> [] then extend_fld ''execution'' ''consumed_event_ids'' [PStr (xe_event_id v)] s1 else s1)
      in set_fld ''execution'' ''external_jobs'' (PList (map (updated_job e v) (fld_list s2 ''execution'' ''external_jobs''))) s2)"

definition stale_event :: "dict \<Rightarrow> ExternalEventRecord \<Rightarrow> bool" where
  "stale_event st v \<longleftrightarrow>
     str_or (xe_job_id v) [] \<noteq> []
     \<and> xe_event_type v \<in> {''job_completed'', ''job_failed'', ''job_timeout'', ''artifact_missing''}
     \<and> \<not> list_ex (job_matches v) (fld_list st ''execution'' ''external_jobs'')"

definition terminate_with :: "string \<Rightarrow> string \<Rightarrow> dict \<Rightarrow> dict" where
  "terminate_with status reason st =
     set_fld ''workflow'' ''termination_reason'' (PStr reason)
       (set_fld ''workflow'' ''run_status'' (PStr status)
         (set_fld ''services'' ''termination_requested'' (PBool True) st))"

definition manual_override :: "string option \<Rightarrow> dict \<Rightarrow> dict \<Rightarrow> dict" where
  "manual_override target payload st0 =
     (let action = py_str (py_or (py_or (dget0 payload ''action'') (dget0 payload ''decision'')) (PStr ''continue''));
          st = set_fld ''services'' ''latest_human_decision'' (PDict payload) st0
      in if action = ''skip_material'' then terminate_with ''skipped'' ''manual_override:skip_material'' st
         else if action = ''abort_task'' then terminate_with ''aborted'' ''manual_override:abort_task'' st
         else
           (let stage = py_str (py_or (dget0 payload ''resume_stage'') (PStr (str_or target [])));
                st1 = (if stage \<noteq> [] \<and> stage \<in> set capability_sequence then apply_resume_strategy stage ''manual_override'' st else st)
            in set_fld ''workflow'' ''run_status'' (PStr ''running'') st1))"

definition known_capability :: "string option \<Rightarrow> bool" where
  "known_capability target \<longleftrightarrow> (case target of None \<Rightarrow> False | Some c \<Rightarrow> c \<in> set capability_sequence)"

definition event_failure :: "ExternalEventRecord \<Rightarrow> string" where
  "event_failure v = str_or (xe_error_summary v) (event_status v)"

definition job_failed :: "ExternalEventRecord \<Rightarrow> string option \<Rightarrow> dict \<Rightarrow> dict" where
  "job_failed v target st =
     (let s1 = (if known_capability target then put_board (mark_task_blocked (board_of st) (the target) (event_failure v)) st else st)
      in set_fld ''diagnostics'' ''last_error'' (PStr (event_failure v))
           (set_fld ''workflow'' ''run_status'' (PStr ''needs_recovery'') s1))"

definition job_done :: "coercion \<Rightarrow> env \<Rightarrow> string option \<Rightarrow> dict \<Rightarrow> dict res" where
  "job_done coerce e target st =
     (let s1 = (if known_capability target then put_board (mark_task_completed (board_of st) (the target)) st else st)
      in clear_resolved_error_state coerce e (set_fld ''workflow'' ''run_status'' (PStr ''running'') s1) target)"

definition event_report :: "ExternalEventRecord \<Rightarrow> report" where
  "event_report v =
     (reported (if event_succeeded v then ''success'' else ''failed''))
       \<lparr>ro_summary := xe_result_summary v, ro_evidence := [(''external_event'', PDict (dump_event v))],
        ro_error := some_text (str_or (xe_error_summary v) []), ro_artifacts := filter (\<lambda>p. snd p \<noteq> []) (xe_artifact_paths v),
        ro_confidence := Fin (88 / 100)\<rparr>"

definition act_on_event :: "coercion \<Rightarrow> env \<Rightarrow> ExternalEventRecord \<Rightarrow> string option \<Rightarrow> dict \<Rightarrow> dict res" where
  "act_on_event coerce e v target st =
     (if xe_event_type v = ''manual_override'' then Inr (manual_override target (xe_payload v) st)
      else if xe_event_type v = ''resume_requested'' then Inr (set_fld ''workflow'' ''run_status'' (PStr ''running'') st)
      else if \<not> event_succeeded v then Inr (job_failed v target st)
      else job_done coerce e target st)"

definition process_event :: "coercion \<Rightarrow> env \<Rightarrow> ExternalEventRecord \<Rightarrow> dict \<Rightarrow> dict res" where
  "process_event coerce e v st =
     (let target = event_target st v; s1 = set_fld ''execution'' ''resume_markers'' (PDict []) (set_fld ''workflow'' ''wait_reason'' PNone st)
      in bindR (build_execution_observation coerce e s1 (fld_int s1 ''deliberation'' ''round_index'')
                  (str_or (xe_action_family v) ''run_capability'') target (event_report v)) (\<lambda>observation.
         bindR (act_on_event coerce e v target
                  (set_fld ''execution'' ''latest_execution_observation'' (PDict observation) s1)) (\<lambda>s2.
           Inr (append_framework_diagnostic e ''external_event_consumed''
             [(''event_id'', PStr (xe_event_id v)), (''event_type'', PStr (xe_event_type v)), (''job_id'', PStr (str_or (xe_job_id v) [])),
              (''status'', PStr (event_status v)), (''target_capability'', opt_str target)] s2))))"

definition consume_pending_external_event :: "coercion \<Rightarrow> env \<Rightarrow> dict \<Rightarrow> dict res" where
  "consume_pending_external_event coerce e st =
     (case fld_list st ''execution'' ''pending_events'' of
        [] \<Rightarrow> Inr st
      | raw # rest \<Rightarrow>
          bindR (bindR (to_dict (py_or raw (PDict []))) (read_event coerce e)) (\<lambda>event.
          let v = normalize_external_event event (Some (fld_text st ''execution'' ''thread_id'')) (Some (fld_text st ''task'' ''task_id''));
              s1 = receive_event e v rest st
          in if stale_event st v then
               Inr (append_framework_diagnostic e ''stale_external_event_ignored''
                 [(''event_id'', PStr (xe_event_id v)), (''job_id'', PStr (str_or (xe_job_id v) [])), (''event_type'', PStr (xe_event_type v))]
                 (set_fld ''workflow'' ''run_status'' (PStr ''waiting_external'') s1))
             else process_event coerce e v s1))"

section \<open>The run status\<close>

definition derive_run_status :: "dict \<Rightarrow> string \<times> string option" where
  "derive_run_status st =
     (let current = str_default (sec st ''workflow'') ''run_status'' ''running'';
          latest = get_str (fld_dict st ''execution'' ''latest_execution_observation'') ''status'';
          reason = fld_text st ''workflow'' ''wait_reason''; board = board_of st
      in if truthy (fld st ''services'' ''pending_human_payload'') \<and> \<not> truthy (fld st ''services'' ''latest_human_decision'')
           then (''needs_human'', Some ''awaiting_human_decision'')
         else if current \<in> {''completed'', ''failed'', ''aborted'', ''skipped''} then (current, some_text reason)
         else if current = ''waiting_external'' then
           (if fld_list st ''execution'' ''pending_events'' \<noteq> [] then (''running'', None)
            else (''waiting_external'', Some (str_or (Some reason) ''external_job_pending'')))
         else if latest = ''failed'' \<or> has_blocked_or_abandoned_tasks board then (''needs_recovery'', None)
         else if all_tasks_resolved board then (''ready_to_finalize'', None)
         else (''running'', None))"

section \<open>The validation of a result\<close>

definition opt_float :: "flt option \<Rightarrow> py" where
  "opt_float x = (case x of None \<Rightarrow> PNone | Some v \<Rightarrow> PFloat v)"

definition dump_review :: "channel_review \<Rightarrow> dict" where
  "dump_review r =
     (let number = (\<lambda>k. (k, case map_of (ch_mass_numbers r) k of Some v \<Rightarrow> opt_float v | None \<Rightarrow> PNone));
          flag = (\<lambda>k. (k, dget0 (ch_mass_flags r) k))
      in [(''channel'', PStr (ch_channel r)), (''direction'', PStr (ch_direction r)), (''carrier'', PStr (ch_carrier r)),
          (''n_points'', PInt (ch_n_points r)), (''mobility_cm2_Vs'', opt_float (ch_mobility r)), (''E1_eV'', opt_float (ch_e1 r)),
          (''E1_eV_sigma'', opt_float (ch_e1_sigma r)), (''E1_fit_R2'', opt_float (ch_e1_fit_r2 r)),
          (''C2D_J_m2'', opt_float (ch_c2d r)), (''C2D_sigma_J_m2'', opt_float (ch_c2d_sigma r)),
          (''C2D_fit_R2'', opt_float (ch_c2d_fit_r2 r)), (''rel_e1_sigma'', opt_float (ch_rel_e1_sigma r)),
          (''rel_c2d_sigma'', opt_float (ch_rel_c2d_sigma r)), (''mass_status'', PStr (ch_mass_status r)),
          (''mass_valid_for_mobility'', ch_mass_valid r), (''mass_rejection_reasons'', PList (ch_mass_rejection_reasons r)),
          number ''mass_fit_R2'', flag ''mass_dynamic_band_switch'', flag ''mass_curvature_sign_ok'', flag ''mass_center_is_extremum'',
          number ''mass_fixed_branch_energy_jump_max_eV'', number ''mass_dynamic_edge_energy_jump_max_eV'',
          number ''mass_fit_window_stability_rel'', (''warning_reasons'', str_list (ch_warning_reasons r)),
          (''status'', PStr (ch_status r)), (''reason'', PStr (ch_reason r))])"

definition points_dict :: "(string \<times> flt list) list \<Rightarrow> py" where
  "points_dict d = PDict (map (\<lambda>(k, vs). (k, PList (map PFloat vs))) d)"

definition dump_refinement_plan :: "refinement_plan \<Rightarrow> dict" where
  "dump_refinement_plan p =
     [(''target_channels'', str_list (rp_target_channels p)), (''suggested_points'', points_dict (rp_applied_points p)),
      (''applied_points'', points_dict (rp_applied_points p)), (''full_plan_by_direction'', points_dict (rp_full_plan_by_direction p)),
      (''refinement_strategy'', opt_str (rp_refinement_strategy p)), (''max_points_per_direction'', PInt (rp_max_points_per_direction p))]"

fun dump_refinement_preview :: "int \<Rightarrow> preview \<Rightarrow> dict" where
  "dump_refinement_preview max_points (Resolved p) = dump_refinement_plan p"
| "dump_refinement_preview max_points (NotNeeded d) =
     [(''target_channels'', PList []), (''applied_points'', PDict []), (''suggested_points'', PDict []),
      (''full_plan_by_direction'', PDict d), (''refinement_strategy'', PStr ''midpoint_enrichment''),
      (''max_points_per_direction'', PInt max_points)]"

definition dump_report :: "int \<Rightarrow> validation_report \<Rightarrow> dict" where
  "dump_report max_points r =
     [(''decision'', PStr (vr_decision r)), (''reason'', PStr ''physics_validation_review''), (''warnings'', str_list (vr_warnings r)),
      (''failed_checks'', str_list (vr_anomaly_flags r)), (''fit_metrics'', PDict (vr_fit_metrics r)),
      (''anomaly_flags'', str_list (vr_anomaly_flags r)),
      (''channel_reviews'', PDict (map (\<lambda>c. (ch_channel c, PDict (dump_review c))) (vr_channel_reviews r))),
      (''retained_subchannels'', str_list (vr_retained_subchannels r)), (''rejected_subchannels'', str_list (vr_rejected_subchannels r)),
      (''accepted_channels'', str_list (vr_accepted_channels r)), (''rejected_channels'', str_list (vr_rejected_channels r)),
      (''recommended_action'', PStr (vr_recommended_action r)), (''refinement_targets'', str_list (vr_refinement_targets r)),
      (''refinement_preview'', PDict (dump_refinement_preview max_points (vr_refinement_preview r))),
      (''all_subchannels'', str_list all_subchannels)]"

definition find_anomalies :: "dict \<Rightarrow> string list res" where
  "find_anomalies st =
     bindR (validate_physics_window (fld_dict st ''physics_results'' ''results'')) (\<lambda>window.
     bindR (detect_basic_anomalies [(''errors'', fld st ''diagnostics'' ''errors''), (''run_status'', fld st ''workflow'' ''run_status''),
              (''confidence_score'', fld st ''diagnostics'' ''confidence_score'')]) (\<lambda>basic.
       Inr (map py_str (py_dedupe (sub_list window ''anomaly_flags'' @ map PStr basic)))))"

definition report_confidence :: "validation_report \<Rightarrow> flt" where
  "report_confidence r =
     (if vr_decision r = ''fail'' then Fin (99 / 100)
      else if vr_recommended_action r = ''refine_sampling'' then Fin (74 / 100)
      else if vr_decision r = ''pass_with_warning'' then Fin (78 / 100)
      else Fin (92 / 100))"

definition validate_result_capability :: "dict \<Rightarrow> (validation_report \<times> string list) res" where
  "validate_result_capability st =
     bindR (find_anomalies st) (\<lambda>flags.
     bindR (build_validation_report st DEFAULT_FIT_R2_THRESHOLD DEFAULT_REFINEMENT_TARGET_POINTS flags
              (texts_in (fld_list st ''material'' ''warnings''))) (\<lambda>report. Inr (report, flags)))"

definition report_payload :: "validation_report \<Rightarrow> dict" where
  "report_payload r =
     dump_report DEFAULT_REFINEMENT_TARGET_POINTS r @ [(''confidence_score'', PFloat (report_confidence r))]"

definition validation_writes :: "validation_report \<Rightarrow> string list \<Rightarrow> string list \<Rightarrow> string list \<Rightarrow> dict \<Rightarrow> dict" where
  "validation_writes r flags accepted rejected st =
     (let payload = dset (dset (report_payload r) ''accepted_channels'' (str_list accepted)) ''rejected_channels'' (str_list rejected);
          s1 = set_fld ''blackboard'' ''anomaly_flags'' (str_list flags)
                 (set_fld ''diagnostics'' ''confidence_score'' (PFloat (report_confidence r))
                   (set_fld ''diagnostics'' ''validation_report'' (PDict payload) st));
          s2 = set_fld ''physics_results'' ''rejected_channels'' (str_list rejected)
                 (set_fld ''physics_results'' ''accepted_channels'' (str_list accepted) s1)
      in if vr_decision r = ''fail'' then extend_fld ''material'' ''warnings'' (map PStr flags) s2 else s2)"

definition execute_validation_action :: "coercion \<Rightarrow> env \<Rightarrow> dict \<Rightarrow> int \<Rightarrow> dict \<Rightarrow> (dict \<times> dict) res" where
  "execute_validation_action coerce e st round_id action =
     bindR (validate_result_capability st) (\<lambda>validation.
     let r = fst validation; flags = snd validation in
     bindR (derive_direction_acceptance (str_list (vr_retained_subchannels r)) (str_list (vr_rejected_subchannels r))) (\<lambda>directions.
     let s1 = validation_writes r flags (fst directions) (snd directions) st in
     bindR (build_execution_observation coerce e s1 round_id (str_default action ''action_family'' ''revalidate_result'') (Some ''validation'')
              ((reported ''success'')\<lparr>ro_summary := report_payload r,
                 ro_evidence := [(''validation'', PDict [(''validation_report'', PDict (report_payload r)),
                    (''confidence_score'', PFloat (report_confidence r)), (''anomaly_flags'', str_list flags)])]\<rparr>)) (\<lambda>observation.
       Inr (extend_fld ''workflow'' ''completed_stages'' [PStr ''validation'']
              (set_fld ''workflow'' ''stage_status''
                 (PDict (dset (fld_dict s1 ''workflow'' ''stage_status'') ''validation'' (PStr ''success''))) s1), observation))))"

definition quality_grade_from_state :: "coercion \<Rightarrow> env \<Rightarrow> dict \<Rightarrow> string res" where
  "quality_grade_from_state coerce e st =
     (let status = fld_text st ''workflow'' ''run_status''; score = fld st ''diagnostics'' ''confidence_score'';
          decision = get_str (fld_dict st ''diagnostics'' ''validation_report'') ''decision''
      in bindR (if score = PNone then Inr (Fin 0) else to_float score) (\<lambda>confidence.
         bindR (if status \<in> {''failed'', ''aborted'', ''skipped''} then has_completed_compute_state_payload coerce e st else Inr True) (\<lambda>computed.
           Inr (if \<not> computed then ''failed''
                else if decision \<in> {''fail'', ''rejected''} then ''low_confidence''
                else if decision = ''pass'' \<and> flt_le (Fin (9 / 10)) confidence then ''high_confidence''
                else if decision \<in> {''pass'', ''pass_with_warning''} \<and> flt_le (Fin (3 / 4)) confidence then ''warning_usable''
                else ''low_confidence''))))"

section \<open>Channels of an action\<close>

definition selected_target_channels :: "dict \<Rightarrow> string list res" where
  "selected_target_channels action =
     bindR (get_dict action ''parameters'') (\<lambda>params.
     let named = find (\<lambda>k. dget0 params k \<noteq> PNone)
           [''target_channels'', ''channels_to_invalidate'', ''channels_to_skip'', ''channels'', ''target_directions'', ''directions''];
         single = py_or (dget0 params ''channel'') (dget0 params ''target_channel'');
         raw = (case named of Some k \<Rightarrow> dget0 params k | None \<Rightarrow> if truthy single then PList [single] else PList [])
     in bindR (to_list (py_or (if is_str raw then PList [raw] else raw) (PList []))) (\<lambda>xs.
          Inr (filter (\<lambda>t. t \<noteq> []) (map (py_strip \<circ> py_str) xs))))"

end
