(* ===== verification/Execute_Node.thy ===== *)
theory Execute_Node
  imports Runtime_Nodes
begin

text \<open>
  The node that carries out the selected action (\<open>make_execute_selected_action_node\<close> of
  mobility_agent/graph/runtime_nodes.py), with \<open>compile_selected_action\<close> of agents/executor.py and
  \<open>export_compatibility_checkpoint\<close> of graph/state.py.

  The node asks the legality check, compiles the command and then takes one of its branches:
  refinement plan, finalize, abort, escalation to the human, validation, channel decisions, prepare,
  an external job, a deterministic stage. A branch returns the new state and the observation of the
  action; \<open>close_action\<close> records both and the node returns the patch from the state it was given.

  \<open>node_env\<close> holds what is outside: configuration, the tools (\<open>ne_tool\<close>, by the
  name of the stage; \<open>Stage_Tools\<close> and the theories of the other stages model them), the notification, the bytes of a pickled checkpoint
  and the answer of the human. \<open>interrupt\<close> suspends the graph until there is an answer: without one
  the node ends with \<open>Interrupted\<close> and the files it has written, and LangGraph runs it again from its
  start with the answer.
\<close>

section \<open>The surroundings of a node\<close>

record node_env =
  ne_coerce :: coercion
  ne_env :: env
  ne_dry_run :: bool
  ne_dry_run_fail_stages :: "string list"
  ne_strain_target_points :: int
  ne_fit_r2_threshold :: flt
  ne_checkpoint_subdir :: string
  ne_compatibility_export :: bool
  ne_tool :: "string \<Rightarrow> dict \<Rightarrow> fs \<Rightarrow> fs \<times> ToolOutput"
  ne_duration :: flt
  ne_notify :: "dict \<Rightarrow> dict"
  ne_pickle :: "dict \<Rightarrow> string"
  ne_response :: "dict option"

datatype node_result = Patch dict | Interrupted dict

definition load :: "node_env \<Rightarrow> dict \<Rightarrow> dict res" where
  "load w st = from_dict (ne_coerce w) (ne_env w) st"

definition finalize_node_output :: "node_env \<Rightarrow> dict \<Rightarrow> dict \<Rightarrow> dict res" where
  "finalize_node_output w before st =
     bindR (load w st) (\<lambda>after. build_state_patch (ne_coerce w) (ne_env w) before after None)"

definition observe :: "node_env \<Rightarrow> dict \<Rightarrow> int \<Rightarrow> string \<Rightarrow> string option \<Rightarrow> report \<Rightarrow> dict res" where
  "observe w st round_id family target r = build_execution_observation (ne_coerce w) (ne_env w) st round_id family target r"

definition set_status :: "string \<Rightarrow> dict \<Rightarrow> dict" where
  "set_status s st = set_fld ''workflow'' ''run_status'' (PStr s) st"

section \<open>Records of the tool calls\<close>

definition flags_dict :: "(string \<times> bool) list \<Rightarrow> py" where
  "flags_dict fs = PDict (map (\<lambda>(k, b). (k, PBool b)) fs)"

definition dump_legality :: "legality_result \<Rightarrow> dict" where
  "dump_legality r =
     [(''allowed'', PBool (lr_allowed r)), (''action_family'', PStr (lr_action_family r)),
      (''target_capability'', opt_str (lr_target_capability r)), (''refusal_reasons'', str_list (lr_refusal_reasons r)),
      (''dependency_status'', flags_dict (lr_dependency_status r)), (''required_evidence_status'', flags_dict (lr_evidence_status r)),
      (''task_board_status'', PStr (lr_task_board_status r)), (''fallback_action'', PStr (lr_fallback_action r)),
      (''warnings'', str_list (lr_warnings r))]"

definition dump_signals :: "observation \<Rightarrow> dict" where
  "dump_signals v =
     [(''anomaly_flags'', str_list (ob_anomaly_flags v)), (''risk_flags'', str_list (ob_risk_flags v)),
      (''fit_quality'', opt_float (ob_fit_quality v)), (''mobility_window_summary'', PDict (ob_mobility_window v)),
      (''validation_summary'', PDict (ob_validation_summary v)), (''accepted_channels'', PList (ob_accepted_channels v)),
      (''rejected_channels'', PList (ob_rejected_channels v)), (''confidence_score'', ob_confidence_score v),
      (''warnings'', PList (ob_warnings v))]"

text \<open>What every branch ends with: the signals of the new state, the observation, the traces.\<close>

definition traced :: "string \<Rightarrow> dict \<Rightarrow> dict" where
  "traced kind d = dmerge [(''node'', PStr ''execute_selected_action''), (''message_type'', PStr kind)] d"

definition close_action :: "node_env \<Rightarrow> string \<Rightarrow> string option \<Rightarrow> dict \<Rightarrow> dict \<Rightarrow> dict res" where
  "close_action w family target st observation =
     bindR (synthesize_observation st) (\<lambda>signals.
     let s1 = record_agent_tool_call ''synthesize_observation'' ''execute_selected_action''
                [(''action_family'', PStr family), (''target_capability'', opt_str target)] (dump_signals signals) st;
         obs = dset observation ''content''
                 (PDict (dset (sub_dict observation ''content'') ''observation_signals'' (PDict (dump_signals signals))));
         s2 = set_fld ''blackboard'' ''risk_flags'' (str_list (ob_risk_flags signals))
                (set_fld ''blackboard'' ''anomaly_flags'' (str_list (ob_anomaly_flags signals)) s1);
         s3 = set_fld ''execution'' ''action_status'' (dget0 obs ''status'')
                (set_fld ''execution'' ''latest_execution_observation'' (PDict obs) s2)
     in Inr (append_decision_trace (traced ''execution_observation'' obs) s3))"

section \<open>Running a stage\<close>

definition tool_names :: "string list" where
  "tool_names = [''relax'', ''scf'', ''band'', ''effective_mass'', ''strain_loop'', ''mobility'']"

definition run_stage_tool :: "node_env \<Rightarrow> string \<Rightarrow> dict \<Rightarrow> ToolExecutionResult io" where
  "run_stage_tool w stage st =
     (if ne_dry_run w then io_read (\<lambda>f. dry_run_stage f (ne_dry_run_fail_stages w) stage st)
      else if stage \<notin> set tool_names then io_lift (Inl (KeyError stage))
      else
        io_bind (io_lift (build_tool_inputs (ne_coerce w) (ne_env w) stage st)) (\<lambda>inputs f.
          let (g, output) = ne_tool w stage inputs f
          in (g, normalize_tool_output (ne_coerce w) (ne_duration w) g stage output (fld_text st ''execution'' ''workdir''))))"

text \<open>The call with its \<open>try ... except\<close>: an exception becomes a failed result.\<close>

definition attempt_stage :: "node_env \<Rightarrow> string \<Rightarrow> dict \<Rightarrow> fs \<Rightarrow> fs \<times> ToolExecutionResult" where
  "attempt_stage w stage st f =
     (case io_bind (io_lift (validate_stage_dependencies st stage)) (\<lambda>_. run_stage_tool w stage st) f of
        (g, Inr r) \<Rightarrow> (g, r)
      | (g, Inl exc) \<Rightarrow> (g, exception_result g (fld_text st ''execution'' ''workdir'') stage exc))"

definition export_compatibility_checkpoint :: "node_env \<Rightarrow> dict \<Rightarrow> string \<Rightarrow> string io" where
  "export_compatibility_checkpoint w payload reason =
     io_bind (io_lift (load w payload)) (\<lambda>st.
     (let named = fld st ''execution'' ''compatibility_checkpoint_path'';
          path = (if truthy named then py_str named else path_join (fld_text st ''execution'' ''workdir'') ''checkpoint.pkl'')
      in io_bind (io_change (\<lambda>f. makedirs f (dirname path))) (\<lambda>_.
         io_bind (io_lift (build_legacy_state_snapshot (ne_coerce w) (ne_env w) st)) (\<lambda>legacy.
         io_bind (io_change (\<lambda>f. write_file f path (ne_pickle w
             [(''reason'', PStr reason), (''exported_at'', PStr (now (ne_env w))), (''shared_state'', PDict st), (''legacy_view'', PDict legacy)])))
           (\<lambda>_. io_return path)))))"

definition record_export :: "string \<Rightarrow> dict \<Rightarrow> dict" where
  "record_export path st =
     extend_fld ''execution'' ''compatibility_checkpoint_history'' [PStr path]
       (set_fld ''execution'' ''compatibility_checkpoint_path'' (PStr path) st)"

definition export_when :: "node_env \<Rightarrow> bool \<Rightarrow> string \<Rightarrow> dict \<Rightarrow> dict io" where
  "export_when w c reason st =
     (if c then io_bind (export_compatibility_checkpoint w st reason) (\<lambda>path. io_return (record_export path st)) else io_return st)"

definition STABLE_CHECKPOINT_STAGES :: "string list" where
  "STABLE_CHECKPOINT_STAGES =
     [''prepare'', ''relax'', ''scf'', ''band'', ''effective_mass'', ''strain_loop'', ''mobility'', ''validation'']"

definition recovery_summary_of :: "dict \<Rightarrow> string \<Rightarrow> ToolExecutionResult \<Rightarrow> dict" where
  "recovery_summary_of st target r =
     [(''stage'', PStr target), (''current_stage'', PStr target),
      (''error_type'', PStr (classify_failure (str_or (tr_error_summary r) []))),
      (''error_summary'', opt_str (tr_error_summary r)), (''trigger_pattern'', opt_str (tr_error_summary r)),
      (''retries_used'', PInt (int_or0 (dget (fld_dict st ''execution'' ''retry_counts'') target (PInt 0)))),
      (''max_retries'', PInt (if fld_int st ''workflow'' ''retry_budget'' = 0 then 2 else fld_int st ''workflow'' ''retry_budget''))]"

text \<open>What the result of a stage does to the state, before a checkpoint is exported, and after.\<close>

definition register_stage_result :: "node_env \<Rightarrow> string \<Rightarrow> ToolExecutionResult \<Rightarrow> dict \<Rightarrow> dict res" where
  "register_stage_result w target r st =
     bindR (register_tool_result (ne_coerce w) (ne_env w) st r) (\<lambda>s1.
     bindR (translate_tool_updates target r) (\<lambda>updates.
     bindR (apply_state_updates (ne_coerce w) (ne_env w) s1 updates) (\<lambda>s2.
     bindR (load w s2) (\<lambda>s3.
     bindR (record_stage_status (ne_coerce w) (ne_env w) s3 target (if tool_success r then ''success'' else ''failed'')) (\<lambda>s4.
       Inr (set_status (if tool_success r then ''running'' else ''needs_recovery'') s4))))))"

definition note_failure :: "string \<Rightarrow> string \<Rightarrow> ToolExecutionResult \<Rightarrow> dict \<Rightarrow> dict" where
  "note_failure family target r st =
     (let s1 = (if family \<in> {''run_capability'', ''repair_execution_context'', ''refine_sampling'', ''revalidate_result''}
                then sync_retry_counts target st else st)
      in set_fld ''diagnostics'' ''recovery_summary'' (PDict (recovery_summary_of s1 target r)) s1)"

definition stage_action :: "node_env \<Rightarrow> int \<Rightarrow> string \<Rightarrow> string \<Rightarrow> dict \<Rightarrow> (dict \<times> dict) io" where
  "stage_action w round_id family target st =
     io_bind (\<lambda>f. (let (g, r) = attempt_stage w target st f in (g, Inr r))) (\<lambda>r.
     io_bind (io_lift (register_stage_result w target r st)) (\<lambda>s1.
     io_bind (export_when w (tool_success r \<and> target \<in> set STABLE_CHECKPOINT_STAGES \<and> ne_compatibility_export w)
                (''stable_stage:'' @ target) s1) (\<lambda>s2.
     (let s3 = (if tool_success r then s2 else note_failure family target r s2)
      in io_bind (io_lift (observe w s3 round_id family (Some target) (report_of_result r))) (\<lambda>observation.
           io_return (s3, observation))))))"

definition prepare_action :: "node_env \<Rightarrow> int \<Rightarrow> string \<Rightarrow> dict \<Rightarrow> (dict \<times> dict) io" where
  "prepare_action w round_id family st =
     io_bind (prepare_capability (ne_coerce w) (ne_env w) st) (\<lambda>r.
     io_bind (io_lift (
       bindR (register_tool_result (ne_coerce w) (ne_env w) st r) (\<lambda>s1.
       bindR (load w s1) (\<lambda>s2.
       bindR (record_stage_status (ne_coerce w) (ne_env w) s2 ''prepare'' (if tool_success r then ''success'' else ''failed'')) (\<lambda>s3.
         Inr (set_status (if tool_success r then ''running'' else ''needs_recovery'') s3)))))) (\<lambda>s4.
     io_bind (io_lift (observe w s4 round_id family (Some ''prepare'') (report_of_result r))) (\<lambda>observation.
       io_return (s4, observation))))"

section \<open>External jobs\<close>

text \<open>\<open>selected_action.get("parameters", {}).get(k)\<close>.\<close>

definition action_parameter :: "dict \<Rightarrow> string \<Rightarrow> py res" where
  "action_parameter action k =
     (case dget action ''parameters'' (PDict []) of PDict d \<Rightarrow> Inr (dget0 d k) | _ \<Rightarrow> Inl (AttributeError ''get''))"

definition external_job :: "node_env \<Rightarrow> string \<Rightarrow> string \<Rightarrow> string \<Rightarrow> dict \<Rightarrow> dict" where
  "external_job w job_id family target cmd =
     [(''job_id'', PStr job_id), (''action_family'', PStr family), (''target_capability'', PStr target),
      (''status'', PStr ''submitted''), (''submitted_at'', PStr (now (ne_env w))),
      (''expected_artifacts'', PList (sub_list cmd ''expected_artifacts'')),
      (''wait_for_event_after_submission'', PBool (truthy (dget0 cmd ''wait_for_event_after_submission'')))]"

definition other_job :: "string \<Rightarrow> py \<Rightarrow> bool" where
  "other_job job_id item \<longleftrightarrow> \<not> (is_dict item \<and> get_str (entries item) ''job_id'' = job_id)"

definition submit_job :: "node_env \<Rightarrow> int \<Rightarrow> string \<Rightarrow> string \<Rightarrow> dict \<Rightarrow> dict \<Rightarrow> dict \<Rightarrow> (dict \<times> dict) res" where
  "submit_job w round_id family target action cmd st =
     bindR (action_parameter action ''job_id'') (\<lambda>named.
     let job_id = (if truthy named then py_str named
                   else py_str (fld st ''task'' ''task_id'') @ ''::'' @ show_int round_id @ ''::'' @ target);
         job = external_job w job_id family target cmd; reason = ''awaiting_external_event:'' @ target;
         s1 = set_fld ''execution'' ''resume_markers''
                (PDict [(''job_id'', PStr job_id), (''awaiting_capability'', PStr target), (''submitted_round_id'', PInt round_id)])
                (set_fld ''execution'' ''external_jobs''
                  (PList (filter (other_job job_id) (fld_list st ''execution'' ''external_jobs'') @ [PDict job])) st);
         s2 = set_fld ''workflow'' ''wait_reason'' (PStr reason) (set_status ''waiting_external'' s1)
     in bindR (observe w s2 round_id family (Some target)
                ((reported ''running'')\<lparr>ro_summary := [(''job_id'', PStr job_id), (''wait_reason'', PStr reason)],
                   ro_evidence := [(''external_job'', PDict job)]\<rparr>)) (\<lambda>observation. Inr (s2, observation)))"

section \<open>Channel decisions\<close>

definition excluded_channels :: "dict \<Rightarrow> string list \<Rightarrow> dict \<Rightarrow> (string list \<times> string list \<times> dict) res" where
  "excluded_channels report targets st =
     (if report \<noteq> [] then
        bindR (get_list report ''retained_subchannels'') (\<lambda>retained.
        bindR (get_list report ''rejected_subchannels'') (\<lambda>rejected.
        bindR (subchannel_tokens_from_targets (str_list targets)) (\<lambda>targeted.
        let retained' = filter (\<lambda>x. x \<notin> PStr ` set targeted) retained;
            rejected' = py_dedupe (rejected @ map PStr targeted)
        in bindR (derive_direction_acceptance (PList retained') (PList rejected')) (\<lambda>directions.
             Inr (fst directions, snd directions,
                  dset (dset report ''retained_subchannels'' (PList retained')) ''rejected_subchannels'' (PList rejected'))))))
      else
        (let texts = (\<lambda>k. filter (\<lambda>t. py_strip t \<noteq> []) (texts_in (fld_list st ''physics_results'' k)))
         in Inr (dedupe (filter (\<lambda>c. c \<notin> set targets) (texts ''accepted_channels'')),
                 dedupe (texts ''rejected_channels'' @ targets), report)))"

definition exclude_channels :: "node_env \<Rightarrow> int \<Rightarrow> string \<Rightarrow> string option \<Rightarrow> dict \<Rightarrow> string list \<Rightarrow> dict \<Rightarrow> (dict \<times> dict) res" where
  "exclude_channels w round_id family target action targets st =
     bindR (excluded_channels (fld_dict st ''diagnostics'' ''validation_report'') targets st) (\<lambda>result.
     let accepted = dedupe (fst result); rejected = dedupe (fst (snd result)); report = snd (snd result);
         s1 = set_fld ''physics_results'' ''rejected_channels'' (str_list rejected)
                (set_fld ''physics_results'' ''accepted_channels'' (str_list accepted) st);
         s2 = (if report \<noteq> [] then set_fld ''diagnostics'' ''validation_report''
                 (PDict (dset (dset report ''accepted_channels'' (str_list accepted)) ''rejected_channels'' (str_list rejected))) s1 else s1);
         s3 = set_status ''running'' s2
     in bindR (observe w s3 round_id family target
                ((reported ''success'')\<lparr>ro_summary := [(''action'', PStr family), (''target_channels'', str_list targets),
                     (''accepted_channels'', str_list accepted), (''rejected_channels'', str_list rejected)],
                   ro_evidence := [(''selected_action'', PDict action)]\<rparr>)) (\<lambda>observation. Inr (s3, observation)))"

definition no_target_channels :: string where
  "no_target_channels = ''channel_action_missing_target_channels''"

definition channel_action :: "node_env \<Rightarrow> int \<Rightarrow> string \<Rightarrow> string option \<Rightarrow> dict \<Rightarrow> dict \<Rightarrow> (dict \<times> dict) res" where
  "channel_action w round_id family target action st =
     bindR (selected_target_channels action) (\<lambda>targets.
     if targets = [] then
       (let s1 = set_status ''needs_recovery'' (append_framework_diagnostic (ne_env w) no_target_channels
              [(''action_family'', PStr family), (''target_capability'', opt_str target),
               (''parameter_keys'', str_list (sort (map fst (sub_dict action ''parameters''))))] st)
        in bindR (observe w s1 round_id family target
             ((reported ''failed'')\<lparr>ro_error := Some no_target_channels,
                ro_summary := [(''action'', PStr family), (''target_channels'', PList [])],
                ro_evidence := [(''selected_action'', PDict action)]\<rparr>)) (\<lambda>observation. Inr (s1, observation)))
     else exclude_channels w round_id family target action targets st)"

section \<open>Ending a run\<close>

definition finalize_action :: "node_env \<Rightarrow> int \<Rightarrow> string option \<Rightarrow> dict \<Rightarrow> (dict \<times> dict) res" where
  "finalize_action w round_id target st =
     (let s1 = set_fld ''workflow'' ''wait_reason'' PNone (set_status ''ready_to_finalize''
                 (set_fld ''services'' ''termination_requested'' (PBool True) st))
      in bindR (observe w s1 round_id ''finalize_material'' target
                  ((reported ''success'')\<lparr>ro_summary := [(''reason'', PStr ''finalize_material_selected'')]\<rparr>)) (\<lambda>observation.
           Inr (s1, observation)))"

definition abort_action :: "node_env \<Rightarrow> int \<Rightarrow> string option \<Rightarrow> dict \<Rightarrow> dict \<Rightarrow> (dict \<times> dict) res" where
  "abort_action w round_id target action st =
     bindR (action_parameter action ''reason'') (\<lambda>given.
     let reason = (if truthy given then py_str given else ''abort_material''); s1 = terminate_with ''aborted'' reason st
     in bindR (observe w s1 round_id ''abort_material'' target
                 ((reported ''failed'')\<lparr>ro_error := some_text reason\<rparr>)) (\<lambda>observation. Inr (s1, observation)))"

section \<open>Asking the human\<close>

definition dump_decision :: "HITLDecision \<Rightarrow> dict" where
  "dump_decision d =
     [(''action'', PStr (hd_action d)),
      (''instruction'', (case hd_instruction d of None \<Rightarrow> PNone | Some i \<Rightarrow> PDict (dump_instruction i))),
      (''reason'', PStr (hd_reason d)), (''source'', PStr (hd_source d)), (''warnings'', str_list (hd_warnings d))]"

definition dump_cleanup :: "CleanupPreview \<Rightarrow> dict" where
  "dump_cleanup c =
     [(''cleanup_policy'', PStr (cp_cleanup_policy c)), (''resume_stage'', PStr (cp_resume_stage c)),
      (''invalidated_stages'', str_list (cp_invalidated_stages c)), (''invalidated_artifacts'', str_list (cp_invalidated_artifacts c)),
      (''warnings'', str_list (cp_warnings c))]"

definition offered_options :: "dict \<Rightarrow> string list res" where
  "offered_options action =
     bindR (action_parameter action ''recommended_options'') (\<lambda>v.
       if \<not> truthy v then Inr [''manual_fix_resume'', ''retry_current_stage'', ''rerun_previous_stage'', ''skip_material'', ''abort_task'']
       else bindR (to_list v) (mapR str_item))"

text \<open>Everything up to the interruption: payload, notification, checkpoint, snapshot.\<close>

definition ask_human :: "node_env \<Rightarrow> dict \<Rightarrow> dict \<Rightarrow> (dict \<times> dict) io" where
  "ask_human w action st0 =
     (let st = set_status ''needs_human'' st0; workdir = fld_text st ''execution'' ''workdir''; ps = escalation_paths workdir
      in io_bind (io_lift (bindR (offered_options action) (build_human_escalation_payload st))) (\<lambda>payload.
         io_bind (write_escalation_payload (ne_env w) workdir (ne_checkpoint_subdir w) payload) (\<lambda>_.
         (let s1 = set_fld ''services'' ''pending_human_payload'' (PDict payload)
                (extend_fld ''diagnostics'' ''consultation_trace''
                  [PDict [(''payload'', PDict payload),
                          (''paths'', PDict [(''payload_path'', PStr (fst ps)), (''response_path'', PStr (fst (snd ps))),
                                             (''log_path'', PStr (snd (snd ps)))]),
                          (''notify_result'', PDict (ne_notify w payload))]] st)
          in io_bind (export_when w (ne_compatibility_export w) ''deliberation_escalation'' s1) (\<lambda>s2.
             io_bind (io_lift (load w s2)) (\<lambda>loaded.
             io_bind (save_state_snapshot (ne_env w) workdir (ne_checkpoint_subdir w) loaded) (\<lambda>_.
               io_return (s2, payload))))))))"

text \<open>The stage a decision resumes at, with the cleanup of a manual fix.\<close>

definition resume_after :: "HITLDecision \<Rightarrow> string option \<Rightarrow> dict \<Rightarrow> (string \<times> dict) io" where
  "resume_after d target st =
     (let here = str_or target (fld_text st ''workflow'' ''current_stage'') in
      case (hd_action d = ''manual_fix_resume'', hd_instruction d) of
        (True, Some i) \<Rightarrow>
          (let workdir = fld_text st ''execution'' ''workdir'' in
           io_bind (\<lambda>f. (f, preview_cleanup f workdir (mi_resume_stage i) (mi_cleanup_policy i))) (\<lambda>cleanup.
           io_bind (io_change (\<lambda>f. apply_cleanup f cleanup)) (\<lambda>_.
             io_return (mi_resume_stage i, extend_fld ''diagnostics'' ''recovery_history''
               [PDict [(''action'', PStr ''manual_fix_resume''), (''target_stage'', PStr (mi_resume_stage i)),
                       (''preview'', PDict (dump_cleanup cleanup))]] st))))
      | _ \<Rightarrow>
          io_return (if hd_action d = ''rerun_previous_stage''
                     then str_or (find_previous_stage (str_or target [])) (str_or target []) else here, st))"

definition act_on_decision :: "node_env \<Rightarrow> int \<Rightarrow> string option \<Rightarrow> HITLDecision \<Rightarrow> dict \<Rightarrow> (dict \<times> dict) io" where
  "act_on_decision w round_id target d st0 =
     (let family = ''escalate_human'';
          st = set_fld ''workflow'' ''wait_reason'' PNone (set_fld ''workflow'' ''escalated_to_human'' (PBool True)
                 (set_fld ''services'' ''latest_human_decision'' (PDict (dump_decision d)) st0));
          summary = (\<lambda>a. [(''human_action'', PStr a)])
      in if hd_action d = ''skip_material'' then
           (let s1 = terminate_with ''skipped'' ''skip_material'' st
            in io_bind (io_lift (observe w s1 round_id family target ((reported ''skipped'')\<lparr>ro_summary := summary ''skip_material''\<rparr>)))
                 (\<lambda>observation. io_return (s1, observation)))
         else if hd_action d = ''abort_task'' then
           (let s1 = terminate_with ''failed'' ''abort_task'' st
            in io_bind (io_lift (observe w s1 round_id family target
                 ((reported ''failed'')\<lparr>ro_error := Some ''abort_task'', ro_summary := summary ''abort_task''\<rparr>)))
                 (\<lambda>observation. io_return (s1, observation)))
         else
           io_bind (resume_after d target st) (\<lambda>r.
           (let stage = fst r; s1 = set_status ''running'' (apply_resume_strategy stage (hd_action d) (snd r))
            in io_bind (io_lift (observe w s1 round_id family (Some stage)
                 ((reported ''success'')\<lparr>ro_summary := summary (hd_action d) @ [(''resume_stage'', PStr stage)]\<rparr>)))
                 (\<lambda>observation. io_return (s1, observation)))))"

datatype branch_result = Suspended dict | Acted dict dict

definition acted :: "(dict \<times> dict) io \<Rightarrow> branch_result io" where
  "acted m = io_bind m (\<lambda>r. io_return (Acted (fst r) (snd r)))"

definition escalate_action :: "node_env \<Rightarrow> int \<Rightarrow> string option \<Rightarrow> dict \<Rightarrow> dict \<Rightarrow> branch_result io" where
  "escalate_action w round_id target action st =
     io_bind (ask_human w action st) (\<lambda>asked.
       case ne_response w of
         None \<Rightarrow> io_return (Suspended (snd asked))
       | Some response \<Rightarrow>
           io_bind (io_lift (normalize_hitl_decision response ''precomputed'')) (\<lambda>d.
             acted (act_on_decision w round_id target d (fst asked))))"

section \<open>Refining the strain plan\<close>

definition merged_points :: "flt list \<Rightarrow> flt list \<Rightarrow> flt list" where
  "merged_points existing extras = sort (dedupe (map round_point (existing @ extras)))"

definition add_points :: "(string \<times> flt list) list \<Rightarrow> dict \<Rightarrow> string \<Rightarrow> dict res" where
  "add_points applied plan channel =
     bindR (bindR (get_list plan channel) (mapR to_float)) (\<lambda>existing.
     let merged = merged_points existing (case map_of applied channel of None \<Rightarrow> [] | Some ps \<Rightarrow> ps)
     in Inr (if merged = [] then plan else dset plan channel (PList (map PFloat merged))))"

definition refinement_channels :: "refinement_plan \<Rightarrow> string list" where
  "refinement_channels p = list_or (filter (\<lambda>c. py_strip c \<noteq> []) (rp_target_channels p)) (map fst (rp_applied_points p))"

definition or_default :: "'a \<Rightarrow> 'a \<Rightarrow> 'a \<Rightarrow> 'a" where
  "or_default zero x d = (if x = zero then d else x)"

definition refinement_request :: "node_env \<Rightarrow> dict \<Rightarrow> dict \<Rightarrow> refinement_plan res" where
  "refinement_request w params st =
     resolve_refinement_sampling st params (or_default 0 (ne_strain_target_points w) DEFAULT_REFINEMENT_TARGET_POINTS)
       (or_default (Fin 0) (ne_fit_r2_threshold w) DEFAULT_FIT_R2_THRESHOLD)"

definition no_fresh_points :: "node_env \<Rightarrow> int \<Rightarrow> string \<Rightarrow> dict \<Rightarrow> dict \<Rightarrow> refinement_plan \<Rightarrow> dict \<Rightarrow> (dict \<times> dict) res" where
  "no_fresh_points w round_id target action params plan st =
     (let s1 = set_status ''needs_recovery'' st
      in bindR (observe w s1 round_id ''refine_sampling'' (Some target)
           ((reported ''failed'')\<lparr>ro_error := Some ''no_fresh_refinement_points'',
              ro_summary := [(''requested_parameters'', PDict params), (''normalized_refinement_plan'', PDict (dump_refinement_plan plan))],
              ro_evidence := [(''selected_action'', PDict action)]\<rparr>)) (\<lambda>observation. Inr (s1, observation)))"

definition apply_refinement :: "string \<Rightarrow> refinement_plan \<Rightarrow> dict \<Rightarrow> dict res" where
  "apply_refinement target p st =
     bindR (foldR (add_points (rp_applied_points p)) (fld_dict st ''physics_results'' ''strain_plan_by_direction'') (refinement_channels p)) (\<lambda>plan.
     let rounds = PInt (fld_int st ''workflow'' ''refinement_rounds'' + 1);
         s1 = set_fld ''workflow'' ''refinement_rounds'' rounds (set_fld ''physics_results'' ''strain_plan_by_direction'' (PDict plan) st)
     in Inr (extend_fld ''diagnostics'' ''recovery_history''
          [PDict [(''action'', PStr ''refine_sampling''), (''target_stage'', PStr target),
                  (''target_channels'', str_list (refinement_channels p)), (''suggested_points'', points_dict (rp_applied_points p)),
                  (''applied_points'', points_dict (rp_applied_points p)), (''max_points_per_direction'', PInt (rp_max_points_per_direction p)),
                  (''refinement_strategy'', opt_str (rp_refinement_strategy p)), (''refinement_round'', rounds)]] s1))"

section \<open>The node\<close>

definition refused :: "node_env \<Rightarrow> int \<Rightarrow> string \<Rightarrow> string option \<Rightarrow> legality_result \<Rightarrow> dict \<Rightarrow> (dict \<times> dict) res" where
  "refused w round_id family target r st =
     (let reasons = filter (\<lambda>t. py_strip t \<noteq> []) (lr_refusal_reasons r);
          s1 = set_fld ''workflow'' ''termination_reason'' (PStr ''illegal_selected_action'') (set_status ''failed''
                 (append_framework_diagnostic (ne_env w) ''illegal_selected_action_strict_failure''
                   [(''action_family'', PStr family), (''target_capability'', opt_str target), (''refusal_reasons'', str_list reasons)] st))
      in bindR (observe w s1 round_id family target
           ((reported ''failed'')\<lparr>ro_error := Some (if reasons = [] then ''illegal_selected_action''
                                                    else ''illegal_selected_action:'' @ join '';'' reasons)\<rparr>)) (\<lambda>observation.
           Inr (s1, observation)))"

definition compile_selected_action :: "node_env \<Rightarrow> dict \<Rightarrow> dict \<Rightarrow> int \<Rightarrow> dict res" where
  "compile_selected_action w st action round_id =
     bindR (query_capability_metadata (some_text (get_str action ''action_family'')) (text_option (dget0 action ''target_capability''))) (\<lambda>m.
       construct (ne_coerce w) (ExecutionCommand (ne_env w))
         [(''agent_name'', PStr ''executor''), (''round_id'', PInt round_id), (''target_task_id'', PStr (fld_text st ''task'' ''task_id'')),
          (''action_family'', dget0 action ''action_family''), (''target_capability'', dget0 action ''target_capability''),
          (''parameters'', dget0 action ''parameters''), (''expected_artifacts'', str_list (cm_expected_artifacts m)),
          (''dependency_snapshot'', PDict [(''depends_on'', str_list (cm_dependencies m))]),
          (''submit_external_job'', dget0 action ''submit_external_job''),
          (''wait_for_event_after_submission'', dget0 action ''wait_for_event_after_submission''),
          (''content'', PDict [(''selected_action'', PDict action)]), (''confidence'', PFloat (Fin (95 / 100)))])"

definition reset_families :: "string list" where
  "reset_families = [''rerun_from_capability'', ''repair_execution_context'', ''refine_sampling'']"

definition waits_for_event :: "dict \<Rightarrow> bool" where
  "waits_for_event cmd \<longleftrightarrow> truthy (dget0 cmd ''submit_external_job'') \<or> truthy (dget0 cmd ''wait_for_event_after_submission'')"

definition capability_action :: "node_env \<Rightarrow> int \<Rightarrow> string \<Rightarrow> string \<Rightarrow> dict \<Rightarrow> dict \<Rightarrow> dict \<Rightarrow> (dict \<times> dict) io" where
  "capability_action w round_id family target action cmd st =
     (let s1 = (if family \<in> set reset_families then put_board (reset_from_capability (board_of st) target) st else st);
          s2 = (if family \<in> {''retry_capability'', ''rerun_from_capability''} then sync_retry_counts target s1 else s1)
      in if waits_for_event cmd then io_lift (submit_job w round_id family target action cmd s2)
         else stage_action w round_id family target s2)"

definition without_target :: "node_env \<Rightarrow> int \<Rightarrow> string \<Rightarrow> dict \<Rightarrow> (dict \<times> dict) res" where
  "without_target w round_id family st =
     (let s1 = set_status ''needs_recovery'' st
      in bindR (observe w s1 round_id (if family = [] then ''abort_material'' else family) None
           ((reported ''failed'')\<lparr>ro_error := Some ''missing_target_capability''\<rparr>)) (\<lambda>observation. Inr (s1, observation)))"

definition take_action :: "node_env \<Rightarrow> int \<Rightarrow> string \<Rightarrow> string option \<Rightarrow> dict \<Rightarrow> dict \<Rightarrow> dict \<Rightarrow> branch_result io" where
  "take_action w round_id family target action cmd st =
     (if family = ''finalize_material'' then acted (io_lift (finalize_action w round_id target st))
      else if family = ''abort_material'' then acted (io_lift (abort_action w round_id target action st))
      else if family = ''escalate_human'' then escalate_action w round_id target action st
      else if family = ''revalidate_result'' \<or> target = Some ''validation'' then
        acted (io_lift (bindR (execute_validation_action (ne_coerce w) (ne_env w) st round_id action) (\<lambda>r.
          Inr (set_status ''running'' (fst r), snd r))))
      else if family = ''invalidate_channel'' \<or> family = ''skip_channel'' then
        acted (io_lift (channel_action w round_id family target action st))
      else if target = Some ''prepare'' then acted (prepare_action w round_id family st)
      else (case target of
              Some c \<Rightarrow> acted (capability_action w round_id family c action cmd st)
            | None \<Rightarrow> acted (io_lift (without_target w round_id family st))))"

text \<open>The refinement plan comes before the branches and may end the action.\<close>

definition refine_then_act :: "node_env \<Rightarrow> int \<Rightarrow> string \<Rightarrow> string option \<Rightarrow> dict \<Rightarrow> dict \<Rightarrow> dict \<Rightarrow> (string option \<times> branch_result) io" where
  "refine_then_act w round_id family target action cmd st =
     (if family \<noteq> ''refine_sampling'' then io_bind (take_action w round_id family target action cmd st) (\<lambda>b. io_return (target, b))
      else
        io_bind (io_lift (get_dict action ''parameters'')) (\<lambda>params.
        io_bind (io_lift (refinement_request w params st)) (\<lambda>plan.
        (let t = str_or target ''strain_loop'' in
         if rp_applied_points plan = [] then
           io_bind (io_lift (no_fresh_points w round_id t action params plan st)) (\<lambda>r. io_return (Some t, Acted (fst r) (snd r)))
         else
           io_bind (io_lift (apply_refinement t plan st)) (\<lambda>s1.
           io_bind (take_action w round_id family (Some t) action cmd s1) (\<lambda>b. io_return (Some t, b)))))))"

definition started_families :: "string list" where
  "started_families = [''run_capability'', ''retry_capability'', ''rerun_from_capability'', ''refine_sampling'', ''revalidate_result'']"

definition perform :: "node_env \<Rightarrow> int \<Rightarrow> string \<Rightarrow> string option \<Rightarrow> dict \<Rightarrow> dict \<Rightarrow> (string option \<times> branch_result) io" where
  "perform w round_id family target current st =
     io_bind (io_lift (selected_action (ne_coerce w) current)) (\<lambda>action.
     io_bind (io_lift (compile_selected_action w st action round_id)) (\<lambda>cmd.
     (let s1 = append_decision_trace (traced ''execution_command'' cmd)
                 (set_fld ''workflow'' ''current_stage'' (PStr ''execute_selected_action'') st);
          s2 = (case target of
                  Some c \<Rightarrow> if family \<in> set started_families then put_board (mark_task_started (board_of s1) c) s1 else s1
                | None \<Rightarrow> s1)
      in refine_then_act w round_id family target current cmd s2)))"

definition legality_request_of :: "string \<Rightarrow> string option \<Rightarrow> dict \<Rightarrow> legality_request res" where
  "legality_request_of family target action =
     bindR (get_dict action ''parameters'') (\<lambda>params.
       Inr \<lparr>lq_action_family = family, lq_target_capability = target, lq_parameters = params,
            lq_submit_external_job = truthy (dget0 action ''submit_external_job''),
            lq_wait_for_event = truthy (dget0 action ''wait_for_event_after_submission'')\<rparr>)"

definition close_branch :: "node_env \<Rightarrow> dict \<Rightarrow> string \<Rightarrow> string option \<times> branch_result \<Rightarrow> node_result res" where
  "close_branch w before family outcome =
     (case snd outcome of
        Suspended payload \<Rightarrow> Inr (Interrupted payload)
      | Acted st observation \<Rightarrow>
          bindR (close_action w family (fst outcome) st observation) (\<lambda>after.
          bindR (finalize_node_output w before after) (\<lambda>patch. Inr (Patch patch))))"

definition execute_action :: "node_env \<Rightarrow> dict \<Rightarrow> dict \<Rightarrow> (string option \<times> branch_result) io" where
  "execute_action w action st =
     (let family = get_str action ''action_family''; target = some_text (get_str action ''target_capability'');
          round_id = fld_int st ''deliberation'' ''round_index''
      in io_bind (io_lift (legality_request_of family target action)) (\<lambda>q.
         io_bind (io_lift (check_legality st q)) (\<lambda>r.
         (let s1 = record_agent_tool_call ''check_action_legality'' ''execute_selected_action''
                     [(''action_family'', PStr family), (''target_capability'', opt_str target)] (dump_legality r) st
          in if \<not> lr_allowed r then
               io_bind (io_lift (refused w round_id family target r s1)) (\<lambda>x. io_return (target, Acted (fst x) (snd x)))
             else perform w round_id family target action s1))))"

definition execute_selected_action :: "node_env \<Rightarrow> dict \<Rightarrow> node_result io" where
  "execute_selected_action w payload =
     io_bind (io_lift (load w payload)) (\<lambda>before.
     (let action = fld_dict before ''execution'' ''current_action'' in
      if action = [] then
        io_lift (bindR (finalize_node_output w before (set_fld ''execution'' ''action_status'' (PStr ''noop'') before)) (\<lambda>p. Inr (Patch p)))
      else
        io_bind (execute_action w action before) (\<lambda>outcome.
          io_lift (close_branch w before (get_str action ''action_family'') outcome))))"

end
