(* ===== verification/State_Updates.thy ===== *)
theory State_Updates
  imports State_Reads
begin

text \<open>
  Updates of a loaded state (\<open>apply_state_updates\<close> of mobility_agent/graph/state.py) field by field.

  An update whose fields have the declared types (\<open>fitting\<close>) is a sequence of writes \<open>merged\<close>; it always
  loads, and each field of the result is known: \<open>apply_fitting\<close>, \<open>fld_updated\<close>.
\<close>

section \<open>Merging keeps the types\<close>

lemma dedupe_typed: "list_all p xs \<Longrightarrow> list_all p ys \<Longrightarrow> list_all p (py_dedupe (xs @ ys))"
  using dedupe_subset [of "xs @ ys"] by (auto simp: list_all_iff)

lemma list_of_merge: "list_of p w \<Longrightarrow> list_of p v \<Longrightarrow> list_of p (deep_merge q w v)"
  by (cases w; cases v) (auto simp: list_of_def dedupe_typed)

lemma dict_of_merge:
  assumes "dict_of p w" "dict_of p v" and step: "\<And>q x y. p x \<Longrightarrow> p y \<Longrightarrow> p (deep_merge q x y)"
  shows "dict_of p (deep_merge q w v)"
proof -
  obtain m where m: "w = PDict m" "distinct (map fst m)" "list_all (p \<circ> snd) m"
    using assms(1) by (auto simp: dict_of_def split: py.splits)
  obtain u where u: "v = PDict u" "list_all (p \<circ> snd) u"
    using assms(2) by (auto simp: dict_of_def split: py.splits)
  have "list_all (\<lambda>(k, v). p v) u" using u(2) by (auto simp: list_all_iff)
  from merge_items_typed [OF m(2,3) this step] show ?thesis by (simp add: m(1) u(1) dict_of_def)
qed

lemma of_type_merge: "of_type t w \<Longrightarrow> of_type t v \<Longrightarrow> of_type t (deep_merge p w v)"
proof (cases t)
  case TDictStr
  then show "of_type t w \<Longrightarrow> of_type t v \<Longrightarrow> ?thesis"
    by (auto intro!: dict_of_merge simp: is_str_def split: py.splits)
next
  case TDictInt
  then show "of_type t w \<Longrightarrow> of_type t v \<Longrightarrow> ?thesis"
    by (auto intro!: dict_of_merge simp: is_int_def split: py.splits)
next
  case TDictFloats
  then show "of_type t w \<Longrightarrow> of_type t v \<Longrightarrow> ?thesis"
    by (auto intro!: dict_of_merge list_of_merge)
next
  case TDict
  then show "of_type t w \<Longrightarrow> of_type t v \<Longrightarrow> ?thesis"
    by (auto intro!: dict_of_merge)
qed (auto intro: list_of_merge simp: is_str_def is_int_def is_float_def split: py.splits)

section \<open>Updates as writes\<close>

definition merged :: "string \<Rightarrow> string \<Rightarrow> py \<Rightarrow> dict \<Rightarrow> dict" where
  "merged s k x st = set_fld s k (deep_merge (child_path s k) (fld st s k) x) st"

definition merge_section :: "string \<times> py \<Rightarrow> dict \<Rightarrow> dict" where
  "merge_section u st = fold (\<lambda>(k, x). merged (fst u) k x) (entries (snd u)) st"

definition fitting :: "env \<Rightarrow> dict \<Rightarrow> bool" where
  "fitting e u \<longleftrightarrow> list_all (\<lambda>(s, v). s \<noteq> [] \<and> map_of (MaterialTaskState e) s \<noteq> None \<and> is_dict v \<and>
     list_all (\<lambda>(k, x). case ftype_of e s k of None \<Rightarrow> False | Some t \<Rightarrow> of_type t x) (entries v)) u"

lemma well_typed_merged:
  "well_typed e st \<Longrightarrow> ftype_of e s k = Some t \<Longrightarrow> of_type t x \<Longrightarrow> well_typed e (merged s k x st)"
  unfolding merged_def by (rule well_typed_set_fld) (auto intro: of_type_merge fld_typed(1))

lemma dset_twice [simp]: "dset (dset d k v) k w = dset d k w"
  by (induction d) (auto simp: dset_def)

lemma section_present:
  "well_typed e st \<Longrightarrow> map_of (MaterialTaskState e) s \<noteq> None \<Longrightarrow> map_of st s = Some (PDict (sec st s))"
  unfolding well_typed_def
  by (auto dest!: section_map_of [of "MaterialTaskState e"] simp: sec_def dget0_def dget_def)

lemma field_present:
  assumes "well_typed e st" "ftype_of e s k = Some t"
  shows "map_of (sec st s) k = Some (fld st s k)"
proof -
  from assms(2) obtain fs dflt where f: "map_of (MaterialTaskState e) s = Some fs" "map_of fs k = Some (t, dflt)"
    by (auto simp: ftype_of_Some)
  from loaded_section(2) [OF assms(1) f(1)] f(2) obtain v where "map_of (sec st s) k = Some v"
    using typed_map_of by blast
  then show ?thesis by (simp add: fld_def dget0_def dget_def)
qed

lemma sec_set_same [simp]: "sec (set_fld s k v st) s = dset (sec st s) k v"
  by (simp add: set_fld_def sec_def)

lemma merge_section_writes:
  assumes "well_typed e st" "map_of (MaterialTaskState e) s \<noteq> None"
    and "list_all (\<lambda>(k, x). case ftype_of e s k of None \<Rightarrow> False | Some t \<Rightarrow> of_type t x) d"
  shows "dset st s (PDict (merge_items s (sec st s) d)) = fold (\<lambda>(k, x). merged s k x) d st
    \<and> well_typed e (fold (\<lambda>(k, x). merged s k x) d st)"
  using assms
proof (induction d arbitrary: st)
  case Nil
  then show ?case by (simp add: dset_same section_present)
next
  case (Cons kx d)
  obtain k x where kx: "kx = (k, x)" by (cases kx)
  from Cons.prems(3) kx obtain t where t: "ftype_of e s k = Some t" "of_type t x"
    by (auto split: option.splits)
  note w = well_typed_merged [OF Cons.prems(1) t]
  have "dset (merged s k x st) s (PDict (merge_items s (sec (merged s k x st) s) d)) = fold (\<lambda>(k, x). merged s k x) d (merged s k x st)
      \<and> well_typed e (fold (\<lambda>(k, x). merged s k x) d (merged s k x st))"
    using Cons.prems(2,3) kx by (intro Cons.IH [OF w]) simp_all
  moreover have "dset (merged s k x st) s z = dset st s z" for z by (simp add: merged_def set_fld_def)
  moreover have "sec (merged s k x st) s = dset (sec st s) k (deep_merge (child_path s k) (fld st s k) x)"
    by (simp add: merged_def)
  ultimately show ?case by (simp add: kx field_present [OF Cons.prems(1) t(1)])
qed

lemma merge_writes:
  "well_typed e st \<Longrightarrow> fitting e u \<Longrightarrow>
   merge_items [] st u = fold merge_section u st \<and> well_typed e (fold merge_section u st)"
proof (induction u arbitrary: st)
  case (Cons sv u)
  obtain s v where sv: "sv = (s, v)" by (cases sv)
  with Cons.prems(2) obtain d where v: "v = PDict d" "s \<noteq> []" "map_of (MaterialTaskState e) s \<noteq> None"
    and d: "list_all (\<lambda>(k, x). case ftype_of e s k of None \<Rightarrow> False | Some t \<Rightarrow> of_type t x) d"
    by (auto simp: fitting_def is_dict_def entries_def split: py.splits)
  have e: "merge_section sv st = fold (\<lambda>(k, x). merged s k x) d st"
    by (simp add: sv v(1) merge_section_def entries_def)
  note m = merge_section_writes [OF Cons.prems(1) v(3) d]
  have "merge_items [] (merge_section sv st) u = fold merge_section u (merge_section sv st)
      \<and> well_typed e (fold merge_section u (merge_section sv st))"
    using Cons.prems(2) m unfolding e by (intro Cons.IH) (simp_all add: fitting_def)
  moreover have "merge_items [] st (sv # u) = merge_items [] (merge_section sv st) u"
    using m section_present [OF Cons.prems(1) v(3)] v(2) unfolding e by (simp add: sv v(1) child_path_def)
  ultimately show ?case by simp
qed simp

section \<open>An update that fits always loads\<close>

lemma apply_fitting:
  assumes "validator coerce" "from_dict coerce e p = Inr st" "fitting e u"
  shows "apply_state_updates coerce e st u = Inr (normalize_state e (fold merge_section u st))"
    and "well_typed e (fold merge_section u st)"
proof -
  from validator.from_dict_result [OF assms(1,2)] have w: "well_typed e st" by simp
  note m = merge_writes [OF w assms(3)]
  then show wu: "well_typed e (fold merge_section u st)" by simp
  show "apply_state_updates coerce e st u = Inr (normalize_state e (fold merge_section u st))"
    using m validator.from_dict_again [OF assms(1,2)] validator.from_dict_keep [OF assms(1) wu, of e]
    by (simp add: apply_state_updates_def entries_def)
qed

lemma fld_merged: "fld (merged s k x st) s' k' =
    (if s' = s \<and> k' = k then deep_merge (child_path s k) (fld st s k) x else fld st s' k')"
  by (simp add: merged_def)

lemma fld_fold_merged:
  "distinct (map fst d) \<Longrightarrow> fld (fold (\<lambda>(k, x). merged s k x) d st) s' k' =
     (if s' = s then case map_of d k' of Some x \<Rightarrow> deep_merge (child_path s k') (fld st s k') x | None \<Rightarrow> fld st s k'
      else fld st s' k')"
proof (induction d arbitrary: st)
  case (Cons kx d)
  obtain k x where kx: "kx = (k, x)" by (cases kx)
  with Cons.prems have "map_of d k = None" "distinct (map fst d)" by (simp_all add: map_of_eq_None_iff)
  then show ?case by (simp add: kx Cons.IH fld_merged split: option.splits)
qed simp

lemma fld_merge_section:
  "distinct (map fst d) \<Longrightarrow> fld (merge_section (s, PDict d) st) s' k' =
     (if s' = s then case map_of d k' of Some x \<Rightarrow> deep_merge (child_path s k') (fld st s k') x | None \<Rightarrow> fld st s k'
      else fld st s' k')"
  by (simp add: merge_section_def entries_def fld_fold_merged)

text \<open>The value an update holds for a field.\<close>

definition update_at :: "dict \<Rightarrow> string \<Rightarrow> string \<Rightarrow> py option" where
  "update_at u s k = (case map_of u s of None \<Rightarrow> None | Some v \<Rightarrow> map_of (entries v) k)"

definition tidy_update :: "dict \<Rightarrow> bool" where
  "tidy_update u \<longleftrightarrow> distinct (map fst u) \<and> list_all (\<lambda>(s, v). is_dict v \<and> distinct (map fst (entries v))) u"

lemma fld_updated:
  "tidy_update u \<Longrightarrow> fld (fold merge_section u st) s k =
     (case update_at u s k of None \<Rightarrow> fld st s k | Some x \<Rightarrow> deep_merge (child_path s k) (fld st s k) x)"
proof (induction u arbitrary: st)
  case (Cons sv u)
  then obtain s' d where sv: "sv = (s', PDict d)" "distinct (map fst d)"
    by (cases sv) (auto simp: tidy_update_def is_dict_def entries_def split: py.splits)
  have "tidy_update u" "s' \<notin> fst ` set u" using Cons.prems sv by (simp_all add: tidy_update_def)
  then have new: "map_of u s' = None" by (simp add: map_of_eq_None_iff)
  show ?case
  proof (cases "s = s'")
    case True
    with new sv(2) Cons.IH [OF \<open>tidy_update u\<close>] show ?thesis
      by (simp add: sv(1) update_at_def fld_merge_section entries_def split: option.splits)
  next
    case False
    with sv(2) Cons.IH [OF \<open>tidy_update u\<close>] show ?thesis
      by (simp add: sv(1) update_at_def fld_merge_section split: option.splits)
  qed
qed (simp add: update_at_def)

end
