(* ===== verification/Node_Facts.thy ===== *)
theory Node_Facts
  imports Execute_Node State_Updates
begin

text \<open>
  What holds of the node that executes the selected action (\<open>Execute_Node\<close>).

  \<^item> What the writes of a node leave alone (the collection \<open>node_writes\<close>) and which computations leave
    the files alone (\<open>files_kept\<close>).
  \<^item> A refused action runs nothing; bookkeeping actions touch no file.
  \<^item> The result of a stage reaches the state.
  \<^item> An event from outside is consumed exactly once.
\<close>

named_theorems node_writes

section \<open>Writes\<close>

lemma fld_extend [node_writes]:
  "fld (extend_fld s k xs st) s' k' = (if s' = s \<and> k' = k then PList (py_dedupe (items (fld st s k) @ xs)) else fld st s' k')"
  by (simp add: extend_fld_def)

lemma fld_put_board [node_writes]: "s \<noteq> ''task_board'' \<Longrightarrow> fld (put_board b st) s k = fld st s k"
  by (simp add: put_board_def fld_def sec_def)

lemma sec_set_fld [node_writes]: "s' \<noteq> s \<Longrightarrow> sec (set_fld s k v st) s' = sec st s'"
  by (simp add: set_fld_def sec_def)

lemma sec_extend [node_writes]: "s' \<noteq> s \<Longrightarrow> sec (extend_fld s k xs st) s' = sec st s'"
  by (simp add: extend_fld_def node_writes)

lemma board_of_fields: "(\<And>k. fld st ''task_board'' k = fld st' ''task_board'' k) \<Longrightarrow> board_of st = board_of st'"
  by (simp add: board_of_def fld_list_def)

lemma board_of_set_fld [node_writes]: "s \<noteq> ''task_board'' \<Longrightarrow> board_of (set_fld s k v st) = board_of st"
  by (rule board_of_fields) simp

lemma board_of_extend [node_writes]: "s \<noteq> ''task_board'' \<Longrightarrow> board_of (extend_fld s k xs st) = board_of st"
  by (simp add: extend_fld_def node_writes)

lemma fld_record_call [node_writes]:
  "s \<noteq> ''execution'' \<Longrightarrow> fld (record_agent_tool_call n p q r st) s k = fld st s k"
  "k \<noteq> ''tool_trace'' \<Longrightarrow> k \<noteq> ''tool_invocations'' \<Longrightarrow> fld (record_agent_tool_call n p q r st) s k = fld st s k"
  by (simp_all add: record_agent_tool_call_def Let_def node_writes)

lemma board_of_record_call [node_writes]: "board_of (record_agent_tool_call n p q r st) = board_of st"
  by (simp add: record_agent_tool_call_def Let_def node_writes)

lemma fld_diagnostic [node_writes]:
  "s \<noteq> ''services'' \<Longrightarrow> fld (append_framework_diagnostic e c d st) s k = fld st s k"
  by (simp add: append_framework_diagnostic_def node_writes)

lemma board_of_diagnostic [node_writes]: "board_of (append_framework_diagnostic e c d st) = board_of st"
  by (simp add: append_framework_diagnostic_def node_writes)

lemma fld_set_status [node_writes]:
  "fld (set_status x st) s k = (if s = ''workflow'' \<and> k = ''run_status'' then PStr x else fld st s k)"
  by (simp add: set_status_def)

lemma board_of_set_status [node_writes]: "board_of (set_status x st) = board_of st"
  by (simp add: set_status_def node_writes)

section \<open>Computations that leave the files alone\<close>

definition files_kept :: "'a io \<Rightarrow> bool" where
  "files_kept m \<longleftrightarrow> (\<forall>f. fst (m f) = f)"

lemma files_kept_lift [intro, simp]: "files_kept (io_lift r)" "files_kept (io_return x)"
  by (simp_all add: files_kept_def io_lift_def io_return_def)

lemma files_kept_bind [intro]: "files_kept m \<Longrightarrow> (\<And>x. files_kept (k x)) \<Longrightarrow> files_kept (io_bind m k)"
  by (auto simp: files_kept_def io_bind_def split: prod.splits sum.splits) (metis fst_conv)+

lemma files_kept_if [intro]: "files_kept m \<Longrightarrow> files_kept m' \<Longrightarrow> files_kept (if c then m else m')"
  by simp

lemma files_kept_acted [intro]: "files_kept m \<Longrightarrow> files_kept (acted m)"
  by (auto simp: acted_def)

definition bookkeeping_families :: "string list" where
  "bookkeeping_families =
     [''finalize_material'', ''abort_material'', ''revalidate_result'', ''invalidate_channel'', ''skip_channel'']"

lemma bookkeeping_take_action:
  assumes "family \<in> set bookkeeping_families"
  shows "files_kept (take_action w round_id family target action cmd st)"
proof -
  have "family = ''finalize_material'' \<or> family = ''abort_material'' \<or> family = ''revalidate_result''
      \<or> family = ''invalidate_channel'' \<or> family = ''skip_channel''"
    using assms by (simp add: bookkeeping_families_def)
  then show ?thesis by (elim disjE) (simp_all add: take_action_def files_kept_acted)
qed

section \<open>Building an observation does not fail\<close>

definition fits :: "fields \<Rightarrow> dict \<Rightarrow> bool" where
  "fits fs d \<longleftrightarrow> list_all (\<lambda>(k, t, _). case map_of d k of None \<Rightarrow> True | Some v \<Rightarrow> of_type t v) fs"

definition taken :: "fields \<Rightarrow> dict \<Rightarrow> dict" where
  "taken fs d = map (\<lambda>(k, t, dflt). (k, case map_of d k of None \<Rightarrow> dflt | Some v \<Rightarrow> v)) fs"

context validator
begin

lemma validate_fields_fits: "fits fs d \<Longrightarrow> validate_fields coerce fs d = Inr (taken fs d)"
  by (induction fs) (auto simp: fits_def taken_def keeps_typed split: option.splits)

lemma construct_fits:
  "fits (members sc) d \<Longrightarrow> \<forall>k\<in>set (required sc). map_of d k \<noteq> None \<Longrightarrow>
   construct coerce sc d = Inr (after sc (taken (members sc) d))"
  by (auto simp: construct_def validate_fields_fits list_ex_iff)

end

definition good_report :: "report \<Rightarrow> bool" where
  "good_report r \<longleftrightarrow>
     ro_status r \<in> set [''success'', ''failed'', ''skipped'', ''completed'', ''running'']
   \<and> distinct (map fst (ro_artifacts r)) \<and> distinct (map fst (ro_summary r)) \<and> distinct (map fst (ro_evidence r))"

lemma good_reported:
  "s \<in> set [''success'', ''failed'', ''skipped'', ''completed'', ''running''] \<Longrightarrow> good_report (reported s)"
  by (simp add: good_report_def reported_def)

lemma build_observation:
  assumes "validator coerce" "family \<in> set ActionFamily" "good_report r"
  shows "\<exists>obs. build_execution_observation coerce e st round_id family target r = Inr obs
    \<and> dget0 obs ''status'' = PStr (ro_status r) \<and> dget0 obs ''target_capability'' = opt_str target
    \<and> dget0 obs ''error_summary'' = opt_str (ro_error r)"
proof -
  let ?d = "[(''agent_name'', PStr ''executor''), (''round_id'', PInt round_id), (''target_task_id'', PStr (fld_text st ''task'' ''task_id'')),
        (''action_family'', PStr family), (''target_capability'', opt_str target), (''status'', PStr (ro_status r)),
        (''error_summary'', opt_str (ro_error r)), (''artifact_paths'', PDict (str_dict (ro_artifacts r))),
        (''result_summary'', PDict (ro_summary r)), (''raw_evidence'', PDict (ro_evidence r)),
        (''content'', PDict [(''current_stage'', fld st ''workflow'' ''current_stage'')]),
        (''confidence'', PFloat (ro_confidence r))]"
  have o: "of_type TOptStr (opt_str x)" for x by (cases x) (simp_all add: opt_str_def is_str_def)
  have a: "map fst (str_dict xs) = map fst xs" "list_all (is_str \<circ> snd) (str_dict xs)"
    "list_all ((\<lambda>_. True) \<circ> snd) d" for xs and d :: dict
    by (auto simp: str_dict_def list_all_iff is_str_def)
  have f: "fits (members (ExecutionObservation e)) ?d"
    using assms(2,3) o a
    by (simp add: fits_def ExecutionObservation_def message_def AgentMessage_def good_report_def type_simps)
  have "construct coerce (ExecutionObservation e) ?d = Inr (after (ExecutionObservation e) (taken (members (ExecutionObservation e)) ?d))"
    by (rule validator.construct_fits [OF assms(1) f]) (simp add: ExecutionObservation_def message_def)
  moreover have "dget0 (after (ExecutionObservation e) v) k = dget0 v k"
    if "k \<in> {''status'', ''target_capability'', ''error_summary''}" for k v
    using that by (elim insertE) (simp_all add: ExecutionObservation_def message_def normalize_message_def)
  moreover have "dget0 (taken (members (ExecutionObservation e)) ?d) ''status'' = PStr (ro_status r)"
    "dget0 (taken (members (ExecutionObservation e)) ?d) ''target_capability'' = opt_str target"
    "dget0 (taken (members (ExecutionObservation e)) ?d) ''error_summary'' = opt_str (ro_error r)"
    by (simp_all add: ExecutionObservation_def message_def AgentMessage_def taken_def dget0_def dget_def)
  ultimately show ?thesis by (simp add: build_execution_observation_def)
qed

section \<open>Actions that are refused and actions that only keep the books\<close>

definition demo_node :: node_env where
  "demo_node =
     \<lparr>ne_coerce = strict_coerce, ne_env = demo_env, ne_dry_run = True, ne_dry_run_fail_stages = [], ne_strain_target_points = 9,
      ne_fit_r2_threshold = Fin (9 / 10), ne_checkpoint_subdir = ''.runtime'', ne_compatibility_export = False,
      ne_tool = (\<lambda>stage inputs f. (f, failed_output (RuntimeError ''not called''))), ne_duration = Fin 0,
      ne_notify = (\<lambda>_. []), ne_pickle = (\<lambda>_. []), ne_response = None\<rparr>"

lemma bookkeeping_perform:
  assumes "family \<in> set bookkeeping_families"
  shows "files_kept (perform w round_id family target action st)"
proof -
  have "family \<noteq> ''refine_sampling''" using assms by (auto simp: bookkeeping_families_def)
  then have "files_kept (refine_then_act w round_id family target action cmd s)" for cmd s
    by (auto simp: refine_then_act_def intro: bookkeeping_take_action [OF assms])
  then show ?thesis by (auto simp: perform_def Let_def)
qed

text \<open>Finalizing or aborting a material, revalidating a result and excluding a channel are bookkeeping:
  whatever the state and the action, and whether they succeed or raise, they leave every file as it was.\<close>

theorem bookkeeping_touches_no_files:
  assumes "get_str action ''action_family'' \<in> set bookkeeping_families"
  shows "fst (execute_action w action st f) = f"
proof -
  have "files_kept (execute_action w action st)"
    unfolding execute_action_def Let_def by (intro files_kept_bind files_kept_if files_kept_lift bookkeeping_perform assms)
  then show ?thesis by (simp add: files_kept_def)
qed

theorem bookkeeping_touches_no_files_witness:
  "fst (execute_action demo_node [(''action_family'', PStr ''skip_channel'')] [] [(''/w/POSCAR'', FFile ''x'')]) = [(''/w/POSCAR'', FFile ''x'')]"
  by (rule bookkeeping_touches_no_files) code_simp

lemma refused_writes:
  assumes "validator (ne_coerce w)" "family \<in> set ActionFamily"
  shows "\<exists>s obs. refused w round_id family target r st = Inr (s, obs)
    \<and> fld s ''workflow'' ''run_status'' = PStr ''failed''
    \<and> fld s ''workflow'' ''termination_reason'' = PStr ''illegal_selected_action''
    \<and> (\<forall>sct k. sct \<notin> {''workflow'', ''services''} \<longrightarrow> fld s sct k = fld st sct k)
    \<and> board_of s = board_of st \<and> dget0 obs ''status'' = PStr ''failed''"
proof -
  have g: "good_report ((reported ''failed'')\<lparr>ro_error := x\<rparr>)" for x
    by (simp add: good_report_def reported_def)
  define s1 where "s1 = set_fld ''workflow'' ''termination_reason'' (PStr ''illegal_selected_action'') (set_status ''failed''
      (append_framework_diagnostic (ne_env w) ''illegal_selected_action_strict_failure''
        [(''action_family'', PStr family), (''target_capability'', opt_str target),
         (''refusal_reasons'', str_list (filter (\<lambda>t. py_strip t \<noteq> []) (lr_refusal_reasons r)))] st))"
  define err where "err = (if filter (\<lambda>t. py_strip t \<noteq> []) (lr_refusal_reasons r) = [] then ''illegal_selected_action''
      else ''illegal_selected_action:'' @ join '';'' (filter (\<lambda>t. py_strip t \<noteq> []) (lr_refusal_reasons r)))"
  obtain obs where "build_execution_observation (ne_coerce w) (ne_env w) s1 round_id family target
      ((reported ''failed'')\<lparr>ro_error := Some err\<rparr>) = Inr obs" "dget0 obs ''status'' = PStr (ro_status ((reported ''failed'')\<lparr>ro_error := Some err\<rparr>))"
    using build_observation [OF assms g] by blast
  then have "refused w round_id family target r st = Inr (s1, obs)" "dget0 obs ''status'' = PStr ''failed''"
    unfolding refused_def Let_def observe_def s1_def [symmetric] err_def [symmetric] by (simp_all add: reported_def)
  moreover have "fld s1 ''workflow'' ''run_status'' = PStr ''failed''"
    "fld s1 ''workflow'' ''termination_reason'' = PStr ''illegal_selected_action''"
    "\<forall>sct k. sct \<notin> {''workflow'', ''services''} \<longrightarrow> fld s1 sct k = fld st sct k" "board_of s1 = board_of st"
    by (simp_all add: s1_def node_writes)
  ultimately show ?thesis by blast
qed



section \<open>The result of a stage reaches the state\<close>

lemma register_stage_result_effect:
  assumes "validator (ne_coerce w)" "register_stage_result w target r st = Inr s"
  shows "fld s ''workflow'' ''run_status'' = PStr (if tool_success r then ''running'' else ''needs_recovery'')
    \<and> fld s ''workflow'' ''current_stage'' = PStr target
    \<and> map_of (fld_dict s ''workflow'' ''stage_status'') target = Some (PStr (if tool_success r then ''success'' else ''failed''))
    \<and> (tool_success r \<longrightarrow> PStr target \<in> set (fld_list s ''workflow'' ''completed_stages''))"
proof -
  let ?v = "if tool_success r then ''success'' else ''failed''"
  obtain s2 s3 s4 where s3: "load w s2 = Inr s3" and s4: "record_stage_status (ne_coerce w) (ne_env w) s3 target ?v = Inr s4"
    and s: "s = set_status (if tool_success r then ''running'' else ''needs_recovery'') s4"
    using assms(2) by (auto simp: register_stage_result_def)
  obtain r' cs ds where "record_stage_status (ne_coerce w) (ne_env w) s3 target ?v = Inr r'"
    and eff: "fld r' ''workflow'' ''current_stage'' = PStr target"
      "map_of (entries (fld r' ''workflow'' ''stage_status''))
        = (map_of (entries (fld s3 ''workflow'' ''stage_status'')))(target \<mapsto> PStr ?v)"
      "fld r' ''workflow'' ''completed_stages'' = str_list ds" "set ds = set cs \<union> (if ?v = ''success'' then {target} else {})"
    using record_stage_status_effect [OF assms(1) s3 [unfolded load_def], of target ?v] by blast
  then have "r' = s4" using s4 by simp
  then show ?thesis unfolding s using eff by (simp add: node_writes fld_dict_def fld_list_def str_list_def items_def)
qed

lemma export_when_effect:
  assumes "export_when w c reason s f = (g, Inr s')" "sct \<noteq> ''execution''"
  shows "fld s' sct k = fld s sct k"
  using assms by (auto simp: export_when_def io_bind_Inr record_export_def node_writes split: if_splits)

lemma note_failure_effect:
  "fld (note_failure family target r st) sct k =
     (if sct = ''diagnostics'' \<and> k = ''recovery_summary''
      then fld (note_failure family target r st) ''diagnostics'' ''recovery_summary''
      else if k = ''retry_counts'' then fld (note_failure family target r st) sct k else fld st sct k)"
  by (simp add: note_failure_def Let_def sync_retry_counts_def)

lemma note_failure_summary:
  "\<exists>d. fld (note_failure family target r st) ''diagnostics'' ''recovery_summary'' = PDict d
     \<and> dget0 d ''stage'' = PStr target \<and> dget0 d ''error_summary'' = opt_str (tr_error_summary r)
     \<and> dget0 d ''error_type'' = PStr (classify_failure (str_or (tr_error_summary r) []))"
  by (simp add: note_failure_def Let_def recovery_summary_of_def dget0_def dget_def)

text \<open>C7: Whatever a stage did - finished, failed or raised - its result reaches the state: the stage is
  current with status \<open>success\<close> or \<open>failed\<close>, the run is \<open>running\<close> or \<open>needs_recovery\<close>, a success
  is among the completed stages, and a failure leaves a recovery summary with the stage, its error
  and the class of the error.\<close>

theorem stage_outcome_recorded:
  assumes "validator (ne_coerce w)" and "stage_action w round_id family target st f = (g, Inr (s, obs))"
    and "r = snd (attempt_stage w target st f)"
  shows "fld s ''workflow'' ''run_status'' = PStr (if tool_success r then ''running'' else ''needs_recovery'')
    \<and> fld s ''workflow'' ''current_stage'' = PStr target
    \<and> map_of (fld_dict s ''workflow'' ''stage_status'') target = Some (PStr (if tool_success r then ''success'' else ''failed''))
    \<and> (tool_success r \<longrightarrow> PStr target \<in> set (fld_list s ''workflow'' ''completed_stages''))
    \<and> (\<not> tool_success r \<longrightarrow> (\<exists>d. fld s ''diagnostics'' ''recovery_summary'' = PDict d \<and> dget0 d ''stage'' = PStr target
         \<and> dget0 d ''error_summary'' = opt_str (tr_error_summary r)
         \<and> dget0 d ''error_type'' = PStr (classify_failure (str_or (tr_error_summary r) []))))"
proof -
  obtain f1 where at: "attempt_stage w target st f = (f1, r)" using assms(3) by (metis prod.collapse)
  obtain s1 s2 f2 reason c where s1: "register_stage_result w target r st = Inr s1"
    and s2: "export_when w c reason s1 f1 = (f2, Inr s2)"
    and s: "s = (if tool_success r then s2 else note_failure family target r s2)"
    using assms(2) by (auto simp: stage_action_def Let_def io_bind_Inr at)
  have wf: "fld s ''workflow'' k = fld s1 ''workflow'' k" if "k \<noteq> ''retry_counts''" for k
    using export_when_effect [OF s2, of "''workflow''" k] that note_failure_effect [of family target r s2 "''workflow''" k]
    by (simp add: s)
  have "fld_dict s ''workflow'' ''stage_status'' = fld_dict s1 ''workflow'' ''stage_status''"
    "fld_list s ''workflow'' ''completed_stages'' = fld_list s1 ''workflow'' ''completed_stages''"
    "fld s ''workflow'' ''run_status'' = fld s1 ''workflow'' ''run_status''"
    "fld s ''workflow'' ''current_stage'' = fld s1 ''workflow'' ''current_stage''"
    by (simp_all add: fld_dict_def fld_list_def wf)
  moreover have "fld s ''diagnostics'' ''recovery_summary'' = fld (note_failure family target r s2) ''diagnostics'' ''recovery_summary''"
    if "\<not> tool_success r" using that by (simp add: s)
  ultimately show ?thesis
    using register_stage_result_effect [OF assms(1) s1] note_failure_summary [of family target r s2] by presburger
qed

section \<open>An exception in a stage is contained\<close>

lemma fld_normalize_diagnostics: "fld (normalize_state e st) ''diagnostics'' k = fld st ''diagnostics'' k"
proof -
  have "(''diagnostics'', k) \<notin> set tidied_lists" by (simp add: tidied_lists_def)
  then show ?thesis by (simp add: fld_normalize Let_def filled_state_def)
qed

text \<open>What a result without updates writes to the results of a stage.\<close>

definition empty_updates :: "string \<Rightarrow> dict" where
  "empty_updates stage =
     (let nothing = map (\<lambda>k. (k, PNone)); no_list = map (\<lambda>k. (k, PList [])); no_dict = map (\<lambda>k. (k, PDict [])) in
      if stage = ''relax'' then
        [(''physics_results'', PDict (nothing [''relaxed_structure_path''] @ no_list [''reciprocal_lattice''] @ no_dict [''relax_summary''])),
         (''diagnostics'', PDict (no_dict [''recovery_summary''])), (''execution'', PDict (no_dict [''pending_parameter_updates'']))]
      else if stage = ''scf'' then [(''physics_results'', PDict (nothing [''fermi_energy''] @ no_dict [''scf_summary'']))]
      else if stage = ''band'' then
        [(''physics_results'', PDict (no_dict [''band_summary''] @ nothing [''vbm_energy'', ''cbm_energy''] @ no_list [''vbm_kpoint'', ''cbm_kpoint'']
            @ nothing [''vbm_band_index'', ''cbm_band_index'', ''vbm_spin'', ''cbm_spin'']))]
      else if stage = ''effective_mass'' then
        [(''physics_results'', PDict [(''effective_mass_summary'', PDict []), (''masses'', PDict (nothing mass_keys))])]
      else if stage = ''strain_loop'' then
        [(''physics_results'', PDict (no_list [''strain_data''] @ no_dict [''strain_data_summary''])),
         (''diagnostics'', PDict (no_dict [''strain_summary'']))]
      else
        [(''physics_results'', PDict (no_dict [''results'', ''mobility'', ''E1'', ''C2D'', ''mobility_summary''])),
         (''diagnostics'', PDict (no_dict [''fit_diagnostics'']))])"

lemma tool_name_cases:
  "stage \<in> set tool_names \<Longrightarrow> stage = ''relax'' \<or> stage = ''scf'' \<or> stage = ''band'' \<or> stage = ''effective_mass''
     \<or> stage = ''strain_loop'' \<or> stage = ''mobility''"
  by (simp add: tool_names_def)

lemma translate_empty:
  assumes "stage \<in> set tool_names" "tr_state_updates r = []" "tr_key_summary r = []"
  shows "translate_tool_updates stage r = Inr (empty_updates stage)"
  using tool_name_cases [OF assms(1)]
  by (elim disjE)
    (simp_all add: translate_tool_updates_def assms(2,3) empty_updates_def Let_def service_updates_def get_dict_def get_list_def
      dget0_def dget_def dicts_def lists_def with_services_def translate_mobility_def mass_keys_def)

lemma fitting_empty: "stage \<in> set tool_names \<Longrightarrow> fitting e (empty_updates stage)"
  by (drule tool_name_cases, elim disjE)
    (simp_all add: empty_updates_def Let_def fitting_def ftype_of_def MaterialTaskState_def section_defs
      is_dict_def entries_def list_of_def dict_of_def mass_keys_def)

lemma tidy_empty: "stage \<in> set tool_names \<Longrightarrow> tidy_update (empty_updates stage)"
  by (drule tool_name_cases, elim disjE)
    (simp_all add: empty_updates_def Let_def tidy_update_def is_dict_def entries_def mass_keys_def)

lemma empty_updates_keep_error: "stage \<in> set tool_names \<Longrightarrow> update_at (empty_updates stage) ''diagnostics'' ''last_error'' = None"
  by (drule tool_name_cases, elim disjE) (simp_all add: empty_updates_def Let_def update_at_def entries_def)

lemma register_writes_error:
  "tr_error_summary r = Some err \<Longrightarrow> err \<noteq> [] \<Longrightarrow> fld (register_writes r st) ''diagnostics'' ''last_error'' = PStr err"
  by (simp add: register_writes_def Let_def extend_fld_def merge_fld_def)

lemma register_failure:
  assumes "validator coerce" "well_typed e st" "\<not> tool_success r" "tr_state_updates r = []"
  shows "register_tool_result coerce e st r = Inr (normalize_state e (register_writes r (normalize_state e st)))"
proof -
  note k = validator.from_dict_keep [OF assms(1,2), of e]
  have "well_typed e (normalize_state e st)" using validator.from_dict_result [OF assms(1) k] by simp
  from validator.from_dict_keep [OF assms(1) register_writes_typed [OF this], of e r] k assms(3,4)
  show ?thesis by (simp add: register_tool_result_def entries_def)
qed

lemma register_exception:
  assumes v: "validator (ne_coerce w)" and st: "well_typed (ne_env w) st" and t: "target \<in> set tool_names"
    and r: "r = exception_result f workdir target exc" and err: "exc_text exc \<noteq> []"
  shows "\<exists>s. register_stage_result w target r st = Inr s \<and> fld s ''diagnostics'' ''last_error'' = PStr (exc_text exc)"
proof -
  let ?e = "ne_env w" and ?n = "normalize_state (ne_env w)" and ?u = "empty_updates target"
  have plain: "\<not> tool_success r" "tr_state_updates r = []" "tr_key_summary r = []" "tr_error_summary r = Some (exc_text exc)"
    by (simp_all add: r exception_result_def plain_result_def tool_success_def)
  define s1 where "s1 = ?n (register_writes r (?n st))"
  have reg: "register_tool_result (ne_coerce w) ?e st r = Inr s1"
    using register_failure [OF v st plain(1,2)] by (simp add: s1_def)
  have e1: "fld s1 ''diagnostics'' ''last_error'' = PStr (exc_text exc)"
    using register_writes_error [OF plain(4) err] by (simp add: s1_def fld_normalize_diagnostics)
  obtain p where p: "from_dict (ne_coerce w) ?e p = Inr s1"
    using reg by (auto simp: register_tool_result_def Let_def)
  define s2 where "s2 = ?n (fold merge_section ?u s1)"
  note ap = apply_fitting [OF v p fitting_empty [OF t]]
  have s2: "apply_state_updates (ne_coerce w) ?e s1 ?u = Inr s2" using ap(1) by (simp add: s2_def)
  have e2: "fld s2 ''diagnostics'' ''last_error'' = PStr (exc_text exc)"
    using e1 by (simp add: s2_def fld_normalize_diagnostics fld_updated [OF tidy_empty [OF t]] empty_updates_keep_error [OF t])
  have l2: "load w s2 = Inr s2"
    using validator.from_dict_again [OF v validator.from_dict_keep [OF v ap(2), of ?e]] by (simp add: load_def s2_def)
  obtain s3 where s3: "record_stage_status (ne_coerce w) ?e s2 target ''failed'' = Inr s3"
    using record_stage_status_effect [OF v l2 [unfolded load_def]] by blast
  have w2: "well_typed ?e s2" using validator.from_dict_result [OF v l2 [unfolded load_def]] by simp
  have "fld s3 ''diagnostics'' ''last_error'' = fld s2 ''diagnostics'' ''last_error''"
    using s3 validator.from_dict_keep [OF v record_writes_typed [OF w2], of ?e target "''failed''"]
    by (auto simp: record_stage_status_def Let_def fld_normalize_diagnostics)
  moreover have "register_stage_result w target r st = Inr (set_status ''needs_recovery'' s3)"
    using reg s2 l2 s3 plain(1) translate_empty [OF t plain(2,3)] by (simp add: register_stage_result_def)
  ultimately show ?thesis using e2 by (simp add: node_writes)
qed

lemma exception_action:
  assumes "validator (ne_coerce w)" "well_typed (ne_env w) st" "target \<in> set tool_names"
    and "family \<in> set ActionFamily" "exc_text exc \<noteq> []"
    and "io_bind (io_lift (validate_stage_dependencies st target)) (\<lambda>_. run_stage_tool w target st) f = (g, Inl exc)"
    and r: "r = exception_result g (fld_text st ''execution'' ''workdir'') target exc"
  shows "\<exists>s1 obs. stage_action w round_id family target st f = (g, Inr (note_failure family target r s1, obs))
    \<and> register_stage_result w target r st = Inr s1 \<and> fld s1 ''diagnostics'' ''last_error'' = PStr (exc_text exc)
    \<and> dget0 obs ''status'' = PStr ''failed'' \<and> dget0 obs ''error_summary'' = PStr (exc_text exc)"
proof -
  have at: "attempt_stage w target st f = (g, r)" using assms(6) by (simp add: attempt_stage_def r)
  have fail: "\<not> tool_success r" by (simp add: r exception_result_def plain_result_def tool_success_def)
  obtain s1 where s1: "register_stage_result w target r st = Inr s1" "fld s1 ''diagnostics'' ''last_error'' = PStr (exc_text exc)"
    using register_exception [OF assms(1-3) r assms(5)] by blast
  have "good_report (report_of_result r)"
    by (simp add: r report_of_result_def good_report_def reported_def exception_result_def plain_result_def dump_evidence_def entries_def)
  then obtain obs where obs: "observe w (note_failure family target r s1) round_id family (Some target) (report_of_result r) = Inr obs"
      "dget0 obs ''status'' = PStr (ro_status (report_of_result r))" "dget0 obs ''error_summary'' = opt_str (ro_error (report_of_result r))"
    using build_observation [OF assms(1,4)] unfolding observe_def by blast
  have "stage_action w round_id family target st f = (g, Inr (note_failure family target r s1, obs))"
    using s1(1) obs(1) fail at by (simp add: stage_action_def io_bind_def io_lift_def io_return_def export_when_def Let_def)
  moreover have "dget0 obs ''status'' = PStr ''failed''" "dget0 obs ''error_summary'' = PStr (exc_text exc)"
    using obs(2,3) by (simp_all add: r report_of_result_def reported_def exception_result_def plain_result_def opt_str_def)
  ultimately show ?thesis using s1 by blast
qed


text \<open>A path of the contract table names a field of the state.\<close>

lemma nested_field:
  assumes "well_typed e st" "map_of (MaterialTaskState e) s \<noteq> None" "split_str ''.'' path = [s, k]"
  shows "nested_get st path = fld st s k"
proof -
  have "dget0 st s = PDict (sec st s)" using section_present [OF assms(1,2)] by (simp add: dget0_def dget_def)
  then show ?thesis by (simp add: nested_get_def assms(3) fld_def)
qed

lemma missing_input:
  assumes "well_typed e st" "map_of (MaterialTaskState e) s \<noteq> None" "split_str ''.'' path = [s, k]"
    and "get_stage_contract stage = Inr c" "path \<in> set (sc_required_inputs c)" "is_missing (fld st s k)"
  shows "\<exists>t. validate_stage_dependencies st stage = Inl (StageDependencyError t) \<and> t \<noteq> []"
proof -
  have "path \<in> set (filter (\<lambda>p. is_missing (nested_get st p)) (sc_required_inputs c))"
    using assms(5,6) nested_field [OF assms(1-3)] by simp
  then have "filter (\<lambda>p. is_missing (nested_get st p)) (sc_required_inputs c) \<noteq> []" by force
  then show ?thesis by (simp add: validate_stage_dependencies_def assms(4))
qed

text \<open>An SCF run before the relaxation.\<close>

lemma early_scf:
  "\<exists>st t. well_typed demo_env st
     \<and> io_bind (io_lift (validate_stage_dependencies st ''scf'')) (\<lambda>_. run_stage_tool demo_node ''scf'' st) []
         = ([], Inl (StageDependencyError t)) \<and> t \<noteq> []"
proof -
  obtain st0 where "from_dict strict_coerce demo_env [] = Inr st0" using default_loads by blast
  then have "well_typed demo_env st0" using validator.from_dict_result [OF strict.validator_axioms] by blast
  moreover have "ftype_of demo_env ''physics_results'' ''relaxed_structure_path'' = Some TOptStr"
    by (simp add: ftype_of_def MaterialTaskState_def section_defs)
  ultimately have w: "well_typed demo_env (set_fld ''physics_results'' ''relaxed_structure_path'' PNone st0)" (is "well_typed _ ?st")
    by (rule well_typed_set_fld) simp
  have "\<exists>t. validate_stage_dependencies ?st ''scf'' = Inl (StageDependencyError t) \<and> t \<noteq> []"
  proof (rule missing_input [OF w])
    show "map_of (MaterialTaskState demo_env) ''physics_results'' \<noteq> None" by (simp add: MaterialTaskState_def)
    show "split_str ''.'' ''physics_results.relaxed_structure_path'' = [''physics_results'', ''relaxed_structure_path'']" by code_simp
    show "get_stage_contract ''scf'' = Inr (snd (STAGE_CONTRACTS ! 2))" by (simp add: get_stage_contract_def STAGE_CONTRACTS_def)
    show "''physics_results.relaxed_structure_path'' \<in> set (sc_required_inputs (snd (STAGE_CONTRACTS ! 2)))"
      by (simp add: STAGE_CONTRACTS_def)
    show "is_missing (fld ?st ''physics_results'' ''relaxed_structure_path'')" by (simp add: is_missing_def)
  qed
  with w show ?thesis by (auto simp: io_bind_def io_lift_def)
qed


theorem stage_outcome_recorded_witness:
  "\<exists>st s obs. stage_action demo_node 1 ''run_capability'' ''scf'' st [] = ([], Inr (s, obs))
     \<and> fld s ''workflow'' ''current_stage'' = PStr ''scf''"
proof -
  have v: "validator (ne_coerce demo_node)" "ne_env demo_node = demo_env"
    using strict.validator_axioms by (simp_all add: demo_node_def)
  obtain st t where st: "well_typed (ne_env demo_node) st" "exc_text (StageDependencyError t) \<noteq> []"
    "io_bind (io_lift (validate_stage_dependencies st ''scf'')) (\<lambda>_. run_stage_tool demo_node ''scf'' st) []
       = ([], Inl (StageDependencyError t))"
    using early_scf v(2) by auto
  have "''scf'' \<in> set tool_names" "''run_capability'' \<in> set ActionFamily"
    by (simp_all add: tool_names_def ActionFamily_def)
  from exception_action [OF v(1) st(1) this st(2,3) refl] obtain s obs where
    "stage_action demo_node 1 ''run_capability'' ''scf'' st [] = ([], Inr (s, obs))" by blast
  from stage_outcome_recorded [OF v(1) this refl] this show ?thesis by blast
qed

section \<open>A failed stage and the contract of the next\<close>

text \<open>The keys of the masses are written even when there are no masses, so after a failure of the
  effective masses the dict is not empty, and it is no missing input for the mobility.\<close>

theorem failed_masses_satisfy_contract:
  "update_at (empty_updates ''effective_mass'') ''physics_results'' ''masses'' = Some m \<Longrightarrow> \<not> is_missing m \<and> list_all (\<lambda>p. snd p = PNone) (entries m)"
  by (auto simp: empty_updates_def Let_def update_at_def entries_def is_missing_def mass_keys_def)

end
