(* ===== verification/Context.thy ===== *)
theory Context
  imports State_Reads
begin

text \<open>
  The context of a prompt (mobility_agent/agents/context_engineering.py): how values are cut to size
  (\<open>truncate_text\<close>, \<open>recent\<close>, \<open>compact_scalar\<close>), the summaries of messages, and
  \<open>build_llm_context_summary\<close>, the view of a state that every agent of the council is given in the
  part its role may see. The result is a new dict, the state is not changed.
\<close>

section \<open>Cutting values to size\<close>

definition recent :: "nat \<Rightarrow> py list \<Rightarrow> py list" where
  "recent limit xs = drop (length xs - limit) xs"

definition truncate_text :: "nat \<Rightarrow> py \<Rightarrow> string" where
  "truncate_text limit v =
     (let t = py_strip (py_str (py_or v (PStr [])))
      in if length t \<le> limit then t
         else take limit t @ ''...[+'' @ show_int (int (length t - limit)) @ '' chars]'')"

fun compact_scalar :: "py \<Rightarrow> py" where
  "compact_scalar (PStr s) = PStr (truncate_text 240 (PStr s))"
| "compact_scalar (PList xs) =
     (let ys = map compact_scalar xs
      in PList (if length ys \<le> 4 then ys else take 2 ys @ [PStr ''...''] @ drop (length ys - 1) ys))"
| "compact_scalar (PDict d) =
     (let d' = map (\<lambda>(k, v). (k, compact_scalar v)) d; cut = take 6 d'
      in PDict (if length d' \<le> 6 then cut else dset cut ''_truncated_keys'' (PInt (int (length d') - 6))))"
| "compact_scalar v = v"

definition compact_dict :: "dict \<Rightarrow> py" where
  "compact_dict d = compact_scalar (PDict d)"

text \<open>\<open>_truncate_text(d.get(k), limit=n)\<close>, and with \<open>or None\<close>.\<close>

definition cut_text :: "nat \<Rightarrow> dict \<Rightarrow> string \<Rightarrow> py" where
  "cut_text n d k = PStr (truncate_text n (dget0 d k))"

definition cut_or_none :: "nat \<Rightarrow> dict \<Rightarrow> string \<Rightarrow> py" where
  "cut_or_none n d k = opt_str (let t = truncate_text n (dget0 d k) in if t = [] then None else Some t)"

definition picked :: "dict \<Rightarrow> string list \<Rightarrow> dict" where
  "picked d ks = map (\<lambda>k. (k, dget0 d k)) ks"

definition recent_of :: "nat \<Rightarrow> dict \<Rightarrow> string \<Rightarrow> string \<times> py" where
  "recent_of n d k = (k, PList (recent n (sub_list d k)))"

definition compact_of :: "dict \<Rightarrow> string \<Rightarrow> string \<times> py" where
  "compact_of d k = (k, compact_dict (sub_dict d k))"

definition flag_of :: "dict \<Rightarrow> string \<Rightarrow> string \<times> py" where
  "flag_of d k = (k, PBool (truthy (dget0 d k)))"

section \<open>Summaries\<close>

definition task_capabilities :: "py list \<Rightarrow> string list" where
  "task_capabilities xs =
     filter (\<lambda>c. c \<noteq> []) (map (\<lambda>x. case x of PDict d \<Rightarrow> py_strip (get_str d ''capability'')
                                     | v \<Rightarrow> py_strip (py_str (py_or v (PStr [])))) xs)"

definition compact_latest_observation :: "dict \<Rightarrow> dict" where
  "compact_latest_observation st =
     (let own = sub_dict (sub_dict st ''execution'') ''latest_execution_observation'';
          latest = (if own = [] then sub_dict (sub_dict st ''blackboard'') ''latest_execution_observation'' else own)
      in picked latest [''status'', ''action_family'', ''target_capability'']
         @ [(''error_summary'', cut_or_none 320 latest ''error_summary''), compact_of latest ''result_summary'',
            compact_of latest ''artifact_paths''])"

definition compact_results_by_direction :: "dict \<Rightarrow> dict" where
  "compact_results_by_direction results =
     map (\<lambda>(direction, payload).
       let d = entries payload; e = sub_dict d ''electron''; h = sub_dict d ''hole''
       in (direction, PDict (picked d [''n_points'', ''elastic_modulus_C2D_J_m2'']
            @ [(''electron_mobility_cm2_Vs'', dget0 e ''mobility_cm2_Vs''), (''hole_mobility_cm2_Vs'', dget0 h ''mobility_cm2_Vs''),
               (''electron_E1_fit_R2'', dget0 e ''E1_fit_R2''), (''hole_E1_fit_R2'', dget0 h ''E1_fit_R2'')]))) results"

definition summaries :: "(dict \<Rightarrow> dict) \<Rightarrow> py list \<Rightarrow> py list" where
  "summaries f xs = map (\<lambda>x. PDict (f (entries x))) xs"

definition summarize_selected_actions :: "py list \<Rightarrow> py list" where
  "summarize_selected_actions actions =
     summaries (\<lambda>p. picked p [''action_family'', ''target_capability'', ''selected_skill'']
       @ [compact_of p ''parameters'', (''rationale'', cut_text 240 p ''rationale''), recent_of 3 p ''fallback_if_failed'',
          (''source_proposal_id'', dget0 p ''source_proposal_id'')]) (recent 2 actions)"

definition whether_flags :: "dict \<Rightarrow> dict" where
  "whether_flags p = map (flag_of p) [''whether_noop'', ''whether_waiting_external'', ''whether_ready_to_finalize'']"

definition summarize_arbitrations :: "py list \<Rightarrow> py list" where
  "summarize_arbitrations xs =
     summaries (\<lambda>p. [(''selected_proposal_id'', dget0 p ''selected_proposal_id''), recent_of 5 p ''guardrail_notes'',
          (''rationale'', cut_text 240 p ''rationale''), recent_of 5 p ''disagreement_summary''] @ whether_flags p) (recent 2 xs)"

definition summarize_reflections :: "py list \<Rightarrow> py list" where
  "summarize_reflections xs =
     summaries (\<lambda>p. [compact_of p ''selected_action'', recent_of 4 p ''tradeoff_summary'',
          (''failure_pattern'', cut_or_none 200 p ''failure_pattern''),
          (''continue_deliberation'', PBool (truthy (dget p ''continue_deliberation'' (PBool True))))]) (recent 1 xs)"

definition summarize_disagreement_records :: "py list \<Rightarrow> py list" where
  "summarize_disagreement_records xs =
     summaries (\<lambda>p. [(''round_id'', dget0 p ''round_id''), (''pattern'', cut_text 200 p ''pattern''), compact_of p ''selected_action''])
       (recent 1 xs)"

definition summarize_memory_patterns :: "py list \<Rightarrow> py list" where
  "summarize_memory_patterns xs =
     summaries (\<lambda>p. [(''stage'', dget0 p ''stage''), (''error_summary'', cut_text 180 p ''error_summary''),
          (''decision'', dget0 p ''decision''), (''pattern'', cut_text 180 p ''pattern'')]) (recent 3 xs)"

text \<open>The last entries, when a limit is given.\<close>

definition limited :: "nat option \<Rightarrow> py list \<Rightarrow> py list" where
  "limited limit xs = (case limit of None \<Rightarrow> xs | Some n \<Rightarrow> recent n xs)"

definition summarize_proposals :: "nat option \<Rightarrow> py list \<Rightarrow> py list" where
  "summarize_proposals limit xs =
     summaries (\<lambda>p. let content = sub_dict p ''content'' in
        picked p [''proposal_id'', ''agent_name'', ''action_family'', ''target_capability'', ''selected_skill'']
        @ [compact_of p ''parameters'', (''rationale'', cut_text 320 p ''rationale''),
           (''expected_observation'', cut_text 220 p ''expected_observation''), recent_of 4 p ''success_criteria'',
           recent_of 3 p ''fallback_if_failed'']
        @ picked p [''cost_estimate'', ''risk_estimate'', ''confidence''] @ picked content [''cost_class'', ''risk_class'']
        @ map (flag_of p) [''submit_external_job'', ''wait_for_event_after_submission'']) (limited limit xs)"

definition summarize_critiques :: "nat option \<Rightarrow> py list \<Rightarrow> py list" where
  "summarize_critiques limit xs =
     summaries (\<lambda>p. picked p [''proposal_id'', ''agent_name'', ''stance'']
        @ [recent_of 4 p ''concerns'', (''recommendation'', cut_text 220 p ''recommendation''), (''confidence'', dget0 p ''confidence'')])
       (limited limit xs)"

definition summarize_preferences :: "nat option \<Rightarrow> py list \<Rightarrow> py list" where
  "summarize_preferences limit xs =
     summaries (\<lambda>p. picked p [''preferred_proposal_id'', ''agent_name'', ''preference_strength'']
        @ [(''reason'', cut_text 220 p ''reason''), (''confidence'', dget0 p ''confidence'')]) (limited limit xs)"

definition summarize_guardrail_context :: "dict \<Rightarrow> dict" where
  "summarize_guardrail_context p =
     (let c = sub_dict p ''content'';
          content = [recent_of 8 c ''legal_proposal_ids'', (''guardrail_preferred_proposal_id'', dget0 c ''guardrail_preferred_proposal_id''),
                     compact_of c ''objection_counts'', compact_of c ''support_counts'', compact_of c ''preference_strengths'',
                     recent_of 8 c ''supported_agent_opinions'']
      in dmerge ([(''selected_proposal_id'', dget0 p ''selected_proposal_id''), recent_of 8 p ''guardrail_notes'',
                  recent_of 8 p ''rejected_proposals'', (''rationale'', cut_text 240 p ''rationale'')] @ whether_flags p
                 @ [(''content'', PDict content)]) content)"

section \<open>The context of a state\<close>

definition strain_points_by_direction :: "py list \<Rightarrow> dict" where
  "strain_points_by_direction xs =
     foldl (\<lambda>counts x.
       let direction = py_strip (get_str (entries x) ''direction'')
       in if direction = [] then counts else dset counts direction (PInt (int_or0 (dget counts direction (PInt 0)) + 1))) [] xs"

definition mission_view :: "dict \<Rightarrow> dict" where
  "mission_view st =
     (let task = sub_dict st ''task''; material = sub_dict st ''material''
      in picked task [''task_id'', ''task_type''] @ [(''user_goal'', cut_text 220 task ''user_goal'')]
         @ picked material [''material_id'', ''composition''] @ [flag_of task ''dry_run''])"

definition workflow_view :: "dict \<Rightarrow> dict \<Rightarrow> dict" where
  "workflow_view st status =
     (let workflow = sub_dict st ''workflow''
      in picked workflow [''current_stage'', ''run_status'', ''wait_reason'', ''termination_reason'']
         @ [recent_of 6 workflow ''completed_stages'', compact_of workflow ''stage_status'', compact_of workflow ''retry_counts'']
         @ picked workflow [''retry_budget'', ''refinement_rounds'', ''max_refinement_rounds'']
         @ picked status [''next_pending_capability''])"

definition board_view :: "dict \<Rightarrow> dict" where
  "board_view st =
     map (\<lambda>(name, k). (name, str_list (task_capabilities (sub_list (sub_dict st ''task_board'') k))))
       [(''pending_capabilities'', ''pending_tasks''), (''active_capabilities'', ''active_tasks''),
        (''blocked_capabilities'', ''blocked_tasks''), (''completed_capabilities'', ''completed_tasks''),
        (''abandoned_capabilities'', ''abandoned_tasks'')]"

definition physics_view :: "dict \<Rightarrow> dict \<Rightarrow> dict" where
  "physics_view st observation =
     (let physics = sub_dict st ''physics_results''; diagnostics = sub_dict st ''diagnostics''; blackboard = sub_dict st ''blackboard'';
          flags = (\<lambda>k. (k, PList (py_dedupe (sub_list observation k @ sub_list blackboard k))))
      in [(''accepted_channels'', PList (sub_list physics ''accepted_channels'')),
          (''rejected_channels'', PList (sub_list physics ''rejected_channels'')),
          (''fit_quality'', dget0 observation ''fit_quality''),
          (''confidence_score'', dget observation ''confidence_score'' (dget0 diagnostics ''confidence_score'')),
          flags ''anomaly_flags'', flags ''risk_flags'',
          (''strain_points_by_direction'', PDict (strain_points_by_direction (sub_list physics ''strain_data''))),
          (''results_by_direction'', PDict (compact_results_by_direction (sub_dict (sub_dict physics ''results'') ''results_by_direction'')))])"

definition diagnostics_view :: "dict \<Rightarrow> dict" where
  "diagnostics_view st =
     (let diagnostics = sub_dict st ''diagnostics''; report = sub_dict diagnostics ''validation_report'';
          recovery = sub_dict diagnostics ''recovery_summary''
      in [(''last_error'', cut_or_none 240 diagnostics ''last_error''), (''validation_decision'', dget0 report ''decision''),
          (''validation_failed_checks'', PList (sub_list report ''failed_checks'')),
          (''validation_warning_count'', PInt (int (length (sub_list report ''warnings'')))),
          (''validation_fit_metrics'', compact_dict (sub_dict report ''fit_metrics'')),
          (''recovery_summary'', PDict
             [(''stage'', py_or (dget0 recovery ''stage'') (dget0 recovery ''current_stage'')),
              (''error_type'', dget0 recovery ''error_type''), (''error_summary'', cut_or_none 220 recovery ''error_summary'')])])"

definition contract_view :: "dict \<Rightarrow> dict" where
  "contract_view st =
     (let contract = sub_dict (sub_dict st ''services'') ''workflow_contract''
      in picked contract [''contract_id'', ''version'', ''council_mode'', ''deliberation_reason'', ''current_focus'']
         @ [recent_of 6 contract ''planned_capabilities'', recent_of 4 contract ''milestones''])"

definition deliberation_view :: "dict \<Rightarrow> dict" where
  "deliberation_view st =
     (let d = sub_dict st ''deliberation''
      in [(''selected_actions'', PList (summarize_selected_actions (sub_list d ''selected_actions''))),
          (''arbitrations'', PList (summarize_arbitrations (sub_list d ''arbitrations''))),
          (''reflections'', PList (summarize_reflections (sub_list d ''reflections''))),
          (''disagreement_records'', PList (summarize_disagreement_records (sub_list d ''disagreement_records'')))])"

definition memory_view :: "dict \<Rightarrow> dict" where
  "memory_view st =
     map (\<lambda>k. (k, PList (summarize_memory_patterns (sub_list (sub_dict st ''memory'') k))))
       [''recovered_case_patterns'', ''validation_case_patterns'', ''historical_failures'']"

definition build_llm_context_summary :: "dict \<Rightarrow> dict \<Rightarrow> dict \<Rightarrow> dict" where
  "build_llm_context_summary st status observation =
     [(''mission'', PDict (mission_view st)), (''workflow'', PDict (workflow_view st status)), (''task_board'', PDict (board_view st)),
      (''latest_execution_observation'', PDict (compact_latest_observation st)),
      (''physics_signals'', PDict (physics_view st observation)), (''diagnostics'', PDict (diagnostics_view st)),
      (''contract_summary'', PDict (contract_view st)), (''recent_deliberation'', PDict (deliberation_view st)),
      (''memory_hints'', PDict (memory_view st))]"

definition fields_by_role :: "(string \<times> string list) list" where
  "fields_by_role =
     (let m = ''mission''; w = ''workflow''; b = ''task_board''; l = ''latest_execution_observation''; p = ''physics_signals'';
          d = ''diagnostics''; c = ''contract_summary''; r = ''recent_deliberation''
      in [(''planner'', [m, w, b, l, p, d, c, r]), (''recovery'', [m, w, b, l, d, c, r, ''memory_hints'']),
          (''critic'', [m, w, l, d, c, r]), (''physics_judge'', [m, w, l, p, d, c, r]), (''cost_guardian'', [m, w, l, d, c, r]),
          (''orchestrator'', [m, w, l, p, d, c, r]), (''reporter'', [m, w, b, l, p, d, c, r])])"

definition role_fields :: "string \<Rightarrow> string list" where
  "role_fields role =
     (case map_of fields_by_role (py_lower (py_strip (if role = [] then ''specialist'' else role))) of
        Some fs \<Rightarrow> fs | None \<Rightarrow> [''mission'', ''workflow'', ''latest_execution_observation'', ''diagnostics''])"

definition select_role_context :: "dict \<Rightarrow> string \<Rightarrow> dict" where
  "select_role_context summary role = map (\<lambda>k. (k, PDict (sub_dict summary k))) (role_fields role)"

section \<open>Properties of the context\<close>

text \<open>Text of at most 240 characters and its marker, at most four entries of a list, at most seven of a dict,
at every depth.\<close>

fun compacted :: "py \<Rightarrow> bool" where
  "compacted (PStr s) \<longleftrightarrow> length s \<le> 240 \<or> (\<exists>t n. s = t @ ''...[+'' @ show_int (int n) @ '' chars]'' \<and> length t = 240 \<and> 0 < n)"
| "compacted (PList xs) \<longleftrightarrow> length xs \<le> 4 \<and> list_all compacted xs"
| "compacted (PDict d) \<longleftrightarrow> length d \<le> 7 \<and> list_all (\<lambda>(k, v). compacted v) d"
| "compacted v \<longleftrightarrow> True"

lemma length_dset: "length (dset d k v) \<le> Suc (length d)"
  by (induction d) (auto simp: dset_def)

lemma set_dset: "set (dset d k v) \<subseteq> insert (k, v) (set d)"
  by (induction d) (auto simp: dset_def)

lemma truncated: "compacted (PStr (truncate_text 240 v))"
proof -
  let ?t = "py_strip (py_str (py_or v (PStr [])))"
  show ?thesis
  proof (cases "length ?t \<le> 240")
    case False
    then show ?thesis
      by (auto simp: truncate_text_def Let_def intro!: exI [of _ "take 240 ?t"] exI [of _ "length ?t - 240"])
  qed (simp add: truncate_text_def Let_def)
qed

text \<open>A value is compacted at every depth: whatever it is, what goes into the prompt has texts of at most
  240 characters and a marker, lists of at most four entries and dicts of at most seven.\<close>

theorem compact_scalar_bounded: "compacted (compact_scalar v)"
proof (induction v rule: compact_scalar.induct)
  case (1 s)
  show ?case using truncated by simp
next
  case (2 xs)
  have dots: "compacted (PStr ''...'')" by simp
  have all: "list_all compacted (map compact_scalar xs)" using 2 by (simp add: list_all_iff)
  show ?case
  proof (cases "length xs \<le> 4")
    case False
    have "list_all compacted (take 2 (map compact_scalar xs))" "list_all compacted (drop n (map compact_scalar xs))" for n
      using all by (auto simp: list_all_iff dest: in_set_takeD in_set_dropD simp del: set_map)
    with False dots show ?thesis by (simp add: Let_def)
  qed (use all in \<open>simp add: Let_def\<close>)
next
  case (3 d)
  let ?d = "map (\<lambda>(k, v). (k, compact_scalar v)) d"
  let ?n = "PInt (int (length ?d) - 6)"
  have all: "list_all (\<lambda>(k, v). compacted v) (take 6 ?d)" using 3 by (auto simp: list_all_iff dest!: in_set_takeD)
  have "list_all (\<lambda>(k, v). compacted v) (dset (take 6 ?d) ''_truncated_keys'' ?n)"
    using all set_dset [of "take 6 ?d" "''_truncated_keys''" ?n] by (auto simp: list_all_iff)
  moreover have "length (dset (take 6 ?d) ''_truncated_keys'' ?n) \<le> 7"
    using length_dset [of "take 6 ?d" "''_truncated_keys''" ?n] by simp
  ultimately show ?case using all by (cases "length d \<le> 6") (simp_all add: Let_def)
qed simp_all

lemma role_table:
  "list_all (\<lambda>(r, fs). (''memory_hints'' \<in> set fs \<longrightarrow> r = ''recovery'')
      \<and> set fs \<subseteq> set (map fst (build_llm_context_summary [] [] []))) fields_by_role"
  by code_simp

lemma summary_keys: "map fst (build_llm_context_summary st status observation) = map fst (build_llm_context_summary [] [] [])"
  by (simp add: build_llm_context_summary_def)

lemma summary_values:
  "k \<in> set (map fst (build_llm_context_summary st status observation)) \<Longrightarrow>
   is_dict (dget0 (build_llm_context_summary st status observation) k)"
  by (auto simp: build_llm_context_summary_def dget0_def dget_def is_dict_def)

lemma role_fields_known:
  "''memory_hints'' \<in> set (role_fields role) \<Longrightarrow> py_lower (py_strip role) = ''recovery''"
  "set (role_fields role) \<subseteq> set (map fst (build_llm_context_summary st status observation))"
proof -
  let ?r = "py_lower (py_strip (if role = [] then ''specialist'' else role))"
  have d: "''memory_hints'' \<notin> set [''mission'', ''workflow'', ''latest_execution_observation'', ''diagnostics'']"
    "set [''mission'', ''workflow'', ''latest_execution_observation'', ''diagnostics''] \<subseteq> set (map fst (build_llm_context_summary [] [] []))"
    by code_simp+
  have t: "(''memory_hints'' \<in> set fs \<longrightarrow> ?r = ''recovery'') \<and> set fs \<subseteq> set (map fst (build_llm_context_summary [] [] []))"
    if "map_of fields_by_role ?r = Some fs" for fs
    using role_table map_of_SomeD [OF that] unfolding list_all_iff by fastforce
  have n: "py_lower (py_strip ''specialist'') \<noteq> ''recovery''" by code_simp
  show "set (role_fields role) \<subseteq> set (map fst (build_llm_context_summary st status observation))"
    using t d(2) unfolding role_fields_def summary_keys [of st] by (cases "map_of fields_by_role ?r") (simp_all only: option.case)
  assume "''memory_hints'' \<in> set (role_fields role)"
  then have "?r = ''recovery''"
    using t d(1) unfolding role_fields_def by (cases "map_of fields_by_role ?r") (simp_all only: option.case)
  with n show "py_lower (py_strip role) = ''recovery''" by (cases "role = []") simp_all
qed

lemma select_role_context_at:
  "dget0 (select_role_context summary role) k = (if k \<in> set (role_fields role) then PDict (sub_dict summary k) else PNone)"
  by (auto simp: select_role_context_def dget0_def dget_def map_of_map_restrict restrict_map_def)

text \<open>A role sees its part of the context and nothing else: memory hints reach only the recovery agent,
  and every field a role sees is the one of the summary.\<close>

theorem role_context_scoped:
  fixes st status observation role
  defines "summary \<equiv> build_llm_context_summary st status observation"
  shows "dget0 (select_role_context summary role) k
      = (if k \<in> set (role_fields role) then dget0 summary k else PNone)
    \<and> (''memory_hints'' \<in> set (role_fields role) \<longrightarrow> py_lower (py_strip role) = ''recovery'')"
proof -
  have "PDict (sub_dict summary k) = dget0 summary k" if "k \<in> set (role_fields role)"
  proof -
    have "is_dict (dget0 summary k)" using role_fields_known(2) summary_values that unfolding summary_def by blast
    then show ?thesis by (auto simp: is_dict_def sub_dict_def entries_def split: py.splits)
  qed
  then show ?thesis using select_role_context_at role_fields_known(1) by simp
qed

theorem role_context_scoped_witness:
  "dget0 (select_role_context (build_llm_context_summary [] [] []) ''critic'') ''memory_hints'' = PNone"
proof -
  have "''memory_hints'' \<notin> set (role_fields ''critic'')" by code_simp
  then show ?thesis using role_context_scoped [of "[]" "[]" "[]" "''critic''" "''memory_hints''"] by simp
qed

end
