(* ===== verification/Orchestrator.thy ===== *)
theory Orchestrator
  imports Node_Facts Context "HOL-Library.Product_Lexorder"
begin

text \<open>
  The arbitration of a round (mobility_agent/agents/orchestrator.py).

  Proposals of the agents are put into canonical form, checked for legality, counted for and against,
  and handed to the language model of the orchestrator, which names one of them, overrides them with an
  action of its own, or names nothing. What it answers is a parameter, \<open>ask\<close>: any dict or an exception.

  \<^item> \<open>canonicalize_action_parameters\<close>, \<open>canonicalize_proposal\<close>, \<open>canonicalize_selected_action\<close>,
    \<open>canonicalize_override\<close>: the canonical forms with the notes they leave.
  \<^item> \<open>guardrail_arbitration\<close>: the record without a selection, its content the index of legality, the counts
    and the proposal the guardrail prefers.
  \<^item> \<open>arbitrate\<close>: the choice, and the record of the round.

  A proposal, critique or preference is the dict of its message class (\<open>Messages\<close>); a record is the
  dict of \<open>ArbitrationRecord\<close> beside the action it selects.
\<close>

section \<open>Canonical proposals\<close>

definition LOCAL_EXECUTION_ACTION_FAMILIES :: "string list" where
  "LOCAL_EXECUTION_ACTION_FAMILIES =
     [''run_capability'', ''retry_capability'', ''rerun_from_capability'', ''refine_sampling'', ''revalidate_result'',
      ''finalize_material'', ''abort_material'', ''skip_channel'', ''invalidate_channel'']"

definition channel_families :: "string list" where
  "channel_families = [''invalidate_channel'', ''skip_channel'']"

definition channel_aliases :: "string list" where
  "channel_aliases = [''channels_to_invalidate'', ''channels_to_skip'', ''channels'', ''target_directions'', ''directions'']"

definition canonicalize_action_parameters :: "string \<Rightarrow> dict \<Rightarrow> (dict \<times> bool) res" where
  "canonicalize_action_parameters family params =
     (if family \<notin> set channel_families then Inr (params, False)
      else
        (let raw = requested_channels family params
         in bindR (to_list (py_or (if is_str raw then PList [raw] else raw) (PList []))) (\<lambda>xs.
            let target_channels = filter (\<lambda>s. s \<noteq> []) (map (py_strip \<circ> py_str) xs);
                named = (if target_channels \<noteq> [] then dset params ''target_channels'' (str_list target_channels) else params);
                normalized = filter (\<lambda>p. fst p \<notin> set channel_aliases) named
            in Inr (normalized, \<not> py_eq (PDict normalized) (PDict params)))))"

definition flag_set :: "dict \<Rightarrow> string \<Rightarrow> bool" where
  "flag_set d k \<longleftrightarrow> truthy (dget0 d k)"

definition canonicalize_proposal :: "dict \<Rightarrow> (dict \<times> string list) res" where
  "canonicalize_proposal p =
     (let family = get_str p ''action_family'' in
      if family \<notin> set LOCAL_EXECUTION_ACTION_FAMILIES then Inr (p, [])
      else
        bindR (get_dict p ''parameters'') (\<lambda>params.
        bindR (canonicalize_action_parameters family params) (\<lambda>c.
        let submits = flag_set p ''submit_external_job''; waits = flag_set p ''wait_for_event_after_submission'';
            note = (\<lambda>k. ''canonicalized_proposal:'' @ k)
        in Inr (dmerge p (on submits (''submit_external_job'', PBool False) @ on waits (''wait_for_event_after_submission'', PBool False)
                          @ on (snd c) (''parameters'', PDict (fst c))),
                on submits (note ''submit_external_job'') @ on waits (note ''wait_for_event_after_submission'')
                @ on (snd c) (note ''parameters'')))))"

definition selected_action_from_proposal :: "coercion \<Rightarrow> string list \<Rightarrow> dict \<Rightarrow> dict res" where
  "selected_action_from_proposal coerce opinions p =
     bindR (get_dict p ''parameters'') (\<lambda>params.
     bindR (canonicalize_action_parameters (get_str p ''action_family'') params) (\<lambda>c.
     let content = sub_dict p ''content'' in
     selected_action coerce
       [(''action_family'', dget0 p ''action_family''), (''target_capability'', dget0 p ''target_capability''),
        (''selected_skill'', dget0 p ''selected_skill''), (''parameters'', PDict (fst c)),
        (''source_proposal_id'', dget0 p ''proposal_id''), (''rationale'', dget0 p ''rationale''),
        (''cost_class'', PStr (str_default content ''cost_class'' ''medium'')),
        (''risk_class'', PStr (str_default content ''risk_class'' ''medium'')),
        (''expected_observation'', dget0 p ''expected_observation''), (''success_criteria'', dget0 p ''success_criteria''),
        (''fallback_if_failed'', dget0 p ''fallback_if_failed''),
        (''submit_external_job'', PBool (flag_set p ''submit_external_job'')),
        (''wait_for_event_after_submission'', PBool (flag_set p ''wait_for_event_after_submission'')),
        (''supporting_agent_opinions'', str_list opinions)]))"

text \<open>What the answer may say about the proposal it selects: texts and criteria, not the action itself.\<close>

definition differing :: "dict \<Rightarrow> dict \<Rightarrow> string \<Rightarrow> string list" where
  "differing parsed canonical k =
     on (get_str parsed k \<noteq> get_str canonical k) (''canonicalized_selected_action:'' @ k)"

definition differing_flag :: "dict \<Rightarrow> dict \<Rightarrow> string \<Rightarrow> string list" where
  "differing_flag parsed canonical k =
     on (flag_set parsed k \<noteq> flag_set canonical k) (''canonicalized_selected_action:'' @ k)"

definition answer_overlay :: "string list \<Rightarrow> dict \<Rightarrow> dict" where
  "answer_overlay opinions parsed =
     (let text = (\<lambda>k. let t = py_strip (get_str parsed k) in on (t \<noteq> []) (k, PStr t));
          listed = (\<lambda>k. on (sub_list parsed k \<noteq> []) (k, PList (sub_list parsed k)))
      in [(''supporting_agent_opinions'', str_list opinions)] @ text ''rationale'' @ text ''expected_observation''
         @ listed ''success_criteria'' @ listed ''fallback_if_failed'' @ text ''cost_class'' @ text ''risk_class'')"

definition canonicalize_selected_action ::
  "coercion \<Rightarrow> dict list \<Rightarrow> string \<Rightarrow> dict option \<Rightarrow> string list \<Rightarrow> (dict \<times> string list) res" where
  "canonicalize_selected_action coerce proposals chosen parsed opinions =
     (case find (\<lambda>p. get_str p ''proposal_id'' = chosen) proposals of
        None \<Rightarrow> Inl (RuntimeError ''StopIteration'')
      | Some p \<Rightarrow>
          bindR (selected_action_from_proposal coerce opinions p) (\<lambda>canonical.
          case parsed of
            None \<Rightarrow> Inr (canonical, [])
          | Some action \<Rightarrow>
              bindR (get_dict action ''parameters'') (\<lambda>given.
              bindR (canonicalize_action_parameters (get_str canonical ''action_family'') given) (\<lambda>c.
              let params = (if snd c then fst c else given);
                  notes = on (py_strip (get_str action ''source_proposal_id'') \<notin> {[], chosen}) ''canonicalized_selected_action:source_proposal_id''
                    @ concat (map (differing action canonical) [''action_family'', ''target_capability'', ''selected_skill''])
                    @ on (\<not> py_eq (PDict params) (dget0 canonical ''parameters'')) ''canonicalized_selected_action:parameters''
                    @ concat (map (differing_flag action canonical) [''submit_external_job'', ''wait_for_event_after_submission''])
              in Inr (dmerge canonical (answer_overlay opinions action), notes)))))"

definition is_override :: "string \<Rightarrow> bool" where
  "is_override chosen \<longleftrightarrow> startswith (py_strip chosen) ''ORCHESTRATOR_OVERRIDE:''"

definition canonicalize_override :: "string list \<Rightarrow> dict \<Rightarrow> (dict \<times> string list) res" where
  "canonicalize_override opinions action =
     (let family = get_str action ''action_family''; own = [(''supporting_agent_opinions'', str_list opinions)];
          note = (\<lambda>k. ''canonicalized_override_selected_action:'' @ k)
      in if family \<notin> set LOCAL_EXECUTION_ACTION_FAMILIES then Inr (dmerge action own, [])
         else
           bindR (get_dict action ''parameters'') (\<lambda>params.
           bindR (canonicalize_action_parameters family params) (\<lambda>c.
           let submits = flag_set action ''submit_external_job''; waits = flag_set action ''wait_for_event_after_submission''
           in Inr (dmerge action (own @ on submits (''submit_external_job'', PBool False)
                     @ on waits (''wait_for_event_after_submission'', PBool False) @ on (snd c) (''parameters'', PDict (fst c))),
                   on submits (note ''submit_external_job'') @ on waits (note ''wait_for_event_after_submission'')
                   @ on (snd c) (note ''parameters'')))))"

section \<open>Records of an arbitration\<close>

definition ArbitrationRecord :: "env \<Rightarrow> schema" where
  "ArbitrationRecord e = message e (PStr []) [''arbitration''] [''agent_name'']
     [(''selected_proposal_id'', TOptStr, PNone),
      (''rejected_proposals'', TListStr, PList []),
      (''guardrail_notes'', TListStr, PList []),
      (''rationale'', TStr, PStr []),
      (''disagreement_summary'', TListStr, PList []),
      (''whether_noop'', TBool, PBool False),
      (''whether_waiting_external'', TBool, PBool False),
      (''whether_ready_to_finalize'', TBool, PBool False)]
     (strip_text ''rationale'' \<circ> dedupe_texts ''disagreement_summary'' \<circ> dedupe_texts ''guardrail_notes''
        \<circ> dedupe_texts ''rejected_proposals'')"

record arbitration =
  ar_record :: dict
  ar_action :: "dict option"

definition dump_arbitration :: "arbitration \<Rightarrow> dict" where
  "dump_arbitration r =
     concat (map (\<lambda>(k, v). (k, v) # on (k = ''selected_proposal_id'')
         (''selected_action'', case ar_action r of None \<Rightarrow> PNone | Some a \<Rightarrow> PDict a)) (ar_record r))"

definition arbitration_record :: "coercion \<Rightarrow> env \<Rightarrow> dict \<Rightarrow> int \<Rightarrow> dict option \<Rightarrow> dict \<Rightarrow> arbitration res" where
  "arbitration_record coerce e st round_id action own =
     bindR (construct coerce (ArbitrationRecord e)
       ([(''agent_name'', PStr ''orchestrator''), (''round_id'', PInt round_id), (''target_task_id'', PStr (fld_text st ''task'' ''task_id''))] @ own))
       (\<lambda>d. Inr \<lparr>ar_record = d, ar_action = action\<rparr>)"

record noop =
  no_rationale :: string
  no_notes :: "string list"
  no_waiting :: bool
  no_ready :: bool
  no_content :: dict

definition noop_record :: "coercion \<Rightarrow> env \<Rightarrow> dict \<Rightarrow> int \<Rightarrow> dict list \<Rightarrow> noop \<Rightarrow> arbitration res" where
  "noop_record coerce e st round_id proposals n =
     arbitration_record coerce e st round_id None
       [(''selected_proposal_id'', PNone), (''rejected_proposals'', str_list (map (\<lambda>p. get_str p ''proposal_id'') proposals)),
        (''guardrail_notes'', str_list (no_notes n)), (''rationale'', PStr (no_rationale n)), (''disagreement_summary'', PList []),
        (''whether_noop'', PBool True), (''whether_waiting_external'', PBool (no_waiting n)),
        (''whether_ready_to_finalize'', PBool (no_ready n)), (''content'', PDict (no_content n)),
        (''confidence'', PFloat (Fin (if no_waiting n \<or> no_ready n then 8 / 10 else 7 / 10)))]"

section \<open>The guardrail\<close>

definition opinion_of :: "dict \<Rightarrow> string" where
  "opinion_of d = get_str d ''agent_name'' @ '':'' @ (case map_of d ''stance'' of None \<Rightarrow> ''preference'' | Some v \<Rightarrow> py_str v)"

definition dump_execution_status :: "execution_status \<Rightarrow> dict" where
  "dump_execution_status v =
     (let ints = (\<lambda>m. PDict (map (\<lambda>(k, i). (k, PInt i)) m)); is_run = (\<lambda>x. PBool (es_run_status v = x))
      in [(''current_stage'', PStr (es_current_stage v)), (''run_status'', PStr (es_run_status v)), (''latest_status'', PStr (es_latest_status v)),
          (''pending_capabilities'', str_list (es_pending v)), (''active_capabilities'', str_list (es_active v)),
          (''completed_capabilities'', str_list (es_completed v)), (''blocked_capabilities'', str_list (es_blocked v)),
          (''abandoned_capabilities'', str_list (es_abandoned v)), (''retry_counts'', ints (es_retry_counts v)),
          (''retry_budget_remaining'', ints (es_retry_budget_remaining v)), (''refinement_rounds'', PInt (es_refinement_rounds v)),
          (''max_refinement_rounds'', PInt (es_max_refinement_rounds v)), (''next_pending_capability'', opt_str (es_next_pending v)),
          (''latest_error'', opt_str (es_latest_error v)), (''all_tasks_resolved'', PBool (es_all_tasks_resolved v)),
          (''waiting_external'', is_run ''waiting_external''), (''ready_to_finalize'', is_run ''ready_to_finalize''),
          (''needs_recovery'', is_run ''needs_recovery''), (''needs_human'', is_run ''needs_human''),
          (''wait_reason'', opt_str (es_wait_reason v)), (''external_jobs_pending'', str_list (es_external_jobs_pending v)),
          (''pending_event_count'', PInt (int (es_pending_event_count v)))])"

text \<open>The capability that failed last, its retries and the budget.\<close>

definition failing_capability :: "dict \<Rightarrow> execution_status \<Rightarrow> string" where
  "failing_capability st v =
     py_strip (py_str (py_or (dget0 (fld_dict st ''blackboard'' ''latest_execution_observation'') ''target_capability'')
       (PStr (str_or (es_next_pending v) []))))"

definition latest_failed :: "dict \<Rightarrow> bool" where
  "latest_failed st \<longleftrightarrow> get_str (fld_dict st ''blackboard'' ''latest_execution_observation'') ''status'' = ''failed''"

definition arbitration_budget :: "dict \<Rightarrow> int" where
  "arbitration_budget st = (let b = fld_int st ''workflow'' ''retry_budget'' in if b = 0 then 2 else b)"

definition retries_used :: "dict \<Rightarrow> execution_status \<Rightarrow> int" where
  "retries_used st v =
     (let c = failing_capability st v
      in if c = [] then 0 else case map_of (es_retry_counts v) c of None \<Rightarrow> 0 | Some n \<Rightarrow> n)"

definition budget_exhausted :: "dict \<Rightarrow> execution_status \<Rightarrow> bool" where
  "budget_exhausted st v \<longleftrightarrow>
     failing_capability st v \<noteq> [] \<and> latest_failed st \<and> 0 < arbitration_budget st \<and> arbitration_budget st \<le> retries_used st v"

definition noop_for :: "string \<Rightarrow> string list \<Rightarrow> dict \<Rightarrow> noop" where
  "noop_for rationale notes content =
     \<lparr>no_rationale = rationale, no_notes = notes, no_waiting = False, no_ready = False, no_content = content\<rparr>"

definition without_proposals :: "dict \<Rightarrow> execution_status \<Rightarrow> string list \<Rightarrow> noop" where
  "without_proposals st v opinions =
     (let supported = (''supported_agent_opinions'', str_list opinions); status = (\<lambda>s. (''framework_status'', PStr s)) in
      if run_status_of st = ''waiting_external'' then
        (noop_for ''no_proposals_while_waiting_for_external_event'' [''waiting_external'']
           [status ''waiting_external'', (''wait_reason'', opt_str (es_wait_reason v))])\<lparr>no_waiting := True\<rparr>
      else if all_tasks_resolved (board_of st) then
        (noop_for ''all_tasks_resolved_waiting_for_deliberate_finalization'' [''ready_to_finalize'']
           [status ''ready_to_finalize''])\<lparr>no_ready := True\<rparr>
      else if latest_failed st \<or> has_blocked_or_abandoned_tasks (board_of st) then
        noop_for ''no_viable_recovery_proposals_after_failure_or_blocked_state_without_auto_fallback''
          [''failure_without_viable_proposals''] [supported]
      else
        noop_for ''no_proposals_and_state_requires_additional_observation'' [''insufficient_proposals'']
          [status ''running'', supported])"

text \<open>A proposal in canonical form with the verdict of the legality check.\<close>

record judged =
  jd_proposal :: dict
  jd_notes :: "string list"
  jd_verdict :: legality_result

definition request_of :: "dict \<Rightarrow> legality_request res" where
  "request_of d = legality_request_of (get_str d ''action_family'') (text_option (dget0 d ''target_capability'')) d"

definition judge_proposal :: "dict \<Rightarrow> dict \<Rightarrow> judged res" where
  "judge_proposal st p =
     bindR (canonicalize_proposal p) (\<lambda>c.
     bindR (bindR (request_of (fst c)) (check_legality st)) (\<lambda>v.
       Inr \<lparr>jd_proposal = fst c, jd_notes = snd c, jd_verdict = v\<rparr>))"

definition proposal_id :: "dict \<Rightarrow> string" where
  "proposal_id p = get_str p ''proposal_id''"

definition judged_notes :: "judged \<Rightarrow> string list" where
  "judged_notes j =
     map (\<lambda>n. proposal_id (jd_proposal j) @ '':'' @ n) (jd_notes j)
     @ (if lr_allowed (jd_verdict j) then []
        else map (\<lambda>r. proposal_id (jd_proposal j) @ '':illegal:'' @ r) (lr_refusal_reasons (jd_verdict j)))"

definition objection_notes :: "dict \<Rightarrow> string list" where
  "objection_notes c =
     (if get_str c ''stance'' = ''objection'' then
        map (\<lambda>concern. proposal_id c @ '':objection:'' @ get_str c ''agent_name'' @ '':'' @ concern) (texts_in (sub_list c ''concerns''))
      else [])"

text \<open>The counts, in the order their keys come up.\<close>

definition stance_count :: "string \<Rightarrow> dict list \<Rightarrow> string \<Rightarrow> int" where
  "stance_count stance critiques pid = int (length (filter (\<lambda>c. get_str c ''stance'' = stance \<and> proposal_id c = pid) critiques))"

definition strength_of :: "dict list \<Rightarrow> string \<Rightarrow> flt" where
  "strength_of preferences pid =
     foldl flt_add (Fin 0) (map (\<lambda>p. case dget0 p ''preference_strength'' of PFloat x \<Rightarrow> x | _ \<Rightarrow> Fin 0)
       (filter (\<lambda>p. get_str p ''preferred_proposal_id'' = pid) preferences))"

definition tally :: "string list \<Rightarrow> string list \<Rightarrow> (string \<Rightarrow> py) \<Rightarrow> py" where
  "tally pids others f = PDict (map (\<lambda>i. (i, f i)) (dedupe (pids @ others)))"

definition stance_tally :: "string list \<Rightarrow> string \<Rightarrow> dict list \<Rightarrow> py" where
  "stance_tally pids stance critiques =
     tally pids (map proposal_id (filter (\<lambda>c. get_str c ''stance'' = stance) critiques)) (\<lambda>i. PInt (stance_count stance critiques i))"

definition float_member :: "dict \<Rightarrow> string \<Rightarrow> flt" where
  "float_member d k = (case dget0 d k of PFloat x \<Rightarrow> x | _ \<Rightarrow> Fin 0)"

definition guardrail_key :: "dict list \<Rightarrow> dict list \<Rightarrow> dict \<Rightarrow> int \<times> int \<times> flt \<times> flt \<times> flt" where
  "guardrail_key critiques preferences p =
     (stance_count ''objection'' critiques (proposal_id p), - stance_count ''support'' critiques (proposal_id p),
      flt_neg (strength_of preferences (proposal_id p)), float_member p ''risk_estimate'', float_member p ''cost_estimate'')"

definition preferred_of :: "dict list \<Rightarrow> dict list \<Rightarrow> dict list \<Rightarrow> string" where
  "preferred_of critiques preferences viable = proposal_id (hd (sort_key (guardrail_key critiques preferences) viable))"

definition legality_index :: "judged list \<Rightarrow> dict" where
  "legality_index js = fold (\<lambda>j d. dset d (proposal_id (jd_proposal j)) (PDict (dump_legality (jd_verdict j)))) js []"

definition without_viable :: "dict \<Rightarrow> string list \<Rightarrow> dict \<Rightarrow> string list \<Rightarrow> noop" where
  "without_viable st notes index opinions =
     (let legality = (''legality'', PDict index) in
      if run_status_of st = ''waiting_external'' then
        (noop_for ''all_proposals_rejected_while_waiting_for_external_event'' (list_or notes [''waiting_external''])
           [legality])\<lparr>no_waiting := True\<rparr>
      else if all_tasks_resolved (board_of st) then
        (noop_for ''all_proposals_rejected_but_task_board_is_ready_to_finalize'' (list_or notes [''ready_to_finalize''])
           [legality])\<lparr>no_ready := True\<rparr>
      else
        noop_for ''no_legal_proposals_survived_deliberation_without_auto_fallback'' (list_or notes [''no_legal_proposals''])
          [legality, (''supported_agent_opinions'', str_list opinions)])"

definition guardrail_content :: "dict \<Rightarrow> judged list \<Rightarrow> dict list \<Rightarrow> dict list \<Rightarrow> string list \<Rightarrow> dict" where
  "guardrail_content st js critiques preferences opinions =
     (let pids = map (proposal_id \<circ> jd_proposal) js;
          viable = map jd_proposal (filter (lr_allowed \<circ> jd_verdict) js);
          hint = (\<lambda>k. (k, PInt (int (length (fld_list st ''memory'' k)))))
      in [(''legality'', PDict (legality_index js)), (''legal_proposal_ids'', str_list (map proposal_id viable)),
          (''guardrail_preferred_proposal_id'', PStr (preferred_of critiques preferences viable)),
          (''objection_counts'', stance_tally pids ''objection'' critiques), (''support_counts'', stance_tally pids ''support'' critiques),
          (''preference_strengths'', tally pids (map (\<lambda>p. get_str p ''preferred_proposal_id'') preferences) (\<lambda>i. PFloat (strength_of preferences i))),
          (''memory_hints'', PDict (map hint [''recovered_case_patterns'', ''validation_case_patterns'', ''historical_failures''])),
          (''supported_agent_opinions'', str_list opinions)])"

definition guardrail_arbitration ::
  "coercion \<Rightarrow> env \<Rightarrow> dict \<Rightarrow> dict list \<Rightarrow> dict list \<Rightarrow> dict list \<Rightarrow> int \<Rightarrow> arbitration res" where
  "guardrail_arbitration coerce e st proposals critiques preferences round_id =
     bindR (query_execution_status st) (\<lambda>v.
     let opinions = map opinion_of (critiques @ preferences); noop = noop_record coerce e st round_id proposals in
     if budget_exhausted st v then
       noop (noop_for ''retry_budget_exhausted_for_failing_capability_without_auto_fallback''
         [''retry_budget_exhausted:'' @ failing_capability st v @ '':'' @ show_int (retries_used st v) @ ''/'' @ show_int (arbitration_budget st)]
         [(''supported_agent_opinions'', str_list opinions)])
     else if proposals = [] then noop (without_proposals st v opinions)
     else
       bindR (mapR (judge_proposal st) proposals) (\<lambda>js.
       let notes = concat (map judged_notes js) @ concat (map objection_notes critiques);
           viable = map jd_proposal (filter (lr_allowed \<circ> jd_verdict) js)
       in if viable = [] then noop (without_viable st notes (legality_index js) opinions)
          else
            arbitration_record coerce e st round_id None
              [(''selected_proposal_id'', PNone),
               (''rejected_proposals'', str_list (filter (\<lambda>i. i \<notin> proposal_id ` set viable) (map proposal_id proposals))),
               (''guardrail_notes'', str_list notes), (''rationale'', PStr ''legal_proposals_available_for_llm_arbitration''),
               (''disagreement_summary'', PList []), (''content'', PDict (guardrail_content st js critiques preferences opinions)),
               (''confidence'', PFloat (Fin (3 / 4)))]))"

section \<open>The choice\<close>

record choice =
  ch_id :: string
  ch_action :: "dict option"
  ch_notes :: "string list"

definition legal_ids :: "arbitration \<Rightarrow> string list" where
  "legal_ids g = texts_in (sub_list (sub_dict (ar_record g) ''content'') ''legal_proposal_ids'')"

definition fallback_id :: "arbitration \<Rightarrow> string" where
  "fallback_id g = py_strip (get_str (sub_dict (ar_record g) ''content'') ''guardrail_preferred_proposal_id'')"

definition named_id :: "dict option \<Rightarrow> dict \<Rightarrow> string" where
  "named_id action answer =
     (let own = py_strip (get_str answer ''selected_proposal_id'')
      in if own \<noteq> [] then own else case action of None \<Rightarrow> [] | Some a \<Rightarrow> py_strip (get_str a ''source_proposal_id''))"

text \<open>An override is an action of the model's own; it is taken when it is legal.\<close>

definition choose_override :: "dict \<Rightarrow> string list \<Rightarrow> string \<Rightarrow> dict option \<Rightarrow> choice res" where
  "choose_override st opinions chosen action =
     (case (action, is_override chosen) of
        (Some a, True) \<Rightarrow>
          bindR (canonicalize_override opinions a) (\<lambda>c.
          bindR (bindR (request_of (fst c)) (check_legality st)) (\<lambda>v.
            Inr (if lr_allowed v then
                   \<lparr>ch_id = chosen, ch_action = Some (fst c),
                    ch_notes = map (\<lambda>n. chosen @ '':'' @ n) (snd c) @ [chosen @ '':explicit_legal_override'']\<rparr>
                 else
                   \<lparr>ch_id = chosen, ch_action = None,
                    ch_notes = map (\<lambda>r. chosen @ '':illegal_override:'' @ r) (lr_refusal_reasons v)\<rparr>)))
      | _ \<Rightarrow> Inr \<lparr>ch_id = chosen, ch_action = None, ch_notes = []\<rparr>)"

definition choose_missing :: "arbitration \<Rightarrow> choice \<Rightarrow> choice" where
  "choose_missing g c =
     (let note = ''canonicalized_selected_action:missing_selection_fell_back_to_'' in
      if ch_action c \<noteq> None \<or> ch_id c \<noteq> [] then c
      else if fallback_id g \<in> set (legal_ids g) then
        c\<lparr>ch_id := fallback_id g, ch_notes := ch_notes c @ [note @ ''guardrail_preferred'']\<rparr>
      else case dedupe (legal_ids g) of
        [i] \<Rightarrow> c\<lparr>ch_id := i, ch_notes := ch_notes c @ [note @ ''only_legal:'' @ i]\<rparr>
      | _ \<Rightarrow> c)"

definition choose_known :: "arbitration \<Rightarrow> dict option \<Rightarrow> choice \<Rightarrow> choice res" where
  "choose_known g action c =
     (if ch_action c = None \<and> action \<noteq> None \<and> ch_id c \<notin> set (legal_ids g) then
        (if fallback_id g \<in> set (legal_ids g) then
           Inr (c\<lparr>ch_id := fallback_id g,
                 ch_notes := ch_notes c @ [''canonicalized_selected_action:illegal_or_unknown_override_fell_back_to:'' @ fallback_id g]\<rparr>)
         else Inl (RuntimeError (''orchestrator_selected_illegal_or_unknown_proposal:'' @ (if ch_id c = [] then ''unset'' else ch_id c))))
      else Inr c)"

definition choose_action :: "coercion \<Rightarrow> arbitration \<Rightarrow> dict list \<Rightarrow> string list \<Rightarrow> dict option \<Rightarrow> choice \<Rightarrow> (choice \<times> string list) res" where
  "choose_action coerce g proposals opinions action c =
     (if ch_id c \<in> set (legal_ids g) then
        (let own = (case action of None \<Rightarrow> None
                    | Some a \<Rightarrow> if py_strip (get_str a ''source_proposal_id'') = ch_id c then Some a else None)
         in bindR (canonicalize_selected_action coerce proposals (ch_id c) own opinions) (\<lambda>r.
              Inr (c\<lparr>ch_action := Some (fst r)\<rparr>, snd r)))
      else Inr (c, []))"

definition make_choice :: "coercion \<Rightarrow> dict \<Rightarrow> arbitration \<Rightarrow> dict list \<Rightarrow> string list \<Rightarrow> dict option \<Rightarrow> dict \<Rightarrow> (choice \<times> string list) res" where
  "make_choice coerce st g proposals opinions action answer =
     bindR (choose_override st opinions (named_id action answer) action) (\<lambda>c.
     bindR (choose_known g action (choose_missing g c)) (\<lambda>d.
       choose_action coerce g proposals opinions action d))"

section \<open>The arbitration\<close>

definition texts_or :: "dict \<Rightarrow> string \<Rightarrow> dict \<Rightarrow> string \<Rightarrow> string list" where
  "texts_or answer k record j = texts_in (list_or (sub_list answer k) (sub_list record j))"

definition clamped_confidence :: "arbitration \<Rightarrow> dict option \<Rightarrow> flt res" where
  "clamped_confidence g action =
     (let own = dget0 (ar_record g) ''confidence'';
          value = (case action of None \<Rightarrow> own | Some a \<Rightarrow> dget (sub_dict a ''parameters'') ''confidence'' own)
      in bindR (to_float value) (\<lambda>x.
         let low = (if flt_lt x (Fin 1) then x else Fin 1)
         in Inr (if flt_lt (Fin (1 / 2)) low then low else Fin (1 / 2))))"

definition settle_arbitration ::
  "coercion \<Rightarrow> env \<Rightarrow> dict \<Rightarrow> arbitration \<Rightarrow> dict list \<Rightarrow> string list \<Rightarrow> int \<Rightarrow> dict \<Rightarrow> arbitration res" where
  "settle_arbitration coerce e st g proposals opinions round_id llm_result =
     bindR (arbitration_payload coerce llm_result) (\<lambda>parsed.
     let action = fst parsed; answer = snd parsed in
     bindR (make_choice coerce st g proposals opinions action answer) (\<lambda>r.
     let c = fst r; picked_action = ch_action c;
         chosen = (if ch_id c \<noteq> [] then PStr (ch_id c)
                   else case picked_action of None \<Rightarrow> PNone | Some a \<Rightarrow> dget0 a ''source_proposal_id'');
         rejected = list_or (texts_in (sub_list answer ''rejected_proposal_ids''))
                      (filter (\<lambda>i. PStr i \<noteq> chosen) (map proposal_id proposals));
         unless = (\<lambda>k. PBool (picked_action = None \<and> flag_set answer k))
     in bindR (clamped_confidence g picked_action) (\<lambda>confidence.
        arbitration_record coerce e st round_id picked_action
          [(''selected_proposal_id'', chosen), (''rejected_proposals'', str_list rejected),
           (''guardrail_notes'', str_list (texts_or answer ''guardrail_notes'' (ar_record g) ''guardrail_notes'' @ ch_notes c @ snd r)),
           (''rationale'', py_or (dget0 answer ''rationale'') (dget0 (ar_record g) ''rationale'')),
           (''disagreement_summary'', str_list (texts_or answer ''disagreement_summary'' (ar_record g) ''disagreement_summary'')),
           (''whether_noop'', unless ''whether_noop''),
           (''whether_waiting_external'', PBool (case picked_action of
                None \<Rightarrow> flag_set answer ''whether_waiting_external'' | Some a \<Rightarrow> flag_set a ''wait_for_event_after_submission'')),
           (''whether_ready_to_finalize'', unless ''whether_ready_to_finalize''),
           (''content'', PDict [(''guardrail_context'', PDict (dump_arbitration g)),
                                (''tool_evidence'', dget llm_result ''tool_evidence'' (PList []))]),
           (''confidence'', PFloat confidence)])))"

definition arbitration_request :: "dict \<Rightarrow> execution_status \<Rightarrow> arbitration \<Rightarrow> dict list \<Rightarrow> dict list \<Rightarrow> dict list \<Rightarrow> int \<Rightarrow> dict" where
  "arbitration_request st v g proposals critiques preferences round_id =
     (let kept = fld_dict st ''services'' ''llm_context_summary'';
          context = (if kept = [] then build_llm_context_summary st (dump_execution_status v) [] else kept)
      in [(''state'', PDict
             [(''task'', PDict [(''task_id'', PStr (fld_text st ''task'' ''task_id''))]),
              (''workflow'', PDict [(''current_stage'', PStr (fld_text st ''workflow'' ''current_stage'')),
                                    (''run_status'', PStr (str_or (some_text (es_run_status v)) (run_status_of st)))]),
              (''blackboard'', PDict [(''latest_execution_observation'', PDict (fld_dict st ''blackboard'' ''latest_execution_observation''))])]),
          (''context_summary'', PDict (select_role_context context ''orchestrator'')), (''round_id'', PInt round_id),
          (''proposals'', PList (summarize_proposals None (map PDict proposals))),
          (''critiques'', PList (summarize_critiques None (map PDict critiques))),
          (''preferences'', PList (summarize_preferences None (map PDict preferences))),
          (''guardrail_context'', PDict (summarize_guardrail_context (dump_arbitration g)))])"

definition strict_failure :: "py_error \<Rightarrow> py_error" where
  "strict_failure exc = RuntimeError (''orchestrator_strict_agentic_failure:'' @ exc_name exc @ '':'' @ exc_text exc)"

definition with_notes :: "arbitration \<Rightarrow> string list \<Rightarrow> arbitration" where
  "with_notes g notes =
     g\<lparr>ar_record := dset (ar_record g) ''guardrail_notes''
        (str_list (texts_in (sub_list (ar_record g) ''guardrail_notes'') @ notes))\<rparr>"

definition arbitrate ::
  "coercion \<Rightarrow> env \<Rightarrow> (dict \<Rightarrow> dict res) \<Rightarrow> dict \<Rightarrow> dict list \<Rightarrow> dict list \<Rightarrow> dict list \<Rightarrow> int \<Rightarrow> arbitration res" where
  "arbitrate coerce e ask st proposals critiques preferences round_id =
     bindR (mapR canonicalize_proposal proposals) (\<lambda>cs.
     let normalized = map fst cs; notes = concat (map (\<lambda>(p, ns). map (\<lambda>n. proposal_id p @ '':'' @ n) ns) cs) in
     bindR (guardrail_arbitration coerce e st normalized critiques preferences round_id) (\<lambda>g0.
     let g = with_notes g0 notes
     in if normalized = [] \<or> legal_ids g = [] then Inr (if notes = [] then g0 else g)
        else
          bindR (query_execution_status st) (\<lambda>v.
          case bindR (ask (arbitration_request st v g normalized critiques preferences round_id))
                 (settle_arbitration coerce e st g normalized (map opinion_of (critiques @ preferences)) round_id) of
            Inr r \<Rightarrow> Inr r
          | Inl exc \<Rightarrow> Inl (strict_failure exc))))"

end
