(* ===== verification/Arbitration.thy ===== *)
theory Arbitration
  imports Orchestrator
begin

text \<open>
  What the arbitration promises (mobility_agent/agents/orchestrator.py, modelled in \<open>Orchestrator\<close>):
  whatever the language model answers, the action that leaves the arbitration passed the legality check.

  The lemmas follow the request of the legality check through the canonical forms: reading parameters
  twice is reading them once, the overlay of the answer does not reach the request, and an id that
  counts as legal belongs to one proposal whose verdict was good.
\<close>

section \<open>Canonical parameters\<close>

lemma py_eq_str_list: "canon v = canon (str_list ss) \<Longrightarrow> v = str_list ss"
proof -
  assume "canon v = canon (str_list ss)"
  then have "canon v = PList (map PStr ss)" by (simp add: str_list_def comp_def)
  then obtain xs where v: "v = PList xs" "map canon xs = map PStr ss" by (cases v) auto
  from v(2) have "xs = map PStr ss"
    by (induction xs arbitrary: ss) (auto simp: canon_PStr Cons_eq_map_conv)
  with v(1) show ?thesis by (simp add: str_list_def)
qed

lemma canonical_parameters:
  assumes "canonicalize_action_parameters family params = Inr (ps, changed)" and d: "distinct (map fst params)"
  shows "distinct (map fst ps) \<and> (\<not> changed \<longrightarrow> ps = params)"
proof (cases "family \<in> set channel_families")
  case True
  obtain channels where
    ps: "ps = filter (\<lambda>p. fst p \<notin> set channel_aliases) (if channels \<noteq> [] then dset params ''target_channels'' (str_list channels) else params)"
    and ch: "changed \<longleftrightarrow> \<not> py_eq (PDict ps) (PDict params)"
    using assms(1) True by (auto simp: canonicalize_action_parameters_def Let_def)
  have dp: "distinct (map fst ps)"
    unfolding ps by (simp add: distinct_map_filter d)
  moreover have "ps = params" if "\<not> changed"
  proof -
    have same: "map_option canon (map_of ps k) = map_option canon (map_of params k)" for k
      using that ch canon_dict_eq [OF dp d] by (auto simp: py_eq_def)
    have absent: "map_of ps k = None" if "k \<in> set channel_aliases" for k
      using that unfolding ps map_of_eq_None_iff by auto
    have none: "map_of params k = None" if "k \<in> set channel_aliases" for k
      using same [of k] absent [OF that] by simp
    have keep: "filter (\<lambda>p. fst p \<notin> set channel_aliases) params = params"
      by (rule filter_True) (use none in \<open>force simp: map_of_eq_None_iff\<close>)
    show "ps = params"
    proof (cases "channels = []")
      case False
      have n: "''target_channels'' \<notin> set channel_aliases" by (simp add: channel_aliases_def)
      have "map_of ps ''target_channels'' = Some (str_list channels)"
      proof -
        have "(''target_channels'', str_list channels) \<in> set ps"
          unfolding ps using False n map_of_SomeD [of "dset params ''target_channels'' (str_list channels)"] by simp
        then show ?thesis using dp by simp
      qed
      with same [of "''target_channels''"] have "map_of params ''target_channels'' = Some (str_list channels)"
        by (cases "map_of params ''target_channels''") (auto dest: py_eq_str_list [OF sym])
      then have "dset params ''target_channels'' (str_list channels) = params" by (rule dset_same)
      then show ?thesis using ps keep by simp
    qed (use ps keep in simp)
  qed
  ultimately show ?thesis by blast
qed (use assms in \<open>simp add: canonicalize_action_parameters_def\<close>)

section \<open>The request of the legality check\<close>

definition request_fields :: "string list" where
  "request_fields = [''action_family'', ''target_capability'', ''parameters'', ''submit_external_job'', ''wait_for_event_after_submission'']"

lemma get_dict_dget0: "get_dict d k = to_dict (py_or (dget0 d k) (PDict []))"
  by (simp add: get_dict_def dget0_def dget_def py_or_def split: option.split)

lemma request_cong:
  "(\<And>k. k \<in> set request_fields \<Longrightarrow> dget0 a k = dget0 b k) \<Longrightarrow> request_of a = request_of b"
  by (simp add: request_of_def legality_request_of_def get_dict_dget0 get_str_def request_fields_def)

lemma dget0_dmerge_other: "k \<notin> fst ` set u \<Longrightarrow> dget0 (dmerge d u) k = dget0 d k"
  by (induction d u rule: dmerge.induct) auto

lemma dget0_dmerge_here: "distinct (map fst u) \<Longrightarrow> (k, v) \<in> set u \<Longrightarrow> dget0 (dmerge d u) k = v"
  by (simp add: dget0_def dget_def map_of_dmerge map_add_def)

text \<open>A proposal as the agents build it: the fields have their types. Its request, once in canonical form.\<close>

definition built :: "env \<Rightarrow> dict \<Rightarrow> bool" where
  "built e p \<longleftrightarrow> typed (members (Proposal e)) p"

lemma built_fields:
  assumes "built e p"
  shows "\<exists>family. dget0 p ''action_family'' = PStr family \<and> family \<in> set ActionFamily \<and> get_str p ''action_family'' = family"
    and "of_type TOptStr (dget0 p ''target_capability'')" and "of_type TOptStr (dget0 p ''selected_skill'')"
    and "\<exists>ps. dget0 p ''parameters'' = PDict ps \<and> distinct (map fst ps) \<and> get_dict p ''parameters'' = Inr ps"
    and "\<exists>b. dget0 p ''submit_external_job'' = PBool b" and "\<exists>b. dget0 p ''wait_for_event_after_submission'' = PBool b"
    and "is_str (dget0 p ''rationale'')" and "is_str (dget0 p ''expected_observation'')" and "is_str (dget0 p ''proposal_id'')"
    and "list_of is_str (dget0 p ''success_criteria'')" and "list_of is_str (dget0 p ''fallback_if_failed'')"
proof -
  note t = assms [unfolded built_def, THEN typed_dget0]
  note at = Proposal_def message_defs
  have "of_type (TLit ActionFamily) (dget0 p ''action_family'')" by (rule t) (simp add: at)
  then obtain family where family: "dget0 p ''action_family'' = PStr family" "family \<in> set ActionFamily" by auto
  with get_str_dget0 [OF family(1)]
  show "\<exists>family. dget0 p ''action_family'' = PStr family \<and> family \<in> set ActionFamily \<and> get_str p ''action_family'' = family" by blast
  show "of_type TOptStr (dget0 p ''target_capability'')" by (rule t) (simp add: at)
  show "of_type TOptStr (dget0 p ''selected_skill'')" by (rule t) (simp add: at)
  have "of_type TDict (dget0 p ''parameters'')" by (rule t) (simp add: at)
  then obtain ps where ps: "dget0 p ''parameters'' = PDict ps" "distinct (map fst ps)" by (auto simp: dict_of_def split: py.splits)
  then have "get_dict p ''parameters'' = Inr ps" by (simp add: get_dict_dget0 py_or_def)
  with ps show "\<exists>ps. dget0 p ''parameters'' = PDict ps \<and> distinct (map fst ps) \<and> get_dict p ''parameters'' = Inr ps" by blast
  have "of_type TBool (dget0 p ''submit_external_job'')" by (rule t) (simp add: at)
  then show "\<exists>b. dget0 p ''submit_external_job'' = PBool b" by auto
  have "of_type TBool (dget0 p ''wait_for_event_after_submission'')" by (rule t) (simp add: at)
  then show "\<exists>b. dget0 p ''wait_for_event_after_submission'' = PBool b" by auto
  have "of_type TStr (dget0 p k)" if "k \<in> {''rationale'', ''expected_observation'', ''proposal_id''}" for k
    using that t [of k TStr "PStr []"] by (elim insertE) (simp_all add: at)
  then show "is_str (dget0 p ''rationale'')" "is_str (dget0 p ''expected_observation'')" "is_str (dget0 p ''proposal_id'')" by simp_all
  have "of_type TListStr (dget0 p k)" if "k \<in> {''success_criteria'', ''fallback_if_failed''}" for k
    using that t [of k TListStr "PList []"] by (elim insertE) (simp_all add: at)
  then show "list_of is_str (dget0 p ''success_criteria'')" "list_of is_str (dget0 p ''fallback_if_failed'')" by simp_all
qed

text \<open>In canonical form the parameters are read once more, and a local action has no flags.\<close>

definition settled :: "dict \<Rightarrow> bool" where
  "settled p \<longleftrightarrow> (get_str p ''action_family'' \<in> set LOCAL_EXECUTION_ACTION_FAMILIES \<longrightarrow>
     \<not> flag_set p ''submit_external_job'' \<and> \<not> flag_set p ''wait_for_event_after_submission'')"

definition canonical_of :: "dict \<Rightarrow> string \<Rightarrow> py" where
  "canonical_of p k =
     (if k = ''parameters'' then
        (case bindR (get_dict p k) (canonicalize_action_parameters (get_str p ''action_family'')) of
           Inr c \<Rightarrow> PDict (fst c) | Inl _ \<Rightarrow> PNone)
      else if k \<in> {''submit_external_job'', ''wait_for_event_after_submission''}
              \<and> get_str p ''action_family'' \<in> set LOCAL_EXECUTION_ACTION_FAMILIES then PBool False
      else dget0 p k)"

lemma channel_families_local: "f \<in> set channel_families \<Longrightarrow> f \<in> set LOCAL_EXECUTION_ACTION_FAMILIES"
  by (simp add: channel_families_def LOCAL_EXECUTION_ACTION_FAMILIES_def) (elim disjE; simp)

lemma canonical_proposal:
  assumes "built e p" "canonicalize_proposal p = Inr (c, ns)"
  shows "dget0 c k = canonical_of p k"
proof -
  obtain ps where ps: "dget0 p ''parameters'' = PDict ps" "distinct (map fst ps)" "get_dict p ''parameters'' = Inr ps"
    using built_fields(4) [OF assms(1)] by blast
  obtain b1 b2 where b: "dget0 p ''submit_external_job'' = PBool b1" "dget0 p ''wait_for_event_after_submission'' = PBool b2"
    using built_fields(5,6) [OF assms(1)] by blast
  let ?f = "get_str p ''action_family''"
  show ?thesis
  proof (cases "?f \<in> set LOCAL_EXECUTION_ACTION_FAMILIES")
    case False
    then have "?f \<notin> set channel_families" using channel_families_local by blast
    then have "canonicalize_action_parameters ?f ps = Inr (ps, False)" by (simp add: canonicalize_action_parameters_def)
    moreover have "c = p" using assms(2) False by (simp add: canonicalize_proposal_def)
    ultimately show ?thesis using False ps by (simp add: canonical_of_def)
  next
    case True
    then obtain qs ch where q: "canonicalize_action_parameters ?f ps = Inr (qs, ch)"
      using assms(2) ps by (auto simp: canonicalize_proposal_def Let_def)
    note keep = canonical_parameters [OF q ps(2)]
    have "c = dmerge p (on b1 (''submit_external_job'', PBool False) @ on b2 (''wait_for_event_after_submission'', PBool False)
        @ on ch (''parameters'', PDict qs))"
      using assms(2) True ps q b by (simp add: canonicalize_proposal_def Let_def flag_set_def)
    then show ?thesis using True ps q b keep
      by (cases b1; cases b2; cases ch) (simp_all add: canonical_of_def)
  qed
qed

lemma canonical_built:
  assumes "built e p" "canonicalize_proposal p = Inr (c, ns)"
  shows "built e c"
proof -
  obtain ps where ps: "dget0 p ''parameters'' = PDict ps" "distinct (map fst ps)" "get_dict p ''parameters'' = Inr ps"
    using built_fields(4) [OF assms(1)] by blast
  show ?thesis
  proof (cases "get_str p ''action_family'' \<in> set LOCAL_EXECUTION_ACTION_FAMILIES")
    case True
    then obtain qs ch where q: "canonicalize_action_parameters (get_str p ''action_family'') ps = Inr (qs, ch)"
      using assms(2) ps by (auto simp: canonicalize_proposal_def Let_def)
    have qt: "of_type TDict (PDict qs)" using canonical_parameters [OF q ps(2)] by (simp add: dict_of_def list_all_iff)
    have c: "c = dmerge p (on (flag_set p ''submit_external_job'') (''submit_external_job'', PBool False)
        @ on (flag_set p ''wait_for_event_after_submission'') (''wait_for_event_after_submission'', PBool False)
        @ on ch (''parameters'', PDict qs))"
      using assms(2) True ps q by (simp add: canonicalize_proposal_def Let_def)
    have flag: "typed (members (Proposal e)) (dset d k (PBool False))"
      if "typed (members (Proposal e)) d" "k \<in> {''submit_external_job'', ''wait_for_event_after_submission''}" for d k
      using that(2) typed_dset [OF that(1), of k TBool "PBool False" "PBool False"]
      by (elim insertE) (simp_all add: Proposal_def message_defs)
    have "typed (members (Proposal e)) (dset d ''parameters'' (PDict qs))" if "typed (members (Proposal e)) d" for d
      using typed_dset [OF that, of "''parameters''" TDict "PDict []"] qt by (simp add: Proposal_def message_defs)
    with flag [of _ "''submit_external_job''"] flag [of _ "''wait_for_event_after_submission''"]
    have "typed (members (Proposal e)) (dset d ''submit_external_job'' (PBool False))"
      "typed (members (Proposal e)) (dset d ''wait_for_event_after_submission'' (PBool False))"
      "typed (members (Proposal e)) (dset d ''parameters'' (PDict qs))" if "typed (members (Proposal e)) d" for d
      using that by simp_all
    then show ?thesis
      using assms(1) unfolding c built_def
      by (cases "flag_set p ''submit_external_job''"; cases "flag_set p ''wait_for_event_after_submission''"; cases ch) simp_all
  qed (use assms in \<open>simp add: canonicalize_proposal_def\<close>)
qed

lemma canonical_settled:
  assumes "built e p" "canonicalize_proposal p = Inr (c, ns)"
  shows "settled c" and "proposal_id c = proposal_id p"
  using canonical_proposal [OF assms]
  by (simp_all add: settled_def flag_set_def canonical_of_def get_str_def proposal_id_def)

section \<open>The action of a proposal\<close>

context validator
begin

lemma validated_field:
  "validate_fields coerce fs d = Inr u \<Longrightarrow> map_of fs k = Some (t, dflt) \<Longrightarrow> map_of d k = Some v \<Longrightarrow> of_type t v \<Longrightarrow> dget0 u k = v"
  by (induction fs arbitrary: u) (auto simp: dget0_def dget_def keeps_typed split: if_splits option.splits)

end

lemma action_of_proposal_exists:
  assumes v: "validator coerce" and b: "built e p" "settled p"
    and q: "bindR (get_dict p ''parameters'') (canonicalize_action_parameters (get_str p ''action_family'')) = Inr (qs, ch)"
  shows "\<exists>a. selected_action_from_proposal coerce opinions p = Inr a \<and> (\<forall>k\<in>set request_fields. dget0 a k = canonical_of p k)"
proof -
  obtain ps where ps: "dget0 p ''parameters'' = PDict ps" "distinct (map fst ps)" "get_dict p ''parameters'' = Inr ps"
    using built_fields(4) [OF b(1)] by blast
  obtain family where family: "dget0 p ''action_family'' = PStr family" "family \<in> set ActionFamily" "get_str p ''action_family'' = family"
    using built_fields(1) [OF b(1)] by blast
  have q: "canonicalize_action_parameters family ps = Inr (qs, ch)" using q ps family by simp
  obtain s1 s2 where flags: "dget0 p ''submit_external_job'' = PBool s1" "dget0 p ''wait_for_event_after_submission'' = PBool s2"
    using built_fields(5,6) [OF b(1)] by blast
  define d where "d =
       [(''action_family'', dget0 p ''action_family''), (''target_capability'', dget0 p ''target_capability''),
        (''selected_skill'', dget0 p ''selected_skill''), (''parameters'', PDict qs),
        (''source_proposal_id'', dget0 p ''proposal_id''), (''rationale'', dget0 p ''rationale''),
        (''cost_class'', PStr (str_default (sub_dict p ''content'') ''cost_class'' ''medium'')),
        (''risk_class'', PStr (str_default (sub_dict p ''content'') ''risk_class'' ''medium'')),
        (''expected_observation'', dget0 p ''expected_observation''), (''success_criteria'', dget0 p ''success_criteria''),
        (''fallback_if_failed'', dget0 p ''fallback_if_failed''),
        (''submit_external_job'', PBool (flag_set p ''submit_external_job'')),
        (''wait_for_event_after_submission'', PBool (flag_set p ''wait_for_event_after_submission'')),
        (''supporting_agent_opinions'', str_list opinions)]"
  have sel: "selected_action_from_proposal coerce opinions p = selected_action coerce d"
    using ps q family by (simp add: selected_action_from_proposal_def Let_def d_def)
  have "coerce_selected_action d = d"
  proof -
    have h: "has d ''action_family''" "has d ''target_capability''" "has d ''selected_skill''" by (simp_all add: has_def d_def)
    have "is_str (dget0 d ''rationale'')" "is_str (dget0 d ''expected_observation'')"
      using built_fields(7,8) [OF b(1)] by (simp_all add: d_def dget0_def dget_def)
    moreover have "gather_parameters d = d"
      by (auto simp: gather_parameters_def stray_parameters_def sub_dict_def entries_def py_or_def is_dict_def
          dset_def dget0_def dget_def d_def)
    ultimately show ?thesis
      by (simp add: coerce_selected_action_def action_aliases_def keep_alias h default_family_def join_texts_def keep_text)
  qed
  moreover have "fits (members SelectedAction) d"
  proof -
    have "list_of is_str (str_list opinions)" "is_str (PStr t)" for t by (auto simp: list_of_str is_str_def)
    with built_fields [OF b(1)] canonical_parameters [OF q ps(2)] family show ?thesis
      by (simp add: fits_def d_def SelectedAction_def dict_of_def list_all_iff)
  qed
  ultimately have a: "selected_action_from_proposal coerce opinions p = Inr (after SelectedAction (taken (members SelectedAction) d))"
    using sel validator.construct_fits [OF v, of SelectedAction d] by (simp add: selected_action_def d_def SelectedAction_def)
  define a where "a = after SelectedAction (taken (members SelectedAction) d)"
  then have "dget0 a j = dget0 (taken (members SelectedAction) d) j" if "j \<in> set request_fields" for j
    using that by (auto simp: a_def SelectedAction_def request_fields_def)
  moreover have "dget0 (taken (members SelectedAction) d) j = dget0 d j"
    if "j \<in> {''action_family'', ''target_capability'', ''parameters'', ''submit_external_job'', ''wait_for_event_after_submission''}" for j
    using that by (elim insertE) (simp_all add: taken_def SelectedAction_def d_def dget0_def dget_def)
  ultimately have "dget0 a k = dget0 d k" if "k \<in> set request_fields" for k using that by (simp only: request_fields_def list.set)
  moreover have "dget0 d ''parameters'' = PDict qs" "canonical_of p ''parameters'' = PDict qs"
    using ps q family by (simp_all add: d_def canonical_of_def dget0_def dget_def)
  moreover have "dget0 d j = dget0 p j" if "j \<in> {''action_family'', ''target_capability''}" for j
    using that by (elim insertE) (simp_all add: d_def dget0_def [of "_ # _"] dget_def)
  moreover have "dget0 d j = PBool (flag_set p j) \<and> canonical_of p j = PBool (flag_set p j)"
    if "j \<in> {''submit_external_job'', ''wait_for_event_after_submission''}" for j
    using that flags b(2)
    by (elim insertE) (simp_all add: d_def dget0_def [of "_ # _"] dget_def canonical_of_def settled_def flag_set_def)
  moreover have "canonical_of p j = dget0 p j" if "j \<in> {''action_family'', ''target_capability''}" for j
    using that by (elim insertE) (simp_all add: canonical_of_def)
  moreover have "k \<in> {''action_family'', ''target_capability''} \<or> k = ''parameters''
      \<or> k \<in> {''submit_external_job'', ''wait_for_event_after_submission''}"
    if "k \<in> set request_fields" for k using that unfolding request_fields_def by simp
  ultimately have "dget0 a k = canonical_of p k" if "k \<in> set request_fields" for k using that by metis
  with a show ?thesis by (simp add: a_def)
qed

lemma action_of_proposal:
  assumes v: "validator coerce" and b: "built e p" "settled p"
    and a: "selected_action_from_proposal coerce opinions p = Inr a" and k: "k \<in> set request_fields"
  shows "dget0 a k = canonical_of p k"
proof -
  obtain qs ch where "bindR (get_dict p ''parameters'') (canonicalize_action_parameters (get_str p ''action_family'')) = Inr (qs, ch)"
    using a by (auto simp: selected_action_from_proposal_def Let_def)
  from action_of_proposal_exists [OF v b this, of opinions] a k show ?thesis by auto
qed

lemma answer_keeps_request: "k \<in> set request_fields \<Longrightarrow> dget0 (dmerge a (answer_overlay opinions answer)) k = dget0 a k"
proof (rule dget0_dmerge_other)
  have "fst ` set (answer_overlay opinions answer) \<subseteq> {''supporting_agent_opinions'', ''rationale'', ''expected_observation'',
      ''success_criteria'', ''fallback_if_failed'', ''cost_class'', ''risk_class''}"
    by (auto simp: answer_overlay_def Let_def on_def)
  moreover assume "k \<in> set request_fields"
  ultimately show "k \<notin> fst ` set (answer_overlay opinions answer)" by (auto simp: request_fields_def)
qed

lemma selected_request:
  assumes v: "validator coerce" and b: "built e p" "settled p"
    and find: "find (\<lambda>p. get_str p ''proposal_id'' = chosen) proposals = Some p"
    and a: "canonicalize_selected_action coerce proposals chosen parsed opinions = Inr (a, notes)"
    and c: "canonicalize_proposal p = Inr (c, ns)"
  shows "request_of a = request_of c"
proof -
  obtain a0 where a0: "selected_action_from_proposal coerce opinions p = Inr a0"
    and "a = a0 \<or> (\<exists>answer. a = dmerge a0 (answer_overlay opinions answer))"
    using a find by (auto simp: canonicalize_selected_action_def Let_def split: option.splits)
  then have "dget0 a k = dget0 a0 k" if "k \<in> set request_fields" for k
    using answer_keeps_request [OF that] by auto
  then show ?thesis
    using action_of_proposal [OF v b a0] canonical_proposal [OF b(1) c] by (intro request_cong) simp
qed

section \<open>Legal ids\<close>

lemma guardrail_fields:
  assumes "validator coerce" "arbitration_record coerce e st round_id action own = Inr g"
    and "map_of own ''content'' = Some (PDict content)" "distinct (map fst content)"
  shows "sub_dict (ar_record g) ''content'' = content" and "ar_action g = action"
proof -
  let ?d = "[(''agent_name'', PStr ''orchestrator''), (''round_id'', PInt round_id), (''target_task_id'', PStr (fld_text st ''task'' ''task_id''))] @ own"
  obtain r where r: "construct coerce (ArbitrationRecord e) ?d = Inr r" "g = \<lparr>ar_record = r, ar_action = action\<rparr>"
    using assms(2) by (auto simp: arbitration_record_def)
  then obtain u where u: "validate_fields coerce (members (ArbitrationRecord e)) ?d = Inr u" "r = after (ArbitrationRecord e) u"
    by (auto simp: construct_def split: if_splits)
  have "of_type TDict (PDict content)" using assms(4) by (simp add: dict_of_def list_all_iff)
  then have "dget0 u ''content'' = PDict content"
    using validator.validated_field [OF assms(1) u(1), of "''content''" TDict "PDict []" "PDict content"] assms(3)
    by (simp add: ArbitrationRecord_def message_defs)
  then show "sub_dict (ar_record g) ''content'' = content" "ar_action g = action"
    using r(2) u(2) by (simp_all add: sub_dict_def ArbitrationRecord_def message_defs entries_def)
qed

definition legal_ids_of :: "dict \<Rightarrow> string list" where
  "legal_ids_of content = texts_in (sub_list content ''legal_proposal_ids'')"

lemma noop_has_no_legal_ids:
  assumes "validator coerce" "noop_record coerce e st round_id proposals n = Inr g"
    and "distinct (map fst (no_content n))" "legal_ids_of (no_content n) = []"
  shows "legal_ids g = [] \<and> ar_action g = None"
  using guardrail_fields [OF assms(1) assms(2) [unfolded noop_record_def] _ assms(3)] assms(4)
  by (simp add: legal_ids_def legal_ids_of_def)

lemma quiet_noops:
  "distinct (map fst (no_content (without_proposals st v ops))) \<and> legal_ids_of (no_content (without_proposals st v ops)) = []"
  "distinct (map fst (no_content (without_viable st notes index ops))) \<and> legal_ids_of (no_content (without_viable st notes index ops)) = []"
  by (simp_all add: without_proposals_def without_viable_def noop_for_def Let_def legal_ids_of_def sub_list_def dget0_def dget_def
      texts_in_def items_def)

lemma guardrail_legal_ids:
  assumes v: "validator coerce" and g: "guardrail_arbitration coerce e st proposals critiques preferences round_id = Inr g"
  shows "ar_action g = None"
    and "i \<in> set (legal_ids g) \<Longrightarrow> \<exists>p\<in>set proposals. \<exists>j. judge_proposal st p = Inr j \<and> lr_allowed (jd_verdict j)
           \<and> proposal_id (jd_proposal j) = i"
proof -
  obtain status where st: "query_execution_status st = Inr status" using g by (auto simp: guardrail_arbitration_def)
  have quiet: "ar_action g = None \<and> legal_ids g = []"
    if "noop_record coerce e st round_id proposals n = Inr g" "distinct (map fst (no_content n)) \<and> legal_ids_of (no_content n) = []" for n
    using noop_has_no_legal_ids [OF v that(1)] that(2) by blast
  have exhausted: "distinct (map fst [(''supported_agent_opinions'', str_list xs)])" "legal_ids_of [(''supported_agent_opinions'', str_list xs)] = []" for xs
    by (simp_all add: legal_ids_of_def sub_list_def dget0_def dget_def texts_in_def items_def)
  have "ar_action g = None \<and> (i \<in> set (legal_ids g) \<longrightarrow> (\<exists>p\<in>set proposals. \<exists>j. judge_proposal st p = Inr j
      \<and> lr_allowed (jd_verdict j) \<and> proposal_id (jd_proposal j) = i))"
  proof (cases "budget_exhausted st status \<or> proposals = []")
    case True
    let ?ops = "map opinion_of (critiques @ preferences)"
    show ?thesis
    proof (cases "budget_exhausted st status")
      case exceeded: True
      then have "\<exists>n. noop_record coerce e st round_id proposals n = Inr g \<and> no_content n = [(''supported_agent_opinions'', str_list ?ops)]"
        using g st by (auto simp: guardrail_arbitration_def Let_def noop_for_def)
      then show ?thesis using quiet exhausted [of ?ops] by auto
    next
      case False
      with True have "noop_record coerce e st round_id proposals (without_proposals st status ?ops) = Inr g"
        using g st by (simp add: guardrail_arbitration_def Let_def)
      from quiet [OF this quiet_noops(1)] show ?thesis by simp
    qed
  next
    case False
    then obtain js where js: "mapR (judge_proposal st) proposals = Inr js" using g st by (auto simp: guardrail_arbitration_def Let_def)
    let ?viable = "map jd_proposal (filter (lr_allowed \<circ> jd_verdict) js)"
    show ?thesis
    proof (cases "?viable = []")
      case True
      with False have "\<exists>notes index ops. noop_record coerce e st round_id proposals (without_viable st notes index ops) = Inr g"
        using g st js by (auto simp: guardrail_arbitration_def Let_def)
      then show ?thesis using quiet [OF _ quiet_noops(2)] by auto
    next
      case viable: False
      let ?content = "guardrail_content st js critiques preferences (map opinion_of (critiques @ preferences))"
      obtain own where own: "arbitration_record coerce e st round_id None own = Inr g" "map_of own ''content'' = Some (PDict ?content)"
        using False g st js viable by (auto simp: guardrail_arbitration_def Let_def)
      have "distinct (map fst ?content)" by (simp add: guardrail_content_def Let_def)
      from guardrail_fields [OF v own this]
      have "ar_action g = None" "legal_ids g = map proposal_id ?viable"
        by (simp_all add: legal_ids_def guardrail_content_def Let_def sub_list_def dget0_def dget_def texts_in_def str_list_def items_def comp_def)
      then show ?thesis using mapR_source [OF js] by fastforce
    qed
  qed
  then show "ar_action g = None"
    "i \<in> set (legal_ids g) \<Longrightarrow> \<exists>p\<in>set proposals. \<exists>j. judge_proposal st p = Inr j \<and> lr_allowed (jd_verdict j)
           \<and> proposal_id (jd_proposal j) = i" by blast+
qed

section \<open>The choice is legal\<close>

definition passes_legality :: "dict \<Rightarrow> dict \<Rightarrow> bool" where
  "passes_legality st a \<longleftrightarrow> (case bindR (request_of a) (check_legality st) of Inr v \<Rightarrow> lr_allowed v | Inl _ \<Rightarrow> False)"

lemma override_legal:
  "choose_override st opinions chosen action = Inr c \<Longrightarrow> ch_action c = Some a \<Longrightarrow>
   \<exists>x ns. action = Some x \<and> canonicalize_override opinions x = Inr (a, ns) \<and> passes_legality st a"
  by (fastforce simp: choose_override_def passes_legality_def split: option.splits bool.splits if_splits)

lemma choice_origin:
  assumes "make_choice coerce st g proposals opinions action answer = Inr (c, notes)" "ch_action c = Some a"
  shows "(\<exists>x ns. action = Some x \<and> canonicalize_override opinions x = Inr (a, ns) \<and> passes_legality st a) \<or>
    (\<exists>i own ns. i \<in> set (legal_ids g) \<and> canonicalize_selected_action coerce proposals i own opinions = Inr (a, ns))"
proof -
  obtain c0 d where c0: "choose_override st opinions (named_id action answer) action = Inr c0"
    and d: "choose_known g action (choose_missing g c0) = Inr d"
    and c: "choose_action coerce g proposals opinions action d = Inr (c, notes)"
    using assms(1) by (auto simp: make_choice_def)
  have "ch_action d = ch_action c0"
    using d by (auto simp: choose_known_def choose_missing_def Let_def split: if_splits list.splits)
  then have own: "ch_action d = Some a \<Longrightarrow> \<exists>x ns. action = Some x \<and> canonicalize_override opinions x = Inr (a, ns) \<and> passes_legality st a"
    using override_legal [OF c0] by simp
  show ?thesis
  proof (cases "ch_id d \<in> set (legal_ids g)")
    case True
    with c assms(2) show ?thesis by (auto simp: choose_action_def Let_def)
  next
    case False
    with c assms(2) own show ?thesis by (simp add: choose_action_def)
  qed
qed

lemma find_unique:
  assumes "distinct (map proposal_id ps)" "p \<in> set ps" "find (\<lambda>q. get_str q ''proposal_id'' = proposal_id p) ps = Some q"
  shows "q = p"
proof -
  have "q \<in> set ps" "proposal_id q = proposal_id p" using assms(3) by (auto simp: find_Some_iff proposal_id_def)
  with assms(1,2) show ?thesis by (simp add: distinct_map inj_on_def)
qed

lemma canonical_all:
  assumes "mapR canonicalize_proposal proposals = Inr cs" "list_all (built e) proposals"
  shows "list_all (built e) (map fst cs)" "list_all settled (map fst cs)" "map proposal_id (map fst cs) = map proposal_id proposals"
proof -
  have "list_all (built e) (map fst cs) \<and> list_all settled (map fst cs) \<and> map proposal_id (map fst cs) = map proposal_id proposals"
    using assms
  proof (induction proposals arbitrary: cs)
    case (Cons p ps)
    then obtain c ns cs' where c: "canonicalize_proposal p = Inr (c, ns)" "mapR canonicalize_proposal ps = Inr cs'" "cs = (c, ns) # cs'"
      by auto
    with Cons canonical_built [OF _ c(1)] canonical_settled [OF _ c(1)] show ?case by auto
  qed simp
  then show "list_all (built e) (map fst cs)" "list_all settled (map fst cs)" "map proposal_id (map fst cs) = map proposal_id proposals"
    by blast+
qed

lemma rewrap_Inr: "(case m of Inl e \<Rightarrow> Inl (h e) | Inr r \<Rightarrow> Inr r) = Inr x \<longleftrightarrow> m = Inr x"
  by (cases m) auto

lemma legal_selection:
  assumes v: "validator coerce" and b: "list_all (built e) ps" "list_all settled ps" "distinct (map proposal_id ps)"
    and g: "guardrail_arbitration coerce e st ps critiques preferences round_id = Inr g" and i: "i \<in> set (legal_ids g)"
    and a: "canonicalize_selected_action coerce ps i own opinions = Inr (a, notes)"
  shows "passes_legality st a"
proof -
  obtain p j where p: "p \<in> set ps" "judge_proposal st p = Inr j" "lr_allowed (jd_verdict j)" "proposal_id (jd_proposal j) = i"
    using guardrail_legal_ids(2) [OF v g i] by blast
  have bp: "built e p" "settled p" using b p(1) by (simp_all add: list_all_iff)
  obtain c ns where c: "canonicalize_proposal p = Inr (c, ns)" "jd_proposal j = c"
    and verdict: "bindR (request_of c) (check_legality st) = Inr (jd_verdict j)"
    using p(2) by (auto simp: judge_proposal_def)
  have id: "proposal_id p = i" using canonical_settled(2) [OF bp(1) c(1)] c(2) p(4) by simp
  obtain q where q: "find (\<lambda>p. get_str p ''proposal_id'' = i) ps = Some q"
    using a by (auto simp: canonicalize_selected_action_def split: option.splits)
  have "q = p" using find_unique [OF b(3) p(1)] q id by simp
  with q have "request_of a = request_of c" using selected_request [OF v bp _ a c(1)] by simp
  then show ?thesis using p(3) by (simp only: passes_legality_def verdict sum.case)
qed

section \<open>An answer that names nothing\<close>

lemma arbitration_record_class: "validator coerce \<Longrightarrow> message_class coerce (ArbitrationRecord e)"
  by (rule message_classI [where cs = "[Strip ''agent_name'', Strip ''target_task_id'', Dedupe ''evidence_refs'',
        Dedupe ''rejected_proposals'', Dedupe ''guardrail_notes'', Dedupe ''disagreement_summary'', Strip ''rationale'']"])
    (simp_all add: ArbitrationRecord_def message_defs type_simps fun_eq_iff)

interpretation arbitrations: message_class strict_coerce "ArbitrationRecord e" for e
  by (rule arbitration_record_class) (rule strict.validator_axioms)

lemma recorded_arbitration:
  assumes v: "validator coerce" and own: "fits (members (ArbitrationRecord e)) own"
    and fresh: "map_of own ''agent_name'' = None" "map_of own ''round_id'' = None" "map_of own ''target_task_id'' = None"
  shows "\<exists>r. arbitration_record coerce e st round_id action own = Inr r \<and> ar_action r = action \<and> typed (members (ArbitrationRecord e)) (ar_record r)
    \<and> (\<forall>x. map_of own ''selected_proposal_id'' = Some x \<longrightarrow> dget0 (ar_record r) ''selected_proposal_id'' = x)"
proof -
  let ?d = "[(''agent_name'', PStr ''orchestrator''), (''round_id'', PInt round_id), (''target_task_id'', PStr (fld_text st ''task'' ''task_id''))] @ own"
  have "fits (members (ArbitrationRecord e)) ?d"
    using own by (simp add: fits_def ArbitrationRecord_def message_defs is_str_def is_int_def fresh)
  from validator.construct_fits [OF v this]
  have c: "construct coerce (ArbitrationRecord e) ?d = Inr (after (ArbitrationRecord e) (taken (members (ArbitrationRecord e)) ?d))"
    by (simp add: ArbitrationRecord_def message_def)
  moreover have "dget0 (after (ArbitrationRecord e) (taken (members (ArbitrationRecord e)) ?d)) ''selected_proposal_id'' = x"
    if "map_of own ''selected_proposal_id'' = Some x" for x
    using that by (simp add: ArbitrationRecord_def message_defs taken_def dget0_def [of "_ # _"] dget_def)
  ultimately show ?thesis
    using message_class.construct_typed [OF arbitration_record_class [OF v] c] by (simp add: arbitration_record_def)
qed

lemma record_fields:
  assumes "typed (members (ArbitrationRecord e)) d"
  shows "is_str (dget0 d ''rationale'')" and "list_of is_str (dget0 d ''guardrail_notes'')"
    and "list_of is_str (dget0 d ''disagreement_summary'')" and "is_float (dget0 d ''confidence'')"
proof -
  note t = typed_dget0 [OF assms]
  show "is_str (dget0 d ''rationale'')" using t [of "''rationale''" TStr "PStr []"] by (simp add: ArbitrationRecord_def message_defs)
  show "is_float (dget0 d ''confidence'')" using t [of "''confidence''" TFloat "PFloat (Fin (1 / 2))"]
    by (simp add: ArbitrationRecord_def message_defs)
  show "list_of is_str (dget0 d ''guardrail_notes'')" using t [of "''guardrail_notes''" TListStr "PList []"]
    by (simp add: ArbitrationRecord_def message_defs)
  show "list_of is_str (dget0 d ''disagreement_summary'')" using t [of "''disagreement_summary''" TListStr "PList []"]
    by (simp add: ArbitrationRecord_def message_defs)
qed

text \<open>The proposals that passed, and the one the guardrail puts first.\<close>

definition survivors :: "judged list \<Rightarrow> dict list" where
  "survivors js = map jd_proposal (filter (lr_allowed \<circ> jd_verdict) js)"

lemma guardrail_total:
  assumes v: "validator coerce" and status: "query_execution_status st = Inr status" "\<not> budget_exhausted st status"
    and js: "mapR (judge_proposal st) proposals = Inr js" "survivors js \<noteq> []"
  shows "\<exists>g. guardrail_arbitration coerce e st proposals critiques preferences round_id = Inr g
    \<and> typed (members (ArbitrationRecord e)) (ar_record g) \<and> legal_ids g = map proposal_id (survivors js)
    \<and> fallback_id g = py_strip (preferred_of critiques preferences (survivors js))"
proof -
  let ?content = "guardrail_content st js critiques preferences (map opinion_of (critiques @ preferences))"
  have ne: "proposals \<noteq> []" using js by (auto simp: survivors_def)
  have dist: "distinct (map fst ?content)" by (simp add: guardrail_content_def Let_def)
  have t: "list_of is_str (str_list xs)" "is_str (PStr x)" "is_float (PFloat f)" for xs x f
    by (auto simp: list_of_str is_str_def is_float_def)
  obtain own where own: "guardrail_arbitration coerce e st proposals critiques preferences round_id
      = arbitration_record coerce e st round_id None own" "map_of own ''content'' = Some (PDict ?content)"
    "fits (members (ArbitrationRecord e)) own"
    "map_of own ''agent_name'' = None" "map_of own ''round_id'' = None" "map_of own ''target_task_id'' = None"
    using status js ne dist t
    by (simp add: guardrail_arbitration_def Let_def survivors_def fits_def ArbitrationRecord_def message_defs dict_of_def list_all_iff list_of_def)
  obtain g where g: "arbitration_record coerce e st round_id None own = Inr g" "typed (members (ArbitrationRecord e)) (ar_record g)"
    using recorded_arbitration [OF v own(3-6)] by blast
  from guardrail_fields(1) [OF v g(1) own(2) dist]
  have "legal_ids g = map proposal_id (survivors js)" "fallback_id g = py_strip (preferred_of critiques preferences (survivors js))"
    by (simp_all add: legal_ids_def fallback_id_def guardrail_content_def survivors_def Let_def sub_list_def dget0_def dget_def texts_in_def
        str_list_def items_def comp_def get_str_def py_or_def)
  with g own(1) show ?thesis by (intro exI [of _ g]) simp
qed

lemma preferred_survives: "ps \<noteq> [] \<Longrightarrow> preferred_of critiques preferences ps \<in> proposal_id ` set ps"
proof -
  assume "ps \<noteq> []"
  then have "sort_key (guardrail_key critiques preferences) ps \<noteq> []" by (metis length_0_conv length_sort)
  then have "hd (sort_key (guardrail_key critiques preferences) ps) \<in> set ps" by (metis list.set_sel(1) set_sort)
  then show ?thesis by (simp add: preferred_of_def)
qed

lemma survivor_source:
  assumes "mapR (judge_proposal st) ps = Inr js" "list_all (built e) ps" "c \<in> set (survivors js)"
  shows "\<exists>p\<in>set ps. proposal_id p = proposal_id c"
proof -
  obtain j where j: "j \<in> set js" "c = jd_proposal j" using assms(3) by (auto simp: survivors_def)
  obtain p where p: "p \<in> set ps" "judge_proposal st p = Inr j" using mapR_source [OF assms(1) j(1)] by blast
  then obtain ns where "canonicalize_proposal p = Inr (c, ns)" using j(2) by (auto simp: judge_proposal_def)
  with canonical_settled(2) p(1) assms(2) show ?thesis by (fastforce simp: list_all_iff)
qed

lemma empty_answer: "validator coerce \<Longrightarrow> arbitration_payload coerce [] = Inr (None, taken (members ArbitrationDecisionPayload) [])"
  using validator.construct_fits [of coerce ArbitrationDecisionPayload "[]"]
  by (simp add: arbitration_payload_def coerce_arbitration_def take_alias_def dget0_def dget_def has_def optional_action_def
      fits_def ArbitrationDecisionPayload_def)

lemma confidence_kept:
  assumes "canonicalize_action_parameters family ps = Inr (qs, ch)" "map_of ps ''confidence'' = None"
  shows "map_of qs ''confidence'' = None"
proof (cases "family \<in> set channel_families")
  case True
  then obtain channels where
    "qs = filter (\<lambda>p. fst p \<notin> set channel_aliases) (if channels \<noteq> [] then dset ps ''target_channels'' (str_list channels) else ps)"
    using assms(1) by (auto simp: canonicalize_action_parameters_def Let_def)
  then have "set qs \<subseteq> set (dset ps ''target_channels'' (str_list channels)) \<union> set ps" by auto
  then have "fst ` set qs \<subseteq> fst ` set (dset ps ''target_channels'' (str_list channels)) \<union> fst ` set ps"
    by (metis image_Un image_mono)
  then show ?thesis using assms(2) by (auto simp: map_of_eq_None_iff)
qed (use assms in \<open>simp add: canonicalize_action_parameters_def\<close>)

lemma canonical_confidence:
  assumes "built e p" "canonicalize_proposal p = Inr (c, ns)" "map_of (sub_dict p ''parameters'') ''confidence'' = None"
  shows "map_of (sub_dict c ''parameters'') ''confidence'' = None"
proof -
  obtain ps where ps: "dget0 p ''parameters'' = PDict ps" "get_dict p ''parameters'' = Inr ps"
    using built_fields(4) [OF assms(1)] by blast
  then have none: "map_of ps ''confidence'' = None" using assms(3) by (simp add: sub_dict_def entries_def)
  show ?thesis
  proof (cases "canonicalize_action_parameters (get_str p ''action_family'') ps")
    case (Inr r)
    with ps canonical_proposal [OF assms(1,2), of "''parameters''"] have "sub_dict c ''parameters'' = fst r"
      by (simp add: canonical_of_def sub_dict_def entries_def)
    then show ?thesis using confidence_kept [OF _ none] Inr by (cases r) auto
  next
    case (Inl x)
    with ps canonical_proposal [OF assms(1,2), of "''parameters''"] show ?thesis by (simp add: canonical_of_def sub_dict_def entries_def)
  qed
qed

lemma confidence_total:
  assumes "typed (members (ArbitrationRecord e)) (ar_record g)" "map_of (sub_dict a ''parameters'') ''confidence'' = None"
  shows "\<exists>x. clamped_confidence g (Some a) = Inr x"
  using record_fields(4) [OF assms(1)] assms(2)
  by (cases "dget0 (ar_record g) ''confidence''") (auto simp: clamped_confidence_def dget_def is_float_def Let_def)

lemma canonical_members:
  assumes "mapR canonicalize_proposal proposals = Inr cs" "list_all (built e) proposals" "c \<in> set (map fst cs)"
    and "\<forall>p\<in>set proposals. py_strip (proposal_id p) = proposal_id p \<and> proposal_id p \<noteq> []
      \<and> map_of (sub_dict p ''parameters'') ''confidence'' = None"
  shows "py_strip (proposal_id c) = proposal_id c \<and> proposal_id c \<noteq> [] \<and> map_of (sub_dict c ''parameters'') ''confidence'' = None
    \<and> built e c \<and> settled c"
proof -
  obtain ns where "(c, ns) \<in> set cs" using assms(3) by auto
  then obtain p where p: "p \<in> set proposals" "canonicalize_proposal p = Inr (c, ns)" using mapR_source [OF assms(1)] by blast
  have b: "built e p" using p(1) assms(2) by (simp add: list_all_iff)
  show ?thesis
    using canonical_built [OF b p(2)] canonical_settled [OF b p(2)] canonical_confidence [OF b p(2)] assms(4) p(1) by simp
qed

text \<open>A run and a proposal to apply the theorems to.\<close>

definition demo_proposal :: dict where
  "demo_proposal = taken (members (Proposal demo_env))
    [(''proposal_id'', PStr ''p1''), (''agent_name'', PStr ''planner''), (''action_family'', PStr ''retry_capability''),
     (''target_capability'', PStr ''relax''), (''submit_external_job'', PBool True)]"

lemma demo_proposal_built: "built demo_env demo_proposal"
proof -
  have "list_all2 (\<lambda>(k, t, _) (k', v). k' = k \<and> of_type t v) (members (Proposal demo_env)) demo_proposal" by code_simp
  then show ?thesis by (simp add: built_def typed_def)
qed

lemma demo_judged:
  obtains cs status js where "mapR canonicalize_proposal [demo_proposal] = Inr cs" "query_execution_status demo_run = Inr status"
    "\<not> budget_exhausted demo_run status" "mapR (judge_proposal demo_run) (map fst cs) = Inr js" "survivors js \<noteq> []"
proof -
  have "case bindR (mapR canonicalize_proposal [demo_proposal]) (\<lambda>cs. mapR (judge_proposal demo_run) (map fst cs)) of
      Inr js \<Rightarrow> survivors js \<noteq> [] | Inl _ \<Rightarrow> False"
    by code_simp
  moreover have "case query_execution_status demo_run of Inr status \<Rightarrow> \<not> budget_exhausted demo_run status | Inl _ \<Rightarrow> False" by code_simp
  ultimately show ?thesis by (auto intro: that split: sum.splits)
qed

text \<open>The choice when nothing was named.\<close>

lemma silent_choice:
  assumes v: "validator coerce" and i: "fallback_id g \<in> set (legal_ids g)"
    and p: "p \<in> set ps" "proposal_id p = fallback_id g" and b: "list_all (built e) ps" "list_all settled ps"
    and js: "mapR (judge_proposal st) ps = Inr js"
    and none: "\<forall>p\<in>set ps. map_of (sub_dict p ''parameters'') ''confidence'' = None"
  shows "\<exists>c ns a. make_choice coerce st g ps opinions None (taken (members ArbitrationDecisionPayload) []) = Inr (c, ns)
    \<and> ch_id c = fallback_id g \<and> ch_action c = Some a \<and> (\<exists>q\<in>set ps. get_str a ''action_family'' = get_str q ''action_family'')
    \<and> map_of (sub_dict a ''parameters'') ''confidence'' = None"
proof -
  have unnamed: "named_id None (taken (members ArbitrationDecisionPayload) []) = []" by code_simp
  obtain q where q: "find (\<lambda>p. get_str p ''proposal_id'' = fallback_id g) ps = Some q"
    using p by (cases "find (\<lambda>p. get_str p ''proposal_id'' = fallback_id g) ps") (auto simp: find_None_iff proposal_id_def)
  then have qs: "q \<in> set ps" by (auto simp: find_Some_iff)
  have bq: "built e q" "settled q" using b qs by (simp_all add: list_all_iff)
  obtain ps' where ps': "get_dict q ''parameters'' = Inr ps'" "dget0 q ''parameters'' = PDict ps'" using built_fields(4) [OF bq(1)] by blast
  have "\<exists>r. canonicalize_action_parameters (get_str q ''action_family'') ps' = Inr r"
  proof (cases "get_str q ''action_family'' \<in> set LOCAL_EXECUTION_ACTION_FAMILIES")
    case True
    obtain j where "judge_proposal st q = Inr j" using mapR_member [OF js qs] by blast
    then show ?thesis using True ps' by (auto simp: judge_proposal_def canonicalize_proposal_def Let_def)
  next
    case False
    then show ?thesis using channel_families_local by (auto simp: canonicalize_action_parameters_def)
  qed
  then obtain zs ch where z: "canonicalize_action_parameters (get_str q ''action_family'') ps' = Inr (zs, ch)" by auto
  obtain a where a: "selected_action_from_proposal coerce opinions q = Inr a" "\<forall>k\<in>set request_fields. dget0 a k = canonical_of q k"
    using action_of_proposal_exists [OF v bq, of zs ch opinions] ps' z by auto
  have family: "get_str a ''action_family'' = get_str q ''action_family''"
    using a(2) by (simp add: request_fields_def canonical_of_def get_str_def)
  have "dget0 a ''parameters'' = PDict zs" using a(2) ps' z by (simp add: request_fields_def canonical_of_def)
  moreover have "map_of ps' ''confidence'' = None" using none qs ps' by (auto simp: sub_dict_def entries_def)
  then have "map_of zs ''confidence'' = None" by (rule confidence_kept [OF z])
  ultimately have "map_of (sub_dict a ''parameters'') ''confidence'' = None" by (simp add: sub_dict_def entries_def)
  moreover have "canonicalize_selected_action coerce ps (fallback_id g) None opinions = Inr (a, [])"
    using q a(1) by (simp add: canonicalize_selected_action_def)
  ultimately show ?thesis using i family qs
    by (auto simp: make_choice_def unnamed choose_override_def choose_missing_def choose_known_def choose_action_def Let_def)
qed

lemma silent_settlement:
  assumes v: "validator coerce" and g: "typed (members (ArbitrationRecord e)) (ar_record g)"
    and c: "make_choice coerce st g ps opinions None (taken (members ArbitrationDecisionPayload) []) = Inr (c, ns)"
      "ch_id c = i" "i \<noteq> []" "ch_action c = Some a" "map_of (sub_dict a ''parameters'') ''confidence'' = None"
  shows "\<exists>r. settle_arbitration coerce e st g ps opinions round_id [] = Inr r \<and> ar_action r = Some a
    \<and> dget0 (ar_record r) ''selected_proposal_id'' = PStr i"
proof -
  obtain x where x: "clamped_confidence g (Some a) = Inr x" using confidence_total [OF g c(5)] by blast
  have str: "list_of is_str (str_list xs)" "is_str (PStr y)" for xs y by (auto simp: list_of_str is_str_def)
  have rationale: "is_str (py_or (dget0 (taken (members ArbitrationDecisionPayload) []) ''rationale'') (dget0 (ar_record g) ''rationale''))"
    using record_fields(1) [OF g] by (simp add: ArbitrationDecisionPayload_def taken_def dget0_def dget_def py_or_def)
  obtain own where own: "settle_arbitration coerce e st g ps opinions round_id [] = arbitration_record coerce e st round_id (Some a) own"
    "fits (members (ArbitrationRecord e)) own" "map_of own ''selected_proposal_id'' = Some (PStr i)"
    "map_of own ''agent_name'' = None" "map_of own ''round_id'' = None" "map_of own ''target_task_id'' = None"
    using c x str rationale
    by (simp add: settle_arbitration_def empty_answer [OF v] Let_def fits_def ArbitrationRecord_def message_defs dict_of_def is_float_def)
  with recorded_arbitration [OF v own(2,4-6), of st round_id "Some a"] show ?thesis by auto
qed

lemma silent_round:
  assumes "validator coerce" "list_all (built e) proposals" "mapR canonicalize_proposal proposals = Inr cs"
    and "query_execution_status st = Inr status" "\<not> budget_exhausted st status"
    and "mapR (judge_proposal st) (map fst cs) = Inr js" "survivors js \<noteq> []"
    and "\<forall>p\<in>set proposals. py_strip (proposal_id p) = proposal_id p \<and> proposal_id p \<noteq> []
      \<and> map_of (sub_dict p ''parameters'') ''confidence'' = None"
    and "\<And>request. ask request = Inr []"
  shows "\<exists>r a. arbitrate coerce e ask st proposals critiques preferences round_id = Inr r \<and> ar_action r = Some a
    \<and> dget0 (ar_record r) ''selected_proposal_id'' = PStr (preferred_of critiques preferences (survivors js))
    \<and> (\<exists>c\<in>set (map fst cs). get_str a ''action_family'' = get_str c ''action_family'')"
proof -
  let ?notes = "concat (map (\<lambda>(p, ns). map (\<lambda>n. proposal_id p @ '':'' @ n) ns) cs)"
  let ?ops = "map opinion_of (critiques @ preferences)"
  obtain g0 where g0: "guardrail_arbitration coerce e st (map fst cs) critiques preferences round_id = Inr g0"
    "typed (members (ArbitrationRecord e)) (ar_record g0)" "legal_ids g0 = map proposal_id (survivors js)"
    "fallback_id g0 = py_strip (preferred_of critiques preferences (survivors js))"
    using guardrail_total [OF assms(1,4-7)] by blast
  define g where "g = with_notes g0 ?notes"
  have same: "legal_ids g = legal_ids g0" "fallback_id g = fallback_id g0"
    by (simp_all add: g_def with_notes_def legal_ids_def fallback_id_def sub_dict_def)
  have "of_type TListStr (str_list xs)" for xs by (auto simp: list_of_str)
  then have "typed (members (ArbitrationRecord e)) (dset (ar_record g0) ''guardrail_notes'' (str_list xs))" for xs
    using typed_dset [OF g0(2), of "''guardrail_notes''" TListStr "PList []" "str_list xs"]
    by (simp add: ArbitrationRecord_def message_defs)
  then have g: "typed (members (ArbitrationRecord e)) (ar_record g)" by (simp add: g_def with_notes_def)
  note all = canonical_all [OF assms(3,2)]
  obtain s where s: "s \<in> set (survivors js)" "preferred_of critiques preferences (survivors js) = proposal_id s"
    using preferred_survives [OF assms(7)] by blast
  obtain p where p: "p \<in> set (map fst cs)" "proposal_id p = proposal_id s" using survivor_source [OF assms(6) all(1) s(1)] by blast
  note facts = canonical_members [OF assms(3,2) _ assms(8)]
  have id: "fallback_id g = proposal_id p" "proposal_id p \<noteq> []" using facts [OF p(1)] p(2) s(2) same g0(4) by simp_all
  have legal: "fallback_id g \<in> set (legal_ids g)" using same g0(3) s(1) id p(2) by (simp add: image_eqI [of _ _ s])
  obtain c ns a where c: "make_choice coerce st g (map fst cs) ?ops None (taken (members ArbitrationDecisionPayload) []) = Inr (c, ns)"
    "ch_id c = fallback_id g" "ch_action c = Some a" "\<exists>q\<in>set (map fst cs). get_str a ''action_family'' = get_str q ''action_family''"
    "map_of (sub_dict a ''parameters'') ''confidence'' = None"
    using silent_choice [OF assms(1) legal p(1) id(1) [symmetric] all(1,2) assms(6), of ?ops] facts by blast
  obtain r where r: "settle_arbitration coerce e st g (map fst cs) ?ops round_id [] = Inr r" "ar_action r = Some a"
    "dget0 (ar_record r) ''selected_proposal_id'' = PStr (fallback_id g)"
    using silent_settlement [OF assms(1) g c(1,2) _ c(3,5)] id by auto
  have ne: "map fst cs \<noteq> []" using p(1) by auto
  have "legal_ids g \<noteq> []" using legal by auto
  then have "arbitrate coerce e ask st proposals critiques preferences round_id = Inr r"
    unfolding arbitrate_def assms(3) bindR_simps Let_def g0(1) g_def [symmetric]
    using ne r(1) assms(4,9) by simp
  with r id p(2) s(2) c(4) show ?thesis by auto
qed

lemma demo_arbitrated:
  "\<exists>r a. arbitrate strict_coerce demo_env (\<lambda>_. Inr []) demo_run [demo_proposal] [] [] 1 = Inr r \<and> ar_action r = Some a"
proof -
  obtain cs status js where d: "mapR canonicalize_proposal [demo_proposal] = Inr cs" "query_execution_status demo_run = Inr status"
    "\<not> budget_exhausted demo_run status" "mapR (judge_proposal demo_run) (map fst cs) = Inr js" "survivors js \<noteq> []"
    by (rule demo_judged)
  have "py_strip (proposal_id demo_proposal) = proposal_id demo_proposal \<and> proposal_id demo_proposal \<noteq> []
      \<and> map_of (sub_dict demo_proposal ''parameters'') ''confidence'' = None"
    by code_simp
  with silent_round [OF strict.validator_axioms _ d, of demo_env "\<lambda>_. Inr []" "[]" "[]" 1] demo_proposal_built
  show ?thesis by auto
qed

section \<open>Channels that are named once\<close>

text \<open>The legality check looks for the channels under the keys of its family, the executor under the keys
  of both. Parameters without any of those keys are read alike.\<close>

definition unaliased :: "dict \<Rightarrow> bool" where
  "unaliased ps \<longleftrightarrow> (\<forall>k\<in>set channel_aliases. map_of ps k = None)"

definition admitted_parameters :: "string list \<Rightarrow> dict \<Rightarrow> dict" where
  "admitted_parameters channels ps = (if channels \<noteq> [] then dset ps ''target_channels'' (str_list channels) else ps)"

lemma canonical_unaliased:
  assumes "canonicalize_action_parameters family ps = Inr (qs, ch)" "family \<in> set channel_families"
  shows "unaliased qs"
  using assms by (auto simp: canonicalize_action_parameters_def Let_def unaliased_def map_of_eq_None_iff)

lemma readers_agree:
  assumes "unaliased ps" "get_dict a ''parameters'' = Inr ps" "family \<in> set channel_families"
  shows "canonicalize_channel_action_parameters family ps
    = bindR (selected_target_channels a) (\<lambda>channels. Inr (admitted_parameters channels ps))"
proof -
  have none: "dget0 ps k = PNone" if "k \<in> set channel_aliases" for k
    using assms(1) that by (simp add: unaliased_def dget0_def dget_def)
  have none': "dget0 ps ''channels_to_invalidate'' = PNone" "dget0 ps ''channels_to_skip'' = PNone" "dget0 ps ''channels'' = PNone"
    "dget0 ps ''target_directions'' = PNone" "dget0 ps ''directions'' = PNone"
    by (simp_all add: none channel_aliases_def)
  have family: "(family \<notin> {''invalidate_channel'', ''skip_channel''}) = False" using assms(3) by (simp add: channel_families_def)
  define raw where "raw = requested_channels family ps"
  have node: "selected_target_channels a = bindR (to_list (py_or (if is_str raw then PList [raw] else raw) (PList []))) (\<lambda>xs.
      Inr (filter (\<lambda>t. t \<noteq> []) (map (py_strip \<circ> py_str) xs)))"
    by (simp add: selected_target_channels_def assms(2) none' raw_def requested_channels_def alias_keys_def Let_def split: option.split)
  show ?thesis
    unfolding node canonicalize_channel_action_parameters_def Let_def raw_def [symmetric] family if_False
    by (cases "to_list (py_or (if is_str raw then PList [raw] else raw) (PList []))") (simp_all only: bindR_simps admitted_parameters_def)
qed

lemma override_unaliased:
  assumes "typed (members SelectedAction) x" "canonicalize_override opinions x = Inr (a, ns)" "get_str a ''action_family'' \<in> set channel_families"
  shows "\<exists>ps. get_dict a ''parameters'' = Inr ps \<and> unaliased ps"
proof -
  have "of_type TDict (dget0 x ''parameters'')"
    using typed_dget0 [OF assms(1), of "''parameters''" TDict "PDict []"] by (simp add: SelectedAction_def)
  then obtain ps where ps: "dget0 x ''parameters'' = PDict ps" "distinct (map fst ps)" by (auto simp: dict_of_def split: py.splits)
  then have gp: "get_dict x ''parameters'' = Inr ps" by (simp add: get_dict_dget0 py_or_def)
  have same: "get_str a ''action_family'' = get_str x ''action_family''"
    using assms(2) by (auto simp: canonicalize_override_def Let_def on_def get_str_def dget0_dmerge_other split: if_splits)
  then have fam: "get_str x ''action_family'' \<in> set channel_families" using assms(3) by simp
  then have local: "get_str x ''action_family'' \<in> set LOCAL_EXECUTION_ACTION_FAMILIES" by (rule channel_families_local)
  then obtain qs ch where q: "canonicalize_action_parameters (get_str x ''action_family'') ps = Inr (qs, ch)"
    using assms(2) gp by (auto simp: canonicalize_override_def Let_def)
  then have "dget0 a ''parameters'' = (if ch then PDict qs else PDict ps)"
    using assms(2) gp ps local
    by (auto simp: canonicalize_override_def Let_def on_def)
  then have "get_dict a ''parameters'' = Inr qs"
    using canonical_parameters [OF q ps(2)] by (auto simp: get_dict_dget0 py_or_def)
  then show ?thesis using canonical_unaliased [OF q fam] by blast
qed

lemma proposal_unaliased:
  assumes "validator coerce" "built e p" "settled p" "find (\<lambda>p. get_str p ''proposal_id'' = chosen) ps = Some p"
    and a: "canonicalize_selected_action coerce ps chosen parsed opinions = Inr (a, ns)" "get_str a ''action_family'' \<in> set channel_families"
  shows "\<exists>ps. get_dict a ''parameters'' = Inr ps \<and> unaliased ps"
proof -
  obtain a0 where a0: "selected_action_from_proposal coerce opinions p = Inr a0"
    and "a = a0 \<or> (\<exists>answer. a = dmerge a0 (answer_overlay opinions answer))"
    using a(1) assms(4) by (auto simp: canonicalize_selected_action_def Let_def split: option.splits)
  then have same: "dget0 a k = canonical_of p k" if "k \<in> set request_fields" for k
    using answer_keeps_request [OF that] action_of_proposal [OF assms(1-3) a0 that] by auto
  have fam: "get_str p ''action_family'' \<in> set channel_families"
    using a(2) same [of "''action_family''"] by (simp add: request_fields_def get_str_def canonical_of_def)
  obtain qs ch where q: "bindR (get_dict p ''parameters'') (canonicalize_action_parameters (get_str p ''action_family'')) = Inr (qs, ch)"
    using a0 by (auto simp: selected_action_from_proposal_def Let_def)
  then have "canonical_of p ''parameters'' = PDict qs" unfolding canonical_of_def by (simp only: q sum.case fst_conv simp_thms if_True)
  then have "dget0 a ''parameters'' = PDict qs" using same [of "''parameters''"] by (simp add: request_fields_def)
  then have "get_dict a ''parameters'' = Inr qs" by (simp add: get_dict_dget0 py_or_def)
  moreover have "unaliased qs" using q canonical_unaliased [OF _ fam] by auto
  ultimately show ?thesis by blast
qed

section \<open>Where the selected action comes from\<close>

lemma arbitrated_origin [consumes 3, case_names override proposal]:
  assumes "validator coerce" "arbitrate coerce e ask st proposals critiques preferences round_id = Inr r" "ar_action r = Some a"
  obtains (override) x ns where "typed (members SelectedAction) x"
      "canonicalize_override (map opinion_of (critiques @ preferences)) x = Inr (a, ns)" "passes_legality st a"
    | (proposal) cs g i own ns where "mapR canonicalize_proposal proposals = Inr cs"
      "guardrail_arbitration coerce e st (map fst cs) critiques preferences round_id = Inr g" "i \<in> set (legal_ids g)"
      "canonicalize_selected_action coerce (map fst cs) i own (map opinion_of (critiques @ preferences)) = Inr (a, ns)"
proof -
  obtain cs where cs: "mapR canonicalize_proposal proposals = Inr cs" using assms(2) by (auto simp: arbitrate_def)
  let ?ps = "map fst cs" and ?ops = "map opinion_of (critiques @ preferences)"
  let ?notes = "concat (map (\<lambda>(p, ns). map (\<lambda>n. proposal_id p @ '':'' @ n) ns) cs)"
  obtain g0 where g0: "guardrail_arbitration coerce e st ?ps critiques preferences round_id = Inr g0"
    using assms(2) cs by (auto simp: arbitrate_def Let_def)
  define g where "g = with_notes g0 ?notes"
  have ids: "legal_ids g = legal_ids g0" by (simp add: g_def with_notes_def legal_ids_def sub_dict_def)
  have none: "ar_action g0 = None" "ar_action g = None"
    using guardrail_legal_ids(1) [OF assms(1) g0] by (simp_all add: g_def with_notes_def)
  obtain answer where "settle_arbitration coerce e st g ?ps ?ops round_id answer = Inr r"
    using assms(2) [unfolded arbitrate_def cs bindR_simps Let_def g0 g_def [symmetric]] assms(3) none
    by (auto simp: rewrap_Inr split: if_splits)
  then obtain action reply c ns where payload: "arbitration_payload coerce answer = Inr (action, reply)"
    and choice: "make_choice coerce st g ?ps ?ops action reply = Inr (c, ns)" "ch_action c = ar_action r"
    by (auto simp: settle_arbitration_def Let_def arbitration_record_def)
  have typed: "typed (members SelectedAction) x" if "action = Some x" for x
  proof -
    note action = that
    obtain d where "selected_action coerce d = Inr x"
      using payload action by (auto simp: arbitration_payload_def optional_action_def read_object_def Let_def split: if_splits py.splits)
    then show ?thesis
      using message_class.construct_typed [OF selected_action_class [OF assms(1)]] by (simp add: selected_action_def)
  qed
  from choice_origin [OF choice(1)] choice(2) assms(3) show ?thesis
    using typed that(1) that(2) [OF cs g0] by (auto simp: ids)
qed

lemma arbitration_legal:
  assumes "validator coerce" "list_all (built e) proposals" "distinct (map proposal_id proposals)"
    and "arbitrate coerce e ask st proposals critiques preferences round_id = Inr r" "ar_action r = Some a"
  shows "\<exists>q v. request_of a = Inr q \<and> check_legality st q = Inr v \<and> lr_allowed v"
  using assms(1,4,5)
proof (cases rule: arbitrated_origin)
  case (override x ns)
  then show ?thesis by (auto simp: passes_legality_def split: sum.splits)
next
  case (proposal cs g i own ns)
  with canonical_all [OF _ assms(2)] assms(3) have "passes_legality st a" by (intro legal_selection [OF assms(1)]) auto
  then show ?thesis by (auto simp: passes_legality_def split: sum.splits)
qed



text \<open>A model that answers nothing does not stop the round: when some proposal survives the legality
  check and the retry budget is not used up, an empty answer makes the arbitration select an action, and
  the proposal is the one the guardrail puts first.\<close>

theorem silent_answer_takes_preferred:
  assumes "validator coerce" "list_all (built e) proposals" "mapR canonicalize_proposal proposals = Inr cs"
    and "query_execution_status st = Inr status" "\<not> budget_exhausted st status"
    and "mapR (judge_proposal st) (map fst cs) = Inr js" "survivors js \<noteq> []"
    and "\<forall>p\<in>set proposals. py_strip (proposal_id p) = proposal_id p \<and> proposal_id p \<noteq> []
      \<and> map_of (sub_dict p ''parameters'') ''confidence'' = None"
    and "\<And>request. ask request = Inr []"
  shows "\<exists>r a. arbitrate coerce e ask st proposals critiques preferences round_id = Inr r \<and> ar_action r = Some a
    \<and> dget0 (ar_record r) ''selected_proposal_id'' = PStr (preferred_of critiques preferences (survivors js))"
  using silent_round [OF assms(1-8), of ask critiques preferences round_id] assms(9) by blast

theorem silent_answer_takes_preferred_witness:
  "\<exists>r a. arbitrate strict_coerce demo_env (\<lambda>_. Inr []) demo_run [demo_proposal] [] [] 1 = Inr r \<and> ar_action r = Some a"
proof -
  obtain cs status js where d: "mapR canonicalize_proposal [demo_proposal] = Inr cs" "query_execution_status demo_run = Inr status"
    "\<not> budget_exhausted demo_run status" "mapR (judge_proposal demo_run) (map fst cs) = Inr js" "survivors js \<noteq> []"
    by (rule demo_judged)
  have "py_strip (proposal_id demo_proposal) = proposal_id demo_proposal \<and> proposal_id demo_proposal \<noteq> []
      \<and> map_of (sub_dict demo_proposal ''parameters'') ''confidence'' = None"
    by code_simp
  with silent_answer_takes_preferred [OF strict.validator_axioms _ d, of demo_env "\<lambda>_. Inr []" "[]" "[]" 1] demo_proposal_built
  show ?thesis by auto
qed



definition demo_skip :: dict where
  "demo_skip = dset (dset demo_proposal ''action_family'' (PStr ''skip_channel'')) ''parameters''
     (PDict [(''channels_to_skip'', PList [PStr '' electron_x ''])])"

lemma demo_skip_built: "built demo_env demo_skip"
proof -
  have "list_all2 (\<lambda>(k, t, _) (k', v). k' = k \<and> of_type t v) (members (Proposal demo_env)) demo_skip" by code_simp
  then show ?thesis by (simp add: built_def typed_def)
qed

definition demo_skip_run :: dict where
  "demo_skip_run = demo_run @ [(''physics_results'', PDict [(''rejected_channels'', PList [PStr ''electron_y''])])]"

lemma demo_skip_status: "case query_execution_status demo_skip_run of Inr status \<Rightarrow> \<not> budget_exhausted demo_skip_run status | Inl _ \<Rightarrow> False"
  by code_simp

lemma demo_skip_arbitrated:
  "\<exists>r a. arbitrate strict_coerce demo_env (\<lambda>_. Inr []) demo_skip_run [demo_skip] [] [] 1 = Inr r \<and> ar_action r = Some a
     \<and> get_str a ''action_family'' = ''skip_channel''"
proof -
  have "case bindR (mapR canonicalize_proposal [demo_skip]) (\<lambda>cs. bindR (mapR (judge_proposal demo_skip_run) (map fst cs)) (\<lambda>js. Inr (cs, js))) of
      Inr (cs, js) \<Rightarrow> survivors js \<noteq> [] \<and> list_all (\<lambda>c. get_str c ''action_family'' = ''skip_channel'') (map fst cs) | Inl _ \<Rightarrow> False"
    by code_simp
  then obtain cs js where d: "mapR canonicalize_proposal [demo_skip] = Inr cs" "mapR (judge_proposal demo_skip_run) (map fst cs) = Inr js"
    "survivors js \<noteq> []" "list_all (\<lambda>c. get_str c ''action_family'' = ''skip_channel'') (map fst cs)"
    by (auto split: sum.splits)
  obtain status where st: "query_execution_status demo_skip_run = Inr status" "\<not> budget_exhausted demo_skip_run status"
    using demo_skip_status by (auto split: sum.splits)
  have "py_strip (proposal_id demo_skip) = proposal_id demo_skip \<and> proposal_id demo_skip \<noteq> []
      \<and> map_of (sub_dict demo_skip ''parameters'') ''confidence'' = None"
    by code_simp
  with silent_round [OF strict.validator_axioms _ d(1) st d(2,3), of demo_env "\<lambda>_. Inr []" "[]" "[]" 1] demo_skip_built d(4)
  show ?thesis by (auto simp: list_all_iff)
qed


end
