(* ===== verification/Memory.thy ===== *)
theory Memory
  imports State_Reads "HOL-Library.AList"
begin

text \<open>
  The memory of the agents: mobility_agent/runtime/store.py and the two memory tools of
  mobility_agent/runtime/agent_tools.py.

  The store is LangGraph's: a \<open>kv\<close> with its operations \<open>put\<close>, \<open>get\<close> and \<open>search\<close> on a state of its
  own. What the program relies on is the locale \<open>memory_store\<close>: a get after a put, a search that
  returns values stored below the namespace it was given, and all of them when there are no more than the
  limit. \<open>table_store\<close> is a store that keeps the promise.
\<close>

section \<open>The interface of the store\<close>

type_synonym namespace = "string list"

record 's kv =
  kv_put :: "'s \<Rightarrow> namespace \<Rightarrow> string \<Rightarrow> dict \<Rightarrow> 's"
  kv_get :: "'s \<Rightarrow> namespace \<Rightarrow> string \<Rightarrow> dict option"
  kv_search :: "'s \<Rightarrow> namespace \<Rightarrow> nat \<Rightarrow> dict list"

text \<open>A search that returns fewer items than its limit has left none out.\<close>

locale memory_store =
  fixes m :: "'s kv"
  assumes get_put: "kv_get m (kv_put m s ns k d) ns' k' = (if ns' = ns \<and> k' = k then Some d else kv_get m s ns' k')"
    and search_sound: "d \<in> set (kv_search m s ns n) \<Longrightarrow> \<exists>ns' k. kv_get m s ns' k = Some d \<and> take (length ns) ns' = ns"
    and search_complete: "kv_get m s ns' k = Some d \<Longrightarrow> take (length ns) ns' = ns \<Longrightarrow>
      length (kv_search m s ns n) < n \<Longrightarrow> d \<in> set (kv_search m s ns n)"
begin

lemma found_after_put:
  "length (kv_search m (kv_put m s ns k d) ns n) < n \<Longrightarrow> d \<in> set (kv_search m (kv_put m s ns k d) ns n)"
  by (rule search_complete [of _ ns k]) (simp_all add: get_put)

lemma found_is_stored:
  "d \<in> set (kv_search m (kv_put m s ns k e) ns' n) \<Longrightarrow>
   d = e \<or> (\<exists>ns'' k'. kv_get m s ns'' k' = Some d \<and> take (length ns') ns'' = ns')"
  by (drule search_sound) (auto simp: get_put split: if_splits)

end

section \<open>runtime/store.py\<close>

definition memory_namespace :: "string \<Rightarrow> string list \<Rightarrow> namespace" where
  "memory_namespace category scope = category # filter (\<lambda>s. py_strip s \<noteq> []) scope"

definition put_memory_item :: "'s kv \<Rightarrow> string \<Rightarrow> string \<Rightarrow> dict \<Rightarrow> string list \<Rightarrow> 's \<Rightarrow> 's" where
  "put_memory_item m category item_key payload scope s = kv_put m s (memory_namespace category scope) item_key payload"

definition get_memory_item :: "'s kv \<Rightarrow> string \<Rightarrow> string \<Rightarrow> string list \<Rightarrow> 's \<Rightarrow> dict option" where
  "get_memory_item m category item_key scope s = kv_get m s (memory_namespace category scope) item_key"

definition list_memory_items :: "'s kv \<Rightarrow> string \<Rightarrow> string list \<Rightarrow> nat \<Rightarrow> 's \<Rightarrow> dict list" where
  "list_memory_items m category scope limit s = kv_search m s (memory_namespace category scope) limit"

definition case_signature :: "dict \<Rightarrow> py" where
  "case_signature payload = py_or (dget0 payload ''error_signature'') (dget0 payload ''error_type'')"

definition record_recovery_case :: "'s kv \<Rightarrow> string \<Rightarrow> dict \<Rightarrow> 's \<Rightarrow> 's" where
  "record_recovery_case m task_id payload s =
     (let stage = str_default payload ''stage'' ''unknown'';
          signature = py_str (py_or (case_signature payload) (PStr ''unknown''))
      in put_memory_item m ''recovery_cases'' (task_id @ '':'' @ stage @ '':'' @ signature) payload [stage] s)"

definition list_recovery_cases :: "'s kv \<Rightarrow> 's \<Rightarrow> dict list" where
  "list_recovery_cases m s =
     concat (map (\<lambda>stage. list_memory_items m ''recovery_cases'' [stage] 100 s) (STAGE_ORDER @ [''unknown'']))"

text \<open>The loops stop after the match that reaches the limit, so they return one match for a limit of zero.\<close>

definition up_to :: "nat \<Rightarrow> 'a list \<Rightarrow> 'a list" where
  "up_to limit xs = take (max 1 limit) xs"

definition signature_matches :: "string \<Rightarrow> dict \<Rightarrow> bool" where
  "signature_matches signature item \<longleftrightarrow>
     (let own = py_strip (py_str (py_or (case_signature item) (PStr [])))
      in signature = [] \<or> own = [] \<or> contains own signature \<or> contains signature own)"

definition find_recovery_cases :: "'s kv \<Rightarrow> string \<Rightarrow> string option \<Rightarrow> nat \<Rightarrow> 's \<Rightarrow> dict list" where
  "find_recovery_cases m stage error_signature limit s =
     up_to limit (filter (signature_matches (py_strip (str_or error_signature [])))
       (list_memory_items m ''recovery_cases'' [stage] limit s))"

definition record_validation_heuristic :: "'s kv \<Rightarrow> string \<Rightarrow> dict \<Rightarrow> 's \<Rightarrow> 's" where
  "record_validation_heuristic m name payload s = put_memory_item m ''validation_heuristics'' name payload [] s"

definition list_validation_heuristics :: "'s kv \<Rightarrow> 's \<Rightarrow> dict list" where
  "list_validation_heuristics m s = list_memory_items m ''validation_heuristics'' [] 1000 s"

definition heuristic_matches :: "string list \<Rightarrow> string \<Rightarrow> dict \<Rightarrow> bool" where
  "heuristic_matches flags warning_text item \<longleftrightarrow>
     (let trigger = get_str item ''trigger_pattern''
      in flags = [] \<or> list_ex (contains trigger) flags \<or> warning_text = [] \<or> contains trigger warning_text)"

definition find_validation_heuristics :: "'s kv \<Rightarrow> string list \<Rightarrow> string list \<Rightarrow> nat \<Rightarrow> 's \<Rightarrow> dict list" where
  "find_validation_heuristics m flags warnings limit s =
     up_to limit (filter (heuristic_matches flags (join '' '' warnings)) (list_validation_heuristics m s))"

definition record_batch_statistics :: "'s kv \<Rightarrow> string \<Rightarrow> dict \<Rightarrow> 's \<Rightarrow> 's" where
  "record_batch_statistics m collection payload s = put_memory_item m ''batch_statistics'' collection payload [collection] s"

definition list_batch_statistics :: "'s kv \<Rightarrow> string \<Rightarrow> 's \<Rightarrow> dict list" where
  "list_batch_statistics m collection s =
     list_memory_items m ''batch_statistics'' (if collection = [] then [] else [collection]) 1000 s"

definition record_skill_metadata :: "'s kv \<Rightarrow> string \<Rightarrow> dict \<Rightarrow> 's \<Rightarrow> 's" where
  "record_skill_metadata m name payload s = put_memory_item m ''skill_registry'' name payload [] s"

definition list_skill_metadata :: "'s kv \<Rightarrow> 's \<Rightarrow> dict list" where
  "list_skill_metadata m s = list_memory_items m ''skill_registry'' [] 1000 s"

section \<open>The memory tools\<close>

definition dicts_py :: "dict list \<Rightarrow> py" where
  "dicts_py ds = PList (map PDict ds)"

definition query_memory_hits :: "'s kv \<Rightarrow> dict \<Rightarrow> nat \<Rightarrow> 's \<Rightarrow> dict" where
  "query_memory_hits m st limit s =
     (let latest = fld_dict st ''blackboard'' ''latest_execution_observation'';
          stage = py_str (py_or (py_or (dget0 latest ''target_capability'') (fld st ''workflow'' ''current_stage'')) (PStr []));
          latest_error = py_str (py_or (py_or (fld st ''diagnostics'' ''last_error'') (dget0 latest ''error_summary'')) (PStr []));
          collection = fld_text st ''task'' ''collection_name'';
          recovered = find_recovery_cases m (if stage = [] then ''unknown'' else stage)
                        (if latest_error = [] then None else Some latest_error) limit s;
          validation = find_validation_heuristics m (texts_in (fld_list st ''blackboard'' ''anomaly_flags''))
                         (texts_in (fld_list st ''material'' ''warnings'')) limit s;
          statistics = (if collection = [] then [] else list_batch_statistics m collection s);
          skills = list_skill_metadata m s;
          ref = (\<lambda>name ds. name @ '':'' @ show_int (int (length ds)))
      in [(''recovered_case_patterns'', dicts_py recovered), (''validation_case_patterns'', dicts_py validation),
          (''batch_statistics'', dicts_py (take limit statistics)), (''skill_registry'', dicts_py (take limit skills)),
          (''evidence_refs'', str_list ([ref ''recovery_cases'' recovered, ref ''validation_heuristics'' validation, ref ''skill_registry'' skills]
             @ on (statistics \<noteq> []) (ref ''batch_statistics'' statistics))),
          (''warnings'', PList [])])"

definition recovery_case :: "dict \<Rightarrow> int \<Rightarrow> dict" where
  "recovery_case st round_id =
     (let latest = fld_dict st ''execution'' ''latest_execution_observation''; action = fld_dict st ''execution'' ''current_action'';
          task_id = (if fld_text st ''task'' ''task_id'' = [] then ''unknown_task'' else fld_text st ''task'' ''task_id'')
      in [(''task_id'', PStr task_id), (''round_id'', PInt round_id),
          (''stage'', PStr (py_str (py_or (py_or (dget0 latest ''target_capability'') (dget0 latest ''stage'')) (PStr ''unknown'')))),
          (''error_signature'', PStr (str_default latest ''error_summary'' ''unknown_failure'')),
          (''chosen_action'', dget0 action ''action_family''), (''target_capability'', dget0 action ''target_capability''),
          (''success_or_failure'', dget0 latest ''status'')])"

definition reflection_item :: "dict \<Rightarrow> int \<Rightarrow> dict" where
  "reflection_item st round_id =
     [(''task_id'', fld st ''task'' ''task_id''), (''round_id'', PInt round_id),
      (''selected_action'', PDict (fld_dict st ''execution'' ''current_action'')),
      (''latest_execution_observation'', PDict (fld_dict st ''execution'' ''latest_execution_observation'')),
      (''disagreement_records'', PList (fld_list st ''deliberation'' ''disagreement_records''))]"

definition write_memory_reflection :: "'s kv \<Rightarrow> dict \<Rightarrow> int \<Rightarrow> 's \<Rightarrow> 's \<times> dict" where
  "write_memory_reflection m st round_id s =
     (let failed = (dget0 (fld_dict st ''execution'' ''latest_execution_observation'') ''status'' = PStr ''failed'');
          s1 = (if failed then record_recovery_case m (get_str (recovery_case st round_id) ''task_id'') (recovery_case st round_id) s else s);
          s2 = put_memory_item m ''runtime_reflections'' (py_str (fld st ''task'' ''task_id'') @ '':'' @ show_int round_id)
                 (reflection_item st round_id) [] s1
      in (s2, [(''recorded_categories'', str_list (on failed ''recovery_cases'' @ [''runtime_reflections''])), (''warnings'', PList [])]))"

section \<open>A store\<close>

type_synonym table = "((namespace \<times> string) \<times> dict) list"

definition table_store :: "table kv" where
  "table_store =
     \<lparr>kv_put = (\<lambda>s ns k d. ((ns, k), d) # s),
      kv_get = (\<lambda>s ns k. map_of s (ns, k)),
      kv_search = (\<lambda>s ns n. map snd (take n (filter (\<lambda>x. take (length ns) (fst (fst x)) = ns) (AList.clearjunk s))))\<rparr>"

lemma in_clearjunk: "x \<in> set (AList.clearjunk s) \<longleftrightarrow> map_of s (fst x) = Some (snd x)"
  using map_of_eq_Some_iff [OF distinct_clearjunk [of s], of "fst x" "snd x"] by (simp add: map_of_clearjunk)

interpretation table: memory_store table_store
proof unfold_locales
  show "kv_get table_store (kv_put table_store s ns k d) ns' k' =
      (if ns' = ns \<and> k' = k then Some d else kv_get table_store s ns' k')" for s ns k d ns' k'
    by (simp add: table_store_def)
next
  fix d s ns n
  assume "d \<in> set (kv_search table_store s ns n)"
  then obtain x where "x \<in> set (AList.clearjunk s)" "snd x = d" "take (length ns) (fst (fst x)) = ns"
    by (auto simp: table_store_def dest!: in_set_takeD)
  then show "\<exists>ns' k. kv_get table_store s ns' k = Some d \<and> take (length ns) ns' = ns"
    by (intro exI [of _ "fst (fst x)"] exI [of _ "snd (fst x)"]) (simp add: in_clearjunk table_store_def)
next
  fix s ns' k d ns n
  assume found: "kv_get table_store s ns' k = Some d" "take (length ns) ns' = ns"
    and few: "length (kv_search table_store s ns n) < n"
  let ?xs = "filter (\<lambda>x. take (length ns) (fst (fst x)) = ns) (AList.clearjunk s)"
  have "((ns', k), d) \<in> set ?xs" using found by (simp add: in_clearjunk table_store_def)
  moreover have "take n ?xs = ?xs" using few by (simp add: table_store_def)
  ultimately show "d \<in> set (kv_search table_store s ns n)" by (force simp: table_store_def)
qed

section \<open>What is recorded is found\<close>

lemma own_signature_matches: "signature_matches (py_strip (py_str (py_or (case_signature d) (PStr [])))) d"
  by (simp add: signature_matches_def Let_def)

text \<open>A recovery case that was recorded is found again by a query for its stage and its own error
  signature, in every store that keeps its promises, as long as the search of the stage returns fewer items
  than the limit of the query.\<close>

theorem recorded_case_found:
  assumes store: "memory_store m" and s': "s' = record_recovery_case m task_id payload s"
    and stage: "stage = str_default payload ''stage'' ''unknown''"
    and signature: "signature = py_str (py_or (case_signature payload) (PStr []))"
    and few: "length (list_memory_items m ''recovery_cases'' [stage] limit s') < limit"
  shows "payload \<in> set (find_recovery_cases m stage (Some signature) limit s')"
proof -
  have "payload \<in> set (list_memory_items m ''recovery_cases'' [stage] limit s')"
    using memory_store.found_after_put [OF store] few
    by (simp add: s' stage record_recovery_case_def put_memory_item_def list_memory_items_def Let_def)
  moreover have "signature_matches (py_strip (str_or (Some signature) [])) payload"
    using own_signature_matches [of payload] by (simp add: signature str_or_def)
  ultimately show ?thesis
    using few order.trans [OF length_filter_le less_imp_le [OF few]]
    by (simp add: find_recovery_cases_def up_to_def)
qed

text \<open>The case of a failed relaxation in the table, queried with the limit of the tools.\<close>

lemma recorded_case_found_witness:
  "let case1 = [(''stage'', PStr ''relax''), (''error_signature'', PStr ''ZBRENT'')]
   in case1 \<in> set (find_recovery_cases table_store ''relax'' (Some ''ZBRENT'') 10
        (record_recovery_case table_store ''t1'' case1 []))"
  unfolding Let_def
  by (rule recorded_case_found [where task_id = "''t1''" and s = "[]", OF table.memory_store_axioms refl]) code_simp+

end
