(* ===== verification/Policy.thy ===== *)
theory Policy
  imports Stage_Tools Checkpointing Messages Runtime_Nodes
begin

text \<open>
  Parameter plans and failure diagnoses (mobility_agent/policy: schemas.py, probe.py, retrieval.py,
  engine.py).

  \<^item> \<open>tokenize\<close>, \<open>retrieve_documents\<close>: the scoring of house-policy documents when there is no vector
    store. The vector store itself is a parameter.
  \<^item> \<open>sanitize_map\<close>: which keys of a plan survive, and with which types.
  \<^item> \<open>has_relax_failure_signature\<close>: the search for evidence of a failed relaxation in free-form data.
  \<^item> \<open>plan_stage\<close>, \<open>diagnose_failure\<close>: the two calls of the engine. What the language model answers is a
    parameter, a function from the request to a text or an exception.

  The identity test that stops \<open>_payload_has_relax_failure\<close> on shared objects has no counterpart: values
  here are trees. Markers in Chinese are left out, as characters are those of Latin-1.
\<close>

section \<open>Evidence, plans and diagnoses\<close>

record RetrievedEvidence =
  ev_corpus :: string
  ev_source_id :: string
  ev_title :: string
  ev_chunk_id :: string
  ev_revision_id :: string
  ev_url_or_path :: string
  ev_heading :: string
  ev_stage :: string
  ev_snippet :: string
  ev_score :: flt
  ev_tags :: "string list"

definition or_text :: "string \<Rightarrow> string \<Rightarrow> string" where
  "or_text a b = (if a = [] then b else a)"

definition texts_kept :: "string list \<Rightarrow> string list" where
  "texts_kept xs = filter (\<lambda>t. t \<noteq> []) (dedupe xs)"

definition normalize_retrieved :: "RetrievedEvidence \<Rightarrow> RetrievedEvidence" where
  "normalize_retrieved v =
     (let source = or_text (ev_source_id v) ''unknown''
      in v\<lparr>ev_corpus := or_text (ev_corpus v) ''unknown'', ev_source_id := source, ev_title := or_text (ev_title v) source,
           ev_tags := texts_kept (ev_tags v)\<rparr>)"

definition reference :: "RetrievedEvidence \<Rightarrow> string" where
  "reference v = ev_corpus v @ '':'' @ ev_source_id v"

definition dump_retrieved :: "RetrievedEvidence \<Rightarrow> py" where
  "dump_retrieved v = PDict
     [(''corpus'', PStr (ev_corpus v)), (''source_id'', PStr (ev_source_id v)), (''title'', PStr (ev_title v)),
      (''chunk_id'', PStr (ev_chunk_id v)), (''revision_id'', PStr (ev_revision_id v)), (''url_or_path'', PStr (ev_url_or_path v)),
      (''heading'', PStr (ev_heading v)), (''stage'', PStr (ev_stage v)), (''snippet'', PStr (ev_snippet v)),
      (''score'', PFloat (ev_score v)), (''tags'', str_list (ev_tags v))]"

text \<open>\<open>max(0.0, min(1.0, c))\<close>.\<close>

definition unit_interval :: "flt \<Rightarrow> flt" where
  "unit_interval c = py_max (Fin 0) (py_min (Fin 1) c)"

record policy_plan =
  pl_stage :: string
  pl_source :: string
  pl_incar_overrides :: dict
  pl_kpoints_policy :: dict
  pl_runtime_policy :: dict
  pl_evidence_refs :: "string list"
  pl_evidence_items :: "RetrievedEvidence list"
  pl_house_rule_refs :: "string list"
  pl_confidence :: flt
  pl_rationale :: string

definition normalize_plan :: "policy_plan \<Rightarrow> policy_plan" where
  "normalize_plan p =
     p\<lparr>pl_source := or_text (pl_source p) ''fallback'', pl_evidence_refs := texts_kept (pl_evidence_refs p),
       pl_house_rule_refs := texts_kept (pl_house_rule_refs p), pl_confidence := unit_interval (pl_confidence p)\<rparr>"

record FailureDiagnosis =
  fd_stage :: string
  fd_source :: string
  fd_hypotheses :: "string list"
  fd_recommended_action :: string
  fd_parameter_patch :: dict
  fd_needs_human :: bool
  fd_evidence_refs :: "string list"
  fd_evidence_items :: "RetrievedEvidence list"
  fd_confidence :: flt
  fd_rationale :: string

definition normalize_diagnosis :: "FailureDiagnosis \<Rightarrow> FailureDiagnosis" where
  "normalize_diagnosis d =
     d\<lparr>fd_source := or_text (fd_source d) ''fallback'', fd_hypotheses := texts_kept (fd_hypotheses d),
       fd_recommended_action := or_text (fd_recommended_action d) ''retry_capability'',
       fd_evidence_refs := texts_kept (fd_evidence_refs d), fd_confidence := unit_interval (fd_confidence d)\<rparr>"

section \<open>The probe of a stage\<close>

record StageProbe =
  sp_stage :: string
  sp_material_id :: string
  sp_atom_count :: int
  sp_composition :: py
  sp_structure_summary :: dict
  sp_resource_summary :: dict
  sp_kpoint_summary :: dict
  sp_prior_execution_summary :: dict
  sp_extra_context :: dict

text \<open>The composition must be a text or absent; anything else is refused by the class.\<close>

definition build_stage_probe :: "dict \<Rightarrow> string \<Rightarrow> dict \<Rightarrow> StageProbe res" where
  "build_stage_probe st stage extra =
     (let latest = fld_dict st ''execution'' ''latest_execution_observation'';
          preflight = fld_dict st ''material'' ''preflight_summary'';
          summary = (let s = fld_dict st ''material'' ''structure_summary'' in if s = [] then preflight else s);
          composition = fld st ''material'' ''composition''
      in bindR (to_int (py_or (py_or (fld st ''material'' ''atom_count'') (dget0 summary ''atom_count'')) (PInt 0))) (\<lambda>n.
         if composition \<noteq> PNone \<and> \<not> is_str composition then Inl (ValidationError ''composition'')
         else Inr \<lparr>sp_stage = stage, sp_material_id = fld_text st ''material'' ''material_id'', sp_atom_count = n,
                   sp_composition = composition, sp_structure_summary = summary,
                   sp_resource_summary = fld_dict st ''execution'' ''environment_summary'',
                   sp_kpoint_summary = on (stage \<in> {''relax'', ''scf''}) (''target_ka'', PFloat (Fin 50)),
                   sp_prior_execution_summary =
                     [(''latest_status'', dget0 latest ''status''),
                      (''latest_error'', py_or (fld st ''diagnostics'' ''last_error'') (dget0 latest ''error_summary'')),
                      (''warnings'', PList (fld_list st ''material'' ''warnings''))],
                   sp_extra_context = extra\<rparr>))"

definition dump_probe :: "StageProbe \<Rightarrow> py" where
  "dump_probe p = PDict
     [(''stage'', PStr (sp_stage p)), (''material_id'', PStr (sp_material_id p)), (''atom_count'', PInt (sp_atom_count p)),
      (''composition'', sp_composition p), (''structure_summary'', PDict (sp_structure_summary p)),
      (''resource_summary'', PDict (sp_resource_summary p)), (''kpoint_summary'', PDict (sp_kpoint_summary p)),
      (''prior_execution_summary'', PDict (sp_prior_execution_summary p)), (''extra_context'', PDict (sp_extra_context p))]"

section \<open>Retrieval without a vector store\<close>

definition token_char :: "char \<Rightarrow> bool" where
  "token_char c \<longleftrightarrow> (let n = code_of c in 48 \<le> n \<and> n \<le> 57 \<or> 65 \<le> n \<and> n \<le> 90 \<or> 97 \<le> n \<and> n \<le> 122 \<or> n \<in> {95, 43, 45, 46})"

fun token_runs :: "string \<Rightarrow> string \<Rightarrow> string list" where
  "token_runs acc [] = on (acc \<noteq> []) (rev acc)"
| "token_runs acc (c # s) = (if token_char c then token_runs (c # acc) s else on (acc \<noteq> []) (rev acc) @ token_runs [] s)"

definition tokenize :: "string \<Rightarrow> string list" where
  "tokenize text = map py_lower (token_runs [] text)"

definition shared_tokens :: "string list \<Rightarrow> string \<Rightarrow> nat" where
  "shared_tokens tokens text = length (filter (\<lambda>t. t \<in> set tokens) (dedupe (tokenize text)))"

definition document_tags :: "dict \<Rightarrow> string list" where
  "document_tags d = filter (\<lambda>t. t \<noteq> []) (texts_in (sub_list d ''tags''))"

definition document_score :: "string \<Rightarrow> string \<Rightarrow> dict \<Rightarrow> rat" where
  "document_score query stage d =
     (let q = tokenize query; n = (\<lambda>k. of_nat (shared_tokens q (get_str d k)))
      in 5 / 2 * n ''title'' + 9 / 5 * n ''heading'' + 11 / 10 * n ''text''
         + 2 * of_nat (shared_tokens (tokenize stage) (join '' '' (document_tags d))))"

definition evidence_of :: "rat \<times> dict \<Rightarrow> RetrievedEvidence" where
  "evidence_of sd =
     (let d = snd sd; source = py_str (py_or (py_or (dget0 d ''source_id'') (dget0 d ''title'')) (PStr ''house-policy''));
          title = py_str (py_or (py_or (dget0 d ''title'') (dget0 d ''source_id'')) (PStr ''house-policy''))
      in normalize_retrieved
        \<lparr>ev_corpus = str_default d ''corpus'' ''house_policy'', ev_source_id = source, ev_title = title, ev_chunk_id = [], ev_revision_id = [],
         ev_url_or_path = get_str d ''url'', ev_heading = get_str d ''heading'', ev_stage = get_str d ''stage'',
         ev_snippet = take 420 (get_str d ''text''), ev_score = Fin (fst sd), ev_tags = document_tags d\<rparr>)"

definition ranked_documents :: "string \<Rightarrow> string \<Rightarrow> string list \<Rightarrow> dict list \<Rightarrow> (rat \<times> dict) list" where
  "ranked_documents query stage corpora documents =
     (let requested = filter (\<lambda>c. c \<noteq> []) corpora;
          wanted = filter (\<lambda>d. requested = [] \<or> get_str d ''corpus'' \<in> set requested) documents
      in sort_key (\<lambda>sd. - fst sd) (filter (\<lambda>sd. 0 < fst sd) (map (\<lambda>d. (document_score query stage d, d)) wanted)))"

text \<open>\<open>ranked[: max(1, int(top_k or 5))]\<close>.\<close>

definition top_count :: "int \<Rightarrow> nat" where
  "top_count k = nat (max 1 (if k = 0 then 5 else k))"

record knowledge_base =
  kb_strict :: bool
  kb_documents :: "dict list"
  kb_service :: "(string \<Rightarrow> string \<Rightarrow> int \<Rightarrow> string list \<Rightarrow> RetrievedEvidence list res) option"

definition retrieve :: "knowledge_base \<Rightarrow> string \<Rightarrow> string \<Rightarrow> int \<Rightarrow> string list \<Rightarrow> RetrievedEvidence list res" where
  "retrieve kb query stage top_k corpora =
     (case kb_service kb of
        Some service \<Rightarrow> bindR (service query stage top_k corpora) (\<lambda>vs. Inr (map normalize_retrieved vs))
      | None \<Rightarrow>
          if kb_strict kb then Inl (RuntimeError ''policy_rag_unavailable_under_strict_mode'')
          else Inr (map evidence_of (take (top_count top_k) (ranked_documents query stage corpora (kb_documents kb)))))"

section \<open>Keys a plan may set\<close>

definition INT_FIELDS :: "string list" where
  "INT_FIELDS =
     [''ENCUT'', ''NELM'', ''IBRION'', ''ISIF'', ''NSW'', ''ISMEAR'', ''ISYM'', ''KPAR'', ''NCORE'', ''NPAR'', ''line_mode_density'',
      ''mpi_ranks'', ''omp_threads'']"

definition FLOAT_FIELDS :: "string list" where
  "FLOAT_FIELDS = [''EDIFF'', ''SIGMA'', ''POTIM'', ''EDIFFG'', ''target_ka'']"

definition BOOL_FIELDS :: "string list" where
  "BOOL_FIELDS = [''LASPH'', ''ADDGRID'', ''LVTOT'', ''LVHAR'', ''gamma_centered'']"

definition STRING_FIELDS :: "string list" where
  "STRING_FIELDS = [''PREC'', ''ALGO'', ''LREAL'', ''gpu_binding'']"

definition COMMON_INCAR_KEYS :: "string list" where
  "COMMON_INCAR_KEYS =
     [''ENCUT'', ''EDIFF'', ''NELM'', ''PREC'', ''ALGO'', ''ISMEAR'', ''SIGMA'', ''LASPH'', ''ADDGRID'', ''LREAL'', ''ISYM'', ''KPAR'',
      ''NCORE'', ''NPAR'']"

definition stage_allowed_keys :: "string \<Rightarrow> string list" where
  "stage_allowed_keys stage =
     COMMON_INCAR_KEYS @
     (if stage = ''relax'' then [''IBRION'', ''ISIF'', ''NSW'', ''POTIM'', ''EDIFFG'']
      else if stage = ''scf'' then [''LVTOT'', ''LVHAR''] else [])"

definition kpoints_keys :: "string list" where
  "kpoints_keys = [''target_ka'', ''gamma_centered'', ''line_mode_density'']"

definition runtime_keys :: "string list" where
  "runtime_keys = [''mpi_ranks'', ''omp_threads'', ''gpu_binding'']"

definition sanitize_value :: "string \<Rightarrow> py \<Rightarrow> py res" where
  "sanitize_value name v =
     (if name \<in> set INT_FIELDS then bindR (to_int v) (\<lambda>i. Inr (PInt i))
      else if name \<in> set FLOAT_FIELDS then bindR (to_float v) (\<lambda>x. Inr (PFloat x))
      else if name \<in> set BOOL_FIELDS then Inr (PBool (truthy v))
      else if name \<in> set STRING_FIELDS then Inr (PStr (py_str v))
      else Inr v)"

definition sanitize_entry :: "string list \<Rightarrow> string \<times> py \<Rightarrow> dict \<Rightarrow> dict" where
  "sanitize_entry allowed entry kept =
     (let name = py_strip (fst entry)
      in if name = [] \<or> name \<notin> set allowed then kept
         else case sanitize_value name (snd entry) of Inl _ \<Rightarrow> kept | Inr v \<Rightarrow> dset kept name v)"

definition sanitize_map :: "string list \<Rightarrow> dict \<Rightarrow> dict" where
  "sanitize_map allowed d = fold (sanitize_entry allowed) d []"

section \<open>Evidence of a failed relaxation\<close>

definition RELAX_FAILURE_EXACT :: "string list" where
  "RELAX_FAILURE_EXACT = [''relax_failed'', ''relax_retry_fatal'', ''relax_retry_limit_reached'', ''relax_nonconverged'', ''zbrent_fatal'']"

definition RELAX_FAILURE_MARKERS :: "string list" where
  "RELAX_FAILURE_MARKERS = [''RELAX_FAILED'', ''RELAX_RETRY_FATAL'', ''CONTCAR_MISSING'']"

definition string_has_relax_failure :: "string \<Rightarrow> bool" where
  "string_has_relax_failure text \<longleftrightarrow>
     (let lowered = py_lower text; has = contains lowered in
      text \<noteq> [] \<and>
      (list_ex (contains text) RELAX_FAILURE_MARKERS \<or> list_ex has RELAX_FAILURE_EXACT
       \<or> has ''relax'' \<and> has ''failed'' \<or> has ''relax'' \<and> has ''missing'' \<and> has ''contcar'' \<or> has ''contcar'' \<and> has ''missing''))"

definition hint :: "dict \<Rightarrow> string list \<Rightarrow> string" where
  "hint d keys = join '' '' (map (get_str d) keys)"

definition dict_has_relax_failure :: "dict \<Rightarrow> bool" where
  "dict_has_relax_failure d \<longleftrightarrow>
     (let stage = py_lower (hint d [''stage'', ''substage'', ''task_scope'', ''target_capability'', ''capability'']);
          err = hint d [''error'', ''error_type'', ''error_summary'', ''trigger_pattern'', ''message'']
      in string_has_relax_failure err
       \<or> contains stage ''relax'' \<and>
           list_ex (\<lambda>k. py_lower (py_strip (get_str d k)) \<in> set RELAX_FAILURE_EXACT) [''error'', ''error_type'', ''trigger_pattern'']
       \<or> contains stage ''relax'' \<and> contains (py_lower err) ''contcar'')"

text \<open>The search goes eight levels deep.\<close>

fun payload_has_relax_failure :: "nat \<Rightarrow> py \<Rightarrow> bool" where
  "payload_has_relax_failure 0 v = False"
| "payload_has_relax_failure (Suc n) (PDict d) =
     (dict_has_relax_failure d \<or> list_ex (payload_has_relax_failure n) (map snd d))"
| "payload_has_relax_failure (Suc n) (PList xs) = list_ex (payload_has_relax_failure n) xs"
| "payload_has_relax_failure (Suc n) (PStr s) = string_has_relax_failure s"
| "payload_has_relax_failure (Suc n) _ = False"

definition relax_candidates :: "string \<Rightarrow> dict \<Rightarrow> dict \<Rightarrow> py list" where
  "relax_candidates stage failure st =
     (let present = (\<lambda>s k. on (truthy (fld st s k)) (fld st s k))
      in [PDict failure] @ present ''blackboard'' ''latest_execution_observation'' @ present ''execution'' ''latest_execution_observation''
         @ on (truthy (dget0 st ''last_observation'')) (dget0 st ''last_observation'')
         @ (if py_strip stage \<in> {''relax'', ''strain_loop''} then
              concat (map (present ''physics_results'') [''strain_data'', ''strain_recovery_events'', ''strain_results''])
              @ concat (map (present ''diagnostics'') [''last_error'', ''recovery_summary'', ''recovery_events''])
            else []))"

definition has_relax_failure_signature :: "string \<Rightarrow> dict \<Rightarrow> dict \<Rightarrow> bool" where
  "has_relax_failure_signature stage failure st \<longleftrightarrow> list_ex (payload_has_relax_failure 9) (relax_candidates stage failure st)"

section \<open>Asking the language model\<close>

definition json_compact_list :: "string list \<Rightarrow> string" where
  "json_compact_list ts = ''['' @ join '', '' ts @ '']''"

fun json_compact :: "py \<Rightarrow> string" where
  "json_compact (PList xs) = json_compact_list (map json_compact xs)"
| "json_compact (PDict d) = ''{'' @ join '', '' (map (\<lambda>(k, v). json_string k @ '': '' @ json_compact v) d) @ ''}''"
| "json_compact v = json_dump 0 v"

fun find_from :: "char list \<Rightarrow> string \<Rightarrow> string option" where
  "find_from cs [] = None"
| "find_from cs (c # s) = (if c \<in> set cs then Some (c # s) else find_from cs s)"

definition extract_first_json_object :: "string \<Rightarrow> dict res" where
  "extract_first_json_object text =
     (let candidate = py_strip text in
      if candidate = [] then Inl (ValueError ''empty_llm_response'')
      else case find_from [CHR ''{'', CHR ''['' ] candidate of
        None \<Rightarrow> Inl (ValueError ''json_payload_not_found'')
      | Some rest \<Rightarrow>
          (case read_value (Suc (length rest)) rest of
             None \<Rightarrow> Inl (ValueError ''Expecting value'')
           | Some (PDict d, _) \<Rightarrow> Inr d
           | Some _ \<Rightarrow> Inl (ValueError ''json_payload_not_dict'')))"

type_synonym llm = "string \<Rightarrow> string res"

definition call_json_schema :: "llm \<Rightarrow> dict \<Rightarrow> dict res" where
  "call_json_schema model payload = bindR (model (json_dumps (PDict payload))) extract_first_json_object"

record policy_engine =
  pe_coerce :: coercion
  pe_knowledge :: knowledge_base
  pe_top_k :: int
  pe_enabled :: bool
  pe_planner :: "string + llm"
  pe_recovery :: "string + llm"

definition query_from_probe :: "StageProbe \<Rightarrow> string" where
  "query_from_probe p =
     join [CHR 0x0A] (filter (\<lambda>t. py_strip t \<noteq> [])
       [sp_stage p, sp_material_id p, py_str (py_or (sp_composition p) (PStr [])), json_compact (PDict (sp_structure_summary p)),
        json_compact (PDict (sp_extra_context p)), json_compact (PDict (sp_prior_execution_summary p))])"

definition historical_case :: "string \<Rightarrow> nat \<times> py \<Rightarrow> RetrievedEvidence list" where
  "historical_case stage ix =
     (case snd ix of
        PDict d \<Rightarrow>
          (let item_stage = get_str d ''stage''
           in on (item_stage = [] \<or> item_stage = stage)
             (normalize_retrieved
               \<lparr>ev_corpus = ''historical_case'', ev_source_id = str_default d ''task_id'' (''case-'' @ show_int (int (fst ix))),
                ev_title = ''Historical recovery case '' @ show_int (int (fst ix)), ev_chunk_id = [], ev_revision_id = [],
                ev_url_or_path = ''memory://recovered_case_patterns'', ev_heading = or_text item_stage stage, ev_stage = [],
                ev_snippet = take 420 (json_compact (PDict d)), ev_score = Fin 1, ev_tags = on (item_stage \<noteq> []) item_stage\<rparr>))
      | _ \<Rightarrow> [])"

definition historical_evidence :: "dict \<Rightarrow> string \<Rightarrow> RetrievedEvidence list" where
  "historical_evidence st stage =
     (let recovered = take 3 (fld_list st ''memory'' ''recovered_case_patterns'')
      in concat (map (historical_case stage) (zip [1..<Suc (length recovered)] recovered)))"

section \<open>Reading an answer\<close>

definition evidence_class :: schema where
  "evidence_class =
     \<lparr>required = [''corpus'', ''source_id'', ''title'', ''snippet''],
      members =
        [(''corpus'', TStr, PStr []), (''source_id'', TStr, PStr []), (''title'', TStr, PStr []), (''chunk_id'', TStr, PStr []),
         (''revision_id'', TStr, PStr []), (''url_or_path'', TStr, PStr []), (''heading'', TStr, PStr []), (''stage'', TStr, PStr []),
         (''snippet'', TStr, PStr []), (''score'', TFloat, PFloat (Fin 0)), (''tags'', TListStr, PList [])],
      after = id\<rparr>"

definition flt_member :: "dict \<Rightarrow> string \<Rightarrow> flt" where
  "flt_member d k = (case dget0 d k of PFloat x \<Rightarrow> x | _ \<Rightarrow> Fin 0)"

definition evidence_of_dict :: "dict \<Rightarrow> RetrievedEvidence" where
  "evidence_of_dict d = normalize_retrieved
     \<lparr>ev_corpus = get_str d ''corpus'', ev_source_id = get_str d ''source_id'', ev_title = get_str d ''title'',
      ev_chunk_id = get_str d ''chunk_id'', ev_revision_id = get_str d ''revision_id'', ev_url_or_path = get_str d ''url_or_path'',
      ev_heading = get_str d ''heading'', ev_stage = get_str d ''stage'', ev_snippet = get_str d ''snippet'',
      ev_score = flt_member d ''score'', ev_tags = texts_in (sub_list d ''tags'')\<rparr>"

definition read_evidence :: "coercion \<Rightarrow> dict \<Rightarrow> RetrievedEvidence list res" where
  "read_evidence coerce d =
     (case dget d ''evidence_items'' (PList []) of
        PList vs \<Rightarrow> mapR (\<lambda>v. bindR (read_object (construct coerce evidence_class) v) (\<lambda>x. Inr (evidence_of_dict x))) vs
      | _ \<Rightarrow> Inl (ValidationError ''list_type''))"

definition plan_class :: schema where
  "plan_class =
     \<lparr>required = [''stage''],
      members =
        [(''stage'', TStr, PStr []), (''source'', TStr, PStr ''fallback''), (''incar_overrides'', TDict, PDict []),
         (''kpoints_policy'', TDict, PDict []), (''runtime_policy'', TDict, PDict []), (''evidence_refs'', TListStr, PList []),
         (''house_rule_refs'', TListStr, PList []), (''confidence'', TFloat, PFloat (Fin 0)), (''rationale'', TStr, PStr [])],
      after = id\<rparr>"

definition read_plan :: "coercion \<Rightarrow> dict \<Rightarrow> policy_plan res" where
  "read_plan coerce raw =
     bindR (construct coerce plan_class raw) (\<lambda>d.
     bindR (read_evidence coerce raw) (\<lambda>evidence.
       Inr (normalize_plan
         \<lparr>pl_stage = get_str d ''stage'', pl_source = get_str d ''source'', pl_incar_overrides = sub_dict d ''incar_overrides'',
          pl_kpoints_policy = sub_dict d ''kpoints_policy'', pl_runtime_policy = sub_dict d ''runtime_policy'',
          pl_evidence_refs = texts_in (sub_list d ''evidence_refs''), pl_evidence_items = evidence,
          pl_house_rule_refs = texts_in (sub_list d ''house_rule_refs''), pl_confidence = flt_member d ''confidence'',
          pl_rationale = get_str d ''rationale''\<rparr>)))"

definition diagnosis_class :: schema where
  "diagnosis_class =
     \<lparr>required = [''stage''],
      members =
        [(''stage'', TStr, PStr []), (''source'', TStr, PStr ''fallback''), (''hypotheses'', TListStr, PList []),
         (''recommended_action'', TStr, PStr ''retry_capability''), (''parameter_patch'', TDict, PDict []),
         (''needs_human'', TBool, PBool False), (''evidence_refs'', TListStr, PList []), (''confidence'', TFloat, PFloat (Fin 0)),
         (''rationale'', TStr, PStr [])],
      after = id\<rparr>"

definition read_diagnosis :: "coercion \<Rightarrow> dict \<Rightarrow> FailureDiagnosis res" where
  "read_diagnosis coerce raw =
     bindR (construct coerce diagnosis_class raw) (\<lambda>d.
     bindR (read_evidence coerce raw) (\<lambda>evidence.
       Inr (normalize_diagnosis
         \<lparr>fd_stage = get_str d ''stage'', fd_source = get_str d ''source'', fd_hypotheses = texts_in (sub_list d ''hypotheses''),
          fd_recommended_action = get_str d ''recommended_action'', fd_parameter_patch = sub_dict d ''parameter_patch'',
          fd_needs_human = truthy (dget0 d ''needs_human''), fd_evidence_refs = texts_in (sub_list d ''evidence_refs''),
          fd_evidence_items = evidence, fd_confidence = flt_member d ''confidence'', fd_rationale = get_str d ''rationale''\<rparr>)))"

section \<open>The plan of a stage\<close>

definition policy_corpora :: "string list" where
  "policy_corpora = [''house_policy'', ''vasp_wiki'']"

definition house_refs :: "RetrievedEvidence list \<Rightarrow> string list" where
  "house_refs evidence = map reference (filter (\<lambda>v. ev_corpus v = ''house_policy'') evidence)"

definition with_retrieval_error :: "string \<Rightarrow> string \<Rightarrow> string" where
  "with_retrieval_error text err = (if err = [] then text else text @ '':retrieval_error:'' @ err)"

definition fallback_plan :: "string \<Rightarrow> dict \<Rightarrow> RetrievedEvidence list \<Rightarrow> string \<Rightarrow> string \<Rightarrow> policy_plan" where
  "fallback_plan stage kpoints evidence err reason =
     normalize_plan
       \<lparr>pl_stage = stage, pl_source = ''fallback'', pl_incar_overrides = [], pl_kpoints_policy = kpoints, pl_runtime_policy = [],
        pl_evidence_refs = map reference evidence, pl_evidence_items = evidence, pl_house_rule_refs = house_refs evidence,
        pl_confidence = Fin (if evidence \<noteq> [] then 7 / 20 else if err \<noteq> [] then 1 / 5 else 3 / 20),
        pl_rationale = with_retrieval_error reason err\<rparr>"

definition plan_request :: "string \<Rightarrow> StageProbe \<Rightarrow> dict \<Rightarrow> dict \<Rightarrow> RetrievedEvidence list \<Rightarrow> dict" where
  "plan_request stage probe incar kpoints evidence =
     [(''stage'', PStr stage), (''probe'', dump_probe probe), (''default_incar'', PDict incar), (''default_kpoints_policy'', PDict kpoints),
      (''allowed_incar_keys'', str_list (sort (stage_allowed_keys stage))), (''allowed_kpoints_keys'', str_list kpoints_keys),
      (''allowed_runtime_keys'', str_list runtime_keys), (''evidence'', PList (map dump_retrieved evidence)),
      (''instruction'', PStr (''Return a single JSON object with keys: stage, source, incar_overrides, kpoints_policy, runtime_policy, ''
         @ ''evidence_refs, house_rule_refs, confidence, rationale. ''
         @ ''Keep non-default changes minimal. Only use allowed keys. If evidence is weak, keep overrides empty.''))]"

definition cautious_plan :: "string \<Rightarrow> dict \<Rightarrow> RetrievedEvidence list \<Rightarrow> policy_plan \<Rightarrow> policy_plan" where
  "cautious_plan stage kpoints evidence p =
     (let policy = sanitize_map kpoints_keys (pl_kpoints_policy p)
      in p\<lparr>pl_stage := stage, pl_source := or_text (pl_source p) ''llm'',
           pl_incar_overrides := sanitize_map (stage_allowed_keys stage) (pl_incar_overrides p),
           pl_kpoints_policy := (if policy = [] then kpoints else policy),
           pl_runtime_policy := sanitize_map runtime_keys (pl_runtime_policy p), pl_evidence_items := evidence,
           pl_evidence_refs := map reference evidence, pl_house_rule_refs := house_refs evidence\<rparr>)"

definition plan_stage :: "policy_engine \<Rightarrow> string \<Rightarrow> dict \<Rightarrow> dict \<Rightarrow> dict \<Rightarrow> dict \<Rightarrow> policy_plan res" where
  "plan_stage en stage st incar kpoints extra =
     bindR (build_stage_probe st stage extra) (\<lambda>probe.
     let found = retrieve (pe_knowledge en) (query_from_probe probe) stage (pe_top_k en) policy_corpora;
         evidence = (case found of Inr vs \<Rightarrow> vs | Inl _ \<Rightarrow> historical_evidence st stage);
         err = (case found of Inr _ \<Rightarrow> [] | Inl exc \<Rightarrow> exc_name exc);
         fallback = fallback_plan stage kpoints evidence err
     in Inr (if \<not> pe_enabled en then fallback ''agentic_policy_disabled''
             else case pe_planner en of
               Inl reason \<Rightarrow> fallback (''planner_llm_unavailable:'' @ or_text reason ''unknown'')
             | Inr model \<Rightarrow>
                 (case bindR (call_json_schema model (plan_request stage probe incar kpoints evidence)) (read_plan (pe_coerce en)) of
                    Inl exc \<Rightarrow> fallback (''planner_fallback:'' @ exc_name exc)
                  | Inr p \<Rightarrow>
                      (let q = cautious_plan stage kpoints evidence p
                       in if pl_incar_overrides q = [] \<and> pl_kpoints_policy q = [] then fallback ''fallback_to_deterministic_stage_templates''
                          else q))))"

section \<open>The diagnosis of a failure\<close>

definition DEFAULT_ALLOWED_ACTIONS :: "string list" where
  "DEFAULT_ALLOWED_ACTIONS =
     [''retry_capability'', ''rerun_from_capability'', ''repair_execution_context'', ''escalate_human'', ''abort_material'']"

definition failure_query :: "string \<Rightarrow> dict \<Rightarrow> string" where
  "failure_query stage failure =
     join [CHR 0x0A] [stage, get_str failure ''error_summary'', get_str failure ''error_category'',
       json_compact (py_or (dget0 failure ''artifact_paths'') (PDict []))]"

definition diagnosis_evidence :: "policy_engine \<Rightarrow> string \<Rightarrow> dict \<Rightarrow> dict \<Rightarrow> RetrievedEvidence list" where
  "diagnosis_evidence en stage st failure =
     take (nat (max 1 (pe_top_k en)))
       (try_except (retrieve (pe_knowledge en) (failure_query stage failure) stage (pe_top_k en) policy_corpora) []
        @ historical_evidence st stage)"

definition offered_actions :: "string list \<Rightarrow> string list" where
  "offered_actions allowed = filter (\<lambda>a. a \<noteq> []) (list_or allowed DEFAULT_ALLOWED_ACTIONS)"

definition fallback_action :: "string list \<Rightarrow> string res" where
  "fallback_action offered =
     (if ''retry_capability'' \<in> set offered then Inr ''retry_capability''
      else case offered of [] \<Rightarrow> Inl (IndexError ''list index out of range'') | a # _ \<Rightarrow> Inr a)"

definition relax_diagnosis :: "string \<Rightarrow> dict \<Rightarrow> RetrievedEvidence list \<Rightarrow> string \<Rightarrow> FailureDiagnosis" where
  "relax_diagnosis stage failure evidence action =
     normalize_diagnosis
       \<lparr>fd_stage = stage, fd_source = ''deterministic_relax_failure_policy'',
        fd_hypotheses = [''relaxation_failure_requires_human_intervention'', str_default failure ''error_summary'' ''relax_failure_detected''],
        fd_recommended_action = action, fd_parameter_patch = [], fd_needs_human = (action = ''escalate_human''),
        fd_evidence_refs = map reference evidence, fd_evidence_items = evidence, fd_confidence = Fin (49 / 50),
        fd_rationale = ''deterministic_relax_failure_requires_human: ''
          @ ''RELAX_FAILED/relax_failed/CONTCAR relaxation-output failure evidence was found; ''
          @ ''non-relax failures remain under normal recovery policy.''\<rparr>"

definition fallback_diagnosis :: "string \<Rightarrow> dict \<Rightarrow> RetrievedEvidence list \<Rightarrow> string \<Rightarrow> string \<Rightarrow> FailureDiagnosis" where
  "fallback_diagnosis stage failure evidence action reason =
     normalize_diagnosis
       \<lparr>fd_stage = stage, fd_source = ''fallback'',
        fd_hypotheses = [''stage='' @ stage, str_default failure ''error_summary'' ''unknown_failure''],
        fd_recommended_action = action, fd_parameter_patch = [], fd_needs_human = (action = ''escalate_human''),
        fd_evidence_refs = map reference evidence, fd_evidence_items = evidence,
        fd_confidence = Fin (if evidence \<noteq> [] then 9 / 20 else 1 / 5), fd_rationale = reason\<rparr>"

definition diagnosis_request :: "string \<Rightarrow> dict \<Rightarrow> string list \<Rightarrow> RetrievedEvidence list \<Rightarrow> dict" where
  "diagnosis_request stage failure offered evidence =
     [(''stage'', PStr stage), (''latest_failure'', PDict failure), (''allowed_actions'', str_list offered),
      (''evidence'', PList (map dump_retrieved evidence)),
      (''instruction'', PStr (''Return a JSON object with keys: stage, source, hypotheses, recommended_action, parameter_patch, ''
         @ ''needs_human, evidence_refs, confidence, rationale. '' @ ''recommended_action must be one of allowed_actions.''))]"

definition cautious_diagnosis ::
  "string \<Rightarrow> string list \<Rightarrow> RetrievedEvidence list \<Rightarrow> FailureDiagnosis \<Rightarrow> FailureDiagnosis \<Rightarrow> FailureDiagnosis" where
  "cautious_diagnosis stage offered evidence fallback d =
     d\<lparr>fd_stage := stage,
       fd_recommended_action := (if fd_recommended_action d \<in> set offered then fd_recommended_action d else fd_recommended_action fallback),
       fd_parameter_patch := sanitize_map (stage_allowed_keys stage) (fd_parameter_patch d),
       fd_evidence_items := evidence, fd_evidence_refs := map reference evidence,
       fd_hypotheses := list_or (fd_hypotheses d) (fd_hypotheses fallback)\<rparr>"

definition diagnose_failure :: "policy_engine \<Rightarrow> string \<Rightarrow> dict \<Rightarrow> dict \<Rightarrow> string list \<Rightarrow> FailureDiagnosis res" where
  "diagnose_failure en stage st failure allowed =
     (let evidence = diagnosis_evidence en stage st failure; offered = offered_actions allowed
      in bindR (fallback_action offered) (\<lambda>action.
         if has_relax_failure_signature stage failure st then
           Inr (relax_diagnosis stage failure evidence (if ''escalate_human'' \<in> set offered then ''escalate_human'' else action))
         else
           (let fallback = fallback_diagnosis stage failure evidence action
            in Inr (if \<not> pe_enabled en then fallback ''agentic_policy_disabled''
                    else case pe_recovery en of
                      Inl reason \<Rightarrow> fallback (''recovery_llm_unavailable:'' @ or_text reason ''unknown'')
                    | Inr model \<Rightarrow>
                        (case bindR (call_json_schema model (diagnosis_request stage failure offered evidence)) (read_diagnosis (pe_coerce en)) of
                           Inl exc \<Rightarrow> fallback (''recovery_fallback:'' @ exc_name exc)
                         | Inr d \<Rightarrow> cautious_diagnosis stage offered evidence (fallback ''fallback_failure_diagnosis'') d)))))"

section \<open>What survives of an answer\<close>

definition fits_key :: "string \<Rightarrow> py \<Rightarrow> bool" where
  "fits_key k v \<longleftrightarrow>
     (k \<in> set INT_FIELDS \<longrightarrow> is_int v) \<and> (k \<in> set FLOAT_FIELDS \<longrightarrow> is_float v)
     \<and> (k \<in> set BOOL_FIELDS \<longrightarrow> (\<exists>b. v = PBool b)) \<and> (k \<in> set STRING_FIELDS \<longrightarrow> is_str v)"

definition admissible :: "string list \<Rightarrow> dict \<Rightarrow> bool" where
  "admissible allowed d \<longleftrightarrow> distinct (map fst d) \<and> (\<forall>(k, v)\<in>set d. k \<in> set allowed \<and> fits_key k v)"

lemma field_classes_disjoint:
  "set INT_FIELDS \<inter> set FLOAT_FIELDS = {}" "set INT_FIELDS \<inter> set BOOL_FIELDS = {}" "set INT_FIELDS \<inter> set STRING_FIELDS = {}"
  "set FLOAT_FIELDS \<inter> set BOOL_FIELDS = {}" "set FLOAT_FIELDS \<inter> set STRING_FIELDS = {}" "set BOOL_FIELDS \<inter> set STRING_FIELDS = {}"
  by (simp_all add: INT_FIELDS_def FLOAT_FIELDS_def BOOL_FIELDS_def STRING_FIELDS_def)

lemma sanitize_value_fits: "sanitize_value k v = Inr w \<Longrightarrow> fits_key k w"
  using field_classes_disjoint
  by (auto simp: sanitize_value_def fits_key_def is_int_def is_float_def is_str_def split: if_splits)

lemma admissible_dset: "admissible allowed d \<Longrightarrow> k \<in> set allowed \<Longrightarrow> fits_key k v \<Longrightarrow> admissible allowed (dset d k v)"
proof -
  assume a: "admissible allowed d" "k \<in> set allowed" "fits_key k v"
  have "distinct (map fst (dset d k v))" using a(1) by (simp add: admissible_def)
  moreover have "j \<in> set allowed \<and> fits_key j w" if "(j, w) \<in> set (dset d k v)" for j w
  proof -
    have "map_of (dset d k v) j = Some w" using map_of_is_SomeI [OF calculation that] .
    then show ?thesis using a by (cases "j = k") (auto simp: admissible_def dest: map_of_SomeD)
  qed
  ultimately show ?thesis by (auto simp: admissible_def)
qed

lemma admissible_sanitize [simp]: "admissible allowed (sanitize_map allowed d)"
proof -
  have "admissible allowed c \<Longrightarrow> admissible allowed (fold (sanitize_entry allowed) d c)" for c
    by (induction d arbitrary: c)
      (auto simp: sanitize_entry_def Let_def admissible_dset sanitize_value_fits split: sum.split)
  moreover have "admissible allowed []" by (simp add: admissible_def)
  ultimately show ?thesis by (simp add: sanitize_map_def)
qed

lemma unit_interval_bounds: "flt_le (Fin 0) (unit_interval c) \<and> flt_le (unit_interval c) (Fin 1)"
  by (cases c) (auto simp: unit_interval_def py_min_def py_max_def flt_le_def)

lemma fallback_plan_fields [simp]:
  "pl_incar_overrides (fallback_plan stage k ev err r) = []" "pl_runtime_policy (fallback_plan stage k ev err r) = []"
  "pl_kpoints_policy (fallback_plan stage k ev err r) = k" "pl_stage (fallback_plan stage k ev err r) = stage"
  "pl_confidence (fallback_plan stage k ev err r) = unit_interval (Fin (if ev \<noteq> [] then 7 / 20 else if err \<noteq> [] then 1 / 5 else 3 / 20))"
  by (simp_all add: fallback_plan_def normalize_plan_def)

definition cautious :: "string \<Rightarrow> dict \<Rightarrow> policy_plan \<Rightarrow> bool" where
  "cautious stage kpoints p \<longleftrightarrow>
     pl_stage p = stage \<and> admissible (stage_allowed_keys stage) (pl_incar_overrides p) \<and> admissible runtime_keys (pl_runtime_policy p)
   \<and> (pl_kpoints_policy p = kpoints \<or> admissible kpoints_keys (pl_kpoints_policy p))
   \<and> flt_le (Fin 0) (pl_confidence p) \<and> flt_le (pl_confidence p) (Fin 1)"

lemma cautious_fallback: "cautious stage kpoints (fallback_plan stage kpoints ev err r)"
  using unit_interval_bounds by (simp add: cautious_def admissible_def)

lemma cautious_answer: "read_plan coerce raw = Inr p \<Longrightarrow> cautious stage kpoints (cautious_plan stage kpoints ev p)"
  using unit_interval_bounds by (auto simp: read_plan_def normalize_plan_def cautious_def cautious_plan_def Let_def)

text \<open>C27: A parameter plan is cautious whatever the language model and the retrieval do: it sets only INCAR tags
  allowed for the stage and runtime keys of the list, each with the type of its tag, its k-point policy is
  the default of the caller or limited to the known keys, and its confidence lies between 0 and 1. Planning
  raises only when the state gives no probe.\<close>

theorem plan_stage_cautious:
  "case plan_stage en stage st incar kpoints extra of
     Inr p \<Rightarrow> cautious stage kpoints p
   | Inl err \<Rightarrow> build_stage_probe st stage extra = Inl err"
proof (cases "build_stage_probe st stage extra")
  case (Inr probe)
  then show ?thesis
    by (auto simp: plan_stage_def Let_def cautious_fallback cautious_answer split: sum.split)
qed (simp add: plan_stage_def)

section \<open>What a diagnosis recommends\<close>

lemma fallback_offered: "fallback_action offered = Inr a \<Longrightarrow> a \<in> set offered"
  by (auto simp: fallback_action_def split: if_splits list.splits)

lemma offered_nonempty: "a \<in> set (offered_actions allowed) \<Longrightarrow> or_text a ''retry_capability'' = a"
  by (simp add: offered_actions_def or_text_def)

text \<open>C28: A diagnosis recommends only an action that was offered and patches only tags allowed for the stage,
  whatever the language model answers; evidence of a failed relaxation leads to the human without asking
  the model, if that action is offered; and with the default actions the diagnosis never raises.\<close>

theorem diagnosis_within_offer:
  "case diagnose_failure en stage st failure allowed of
     Inr d \<Rightarrow> fd_recommended_action d \<in> set (offered_actions allowed)
       \<and> admissible (stage_allowed_keys stage) (fd_parameter_patch d)
       \<and> (has_relax_failure_signature stage failure st \<and> ''escalate_human'' \<in> set (offered_actions allowed) \<longrightarrow>
            fd_recommended_action d = ''escalate_human'' \<and> fd_needs_human d \<and> fd_parameter_patch d = [])
   | Inl err \<Rightarrow> offered_actions allowed = [] \<and> allowed \<noteq> []"
proof (cases "fallback_action (offered_actions allowed)")
  case (Inl err)
  then have none: "offered_actions allowed = []" by (auto simp: fallback_action_def split: if_splits list.splits)
  then have "allowed \<noteq> []" by (auto simp: offered_actions_def list_or_def DEFAULT_ALLOWED_ACTIONS_def)
  then show ?thesis using Inl none by (simp add: diagnose_failure_def Let_def)
next
  case (Inr action)
  note offered = fallback_offered [OF Inr] and keep = offered_nonempty [OF fallback_offered [OF Inr]]
  have admissible: "admissible xs []" for xs by (simp add: admissible_def)
  have esc: "or_text ''escalate_human'' ''retry_capability'' = ''escalate_human''" by (simp add: or_text_def)
  show ?thesis
  proof (cases "has_relax_failure_signature stage failure st")
    case True
    then show ?thesis using Inr offered keep admissible esc
      by (simp add: diagnose_failure_def Let_def relax_diagnosis_def normalize_diagnosis_def)
  next
    case False
    then show ?thesis using Inr offered keep admissible
      by (auto simp: diagnose_failure_def Let_def fallback_diagnosis_def normalize_diagnosis_def cautious_diagnosis_def split: sum.split)
  qed
qed

definition demo_engine :: policy_engine where
  "demo_engine =
     \<lparr>pe_coerce = strict_coerce, pe_knowledge = \<lparr>kb_strict = False, kb_documents = [], kb_service = None\<rparr>, pe_top_k = 5,
      pe_enabled = False, pe_planner = Inl [], pe_recovery = Inl []\<rparr>"

theorem diagnosis_within_offer_witness:
  "\<exists>d. diagnose_failure demo_engine ''relax'' [] [(''error_summary'', PStr ''RELAX_FAILED'')] [] = Inr d
     \<and> fd_recommended_action d = ''escalate_human'' \<and> fd_needs_human d"
proof -
  have "has_relax_failure_signature ''relax'' [(''error_summary'', PStr ''RELAX_FAILED'')] []" by code_simp
  moreover have "''escalate_human'' \<in> set (offered_actions [])" by code_simp
  ultimately show ?thesis
    using diagnosis_within_offer [where en = demo_engine and stage = "''relax''" and st = "[]" and
      failure = "[(''error_summary'', PStr ''RELAX_FAILED'')]" and allowed = "[]"]
    by (auto split: sum.splits)
qed

text \<open>Retrieval without a vector store returns at most the number of documents asked for, all from the wanted
  corpora and with a positive score, the best first.\<close>

theorem retrieval_ranked:
  assumes "kb_service kb = None" "\<not> kb_strict kb"
  shows "\<exists>ranked. retrieve kb query stage k corpora = Inr (map evidence_of ranked)
    \<and> length ranked \<le> nat (max 1 (if k = 0 then 5 else k)) \<and> sorted_wrt (\<lambda>a b. fst b \<le> fst a) ranked
    \<and> (\<forall>(score, d)\<in>set ranked. d \<in> set (kb_documents kb) \<and> score = document_score query stage d \<and> 0 < score
         \<and> (filter (\<lambda>c. c \<noteq> []) corpora = [] \<or> get_str d ''corpus'' \<in> set corpora))"
proof -
  let ?ranked = "take (top_count k) (ranked_documents query stage corpora (kb_documents kb))"
  have sorted: "sorted_wrt (\<lambda>a b. fst b \<le> fst a) (ranked_documents query stage corpora (kb_documents kb))"
  proof -
    have "sorted_wrt (\<lambda>a b. (- fst a :: rat) \<le> - fst b) (sort_key (\<lambda>sd. - fst sd) xs)" for xs :: "(rat \<times> dict) list"
      using sorted_sort_key [of "\<lambda>sd. - fst sd" xs] by (simp add: sorted_map)
    then show ?thesis by (simp add: ranked_documents_def Let_def)
  qed
  have "retrieve kb query stage k corpora = Inr (map evidence_of ?ranked)" using assms by (simp add: retrieve_def)
  moreover have "length ?ranked \<le> nat (max 1 (if k = 0 then 5 else k))" by (simp add: top_count_def)
  moreover have "sorted_wrt (\<lambda>a b. fst b \<le> fst a) ?ranked" using sorted by (rule sorted_wrt_take)
  moreover have "\<forall>(score, d)\<in>set ?ranked. d \<in> set (kb_documents kb) \<and> score = document_score query stage d \<and> 0 < score
      \<and> (filter (\<lambda>c. c \<noteq> []) corpora = [] \<or> get_str d ''corpus'' \<in> set corpora)"
    by (auto simp: ranked_documents_def Let_def dest!: in_set_takeD)
  ultimately show ?thesis by blast
qed

definition demo_library :: knowledge_base where
  "demo_library =
     \<lparr>kb_strict = False,
      kb_documents = [[(''corpus'', PStr ''vasp_wiki''), (''title'', PStr ''EDIFF''), (''text'', PStr ''convergence of the SCF loop'')],
                      [(''corpus'', PStr ''house_policy''), (''title'', PStr ''SCF convergence''), (''text'', PStr ''tighten EDIFF'')]],
      kb_service = None\<rparr>"

theorem retrieval_ranked_witness:
  "\<exists>ranked. retrieve demo_library ''EDIFF of the SCF'' ''scf'' 1 [''house_policy'', ''vasp_wiki''] = Inr (map evidence_of ranked) \<and> length ranked \<le> 1"
proof -
  have "kb_service demo_library = None" "\<not> kb_strict demo_library" by (simp_all add: demo_library_def)
  from retrieval_ranked [OF this, of "''EDIFF of the SCF''" "''scf''" 1 "[''house_policy'', ''vasp_wiki'']"] show ?thesis by auto
qed

section \<open>Where the labels are not what they say\<close>

text \<open>The class has put a label on every plan, so the later default \<open>"llm"\<close> is never used.\<close>

lemma plan_source_is_set: "read_plan coerce raw = Inr p \<Longrightarrow> pl_source (cautious_plan stage k ev p) = pl_source p"
  by (auto simp: read_plan_def normalize_plan_def cautious_plan_def or_text_def Let_def split: if_splits)

text \<open>A failed SCF stage whose message mentions relaxation is taken for a failed relaxation.\<close>

lemma scf_failure_taken_for_relaxation:
  "has_relax_failure_signature ''scf'' [(''target_capability'', PStr ''scf''),
     (''error_summary'', PStr ''scf failed: no WAVECAR from the relaxed structure'')] []"
  by code_simp

end
