(* ===== verification/Graph_Nodes.thy ===== *)
theory Graph_Nodes
  imports Arbitration Memory Policy
begin

text \<open>
  The other nodes of the graph (mobility_agent/graph/runtime_nodes.py) and the graph itself
  (mobility_agent/graph/material_graph.py): observing the state, the proposals, the critiques, the
  arbitration, the reflection, the test for termination and the final report.

  The agents that ask a language model are parameters, the record \<open>council\<close>: a function of the state, the
  proposals and the round that returns messages or raises. The executor's proposals, the arbitration and
  the routing are modelled. A node takes the state and returns the patch it hands to the graph, the nodes
  that route also the node that comes next (\<open>None\<close> for the end of the graph).
\<close>

section \<open>The council\<close>

record council =
  co_planner :: "dict \<Rightarrow> int \<Rightarrow> dict list res"
  co_recovery :: "dict \<Rightarrow> int \<Rightarrow> (dict list \<times> dict) res"
  co_refinement :: "dict \<Rightarrow> int \<Rightarrow> dict list res"
  co_reviewers :: "(string \<times> (dict \<Rightarrow> dict list \<Rightarrow> int \<Rightarrow> (dict list \<times> dict list) res)) list"
  co_orchestrator :: "dict \<Rightarrow> dict res"

definition current_round :: "dict \<Rightarrow> int" where
  "current_round st = fld_int st ''deliberation'' ''round_index''"

text \<open>\<open>[M.model_validate(item) for item in items if isinstance(item, dict) and int(item.get("round_id", -1)) == round_id]\<close>.\<close>

definition read_round :: "(dict \<Rightarrow> dict res) \<Rightarrow> int \<Rightarrow> py list \<Rightarrow> dict list res" where
  "read_round read round_id xs =
     bindR (mapR (\<lambda>d. bindR (to_int (dget d ''round_id'' (PInt (- 1)))) (\<lambda>i.
              if i = round_id then bindR (read d) (\<lambda>m. Inr [m]) else Inr [])) (objects_in xs))
       (\<lambda>ms. Inr (concat ms))"

definition node_trace :: "string \<Rightarrow> string \<Rightarrow> dict \<Rightarrow> dict" where
  "node_trace node kind d = dmerge [(''node'', PStr node), (''message_type'', PStr kind)] d"

definition trace_all :: "(dict \<Rightarrow> dict) \<Rightarrow> dict list \<Rightarrow> dict \<Rightarrow> dict" where
  "trace_all f ms st = fold (\<lambda>m s. append_decision_trace (f m) s) ms st"

definition at_node :: "string \<Rightarrow> dict \<Rightarrow> dict" where
  "at_node node st = set_fld ''workflow'' ''current_stage'' (PStr node) st"

section \<open>Proposals\<close>

text \<open>The executor offers to repair the context of the next task when inputs of it are missing.\<close>

definition repair_proposal :: "coercion \<Rightarrow> env \<Rightarrow> dict \<Rightarrow> int \<Rightarrow> string \<Rightarrow> capability_metadata \<Rightarrow> string list \<Rightarrow> dict res" where
  "repair_proposal coerce e st round_id capability m missing =
     proposal coerce e
       [(''agent_name'', PStr ''executor''), (''round_id'', PInt round_id), (''target_task_id'', PStr (fld_text st ''task'' ''task_id'')),
        (''proposal_id'', PStr (''executor::repair::'' @ show_int round_id @ ''::'' @ capability)),
        (''action_family'', PStr ''repair_execution_context''), (''target_capability'', PStr capability),
        (''selected_skill'', PStr ''execution_feasibility''),
        (''parameters'', PDict [(''repair_kind'', PStr ''restore_required_inputs''), (''missing_inputs'', str_list missing)]),
        (''content'', PDict [(''cost_class'', PStr ''low''), (''risk_class'', PStr ''medium''),
           (''required_inputs'', str_list (cm_required_inputs m)), (''expected_artifacts'', str_list (cm_expected_artifacts m))]),
        (''rationale'', PStr (''execution_inputs_missing_for:'' @ capability)),
        (''expected_benefit'', PStr ''restore execution feasibility without blind rerun''),
        (''expected_risk'', PStr ''context repair may still require human confirmation''),
        (''expected_observation'', PStr (''required inputs restored for '' @ capability)),
        (''success_criteria'', str_list [''required inputs become available'', ''capability becomes executable'']),
        (''fallback_if_failed'', str_list [''escalate_human'']), (''confidence'', PFloat (Fin (19 / 25)))]"

definition executor_propose :: "coercion \<Rightarrow> env \<Rightarrow> dict \<Rightarrow> int \<Rightarrow> dict list res" where
  "executor_propose coerce e st round_id =
     bindR (query_execution_status st) (\<lambda>v.
     if es_run_status v \<in> {''waiting_external'', ''needs_human''} \<or> latest_failed st then Inr []
     else
       bindR (next_pending_task (board_of st)) (\<lambda>pending.
       case pending of
         None \<Rightarrow> Inr []
       | Some t \<Rightarrow>
           bindR (query_capability_metadata (Some ''run_capability'') (Some (cap t))) (\<lambda>m.
           let missing = filter (\<lambda>path. is_missing (nested_get st path)) (cm_required_inputs m)
           in if missing = [] then Inr []
              else bindR (repair_proposal coerce e st round_id (cap t) m missing) (\<lambda>p. Inr [p]))))"

definition diagnosis_trace :: "dict \<Rightarrow> py" where
  "diagnosis_trace d = PDict
     [(''kind'', PStr ''failure_diagnosis''), (''stage'', dget0 d ''stage''), (''source'', dget0 d ''source''),
      (''confidence'', dget0 d ''confidence''), (''recommended_action'', dget0 d ''recommended_action''),
      (''evidence'', PList (sub_list d ''evidence_items''))]"

definition note_diagnosis :: "dict \<Rightarrow> dict \<Rightarrow> dict" where
  "note_diagnosis diagnosis st =
     (if diagnosis = [] then st
      else extend_fld ''services'' ''retrieval_trace'' [diagnosis_trace diagnosis]
             (set_fld ''diagnostics'' ''recovery_diagnosis'' (PDict diagnosis) st))"

text \<open>An agent that raises is left out of the round. The recovery agent may leave a diagnosis.\<close>

definition recovery_part :: "council \<Rightarrow> dict \<Rightarrow> int \<Rightarrow> dict list \<times> dict" where
  "recovery_part co st round_id =
     (case co_recovery co st round_id of
        Inl _ \<Rightarrow> ([], st)
      | Inr (ps, diagnosis) \<Rightarrow> (ps, note_diagnosis diagnosis st))"

definition collect_proposals :: "node_env \<Rightarrow> council \<Rightarrow> dict \<Rightarrow> int \<Rightarrow> dict list \<times> dict" where
  "collect_proposals w co st round_id =
     (let planned = try_except (co_planner co st round_id) [];
          (recovering, s1) = recovery_part co st round_id;
          refining = try_except (co_refinement co s1 round_id) [];
          repairing = try_except (executor_propose (ne_coerce w) (ne_env w) s1 round_id) []
      in (planned @ recovering @ refining @ repairing, s1))"

definition proposal_node :: "node_env \<Rightarrow> council \<Rightarrow> dict \<Rightarrow> dict res" where
  "proposal_node w co payload =
     bindR (load w payload) (\<lambda>before.
     let round_id = current_round before; st = at_node ''proposal_phase'' before;
         (proposals, s1) = collect_proposals w co st round_id;
         s2 = extend_fld ''deliberation'' ''proposals'' (map PDict proposals) s1
     in finalize_node_output w before (trace_all (node_trace ''proposal_phase'' ''proposal'') proposals s2))"

section \<open>Critiques\<close>

definition read_proposals :: "node_env \<Rightarrow> dict \<Rightarrow> dict list res" where
  "read_proposals w st =
     read_round (proposal (ne_coerce w) (ne_env w)) (current_round st) (fld_list st ''deliberation'' ''proposals'')"

fun review_all ::
  "env \<Rightarrow> (string \<times> (dict \<Rightarrow> dict list \<Rightarrow> int \<Rightarrow> (dict list \<times> dict list) res)) list \<Rightarrow> dict list \<Rightarrow> int \<Rightarrow> dict
   \<Rightarrow> dict list \<times> dict list \<times> dict" where
  "review_all e [] proposals round_id st = ([], [], st)"
| "review_all e ((name, review) # rs) proposals round_id st =
     (case review st proposals round_id of
        Inl exc \<Rightarrow>
          review_all e rs proposals round_id
            (append_framework_diagnostic e ''review_agent_failed''
               [(''agent'', PStr name), (''round_id'', PInt round_id), (''error_type'', PStr (exc_name exc)), (''error_text'', PStr (exc_text exc))] st)
      | Inr (cs, ps) \<Rightarrow>
          (let (cs', ps', s) = review_all e rs proposals round_id st in (cs @ cs', ps @ ps', s)))"

definition critique_node :: "node_env \<Rightarrow> council \<Rightarrow> dict \<Rightarrow> dict res" where
  "critique_node w co payload =
     bindR (load w payload) (\<lambda>before.
     bindR (read_proposals w before) (\<lambda>proposals.
     let round_id = current_round before;
         (critiques, preferences, s1) = review_all (ne_env w) (co_reviewers co) proposals round_id before;
         s2 = extend_fld ''deliberation'' ''preferences'' (map PDict preferences)
                (extend_fld ''deliberation'' ''critiques'' (map PDict critiques) (at_node ''critique_phase'' s1));
         s3 = trace_all (\<lambda>m. node_trace ''critique_phase'' (get_str m ''message_type'') m) (critiques @ preferences) s2
     in finalize_node_output w before s3))"

section \<open>Arbitration\<close>

definition relax_escalation :: "coercion \<Rightarrow> dict res" where
  "relax_escalation coerce =
     selected_action coerce
       [(''action_family'', PStr ''escalate_human''), (''target_capability'', PNone),
        (''parameters'', PDict [(''recommended_options'', str_list [''manual_fix_resume'', ''retry_current_stage'', ''rerun_previous_stage'',
           ''skip_material'', ''abort_task''])]),
        (''source_proposal_id'', PStr ''deterministic::relax_failure::escalate_human''),
        (''rationale'', PStr (''Relaxation failure evidence was found after arbitration no-op; ''
           @ ''user policy requires human intervention for relax failures.'')),
        (''cost_class'', PStr ''low''), (''risk_class'', PStr ''low''),
        (''expected_observation'', PStr ''human_escalation_payload is written and notification is sent''),
        (''success_criteria'', str_list [''human escalation payload is available'', ''notification backend is invoked'']),
        (''fallback_if_failed'', str_list [''abort_material''])]"

definition stuck_on_relaxation :: "dict \<Rightarrow> bool" where
  "stuck_on_relaxation st \<longleftrightarrow>
     (let failure = fld_dict st ''blackboard'' ''latest_execution_observation''
      in latest_failed st
       \<and> has_relax_failure_signature (py_str (py_or (py_or (dget0 failure ''target_capability'') (dget0 failure ''stage'')) (PStr [])))
           failure st)"

definition escalate_relaxation :: "coercion \<Rightarrow> arbitration \<Rightarrow> arbitration res" where
  "escalate_relaxation coerce r =
     bindR (relax_escalation coerce) (\<lambda>a.
     let d = ar_record r;
         notes = py_dedupe (sub_list d ''guardrail_notes'' @ [PStr ''deterministic_relax_failure_escalation''])
     in Inr \<lparr>ar_record = dmerge d [(''selected_proposal_id'', PStr ''deterministic::relax_failure::escalate_human''), (''whether_noop'', PBool False),
               (''rationale'', py_or (dget0 d ''rationale'') (dget0 a ''rationale'')), (''guardrail_notes'', PList notes)],
             ar_action = Some a\<rparr>)"

definition settled_arbitration :: "node_env \<Rightarrow> council \<Rightarrow> dict \<Rightarrow> arbitration res" where
  "settled_arbitration w co st =
     (let coerce = ne_coerce w; e = ne_env w; round_id = current_round st
      in bindR (read_proposals w st) (\<lambda>proposals.
         bindR (read_round (construct coerce (Critique e)) round_id (fld_list st ''deliberation'' ''critiques'')) (\<lambda>critiques.
         bindR (read_round (construct coerce (Preference e)) round_id (fld_list st ''deliberation'' ''preferences'')) (\<lambda>preferences.
         bindR (arbitrate coerce e (co_orchestrator co) st proposals critiques preferences round_id) (\<lambda>r.
           if ar_action r = None \<and> stuck_on_relaxation st then escalate_relaxation coerce r else Inr r)))))"

definition status_after_arbitration :: "dict \<Rightarrow> dict \<Rightarrow> string option" where
  "status_after_arbitration d st =
     (if flag_set d ''whether_waiting_external'' then Some ''waiting_external''
      else if flag_set d ''whether_ready_to_finalize'' then Some ''ready_to_finalize''
      else if flag_set d ''whether_noop'' \<and> (latest_failed st \<or> has_blocked_or_abandoned_tasks (board_of st)) then Some ''needs_recovery''
      else if flag_set d ''whether_noop'' then Some ''running'' else None)"

definition requires_execution :: "arbitration \<Rightarrow> bool" where
  "requires_execution r \<longleftrightarrow> ar_action r \<noteq> None \<and> \<not> flag_set (ar_record r) ''whether_noop''"

definition record_selection :: "arbitration \<Rightarrow> dict \<Rightarrow> dict" where
  "record_selection r st =
     (let s1 = extend_fld ''deliberation'' ''arbitrations'' [PDict (dump_arbitration r)] (at_node ''arbitration_phase'' st);
          s2 = (case ar_action r of None \<Rightarrow> s1 | Some a \<Rightarrow> extend_fld ''deliberation'' ''selected_actions'' [PDict a] s1);
          s3 = extend_fld ''deliberation'' ''rationale_history'' [dget0 (ar_record r) ''rationale''] s2;
          s4 = set_fld ''execution'' ''current_action'' (PDict (case ar_action r of None \<Rightarrow> [] | Some a \<Rightarrow> a)) s3;
          s5 = set_fld ''execution'' ''action_status'' (PStr (if ar_action r = None then ''noop'' else ''selected'')) s4;
          s6 = set_fld ''workflow'' ''next_action'' (case ar_action r of None \<Rightarrow> PNone | Some a \<Rightarrow> dget0 a ''action_family'') s5
      in set_fld ''services'' ''selected_action_requires_execution'' (PBool (requires_execution r)) s6)"

definition record_arbitration :: "arbitration \<Rightarrow> dict \<Rightarrow> dict" where
  "record_arbitration r st =
     (let s1 = record_selection r st;
          s2 = (case status_after_arbitration (ar_record r) s1 of None \<Rightarrow> s1 | Some x \<Rightarrow> set_status x s1);
          s3 = set_fld ''services'' ''termination_requested'' (PBool False) s2
      in append_decision_trace (node_trace ''arbitration_phase'' ''arbitration'' (dump_arbitration r)) s3)"

definition arbitration_node :: "node_env \<Rightarrow> council \<Rightarrow> dict \<Rightarrow> (dict \<times> string option) res" where
  "arbitration_node w co payload =
     bindR (load w payload) (\<lambda>before.
     bindR (settled_arbitration w co before) (\<lambda>r.
     bindR (finalize_node_output w before (record_arbitration r before)) (\<lambda>patch.
       Inr (patch, Some (if requires_execution r then ''execute_selected_action'' else ''check_termination'')))))"

section \<open>Reflection\<close>

definition acted_capability :: "dict \<Rightarrow> dict \<Rightarrow> string" where
  "acted_capability observation action =
     py_str (py_or (py_or (dget0 observation ''target_capability'') (dget0 action ''target_capability'')) (PStr []))"

text \<open>The move on the board that the observation of a capability asks for.\<close>

definition settle_task :: "dict \<Rightarrow> string \<Rightarrow> dict \<Rightarrow> dict" where
  "settle_task observation c st =
     (let status = dget0 observation ''status''; board = board_of st; why = str_default observation ''error_summary'' in
      if c = [] then st
      else if status \<in> {PStr ''success'', PStr ''completed''} \<and> c \<in> set capability_sequence then put_board (mark_task_completed board c) st
      else if status = PStr ''failed'' then put_board (mark_task_blocked board c (why ''execution_failed'')) st
      else if status = PStr ''skipped'' then put_board (mark_task_abandoned board c (why ''execution_skipped'')) st
      else st)"

definition failure_pattern :: "dict \<Rightarrow> string option" where
  "failure_pattern observation =
     (if dget0 observation ''status'' = PStr ''failed'' then Some (get_str observation ''error_summary'') else None)"

definition latest_disagreement :: "dict \<Rightarrow> py list" where
  "latest_disagreement st =
     (case rev (fld_list st ''deliberation'' ''arbitrations'') of [] \<Rightarrow> [] | a # _ \<Rightarrow> sub_list (entries a) ''disagreement_summary'')"

definition reflection_of :: "node_env \<Rightarrow> dict \<Rightarrow> dict \<Rightarrow> dict \<Rightarrow> dict res" where
  "reflection_of w observation action st =
     construct (ne_coerce w) (ReflectionRecord (ne_env w))
       [(''agent_name'', PStr ''orchestrator''), (''round_id'', PInt (current_round st)),
        (''target_task_id'', PStr (fld_text st ''task'' ''task_id'')), (''selected_action'', PDict action),
        (''tradeoff_summary'', PList (latest_disagreement st)), (''failure_pattern'', opt_str (failure_pattern observation)),
        (''continue_deliberation'', PBool (\<not> truthy (fld st ''services'' ''termination_requested'')
           \<and> fld_text st ''workflow'' ''run_status'' \<notin> {''waiting_external'', ''needs_human''})),
        (''content'', PDict [(''observation_status'', dget0 observation ''status'')]), (''confidence'', PFloat (Fin (9 / 10)))]"

definition record_pattern :: "string \<Rightarrow> dict \<Rightarrow> dict \<Rightarrow> dict \<Rightarrow> dict" where
  "record_pattern c action reflection st =
     (let pattern = dget0 reflection ''failure_pattern'' in
      if \<not> truthy pattern then st
      else extend_fld ''memory'' ''historical_failures'' [PDict [(''stage'', PStr c), (''error_summary'', pattern)]]
             (extend_fld ''deliberation'' ''disagreement_records''
                [PDict [(''round_id'', PInt (current_round st)), (''pattern'', pattern), (''selected_action'', PDict action)]] st))"

definition note_observation :: "dict \<Rightarrow> dict \<Rightarrow> dict" where
  "note_observation observation st =
     (if observation = [] then st
      else extend_fld ''blackboard'' ''observations'' [PDict observation]
             (set_fld ''blackboard'' ''latest_execution_observation'' (PDict observation) st))"

definition reflect_node :: "node_env \<Rightarrow> 's kv \<Rightarrow> dict \<Rightarrow> 's \<Rightarrow> 's \<times> dict res" where
  "reflect_node w m payload mem =
     (case load w payload of
        Inl err \<Rightarrow> (mem, Inl err)
      | Inr before \<Rightarrow>
          (let observation = fld_dict before ''execution'' ''latest_execution_observation'';
               action = fld_dict before ''execution'' ''current_action'';
               c = acted_capability observation action;
               s1 = settle_task observation c (note_observation observation (at_node ''reflect_round'' before))
           in case reflection_of w observation action s1 of
                Inl err \<Rightarrow> (mem, Inl err)
              | Inr reflection \<Rightarrow>
                  (let s2 = record_pattern c action reflection (extend_fld ''deliberation'' ''reflections'' [PDict reflection] s1);
                       (mem', written) = write_memory_reflection m s2 (current_round s2) mem;
                       s3 = record_agent_tool_call ''write_memory_reflection'' ''reflect_round'' [(''round_id'', PInt (current_round s2))] written s2;
                       s4 = set_fld ''services'' ''llm_context_summary'' (PDict (build_llm_context_summary s3 [] [])) s3
                   in (mem', finalize_node_output w before (append_decision_trace (node_trace ''reflect_round'' ''reflection'' reflection) s4)))))"

section \<open>The test for termination\<close>

definition note_missing_summary :: "env \<Rightarrow> string \<Rightarrow> dict \<Rightarrow> dict" where
  "note_missing_summary e status st =
     (if status = ''needs_recovery'' \<and> \<not> truthy (fld st ''diagnostics'' ''recovery_summary'') then
        append_framework_diagnostic e ''needs_recovery_without_structured_recovery_summary''
          [(''latest_execution_observation'', PDict (fld_dict st ''execution'' ''latest_execution_observation''))] st
      else st)"

definition note_ready :: "env \<Rightarrow> string \<Rightarrow> dict \<Rightarrow> dict" where
  "note_ready e status st =
     (if status = ''ready_to_finalize'' \<and> \<not> truthy (fld st ''services'' ''termination_requested'') then
        append_framework_diagnostic e ''ready_to_finalize_waiting_for_deliberate_finalization'' [(''round_id'', PInt (current_round st))] st
      else st)"

definition after_termination_test :: "bool \<Rightarrow> string \<Rightarrow> string option" where
  "after_termination_test requested status =
     (if requested \<or> status \<in> set TERMINAL_RUN_STATUSES then Some ''final_report''
      else if status \<in> {''waiting_external'', ''needs_human''} then None
      else Some ''observe_state'')"

definition termination_node :: "node_env \<Rightarrow> dict \<Rightarrow> (dict \<times> string option) res" where
  "termination_node w payload =
     bindR (load w payload) (\<lambda>before.
     let st = at_node ''check_termination'' before; (status, reason) = derive_run_status st;
         s1 = set_fld ''workflow'' ''wait_reason'' (opt_str reason) (set_status status st);
         s2 = note_ready (ne_env w) status (note_missing_summary (ne_env w) status s1)
     in bindR (finalize_node_output w before s2) (\<lambda>patch.
          Inr (patch, after_termination_test (truthy (fld s2 ''services'' ''termination_requested'')) status)))"

section \<open>The final report\<close>

definition summary_hints :: "dict \<Rightarrow> dict" where
  "summary_hints st =
     [(''task_id'', fld st ''task'' ''task_id''), (''material_id'', fld st ''material'' ''material_id''),
      (''run_status'', fld st ''workflow'' ''run_status''), (''termination_reason'', fld st ''workflow'' ''termination_reason''),
      (''final_acceptance'', dget0 (fld_dict st ''diagnostics'' ''validation_report'') ''decision''),
      (''confidence_score'', fld st ''diagnostics'' ''confidence_score''),
      (''accepted_channels'', PList (fld_list st ''physics_results'' ''accepted_channels'')),
      (''rejected_channels'', PList (fld_list st ''physics_results'' ''rejected_channels'')),
      (''completed_capabilities'', PList (fld_list st ''workflow'' ''completed_stages'')),
      (''deliberation_rounds'', PInt (current_round st)),
      (''selected_actions'', PList (summarize_selected_actions (fld_list st ''deliberation'' ''selected_actions''))),
      (''disagreement_records'', PList (summarize_disagreement_records (fld_list st ''deliberation'' ''disagreement_records''))),
      (''artifact_paths'', PDict (fld_dict st ''execution'' ''artifact_paths''))]"

definition report_request :: "dict \<Rightarrow> dict" where
  "report_request st =
     (let kept = fld_dict st ''services'' ''llm_context_summary'';
          context = (if kept = [] then build_llm_context_summary st [] [] else kept)
      in [(''context_summary'', PDict (select_role_context context ''reporter'')), (''summary_hints'', PDict (summary_hints st))])"

definition fallback_narrative :: string where
  "fallback_narrative = ''Deterministic fallback summary used because the LLM reporter response ''
     @ ''did not satisfy the structured summary schema.''"

text \<open>What the language model writes is merged over the hints; when it fails, the hints remain.\<close>

definition summarize_material :: "coercion \<Rightarrow> (dict \<Rightarrow> dict res) \<Rightarrow> dict \<Rightarrow> dict" where
  "summarize_material coerce ask st =
     (case bindR (bindR (ask (report_request st)) coerce_report_summary) (construct coerce ReportSummary) of
        Inr parsed \<Rightarrow> dmerge (summary_hints st) (sub_dict parsed ''final_summary'')
      | Inl _ \<Rightarrow> dmerge (summary_hints st)
          [(''narrative_report'', PStr fallback_narrative), (''report_generation_status'', PStr ''fallback'')])"

definition predeclared_paths :: "string \<Rightarrow> dict" where
  "predeclared_paths workdir = map (\<lambda>(key, name, _). (key, PStr (path_join workdir name))) (runtime_files [] [] [])"

definition read_report :: "fs \<Rightarrow> string \<Rightarrow> py option" where
  "read_report f path = Option.bind (read_file f path) json_loads"

definition final_status_of :: "string \<Rightarrow> string option" where
  "final_status_of status = (if status \<in> {''ready_to_finalize'', ''running'', ''pending'', []} then Some ''completed'' else None)"

definition graded_state :: "node_env \<Rightarrow> dict \<Rightarrow> (dict \<times> string) res" where
  "graded_state w st =
     (let s1 = (case final_status_of (run_status_of st) of None \<Rightarrow> st | Some x \<Rightarrow> set_status x st)
      in bindR (quality_grade_from_state (ne_coerce w) (ne_env w) s1) (\<lambda>grade.
         let s2 = set_fld ''diagnostics'' ''quality_grade'' (PStr grade) s1
         in Inr (set_fld ''diagnostics'' ''validation_report''
                   (PDict (dset (fld_dict s2 ''diagnostics'' ''validation_report'') ''quality_grade'' (PStr grade))) s2, grade)))"

definition add_paths :: "dict \<Rightarrow> dict \<Rightarrow> dict" where
  "add_paths paths st =
     (let all = PDict (dmerge (fld_dict st ''execution'' ''artifact_paths'') paths)
      in set_fld ''execution'' ''artifact_registry'' all (set_fld ''execution'' ''artifact_paths'' all st))"

definition reported_state :: "node_env \<Rightarrow> (dict \<Rightarrow> dict res) \<Rightarrow> dict \<Rightarrow> (dict \<times> dict) res" where
  "reported_state w ask before =
     bindR (graded_state w before) (\<lambda>g.
     let summary = dset (summarize_material (ne_coerce w) ask (fst g)) ''quality_grade'' (PStr (snd g));
         s1 = set_fld ''services'' ''final_report'' (PDict summary) (fst g);
         s2 = at_node ''final_report'' (add_paths (predeclared_paths (fld_text before ''execution'' ''workdir'')) s1)
     in Inr (set_fld ''workflow'' ''stage_status''
               (PDict (dset (fld_dict s2 ''workflow'' ''stage_status'') ''final_report'' (PStr ''success''))) s2, summary))"

definition write_report :: "node_env \<Rightarrow> dict \<Rightarrow> dict \<Rightarrow> dict \<Rightarrow> dict io" where
  "write_report w summary outcome st f =
     (let workdir = fld_text st ''execution'' ''workdir'';
          (g, written) = write_runtime_artifacts (ne_env w) f workdir st summary outcome;
          paths = str_dict written;
          s1 = record_agent_tool_call ''write_runtime_artifacts'' ''final_report'' [(''workdir'', PStr workdir)]
                 [(''artifact_paths'', PDict paths)] st
      in (g, Inr (add_paths paths s1)))"

definition final_report_node :: "node_env \<Rightarrow> (dict \<Rightarrow> dict res) \<Rightarrow> dict \<Rightarrow> dict io" where
  "final_report_node w ask payload =
     io_bind (io_lift (load w payload)) (\<lambda>before.
     (let workdir = fld_text before ''execution'' ''workdir''
      in io_bind (io_change (\<lambda>f. makedirs f workdir)) (\<lambda>_.
         io_bind (io_lift (reported_state w ask before)) (\<lambda>rs.
         io_bind (\<lambda>f. (f, build_material_outcome (ne_coerce w) (ne_env w) (read_report f) (fst rs))) (\<lambda>outcome.
         io_bind (write_report w (snd rs) outcome (fst rs)) (\<lambda>s1.
         io_bind (export_when w (ne_compatibility_export w) ''finalization'' s1) (\<lambda>s2.
         io_bind (io_lift (load w s2)) (\<lambda>final.
         io_bind (save_state_snapshot (ne_env w) workdir (ne_checkpoint_subdir w) final) (\<lambda>_.
           io_lift (finalize_node_output w before final))))))))))"

section \<open>Observing the state\<close>

text \<open>\<open>ov_tools\<close> is the list of tool descriptions, \<open>ov_registry\<close> the discovered skills, \<open>ov_skills\<close> the tool that
  selects among them.\<close>

record observer =
  ov_cwd :: string
  ov_hitl_policy :: string
  ov_db_uri :: py
  ov_deprecations :: "string list"
  ov_review_timeout :: int
  ov_tools :: "py list"
  ov_registry :: "(string \<times> dict) list"
  ov_skills :: "dict \<Rightarrow> dict res"

definition digit_prefixed :: "string \<Rightarrow> bool" where
  "digit_prefixed n \<longleftrightarrow> (case n of a # b # c # _ \<Rightarrow> is_digit a \<and> is_digit b \<and> c = CHR ''_'' | _ \<Rightarrow> False)"

definition path_given :: "fs \<Rightarrow> py \<Rightarrow> bool" where
  "path_given f v \<longleftrightarrow> truthy v \<and> path_exists f (py_str v)"

definition inspect_workspace :: "env \<Rightarrow> fs \<Rightarrow> string \<Rightarrow> py \<Rightarrow> py \<Rightarrow> string \<Rightarrow> string list \<Rightarrow> dict res" where
  "inspect_workspace e f workdir0 poscar potcar checkpoint registry =
     (let workdir = abspath e workdir0;
          runtime_dir = (if checkpoint \<noteq> [] then dirname (abspath e checkpoint) else dirname (state_snapshot_path workdir ''.runtime''));
          there = (\<lambda>d n. PBool (path_exists f (path_join d n)))
      in bindR (summarize_poscar f (py_str (py_or poscar (PStr [])))) (\<lambda>structure.
         Inr [(''available_inputs'', PDict [(''poscar'', PBool (path_given f poscar)), (''potcar'', PBool (path_given f potcar)),
                (''workdir'', PBool (is_dir f workdir))]),
              (''existing_stage_dirs'', str_list (filter (\<lambda>n. digit_prefixed n \<and> is_dir f (path_join workdir n)) (listdir f workdir))),
              (''existing_artifacts'', str_list (existing_paths e f registry)),
              (''compatibility_artifacts'', PDict [(''checkpoint_pkl'', there workdir ''checkpoint.pkl''),
                (''shared_state_json'', there runtime_dir ''shared_state.json''),
                (''material_outcome_json'', there workdir ''material_outcome.json''), (''final_summary_json'', there workdir ''final_summary.json'')]),
              (''checkpoint_available'', PBool (checkpoint \<noteq> [] \<and> path_exists f checkpoint)),
              (''warnings'', str_list (on (\<not> path_given f poscar) ''missing_poscar'' @ on (\<not> path_given f potcar) ''missing_potcar'')),
              (''facts'', PDict [(''structure_summary'', PDict structure), (''workdir'', PStr workdir), (''runtime_dir'', PStr runtime_dir)])]))"

definition dump_artifact_inspection :: "string \<Rightarrow> string \<Rightarrow> artifact_inspection \<Rightarrow> dict" where
  "dump_artifact_inspection workdir target a =
     [(''target_capability'', PStr target), (''stage_dir_exists'', PBool (ai_stage_dir_exists a)),
      (''expected_artifacts'', str_list (ai_expected a)), (''existing_artifacts'', str_list (ai_existing a)),
      (''missing_artifacts'', str_list (ai_missing a)), (''log_paths'', str_list (ai_log_paths a)), (''warnings'', str_list (ai_warnings a)),
      (''facts'', PDict [(''workdir'', PStr workdir)])]"

definition dump_hitl_inspection :: "hitl_inspection \<Rightarrow> dict" where
  "dump_hitl_inspection h =
     [(''payload_path'', PStr (fst (hi_paths h))), (''response_path'', PStr (fst (snd (hi_paths h)))), (''log_path'', PStr (snd (snd (hi_paths h)))),
      (''response_exists'', PBool (hi_response_exists h)), (''pending_payload_exists'', PBool (hi_pending_payload_exists h)),
      (''timeout_seconds'', PInt (hi_timeout_seconds h)), (''warnings'', str_list (hi_warnings h))]"

text \<open>A run that waits takes in the next event; a new run is running.\<close>

definition wake_up :: "node_env \<Rightarrow> dict \<Rightarrow> dict res" where
  "wake_up w st =
     (let s1 = (if run_status_of st \<in> {[], ''pending''} then set_status ''running'' st else st)
      in if run_status_of s1 = ''waiting_external'' \<and> fld_list s1 ''execution'' ''pending_events'' \<noteq> []
         then consume_pending_external_event (ne_coerce w) (ne_env w) s1 else Inr s1)"

definition board_is_empty :: "dict \<Rightarrow> bool" where
  "board_is_empty st \<longleftrightarrow> \<not> list_ex (truthy \<circ> snd) (sec st ''task_board'')"

definition open_round :: "node_env \<Rightarrow> observer \<Rightarrow> dict \<Rightarrow> dict res" where
  "open_round w ov st =
     (let s1 = set_fld ''execution'' ''environment_summary''
                 (PDict [(''cwd'', PStr (ov_cwd ov)), (''dry_run'', PBool (ne_dry_run w)), (''hitl_policy'', PStr (ov_hitl_policy ov)),
                         (''db_uri'', ov_db_uri ov), (''deprecation_warnings'', str_list (ov_deprecations ov))]) (at_node ''observe_state'' st);
          s2 = (if board_is_empty s1 then put_board build_initial_task_board s1 else s1);
          s3 = set_fld ''services'' ''available_agent_tools'' (PList (ov_tools ov)) s2;
          round_id = current_round s3 + 1;
          s4 = set_fld ''deliberation'' ''round_index'' (PInt round_id) s3
      in bindR (build_round_snapshot s4) (\<lambda>snapshot.
         let s5 = extend_fld ''deliberation'' ''rounds'' [PDict (dmerge snapshot [(''round_id'', PInt round_id)])] s4;
             latest = fld_dict s5 ''execution'' ''latest_execution_observation''
         in Inr (if latest = [] then s5 else set_fld ''blackboard'' ''latest_execution_observation'' (PDict latest) s5)))"

definition observed :: "string \<Rightarrow> dict \<Rightarrow> dict \<Rightarrow> dict \<Rightarrow> dict" where
  "observed tool payload r st = record_agent_tool_call tool ''observe_state'' payload r st"

definition inspect_run :: "node_env \<Rightarrow> observer \<Rightarrow> fs \<Rightarrow> dict \<Rightarrow> (dict \<times> dict \<times> dict) res" where
  "inspect_run w ov f st =
     (let workdir = fld_text st ''execution'' ''workdir''; own = [(''workdir'', PStr workdir)];
          registry = texts_in (map snd (fld_dict st ''execution'' ''artifact_registry''));
          latest = fld_dict st ''execution'' ''latest_execution_observation'';
          target = py_str (py_or (py_or (dget0 latest ''target_capability'') (fld st ''workflow'' ''current_stage'')) (PStr []))
      in bindR (inspect_workspace (ne_env w) f workdir (fld st ''material'' ''poscar_path'') (fld st ''material'' ''potcar_path'')
                  (metadata_path workdir (ne_checkpoint_subdir w)) registry) (\<lambda>workspace.
         bindR (inspect_artifacts (ne_env w) f workdir (some_text target) registry) (\<lambda>artifacts.
         let found = dump_artifact_inspection (abspath (ne_env w) workdir) target artifacts;
             s1 = observed ''inspect_artifacts'' [(''target_capability'', PStr target)] found (observed ''inspect_workspace'' own workspace st)
         in bindR (query_execution_status s1) (\<lambda>v.
            let status = dump_execution_status v;
                s2 = observed ''query_execution_status'' [(''current_stage'', fld s1 ''workflow'' ''current_stage'')] status s1
            in bindR (synthesize_observation s2) (\<lambda>signals.
               let s3 = observed ''synthesize_observation'' [(''round_id'', PInt (current_round s2))] (dump_signals signals) s2;
                   hitl = dump_hitl_inspection (inspect_hitl_state f workdir (ov_review_timeout ov));
                   s4 = observed ''inspect_hitl_state'' own hitl s3;
                   s5 = set_fld ''blackboard'' ''validated_facts''
                          (PDict (dmerge (fld_dict s4 ''blackboard'' ''validated_facts'')
                             [(''workspace'', PDict workspace), (''execution_status'', PDict status), (''hitl_status'', PDict hitl)])) s4;
                   s6 = set_fld ''blackboard'' ''parsed_artifacts''
                          (PDict (dmerge (fld_dict s5 ''blackboard'' ''parsed_artifacts'') [(''artifact_inspection'', PDict found)])) s5;
                   s7 = set_fld ''blackboard'' ''risk_flags'' (str_list (ob_risk_flags signals))
                          (set_fld ''blackboard'' ''anomaly_flags'' (str_list (ob_anomaly_flags signals)) s6)
               in Inr (s7, status, dump_signals signals))))))"

definition take_skills :: "observer \<Rightarrow> dict \<Rightarrow> dict res" where
  "take_skills ov st =
     bindR (ov_skills ov st) (\<lambda>resolution.
     let s1 = observed ''resolve_skills'' [(''role'', PStr ''runtime''), (''round_id'', PInt (current_round st))] resolution st;
         selected = sub_list resolution ''selected_skills'';
         s2 = extend_fld ''agent'' ''loaded_skills'' selected s1;
         s3 = set_fld ''services'' ''skill_resolution'' (PDict resolution) (set_fld ''services'' ''loaded_skills'' (PList selected) s2)
     in Inr (extend_fld ''execution'' ''skill_trace''
          [PDict [(''phase'', PStr ''observe_state''), (''round_id'', PInt (current_round st)), (''role'', PStr ''runtime''),
                  (''selected_skills'', PList selected), (''candidate_count'', PInt (int (length (sub_list resolution ''candidates'')))),
                  (''run_status'', fld s3 ''workflow'' ''run_status''), (''current_stage'', fld s3 ''workflow'' ''current_stage'')]] s3))"

definition skill_payload :: "string \<Rightarrow> dict \<Rightarrow> dict" where
  "skill_payload name entry =
     [(''skill_name'', PStr name), (''path'', dget0 entry ''path''), (''description'', dget0 entry ''description''),
      (''summary'', dget0 entry ''summary''), (''manifest'', PDict (sub_dict entry ''manifest'')),
      (''resource_count'', PInt (int (length (sub_list entry ''resources''))))]"

definition recall :: "'s kv \<Rightarrow> dict \<Rightarrow> 's \<Rightarrow> dict" where
  "recall m st mem =
     (let hits = query_memory_hits m st 5 mem;
          s1 = observed ''query_memory_hits'' [(''round_id'', PInt (current_round st))] hits st
      in set_fld ''memory'' ''reusable_heuristics'' (PList (sub_list hits ''skill_registry''))
           (set_fld ''memory'' ''validation_case_patterns'' (PList (sub_list hits ''validation_case_patterns''))
             (set_fld ''memory'' ''recovered_case_patterns'' (PList (sub_list hits ''recovered_case_patterns'')) s1)))"

text \<open>Asking for the path of the checkpoint creates its directory.\<close>

definition observe_node :: "node_env \<Rightarrow> observer \<Rightarrow> 's kv \<Rightarrow> dict \<Rightarrow> fs \<Rightarrow> 's \<Rightarrow> fs \<times> 's \<times> dict res" where
  "observe_node w ov m payload f mem =
     (case bindR (load w payload) (\<lambda>before. bindR (bindR (wake_up w before) (open_round w ov)) (\<lambda>s1. Inr (before, s1))) of
        Inl err \<Rightarrow> (f, mem, Inl err)
      | Inr (before, s1) \<Rightarrow>
          (let g = make_runtime_dir (fld_text s1 ''execution'' ''workdir'') (ne_checkpoint_subdir w) f
           in case bindR (inspect_run w ov g s1) (\<lambda>(s2, status, signals).
                   bindR (take_skills ov s2) (\<lambda>s3.
                     Inr (set_fld ''services'' ''llm_context_summary'' (PDict (build_llm_context_summary s3 status signals)) s3))) of
                Inl err \<Rightarrow> (g, mem, Inl err)
              | Inr st \<Rightarrow>
                  (let mem' = fold (\<lambda>(name, entry) s. record_skill_metadata m name (skill_payload name entry) s) (ov_registry ov) mem
                   in (g, mem', finalize_node_output w before (recall m st mem')))))"

end
