(* ===== verification/Material_Graph.thy ===== *)
theory Material_Graph
  imports Graph_Nodes Node_Facts
begin

text \<open>
  The graph (mobility_agent/graph/material_graph.py) as a step relation over runs, and what holds along
  every run: the state stays a loaded state, an action is only executed after the arbitration selected it,
  and a run ends with a final status or waiting for somebody.

  A run is the node to enter, the values LangGraph keeps, the files and the memory store. A step runs the
  node on the values, merges its patch into them and follows the edge of the graph, or the \<open>goto\<close> of the
  nodes that decide themselves. What is outside may differ at every step: the record \<open>world\<close>.
\<close>

section \<open>The graph\<close>

definition graph_edges :: "(string \<times> string) list" where
  "graph_edges =
     [(''__start__'', ''observe_state''), (''observe_state'', ''proposal_phase''), (''proposal_phase'', ''critique_phase''),
      (''critique_phase'', ''arbitration_phase''), (''execute_selected_action'', ''reflect_round''),
      (''reflect_round'', ''check_termination''), (''final_report'', ''__end__'')]"

definition next_node :: "string \<Rightarrow> string" where
  "next_node n = (case map_of graph_edges n of None \<Rightarrow> ''__end__'' | Some m \<Rightarrow> m)"

definition goto_node :: "string option \<Rightarrow> string" where
  "goto_node g = (case g of None \<Rightarrow> ''__end__'' | Some m \<Rightarrow> m)"

record 's world =
  wd_node :: node_env
  wd_council :: council
  wd_observer :: observer
  wd_store :: "'s kv"
  wd_reporter :: "dict \<Rightarrow> dict res"

record 's graph_run =
  gr_at :: string
  gr_values :: dict
  gr_files :: fs
  gr_memory :: 's

definition moved :: "'s graph_run \<Rightarrow> string \<Rightarrow> dict \<Rightarrow> 's graph_run" where
  "moved r n patch = r\<lparr>gr_at := n, gr_values := dmerge (gr_values r) patch\<rparr>"

text \<open>A suspended action leaves the run where it is, the files written so far aside.\<close>

inductive graph_step :: "'s world \<Rightarrow> 's graph_run \<Rightarrow> 's graph_run \<Rightarrow> bool" for w :: "'s world" where
  start: "gr_at r = ''__start__'' \<Longrightarrow> graph_step w r (r\<lparr>gr_at := next_node ''__start__''\<rparr>)"
| observe: "gr_at r = ''observe_state'' \<Longrightarrow>
    observe_node (wd_node w) (wd_observer w) (wd_store w) (gr_values r) (gr_files r) (gr_memory r) = (f, mem, Inr patch) \<Longrightarrow>
    graph_step w r ((moved r (next_node ''observe_state'') patch)\<lparr>gr_files := f, gr_memory := mem\<rparr>)"
| propose: "gr_at r = ''proposal_phase'' \<Longrightarrow> proposal_node (wd_node w) (wd_council w) (gr_values r) = Inr patch \<Longrightarrow>
    graph_step w r (moved r (next_node ''proposal_phase'') patch)"
| criticize: "gr_at r = ''critique_phase'' \<Longrightarrow> critique_node (wd_node w) (wd_council w) (gr_values r) = Inr patch \<Longrightarrow>
    graph_step w r (moved r (next_node ''critique_phase'') patch)"
| decide: "gr_at r = ''arbitration_phase'' \<Longrightarrow> arbitration_node (wd_node w) (wd_council w) (gr_values r) = Inr (patch, g) \<Longrightarrow>
    graph_step w r (moved r (goto_node g) patch)"
| act: "gr_at r = ''execute_selected_action'' \<Longrightarrow>
    execute_selected_action (wd_node w) (gr_values r) (gr_files r) = (f, Inr (Patch patch)) \<Longrightarrow>
    graph_step w r ((moved r (next_node ''execute_selected_action'') patch)\<lparr>gr_files := f\<rparr>)"
| suspend: "gr_at r = ''execute_selected_action'' \<Longrightarrow>
    execute_selected_action (wd_node w) (gr_values r) (gr_files r) = (f, Inr (Interrupted request)) \<Longrightarrow>
    graph_step w r (r\<lparr>gr_files := f\<rparr>)"
| reflect: "gr_at r = ''reflect_round'' \<Longrightarrow>
    reflect_node (wd_node w) (wd_store w) (gr_values r) (gr_memory r) = (mem, Inr patch) \<Longrightarrow>
    graph_step w r ((moved r (next_node ''reflect_round'') patch)\<lparr>gr_memory := mem\<rparr>)"
| test: "gr_at r = ''check_termination'' \<Longrightarrow> termination_node (wd_node w) (gr_values r) = Inr (patch, g) \<Longrightarrow>
    graph_step w r (moved r (goto_node g) patch)"
| report: "gr_at r = ''final_report'' \<Longrightarrow>
    final_report_node (wd_node w) (wd_reporter w) (gr_values r) (gr_files r) = (f, Inr patch) \<Longrightarrow>
    graph_step w r ((moved r (next_node ''final_report'') patch)\<lparr>gr_files := f\<rparr>)"

text \<open>A run from its start, every step in a world of its own; the validation is the same throughout.\<close>

inductive runs_to :: "coercion \<Rightarrow> 's graph_run \<Rightarrow> 's graph_run \<Rightarrow> bool" for coerce :: coercion where
  begins: "runs_to coerce r r"
| goes_on: "runs_to coerce r r' \<Longrightarrow> ne_coerce (wd_node w) = coerce \<Longrightarrow> graph_step w r' r'' \<Longrightarrow> runs_to coerce r r''"

inductive_cases graph_stepE: "graph_step w r r'"

lemma next_nodes [simp]:
  "next_node ''__start__'' = ''observe_state''" "next_node ''observe_state'' = ''proposal_phase''"
  "next_node ''proposal_phase'' = ''critique_phase''" "next_node ''critique_phase'' = ''arbitration_phase''"
  "next_node ''execute_selected_action'' = ''reflect_round''" "next_node ''reflect_round'' = ''check_termination''"
  "next_node ''final_report'' = ''__end__''"
  by code_simp+

text \<open>In a given world the graph is deterministic.\<close>

lemma graph_step_unique: "graph_step w r s \<Longrightarrow> graph_step w r t \<Longrightarrow> s = t"
  by (erule graph_step.cases; erule graph_step.cases; simp)

section \<open>The values of a run stay a loaded state\<close>

definition kept :: "dict \<Rightarrow> bool" where
  "kept st \<longleftrightarrow> (\<exists>e. well_typed e st \<and> normal_state e st)"

lemma kept_loads:
  assumes "validator (ne_coerce w)" "kept st"
  shows "load w st = Inr (set_fld ''task'' ''updated_at'' (PStr (now (ne_env w))) st)"
proof -
  from assms(2) obtain e where e: "well_typed e st" "normal_state e st" by (auto simp: kept_def)
  show ?thesis
    using validator.from_dict_keep [OF assms(1) e(1), of "ne_env w"] normalize_reclock [OF e, of "ne_env w"] by (simp add: load_def)
qed

lemma loaded_kept: "validator (ne_coerce w) \<Longrightarrow> load w p = Inr st \<Longrightarrow> well_typed (ne_env w) st \<and> normal_state (ne_env w) st"
  by (simp add: load_def validator.from_dict_result)

lemma reclock_twice: "set_fld ''task'' ''updated_at'' v (set_fld ''task'' ''updated_at'' u st) = set_fld ''task'' ''updated_at'' v st"
proof -
  have "dset (dset d k v) k w = dset d k w" for d :: dict and k v w
    by (induction d) (auto simp: dset_def)
  then show ?thesis by (simp add: set_fld_def sec_def)
qed

lemma reclock_same: "well_typed e st \<Longrightarrow> fld st ''task'' ''updated_at'' = v \<Longrightarrow> set_fld ''task'' ''updated_at'' v st = st"
  using fld_typed(2) [OF _ ftype_table(1)] by blast

lemma kept_clock:
  assumes "well_typed e u" "normal_state e' (set_fld ''task'' ''updated_at'' (PStr (now e')) u)"
  shows "kept u"
proof -
  obtain c where c: "fld u ''task'' ''updated_at'' = PStr c"
    using fld_typed(1) [OF assms(1) ftype_table(1)] by (auto simp: is_str_def split: py.splits)
  let ?e = "e\<lparr>now := c\<rparr>"
  from normal_state_reclock [OF assms(2), of ?e] have "normal_state ?e (set_fld ''task'' ''updated_at'' (PStr c) u)"
    by (simp add: reclock_twice)
  with reclock_same [OF assms(1) c] well_typed_env assms(1) show ?thesis unfolding kept_def by metis
qed

text \<open>A node hands a patch over: the merged values are a loaded state again, each section of which is the
  old one or the one the node arrived at, and which agrees with the latter.\<close>

lemma hand_over:
  assumes v: "validator (ne_coerce w)" and k: "kept st" and b: "load w st = Inr b"
    and p: "finalize_node_output w b st1 = Inr patch"
  obtains a where "load w st1 = Inr a" "kept (dmerge st patch)"
    "\<And>s. s \<in> set STATE_TOP_LEVEL_SECTIONS \<Longrightarrow> agree (dmerge st patch) a s"
    "\<And>s. s \<in> set STATE_TOP_LEVEL_SECTIONS \<Longrightarrow> s \<noteq> ''task'' \<Longrightarrow>
       sec (dmerge st patch) s = (if py_eq (dget0 b s) (dget0 a s) then sec st s else sec a s)"
proof -
  from p obtain a where a: "load w st1 = Inr a" and "build_state_patch (ne_coerce w) (ne_env w) b a None = Inr patch"
    by (auto simp: finalize_node_output_def)
  then have patch: "patch = patch_loop b a STATE_TOP_LEVEL_SECTIONS []"
    using validator.from_dict_again [OF v, of "ne_env w"] b by (auto simp: build_state_patch_def load_def)
  from k obtain e where e: "well_typed e st" "normal_state e st" by (auto simp: kept_def)
  have bst: "b = set_fld ''task'' ''updated_at'' (PStr (now (ne_env w))) st" using kept_loads [OF v k] b by simp
  have st: "set_fld ''task'' ''updated_at'' (PStr (now e)) b = st"
    using e(2) reclock_same [OF e(1)] by (simp add: bst reclock_twice normal_state_def)
  note tb = loaded_kept [OF v b] and ta = loaded_kept [OF v a]
  from patched [of "ne_env w" b a e] tb ta have u: "well_typed (ne_env w) (dmerge st patch)"
    "normal_state e (set_fld ''task'' ''updated_at'' (PStr (now e)) (dmerge st patch))"
    "\<forall>s\<in>set STATE_TOP_LEVEL_SECTIONS. agree (dmerge st patch) a s"
    by (simp_all add: st patch)
  have "sec (dmerge st patch) s = (if py_eq (dget0 b s) (dget0 a s) then sec st s else sec a s)"
    if s: "s \<in> set STATE_TOP_LEVEL_SECTIONS" "s \<noteq> ''task''" for s
  proof -
    have dp: "distinct (map fst patch)" unfolding patch by (rule patch_loop_distinct) simp
    have "map_of (dmerge st patch) s = (if py_eq (dget0 b s) (dget0 a s) then map_of st s else Some (dget0 a s))"
      unfolding map_of_dmerge [OF dp] using s by (simp add: map_add_def patch patch_loop_map blank_clock_def)
    then show ?thesis by (simp add: sec_def dget0_def dget_def)
  qed
  with that [OF a kept_clock [OF u(1,2)]] u(3) show thesis by blast
qed

section \<open>What a node writes is read back\<close>

lemma validated_section:
  "validate_sections coerce ss d = Inr r \<Longrightarrow> map_of ss s = Some fs \<Longrightarrow> map_of d s = Some (PDict sd) \<Longrightarrow>
   \<exists>y. map_of r s = Some (PDict y) \<and> validate_fields coerce fs sd = Inr y"
  by (induction ss arbitrary: r) (auto split: if_splits)

lemma present_field: "fld st s k \<noteq> PNone \<Longrightarrow> \<exists>d. map_of st s = Some (PDict d) \<and> map_of d k = Some (fld st s k)"
  by (auto simp: fld_def sec_def dget0_def dget_def split: option.splits py.splits)

lemma reloaded:
  assumes v: "validator (ne_coerce w)" and a: "load w st1 = Inr a" and present: "fld st1 ''task'' ''task_id'' \<noteq> PNone"
  obtains x where "a = normalize_state (ne_env w) x" "well_typed (ne_env w) x"
    "\<And>s k t. ftype_of (ne_env w) s k = Some t \<Longrightarrow> fld st1 s k \<noteq> PNone \<Longrightarrow> of_type t (fld st1 s k) \<Longrightarrow> fld x s k = fld st1 s k"
proof -
  from present_field [OF present] have "map_of st1 ''task'' \<noteq> None" "st1 \<noteq> []" by auto
  with a obtain x where x: "validate_sections (ne_coerce w) (MaterialTaskState (ne_env w)) st1 = Inr x" "a = normalize_state (ne_env w) x"
    by (auto simp: load_def from_dict_def model_validate_def)
  have "fld x s k = fld st1 s k"
    if f: "ftype_of (ne_env w) s k = Some t" "fld st1 s k \<noteq> PNone" "of_type t (fld st1 s k)" for s k t
  proof -
    from f(1) obtain fs dflt where fs: "map_of (MaterialTaskState (ne_env w)) s = Some fs" "map_of fs k = Some (t, dflt)"
      by (auto simp: ftype_of_Some)
    obtain d where d: "map_of st1 s = Some (PDict d)" "map_of d k = Some (fld st1 s k)" using present_field [OF f(2)] by blast
    obtain y where y: "map_of x s = Some (PDict y)" "validate_fields (ne_coerce w) fs d = Inr y"
      using validated_section [OF x(1) fs(1) d(1)] by blast
    from validator.validated_field [OF v y(2) fs(2) d(2) f(3)] y(1) show ?thesis
      by (simp add: fld_def sec_def dget0_def [of x] dget_def)
  qed
  with that x validator.validate_well_typed [OF v x(1)] show thesis by blast
qed

text \<open>The fields normalisation never writes.\<close>

definition plain_field :: "string \<Rightarrow> string \<Rightarrow> bool" where
  "plain_field s k \<longleftrightarrow> s \<notin> {''task'', ''mission'', ''material'', ''task_board''} \<and> (s, k) \<notin> set tidied_lists
     \<and> (s, k) \<noteq> (''execution'', ''artifact_registry'') \<and> (s, k) \<noteq> (''agent'', ''llm_provider'')"

lemma fld_normalize_plain: "plain_field s k \<Longrightarrow> fld (normalize_state e st) s k = fld st s k"
proof -
  assume p: "plain_field s k"
  then have "s \<noteq> ''task''" "s \<noteq> ''mission''" "s \<noteq> ''material''" by (simp_all add: plain_field_def)
  then have "fld (filled_state e st) s k = fld st s k" by (simp add: filled_state_def fill_def)
  moreover from p have "\<not> (s = ''execution'' \<and> k = ''artifact_registry'')" "\<not> (s = ''agent'' \<and> k = ''llm_provider'')"
    "s \<noteq> ''task_board''" "(s, k) \<notin> set tidied_lists"
    by (simp_all add: plain_field_def)
  ultimately show ?thesis unfolding fld_normalize Let_def by (simp only: if_False simp_thms)
qed

lemma reloaded_field:
  assumes "validator (ne_coerce w)" "load w st1 = Inr a" "fld st1 ''task'' ''task_id'' \<noteq> PNone"
    and "plain_field s k" "ftype_of (ne_env w) s k = Some t" "fld st1 s k \<noteq> PNone" "of_type t (fld st1 s k)"
  shows "fld a s k = fld st1 s k"
proof -
  obtain x where x: "a = normalize_state (ne_env w) x"
    "\<And>s k t. ftype_of (ne_env w) s k = Some t \<Longrightarrow> fld st1 s k \<noteq> PNone \<Longrightarrow> of_type t (fld st1 s k) \<Longrightarrow> fld x s k = fld st1 s k"
    using reloaded [OF assms(1-3)] by metis
  from x(2) [OF assms(5-7)] show ?thesis unfolding x(1) fld_normalize_plain [OF assms(4)] .
qed

text \<open>The text and the flags of the merged values are those the node wrote.\<close>

lemma canon_scalar: "of_type t u \<Longrightarrow> of_type t v \<Longrightarrow> t = TStr \<or> t = TBool \<Longrightarrow> canon u = canon v \<Longrightarrow> u = v"
  by (cases u; cases v) (auto simp: is_str_def split: if_splits)

lemma handed_field:
  assumes v: "validator (ne_coerce w)" and k: "kept st" and b: "load w st = Inr b" and p: "finalize_node_output w b st1 = Inr patch"
    and f: "plain_field s j" "ftype_of (ne_env w) s j = Some t" "fld st1 ''task'' ''task_id'' \<noteq> PNone"
    and x: "t = TStr \<or> t = TBool" "of_type t (fld st1 s j)"
  shows "fld (dmerge st patch) s j = fld st1 s j"
proof -
  from hand_over [OF v k b p] obtain a where a: "load w st1 = Inr a" "kept (dmerge st patch)"
    "\<And>s. s \<in> set STATE_TOP_LEVEL_SECTIONS \<Longrightarrow> agree (dmerge st patch) a s"
    by metis
  have some: "fld st1 s j \<noteq> PNone" using x by (auto simp: is_str_def)
  have fa: "fld a s j = fld st1 s j" by (intro reloaded_field [OF v a(1) f(3,1,2) some] x)
  have "s \<in> set STATE_TOP_LEVEL_SECTIONS"
    using f(2) unfolding sections_names [of "ne_env w"] ftype_of_Some by (metis map_of_SomeD image_eqI fst_conv list.set_map)
  from a(3) [OF this] f(1) have e: "map_option canon (map_of (sec (dmerge st patch) s) j) = map_option canon (map_of (sec a s) j)"
    by (simp add: agree_def plain_field_def)
  have "map_of (sec a s) j = Some (fld a s j)" using present_field [of a s j] fa some
    by (auto simp: fld_def dget0_def dget_def split: option.splits)
  with e obtain u where u: "map_of (sec (dmerge st patch) s) j = Some u" "canon u = canon (fld a s j)" by auto
  then have ud: "fld (dmerge st patch) s j = u" by (simp add: fld_def dget0_def dget_def)
  obtain e where "well_typed e (dmerge st patch)" using a(2) by (auto simp: kept_def)
  then have "of_type t u" using fld_typed(1) [of "ne_env w" _ s j t] f(2) well_typed_env ud by metis
  from canon_scalar [OF this _ x(1) u(2)] x(2) fa ud show ?thesis by simp
qed

section \<open>The patches of the nodes\<close>

definition patches :: "node_env \<Rightarrow> dict \<Rightarrow> dict \<Rightarrow> bool" where
  "patches w st patch \<longleftrightarrow> (\<exists>b st1. load w st = Inr b \<and> finalize_node_output w b st1 = Inr patch)"

lemma io_lift_Inr: "io_lift r f = (g, Inr x) \<longleftrightarrow> g = f \<and> r = Inr x"
  by (auto simp: io_lift_def)

lemma observe_patches:
  assumes "observe_node w ov m st f mem = (g, mem', Inr patch)"
  shows "patches w st patch"
  using assms by (auto simp: observe_node_def patches_def Let_def split: sum.splits prod.splits)

lemma proposal_patches: "proposal_node w co st = Inr patch \<Longrightarrow> patches w st patch"
  by (auto simp: proposal_node_def patches_def Let_def case_prod_unfold)

lemma critique_patches: "critique_node w co st = Inr patch \<Longrightarrow> patches w st patch"
  by (auto simp: critique_node_def patches_def Let_def case_prod_unfold)

lemma reflect_patches:
  assumes "reflect_node w m st mem = (mem', Inr patch)"
  shows "patches w st patch"
  using assms by (auto simp: reflect_node_def patches_def Let_def split: sum.splits prod.splits)

lemma close_branch_Patch: "close_branch w before family outcome = Inr (Patch patch) \<Longrightarrow> \<exists>st1. finalize_node_output w before st1 = Inr patch"
  by (cases "snd outcome") (auto simp: close_branch_def)

lemma execute_patches:
  assumes "execute_selected_action w st f = (g, Inr (Patch patch))"
  shows "patches w st patch"
  using assms close_branch_Patch
  by (fastforce simp: execute_selected_action_def patches_def io_bind_Inr io_lift_Inr Let_def split: if_splits)

lemma arbitration_step:
  assumes "arbitration_node w co st = Inr (patch, g)"
  obtains b r where "load w st = Inr b" "settled_arbitration w co b = Inr r"
    "finalize_node_output w b (record_arbitration r b) = Inr patch"
    "g = Some (if requires_execution r then ''execute_selected_action'' else ''check_termination'')"
  using assms by (auto simp: arbitration_node_def)

lemma termination_step:
  assumes "termination_node w st = Inr (patch, g)"
  obtains b s2 status reason where "load w st = Inr b" "derive_run_status (at_node ''check_termination'' b) = (status, reason)"
    "s2 = note_ready (ne_env w) status (note_missing_summary (ne_env w) status
       (set_fld ''workflow'' ''wait_reason'' (opt_str reason) (set_status status (at_node ''check_termination'' b))))"
    "finalize_node_output w b s2 = Inr patch"
    "g = after_termination_test (truthy (fld s2 ''services'' ''termination_requested'')) status"
  using assms by (force simp: termination_node_def Let_def case_prod_unfold)

lemma report_step:
  assumes "final_report_node w ask st f = (g, Inr patch)"
  obtains b s1 summary outcome s2 final f1 f2 f3 where "load w st = Inr b" "reported_state w ask b = Inr (s1, summary)"
    "write_report w summary outcome s1 f1 = (f2, Inr s2)"
    "\<exists>s3. export_when w (ne_compatibility_export w) ''finalization'' s2 f2 = (f3, Inr s3) \<and> load w s3 = Inr final"
    "finalize_node_output w b final = Inr patch"
  using assms by (auto simp: final_report_node_def io_bind_Inr io_lift_Inr Let_def)

lemma patches_kept: "validator (ne_coerce w) \<Longrightarrow> kept st \<Longrightarrow> patches w st patch \<Longrightarrow> kept (dmerge st patch)"
  unfolding patches_def by (metis hand_over)

section \<open>What the deciding nodes write\<close>

lemma fld_trace [node_writes]: "s \<noteq> ''agent'' \<Longrightarrow> fld (append_decision_trace m st) s k = fld st s k"
  by (simp add: append_decision_trace_def node_writes)

lemma fld_at_node [node_writes]:
  "fld (at_node n st) s k = (if s = ''workflow'' \<and> k = ''current_stage'' then PStr n else fld st s k)"
  by (simp add: at_node_def)

lemma record_selection_writes:
  "fld (record_selection r st) ''services'' ''selected_action_requires_execution'' = PBool (requires_execution r)"
  "fld (record_selection r st) ''task'' k = fld st ''task'' k"
  by (simp_all add: record_selection_def Let_def node_writes split: option.splits)

lemma record_arbitration_writes:
  "fld (record_arbitration r st) ''services'' ''selected_action_requires_execution'' = PBool (requires_execution r)"
  "fld (record_arbitration r st) ''services'' ''termination_requested'' = PBool False"
  "fld (record_arbitration r st) ''task'' k = fld st ''task'' k"
  by (simp_all add: record_arbitration_def Let_def node_writes record_selection_writes split: option.splits)

lemma termination_writes:
  assumes "s2 = note_ready e status (note_missing_summary e status
       (set_fld ''workflow'' ''wait_reason'' reason (set_status status (at_node ''check_termination'' b))))"
  shows "fld s2 ''workflow'' ''run_status'' = PStr status" "fld s2 ''task'' k = fld b ''task'' k"
    "fld s2 ''services'' ''termination_requested'' = fld b ''services'' ''termination_requested''"
  using assms by (simp_all add: note_ready_def note_missing_summary_def append_framework_diagnostic_def node_writes)

lemma report_writes:
  assumes "reported_state w ask b = Inr (s1, summary)" "write_report w summary outcome s1 f1 = (f2, Inr s2)"
    and "export_when w c reason s2 f2 = (f3, Inr s3)"
  shows "fld s3 ''workflow'' ''current_stage'' = PStr ''final_report''" "fld s3 ''task'' k = fld b ''task'' k"
    "fld s3 ''workflow'' ''run_status''
       = (case final_status_of (run_status_of b) of None \<Rightarrow> fld b ''workflow'' ''run_status'' | Some x \<Rightarrow> PStr x)"
proof -
  have e: "fld s3 t j = fld s2 t j" if "t \<noteq> ''execution''" for t j using export_when_effect [OF assms(3) that] .
  have r: "fld s2 t j = fld s1 t j" if "t \<noteq> ''execution''" for t j
    using assms(2) that by (auto simp: write_report_def add_paths_def node_writes Let_def split: prod.splits)
  show "fld s3 ''workflow'' ''current_stage'' = PStr ''final_report''" "fld s3 ''task'' k = fld b ''task'' k"
    "fld s3 ''workflow'' ''run_status''
       = (case final_status_of (run_status_of b) of None \<Rightarrow> fld b ''workflow'' ''run_status'' | Some x \<Rightarrow> PStr x)"
    using assms(1) by (auto simp: e r reported_state_def graded_state_def add_paths_def node_writes Let_def split: option.splits)
qed

lemma graph_field_types:
  "ftype_of e ''workflow'' ''run_status'' = Some TStr" "ftype_of e ''workflow'' ''current_stage'' = Some TStr"
  "ftype_of e ''task'' ''task_id'' = Some TStr"
  "ftype_of e ''services'' ''termination_requested'' = Some TBool" "ftype_of e ''services'' ''selected_action_requires_execution'' = Some TBool"
  by (simp_all add: ftype_of_def MaterialTaskState_def section_defs)

lemma graph_plain_fields:
  "plain_field ''workflow'' ''run_status''" "plain_field ''workflow'' ''current_stage''"
  "plain_field ''services'' ''termination_requested''" "plain_field ''services'' ''selected_action_requires_execution''"
  by (simp_all add: plain_field_def tidied_lists_def)

lemma loaded_id: "validator (ne_coerce w) \<Longrightarrow> load w p = Inr b \<Longrightarrow> fld b ''task'' ''task_id'' \<noteq> PNone"
  using fld_typed(1) [OF loaded_kept [THEN conjunct1] graph_field_types(3)] by (fastforce simp: is_str_def)

lemma loaded_text:
  assumes "validator (ne_coerce w)" "load w p = Inr b" "ftype_of (ne_env w) s k = Some TStr"
  shows "fld b s k = PStr (fld_text b s k)"
  using fld_typed(1) [OF loaded_kept [OF assms(1,2), THEN conjunct1] assms(3)]
  by (auto simp: fld_text_def get_str_def fld_def is_str_def py_or_def split: py.splits)

section \<open>The invariant of a run\<close>

definition run_ends_well :: "dict \<Rightarrow> bool" where
  "run_ends_well st \<longleftrightarrow>
     fld_text st ''workflow'' ''run_status'' \<in> {''waiting_external'', ''needs_human''}
   \<or> fld_text st ''workflow'' ''current_stage'' = ''final_report''
       \<and> fld_text st ''workflow'' ''run_status'' \<notin> {''ready_to_finalize'', ''running'', ''pending'', []}"

definition sound_run :: "'s graph_run \<Rightarrow> bool" where
  "sound_run r \<longleftrightarrow> kept (gr_values r)
   \<and> (gr_at r = ''execute_selected_action'' \<longrightarrow> fld (gr_values r) ''services'' ''selected_action_requires_execution'' = PBool True)
   \<and> (gr_at r = ''final_report'' \<longrightarrow> fld (gr_values r) ''services'' ''termination_requested'' = PBool True
       \<or> fld_text (gr_values r) ''workflow'' ''run_status'' \<in> set TERMINAL_RUN_STATUSES)
   \<and> (gr_at r = ''__end__'' \<longrightarrow> run_ends_well (gr_values r))"

lemma text_of_field: "fld st s k = PStr x \<Longrightarrow> fld_text st s k = x"
  by (simp add: fld_text_def get_str_def fld_def py_or_def)

lemma arbitration_sound:
  assumes "validator (ne_coerce w)" "kept st" "arbitration_node w co st = Inr (patch, g)"
  shows "kept (dmerge st patch)" "goto_node g \<in> {''execute_selected_action'', ''check_termination''}"
    "goto_node g = ''execute_selected_action'' \<Longrightarrow>
       fld (dmerge st patch) ''services'' ''selected_action_requires_execution'' = PBool True"
proof -
  from arbitration_step [OF assms(3)] obtain b r where s: "load w st = Inr b"
    "finalize_node_output w b (record_arbitration r b) = Inr patch"
    "g = Some (if requires_execution r then ''execute_selected_action'' else ''check_termination'')"
    by metis
  have id: "fld (record_arbitration r b) ''task'' ''task_id'' \<noteq> PNone"
    using loaded_id [OF assms(1) s(1)] by (simp add: record_arbitration_writes)
  from handed_field [OF assms(1,2) s(1,2) graph_plain_fields(4) graph_field_types(5) id]
  have "fld (dmerge st patch) ''services'' ''selected_action_requires_execution'' = PBool (requires_execution r)"
    by (simp add: record_arbitration_writes)
  then show "goto_node g = ''execute_selected_action'' \<Longrightarrow>
       fld (dmerge st patch) ''services'' ''selected_action_requires_execution'' = PBool True"
    using s(3) by (simp add: goto_node_def split: if_splits)
  show "kept (dmerge st patch)" using patches_kept [OF assms(1,2)] s(1,2) by (auto simp: patches_def)
  show "goto_node g \<in> {''execute_selected_action'', ''check_termination''}" using s(3) by (simp add: goto_node_def)
qed

lemma termination_sound:
  assumes "validator (ne_coerce w)" "kept st" "termination_node w st = Inr (patch, g)"
  shows "kept (dmerge st patch)"
    "g = after_termination_test (fld (dmerge st patch) ''services'' ''termination_requested'' = PBool True)
           (fld_text (dmerge st patch) ''workflow'' ''run_status'')"
proof -
  from termination_step [OF assms(3)] obtain b s2 status reason where s: "load w st = Inr b"
    "s2 = note_ready (ne_env w) status (note_missing_summary (ne_env w) status
       (set_fld ''workflow'' ''wait_reason'' (opt_str reason) (set_status status (at_node ''check_termination'' b))))"
    "finalize_node_output w b s2 = Inr patch"
    "g = after_termination_test (truthy (fld s2 ''services'' ''termination_requested'')) status"
    by metis
  note out = termination_writes [OF s(2)]
  have id: "fld s2 ''task'' ''task_id'' \<noteq> PNone" using loaded_id [OF assms(1) s(1)] by (simp add: out)
  note handed = handed_field [OF assms(1,2) s(1,3) _ _ id]
  have "fld (dmerge st patch) ''workflow'' ''run_status'' = PStr status"
    using handed [OF graph_plain_fields(1) graph_field_types(1)] by (simp add: out is_str_def)
  moreover have flag: "of_type TBool (fld b ''services'' ''termination_requested'')"
    using fld_typed(1) [OF loaded_kept [OF assms(1) s(1), THEN conjunct1] graph_field_types(4)] .
  moreover have "fld (dmerge st patch) ''services'' ''termination_requested'' = fld b ''services'' ''termination_requested''"
    using handed [OF graph_plain_fields(3) graph_field_types(4)] flag by (simp add: out)
  ultimately show "g = after_termination_test (fld (dmerge st patch) ''services'' ''termination_requested'' = PBool True)
           (fld_text (dmerge st patch) ''workflow'' ''run_status'')"
    using s(4) by (auto simp: out text_of_field)
  show "kept (dmerge st patch)" using patches_kept [OF assms(1,2)] s(1,3) by (auto simp: patches_def)
qed

lemma report_sound:
  assumes "validator (ne_coerce w)" "kept st" "final_report_node w ask st f = (g, Inr patch)"
  shows "kept (dmerge st patch)" "run_ends_well (dmerge st patch)"
proof -
  from report_step [OF assms(3)] obtain b s1 summary outcome s2 s3 final f1 f2 f3 where s: "load w st = Inr b"
    "reported_state w ask b = Inr (s1, summary)" "write_report w summary outcome s1 f1 = (f2, Inr s2)"
    "export_when w (ne_compatibility_export w) ''finalization'' s2 f2 = (f3, Inr s3)" "load w s3 = Inr final"
    "finalize_node_output w b final = Inr patch"
    by metis
  note out = report_writes [OF s(2-4)]
  let ?status = "case final_status_of (run_status_of b) of None \<Rightarrow> run_status_of b | Some x \<Rightarrow> x"
  have id: "fld s3 ''task'' ''task_id'' \<noteq> PNone" using loaded_id [OF assms(1) s(1)] by (simp add: out)
  have st: "fld s3 ''workflow'' ''run_status'' = PStr ?status"
    using loaded_text [OF assms(1) s(1) graph_field_types(1)] by (simp add: out run_status_of_def split: option.splits)
  have final: "fld final ''workflow'' ''run_status'' = PStr ?status" "fld final ''workflow'' ''current_stage'' = PStr ''final_report''"
    using reloaded_field [OF assms(1) s(5) id graph_plain_fields(1) graph_field_types(1)]
      reloaded_field [OF assms(1) s(5) id graph_plain_fields(2) graph_field_types(2)]
    by (simp_all add: st out(1) is_str_def)
  note handed = handed_field [OF assms(1,2) s(1,6) _ _ loaded_id [OF assms(1) s(5)]]
  have "fld (dmerge st patch) ''workflow'' ''run_status'' = PStr ?status"
    "fld (dmerge st patch) ''workflow'' ''current_stage'' = PStr ''final_report''"
    using handed [OF graph_plain_fields(1) graph_field_types(1)] handed [OF graph_plain_fields(2) graph_field_types(2)] final
    by (simp_all add: is_str_def)
  then show "run_ends_well (dmerge st patch)"
    by (simp add: run_ends_well_def text_of_field final_status_of_def split: option.splits)
  show "kept (dmerge st patch)" using patches_kept [OF assms(1,2)] s(1,6) by (auto simp: patches_def)
qed

lemma moved_fields [simp]:
  "gr_at (moved r n patch) = n" "gr_values (moved r n patch) = dmerge (gr_values r) patch"
  by (simp_all add: moved_def)

lemma after_termination_goes:
  assumes "g = after_termination_test c status"
  shows "goto_node g \<noteq> ''execute_selected_action''" "goto_node g = ''final_report'' \<longleftrightarrow> c \<or> status \<in> set TERMINAL_RUN_STATUSES"
    "goto_node g = ''__end__'' \<Longrightarrow> status \<in> {''waiting_external'', ''needs_human''}"
  using assms by (simp_all add: after_termination_test_def goto_node_def split: if_splits)

lemma sound_run_step:
  assumes "graph_step w r r'" "validator (ne_coerce (wd_node w))" "sound_run r"
  shows "sound_run r'"
  using assms(1)
proof cases
  case start
  then show ?thesis using assms(3) by (simp add: sound_run_def)
next
  case (observe f mem patch)
  then show ?thesis using patches_kept [OF assms(2) _ observe_patches [OF observe(3)]] assms(3) by (simp add: sound_run_def)
next
  case (propose patch)
  then show ?thesis using patches_kept [OF assms(2) _ proposal_patches [OF propose(3)]] assms(3) by (simp add: sound_run_def)
next
  case (criticize patch)
  then show ?thesis using patches_kept [OF assms(2) _ critique_patches [OF criticize(3)]] assms(3) by (simp add: sound_run_def)
next
  case (decide patch g)
  from arbitration_sound [OF assms(2) _ decide(3)] assms(3) show ?thesis unfolding decide(1) by (auto simp: sound_run_def)
next
  case (act f patch)
  then show ?thesis using patches_kept [OF assms(2) _ execute_patches [OF act(3)]] assms(3) by (simp add: sound_run_def)
next
  case (suspend f request)
  then show ?thesis using assms(3) by (simp add: sound_run_def)
next
  case (reflect mem patch)
  then show ?thesis using patches_kept [OF assms(2) _ reflect_patches [OF reflect(3)]] assms(3) by (simp add: sound_run_def)
next
  case (test patch g)
  from termination_sound [OF assms(2) _ test(3)] assms(3) have t: "kept (dmerge (gr_values r) patch)"
    "g = after_termination_test (fld (dmerge (gr_values r) patch) ''services'' ''termination_requested'' = PBool True)
           (fld_text (dmerge (gr_values r) patch) ''workflow'' ''run_status'')"
    by (simp_all add: sound_run_def)
  from after_termination_goes [OF t(2)] t(1) show ?thesis unfolding test(1) by (simp add: sound_run_def run_ends_well_def)
next
  case (report f patch)
  from report_sound [OF assms(2) _ report(3)] assms(3) show ?thesis unfolding report(1) by (simp add: sound_run_def)
qed

section \<open>Properties of the graph\<close>

end
