(* ===== verification/Graph_Facts.thy ===== *)
theory Graph_Facts
  imports Material_Graph
begin

text \<open>
  The arbitration and the executor together: which parts of a state the legality check reads (\<open>same_case\<close>), that
  the values an arbitration hands on are the same case, and so that the executor accepts what was selected; the
  selections it refuses all the same; and that a test for termination always decides.
\<close>

section \<open>What the legality check reads\<close>

definition legality_fields :: "(string \<times> string) list" where
  "legality_fields =
     [(''workflow'', ''run_status''), (''workflow'', ''retry_budget''), (''workflow'', ''retry_counts''), (''workflow'', ''refinement_rounds''),
      (''workflow'', ''max_refinement_rounds''), (''workflow'', ''stage_status''), (''execution'', ''pending_events''),
      (''execution'', ''external_jobs''), (''execution'', ''latest_execution_observation''), (''services'', ''pending_human_payload''),
      (''services'', ''latest_human_decision'')]"

definition legality_sections :: "string list" where
  "legality_sections = [''mission'', ''physics_results'', ''diagnostics'', ''blackboard'', ''task_board'']"

definition same_case :: "dict \<Rightarrow> dict \<Rightarrow> bool" where
  "same_case st st' \<longleftrightarrow> (\<forall>s\<in>set legality_sections. dget0 st s = dget0 st' s) \<and> (\<forall>(s, k)\<in>set legality_fields. fld st s k = fld st' s k)
     \<and> get_dict st ''workflow'' = Inr (sec st ''workflow'') \<and> get_dict st' ''workflow'' = Inr (sec st' ''workflow'')"

lemma py_or_dget0:
  "\<not> truthy w \<Longrightarrow> \<not> truthy PNone \<Longrightarrow> py_or (dget d k w) w = py_or (dget0 d k) w"
  by (cases "map_of d k") (auto simp: dget_def dget0_def py_or_def)

lemma get_or_empty_dget0: "get_or_empty d k = (case py_or (dget0 d k) (PDict []) of PDict e \<Rightarrow> Inr e | _ \<Rightarrow> Inl (AttributeError ''get''))"
  using py_or_dget0 [of "PDict []" d k] by (simp add: get_or_empty_def)

lemma get_int_dget0: "get_int d k = to_int (py_or (dget0 d k) (PInt 0))"
  using py_or_dget0 [of "PInt 0" d k] by (simp add: get_int_def)

lemma fld_text_fld: "fld_text st s k = py_str (py_or (fld st s k) (PStr []))"
  by (simp add: fld_text_def get_str_def fld_def)

lemma same_case_reads:
  assumes "same_case st st'"
  shows "fld st ''mission'' k = fld st' ''mission'' k" "fld st ''physics_results'' k = fld st' ''physics_results'' k"
    "fld st ''diagnostics'' k = fld st' ''diagnostics'' k" "fld st ''blackboard'' k = fld st' ''blackboard'' k"
    "fld st ''workflow'' ''run_status'' = fld st' ''workflow'' ''run_status''"
    "fld st ''workflow'' ''retry_budget'' = fld st' ''workflow'' ''retry_budget''"
    "fld st ''workflow'' ''retry_counts'' = fld st' ''workflow'' ''retry_counts''"
    "fld st ''workflow'' ''refinement_rounds'' = fld st' ''workflow'' ''refinement_rounds''"
    "fld st ''workflow'' ''max_refinement_rounds'' = fld st' ''workflow'' ''max_refinement_rounds''"
    "fld st ''workflow'' ''stage_status'' = fld st' ''workflow'' ''stage_status''"
    "fld st ''execution'' ''pending_events'' = fld st' ''execution'' ''pending_events''"
    "fld st ''execution'' ''external_jobs'' = fld st' ''execution'' ''external_jobs''"
    "fld st ''execution'' ''latest_execution_observation'' = fld st' ''execution'' ''latest_execution_observation''"
    "fld st ''services'' ''pending_human_payload'' = fld st' ''services'' ''pending_human_payload''"
    "fld st ''services'' ''latest_human_decision'' = fld st' ''services'' ''latest_human_decision''"
    "board_of st = board_of st'"
    "get_dict st ''diagnostics'' = get_dict st' ''diagnostics''"
    "get_or_empty st ''mission'' = get_or_empty st' ''mission''" "get_or_empty st ''blackboard'' = get_or_empty st' ''blackboard''"
    "get_or_empty st ''physics_results'' = get_or_empty st' ''physics_results''"
  using assms
  by (simp_all add: same_case_def legality_sections_def legality_fields_def fld_def sec_def board_of_def fld_list_def
      get_or_empty_dget0 get_dict_dget0)

lemma same_case_resolve:
  assumes "same_case st st'"
  shows "resolve_refinement_sampling st params n threshold = resolve_refinement_sampling st' params n threshold"
  unfolding resolve_refinement_sampling_def infer_refinement_channels_def fit_threshold_of_def same_case_reads [OF assms] ..

lemma same_case_refine:
  assumes "same_case st st'"
  shows "validation_requires_refinement st n threshold = validation_requires_refinement st' n threshold"
proof -
  have w: "get_dict st ''workflow'' = Inr (sec st ''workflow'')" "get_dict st' ''workflow'' = Inr (sec st' ''workflow'')"
    using assms by (simp_all add: same_case_def)
  have i: "get_int (sec x ''workflow'') k = to_int (py_or (fld x ''workflow'' k) (PInt 0))" for x k
    by (simp add: get_int_dget0 fld_def)
  show ?thesis
    unfolding validation_requires_refinement_def fit_threshold_of_def nested_list_def w bindR_simps i same_case_reads [OF assms]
      same_case_resolve [OF assms] ..
qed

lemma same_case_evidence:
  assumes "same_case st st'"
  shows "evidence_holds st ev = evidence_holds st' ev"
  unfolding evidence_holds_def fld_dict_def fld_list_def run_status_of_def fld_text_fld same_case_reads [OF assms] ..

lemma same_case_legality:
  assumes "same_case st st'"
  shows "check_legality st q = check_legality st' q"
  unfolding check_legality_def refinement_refusals_def legality_warnings_def required_evidence_status_def status_refusals_def
    target_refusals_def closing_refusals_def validation_ready_to_finalize_def task_status_def missing_dependencies_def
    dependency_status_def completed_names_def external_job_pending_def retries_of_def waiting_without_event_def run_status_of_def
    fld_dict_def fld_list_def fld_int_def fld_text_fld
    same_case_reads [OF assms] same_case_resolve [OF assms] same_case_refine [OF assms] same_case_evidence [OF assms] ..

section \<open>What the arbitration hands on\<close>

lemma distinct_typed: "typed fs d \<Longrightarrow> distinct (map fst fs) \<Longrightarrow> distinct (map fst d)"
  by (simp add: typed_keys)

lemma action_typed: "validator coerce \<Longrightarrow> selected_action coerce d = Inr x \<Longrightarrow> typed (members SelectedAction) x"
  using message_class.construct_typed [OF selected_action_class] by (simp add: selected_action_def)

lemma action_target: "typed (members SelectedAction) x \<Longrightarrow> dget0 x ''target_capability'' = PNone \<or> is_str (dget0 x ''target_capability'')"
  using typed_dget0 [of "members SelectedAction" x "''target_capability''" TOptStr PNone] by (simp add: SelectedAction_def)

lemma action_family_text: "typed (members SelectedAction) x \<Longrightarrow> is_str (dget0 x ''action_family'')"
  using typed_dget0 [of "members SelectedAction" x "''action_family''" "TLit ActionFamily" "PStr ''run_capability''"]
  by (auto simp: SelectedAction_def is_str_def)

lemma action_distinct: "typed (members SelectedAction) x \<Longrightarrow> distinct (map fst x)"
  by (erule distinct_typed) (simp add: SelectedAction_def)

lemma picked_action:
  assumes "validator coerce" "arbitrate coerce e ask st proposals critiques preferences round_id = Inr r" "ar_action r = Some a"
  shows "distinct (map fst a) \<and> (dget0 a ''target_capability'' = PNone \<or> is_str (dget0 a ''target_capability''))
    \<and> is_str (dget0 a ''action_family'')"
  using assms
proof (cases rule: arbitrated_origin)
  case (override x ns)
  then have "dget0 a ''target_capability'' = dget0 x ''target_capability''" "distinct (map fst x) \<longrightarrow> distinct (map fst a)"
    "dget0 a ''action_family'' = dget0 x ''action_family''"
    by (auto simp: canonicalize_override_def Let_def on_def split: if_splits)
  with action_target [OF override(1)] action_distinct [OF override(1)] action_family_text [OF override(1)] show ?thesis by simp
next
  case (proposal cs g i own ns)
  then obtain p x where x: "selected_action_from_proposal coerce (map opinion_of (critiques @ preferences)) p = Inr x"
    and a: "a = x \<or> (\<exists>answer. a = dmerge x (answer_overlay (map opinion_of (critiques @ preferences)) answer))"
    by (auto simp: canonicalize_selected_action_def Let_def split: option.splits)
  have t: "typed (members SelectedAction) x"
    using x action_typed [OF assms(1)] by (auto simp: selected_action_from_proposal_def Let_def)
  have k: "''target_capability'' \<in> set request_fields" "''action_family'' \<in> set request_fields" by (simp_all add: request_fields_def)
  from a action_target [OF t] action_distinct [OF t] action_family_text [OF t] answer_keeps_request [OF k(1)] answer_keeps_request [OF k(2)]
  show ?thesis
    by (auto simp: distinct_dmerge)
qed

lemma picked_record:
  assumes "validator coerce" "arbitrate coerce e ask st proposals critiques preferences round_id = Inr r" "ar_action r = Some a"
  shows "typed (members (ArbitrationRecord e)) (ar_record r)" "\<not> flag_set (ar_record r) ''whether_noop''"
    "\<not> flag_set (ar_record r) ''whether_ready_to_finalize''"
    "flag_set (ar_record r) ''whether_waiting_external'' \<longleftrightarrow> flag_set a ''wait_for_event_after_submission''"
proof -
  obtain cs where cs: "mapR canonicalize_proposal proposals = Inr cs" using assms(2) by (auto simp: arbitrate_def)
  obtain g0 where g0: "guardrail_arbitration coerce e st (map fst cs) critiques preferences round_id = Inr g0"
    using assms(2) cs by (auto simp: arbitrate_def Let_def)
  let ?g = "with_notes g0 (concat (map (\<lambda>(p, ns). map (\<lambda>n. proposal_id p @ '':'' @ n) ns) cs))"
  have none: "ar_action g0 = None" "ar_action ?g = None"
    using guardrail_legal_ids(1) [OF assms(1) g0] by (simp_all add: with_notes_def)
  obtain answer where "settle_arbitration coerce e st ?g (map fst cs) (map opinion_of (critiques @ preferences)) round_id answer = Inr r"
    using assms(2) [unfolded arbitrate_def cs bindR_simps Let_def g0] assms(3) none
    by (auto simp: rewrap_Inr split: if_splits)
  then obtain own where own: "arbitration_record coerce e st round_id (Some a) own = Inr r"
    "map_of own ''whether_noop'' = Some (PBool False)" "map_of own ''whether_ready_to_finalize'' = Some (PBool False)"
    "map_of own ''whether_waiting_external'' = Some (PBool (flag_set a ''wait_for_event_after_submission''))"
    using assms(3) by (auto simp: settle_arbitration_def Let_def arbitration_record_def)
  let ?d = "[(''agent_name'', PStr ''orchestrator''), (''round_id'', PInt round_id), (''target_task_id'', PStr (fld_text st ''task'' ''task_id''))] @ own"
  obtain d where d: "construct coerce (ArbitrationRecord e) ?d = Inr d" "r = \<lparr>ar_record = d, ar_action = Some a\<rparr>"
    using own(1) by (auto simp: arbitration_record_def)
  then show "typed (members (ArbitrationRecord e)) (ar_record r)"
    using message_class.construct_typed [OF arbitration_record_class [OF assms(1)]] by simp
  from d(1) obtain u where u: "validate_fields coerce (members (ArbitrationRecord e)) ?d = Inr u" "d = after (ArbitrationRecord e) u"
    by (auto simp: construct_def split: if_splits)
  note field = validator.validated_field [OF assms(1) u(1), of _ TBool "PBool False"]
  have "dget0 u ''whether_noop'' = PBool False" "dget0 u ''whether_ready_to_finalize'' = PBool False"
    "dget0 u ''whether_waiting_external'' = PBool (flag_set a ''wait_for_event_after_submission'')"
    using own field [of "''whether_noop''" "PBool False"] field [of "''whether_ready_to_finalize''" "PBool False"]
      field [of "''whether_waiting_external''" "PBool (flag_set a ''wait_for_event_after_submission'')"]
    by (simp_all add: ArbitrationRecord_def message_defs)
  then show "\<not> flag_set (ar_record r) ''whether_noop''" "\<not> flag_set (ar_record r) ''whether_ready_to_finalize''"
    "flag_set (ar_record r) ''whether_waiting_external'' \<longleftrightarrow> flag_set a ''wait_for_event_after_submission''"
    using d(2) u(2) by (simp_all add: flag_set_def ArbitrationRecord_def message_defs)
qed

section \<open>The state after the arbitration is typed\<close>

lemma typed_extend:
  assumes "well_typed e st" "ftype_of e s k = Some t" "t = TListDict \<and> list_all (dict_of (\<lambda>_. True)) xs \<or> t = TListStr \<and> list_all is_str xs"
  shows "well_typed e (extend_fld s k xs st)"
  unfolding extend_fld_def
proof (rule well_typed_set_fld [OF assms(1,2)])
  from fld_typed(1) [OF assms(1,2)] assms(3) obtain ys where "fld st s k = PList ys" by (auto simp: list_of_def split: py.splits)
  with fld_typed(1) [OF assms(1,2)] assms(3) show "of_type t (PList (py_dedupe (items (fld st s k) @ xs)))"
    by (auto simp: list_of_def items_def intro!: dedupe_typed)
qed

lemma arbitration_field_types:
  "ftype_of e ''deliberation'' ''arbitrations'' = Some TListDict" "ftype_of e ''deliberation'' ''selected_actions'' = Some TListDict"
  "ftype_of e ''deliberation'' ''rationale_history'' = Some TListStr" "ftype_of e ''execution'' ''current_action'' = Some TDict"
  "ftype_of e ''execution'' ''action_status'' = Some TStr" "ftype_of e ''workflow'' ''next_action'' = Some TOptStr"
  "ftype_of e ''agent'' ''agent_decisions'' = Some TListDict" "ftype_of e ''agent'' ''decision_trace'' = Some TListDict"
  by (simp_all add: ftype_of_def MaterialTaskState_def section_defs)

lemma dumped_distinct:
  assumes "typed (members (ArbitrationRecord e)) (ar_record r)"
  shows "distinct (map fst (dump_arbitration r))"
proof -
  have "map fst (dump_arbitration r)
      = concat (map (\<lambda>k. k # on (k = ''selected_proposal_id'') ''selected_action'') (map fst (ar_record r)))"
    by (simp add: dump_arbitration_def map_concat comp_def case_prod_unfold on_def if_distrib [of "map fst"] cong: if_cong)
  also have "map fst (ar_record r) = map fst (members (ArbitrationRecord e))" by (rule typed_keys [OF assms])
  finally show ?thesis by (simp add: ArbitrationRecord_def message_defs on_def)
qed

lemma record_arbitration_typed:
  assumes b: "well_typed e b" and r: "typed (members (ArbitrationRecord e)) (ar_record r)" "ar_action r = Some a" "distinct (map fst a)"
    and f: "dget0 a ''action_family'' = PNone \<or> is_str (dget0 a ''action_family'')"
  shows "well_typed e (record_arbitration r b)"
proof -
  have dr: "dict_of (\<lambda>_. True) (PDict (dump_arbitration r))" "dict_of (\<lambda>_. True) (PDict a)"
    "dict_of (\<lambda>_. True) (PDict (node_trace n k (dump_arbitration r)))" if "n = n" for n k
    using dumped_distinct [OF r(1)] r(3) by (auto simp: dict_of_def list_all_iff node_trace_def intro!: distinct_dmerge)
  have rat: "is_str (dget0 (ar_record r) ''rationale'')" using record_fields(1) [OF r(1)] .
  show ?thesis
    unfolding record_arbitration_def record_selection_def Let_def append_decision_trace_def r(2) option.case at_node_def
    by (intro typed_extend [OF _ arbitration_field_types(1)] typed_extend [OF _ arbitration_field_types(2)]
        typed_extend [OF _ arbitration_field_types(3)] typed_extend [OF _ arbitration_field_types(7)] typed_extend [OF _ arbitration_field_types(8)])
      (use b dr rat f in \<open>auto simp: set_status_def is_str_def intro!: well_typed_set_fld [OF _ arbitration_field_types(4)]
        well_typed_set_fld [OF _ arbitration_field_types(5)] well_typed_set_fld [OF _ arbitration_field_types(6)]
        well_typed_set_fld [OF _ graph_field_types(1)] well_typed_set_fld [OF _ graph_field_types(2)]
        well_typed_set_fld [OF _ graph_field_types(4)] well_typed_set_fld [OF _ graph_field_types(5)]
        typed_extend [OF _ arbitration_field_types(1)] typed_extend [OF _ arbitration_field_types(2)]
        typed_extend [OF _ arbitration_field_types(3)] split: option.splits\<close>)
qed

section \<open>The executor looks at the same case\<close>

lemma fill_cong:
  assumes "\<forall>s\<in>T. \<forall>k. fld x s k = fld y s k" "s \<in> T" "t \<in> T"
  shows "\<forall>s'\<in>T. \<forall>k'. fld (fill s k t j x) s' k' = fld (fill s k t j y) s' k'"
  using assms by (auto simp: fill_def)

lemma normalize_cong:
  assumes "\<And>k. fld x ''task'' k = fld y ''task'' k" "\<And>k. fld x ''mission'' k = fld y ''mission'' k"
    "\<And>k. fld x ''material'' k = fld y ''material'' k" "\<And>k. fld x s k = fld y s k"
  shows "fld (normalize_state e x) s k = fld (normalize_state e y) s k"
proof -
  let ?T = "{''task'', ''mission'', ''material'', s}"
  have "\<forall>s'\<in>?T. \<forall>k. fld (set_fld ''task'' ''updated_at'' (PStr (now e)) x) s' k = fld (set_fld ''task'' ''updated_at'' (PStr (now e)) y) s' k"
    using assms by simp
  then have "\<forall>s'\<in>?T. \<forall>k. fld (filled_state e x) s' k = fld (filled_state e y) s' k"
    unfolding filled_state_def by (intro fill_cong) simp_all
  then have f: "fld (filled_state e x) s j = fld (filled_state e y) s j" for j by blast
  have ne: "(''task_board'' = ''execution'') = False" "(''task_board'' = ''agent'') = False" "(''execution'' = ''task_board'') = False"
    "(''execution'' = ''agent'') = False" "(''agent'' = ''task_board'') = False" "(''agent'' = ''execution'') = False" by simp_all
  show ?thesis
  proof (cases "s \<in> {''task_board'', ''execution'', ''agent''}")
    case True
    then consider "s = ''task_board''" | "s = ''execution''" | "s = ''agent''" by (elim insertE) simp_all
    then show ?thesis
    proof cases
      case 1
      show ?thesis using f unfolding 1 fld_normalize Let_def by (simp only: ne simp_thms if_False)
    next
      case 2
      show ?thesis using f unfolding 2 fld_normalize Let_def by (simp only: ne simp_thms if_False)
    next
      case 3
      show ?thesis using f unfolding 3 fld_normalize Let_def by (simp only: ne simp_thms if_False)
    qed
  next
    case False
    then have "s \<noteq> ''task_board''" "s \<noteq> ''execution''" "s \<noteq> ''agent''" by simp_all
    with f show ?thesis unfolding fld_normalize Let_def by (simp only: simp_thms if_False)
  qed
qed

lemma typed_eq: "typed fs d \<Longrightarrow> typed fs d' \<Longrightarrow> distinct (map fst fs) \<Longrightarrow> (\<And>k. dget0 d k = dget0 d' k) \<Longrightarrow> d = d'"
proof -
  assume a: "typed fs d" "typed fs d'" "distinct (map fst fs)" "\<And>k. dget0 d k = dget0 d' k"
  have keys: "map fst d = map fst d'" using typed_keys [OF a(1)] typed_keys [OF a(2)] by simp
  have dist: "distinct (map fst d)" using distinct_typed [OF a(1,3)] .
  have "snd (d ! i) = snd (d' ! i)" if "i < length d" for i
  proof -
    have l: "length d = length d'" using keys by (metis length_map)
    have k: "fst (d ! i) = fst (d' ! i)" using keys that l by (metis nth_map)
    have "map_of d (fst (d ! i)) = Some (snd (d ! i))" "map_of d' (fst (d' ! i)) = Some (snd (d' ! i))"
      using dist keys that l by (simp_all add: map_of_eq_Some_iff)
    then show ?thesis using a(4) [of "fst (d ! i)"] k by (simp add: dget0_def dget_def)
  qed
  moreover have "length d = length d'" using keys by (metis length_map)
  moreover have "fst (d ! i) = fst (d' ! i)" if "i < length d" for i using keys that by (metis nth_map length_map)
  ultimately show "d = d'" by (intro nth_equalityI) (auto simp: prod_eq_iff)
qed

lemma section_eq:
  assumes "well_typed e x" "well_typed e y" "s \<in> set STATE_TOP_LEVEL_SECTIONS" "\<And>k. fld x s k = fld y s k"
  shows "sec x s = sec y s"
proof -
  obtain fs where fs: "map_of (MaterialTaskState e) s = Some fs" "typed fs (sec x s)" using section_of [OF assms(1,3)] by metis
  then have "typed fs (sec y s)" using section_of [OF assms(2,3)] by (metis option.inject)
  moreover have "distinct (map fst fs)" using good_sections map_of_SomeD [OF fs(1)] by (auto simp: good_fields_def)
  ultimately show ?thesis using typed_eq fs(2) assms(4) by (auto simp: fld_def)
qed

lemma settled_fields:
  assumes "status_after_arbitration (ar_record r) (record_selection r b) = None"
  shows "\<And>k. s \<notin> {''deliberation'', ''execution'', ''workflow'', ''services'', ''agent''} \<Longrightarrow> fld (record_arbitration r b) s k = fld b s k"
    and "(s, k) \<in> set legality_fields \<Longrightarrow> fld (record_arbitration r b) s k = fld b s k"
proof -
  show "\<And>k. s \<notin> {''deliberation'', ''execution'', ''workflow'', ''services'', ''agent''} \<Longrightarrow> fld (record_arbitration r b) s k = fld b s k"
    by (simp add: record_arbitration_def Let_def node_writes assms)
      (simp add: record_selection_def Let_def node_writes split: option.splits)
  show "(s, k) \<in> set legality_fields \<Longrightarrow> fld (record_arbitration r b) s k = fld b s k"
    unfolding legality_fields_def
    by (simp only: list.set, elim insertE; simp add: record_arbitration_def Let_def node_writes assms;
        simp add: record_selection_def Let_def node_writes split: option.splits)
qed

lemma legality_sections_top: "s \<in> set legality_sections \<Longrightarrow> s \<in> set STATE_TOP_LEVEL_SECTIONS \<and> s \<noteq> ''task''"
  "''workflow'' \<in> set STATE_TOP_LEVEL_SECTIONS" "''execution'' \<in> set STATE_TOP_LEVEL_SECTIONS"
proof -
  have "list_all (\<lambda>s. s \<in> set STATE_TOP_LEVEL_SECTIONS \<and> s \<noteq> ''task'') legality_sections" by code_simp
  then show "s \<in> set legality_sections \<Longrightarrow> s \<in> set STATE_TOP_LEVEL_SECTIONS \<and> s \<noteq> ''task''" by (simp add: list_all_iff)
  show "''workflow'' \<in> set STATE_TOP_LEVEL_SECTIONS" "''execution'' \<in> set STATE_TOP_LEVEL_SECTIONS" by code_simp+
qed

lemma legality_fields_plain:
  assumes "(s, k) \<in> set legality_fields"
  shows "plain_field s k" "s \<in> set STATE_TOP_LEVEL_SECTIONS" "s \<noteq> ''task''"
proof -
  have "list_all (\<lambda>(s, k). s \<in> set STATE_TOP_LEVEL_SECTIONS \<and> s \<noteq> ''task'') legality_fields" by code_simp
  with assms show "s \<in> set STATE_TOP_LEVEL_SECTIONS" "s \<noteq> ''task''" by (auto simp: list_all_iff)
  show "plain_field s k" using assms unfolding legality_fields_def
    by (simp only: list.set, elim insertE; simp add: plain_field_def tidied_lists_def)
qed

text \<open>After an arbitration that selected a proposal without a wait, the executor reads the same case and the
  very action the arbitration picked.\<close>

lemma handed_case:
  assumes v: "validator (ne_coerce w)" "ne_coerce w' = ne_coerce w" and k: "kept st" and b: "load w st = Inr b"
    and p: "finalize_node_output w b (record_arbitration r b) = Inr patch" and c: "load w' (dmerge st patch) = Inr c"
    and r: "typed (members (ArbitrationRecord (ne_env w))) (ar_record r)" "ar_action r = Some a" "distinct (map fst a)"
      "dget0 a ''action_family'' = PNone \<or> is_str (dget0 a ''action_family'')"
    and open_: "fld_text b ''execution'' ''action_status'' \<noteq> ''selected''"
  shows "status_after_arbitration (ar_record r) (record_selection r b) = None \<Longrightarrow> same_case b c"
    and "fld_dict c ''execution'' ''current_action'' = a"
proof -
  let ?e = "ne_env w" and ?s1 = "record_arbitration r b" and ?u = "dmerge st patch"
  note tb = loaded_kept [OF v(1) b]
  have t1: "well_typed ?e ?s1" using record_arbitration_typed [OF _ r] tb by blast
  then have a': "load w ?s1 = Inr (normalize_state ?e ?s1)" using validator.from_dict_keep [OF v(1)] by (simp add: load_def)
  let ?a = "normalize_state ?e ?s1"
  note ta = loaded_kept [OF v(1) a']
  from hand_over [OF v(1) k b p] a' have u: "kept ?u" "\<And>s. s \<in> set STATE_TOP_LEVEL_SECTIONS \<Longrightarrow> s \<noteq> ''task'' \<Longrightarrow>
       sec ?u s = (if py_eq (dget0 b s) (dget0 ?a s) then sec st s else sec ?a s)"
    by (metis Inr_inject)+
  have v': "validator (ne_coerce w')" using v by simp
  have cu: "c = set_fld ''task'' ''updated_at'' (PStr (now (ne_env w'))) ?u" using kept_loads [OF v' u(1)] c by simp
  have sc: "sec c s = sec ?u s" "sec b s = sec st s" if "s \<noteq> ''task''" for s
    using kept_loads [OF v(1) k] b that by (simp_all add: cu sec_set_fld)
  have mix: "sec c s = sec b s \<or> sec c s = sec ?a s" if "s \<in> set STATE_TOP_LEVEL_SECTIONS" "s \<noteq> ''task''" for s
    using u(2) [OF that] sc [OF that(2)] by simp
  note tc = loaded_kept [OF v' c, THEN conjunct1]
  show "same_case b c" if quiet: "status_after_arbitration (ar_record r) (record_selection r b) = None"
  proof -
    note same = settled_fields [OF quiet]
    have secs: "sec c s = sec b s" if s: "s \<in> set legality_sections" for s
    proof -
      have out: "s \<notin> {''deliberation'', ''execution'', ''workflow'', ''services'', ''agent''}"
        using s unfolding legality_sections_def by (simp only: list.set, elim insertE) simp_all
      have "fld ?a s j = fld (normalize_state ?e b) s j" for j
        by (rule normalize_cong; rule same(1)) (simp_all, use out in simp)
      then have "fld ?a s j = fld b s j" for j using normal_state_fix [of ?e b] tb by simp
      then have "sec ?a s = sec b s" using section_eq ta tb legality_sections_top(1) [OF s] by blast
      with mix legality_sections_top(1) [OF s] show ?thesis by metis
    qed
    have d: "dget0 b s = dget0 c s" if "s \<in> set legality_sections" for s
      using section_of [of ?e b s] section_of [OF tc, of s] tb legality_sections_top(1) [OF that] secs [OF that] by metis
    have f: "fld b s j = fld c s j" if s: "(s, j) \<in> set legality_fields" for s j
    proof -
      note pf = legality_fields_plain [OF s]
      have "fld ?a s j = fld b s j" using fld_normalize_plain [OF pf(1)] same(2) [OF s] by simp
      with mix [OF pf(2,3)] show ?thesis by (auto simp: fld_def)
    qed
    have g: "get_dict x ''workflow'' = Inr (sec x ''workflow'')" if "well_typed e x" for e x
      using section_of [OF that legality_sections_top(2)] by (metis get_dict_dget0 py_or_def truthy.simps(7) to_dict.simps(1))
    show ?thesis using d f g tb tc by (auto simp: same_case_def)
  qed
  have st: "fld ?a ''execution'' ''action_status'' = PStr ''selected''" "fld ?a ''execution'' ''current_action'' = PDict a"
    by (simp_all add: fld_normalize_plain plain_field_def tidied_lists_def record_arbitration_def record_selection_def node_writes Let_def
        r(2) split: option.splits)
  have "\<not> py_eq (dget0 b ''execution'') (dget0 ?a ''execution'')"
  proof
    assume "py_eq (dget0 b ''execution'') (dget0 ?a ''execution'')"
    then have "agree b ?a ''execution''" using unchanged_agree [OF tb [THEN conjunct1] ta [THEN conjunct1] legality_sections_top(3)] by (simp add: blank_clock_def)
    then have "fld b ''execution'' ''action_status'' = fld ?a ''execution'' ''action_status''"
      using agree_string [OF tb [THEN conjunct1] ta [THEN conjunct1] _ arbitration_field_types(5)] by simp
    with st open_ show False by (simp add: text_of_field)
  qed
  then have "sec c ''execution'' = sec ?a ''execution''" using u(2) [OF legality_sections_top(3)] sc by simp
  then show "fld_dict c ''execution'' ''current_action'' = a" using st(2) by (simp add: fld_dict_def fld_def entries_def)
qed

lemma read_round_built:
  assumes "\<And>d m. read d = Inr m \<Longrightarrow> P m" "read_round read i xs = Inr ms"
  shows "list_all P ms"
proof -
  obtain ls where ls: "mapR (\<lambda>d. bindR (to_int (dget d ''round_id'' (PInt (- 1)))) (\<lambda>j.
      if j = i then bindR (read d) (\<lambda>m. Inr [m]) else Inr [])) (objects_in xs) = Inr ls" "ms = concat ls"
    using assms(2) by (auto simp: read_round_def)
  have "list_all P l" if "l \<in> set ls" for l
    using mapR_source [OF ls(1) that] assms(1) by (auto split: if_splits)
  then show ?thesis by (auto simp: ls(2) list_all_iff)
qed

lemma read_proposals_built:
  assumes "validator (ne_coerce w)" "read_proposals w st = Inr ps"
  shows "list_all (built (ne_env w)) ps"
  using assms(2) unfolding read_proposals_def
  by (rule read_round_built [rotated]) (auto simp: proposal_def built_def dest: message_class.construct_typed [OF proposal_class [OF assms(1)]])

text \<open>An empty target and no target are the same request.\<close>

lemma blank_target:
  assumes "check_legality st q = Inr v" "lq_target_capability q = Some []"
  shows "\<exists>v'. check_legality st (q\<lparr>lq_target_capability := None\<rparr>) = Inr v' \<and> lr_allowed v' = lr_allowed v"
proof -
  let ?q = "q\<lparr>lq_target_capability := None\<rparr>"
  have t: "str_or (lq_target_capability q) [] = str_or (lq_target_capability ?q) []" using assms(2) by (simp add: str_or_def)
  have s: "task_status st (lq_target_capability q) = ''none''" "task_status st (lq_target_capability ?q) = ''none''"
    using assms(2) by (simp_all add: task_status_def str_or_def)
  have "missing_dependencies st (lq_target_capability q) = missing_dependencies st (lq_target_capability ?q)"
    unfolding missing_dependencies_def dependency_status_def t ..
  then have parts: "status_refusals st q ps = status_refusals st ?q ps" "target_refusals st q = target_refusals st ?q"
      "refinement_refusals st q ps = refinement_refusals st ?q ps" "closing_refusals st q = closing_refusals st ?q"
      "legality_warnings st q = legality_warnings st ?q" for ps
    unfolding status_refusals_def target_refusals_def refinement_refusals_def closing_refusals_def legality_warnings_def t s
    by (simp_all add: Let_def on_def assms(2))
  show ?thesis using assms(1)
    by (cases "lq_action_family q \<in> set list_action_families") (auto simp: check_legality_def Let_def parts)
qed

lemma executor_request:
  assumes "request_of a = Inr q" "check_legality st q = Inr v"
    and "dget0 a ''target_capability'' = PNone \<or> is_str (dget0 a ''target_capability'')"
  shows "\<exists>q' v'. legality_request_of (get_str a ''action_family'') (some_text (get_str a ''target_capability'')) a = Inr q'
    \<and> check_legality st q' = Inr v' \<and> lr_allowed v' = lr_allowed v"
proof -
  consider "dget0 a ''target_capability'' = PNone" | "dget0 a ''target_capability'' = PStr []"
    | c where "dget0 a ''target_capability'' = PStr c" "c \<noteq> []"
    using assms(3) by (auto simp: is_str_def split: py.splits)
  then show ?thesis
  proof cases
    case 2
    then have "legality_request_of (get_str a ''action_family'') None a = Inr (q\<lparr>lq_target_capability := None\<rparr>)" "lq_target_capability q = Some []"
      using assms(1) by (auto simp: request_of_def legality_request_of_def text_option_def)
    with blank_target [OF assms(2)] 2 show ?thesis by (simp add: some_text_def get_str_def py_or_def)
  qed (use assms in \<open>auto simp: request_of_def text_option_def some_text_def get_str_def py_or_def\<close>)
qed


section \<open>A round to apply the theorems to\<close>

lemma blank_texts: "py_strip [] = []" "py_dedupe [] = []"
  by code_simp+

lemma strip_same: "map_of d k = Some (PStr s) \<Longrightarrow> py_strip s = s \<Longrightarrow> strip_text k d = d"
  by (simp add: strip_text_def get_str_def dget0_def dget_def py_or_def dset_same blank_texts)

lemma dedupe_same: "map_of d k = Some (PList []) \<Longrightarrow> dedupe_texts k d = d"
  by (simp add: dedupe_texts_def dget0_def dget_def items_def dset_same blank_texts)

lemma demo_fields:
  "map_of demo_proposal ''agent_name'' = Some (PStr ''planner'')" "map_of demo_proposal ''target_task_id'' = Some (PStr [])"
  "map_of demo_proposal ''evidence_refs'' = Some (PList [])" "map_of demo_proposal ''expected_benefit'' = Some (PStr [])"
  "map_of demo_proposal ''expected_risk'' = Some (PStr [])" "map_of demo_proposal ''rationale'' = Some (PStr [])"
  "map_of demo_proposal ''expected_observation'' = Some (PStr [])" "map_of demo_proposal ''success_criteria'' = Some (PList [])"
  "map_of demo_proposal ''fallback_if_failed'' = Some (PList [])" "py_strip ''planner'' = ''planner''"
  by (simp_all add: demo_proposal_def taken_def Proposal_def message_defs) code_simp?

lemma after_demo: "after (Proposal demo_env) demo_proposal = demo_proposal"
  by (simp add: Proposal_def message_defs strip_same demo_fields dedupe_same blank_texts)

lemma demo_proposal_read: "proposal strict_coerce demo_env demo_proposal = Inr demo_proposal"
proof -
  have "coerce_proposal demo_proposal = demo_proposal" by code_simp
  moreover have "validate_fields strict_coerce (members (Proposal demo_env)) demo_proposal = Inr demo_proposal"
    using demo_proposal_built by (intro strict.validate_fields_keep) (auto simp: built_def Proposal_def message_defs demo_proposal_def taken_def)
  moreover have "required (Proposal demo_env) = []" by (simp add: Proposal_def message_def)
  ultimately show ?thesis by (simp add: proposal_def construct_def after_demo)
qed

definition default_values :: "env \<Rightarrow> dict" where
  "default_values e = map (\<lambda>(s, fs). (s, PDict (map (\<lambda>(k, t, v). (k, v)) fs))) (MaterialTaskState e)"

definition demo_round :: dict where
  "demo_round =
     set_fld ''workflow'' ''run_status'' (PStr ''running'')
      (set_fld ''workflow'' ''retry_budget'' (PInt 3)
      (set_fld ''mission'' ''runtime_constraints'' (PDict [(''full_autonomy'', PBool True)])
      (set_fld ''execution'' ''latest_execution_observation'' (PDict [(''status'', PStr ''failed'')])
      (set_fld ''deliberation'' ''proposals'' (PList [PDict demo_proposal])
      (set_fld ''task_board'' ''completed_tasks'' (PList (map PDict (completed_tasks (mark_task_completed build_initial_task_board ''prepare''))))
      (set_fld ''task_board'' ''pending_tasks'' (PList (map PDict (pending_tasks (mark_task_completed build_initial_task_board ''prepare''))))
        (default_values demo_env)))))))"

lemma demo_round_kept: "well_typed demo_env demo_round \<and> normal_state demo_env demo_round"
proof
  have "list_all2 section_typed (MaterialTaskState demo_env) demo_round" by code_simp
  then show "well_typed demo_env demo_round" by (simp add: well_typed_def)
  show "normal_state demo_env demo_round" by code_simp
qed

lemma demo_round_case:
  "case bindR (mapR canonicalize_proposal [demo_proposal]) (\<lambda>cs. mapR (judge_proposal demo_round) (map fst cs)) of
      Inr js \<Rightarrow> survivors js \<noteq> [] | Inl _ \<Rightarrow> False"
  "case query_execution_status demo_round of Inr status \<Rightarrow> \<not> budget_exhausted demo_round status | Inl _ \<Rightarrow> False"
  by code_simp+

lemma demo_round_loads: "load demo_node demo_round = Inr demo_round"
  using validator.from_dict_keep [OF strict.validator_axioms, of demo_env demo_round demo_env] demo_round_kept normal_state_fix
  by (simp add: load_def demo_node_def)

definition demo_council :: council where
  "demo_council =
     \<lparr>co_planner = (\<lambda>st i. Inr []), co_recovery = (\<lambda>st i. Inr ([], [])), co_refinement = (\<lambda>st i. Inr []), co_reviewers = [],
      co_orchestrator = (\<lambda>request. Inr [])\<rparr>"

lemma demo_round_reads:
  "read_proposals demo_node demo_round = Inr [demo_proposal]" "\<not> stuck_on_relaxation demo_round"
  "fld_text demo_round ''execution'' ''action_status'' \<noteq> ''selected''"
  "fld_list demo_round ''deliberation'' ''critiques'' = []" "fld_list demo_round ''deliberation'' ''preferences'' = []"
proof -
  have i: "current_round demo_round = 0" "objects_in (fld_list demo_round ''deliberation'' ''proposals'') = [demo_proposal]"
    "to_int (dget demo_proposal ''round_id'' (PInt (- 1))) = Inr 0"
    by code_simp+
  then show "read_proposals demo_node demo_round = Inr [demo_proposal]"
    by (simp add: read_proposals_def read_round_def demo_node_def demo_proposal_read)
  show "\<not> stuck_on_relaxation demo_round" "fld_text demo_round ''execution'' ''action_status'' \<noteq> ''selected''"
    "fld_list demo_round ''deliberation'' ''critiques'' = []" "fld_list demo_round ''deliberation'' ''preferences'' = []"
    by code_simp+
qed

lemma demo_round_settled:
  obtains r a where "settled_arbitration demo_node demo_council demo_round = Inr r" "ar_action r = Some a"
    "arbitrate strict_coerce demo_env (co_orchestrator demo_council) demo_round [demo_proposal] [] [] (current_round demo_round) = Inr r"
proof -
  obtain cs js where d: "mapR canonicalize_proposal [demo_proposal] = Inr cs" "mapR (judge_proposal demo_round) (map fst cs) = Inr js"
    "survivors js \<noteq> []"
    using demo_round_case(1) by (auto split: sum.splits)
  obtain status where st: "query_execution_status demo_round = Inr status" "\<not> budget_exhausted demo_round status"
    using demo_round_case(2) by (auto split: sum.splits)
  have p: "py_strip (proposal_id demo_proposal) = proposal_id demo_proposal \<and> proposal_id demo_proposal \<noteq> []
      \<and> map_of (sub_dict demo_proposal ''parameters'') ''confidence'' = None"
    by code_simp
  have "co_orchestrator demo_council request = Inr []" for request by (simp add: demo_council_def)
  with silent_round [OF strict.validator_axioms _ d(1) st d(2,3), of demo_env "co_orchestrator demo_council" "[]" "[]" "current_round demo_round"]
    demo_proposal_built p
  obtain r a where r: "arbitrate strict_coerce demo_env (co_orchestrator demo_council) demo_round [demo_proposal] [] [] (current_round demo_round) = Inr r"
    "ar_action r = Some a" by auto
  then have "settled_arbitration demo_node demo_council demo_round = Inr r"
    using demo_round_reads by (simp add: settled_arbitration_def Let_def demo_node_def read_round_def objects_in_def)
  with that r show thesis by blast
qed

section \<open>The executor accepts what was selected\<close>


lemma finalize_total:
  assumes "validator (ne_coerce w)" "load w p = Inr b" "well_typed e st"
  shows "\<exists>patch. finalize_node_output w b st = Inr patch"
proof -
  have a: "load w st = Inr (normalize_state (ne_env w) st)" using validator.from_dict_keep [OF assms(1,3)] by (simp add: load_def)
  then show ?thesis
    using validator.from_dict_again [OF assms(1), of "ne_env w"] assms(2)
    by (auto simp: finalize_node_output_def build_state_patch_def load_def)
qed

lemma no_wait_in_full_autonomy:
  assumes "check_legality st q = Inr v" "lr_allowed v"
    and "fld_dict st ''mission'' ''runtime_constraints'' = [(''full_autonomy'', PBool True)]"
  shows "\<not> lq_wait_for_event q"
proof -
  obtain params where "status_refusals st q params = []" using legality_allowed [OF assms(1,2)] by metis
  then show ?thesis by (auto simp: status_refusals_def Let_def assms(3) dget_def on_def split: if_splits)
qed


section \<open>The test for termination always decides\<close>

lemma diagnostic_typed: "well_typed e x \<Longrightarrow> well_typed e (append_framework_diagnostic e code detail x)"
  unfolding append_framework_diagnostic_def by (rule typed_extend) (auto simp: dict_of_def ftype_of_def MaterialTaskState_def section_defs)

lemma notes_typed:
  "well_typed e x \<Longrightarrow> well_typed e (note_ready e status x)"
  "well_typed e x \<Longrightarrow> well_typed e (note_missing_summary e status x)"
  by (simp_all add: note_ready_def note_missing_summary_def diagnostic_typed)

lemma termination_total:
  assumes "validator (ne_coerce w)" "kept st"
  shows "\<exists>patch g. termination_node w st = Inr (patch, g)"
proof -
  let ?e = "ne_env w"
  obtain b where b: "load w st = Inr b" using kept_loads [OF assms] by blast
  let ?st = "at_node ''check_termination'' b"
  obtain status reason where d: "derive_run_status ?st = (status, reason)" by fastforce
  let ?s1 = "set_fld ''workflow'' ''wait_reason'' (opt_str reason) (set_status status ?st)"
  have types: "ftype_of ?e ''workflow'' ''wait_reason'' = Some TOptStr"
    by (simp_all add: ftype_of_def MaterialTaskState_def section_defs)
  have "well_typed ?e ?s1"
    unfolding set_status_def at_node_def
    by (intro well_typed_set_fld [OF _ types] well_typed_set_fld [OF _ graph_field_types(1)] well_typed_set_fld [OF _ graph_field_types(2)])
      (use loaded_kept [OF assms(1) b] in \<open>auto simp: is_str_def opt_str_def split: option.splits\<close>)
  then have "well_typed ?e (note_ready ?e status (note_missing_summary ?e status ?s1))" by (intro notes_typed)
  from finalize_total [OF assms(1) b this] obtain patch where
    "finalize_node_output w b (note_ready ?e status (note_missing_summary ?e status ?s1)) = Inr patch" by blast
  then show ?thesis by (simp add: termination_node_def b d Let_def)
qed

text \<open>C8: The test for termination never fails on the values of a run, and where it sends the run depends only on
  the values it hands on: to the final report when the end was requested or the derived status is final,
  to the end of the invocation, without a report, when the run waits for an event or a human, and
  otherwise into the next round.\<close>

theorem termination_routing:
  assumes "validator (ne_coerce w)" "kept st"
  shows "\<exists>patch. let values = dmerge st patch; status = fld_text values ''workflow'' ''run_status'';
             requested = (fld values ''services'' ''termination_requested'' = PBool True)
         in termination_node w st = Inr (patch, if requested \<or> status \<in> set TERMINAL_RUN_STATUSES then Some ''final_report''
              else if status \<in> {''waiting_external'', ''needs_human''} then None else Some ''observe_state'')"
proof -
  obtain patch g where t: "termination_node w st = Inr (patch, g)" using termination_total [OF assms] by blast
  from termination_sound(2) [OF assms t] t show ?thesis by (auto simp: after_termination_test_def Let_def)
qed

theorem termination_routing_witness:
  "\<exists>patch. termination_node demo_node demo_round = Inr (patch, Some ''observe_state'')"
proof -
  have v: "validator (ne_coerce demo_node)" using strict.validator_axioms by (simp add: demo_node_def)
  have k: "kept demo_round" using demo_round_kept by (auto simp: kept_def)
  from termination_routing [OF v k] obtain patch g where t: "termination_node demo_node demo_round = Inr (patch, g)"
    by (auto simp: Let_def)
  have d: "derive_run_status (at_node ''check_termination'' demo_round) = (''needs_recovery'', None)"
    "fld demo_round ''services'' ''termination_requested'' = PBool False" by code_simp+
  have "g = Some ''observe_state''"
    using t
  proof (rule termination_step)
    fix b s2 status reason
    assume a: "load demo_node demo_round = Inr b" "derive_run_status (at_node ''check_termination'' b) = (status, reason)"
      "s2 = note_ready (ne_env demo_node) status (note_missing_summary (ne_env demo_node) status
       (set_fld ''workflow'' ''wait_reason'' (opt_str reason) (set_status status (at_node ''check_termination'' b))))"
      "g = after_termination_test (truthy (fld s2 ''services'' ''termination_requested'')) status"
    then have "status = ''needs_recovery''" "fld s2 ''services'' ''termination_requested'' = PBool False"
      using d termination_writes(3) [OF a(3)] by (simp_all add: demo_round_loads)
    with a(4) show "g = Some ''observe_state''" by (simp add: after_termination_test_def TERMINAL_RUN_STATUSES_def)
  qed
  with t show ?thesis by blast
qed

section \<open>Refusals in spite of the arbitration\<close>

text \<open>The escalation that a failed relaxation forces is not judged by the arbitration. The executor refuses it when
  a validation has left a confidence of three quarters or more: the evidence for an escalation is
  missing, and a refused action fails the run.\<close>

theorem forced_escalation_refused:
  assumes "fld st ''diagnostics'' ''confidence_score'' = PFloat (Fin c)" "3 / 4 \<le> c"
    and "lq_action_family q = ''escalate_human''" "check_legality st q = Inr v"
  shows "\<not> lr_allowed v"
proof
  assume allowed: "lr_allowed v"
  obtain spec evidence where spec: "get_action_spec (lq_action_family q) = Inr spec"
    "required_evidence_status st (as_required_evidence spec) = Inr evidence" "\<forall>p\<in>set evidence. snd p"
    by (rule legality_allowed [OF assms(4) allowed])
  have "''insufficient_automation_confidence'' \<in> set (as_required_evidence spec)"
    using spec(1) by (simp add: assms(3) get_action_spec_def ACTION_REGISTRY_def action_spec_def) auto
  from evidence_shown [OF spec(2,3) this] have "evidence_holds st ''insufficient_automation_confidence'' = Inr True" .
  moreover have "py_or (PFloat (Fin c)) (PFloat (Fin 0)) = PFloat (Fin c)" using assms(2) by (simp add: py_or_def)
  ultimately show False using assms(1,2) by (simp add: evidence_holds_def Let_def)
qed

theorem forced_escalation_refused_witness:
  "\<exists>v. check_legality [(''diagnostics'', PDict [(''confidence_score'', PFloat (Fin (9 / 10)))])]
      ((run_request [])\<lparr>lq_action_family := ''escalate_human'', lq_target_capability := None\<rparr>) = Inr v \<and> \<not> lr_allowed v"
proof -
  let ?st = "[(''diagnostics'', PDict [(''confidence_score'', PFloat (Fin (9 / 10)))])]"
  let ?q = "(run_request [])\<lparr>lq_action_family := ''escalate_human'', lq_target_capability := None\<rparr>"
  have "case check_legality ?st ?q of Inr _ \<Rightarrow> True | Inl _ \<Rightarrow> False" by code_simp
  then obtain v where v: "check_legality ?st ?q = Inr v" by (auto split: sum.splits)
  have c: "fld ?st ''diagnostics'' ''confidence_score'' = PFloat (Fin (9 / 10))" by (simp add: fld_def sec_def dget0_def dget_def)
  from forced_escalation_refused [OF c _ _ v] v show ?thesis by simp
qed

text \<open>An action that asks to wait for an event puts the run into the waiting status before it has run, and then, no
  event having come, the executor refuses it as waiting (an abort or an escalation aside).\<close>

theorem waiting_selection_refused:
  assumes "fld_text st ''workflow'' ''run_status'' = ''waiting_external''" "fld_list st ''execution'' ''pending_events'' = []"
    and "lq_action_family q \<notin> {''abort_material'', ''escalate_human''}" "check_legality st q = Inr v"
  shows "\<not> lr_allowed v"
proof
  assume allowed: "lr_allowed v"
  obtain params where "status_refusals st q params = []" by (rule legality_allowed [OF assms(4) allowed])
  then show False using assms(1-3) by (simp add: status_refusals_def Let_def waiting_without_event_def run_status_of_def on_def)
qed

theorem waiting_selection_refused_witness:
  "\<exists>v. check_legality [(''workflow'', PDict [(''run_status'', PStr ''waiting_external'')])]
      ((run_request [])\<lparr>lq_action_family := ''repair_execution_context'', lq_target_capability := None, lq_wait_for_event := True\<rparr>) = Inr v
    \<and> \<not> lr_allowed v"
proof -
  let ?st = "[(''workflow'', PDict [(''run_status'', PStr ''waiting_external'')])]"
  let ?q = "(run_request [])\<lparr>lq_action_family := ''repair_execution_context'', lq_target_capability := None, lq_wait_for_event := True\<rparr>"
  have "case check_legality ?st ?q of Inr _ \<Rightarrow> True | Inl _ \<Rightarrow> False" by code_simp
  then obtain v where v: "check_legality ?st ?q = Inr v" by (auto split: sum.splits)
  have s: "fld_text ?st ''workflow'' ''run_status'' = ''waiting_external''" "fld_list ?st ''execution'' ''pending_events'' = []" by code_simp+
  from waiting_selection_refused [OF s _ v] v show ?thesis by simp
qed

section \<open>A run of the graph\<close>

definition demo_observer :: observer where
  "demo_observer =
     \<lparr>ov_cwd = ''/w'', ov_hitl_policy = ''never'', ov_db_uri = PNone, ov_deprecations = [], ov_review_timeout = 60, ov_tools = [],
      ov_registry = [], ov_skills = (\<lambda>_. Inr [])\<rparr>"

definition demo_world :: "table world" where
  "demo_world =
     \<lparr>wd_node = demo_node, wd_council = demo_council, wd_observer = demo_observer, wd_store = table_store, wd_reporter = (\<lambda>_. Inr [])\<rparr>"

definition demo_start :: "table graph_run" where
  "demo_start = \<lparr>gr_at = ''__start__'', gr_values = demo_round, gr_files = [], gr_memory = []\<rparr>"

text \<open>C3: Along every run of the graph, whatever the language models, the tools, the memory and the clock do at
  each step, the values stay a loaded state (so no node fails to load them); the executor is entered only when
  the arbitration marked its selection for execution; the final report only when the end was requested or
  the status is final; and a run that has ended waits for an event or a human, or has written its final
  report and is in none of the open statuses.\<close>

theorem run_invariant:
  assumes "validator coerce" "runs_to coerce r r'" "gr_at r = ''__start__''" "kept (gr_values r)"
  shows "kept (gr_values r')
    \<and> (gr_at r' = ''execute_selected_action'' \<longrightarrow> fld (gr_values r') ''services'' ''selected_action_requires_execution'' = PBool True)
    \<and> (gr_at r' = ''final_report'' \<longrightarrow> fld (gr_values r') ''services'' ''termination_requested'' = PBool True
         \<or> fld_text (gr_values r') ''workflow'' ''run_status'' \<in> set TERMINAL_RUN_STATUSES)
    \<and> (gr_at r' = ''__end__'' \<longrightarrow> run_ends_well (gr_values r'))"
proof -
  from assms(2-4) have "sound_run r'"
  proof (induction rule: runs_to.induct)
    case (begins r)
    then show ?case by (simp add: sound_run_def)
  next
    case (goes_on r r' w r'')
    with assms(1) show ?case by (intro sound_run_step [OF goes_on(3)]) simp_all
  qed
  then show ?thesis by (simp add: sound_run_def)
qed

theorem run_invariant_witness:
  "\<exists>r. runs_to strict_coerce demo_start r \<and> gr_at r = ''observe_state'' \<and> kept (gr_values r)"
proof -
  have c: "ne_coerce (wd_node demo_world) = strict_coerce" by (simp add: demo_world_def demo_node_def)
  have s: "gr_at demo_start = ''__start__''" "gr_values demo_start = demo_round" by (simp_all add: demo_start_def)
  have r: "runs_to strict_coerce demo_start (demo_start\<lparr>gr_at := next_node ''__start__''\<rparr>)"
    using runs_to.goes_on [OF runs_to.begins c graph_step.start [OF s(1)]] .
  have k: "kept (gr_values demo_start)" using demo_round_kept by (auto simp: kept_def s)
  from run_invariant [OF strict.validator_axioms r s(1) k] r show ?thesis by auto
qed

end
