(* ===== verification/Band_Edges.thy ===== *)
theory Band_Edges
  imports Runtime_Nodes
begin

text \<open>
  Reading what VASP leaves (mobility_agent/tools/physics_common.py): numbers in Fortran notation, the
  total energy, the Fermi level, the vacuum level and the eigenvalues, the band edges by occupation or by
  Fermi level and the edge at a fixed k-point; and the band stage (mobility_agent/tools/band_tool.py).

  The readers of pymatgen (Oszicar, Vasprun, Locpot, Incar) are parameters, the record \<open>vasp_readers\<close>.
  A numpy array of the eigenvalues is \<open>eigenval\<close>: for each k-point and each band the energies and the
  occupations of the spin channels. A link to a CHGCAR is stood for by a copy.
\<close>

section \<open>Numbers in Fortran notation\<close>

text \<open>\<open>\d+\.\d*|\.\d+|\d+\<close>\<close>

definition plain_decimal :: "string \<Rightarrow> bool" where
  "plain_decimal m \<longleftrightarrow>
     (case dropWhile is_digit m of
        [] \<Rightarrow> m \<noteq> []
      | c # ds \<Rightarrow> c = CHR ''.'' \<and> list_all is_digit ds \<and> (takeWhile is_digit m \<noteq> [] \<or> ds \<noteq> []))"

definition bare_exponent :: "string \<Rightarrow> bool" where
  "bare_exponent e \<longleftrightarrow> (case e of [] \<Rightarrow> False | c # ds \<Rightarrow> c \<in> set ''+-'' \<and> list_all is_digit ds \<and> length ds \<in> {2, 3})"

text \<open>Fortran leaves out the letter of an exponent of three digits: \<open>0.123-101\<close>.\<close>

definition spell_exponent :: "string \<Rightarrow> string" where
  "spell_exponent s =
     (let signed = (s \<noteq> [] \<and> hd s \<in> set ''+-''); sign = (if signed then [hd s] else []); r = (if signed then tl s else s);
          m = takeWhile (\<lambda>c. c \<notin> set ''+-'') r; e = dropWhile (\<lambda>c. c \<notin> set ''+-'') r
      in if plain_decimal m \<and> bare_exponent e then sign @ m @ ''E'' @ e else s)"

definition coerce_fortran_float :: "string \<Rightarrow> flt res" where
  "coerce_fortran_float token =
     (let s = py_strip token; t = map (\<lambda>c. if c \<in> set ''Dd'' then CHR ''E'' else c) s
      in if s = [] then Inl (ValueError ''empty float token'')
         else to_float (PStr (if CHR ''E'' \<in> set t \<or> CHR ''e'' \<in> set t then t else spell_exponent t)))"

section \<open>Energies\<close>

text \<open>The first match of a regular expression that begins with the fixed text \<open>p\<close>; \<open>k\<close> reads what follows.\<close>

fun search_after :: "string \<Rightarrow> (string \<Rightarrow> string option) \<Rightarrow> string \<Rightarrow> string option" where
  "search_after p k [] = (if p = [] then k [] else None)"
| "search_after p k (c # s) =
     (case (if startswith (c # s) p then k (drop (length p) (c # s)) else None) of
        Some t \<Rightarrow> Some t | None \<Rightarrow> search_after p k s)"

definition next_token :: "string \<Rightarrow> string option" where
  "next_token s = (let t = takeWhile (\<lambda>c. \<not> is_space c) (dropWhile is_space s) in if t = [] then None else Some t)"

definition token_after :: "char \<Rightarrow> string \<Rightarrow> string option" where
  "token_after sep s = (case dropWhile is_space s of [] \<Rightarrow> None | c # r \<Rightarrow> if c = sep then next_token r else None)"

definition or_else :: "'a res \<Rightarrow> 'a res \<Rightarrow> 'a res" where
  "or_else r d = (case r of Inl _ \<Rightarrow> d | Inr x \<Rightarrow> Inr x)"

definition last_token :: "(string \<Rightarrow> string option) \<Rightarrow> string list \<Rightarrow> flt res" where
  "last_token read ls =
     (case rev (List.map_filter read ls) of [] \<Rightarrow> Inl (ValueError ''no token'') | t # _ \<Rightarrow> coerce_fortran_float t)"

definition oszicar_energy :: "string \<Rightarrow> flt res" where
  "oszicar_energy t = last_token (search_after ''F='' next_token) (splitlines_from [] t)"

definition toten_token :: "string \<Rightarrow> string option" where
  "toten_token line =
     (if \<not> contains line ''free  energy   TOTEN'' then None
      else let parts = split_words line in
        case index_of parts ''='' of
          Some i \<Rightarrow> if i + 1 < length parts then Some (parts ! (i + 1)) else None
        | None \<Rightarrow> search_after ''TOTEN'' (token_after (CHR ''='')) line)"

definition fermi_token :: "string \<Rightarrow> string option" where
  "fermi_token = search_after ''E-fermi'' (token_after (CHR '':''))"

definition read_text :: "fs \<Rightarrow> string \<Rightarrow> string res" where
  "read_text f p = (case read_file f p of None \<Rightarrow> Inl (OSError p) | Some t \<Rightarrow> Inr t)"

record vasp_readers =
  vr_oszicar_energy :: "string \<Rightarrow> flt res"
  vr_vasprun_energy :: "string \<Rightarrow> flt res"
  vr_vasprun_fermi :: "string \<Rightarrow> flt res"
  vr_locpot_average :: "string \<Rightarrow> flt list res"
  vr_incar :: "string \<Rightarrow> dict option"

definition read_final_total_energy :: "vasp_readers \<Rightarrow> fs \<Rightarrow> string \<Rightarrow> flt res" where
  "read_final_total_energy vr f work_dir =
     (let oszicar = read_text f (path_join work_dir ''OSZICAR''); outcar = read_text f (path_join work_dir ''OUTCAR'');
          vasprun = path_join work_dir ''vasprun.xml''
      in or_else (bindR oszicar (vr_oszicar_energy vr))
        (or_else (bindR oszicar oszicar_energy)
        (or_else (bindR outcar (\<lambda>t. last_token toten_token (text_lines t)))
           (if path_exists f vasprun then bindR (read_text f vasprun) (vr_vasprun_energy vr)
            else Inl (FileNotFoundError (''No OSZICAR/OUTCAR/vasprun.xml found under: '' @ work_dir))))))"

definition doscar_fermi :: "string \<Rightarrow> flt res" where
  "doscar_fermi t =
     (let ls = text_lines t; parts = split_words (ls ! 5) in
      if length ls < 6 then Inl (RuntimeError ''StopIteration'')
      else if 4 \<le> length parts then coerce_fortran_float (parts ! 3) else Inl (ValueError ''no token''))"

definition read_fermi_energy :: "vasp_readers \<Rightarrow> fs \<Rightarrow> string \<Rightarrow> flt res" where
  "read_fermi_energy vr f work_dir =
     or_else (bindR (read_text f (path_join work_dir ''OUTCAR'')) (\<lambda>t. last_token fermi_token (text_lines t)))
     (or_else (bindR (read_text f (path_join work_dir ''vasprun.xml'')) (vr_vasprun_fermi vr))
     (or_else (bindR (read_text f (path_join work_dir ''DOSCAR'')) doscar_fermi)
        (Inl (FileNotFoundError (''No OUTCAR/vasprun.xml/DOSCAR Fermi energy found under: '' @ work_dir)))))"

text \<open>\<open>np.max\<close> and \<open>np.min\<close> hand a NaN on.\<close>

definition np_max :: "flt list \<Rightarrow> flt" where
  "np_max xs = (if NaN \<in> set xs then NaN else max_list xs NegInf)"

definition np_min :: "flt list \<Rightarrow> flt" where
  "np_min xs = (if NaN \<in> set xs then NaN else min_list xs PosInf)"

text \<open>The vacuum level is the mean of the upper tenth of the averaged potential.\<close>

definition read_vacuum_level :: "vasp_readers \<Rightarrow> fs \<Rightarrow> string \<Rightarrow> flt res" where
  "read_vacuum_level vr f path =
     bindR (bindR (read_text f path) (vr_locpot_average vr)) (\<lambda>avg.
       let n = length avg in
       if n = 0 then Inl (ValueError ''zero-size array'')
       else if n < 10 then Inr (np_max avg)
       else Inr (flt_mean (drop (n - max 1 (n div 10)) (sort avg))))"

section \<open>Eigenvalues\<close>

record eigenval =
  ev_spins :: nat
  ev_kpoints :: "flt list list"
  ev_bands :: "(flt list \<times> flt list) list list"

definition word_at :: "string list \<Rightarrow> nat \<Rightarrow> string res" where
  "word_at ws i = (if i < length ws then Inr (ws ! i) else Inl (IndexError ''list index out of range''))"

definition float_at :: "string list \<Rightarrow> nat \<Rightarrow> flt res" where
  "float_at ws i = bindR (word_at ws i) (\<lambda>w. to_float (PStr w))"

definition int_at :: "string list \<Rightarrow> nat \<Rightarrow> int res" where
  "int_at ws i = bindR (word_at ws i) (\<lambda>w. to_int (PStr w))"

text \<open>The next line that is not blank, and the lines after it.\<close>

definition next_line :: "string list list \<Rightarrow> (string list \<times> string list list) res" where
  "next_line ls = (case dropWhile (\<lambda>ws. ws = []) ls of [] \<Rightarrow> Inl (IndexError ''list index out of range'') | ws # r \<Rightarrow> Inr (ws, r))"

definition kpoint_line :: "string list \<Rightarrow> bool" where
  "kpoint_line ws \<longleftrightarrow> 4 \<le> length ws \<and> list_all (\<lambda>w. parse_float w \<noteq> None) (take 4 ws)"

text \<open>Five columns in the first band line mean two spin channels.\<close>

definition is_spin_polarized :: "string list list \<Rightarrow> bool" where
  "is_spin_polarized ls =
     (case dropWhile (\<lambda>ws. \<not> kpoint_line ws) ls of
        [] \<Rightarrow> False
      | _ # r \<Rightarrow> (case dropWhile (\<lambda>ws. ws = []) r of [] \<Rightarrow> False | ws # _ \<Rightarrow> 5 \<le> length ws))"

definition kpoint_coordinates :: "string list \<Rightarrow> flt list res" where
  "kpoint_coordinates ws =
     bindR (mapR (\<lambda>w. to_float (PStr w)) (take 3 ws)) (\<lambda>xs.
       case xs of [x] \<Rightarrow> Inr [x, x, x] | [x, y, z] \<Rightarrow> Inr xs | _ \<Rightarrow> Inl (ValueError ''could not broadcast''))"

definition band_line :: "bool \<Rightarrow> string list \<Rightarrow> (flt list \<times> flt list) res" where
  "band_line spin ws =
     (if spin then bindR (mapR (float_at ws) [1, 2, 3, 4]) (\<lambda>xs. Inr (take 2 xs, drop 2 xs))
      else bindR (mapR (float_at ws) [1, 2]) (\<lambda>xs. Inr (take 1 xs, drop 1 xs)))"

fun read_bands :: "bool \<Rightarrow> nat \<Rightarrow> string list list \<Rightarrow> ((flt list \<times> flt list) list \<times> string list list) res" where
  "read_bands spin 0 ls = Inr ([], ls)"
| "read_bands spin (Suc n) ls =
     bindR (next_line ls) (\<lambda>(ws, r).
     bindR (band_line spin ws) (\<lambda>b.
     bindR (read_bands spin n r) (\<lambda>(bs, r'). Inr (b # bs, r'))))"

fun read_kpoints :: "bool \<Rightarrow> nat \<Rightarrow> nat \<Rightarrow> string list list \<Rightarrow> (flt list \<times> (flt list \<times> flt list) list) list res" where
  "read_kpoints spin nbands 0 ls = Inr []"
| "read_kpoints spin nbands (Suc n) ls =
     bindR (next_line ls) (\<lambda>(ws, r).
     bindR (kpoint_coordinates ws) (\<lambda>k.
     bindR (read_bands spin nbands r) (\<lambda>(bs, r').
     bindR (read_kpoints spin nbands n r') (\<lambda>ks. Inr ((k, bs) # ks)))))"

definition read_eigenval :: "fs \<Rightarrow> string \<Rightarrow> eigenval res" where
  "read_eigenval f path =
     bindR (case read_file f path of None \<Rightarrow> Inl (FileNotFoundError path) | Some t \<Rightarrow> Inr (map split_words (text_lines t))) (\<lambda>ls.
     if length ls < 7 then Inl (ValueError (''Malformed EIGENVAL: too few lines in '' @ path))
     else
       bindR (int_at (ls ! 5) 1) (\<lambda>nkpts.
       bindR (int_at (ls ! 5) 2) (\<lambda>nbands.
       if nkpts < 0 \<or> nbands < 0 then Inl (ValueError ''negative dimensions are not allowed'')
       else
         let spin = is_spin_polarized (drop 6 ls)
         in bindR (read_kpoints spin (nat nbands) (nat nkpts) (drop 7 ls)) (\<lambda>ks.
              Inr \<lparr>ev_spins = (if spin then 2 else 1), ev_kpoints = map fst ks, ev_bands = map snd ks\<rparr>))))"

section \<open>Band edges\<close>

text \<open>The states in the order of numpy's indices: spin, k-point, band.\<close>

type_synonym kstate = "nat \<times> nat \<times> nat"

definition kstates :: "eigenval \<Rightarrow> kstate list" where
  "kstates ev = [(s, k, b). s \<leftarrow> [0..<ev_spins ev], k \<leftarrow> [0..<length (ev_bands ev)], b \<leftarrow> [0..<length (ev_bands ev ! k)]]"

definition energy :: "eigenval \<Rightarrow> kstate \<Rightarrow> flt" where
  "energy ev = (\<lambda>(s, k, b). fst (ev_bands ev ! k ! b) ! s)"

definition occupation :: "eigenval \<Rightarrow> kstate \<Rightarrow> flt" where
  "occupation ev = (\<lambda>(s, k, b). snd (ev_bands ev ! k ! b) ! s)"

text \<open>\<open>np.argmax\<close> and \<open>np.argmin\<close>: the first NaN, or the first best value.\<close>

fun arg_best :: "(flt \<Rightarrow> flt \<Rightarrow> bool) \<Rightarrow> ('a \<Rightarrow> flt) \<Rightarrow> 'a \<Rightarrow> 'a list \<Rightarrow> 'a" where
  "arg_best better val x [] = x"
| "arg_best better val x (y # ys) =
     (if val x = NaN then x
      else arg_best better val (if val y = NaN \<or> better (val y) (val x) then y else x) ys)"

definition argmax :: "('a \<Rightarrow> flt) \<Rightarrow> 'a list \<Rightarrow> 'a" where
  "argmax val xs = arg_best (\<lambda>a b. flt_lt b a) val (hd xs) (tl xs)"

definition argmin :: "('a \<Rightarrow> flt) \<Rightarrow> 'a list \<Rightarrow> 'a" where
  "argmin val xs = arg_best flt_lt val (hd xs) (tl xs)"

definition valence_top :: "eigenval \<Rightarrow> (kstate \<Rightarrow> bool) \<Rightarrow> kstate" where
  "valence_top ev occupied = argmax (\<lambda>t. if occupied t then energy ev t else NegInf) (kstates ev)"

definition conduction_bottom :: "eigenval \<Rightarrow> (kstate \<Rightarrow> bool) \<Rightarrow> kstate" where
  "conduction_bottom ev unoccupied = argmin (\<lambda>t. if unoccupied t then energy ev t else PosInf) (kstates ev)"

record band_edges =
  be_vbm :: flt
  be_vbm_kpoint :: "flt list"
  be_vbm_band :: nat
  be_vbm_spin :: nat
  be_cbm :: flt
  be_cbm_kpoint :: "flt list"
  be_cbm_band :: nat
  be_cbm_spin :: nat

definition edges_between :: "eigenval \<Rightarrow> (kstate \<Rightarrow> bool) \<Rightarrow> (kstate \<Rightarrow> bool) \<Rightarrow> band_edges" where
  "edges_between ev occupied unoccupied =
     (let v = valence_top ev occupied; c = conduction_bottom ev unoccupied in
      \<lparr>be_vbm = (if occupied v then energy ev v else NegInf), be_vbm_kpoint = ev_kpoints ev ! fst (snd v), be_vbm_band = snd (snd v), be_vbm_spin = fst v,
       be_cbm = (if unoccupied c then energy ev c else PosInf), be_cbm_kpoint = ev_kpoints ev ! fst (snd c), be_cbm_band = snd (snd c), be_cbm_spin = fst c\<rparr>)"

definition band_edges_by :: "eigenval \<Rightarrow> (kstate \<Rightarrow> bool) \<Rightarrow> (kstate \<Rightarrow> bool) \<Rightarrow> band_edges res" where
  "band_edges_by ev occupied unoccupied =
     (if \<not> list_ex occupied (kstates ev) then Inl (ValueError ''no occupied state'')
      else if \<not> list_ex unoccupied (kstates ev) then Inl (ValueError ''no unoccupied state'')
      else Inr (edges_between ev occupied unoccupied))"

definition occupied_state :: "eigenval \<Rightarrow> kstate \<Rightarrow> bool" where
  "occupied_state ev t \<longleftrightarrow> flt_le (Fin (1 / 2)) (occupation ev t)"

definition unoccupied_state :: "eigenval \<Rightarrow> kstate \<Rightarrow> bool" where
  "unoccupied_state ev t \<longleftrightarrow> flt_le (occupation ev t) (Fin (1 / 2))"

definition find_band_edges_by_occupancy :: "eigenval \<Rightarrow> band_edges res" where
  "find_band_edges_by_occupancy ev = band_edges_by ev (occupied_state ev) (unoccupied_state ev)"

text \<open>A mask that selects nothing is widened once by the tolerance.\<close>

definition widened :: "eigenval \<Rightarrow> (kstate \<Rightarrow> bool) \<Rightarrow> (kstate \<Rightarrow> bool) \<Rightarrow> kstate \<Rightarrow> bool" where
  "widened ev narrow wide = (if list_ex narrow (kstates ev) then narrow else wide)"

definition find_band_edges_by_fermi :: "eigenval \<Rightarrow> flt \<Rightarrow> flt \<Rightarrow> band_edges res" where
  "find_band_edges_by_fermi ev ef tolerance =
     (let tol = flt_abs tolerance; low = flt_sub ef tol; high = flt_add ef tol
      in band_edges_by ev
           (widened ev (\<lambda>t. flt_le (energy ev t) low) (\<lambda>t. flt_le (energy ev t) high))
           (widened ev (\<lambda>t. flt_le high (energy ev t)) (\<lambda>t. flt_le low (energy ev t))))"

section \<open>The edge at a fixed k-point\<close>

definition distance2 :: "flt list \<Rightarrow> flt list \<Rightarrow> flt" where
  "distance2 u v = flt_sum (map (\<lambda>(a, b). flt_square (flt_sub a b)) (zip u v))"

definition nearest_kpoint :: "eigenval \<Rightarrow> flt list \<Rightarrow> nat res" where
  "nearest_kpoint ev target =
     (if length target \<noteq> 3 then Inl (ValueError ''cannot reshape array'')
      else if ev_kpoints ev = [] then Inl (ValueError ''attempt to get argmin of an empty sequence'')
      else Inr (argmin (\<lambda>k. distance2 (ev_kpoints ev ! k) target) [0..<length (ev_kpoints ev)]))"

definition carrier_states :: "eigenval \<Rightarrow> string \<Rightarrow> nat \<Rightarrow> nat \<Rightarrow> flt list" where
  "carrier_states ev carrier k s =
     map (energy ev)
       (filter (if carrier = ''hole'' then occupied_state ev else unoccupied_state ev)
          (map (\<lambda>b. (s, k, b)) [0..<length (ev_bands ev ! k)]))"

definition pick_edge :: "string \<Rightarrow> flt option \<Rightarrow> flt list \<Rightarrow> flt" where
  "pick_edge carrier reference candidates =
     (case reference of
        None \<Rightarrow> if carrier = ''hole'' then np_max candidates else np_min candidates
      | Some r \<Rightarrow> argmin (\<lambda>e. flt_abs (flt_sub e r)) candidates)"

definition edge_cost :: "flt option \<Rightarrow> flt \<Rightarrow> flt" where
  "edge_cost reference picked = (case reference of None \<Rightarrow> Fin 0 | Some r \<Rightarrow> flt_abs (flt_sub picked r))"

fun best_edge :: "eigenval \<Rightarrow> string \<Rightarrow> flt option \<Rightarrow> nat \<Rightarrow> nat list \<Rightarrow> (flt \<times> flt) option \<Rightarrow> flt option" where
  "best_edge ev carrier reference k [] best = map_option snd best"
| "best_edge ev carrier reference k (s # ss) best =
     (let candidates = carrier_states ev carrier k s; picked = pick_edge carrier reference candidates;
          cost = edge_cost reference picked; least = (case best of None \<Rightarrow> PosInf | Some (c, _) \<Rightarrow> c)
      in best_edge ev carrier reference k ss
           (if candidates \<noteq> [] \<and> flt_lt cost least then Some (cost, picked) else best))"

definition spins_to_try :: "eigenval \<Rightarrow> int option \<Rightarrow> nat list" where
  "spins_to_try ev hint =
     (case hint of Some i \<Rightarrow> if 0 \<le> i \<and> i < int (ev_spins ev) then [nat i] else [0..<ev_spins ev] | None \<Rightarrow> [0..<ev_spins ev])"

definition extract_edge_at_fixed_kpoint :: "eigenval \<Rightarrow> flt list \<Rightarrow> string \<Rightarrow> flt option \<Rightarrow> int option \<Rightarrow> flt res" where
  "extract_edge_at_fixed_kpoint ev target carrier reference hint =
     bindR (nearest_kpoint ev target) (\<lambda>k.
       case best_edge ev carrier reference k (spins_to_try ev hint) None of
         None \<Rightarrow> Inl (ValueError (''Failed to extract '' @ carrier @ '' edge at fixed kpoint''))
       | Some e \<Rightarrow> Inr e)"

section \<open>The band stage\<close>

record BandToolInput =
  bi_base_dir :: string
  bi_poscar_path :: string
  bi_potcar_path :: string
  bi_chgcar_path :: "string option"
  bi_fermi_energy :: "flt option"
  bi_state_payload :: dict

definition extract_band_edges :: "fs \<Rightarrow> string \<Rightarrow> flt option \<Rightarrow> (band_edges \<times> string) res" where
  "extract_band_edges f path fermi =
     bindR (read_eigenval f path) (\<lambda>ev.
       case fermi of
         Some ef \<Rightarrow> bindR (find_band_edges_by_fermi ev ef (Fin (1 / 1000))) (\<lambda>e. Inr (e, ''fermi_energy''))
       | None \<Rightarrow> bindR (find_band_edges_by_occupancy ev) (\<lambda>e. Inr (e, ''occupancy'')))"

definition py_floats :: "flt list \<Rightarrow> py" where
  "py_floats xs = PList (map PFloat xs)"

definition band_report :: "band_edges \<times> string \<Rightarrow> py list \<Rightarrow> string \<Rightarrow> dict" where
  "band_report es warnings tool =
     (let e = fst es in
      [(''band_completed'', PBool True), (''vbm_energy'', PFloat (be_vbm e)), (''cbm_energy'', PFloat (be_cbm e)),
       (''vbm_kpoint'', py_floats (be_vbm_kpoint e)), (''cbm_kpoint'', py_floats (be_cbm_kpoint e)),
       (''vbm_band_index'', PInt (int (be_vbm_band e))), (''cbm_band_index'', PInt (int (be_cbm_band e))),
       (''vbm_spin'', PInt (int (be_vbm_spin e))), (''cbm_spin'', PInt (int (be_cbm_spin e))),
       (''band_edge_source'', PStr (snd es)), (''warnings'', PList (warnings @ [PStr (''band_edge_source:'' @ snd es)])),
       (''_tool_source'', PStr tool)])"

definition link_file :: "string \<Rightarrow> string \<Rightarrow> fs \<Rightarrow> fs" where
  "link_file src dst f = (case map_of f src of None \<Rightarrow> f | Some n \<Rightarrow> fs_put f dst n)"

definition band_keep :: "string list" where
  "band_keep = [''INCAR'', ''KPOINTS'', ''POSCAR'', ''POTCAR'', ''EIGENVAL'']"

definition line_density :: "int \<Rightarrow> dict \<Rightarrow> int res" where
  "line_density npoints policy = to_int (py_or (dget policy ''line_mode_density'' (PInt npoints)) (PInt npoints))"

definition band_finish :: "BandToolInput \<Rightarrow> string \<Rightarrow> py list \<Rightarrow> dict \<Rightarrow> bool \<Rightarrow> dict io" where
  "band_finish inputs work_dir warnings updates ok =
     (if \<not> ok then
        io_bind (io_read (\<lambda>f. summarize_vasp_failure f work_dir ''band'' ''BAND failed'' None)) (\<lambda>summary.
          io_return (dmerge [(''errors'', PList [PStr (py_str (dget0 summary ''error_summary''))]),
            (''warnings'', PList warnings), (''recovery_summary'', PDict summary)] updates))
      else
        io_bind (io_read (\<lambda>f. extract_band_edges f (path_join work_dir ''EIGENVAL'') (bi_fermi_energy inputs))) (\<lambda>edges.
          case edges of
            Inl e \<Rightarrow> io_return (dmerge [(''errors'', PList [PStr (''03_band parse failed: '' @ exc_text e)])] updates)
          | Inr es \<Rightarrow>
              io_bind (io_change (\<lambda>f. prune_dir_keep_files f work_dir band_keep)) (\<lambda>_.
                io_return (dmerge (band_report es warnings ''native_tool'') updates))))"

definition band_native :: "tool_env \<Rightarrow> vasp_readers \<Rightarrow> int \<Rightarrow> BandToolInput \<Rightarrow> string \<Rightarrow> py list \<Rightarrow> dict io" where
  "band_native te vr npoints inputs work_dir warnings =
     (let chgcar = str_or (bi_chgcar_path inputs) (path_join (path_join (bi_base_dir inputs) ''02_scf'') ''CHGCAR'');
          spin = te_consider_spin te; kpoints = [(''line_mode_density'', PInt npoints)]
      in io_bind (io_try_change (\<lambda>f. copy_poscar_potcar f (bi_poscar_path inputs) (bi_potcar_path inputs) work_dir)) (\<lambda>_.
         io_bind (io_change (link_file chgcar (path_join work_dir ''CHGCAR''))) (\<lambda>_.
         io_bind (io_read (\<lambda>f. read_chgcar_compatible_incar_overrides (vr_incar vr) f (bi_base_dir inputs))) (\<lambda>overrides.
         io_bind (io_lift (stage_plan te ''band'' (bi_state_payload inputs) (band_incar spin overrides None) kpoints)) (\<lambda>plan.
         io_bind (io_change (write_incar te work_dir (band_incar spin overrides (map_option pp_incar_overrides plan)))) (\<lambda>_.
         io_bind (io_lift (line_density npoints (planned_kpoints kpoints plan))) (\<lambda>n.
         io_bind (io_change (\<lambda>f. write_band_kpoints f (path_join work_dir ''KPOINTS'') n)) (\<lambda>_.
         io_bind (run_vasp_io te work_dir False) (\<lambda>ok.
           band_finish inputs work_dir warnings (planned_updates ''band'' plan) ok)))))))))"

text \<open>An EIGENVAL left by an earlier run is used when it can be read; otherwise it is removed.\<close>

definition band_execute :: "tool_env \<Rightarrow> vasp_readers \<Rightarrow> int \<Rightarrow> BandToolInput \<Rightarrow> dict io" where
  "band_execute te vr npoints inputs =
     (let work_dir = path_join (bi_base_dir inputs) ''03_band''; eigenval = path_join work_dir ''EIGENVAL''
      in io_bind (io_change (\<lambda>f. makedirs f work_dir)) (\<lambda>_.
         io_bind (io_read (\<lambda>f. if reuse_completed_vasp_stages_enabled (te_reuse te) \<and> path_exists f eigenval
                                then Some (extract_band_edges f eigenval (bi_fermi_energy inputs)) else None)) (\<lambda>reused.
         case reused of
           None \<Rightarrow> band_native te vr npoints inputs work_dir []
         | Some (Inl e) \<Rightarrow>
             io_bind (io_change (\<lambda>f. if is_dir f eigenval then f else fs_del f eigenval)) (\<lambda>_.
               band_native te vr npoints inputs work_dir [PStr (''ignored_invalid_reused_band_eigenval:'' @ exc_text e)])
         | Some (Inr es) \<Rightarrow> io_return (band_report es [PStr ''reused_completed_stage:band''] ''native_tool_reuse''))))"

definition bandgap :: "dict \<Rightarrow> py res" where
  "bandgap raw =
     (let vbm = dget0 raw ''vbm_energy''; cbm = dget0 raw ''cbm_energy'' in
      if vbm = PNone \<or> cbm = PNone then Inr PNone
      else bindR (to_float cbm) (\<lambda>c. bindR (to_float vbm) (\<lambda>v. Inr (PFloat (flt_sub c v)))))"

definition band_build_output :: "BandToolInput \<Rightarrow> fs \<Rightarrow> dict \<Rightarrow> ToolOutput res" where
  "band_build_output inputs f raw =
     (let band_dir = path_join (bi_base_dir inputs) ''03_band''
      in bindR (bandgap raw) (\<lambda>gap.
         bindR (get_list raw ''warnings'') (\<lambda>warnings.
         bindR (errors_text raw) (\<lambda>error_summary.
           Inr \<lparr>to_success = \<not> truthy (dget0 raw ''errors''), to_warnings = warnings,
                to_key_summary =
                  [(''band_completed'', PBool (truthy (dget raw ''band_completed'' (PBool False)))), (''bandgap_eV'', gap),
                   (''vbm_energy'', dget0 raw ''vbm_energy''), (''cbm_energy'', dget0 raw ''cbm_energy''),
                   (''band_edge_source'', dget0 raw ''band_edge_source'')],
                to_artifact_paths = build_artifact_map [band_dir, path_join band_dir ''EIGENVAL''],
                to_error_summary = error_summary, to_state_updates = raw\<rparr>))))"

definition band_tool_run :: "tool_env \<Rightarrow> vasp_readers \<Rightarrow> int \<Rightarrow> BandToolInput \<Rightarrow> fs \<Rightarrow> fs \<times> ToolOutput" where
  "band_tool_run te vr npoints inputs = tool_run (band_execute te vr npoints inputs) (band_build_output inputs)"

section \<open>The best of a list\<close>

lemma arg_best_in: "arg_best better val x xs \<in> set (x # xs)"
proof (induction xs arbitrary: x)
  case (Cons y ys)
  show ?case
    using Cons [of x] Cons [of y] by (simp only: arg_best.simps split: if_splits) auto
qed simp

lemma arg_best_NaN: "z \<in> set (x # xs) \<Longrightarrow> val z = NaN \<Longrightarrow> val (arg_best better val x xs) = NaN"
proof (induction xs arbitrary: x)
  case (Cons y ys)
  have n: "val x = NaN \<Longrightarrow> val (arg_best better val x ys) = NaN" for x ys by (cases ys) auto
  from Cons.prems Cons.IH [of x] Cons.IH [of y] n [of y ys] show ?case by (auto split: if_splits)
qed auto

lemma flt_lt_NaN [simp]: "\<not> flt_lt NaN a" "\<not> flt_lt a NaN"
  by (cases a; simp)+

lemma arg_best_optimal:
  assumes trans: "\<And>a b c. better a b \<Longrightarrow> better b c \<Longrightarrow> better a c" and nan: "\<And>a. \<not> better a NaN" and irrefl: "\<And>a. \<not> better a a"
  shows "(\<forall>z. \<not> better z (val x) \<longrightarrow> \<not> better z (val (arg_best better val x xs)))
    \<and> (\<forall>y\<in>set (x # xs). \<not> better (val y) (val (arg_best better val x xs)))"
proof (induction xs arbitrary: x)
  case (Cons y ys)
  consider (nan) "val x = NaN" | (take) "val x \<noteq> NaN" "val y = NaN \<or> better (val y) (val x)"
    | (keep) "val x \<noteq> NaN" "val y \<noteq> NaN" "\<not> better (val y) (val x)" by blast
  then show ?case
  proof cases
    case take
    have "\<not> better z (val y)" if "\<not> better z (val x)" for z using take(2) that trans nan by metis
    with take Cons.IH [of y] irrefl show ?thesis by simp
  qed (use Cons.IH [of x] nan in simp_all)
qed (use irrefl in simp)

lemma argmax_best: "y \<in> set xs \<Longrightarrow> \<not> flt_lt (val (argmax val xs)) (val y)"
  using arg_best_optimal [of "\<lambda>a b. flt_lt b a" val "hd xs" "tl xs"] flt_lt_trans flt_lt_irrefl
  unfolding argmax_def by (cases xs) auto

lemma argmin_best: "y \<in> set xs \<Longrightarrow> \<not> flt_lt (val y) (val (argmin val xs))"
  using arg_best_optimal [of flt_lt val "hd xs" "tl xs"] flt_lt_trans flt_lt_irrefl
  unfolding argmin_def by (cases xs) auto

lemma argmax_in: "xs \<noteq> [] \<Longrightarrow> argmax val xs \<in> set xs"
  using arg_best_in [of _ val "hd xs" "tl xs"] unfolding argmax_def by simp

lemma argmin_in: "xs \<noteq> [] \<Longrightarrow> argmin val xs \<in> set xs"
  using arg_best_in [of _ val "hd xs" "tl xs"] unfolding argmin_def by simp

lemma argmax_NaN: "y \<in> set xs \<Longrightarrow> val y = NaN \<Longrightarrow> val (argmax val xs) = NaN"
  using arg_best_NaN [of y "hd xs" "tl xs" val] unfolding argmax_def by (cases xs) simp_all

lemma argmin_NaN: "y \<in> set xs \<Longrightarrow> val y = NaN \<Longrightarrow> val (argmin val xs) = NaN"
  using arg_best_NaN [of y "hd xs" "tl xs" val] unfolding argmin_def by (cases xs) simp_all

section \<open>Band edges are extremal\<close>

text \<open>Whatever marks the occupied states: the valence band maximum is the energy of one of them, and no energy of
  an occupied state lies above it.\<close>

lemma valence_top_max:
  assumes "list_ex occupied (kstates ev)"
  defines "m \<equiv> if occupied (valence_top ev occupied) then energy ev (valence_top ev occupied) else NegInf"
  shows "\<exists>t\<in>set (kstates ev). occupied t \<and> energy ev t = m" "t \<in> set (kstates ev) \<Longrightarrow> occupied t \<Longrightarrow> \<not> flt_lt m (energy ev t)"
proof -
  let ?val = "\<lambda>t. if occupied t then energy ev t else NegInf"
  have m: "m = ?val (argmax ?val (kstates ev))" by (simp add: m_def valence_top_def)
  show le: "\<not> flt_lt m (energy ev t)" if "t \<in> set (kstates ev)" "occupied t" for t
    using argmax_best [OF that(1), of ?val] that(2) by (simp add: m)
  from assms(1) obtain u where u: "u \<in> set (kstates ev)" "occupied u" by (auto simp: list_ex_iff)
  show "\<exists>t\<in>set (kstates ev). occupied t \<and> energy ev t = m"
  proof (cases "occupied (valence_top ev occupied)")
    case True
    have "valence_top ev occupied \<in> set (kstates ev)"
      unfolding valence_top_def by (rule argmax_in) (use u(1) in auto)
    with True show ?thesis by (auto simp: m_def)
  next
    case False
    then have "m = NegInf" by (simp add: m_def)
    moreover from this argmax_NaN [OF u(1), of ?val] u(2) have "energy ev u \<noteq> NaN" by (auto simp: m)
    ultimately have "energy ev u = m" using le [OF u] by (cases "energy ev u") auto
    with u show ?thesis by blast
  qed
qed

lemma conduction_bottom_min:
  assumes "list_ex unoccupied (kstates ev)"
  defines "m \<equiv> if unoccupied (conduction_bottom ev unoccupied) then energy ev (conduction_bottom ev unoccupied) else PosInf"
  shows "\<exists>t\<in>set (kstates ev). unoccupied t \<and> energy ev t = m" "t \<in> set (kstates ev) \<Longrightarrow> unoccupied t \<Longrightarrow> \<not> flt_lt (energy ev t) m"
proof -
  let ?val = "\<lambda>t. if unoccupied t then energy ev t else PosInf"
  have m: "m = ?val (argmin ?val (kstates ev))" by (simp add: m_def conduction_bottom_def)
  show le: "\<not> flt_lt (energy ev t) m" if "t \<in> set (kstates ev)" "unoccupied t" for t
    using argmin_best [OF that(1), of ?val] that(2) by (simp add: m)
  from assms(1) obtain u where u: "u \<in> set (kstates ev)" "unoccupied u" by (auto simp: list_ex_iff)
  show "\<exists>t\<in>set (kstates ev). unoccupied t \<and> energy ev t = m"
  proof (cases "unoccupied (conduction_bottom ev unoccupied)")
    case True
    have "conduction_bottom ev unoccupied \<in> set (kstates ev)"
      unfolding conduction_bottom_def by (rule argmin_in) (use u(1) in auto)
    with True show ?thesis by (auto simp: m_def)
  next
    case False
    then have "m = PosInf" by (simp add: m_def)
    moreover from this argmin_NaN [OF u(1), of ?val] u(2) have "energy ev u \<noteq> NaN" by (auto simp: m)
    ultimately have "energy ev u = m" using le [OF u] by (cases "energy ev u") auto
    with u show ?thesis by blast
  qed
qed

section \<open>What a completed band stage reports\<close>

lemma band_edges_extremal:
  assumes "band_edges_by ev occupied unoccupied = Inr e"
  shows "\<exists>t\<in>set (kstates ev). occupied t \<and> energy ev t = be_vbm e" "\<exists>t\<in>set (kstates ev). unoccupied t \<and> energy ev t = be_cbm e"
    "t \<in> set (kstates ev) \<Longrightarrow> occupied t \<Longrightarrow> \<not> flt_lt (be_vbm e) (energy ev t)"
    "t \<in> set (kstates ev) \<Longrightarrow> unoccupied t \<Longrightarrow> \<not> flt_lt (energy ev t) (be_cbm e)"
proof -
  from assms have o: "list_ex occupied (kstates ev)" and u: "list_ex unoccupied (kstates ev)" and e: "e = edges_between ev occupied unoccupied"
    by (simp_all add: band_edges_by_def split: if_splits)
  note v = valence_top_max [OF o] and c = conduction_bottom_min [OF u]
  have be: "be_vbm e = (if occupied (valence_top ev occupied) then energy ev (valence_top ev occupied) else NegInf)"
    "be_cbm e = (if unoccupied (conduction_bottom ev unoccupied) then energy ev (conduction_bottom ev unoccupied) else PosInf)"
    by (simp_all add: e edges_between_def Let_def)
  show "\<exists>t\<in>set (kstates ev). occupied t \<and> energy ev t = be_vbm e" using v(1) unfolding be .
  show "\<exists>t\<in>set (kstates ev). unoccupied t \<and> energy ev t = be_cbm e" using c(1) unfolding be .
  show "\<not> flt_lt (be_vbm e) (energy ev t)" if "t \<in> set (kstates ev)" "occupied t" using v(2) [OF that] unfolding be .
  show "\<not> flt_lt (energy ev t) (be_cbm e)" if "t \<in> set (kstates ev)" "unoccupied t" using c(2) [OF that] unfolding be .
qed

lemma path_join_eq_iff: "\<not> startswith m ''/'' \<Longrightarrow> \<not> startswith n ''/'' \<Longrightarrow> path_join d m = path_join d n \<longleftrightarrow> m = n"
  by (auto simp: path_join_def)

lemma pruned_plain: "n \<in> set (pruned f d keep) \<Longrightarrow> \<not> startswith n ''/'' \<and> n \<notin> set keep"
  by (cases n) (auto simp: pruned_def listdir_def startswith_def)

lemma prune_keeps: "n \<in> set keep \<Longrightarrow> \<not> startswith n ''/'' \<Longrightarrow> map_of (prune_dir_keep_files f d keep) (path_join d n) = map_of f (path_join d n)"
  using pruned_plain path_join_eq_iff by (fastforce simp: map_of_prune)

lemma read_eigenval_cong: "map_of f p = map_of g p \<Longrightarrow> read_eigenval f p = read_eigenval g p"
  by (simp add: read_eigenval_def read_file_def)

lemma band_report_reads [simp]:
  "dget0 (band_report es ws tool) ''vbm_energy'' = PFloat (be_vbm (fst es))"
  "dget0 (band_report es ws tool) ''cbm_energy'' = PFloat (be_cbm (fst es))"
  by (simp_all add: band_report_def Let_def dget0_def dget_def)

lemma band_finish_done:
  assumes "band_finish inputs wd ws (planned_updates stage plan) ok f = (f', Inr d)" "\<not> truthy (dget0 d ''errors'')"
  obtains es where "extract_band_edges f' (path_join wd ''EIGENVAL'') (bi_fermi_energy inputs) = Inr es"
    "dget0 d ''vbm_energy'' = PFloat (be_vbm (fst es))" "dget0 d ''cbm_energy'' = PFloat (be_cbm (fst es))"
proof -
  have ok: "ok"
  proof (rule ccontr)
    assume "\<not> ok"
    with assms have "d = dmerge [(''errors'', PList [PStr (py_str (dget0 (summarize_vasp_failure f wd ''band'' ''BAND failed'' None) ''error_summary''))]),
        (''warnings'', PList ws), (''recovery_summary'', PDict (summarize_vasp_failure f wd ''band'' ''BAND failed'' None))] (planned_updates stage plan)"
      by (simp add: band_finish_def io_bind_Inr)
    with assms(2) show False by (simp add: dget0_updates) (simp add: dget0_def dget_def)
  qed
  show thesis
  proof (cases "extract_band_edges f (path_join wd ''EIGENVAL'') (bi_fermi_energy inputs)")
    case (Inl e)
    with assms ok have "d = dmerge [(''errors'', PList [PStr (''03_band parse failed: '' @ exc_text e)])] (planned_updates stage plan)"
      by (simp add: band_finish_def io_bind_Inr)
    with assms(2) show thesis by (simp add: dget0_updates) (simp add: dget0_def dget_def)
  next
    case (Inr es)
    with assms ok have d: "d = dmerge (band_report es ws ''native_tool'') (planned_updates stage plan)"
      and f': "f' = prune_dir_keep_files f wd band_keep"
      by (simp_all add: band_finish_def io_bind_Inr)
    have "map_of f' (path_join wd ''EIGENVAL'') = map_of f (path_join wd ''EIGENVAL'')"
      unfolding f' by (rule prune_keeps) (simp_all add: band_keep_def startswith_def)
    note same = read_eigenval_cong [OF this]
    have "extract_band_edges f' (path_join wd ''EIGENVAL'') (bi_fermi_energy inputs) = Inr es"
      using Inr unfolding extract_band_edges_def same .
    from that [OF this] show thesis by (simp add: d dget0_updates band_report_reads)
  qed
qed

definition below_gap :: "eigenval \<Rightarrow> flt option \<Rightarrow> kstate \<Rightarrow> bool" where
  "below_gap ev fermi =
     (case fermi of
        None \<Rightarrow> occupied_state ev
      | Some ef \<Rightarrow> widened ev (\<lambda>t. flt_le (energy ev t) (flt_sub ef (Fin (1 / 1000)))) (\<lambda>t. flt_le (energy ev t) (flt_add ef (Fin (1 / 1000)))))"

definition above_gap :: "eigenval \<Rightarrow> flt option \<Rightarrow> kstate \<Rightarrow> bool" where
  "above_gap ev fermi =
     (case fermi of
        None \<Rightarrow> unoccupied_state ev
      | Some ef \<Rightarrow> widened ev (\<lambda>t. flt_le (flt_add ef (Fin (1 / 1000))) (energy ev t)) (\<lambda>t. flt_le (flt_sub ef (Fin (1 / 1000))) (energy ev t)))"

lemma extract_band_edges_by:
  "extract_band_edges f p fermi = Inr es \<Longrightarrow> \<exists>ev. read_eigenval f p = Inr ev \<and> band_edges_by ev (below_gap ev fermi) (above_gap ev fermi) = Inr (fst es)"
  by (auto simp: extract_band_edges_def find_band_edges_by_occupancy_def find_band_edges_by_fermi_def Let_def below_gap_def above_gap_def
      split: option.splits)

lemma band_execute_done:
  assumes "band_execute te vr n inputs f = (f', Inr d)" "\<not> truthy (dget0 d ''errors'')"
  obtains es where "extract_band_edges f' (path_join (path_join (bi_base_dir inputs) ''03_band'') ''EIGENVAL'') (bi_fermi_energy inputs) = Inr es"
    "dget0 d ''vbm_energy'' = PFloat (be_vbm (fst es))" "dget0 d ''cbm_energy'' = PFloat (be_cbm (fst es))"
proof -
  let ?wd = "path_join (bi_base_dir inputs) ''03_band''" and ?p = "path_join (path_join (bi_base_dir inputs) ''03_band'') ''EIGENVAL''"
  consider (native) ws g where "band_native te vr n inputs ?wd ws g = (f', Inr d)"
    | (reused) es where "extract_band_edges f' ?p (bi_fermi_energy inputs) = Inr es"
        "d = band_report es [PStr ''reused_completed_stage:band''] ''native_tool_reuse''"
    using assms(1) by (auto simp: band_execute_def Let_def io_bind_Inr split: option.splits sum.splits if_splits)
  then show thesis
  proof cases
    case native
    then obtain ws' plan ok g' where "band_finish inputs ?wd ws' (planned_updates ''band'' plan) ok g' = (f', Inr d)"
      by (auto simp: band_native_def Let_def io_bind_Inr)
    from band_finish_done [OF this assms(2)] that show thesis by blast
  next
    case reused
    from that [OF reused(1)] show thesis by (simp add: reused(2))
  qed
qed

text \<open>C37: A successful band stage, run or reused, reports band edges of the EIGENVAL it leaves: both energies
  belong to states of that file on their side of the gap, no state below the gap lies above the reported
  valence band maximum and none above the gap below the reported conduction band minimum, the gap being
  drawn at half occupation or, when the SCF stage gave a Fermi level, at that level.\<close>

theorem band_success_sound:
  assumes "band_tool_run te vr n inputs f = (f', out)" "to_success out"
  shows "\<exists>ev vbm cbm. read_eigenval f' (path_join (path_join (bi_base_dir inputs) ''03_band'') ''EIGENVAL'') = Inr ev
    \<and> dget0 (to_state_updates out) ''vbm_energy'' = PFloat vbm \<and> dget0 (to_state_updates out) ''cbm_energy'' = PFloat cbm
    \<and> (\<exists>t\<in>set (kstates ev). below_gap ev (bi_fermi_energy inputs) t \<and> energy ev t = vbm)
    \<and> (\<exists>t\<in>set (kstates ev). above_gap ev (bi_fermi_energy inputs) t \<and> energy ev t = cbm)
    \<and> (\<forall>t\<in>set (kstates ev). (below_gap ev (bi_fermi_energy inputs) t \<longrightarrow> \<not> flt_lt vbm (energy ev t))
         \<and> (above_gap ev (bi_fermi_energy inputs) t \<longrightarrow> \<not> flt_lt (energy ev t) cbm))"
proof -
  from assms obtain d where d: "band_execute te vr n inputs f = (f', Inr d)" "band_build_output inputs f' d = Inr out"
    by (auto simp: band_tool_run_def tool_run_def failed_output_def split: prod.splits sum.splits)
  then have out: "to_state_updates out = d" "\<not> truthy (dget0 d ''errors'')"
    using assms(2) by (auto simp: band_build_output_def Let_def)
  from band_execute_done [OF d(1) out(2)] obtain es where
    es: "extract_band_edges f' (path_join (path_join (bi_base_dir inputs) ''03_band'') ''EIGENVAL'') (bi_fermi_energy inputs) = Inr es"
    and r: "dget0 d ''vbm_energy'' = PFloat (be_vbm (fst es))" "dget0 d ''cbm_energy'' = PFloat (be_cbm (fst es))" by blast
  from extract_band_edges_by [OF es] obtain ev where ev: "read_eigenval f' (path_join (path_join (bi_base_dir inputs) ''03_band'') ''EIGENVAL'') = Inr ev"
    and edges: "band_edges_by ev (below_gap ev (bi_fermi_energy inputs)) (above_gap ev (bi_fermi_energy inputs)) = Inr (fst es)" by blast
  from band_edges_extremal [OF edges] ev r show ?thesis unfolding out(1) by blast
qed

definition demo_eigenval :: string where
  "demo_eigenval = join [CHR 0x0A]
     [''h'', ''h'', ''h'', ''h'', ''h'', ''2 2 2'', [], '' 0.0 0.0 0.0 0.5'', '' 1 -1.5 1.0'', '' 2 1.0 0.0'', [],
      '' 0.5 0.0 0.0 0.5'', '' 1 -1.0 1.0'', '' 2 1.25 0.0'']"

definition demo_readers :: vasp_readers where
  "demo_readers = \<lparr>vr_oszicar_energy = (\<lambda>_. Inr (Fin (- 2))), vr_vasprun_energy = (\<lambda>_. Inr (Fin (- 2))),
     vr_vasprun_fermi = (\<lambda>_. Inr (Fin 0)), vr_locpot_average = (\<lambda>_. Inr [Fin 4]), vr_incar = (\<lambda>_. None)\<rparr>"

theorem band_success_sound_witness:
  "\<exists>out ev. band_tool_run (demo_tool_env\<lparr>te_reuse := Some ''1''\<rparr>) demo_readers 40
      \<lparr>bi_base_dir = ''/w'', bi_poscar_path = ''/w/POSCAR'', bi_potcar_path = ''/w/POTCAR'', bi_chgcar_path = None, bi_fermi_energy = None,
       bi_state_payload = []\<rparr> [(''/w'', FDir), (''/w/03_band'', FDir), (''/w/03_band/EIGENVAL'', FFile demo_eigenval)] = out
    \<and> read_eigenval (fst out) ''/w/03_band/EIGENVAL'' = Inr ev
    \<and> (\<exists>t\<in>set (kstates ev). PFloat (energy ev t) = dget0 (to_state_updates (snd out)) ''vbm_energy'')"
proof -
  let ?te = "demo_tool_env\<lparr>te_reuse := Some ''1''\<rparr>"
    and ?in = "\<lparr>bi_base_dir = ''/w'', bi_poscar_path = ''/w/POSCAR'', bi_potcar_path = ''/w/POTCAR'', bi_chgcar_path = None, bi_fermi_energy = None, bi_state_payload = []\<rparr>"
    and ?f = "[(''/w'', FDir), (''/w/03_band'', FDir), (''/w/03_band/EIGENVAL'', FFile demo_eigenval)]"
  let ?r = "band_tool_run ?te demo_readers 40 ?in ?f"
  have s: "to_success (snd ?r)" by code_simp
  have p: "path_join (path_join (bi_base_dir ?in) ''03_band'') ''EIGENVAL'' = ''/w/03_band/EIGENVAL''" by code_simp
  from band_success_sound [of ?te demo_readers 40 ?in ?f "fst ?r" "snd ?r"] s show ?thesis unfolding p by auto
qed

section \<open>The reference point agrees with itself\<close>

definition shaped :: "eigenval \<Rightarrow> bool" where
  "shaped ev \<longleftrightarrow> length (ev_kpoints ev) = length (ev_bands ev) \<and> (\<forall>u\<in>set (ev_kpoints ev). length u = 3)"

lemma kpoint_coordinates_three: "kpoint_coordinates ws = Inr u \<Longrightarrow> length u = 3"
  unfolding kpoint_coordinates_def bindR_eq_Inr by (elim exE conjE) (auto split: list.splits)

lemma read_kpoints_shape: "read_kpoints spin nb n ls = Inr ks \<Longrightarrow> \<forall>k\<in>set ks. length (fst k) = 3"
proof (induction n arbitrary: ls ks)
  case (Suc n)
  then obtain ws u bs r ks' where "kpoint_coordinates ws = Inr u" "read_kpoints spin nb n r = Inr ks'" "ks = (u, bs) # ks'"
    by (auto simp: case_prod_unfold)
  with kpoint_coordinates_three Suc.IH show ?case by fastforce
qed simp

lemma read_eigenval_shaped: "read_eigenval f p = Inr ev \<Longrightarrow> shaped ev"
  by (auto simp: read_eigenval_def shaped_def Let_def split: if_splits option.splits dest!: read_kpoints_shape)

lemma kstates_in: "(s, k, b) \<in> set (kstates ev) \<longleftrightarrow> s < ev_spins ev \<and> k < length (ev_bands ev) \<and> b < length (ev_bands ev ! k)"
  unfolding kstates_def by (simp add: image_iff)

lemma finite_flt: "is_finite x \<longleftrightarrow> (\<exists>q. x = Fin q)"
  by (cases x) auto

lemma distance2_zero:
  assumes "list_all is_finite u" "list_all is_finite v" "length u = 3" "length v = 3"
  shows "\<not> flt_lt (Fin 0) (distance2 u v) \<longleftrightarrow> u = v"
proof -
  from assms obtain a b c a' b' c' where "u = [Fin a, Fin b, Fin c]" "v = [Fin a', Fin b', Fin c']"
    by (auto simp: finite_flt numeral_3_eq_3 length_Suc_conv)
  moreover have "\<not> 0 < (a - a') * (a - a') + (b - b') * (b - b') + (c - c') * (c - c') \<longleftrightarrow> a = a' \<and> b = b' \<and> c = c'"
    using sum_squares_gt_zero_iff [of "a - a'" "b - b'"] zero_le_square [of "a - a'"] zero_le_square [of "b - b'"] zero_le_square [of "c - c'"]
      mult_eq_0_iff [of "c - c'" "c - c'"]
    by (smt (verit) add_nonneg_eq_0_iff add_nonneg_nonneg not_less order_antisym right_minus_eq sum_squares_eq_zero_iff)
  ultimately show ?thesis by (simp add: distance2_def flt_sum_def flt_sub_def)
qed

lemma nearest_kpoint_self:
  assumes "shaped ev" "\<forall>u\<in>set (ev_kpoints ev). list_all is_finite u" "k < length (ev_kpoints ev)"
  obtains j where "nearest_kpoint ev (ev_kpoints ev ! k) = Inr j" "j < length (ev_kpoints ev)" "ev_kpoints ev ! j = ev_kpoints ev ! k"
proof -
  let ?u = "ev_kpoints ev ! k" and ?d = "\<lambda>j. distance2 (ev_kpoints ev ! j) (ev_kpoints ev ! k)"
  let ?j = "argmin ?d [0..<length (ev_kpoints ev)]"
  have u: "list_all is_finite (ev_kpoints ev ! j) \<and> length (ev_kpoints ev ! j) = 3" if "j < length (ev_kpoints ev)" for j
    using assms(1,2) that by (auto simp: shaped_def)
  have "?j \<in> set [0..<length (ev_kpoints ev)]" by (rule argmin_in) (use assms(3) in auto)
  then have j: "?j < length (ev_kpoints ev)" by simp
  have "\<not> flt_lt (?d k) (?d ?j)" by (rule argmin_best) (use assms(3) in simp)
  moreover have "?d k = Fin 0"
    using u [OF assms(3)] by (auto simp: finite_flt numeral_3_eq_3 length_Suc_conv distance2_def flt_sum_def flt_sub_def)
  ultimately have "ev_kpoints ev ! ?j = ?u" using distance2_zero u [OF j] u [OF assms(3)] by metis
  moreover have "nearest_kpoint ev ?u = Inr ?j" using u [OF assms(3)] assms(3) by (auto simp: nearest_kpoint_def)
  ultimately show thesis using that j by blast
qed

lemma fixed_edge_at_state:
  assumes "shaped ev" "\<forall>u\<in>set (ev_kpoints ev). list_all is_finite u" "\<forall>t\<in>set (kstates ev). is_finite (energy ev t)"
    and same: "\<forall>i j. i < length (ev_kpoints ev) \<longrightarrow> j < length (ev_kpoints ev) \<longrightarrow> ev_kpoints ev ! i = ev_kpoints ev ! j \<longrightarrow> ev_bands ev ! i = ev_bands ev ! j"
    and t: "(s, k, b) \<in> set (kstates ev)" "(if carrier = ''hole'' then occupied_state ev else unoccupied_state ev) (s, k, b)"
  shows "extract_edge_at_fixed_kpoint ev (ev_kpoints ev ! k) carrier (Some (energy ev (s, k, b))) (Some (int s)) = Inr (energy ev (s, k, b))"
proof -
  let ?E = "energy ev (s, k, b)"
  have len: "length (ev_kpoints ev) = length (ev_bands ev)" using assms(1) by (simp add: shaped_def)
  have k: "k < length (ev_kpoints ev)" and s: "s < ev_spins ev" using t(1) by (auto simp: kstates_in len)
  obtain j where j: "nearest_kpoint ev (ev_kpoints ev ! k) = Inr j" "j < length (ev_kpoints ev)" "ev_kpoints ev ! j = ev_kpoints ev ! k"
    using nearest_kpoint_self [OF assms(1,2) k] .
  then have bands: "ev_bands ev ! j = ev_bands ev ! k" using same k by blast
  let ?cs = "carrier_states ev carrier j s"
  have "(if carrier = ''hole'' then occupied_state ev else unoccupied_state ev) (s, j, b)"
    using t(2) bands by (auto simp: occupied_state_def unoccupied_state_def occupation_def split: if_splits)
  then have "energy ev (s, j, b) \<in> set ?cs"
    using t(1) bands unfolding carrier_states_def kstates_in set_map set_filter by (intro imageI) simp
  then have E: "?E \<in> set ?cs" by (simp add: energy_def bands)
  have fin: "is_finite e" if "e \<in> set ?cs" for e
  proof -
    from that obtain b' where "e = energy ev (s, j, b')" "b' < length (ev_bands ev ! j)" by (auto simp: carrier_states_def)
    moreover from this j(2) s len have "(s, j, b') \<in> set (kstates ev)" by (simp add: kstates_in)
    ultimately show ?thesis using assms(3) by simp
  qed
  let ?p = "argmin (\<lambda>e. flt_abs (flt_sub e ?E)) ?cs"
  have nonempty: "?cs \<noteq> []" using E by auto
  have "is_finite ?p" by (rule fin [OF argmin_in [OF nonempty]])
  moreover have "\<not> flt_lt (flt_abs (flt_sub ?E ?E)) (flt_abs (flt_sub ?p ?E))" by (rule argmin_best) (rule E)
  ultimately have p: "?p = ?E" using fin [OF E] by (auto simp: finite_flt flt_sub_def)
  have "flt_abs (flt_sub ?E ?E) = Fin 0" using fin [OF E] by (auto simp: finite_flt flt_sub_def)
  with nonempty s show ?thesis
    by (simp add: extract_edge_at_fixed_kpoint_def j(1) spins_to_try_def pick_edge_def edge_cost_def Let_def p)
qed



end
