(* ===== verification/Strain.thy ===== *)
theory Strain
  imports Band_Edges
begin

text \<open>
  The strain campaign (mobility_agent/tools/strain_tool.py): the keys of strain points and the merging of
  rows, the planned strains, the readiness of a direction for the fits, the rows recovered from the files
  of an earlier run, the calculation of one point (relaxation, SCF, band), the loop over all points and the
  summary of the campaign.

  Every point is calculated inside a try block, and what it has done before an exception stays: \<open>'a act\<close>
  passes the record \<open>campaign\<close> (the files, the rows, backups, recovery events and plans so far) through
  exceptions as well. pymatgen's strained structure, the VASP processes and the policy engine are
  parameters, the record \<open>strain_env\<close>. Working directories are absolute.
\<close>

section \<open>Strain points\<close>

type_synonym point_key = "string \<times> flt"

definition strain_key :: "dict \<Rightarrow> point_key option" where
  "strain_key row =
     (let direction = py_strip (get_str row ''direction'') in
      if direction = [] then None
      else case to_float (py_or (dget row ''strain'' (PFloat (Fin 0))) (PFloat (Fin 0))) of
        Inl _ \<Rightarrow> None | Inr x \<Rightarrow> Some (direction, round_point x))"

definition point_done :: "dict \<Rightarrow> bool" where
  "point_done row \<longleftrightarrow> truthy (dget row ''completed'' (PBool False))"

text \<open>A NaN is found under no key.\<close>

definition row_index :: "(point_key \<times> nat) list \<Rightarrow> point_key \<Rightarrow> nat option" where
  "row_index idx key = (if snd key = NaN then None else map_of idx key)"

text \<open>A later row replaces an earlier one of its key, unless it would replace a completed point by a failed one.\<close>

fun merge_loop :: "dict list \<Rightarrow> (point_key \<times> nat) list \<Rightarrow> dict list \<Rightarrow> dict list" where
  "merge_loop merged idx [] = merged"
| "merge_loop merged idx (c # cs) =
     (case strain_key c of
        None \<Rightarrow> merge_loop (merged @ [c]) idx cs
      | Some key \<Rightarrow>
          (case row_index idx key of
             None \<Rightarrow> merge_loop (merged @ [c]) ((key, length merged) # idx) cs
           | Some i \<Rightarrow> merge_loop (if point_done c \<or> \<not> point_done (merged ! i) then merged[i := c] else merged) idx cs))"

definition as_row :: "py \<Rightarrow> dict res" where
  "as_row v = (if truthy v then to_dict v else Inr [])"

definition merge_strain_rows :: "py list \<Rightarrow> dict list \<Rightarrow> dict list res" where
  "merge_strain_rows existing new = bindR (mapR as_row existing) (\<lambda>rows. Inr (merge_loop [] [] (rows @ new)))"

definition planned_strains :: "(string \<times> flt list) list \<Rightarrow> string \<Rightarrow> flt list" where
  "planned_strains plan direction =
     sort (dedupe (Fin 0 # map round_point (case map_of plan direction of None \<Rightarrow> [] | Some vs \<Rightarrow> vs)))"

definition is_zero_strain :: "flt \<Rightarrow> bool" where
  "is_zero_strain v \<longleftrightarrow> flt_le (flt_abs v) (Fin (1 / 10 ^ 12))"

text \<open>The unstrained point comes first: the others need it as their reference.\<close>

definition ordered_strains :: "flt list \<Rightarrow> flt list" where
  "ordered_strains vs = on (list_ex is_zero_strain vs) (Fin 0) @ filter (\<lambda>v. \<not> is_zero_strain v) vs"

record readiness =
  fr_zero :: bool
  fr_negative :: bool
  fr_positive :: bool
  fr_ready :: bool

definition completed_strain :: "string \<Rightarrow> dict \<Rightarrow> flt list res" where
  "completed_strain direction row =
     (if get_str row ''direction'' = direction \<and> point_done row
      then bindR (to_float (py_or (dget row ''strain'' (PFloat (Fin 0))) (PFloat (Fin 0)))) (\<lambda>x. Inr [round_point x])
      else Inr [])"

definition direction_fit_readiness :: "dict list \<Rightarrow> string \<Rightarrow> readiness res" where
  "direction_fit_readiness rows direction =
     bindR (mapR (completed_strain direction) rows) (\<lambda>xs.
       let strains = dedupe (concat xs); zero = list_ex is_zero_strain strains;
           negative = list_ex (\<lambda>v. flt_lt v (Fin 0)) strains; positive = list_ex (\<lambda>v. flt_lt (Fin 0) v) strains
       in Inr \<lparr>fr_zero = zero, fr_negative = negative, fr_positive = positive,
               fr_ready = (5 \<le> length strains \<and> zero \<and> negative \<and> positive)\<rparr>)"

definition serialize_keys :: "point_key list \<Rightarrow> py list" where
  "serialize_keys keys =
     map (\<lambda>(d, s). PDict [(''direction'', PStr d), (''strain'', PFloat s)])
       (sort_key fst (sort_key snd (remdups (map (\<lambda>(d, s). (d, round_point s)) keys))))"

section \<open>Formatted strains\<close>

text \<open>\<open>f"{x:+.nf}"\<close>, the decimal nearest to the rational.\<close>

definition fixed_pos :: "nat \<Rightarrow> rat \<Rightarrow> string" where
  "fixed_pos n q =
     (let m = nat (round_even (q * 10 ^ n)); frac = nat_digits (m mod 10 ^ n)
      in nat_digits (m div 10 ^ n) @ ''.'' @ replicate (n - length frac) (CHR ''0'') @ frac)"

fun signed_fixed :: "nat \<Rightarrow> flt \<Rightarrow> string" where
  "signed_fixed n (Fin q) = (if q < 0 then ''-'' @ fixed_pos n (- q) else ''+'' @ fixed_pos n q)"
| "signed_fixed n PosInf = ''+inf''"
| "signed_fixed n NegInf = ''-inf''"
| "signed_fixed n NaN = ''+nan''"

definition point_folder :: "string \<Rightarrow> string \<Rightarrow> flt \<Rightarrow> string" where
  "point_folder base direction s = path_join (path_join base direction) (''strain_'' @ signed_fixed 4 s)"

section \<open>Rows of an earlier run\<close>

text \<open>A CSV file, read in the default dialect: the rows with their fields. A blank line is an empty row.\<close>

datatype csv_state = StartRecord | StartField | InField | InQuoted | QuoteInQuoted

fun csv_rows :: "csv_state \<Rightarrow> string \<Rightarrow> string list \<Rightarrow> string \<Rightarrow> string list list" where
  "csv_rows st acc row [] = (if st = StartRecord then [] else [rev (rev acc # row)])"
| "csv_rows st acc row (c # s) =
     (let newline = (c = CHR 0x0A \<or> c = CHR 0x0D); rest = (if c = CHR 0x0D \<and> take 1 s = [CHR 0x0A] then drop 1 s else s) in
      if st = InQuoted then csv_rows (if c = CHR 0x22 then QuoteInQuoted else InQuoted) (if c = CHR 0x22 then acc else c # acc) row s
      else if st = StartRecord \<and> newline then [] # csv_rows StartRecord [] [] rest
      else if newline then rev (rev acc # row) # csv_rows StartRecord [] [] rest
      else if c = CHR '','' then csv_rows StartField [] (rev acc # row) s
      else if c = CHR 0x22 \<and> st \<in> {StartRecord, StartField} then csv_rows InQuoted acc row s
      else if c = CHR 0x22 \<and> st = QuoteInQuoted then csv_rows InQuoted (c # acc) row s
      else csv_rows InField (c # acc) row s)"

text \<open>\<open>csv.DictReader\<close>: a later column of the same name wins, a missing field is absent.\<close>

definition csv_dicts :: "string \<Rightarrow> (string \<times> string) list list" where
  "csv_dicts t =
     (case csv_rows StartRecord [] [] t of
        [] \<Rightarrow> []
      | names # rows \<Rightarrow> map (\<lambda>row. rev (zip names row)) (filter (\<lambda>row. row \<noteq> []) rows))"

definition csv_get :: "(string \<times> string) list \<Rightarrow> string \<Rightarrow> string" where
  "csv_get row k = (case map_of row k of None \<Rightarrow> [] | Some t \<Rightarrow> t)"

definition status_row :: "string \<Rightarrow> (string \<times> string) list \<Rightarrow> (string \<times> flt \<times> string) option" where
  "status_row base row =
     (let direction = py_strip (csv_get row ''direction''); strain = csv_get row ''strain''; folder = py_strip (csv_get row ''folder'') in
      if py_lower (py_strip (csv_get row ''completed'')) \<notin> {''1'', ''true'', ''yes''} \<or> direction \<notin> {''x'', ''y''} then None
      else case (if strain = [] then Inr (Fin 0) else to_float (PStr strain)) of
        Inl _ \<Rightarrow> None
      | Inr x \<Rightarrow> (let s = round_point x in Some (direction, s, if folder = [] then point_folder base direction s else folder)))"

definition status_completed_rows :: "fs \<Rightarrow> string \<Rightarrow> (string \<times> flt \<times> string) list" where
  "status_completed_rows f base =
     (case read_file f (path_join (dirname base) ''strain_status.csv'') of
        None \<Rightarrow> [] | Some t \<Rightarrow> List.map_filter (status_row base) (csv_dicts t))"

definition load_strain_reference :: "fs \<Rightarrow> string \<Rightarrow> string \<Rightarrow> band_edges option" where
  "load_strain_reference f base direction =
     (let eigenval = path_join (path_join (point_folder base direction (Fin 0)) ''03_band'') ''EIGENVAL'' in
      if file_size f eigenval = 0 then None
      else case bindR (read_eigenval f eigenval) find_band_edges_by_occupancy of Inl _ \<Rightarrow> None | Inr e \<Rightarrow> Some e)"

definition fixed_edges :: "eigenval \<Rightarrow> band_edges \<Rightarrow> (flt \<times> flt) res" where
  "fixed_edges ev ref =
     bindR (extract_edge_at_fixed_kpoint ev (be_vbm_kpoint ref) ''hole'' (Some (be_vbm ref)) (Some (int (be_vbm_spin ref)))) (\<lambda>v.
     bindR (extract_edge_at_fixed_kpoint ev (be_cbm_kpoint ref) ''electron'' (Some (be_cbm ref)) (Some (int (be_cbm_spin ref)))) (\<lambda>c.
       Inr (v, c)))"

definition point_row :: "string \<Rightarrow> flt \<Rightarrow> string \<Rightarrow> flt \<Rightarrow> flt \<Rightarrow> band_edges \<Rightarrow> band_edges \<Rightarrow> flt \<times> flt \<Rightarrow> dict" where
  "point_row direction s folder etot vacuum edges ref es =
     [(''direction'', PStr direction), (''strain'', PFloat s), (''total_energy'', PFloat etot), (''e_vbm'', PFloat (fst es)),
      (''e_cbm'', PFloat (snd es)), (''e_vacuum'', PFloat vacuum), (''e_vbm_global'', PFloat (be_vbm edges)),
      (''e_cbm_global'', PFloat (be_cbm edges)), (''vbm_kpoint_global'', py_floats (be_vbm_kpoint edges)),
      (''cbm_kpoint_global'', py_floats (be_cbm_kpoint edges)), (''vbm_band_global'', PInt (int (be_vbm_band edges))),
      (''cbm_band_global'', PInt (int (be_cbm_band edges))), (''vbm_spin_global'', PInt (int (be_vbm_spin edges))),
      (''cbm_spin_global'', PInt (int (be_cbm_spin edges))), (''vbm_kpoint_ref'', py_floats (be_vbm_kpoint ref)),
      (''cbm_kpoint_ref'', py_floats (be_cbm_kpoint ref)), (''folder'', PStr folder), (''completed'', PBool True)]"

definition recover_row :: "vasp_readers \<Rightarrow> fs \<Rightarrow> string \<Rightarrow> string \<times> flt \<times> string \<Rightarrow> dict option" where
  "recover_row vr f base = (\<lambda>(direction, s, folder).
     (let scf_dir = path_join folder ''02_scf''; eigenval = path_join (path_join folder ''03_band'') ''EIGENVAL'' in
      case load_strain_reference f base direction of
        None \<Rightarrow> None
      | Some ref \<Rightarrow>
          if file_size f eigenval = 0 then None
          else case
            bindR (read_final_total_energy vr f scf_dir) (\<lambda>etot.
            bindR (read_vacuum_level vr f (path_join scf_dir ''LOCPOT'')) (\<lambda>vacuum.
            bindR (read_eigenval f eigenval) (\<lambda>ev.
            bindR (find_band_edges_by_occupancy ev) (\<lambda>edges.
            bindR (fixed_edges ev ref) (\<lambda>es.
              Inr (point_row direction s folder etot vacuum edges ref es @ [(''recovered_from_disk'', PBool True)]))))))
          of Inl _ \<Rightarrow> None | Inr row \<Rightarrow> Some row))"

definition recover_completed_rows :: "vasp_readers \<Rightarrow> fs \<Rightarrow> string \<Rightarrow> dict list" where
  "recover_completed_rows vr f base = List.map_filter (recover_row vr f base) (status_completed_rows f base)"

section \<open>Steps that keep what was done\<close>

record campaign =
  ca_files :: fs
  ca_ref :: "band_edges option"
  ca_results :: "dict list"
  ca_backups :: "py list"
  ca_events :: "dict list"
  ca_plans :: dict
  ca_trace :: "py list"

type_synonym 'a act = "campaign \<Rightarrow> campaign \<times> 'a res"

definition act_return :: "'a \<Rightarrow> 'a act" where
  "act_return x = (\<lambda>c. (c, Inr x))"

definition act_bind :: "'a act \<Rightarrow> ('a \<Rightarrow> 'b act) \<Rightarrow> 'b act" where
  "act_bind m k = (\<lambda>c. case m c of (c', Inl e) \<Rightarrow> (c', Inl e) | (c', Inr x) \<Rightarrow> k x c')"

definition act_lift :: "'a res \<Rightarrow> 'a act" where
  "act_lift r = (\<lambda>c. (c, r))"

definition act_io :: "'a io \<Rightarrow> 'a act" where
  "act_io m = (\<lambda>c. case m (ca_files c) of (f, r) \<Rightarrow> (c\<lparr>ca_files := f\<rparr>, r))"

definition act_note :: "(campaign \<Rightarrow> campaign) \<Rightarrow> unit act" where
  "act_note g = (\<lambda>c. (g c, Inr ()))"

section \<open>One point\<close>

record StrainToolInput =
  sti_material_id :: string
  sti_base_dir :: string
  sti_relaxed_poscar :: string
  sti_potcar_path :: string
  sti_plan :: "(string \<times> flt list) list"
  sti_no_relax_retry :: bool
  sti_backups :: "string list"
  sti_state_payload :: dict

text \<open>\<open>se_strained\<close> applies a strain along an axis to the text of a structure file; \<open>se_process\<close> and
  \<open>se_relax\<close> are the VASP runs of a directory.\<close>

record strain_env =
  se_tool :: tool_env
  se_readers :: vasp_readers
  se_retry_env :: "string option"
  se_engine :: "(string \<Rightarrow> dict \<Rightarrow> dict \<Rightarrow> dict \<Rightarrow> dict \<Rightarrow> ParameterPlan res) option"
  se_strained :: "string \<Rightarrow> nat \<Rightarrow> flt \<Rightarrow> string res"
  se_process :: "string \<Rightarrow> fs \<Rightarrow> vasp_exit"
  se_relax :: "string \<Rightarrow> relax_config"

definition strain_te :: "strain_env \<Rightarrow> string \<Rightarrow> tool_env" where
  "strain_te se dir = (se_tool se)\<lparr>te_target_ka := Fin 50, te_process := se_process se dir\<rparr>"

definition add_result :: "dict \<Rightarrow> campaign \<Rightarrow> campaign" where
  "add_result row c = c\<lparr>ca_results := ca_results c @ [row]\<rparr>"

definition add_event :: "dict \<Rightarrow> campaign \<Rightarrow> campaign" where
  "add_event ev c = c\<lparr>ca_events := ca_events c @ [ev]\<rparr>"

definition add_plan :: "string \<Rightarrow> string \<Rightarrow> flt \<Rightarrow> ParameterPlan \<Rightarrow> campaign \<Rightarrow> campaign" where
  "add_plan sub direction s p c =
     c\<lparr>ca_plans := dset (ca_plans c) (''strain_loop::'' @ direction @ ''::'' @ signed_fixed 4 s @ ''::'' @ sub) (pp_dump p),
       ca_trace := ca_trace c @ [PDict
         [(''kind'', PStr ''parameter_plan''), (''stage'', PStr ''strain_loop''), (''substage'', PStr sub), (''direction'', PStr direction),
          (''strain'', PFloat s), (''source'', PStr (pp_source p)), (''confidence'', pp_confidence p), (''evidence'', PList (pp_evidence p))]]\<rparr>"

definition plan_substage ::
  "strain_env \<Rightarrow> string \<Rightarrow> dict \<Rightarrow> dict \<Rightarrow> dict \<Rightarrow> string \<Rightarrow> flt \<Rightarrow> (dict \<times> dict) act" where
  "plan_substage se sub payload incar kpoints direction s =
     (case se_engine se of
        None \<Rightarrow> act_return (incar, kpoints)
      | Some plan \<Rightarrow>
          act_bind (act_lift (policy_stage_planning_allowed (PDict payload) sub [''strain_loop''])) (\<lambda>allowed.
          if \<not> allowed then act_return (incar, kpoints)
          else act_bind (act_lift (plan sub payload incar kpoints
                 [(''task_scope'', PStr ''strain_loop''), (''direction'', PStr direction), (''strain'', PFloat s), (''substage'', PStr sub)])) (\<lambda>p.
               act_bind (act_note (add_plan sub direction s p)) (\<lambda>_.
                 act_return (dmerge incar (pp_incar_overrides p), dmerge kpoints (pp_kpoints_policy p))))))"

definition failed_row :: "string \<Rightarrow> flt \<Rightarrow> string \<Rightarrow> dict \<Rightarrow> dict" where
  "failed_row direction s folder d =
     [(''direction'', PStr direction), (''strain'', PFloat s), (''completed'', PBool False), (''folder'', PStr folder)] @ d"

definition nonempty_file :: "fs \<Rightarrow> string \<Rightarrow> py" where
  "nonempty_file f p = PBool (0 < file_size f p)"

definition relax_summary :: "string \<Rightarrow> flt \<Rightarrow> string \<Rightarrow> fs \<Rightarrow> dict \<Rightarrow> dict" where
  "relax_summary direction s relax_dir f summary = dmerge summary
     [(''stage'', PStr ''strain_relax''), (''task_scope'', PStr ''strain_relax''), (''direction'', PStr direction), (''strain'', PFloat s),
      (''relax_dir'', PStr relax_dir), (''has_poscar'', nonempty_file f (path_join relax_dir ''POSCAR'')),
      (''has_contcar'', nonempty_file f (path_join relax_dir ''CONTCAR''))]"

text \<open>The relaxation failed: an event and a row; the point ends.\<close>

definition relax_failed :: "string \<Rightarrow> flt \<Rightarrow> string \<Rightarrow> string \<Rightarrow> string \<Rightarrow> string \<Rightarrow> dict \<Rightarrow> bool act" where
  "relax_failed direction s folder err err_type action summary =
     act_bind (act_note (add_event (dmerge [(''direction'', PStr direction), (''strain'', PFloat s)] summary))) (\<lambda>_.
     act_bind (act_note (add_result (failed_row direction s folder
       [(''error'', PStr err), (''error_type'', dget summary ''error_type'' (PStr err_type)),
        (''recovery_action'', dget summary ''applied_action'' (PStr action)), (''has_poscar'', dget0 summary ''has_poscar''),
        (''has_contcar'', dget0 summary ''has_contcar''), (''recovery_summary'', PDict summary)]))) (\<lambda>_.
       act_return False))"

definition skip_event :: "string \<Rightarrow> flt \<Rightarrow> string \<Rightarrow> string \<Rightarrow> string \<Rightarrow> int \<Rightarrow> py \<Rightarrow> py \<Rightarrow> dict" where
  "skip_event direction s relax_dir err_type trigger retries has_poscar has_contcar =
     [(''stage'', PStr ''strain_relax''), (''task_scope'', PStr ''strain_relax''), (''direction'', PStr direction), (''strain'', PFloat s),
      (''relax_dir'', PStr relax_dir), (''error_type'', PStr err_type), (''trigger_pattern'', PStr trigger), (''retries_used'', PInt retries),
      (''has_poscar'', has_poscar), (''has_contcar'', has_contcar), (''applied_action'', PStr ''skip_point''), (''final_outcome'', PStr ''failed'')]"

definition contcar_missing :: "string \<Rightarrow> flt \<Rightarrow> string \<Rightarrow> string \<Rightarrow> int \<Rightarrow> campaign \<Rightarrow> campaign" where
  "contcar_missing direction s folder relax_dir retries c =
     (let poscar = nonempty_file (ca_files c) (path_join relax_dir ''POSCAR'') in
      add_result (failed_row direction s folder
        [(''error'', PStr ''CONTCAR_MISSING''), (''error_type'', PStr ''missing_output''), (''recovery_action'', PStr ''skip_point''),
         (''has_poscar'', poscar), (''has_contcar'', PBool False)])
      (add_event (skip_event direction s relax_dir ''missing_output'' ''CONTCAR_MISSING'' retries poscar (PBool False)) c))"

definition strain_relax_config :: "strain_env \<Rightarrow> StrainToolInput \<Rightarrow> string \<Rightarrow> relax_config" where
  "strain_relax_config se inputs relax_dir =
     (se_relax se relax_dir)\<lparr>rc_material_id := sti_material_id inputs,
        rc_retry_log_path := path_join (sti_base_dir inputs) ''vasp_relax_retry.log'', rc_check_convergence := True,
        rc_convergence_ok := default_convergence_ok, rc_max_retries := 3, rc_retry_on_nonzero_exit := True,
        rc_retry_on_nonconvergence := True, rc_extra_monitored_files := []\<rparr>"

text \<open>The strained structure, INCAR and KPOINTS of the relaxation.\<close>

definition lattice_constraints :: "string \<Rightarrow> string" where
  "lattice_constraints direction = (if direction = ''x'' then ''.FALSE. .TRUE. .FALSE.'' else ''.TRUE. .FALSE. .FALSE.'')"

definition prepare_relax :: "strain_env \<Rightarrow> StrainToolInput \<Rightarrow> string \<Rightarrow> flt \<Rightarrow> string \<Rightarrow> unit act" where
  "prepare_relax se inputs direction s relax_dir =
     (let te = strain_te se relax_dir;
          incar0 = build_incar_relax (''Strain('' @ direction @ '') '' @ signed_fixed 3 s @ '' Relax'') (Fin (1 / 10 ^ 6)) 3
                     (Some (lattice_constraints direction)) (te_consider_spin te) 200 600 300 12
      in act_bind (act_io (\<lambda>f. (f, bindR (read_text f (sti_relaxed_poscar inputs)) (\<lambda>t. se_strained se t (if direction = ''x'' then 0 else 1) s)))) (\<lambda>text.
         act_bind (act_io (io_change (\<lambda>f. write_file f (path_join relax_dir ''POSCAR'') text))) (\<lambda>_.
         act_bind (act_io (io_try_change (\<lambda>f. copy_file f (sti_potcar_path inputs) (path_join relax_dir ''POTCAR'')))) (\<lambda>_.
         act_bind (plan_substage se ''relax'' (sti_state_payload inputs) incar0 (default_kpoints te) direction s) (\<lambda>(incar, kpoints).
         act_bind (act_io (io_change (write_incar te relax_dir incar))) (\<lambda>_.
           act_io (write_kpoints te relax_dir (sti_material_id inputs) kpoints)))))))"

definition relax_point :: "strain_env \<Rightarrow> StrainToolInput \<Rightarrow> string \<Rightarrow> flt \<Rightarrow> string \<Rightarrow> string \<Rightarrow> bool act" where
  "relax_point se inputs direction s folder relax_dir =
     act_bind (prepare_relax se inputs direction s relax_dir) (\<lambda>_.
     act_bind (act_io (relax_run_io (strain_relax_config se inputs relax_dir) relax_dir
                         (relax_retry_enabled (sti_no_relax_retry inputs) (se_retry_env se)))) (\<lambda>ended.
     act_bind (act_io (io_read (\<lambda>f. f))) (\<lambda>f.
       case ended of
         Fatal text summary \<Rightarrow>
           relax_failed direction s folder (if text = [] then ''RELAX_RETRY_FATAL'' else text) ''retry_limit_reached'' ''skip_material''
             (relax_summary direction s relax_dir f summary)
       | Finished ok backups summary \<Rightarrow>
           (let noted = relax_summary direction s relax_dir f summary
            in act_bind (act_note (\<lambda>c. c\<lparr>ca_backups := ca_backups c @ map PStr backups\<rparr>)) (\<lambda>_.
               if \<not> ok then relax_failed direction s folder ''RELAX_FAILED'' ''relax_failed'' ''retry'' noted
               else if \<not> path_exists f (path_join relax_dir ''CONTCAR'') then
                 act_bind (act_lift (get_int noted ''retries_used'')) (\<lambda>retries.
                 act_bind (act_note (contcar_missing direction s folder relax_dir retries)) (\<lambda>_. act_return False))
               else act_bind (act_io (io_change (\<lambda>f. prune_dir_keep_files f relax_dir relax_keep))) (\<lambda>_. act_return True)))
       | Raised e \<Rightarrow> act_lift (Inl e))))"

definition vasp_failed :: "string \<Rightarrow> flt \<Rightarrow> string \<Rightarrow> dict \<Rightarrow> campaign \<Rightarrow> campaign" where
  "vasp_failed direction s folder summary =
     add_result (failed_row direction s folder
       [(''error'', dget0 summary ''error_summary''), (''error_type'', dget0 summary ''error_type''), (''recovery_summary'', PDict summary)])"

text \<open>\<open>run_vasp\<close> in a directory; a failure is summarized and ends the point.\<close>

definition run_substage :: "strain_env \<Rightarrow> string \<Rightarrow> flt \<Rightarrow> string \<Rightarrow> string \<Rightarrow> bool \<Rightarrow> string \<Rightarrow> bool act" where
  "run_substage se direction s folder dir check default_error =
     act_bind (act_io (run_vasp_io (strain_te se dir) dir check)) (\<lambda>ok.
     if ok then act_return True
     else
       act_bind (act_io (io_read (\<lambda>f. summarize_vasp_failure f dir ''strain_loop'' default_error None))) (\<lambda>summary.
       act_bind (act_note (vasp_failed direction s folder summary)) (\<lambda>_. act_return False)))"

definition scf_point :: "strain_env \<Rightarrow> StrainToolInput \<Rightarrow> string \<Rightarrow> flt \<Rightarrow> string \<Rightarrow> string \<Rightarrow> string \<Rightarrow> (flt \<times> flt) option act" where
  "scf_point se inputs direction s folder relax_dir scf_dir =
     (let te = strain_te se scf_dir;
          incar0 = build_incar_scf (''Strain('' @ direction @ '') '' @ signed_fixed 3 s @ '' SCF'') (te_consider_spin te) (Fin (1 / 10 ^ 6)) 600 300 12 True True
      in act_bind (act_io (io_try_change (\<lambda>f. copy_file f (path_join relax_dir ''CONTCAR'') (path_join scf_dir ''POSCAR'')))) (\<lambda>_.
         act_bind (act_io (io_try_change (\<lambda>f. copy_file f (sti_potcar_path inputs) (path_join scf_dir ''POTCAR'')))) (\<lambda>_.
         act_bind (plan_substage se ''scf'' (sti_state_payload inputs) incar0 (default_kpoints te) direction s) (\<lambda>(incar, kpoints).
         act_bind (act_io (io_change (write_incar te scf_dir incar))) (\<lambda>_.
         act_bind (act_io (write_kpoints te scf_dir (sti_material_id inputs) kpoints)) (\<lambda>_.
         act_bind (run_substage se direction s folder scf_dir True ''SCF_FAILED'') (\<lambda>ok.
         if \<not> ok then act_return None
         else
           act_bind (act_io (\<lambda>f. (f, read_final_total_energy (se_readers se) f scf_dir))) (\<lambda>etot.
           act_bind (act_io (\<lambda>f. (f, read_vacuum_level (se_readers se) f (path_join scf_dir ''LOCPOT'')))) (\<lambda>vacuum.
             act_return (Some (etot, vacuum)))))))))))"

definition band_point :: "strain_env \<Rightarrow> StrainToolInput \<Rightarrow> string \<Rightarrow> flt \<Rightarrow> string \<Rightarrow> string \<Rightarrow> string \<Rightarrow> bool act" where
  "band_point se inputs direction s folder scf_dir band_dir =
     (let te = strain_te se band_dir;
          incar0 = build_incar_band (''Strain('' @ direction @ '') '' @ signed_fixed 3 s @ '' Band'') (te_consider_spin te) (Fin (1 / 10 ^ 6)) 600 300 12
      in act_bind (act_io (io_try_change (\<lambda>f. copy_file f (path_join scf_dir ''POSCAR'') (path_join band_dir ''POSCAR'')))) (\<lambda>_.
         act_bind (act_io (io_try_change (\<lambda>f. copy_file f (sti_potcar_path inputs) (path_join band_dir ''POTCAR'')))) (\<lambda>_.
         act_bind (act_io (io_change (link_file (path_join scf_dir ''CHGCAR'') (path_join band_dir ''CHGCAR'')))) (\<lambda>_.
         act_bind (act_io (io_read (\<lambda>f. read_chgcar_compatible_incar_overrides (vr_incar (se_readers se)) f folder))) (\<lambda>overrides.
         act_bind (plan_substage se ''band'' (sti_state_payload inputs) (dmerge incar0 overrides) [(''line_mode_density'', PInt 40)] direction s)
           (\<lambda>(incar, kpoints).
         act_bind (act_io (io_change (write_incar te band_dir (dmerge incar overrides)))) (\<lambda>_.
         act_bind (act_lift (line_density 40 kpoints)) (\<lambda>n.
         act_bind (act_io (io_change (\<lambda>f. write_band_kpoints f (path_join band_dir ''KPOINTS'') n))) (\<lambda>_.
           run_substage se direction s folder band_dir False ''BAND_FAILED'')))))))))"

definition take_reference :: "flt \<Rightarrow> band_edges \<Rightarrow> campaign \<Rightarrow> campaign" where
  "take_reference s edges c =
     (if ca_ref c = None \<and> flt_le (flt_abs s) (Fin (1 / 10 ^ 15)) then c\<lparr>ca_ref := Some edges\<rparr> else c)"

text \<open>The energies of the point, at the k-points of the unstrained reference of its direction.\<close>

definition edges_point :: "string \<Rightarrow> flt \<Rightarrow> string \<Rightarrow> string \<Rightarrow> string \<Rightarrow> flt \<times> flt \<Rightarrow> unit act" where
  "edges_point direction s folder scf_dir band_dir energies =
     act_bind (act_io (\<lambda>f. (f, read_eigenval f (path_join band_dir ''EIGENVAL'')))) (\<lambda>ev.
     act_bind (act_lift (find_band_edges_by_occupancy ev)) (\<lambda>edges.
     act_bind (act_note (take_reference s edges)) (\<lambda>_.
     act_bind (\<lambda>c. (c, Inr (ca_ref c))) (\<lambda>ref.
       case ref of
         None \<Rightarrow> act_lift (Inl (RuntimeError (''Missing 0% reference for direction='' @ direction)))
       | Some r \<Rightarrow>
           act_bind (act_lift (fixed_edges ev r)) (\<lambda>es.
           act_bind (act_note (add_result (point_row direction s folder (fst energies) (snd energies) edges r es))) (\<lambda>_.
           act_bind (act_io (io_change (\<lambda>f. prune_dir_keep_files f scf_dir [''INCAR'', ''KPOINTS'', ''POSCAR'', ''POTCAR'']))) (\<lambda>_.
             act_io (io_change (\<lambda>f. prune_dir_keep_files f band_dir band_keep)))))))))"

definition point_steps :: "strain_env \<Rightarrow> StrainToolInput \<Rightarrow> string \<Rightarrow> flt \<Rightarrow> string \<Rightarrow> unit act" where
  "point_steps se inputs direction s folder =
     (let relax_dir = path_join folder ''01_relax''; scf_dir = path_join folder ''02_scf''; band_dir = path_join folder ''03_band''
      in act_bind (relax_point se inputs direction s folder relax_dir) (\<lambda>relaxed.
         if \<not> relaxed then act_return ()
         else act_bind (scf_point se inputs direction s folder relax_dir scf_dir) (\<lambda>energies.
           case energies of
             None \<Rightarrow> act_return ()
           | Some ts \<Rightarrow> act_bind (band_point se inputs direction s folder scf_dir band_dir) (\<lambda>ok.
               if \<not> ok then act_return () else edges_point direction s folder scf_dir band_dir ts))))"

text \<open>An exception of a point becomes an event and a row.\<close>

definition point_raised :: "string \<Rightarrow> flt \<Rightarrow> string \<Rightarrow> py_error \<Rightarrow> campaign \<Rightarrow> campaign" where
  "point_raised direction s folder e c =
     (let relax_dir = path_join folder ''01_relax''; poscar = nonempty_file (ca_files c) (path_join relax_dir ''POSCAR'');
          contcar = nonempty_file (ca_files c) (path_join relax_dir ''CONTCAR'')
      in add_result (failed_row direction s folder
           [(''error'', PStr (exc_text e)), (''error_type'', PStr ''unknown_failure''), (''recovery_action'', PStr ''skip_point''),
            (''has_poscar'', poscar), (''has_contcar'', contcar)])
         (add_event (skip_event direction s relax_dir ''unknown_failure'' (exc_text e) 0 poscar contcar) c))"

definition calculate_point :: "strain_env \<Rightarrow> StrainToolInput \<Rightarrow> string \<Rightarrow> string \<Rightarrow> flt \<Rightarrow> campaign \<Rightarrow> campaign" where
  "calculate_point se inputs base direction s c =
     (let folder = point_folder base direction s;
          dirs = map (path_join folder) [''01_relax'', ''02_scf'', ''03_band''];
          c1 = c\<lparr>ca_files := fold (\<lambda>d f. makedirs f d) dirs (ca_files c)\<rparr>
      in case point_steps se inputs direction s folder c1 of
           (c2, Inl e) \<Rightarrow> point_raised direction s folder e c2
         | (c2, Inr _) \<Rightarrow> c2)"

section \<open>The campaign\<close>

definition skip_point :: "string \<Rightarrow> string \<Rightarrow> campaign \<Rightarrow> campaign" where
  "skip_point base direction c =
     (if ca_ref c = None then c\<lparr>ca_ref := load_strain_reference (ca_files c) base direction\<rparr> else c)"

fun run_points :: "strain_env \<Rightarrow> StrainToolInput \<Rightarrow> string \<Rightarrow> point_key list \<Rightarrow> string \<Rightarrow> flt list \<Rightarrow> campaign \<Rightarrow> campaign" where
  "run_points se inputs base completed direction [] c = c"
| "run_points se inputs base completed direction (s # ss) c =
     run_points se inputs base completed direction ss
       (if row_index (map (\<lambda>k. (k, 0)) completed) (direction, round_point s) \<noteq> None then skip_point base direction c
        else calculate_point se inputs base direction s c)"

definition run_direction :: "strain_env \<Rightarrow> StrainToolInput \<Rightarrow> string \<Rightarrow> point_key list \<Rightarrow> string \<Rightarrow> campaign \<Rightarrow> campaign" where
  "run_direction se inputs base completed direction c =
     run_points se inputs base completed direction (ordered_strains (planned_strains (sti_plan inputs) direction))
       (c\<lparr>ca_ref := load_strain_reference (ca_files c) base direction\<rparr>)"

definition key_if :: "(dict \<Rightarrow> bool) \<Rightarrow> py \<Rightarrow> point_key list res" where
  "key_if P v =
     (case v of PDict row \<Rightarrow> Inr (case strain_key row of Some k \<Rightarrow> if P row then [k] else [] | None \<Rightarrow> []) | _ \<Rightarrow> Inl (AttributeError ''get''))"

definition keys_of :: "dict list \<Rightarrow> point_key list" where
  "keys_of rows = remdups (List.map_filter strain_key rows)"

record tally =
  ta_completed :: "point_key list"
  ta_failed :: "point_key list"
  ta_missing :: "point_key list"
  ta_historical :: "point_key list"

definition plan_keys :: "StrainToolInput \<Rightarrow> string \<Rightarrow> point_key list" where
  "plan_keys inputs direction = map (Pair direction) (planned_strains (sti_plan inputs) direction)"

definition tally_points :: "StrainToolInput \<Rightarrow> dict list \<Rightarrow> point_key list \<Rightarrow> tally" where
  "tally_points inputs rows historical =
     (let active = plan_keys inputs ''x'' @ plan_keys inputs ''y'';
          completed = filter (\<lambda>k. k \<in> set active) (keys_of (filter point_done rows));
          failed = filter (\<lambda>k. k \<in> set active) (keys_of (filter (\<lambda>r. \<not> point_done r) rows))
      in \<lparr>ta_completed = completed, ta_failed = failed,
          ta_missing = filter (\<lambda>k. k \<notin> set completed \<and> k \<notin> set failed) active, ta_historical = historical\<rparr>)"

definition in_dir :: "string \<Rightarrow> point_key list \<Rightarrow> int" where
  "in_dir direction keys = int (length (filter (\<lambda>k. fst k = direction) keys))"

definition direction_summary :: "StrainToolInput \<Rightarrow> dict list \<Rightarrow> tally \<Rightarrow> string \<Rightarrow> (dict \<times> bool) res" where
  "direction_summary inputs rows t direction =
     bindR (direction_fit_readiness (filter point_done rows) direction) (\<lambda>r.
       Inr ([(''completed_points'', PInt (int (length (filter (\<lambda>row. point_done row \<and> dget0 row ''direction'' = PStr direction) rows)))),
             (''failed_points'', PInt (in_dir direction (ta_failed t))), (''missing_points'', PInt (in_dir direction (ta_missing t))),
             (''planned_points'', PInt (int (length (plan_keys inputs direction)))),
             (''historical_failed_points'', PInt (in_dir direction (ta_historical t))),
             (''has_zero_reference'', PBool (fr_zero r)), (''has_negative_side'', PBool (fr_negative r)),
             (''has_positive_side'', PBool (fr_positive r)), (''fit_ready'', PBool (fr_ready r))], fr_ready r))"

definition recovery_actions :: "dict list \<Rightarrow> string list" where
  "recovery_actions events =
     sort (remdups (List.map_filter (\<lambda>ev. let a = py_or (dget0 ev ''applied_action'') (dget0 ev ''recovery_action'')
                                           in if truthy a then Some (py_str a) else None) events))"

definition strain_report :: "StrainToolInput \<Rightarrow> campaign \<Rightarrow> dict list \<Rightarrow> tally \<Rightarrow> int \<Rightarrow> dict res" where
  "strain_report inputs c rows t attempts =
     bindR (direction_summary inputs rows t ''x'') (\<lambda>(dx, rx).
     bindR (direction_summary inputs rows t ''y'') (\<lambda>(dy, ry).
       let failed = PInt (int (length (ta_failed t))); missing = PInt (int (length (ta_missing t)));
           complete = (rx \<and> ry \<and> ta_failed t = [] \<and> ta_missing t = [])
       in Inr
         [(''strain_data'', PList (map PDict rows)), (''relax_retry_backups'', PList (ca_backups c)), (''strain_completed'', PBool complete),
          (''strain_summary'', PDict
             [(''completed_points'', PInt (int (length (filter point_done rows)))), (''failed_points'', failed), (''missing_points'', missing),
              (''missing_keys'', PList (serialize_keys (ta_missing t))), (''active_plan_completed_points'', PInt (int (length (ta_completed t)))),
              (''active_plan_failed_points'', failed), (''active_plan_missing_points'', missing),
              (''active_plan_failed_keys'', PList (serialize_keys (ta_failed t))), (''active_plan_missing_keys'', PList (serialize_keys (ta_missing t))),
              (''historical_failed_points'', PInt (int (length (ta_historical t)))), (''historical_failed_keys'', PList (serialize_keys (ta_historical t))),
              (''historical_failure_attempts'', PInt attempts), (''strain_completed'', PBool complete),
              (''per_direction_summary'', PDict [(''x'', PDict dx), (''y'', PDict dy)]), (''recovery_events'', PList (map PDict (ca_events c))),
              (''strain_relax_recovery_event_count'', PInt (int (length (ca_events c)))),
              (''strain_relax_recovery_actions'', PList (map PStr (recovery_actions (ca_events c))))]),
          (''services'', PDict [(''parameter_plans'', PDict (ca_plans c)), (''retrieval_trace'', PList (ca_trace c))])]))"

text \<open>The rows known before the run, those recovered from the files included.\<close>

definition known_rows :: "strain_env \<Rightarrow> StrainToolInput \<Rightarrow> dict \<Rightarrow> fs \<Rightarrow> string \<Rightarrow> py list res" where
  "known_rows se inputs physics f base =
     bindR (get_list (sti_state_payload inputs) ''strain_data'') (\<lambda>own.
     bindR (if own = [] then get_list physics ''strain_data'' else Inr own) (\<lambda>existing.
       let disk = recover_completed_rows (se_readers se) f base
       in if disk = [] then Inr existing else bindR (merge_strain_rows existing disk) (\<lambda>rows. Inr (map PDict rows))))"

definition failed_history :: "dict \<Rightarrow> py list \<Rightarrow> dict list \<Rightarrow> (point_key list \<times> int) res" where
  "failed_history prior existing failures =
     bindR (bindR (get_list prior ''historical_failed_keys'') (mapR (key_if (\<lambda>_. True)))) (\<lambda>earlier.
     bindR (mapR (key_if (\<lambda>row. \<not> point_done row)) existing) (\<lambda>seeded.
     bindR (to_int (py_or (dget prior ''historical_failure_attempts'' (dget prior ''historical_failed_points'' (PInt 0))) (PInt 0))) (\<lambda>attempts.
       let old_failures = filter (\<lambda>v. case v of PDict row \<Rightarrow> \<not> point_done row | _ \<Rightarrow> False) existing;
           n = int (length failures)
       in Inr (remdups (concat earlier @ (if prior = [] then concat seeded else []) @ keys_of failures),
               if prior = [] then int (length old_failures) + n else attempts + n))))"

definition strain_execute :: "strain_env \<Rightarrow> StrainToolInput \<Rightarrow> dict io" where
  "strain_execute se inputs =
     (let base = path_join (sti_base_dir inputs) ''05_strain''
      in io_bind (io_lift (get_dict (sti_state_payload inputs) ''physics_results'')) (\<lambda>physics.
         io_bind (io_lift (get_dict (sti_state_payload inputs) ''diagnostics'')) (\<lambda>diagnostics.
         io_bind (io_lift (get_dict diagnostics ''strain_summary'')) (\<lambda>prior.
         io_bind (io_change (\<lambda>f. makedirs f base)) (\<lambda>_.
         io_bind (\<lambda>f. (f, known_rows se inputs physics f base)) (\<lambda>existing.
         io_bind (io_lift (mapR (key_if point_done) existing)) (\<lambda>done.
         io_bind (\<lambda>f.
           let c = run_direction se inputs base (concat done) ''y'' (run_direction se inputs base (concat done) ''x''
                     \<lparr>ca_files = f, ca_ref = None, ca_results = [], ca_backups = map PStr (sti_backups inputs), ca_events = [], ca_plans = [], ca_trace = []\<rparr>)
           in (ca_files c, Inr c)) (\<lambda>c.
         io_bind (io_lift (merge_strain_rows existing (ca_results c))) (\<lambda>rows.
         io_bind (io_lift (failed_history prior existing (filter (\<lambda>r. \<not> point_done r) (ca_results c)))) (\<lambda>(historical, attempts).
           io_lift (strain_report inputs c rows (tally_points inputs rows historical) attempts)))))))))))"

section \<open>The tool\<close>

definition default_to :: "string \<Rightarrow> py \<Rightarrow> dict \<Rightarrow> dict" where
  "default_to k v d = (if map_of d k = None then d @ [(k, v)] else d)"

definition is_zero :: "py \<Rightarrow> bool" where
  "is_zero v \<longleftrightarrow> v \<in> {PInt 0, PFloat (Fin 0), PBool False}"

definition int_of :: "py \<Rightarrow> int res" where
  "int_of v = to_int (py_or v (PInt 0))"

definition completed_summary :: "dict \<Rightarrow> int \<Rightarrow> int \<Rightarrow> dict res" where
  "completed_summary summary completed failed =
     (let s1 = default_to ''completed_points'' (PInt completed) summary;
          s2 = default_to ''active_plan_failed_points'' (dget s1 ''failed_points'' (PInt failed)) s1;
          s3 = default_to ''active_plan_missing_points'' (dget s2 ''missing_points'' (PInt 0)) s2
      in bindR (int_of (dget0 s3 ''active_plan_failed_points'')) (\<lambda>nf.
         bindR (int_of (dget0 s3 ''active_plan_missing_points'')) (\<lambda>nm.
         let s4 = default_to ''historical_failed_points'' (PInt failed)
                    (default_to ''missing_points'' (PInt nm) (default_to ''failed_points'' (PInt nf) s3))
         in bindR (int_of (dget0 s4 ''historical_failed_points'')) (\<lambda>nh.
            let s5 = default_to ''historical_failure_attempts'' (PInt nh) s4
            in Inr (default_to ''strain_completed''
                 (PBool (is_zero (dget0 s5 ''active_plan_failed_points'') \<and> is_zero (dget0 s5 ''active_plan_missing_points''))) s5)))))"

definition incomplete :: "int \<Rightarrow> string \<Rightarrow> string list" where
  "incomplete n what = on (0 < n) (''strain_campaign_incomplete:'' @ show_int n @ ''_'' @ what @ ''_points'')"

definition strain_build_output :: "StrainToolInput \<Rightarrow> fs \<Rightarrow> dict \<Rightarrow> ToolOutput res" where
  "strain_build_output inputs f raw =
     bindR (bindR (get_list raw ''strain_data'') (mapR (\<lambda>v. case v of PDict row \<Rightarrow> Inr row | _ \<Rightarrow> Inl (AttributeError ''get'')))) (\<lambda>rows.
     bindR (get_dict raw ''strain_summary'') (\<lambda>given.
     bindR (completed_summary given (int (length (filter point_done rows))) (int (length (filter (\<lambda>r. \<not> point_done r) rows)))) (\<lambda>summary.
     bindR (get_list raw ''warnings'') (\<lambda>warnings0.
     bindR (get_list raw ''errors'') (\<lambda>errors0.
     bindR (int_of (dget0 summary ''active_plan_failed_points'')) (\<lambda>nf.
     bindR (int_of (dget0 summary ''active_plan_missing_points'')) (\<lambda>nm.
     let ready = truthy (dget0 summary ''strain_completed''); found = map PStr (incomplete nf ''failed'' @ incomplete nm ''missing'');
         unready = map PStr (on (\<not> ready \<and> errors0 @ found = []) ''strain_campaign_not_fit_ready'');
         errors = dedupe (errors0 @ found @ unready)
     in bindR (errors_text [(''errors'', PList errors)]) (\<lambda>error_summary.
       Inr \<lparr>to_success = (errors = [] \<and> ready), to_warnings = dedupe (warnings0 @ found @ unready),
            to_key_summary = [(''completed_points'', dget0 summary ''completed_points''), (''failed_points'', PInt nf), (''missing_points'', PInt nm),
              (''strain_completed'', PBool ready)],
            to_artifact_paths = build_artifact_map [path_join (sti_base_dir inputs) ''05_strain''],
            to_error_summary = error_summary, to_state_updates = raw\<rparr>))))))))"

definition strain_tool_run :: "strain_env \<Rightarrow> StrainToolInput \<Rightarrow> fs \<Rightarrow> fs \<times> ToolOutput" where
  "strain_tool_run se inputs = tool_run (strain_execute se inputs) (strain_build_output inputs)"

section \<open>Merging loses no completed point\<close>

text \<open>The loop's invariant: the index knows the place of every key among the merged rows, every row seen so far is
  represented, and a completed one by a completed one.\<close>

definition index_sound :: "dict list \<Rightarrow> (point_key \<times> nat) list \<Rightarrow> bool" where
  "index_sound merged idx \<longleftrightarrow> (\<forall>k i. row_index idx k = Some i \<longrightarrow> i < length merged \<and> strain_key (merged ! i) = Some k)"

definition index_full :: "dict list \<Rightarrow> (point_key \<times> nat) list \<Rightarrow> bool" where
  "index_full merged idx \<longleftrightarrow>
     (\<forall>i k. i < length merged \<longrightarrow> strain_key (merged ! i) = Some k \<longrightarrow> snd k \<noteq> NaN \<longrightarrow> row_index idx k = Some i)"

definition represents :: "dict list \<Rightarrow> (point_key \<times> nat) list \<Rightarrow> dict \<Rightarrow> bool" where
  "represents merged idx row \<longleftrightarrow>
     (\<forall>k. strain_key row = Some k \<longrightarrow> snd k \<noteq> NaN \<longrightarrow> (\<exists>i. row_index idx k = Some i \<and> (point_done row \<longrightarrow> point_done (merged ! i))))"

definition merge_inv :: "dict list \<Rightarrow> (point_key \<times> nat) list \<Rightarrow> dict list \<Rightarrow> bool" where
  "merge_inv merged idx seen \<longleftrightarrow>
     index_sound merged idx \<and> index_full merged idx \<and> (\<forall>row\<in>set seen. represents merged idx row) \<and> set merged \<subseteq> set seen"

lemma row_index_Cons: "row_index ((k, n) # idx) j = (if j = k \<and> snd j \<noteq> NaN then Some n else row_index idx j)"
  by (simp add: row_index_def)

lemma represents_grow:
  assumes "index_sound merged idx" "represents merged idx row"
  shows "represents (merged @ [c]) idx row"
  using assms unfolding represents_def index_sound_def by (metis nth_append)

lemma merge_inv_step_plain:
  assumes "merge_inv merged idx seen" "strain_key c = None"
  shows "merge_inv (merged @ [c]) idx (seen @ [c])"
proof -
  from assms have a: "index_sound merged idx" "index_full merged idx" "\<forall>row\<in>set seen. represents merged idx row" "set merged \<subseteq> set seen"
    by (simp_all add: merge_inv_def)
  have "index_sound (merged @ [c]) idx" using a(1) unfolding index_sound_def by (metis length_append_singleton less_SucI nth_append)
  moreover have "index_full (merged @ [c]) idx"
    using a(2) assms(2) unfolding index_full_def by (metis length_append_singleton less_SucE nth_append nth_append_length option.distinct(1))
  moreover have "represents (merged @ [c]) idx c" by (simp add: represents_def assms(2))
  ultimately show ?thesis using represents_grow [OF a(1)] a(3,4) by (auto simp: merge_inv_def)
qed

lemma merge_inv_step_new:
  assumes "merge_inv merged idx seen" "strain_key c = Some k" "row_index idx k = None"
  shows "merge_inv (merged @ [c]) ((k, length merged) # idx) (seen @ [c])"
proof -
  let ?idx = "(k, length merged) # idx"
  from assms have a: "index_sound merged idx" "index_full merged idx" "\<forall>row\<in>set seen. represents merged idx row" "set merged \<subseteq> set seen"
    by (simp_all add: merge_inv_def)
  have "i < length (merged @ [c]) \<and> strain_key ((merged @ [c]) ! i) = Some j" if "row_index ?idx j = Some i" for i j
  proof (cases "j = k \<and> snd j \<noteq> NaN")
    case True
    with that assms(2) show ?thesis by (auto simp: row_index_Cons split: if_splits)
  next
    case False
    with that have "row_index idx j = Some i" by (auto simp: row_index_Cons)
    with a(1) have "i < length merged" "strain_key (merged ! i) = Some j" unfolding index_sound_def by blast+
    then show ?thesis by (simp add: nth_append)
  qed
  then have "index_sound (merged @ [c]) ?idx" by (simp add: index_sound_def)
  moreover have "row_index ?idx j = Some i"
    if "i < length (merged @ [c])" "strain_key ((merged @ [c]) ! i) = Some j" "snd j \<noteq> NaN" for i j
  proof (cases "i < length merged")
    case True
    with that have "strain_key (merged ! i) = Some j" by (simp add: nth_append)
    with True that(3) a(2) have "row_index idx j = Some i" unfolding index_full_def by blast
    with assms(3) show ?thesis by (auto simp: row_index_Cons)
  next
    case False
    with that assms(2) show ?thesis by (simp add: row_index_Cons less_Suc_eq)
  qed
  then have "index_full (merged @ [c]) ?idx" by (simp add: index_full_def)
  moreover have "represents (merged @ [c]) ?idx row" if "row \<in> set seen" for row
    unfolding represents_def
  proof (intro allI impI)
    fix j assume j: "strain_key row = Some j" "snd j \<noteq> NaN"
    with a(3) that obtain i where i: "row_index idx j = Some i" "point_done row \<longrightarrow> point_done (merged ! i)"
      unfolding represents_def by blast
    with a(1) have "i < length merged" unfolding index_sound_def by blast
    with i assms(3) show "\<exists>i. row_index ?idx j = Some i \<and> (point_done row \<longrightarrow> point_done ((merged @ [c]) ! i))"
      by (auto simp: row_index_Cons nth_append)
  qed
  moreover have "represents (merged @ [c]) ?idx c" using assms(2) by (simp add: represents_def row_index_Cons)
  ultimately show ?thesis using a(4) by (auto simp: merge_inv_def)
qed

lemma merge_inv_step_old:
  assumes "merge_inv merged idx seen" "strain_key c = Some k" "row_index idx k = Some i"
  shows "merge_inv (if point_done c \<or> \<not> point_done (merged ! i) then merged[i := c] else merged) idx (seen @ [c])"
proof -
  let ?m = "if point_done c \<or> \<not> point_done (merged ! i) then merged[i := c] else merged"
  from assms have a: "index_sound merged idx" "index_full merged idx" "\<forall>row\<in>set seen. represents merged idx row" "set merged \<subseteq> set seen"
    by (simp_all add: merge_inv_def)
  from a(1) assms(3) have i: "i < length merged" "strain_key (merged ! i) = Some k" unfolding index_sound_def by blast+
  have keys: "strain_key (?m ! j) = strain_key (merged ! j)" if "j < length merged" for j
    using i assms(2) that by (cases "i = j") simp_all
  have better: "point_done (?m ! j)" if "j < length merged" "point_done (merged ! j)" for j
    using that by (cases "i = j") auto
  have len: "length ?m = length merged" by simp
  have "index_sound ?m idx" using a(1) keys unfolding index_sound_def len by metis
  moreover have "index_full ?m idx" using a(2) keys unfolding index_full_def len by metis
  moreover have "represents ?m idx row" if "row \<in> set seen" for row
    using a(1) a(3) that better unfolding represents_def index_sound_def by metis
  moreover have "represents ?m idx c" using assms(2,3) i(1) by (auto simp: represents_def)
  moreover have "set ?m \<subseteq> set (seen @ [c])" using a(4) set_update_subset_insert [of merged i c] by auto
  ultimately show ?thesis by (simp only: merge_inv_def) auto
qed

lemma merge_loop_inv: "merge_inv merged idx seen \<Longrightarrow> \<exists>idx'. merge_inv (merge_loop merged idx cs) idx' (seen @ cs)"
proof (induction cs arbitrary: merged idx seen)
  case (Cons c cs)
  show ?case
  proof (cases "strain_key c")
    case None
    from Cons.IH [OF merge_inv_step_plain [OF Cons.prems None]] None show ?thesis by simp
  next
    case (Some k)
    show ?thesis
    proof (cases "row_index idx k")
      case None
      from Cons.IH [OF merge_inv_step_new [OF Cons.prems Some None]] Some None show ?thesis by simp
    next
      case i: (Some i)
      from Cons.IH [OF merge_inv_step_old [OF Cons.prems Some i]] Some i show ?thesis by simp
    qed
  qed
qed auto

lemma merge_loop_result: "\<exists>idx. merge_inv (merge_loop [] [] cs) idx cs"
  using merge_loop_inv [of "[]" "[]" "[]" cs] by (simp add: merge_inv_def index_sound_def index_full_def row_index_def)

text \<open>C31: Merging keeps every strain point and loses no completed one: each point of the given rows is represented by
  exactly one row of the result, which is one of the given rows, and a point that was completed in any of
  them stays completed, in whatever order failed repetitions follow. (A strain that is not a number stands for no point.)\<close>

theorem merge_keeps_completed:
  assumes "mapR as_row existing = Inr old" "merge_strain_rows existing new = Inr rows"
    and "row \<in> set (old @ new)" "strain_key row = Some k" "snd k \<noteq> NaN"
  shows "(\<exists>!i. i < length rows \<and> strain_key (rows ! i) = Some k)
    \<and> (\<exists>r\<in>set rows. r \<in> set (old @ new) \<and> strain_key r = Some k \<and> (point_done row \<longrightarrow> point_done r))"
proof -
  have rows: "rows = merge_loop [] [] (old @ new)" using assms(1,2) by (simp add: merge_strain_rows_def)
  obtain idx where inv: "index_sound rows idx" "index_full rows idx" "\<forall>r\<in>set (old @ new). represents rows idx r" "set rows \<subseteq> set (old @ new)"
    using merge_loop_result [of "old @ new"] by (auto simp: merge_inv_def rows)
  from inv(3) assms(3-5) obtain i where i: "row_index idx k = Some i" "point_done row \<longrightarrow> point_done (rows ! i)"
    unfolding represents_def by blast
  with inv(1) have at: "i < length rows" "strain_key (rows ! i) = Some k" unfolding index_sound_def by blast+
  have "j = i" if "j < length rows" "strain_key (rows ! j) = Some k" for j
    using inv(2) that assms(5) i(1) unfolding index_full_def by fastforce
  with at have "\<exists>!i. i < length rows \<and> strain_key (rows ! i) = Some k" by blast
  moreover have "rows ! i \<in> set (old @ new)" using at(1) inv(4) nth_mem by blast
  ultimately show ?thesis using at i(2) nth_mem by blast
qed

section \<open>Every planned point gets a row\<close>

text \<open>\<open>quiet m\<close>: the step adds no row. \<open>records k goes m\<close>: unless it raises, the step ends the point with one row of
  the key \<open>k\<close>, or goes on and has added none.\<close>

definition quiet :: "'a act \<Rightarrow> bool" where
  "quiet m \<longleftrightarrow> (\<forall>c. ca_results (fst (m c)) = ca_results c)"

definition one_more :: "point_key \<Rightarrow> campaign \<Rightarrow> campaign \<Rightarrow> bool" where
  "one_more k c c' \<longleftrightarrow> (\<exists>row. ca_results c' = ca_results c @ [row] \<and> strain_key row = Some k)"

definition settles :: "point_key \<Rightarrow> ('a \<Rightarrow> bool) \<Rightarrow> campaign \<Rightarrow> campaign \<times> 'a res \<Rightarrow> bool" where
  "settles k goes c r \<longleftrightarrow>
     (case r of
        (c', Inl _) \<Rightarrow> ca_results c' = ca_results c
      | (c', Inr x) \<Rightarrow> if goes x then ca_results c' = ca_results c else one_more k c c')"

definition records :: "point_key \<Rightarrow> ('a \<Rightarrow> bool) \<Rightarrow> 'a act \<Rightarrow> bool" where
  "records k goes m \<longleftrightarrow> (\<forall>c. settles k goes c (m c))"

named_theorems quiet_steps

lemma quiet_simps [quiet_steps]:
  "quiet (act_return x)" "quiet (act_lift r)" "quiet (act_io m)"
  by (simp_all add: quiet_def act_return_def act_lift_def act_io_def split: prod.splits)

lemma quiet_note [quiet_steps]: "(\<And>c. ca_results (g c) = ca_results c) \<Longrightarrow> quiet (act_note g)"
  by (simp add: quiet_def act_note_def)

lemma quiet_state [quiet_steps]: "quiet (\<lambda>c. (c, r c))"
  by (simp add: quiet_def)

lemma quiet_bind [quiet_steps]: "quiet m \<Longrightarrow> (\<And>x. quiet (f x)) \<Longrightarrow> quiet (act_bind m f)"
  by (auto simp: quiet_def act_bind_def split: prod.splits sum.splits) (metis fst_conv)+

lemma records_quiet: "quiet m \<Longrightarrow> (\<And>x. goes x) \<Longrightarrow> records k goes m"
  unfolding quiet_def records_def settles_def by (auto split: prod.split sum.split) (metis fst_conv)+

lemma settles_same: "ca_results c' = ca_results c \<Longrightarrow> settles k goes c' r \<longleftrightarrow> settles k goes c r"
  by (auto simp: settles_def one_more_def split: prod.splits sum.splits)

lemma records_bind: "quiet m \<Longrightarrow> (\<And>x. records k goes (f x)) \<Longrightarrow> records k goes (act_bind m f)"
  unfolding records_def
proof
  fix c
  assume m: "quiet m" and f: "\<And>x. \<forall>c. settles k goes c (f x c)"
  obtain c' r where r: "m c = (c', r)" by (cases "m c")
  with m have same: "ca_results c' = ca_results c" unfolding quiet_def by (metis fst_conv)
  show "settles k goes c (act_bind m f c)"
  proof (cases r)
    case Inl
    with same show ?thesis by (simp add: act_bind_def r settles_def)
  next
    case (Inr x)
    from f [of x] have "settles k goes c' (f x c')" by blast
    with settles_same [OF same, of k goes "f x c'"] Inr show ?thesis by (simp add: act_bind_def r)
  qed
qed

lemma records_then:
  assumes "records k goes m" "\<And>x. goes x \<Longrightarrow> records k goes' (f x)" "\<And>x. \<not> goes x \<Longrightarrow> f x = act_return y" "\<not> goes' y"
  shows "records k goes' (act_bind m f)"
  unfolding records_def
proof
  fix c
  obtain c' r where m: "m c = (c', r)" by (cases "m c")
  with assms(1) have r: "settles k goes c (c', r)" unfolding records_def by metis
  show "settles k goes' c (act_bind m f c)"
  proof (cases r)
    case Inl
    with r show ?thesis by (simp add: act_bind_def m settles_def)
  next
    case (Inr x)
    show ?thesis
    proof (cases "goes x")
      case True
      with r Inr have same: "ca_results c' = ca_results c" by (simp add: settles_def)
      from assms(2) [OF True] have "settles k goes' c' (f x c')" by (simp add: records_def)
      with settles_same [OF same, of k goes' "f x c'"] Inr m show ?thesis by (simp add: act_bind_def)
    next
      case False
      with m Inr r assms(3) [OF False] assms(4) show ?thesis by (simp add: act_bind_def act_return_def settles_def)
    qed
  qed
qed

lemma records_result:
  assumes "strain_key row = Some k" "\<not> goes x" "\<And>c. ca_results (g c) = ca_results c"
  shows "records k goes (act_bind (act_note (\<lambda>c. add_result row (g c))) (\<lambda>_. act_return x))"
  using assms by (simp add: records_def settles_def act_bind_def act_note_def act_return_def add_result_def one_more_def)

lemma row_keys:
  "direction \<in> {''x'', ''y''} \<Longrightarrow> strain_key (failed_row direction s folder d) = Some (direction, round_point s)"
  "direction \<in> {''x'', ''y''} \<Longrightarrow> strain_key (point_row direction s folder etot vacuum edges r es) = Some (direction, round_point s)"
proof -
  have o: "py_or (PFloat s) (PFloat (Fin 0)) = PFloat s" by (cases s) (auto simp: py_or_def)
  have x: "py_strip ''x'' = ''x''" "py_strip ''y'' = ''y''" by code_simp+
  show "direction \<in> {''x'', ''y''} \<Longrightarrow> strain_key (failed_row direction s folder d) = Some (direction, round_point s)"
    "direction \<in> {''x'', ''y''} \<Longrightarrow> strain_key (point_row direction s folder etot vacuum edges r es) = Some (direction, round_point s)"
    by (auto simp: strain_key_def failed_row_def point_row_def get_str_def dget0_def dget_def py_or_def o [unfolded py_or_def] x py_str_def Let_def)
qed

lemma quiet_events [simp]:
  "ca_results (add_event ev c) = ca_results c" "ca_results (add_plan sub direction s p c) = ca_results c"
  "ca_results (take_reference s edges c) = ca_results c" "ca_results (c\<lparr>ca_backups := b\<rparr>) = ca_results c"
  by (simp_all add: add_event_def add_plan_def take_reference_def)

lemma quiet_plan [quiet_steps]: "quiet (plan_substage se sub payload incar kpoints direction s)"
  by (auto simp: plan_substage_def intro!: quiet_steps split: option.splits)

lemma quiet_prepare [quiet_steps]: "quiet (prepare_relax se inputs direction s relax_dir)"
  by (auto simp: prepare_relax_def Let_def intro!: quiet_steps)

lemma relax_failed_records:
  "direction \<in> {''x'', ''y''} \<Longrightarrow> records (direction, round_point s) (\<lambda>b. b) (relax_failed direction s folder err t a summary)"
  unfolding relax_failed_def by (intro records_bind quiet_steps records_result [of _ _ _ _ "\<lambda>c. c"]) (simp_all add: row_keys)

lemma records_return: "goes x \<Longrightarrow> records k goes (act_return x)"
  by (simp add: records_def settles_def act_return_def)

lemma records_raise: "records k goes (act_lift (Inl e))"
  by (simp add: records_def settles_def act_lift_def)

lemma records_go: "quiet m \<Longrightarrow> records k (\<lambda>b. b) (act_bind m (\<lambda>_. act_return True))"
  by (intro records_bind records_return) simp_all

lemma relax_point_records:
  assumes "direction \<in> {''x'', ''y''}"
  shows "records (direction, round_point s) (\<lambda>b. b) (relax_point se inputs direction s folder relax_dir)"
proof -
  let ?k = "(direction, round_point s)"
  have missing: "records ?k (\<lambda>b. b) (act_bind (act_note (contcar_missing direction s folder relax_dir n)) (\<lambda>_. act_return False))" for n
    using row_keys(1) [OF assms] by (simp add: records_def settles_def act_bind_def act_note_def act_return_def contcar_missing_def Let_def
        add_result_def add_event_def one_more_def)
  note failed = relax_failed_records [OF assms]
  have finished: "records ?k (\<lambda>b. b)
      (if \<not> ok then relax_failed direction s folder e t a noted
       else if \<not> path_exists f p then
         act_bind (act_lift r) (\<lambda>retries. act_bind (act_note (contcar_missing direction s folder relax_dir retries)) (\<lambda>_. act_return False))
       else act_bind (act_io m) (\<lambda>_. act_return True))" for ok e t a noted f p r m
  proof (cases ok)
    case True
    then show ?thesis by (cases "path_exists f p") (simp_all add: records_go quiet_simps records_bind missing)
  qed (simp add: failed)
  have step: "records ?k (\<lambda>b. b) (case ended of
         Fatal text summary \<Rightarrow> relax_failed direction s folder (e text) e1 e2 (g summary)
       | Finished ok backups summary \<Rightarrow>
           act_bind (act_note (\<lambda>c. c\<lparr>ca_backups := ca_backups c @ map PStr backups\<rparr>)) (\<lambda>_.
               if \<not> ok then relax_failed direction s folder e3 e4 e5 (g summary)
               else if \<not> path_exists f p then
                 act_bind (act_lift (h (g summary))) (\<lambda>retries.
                 act_bind (act_note (contcar_missing direction s folder relax_dir retries)) (\<lambda>_. act_return False))
               else act_bind (act_io m) (\<lambda>_. act_return True))
       | Raised x \<Rightarrow> act_lift (Inl x))" for ended e e1 e2 e3 e4 e5 g h f p m
    by (cases ended) (simp_all only: relax_end.case failed records_raise, intro records_bind finished quiet_note, simp)
  show ?thesis unfolding relax_point_def Let_def by (intro records_bind quiet_steps step)
qed

lemma run_substage_records:
  assumes "direction \<in> {''x'', ''y''}"
  shows "records (direction, round_point s) (\<lambda>b. b) (run_substage se direction s folder dir check err)"
proof -
  let ?k = "(direction, round_point s)"
  have failed: "records ?k (\<lambda>b. b) (act_bind (act_note (vasp_failed direction s folder summary)) (\<lambda>_. act_return False))" for summary
    using row_keys(1) [OF assms] by (simp add: records_def settles_def act_bind_def act_note_def act_return_def vasp_failed_def
        add_result_def one_more_def)
  have "records ?k (\<lambda>b. b) (if ok then act_return True else act_bind (act_io m) (\<lambda>summary.
      act_bind (act_note (vasp_failed direction s folder summary)) (\<lambda>_. act_return False)))" for ok m
    by (cases ok) (simp_all add: records_return records_bind quiet_simps failed)
  then show ?thesis unfolding run_substage_def by (intro records_bind quiet_steps)
qed

lemma scf_point_records:
  assumes "direction \<in> {''x'', ''y''}"
  shows "records (direction, round_point s) (\<lambda>es. es \<noteq> None) (scf_point se inputs direction s folder relax_dir scf_dir)"
proof -
  have rest: "records k (\<lambda>es. es \<noteq> None) (if \<not> ok then act_return None
      else act_bind m (\<lambda>a. act_bind n (\<lambda>b. act_return (Some (a, b)))))" if "quiet m" "quiet n" ok for k ok and m :: "flt act" and n :: "flt act"
    using that by (simp add: records_bind records_return)
  have run: "records (direction, round_point s) (\<lambda>es. es \<noteq> None) (act_bind (run_substage se direction s folder dir c err) (\<lambda>ok.
      if \<not> ok then act_return None else act_bind (act_io m) (\<lambda>a. act_bind (act_io n) (\<lambda>b. act_return (Some (a, b))))))" for dir c err m n
    by (rule records_then [OF run_substage_records [OF assms], where y = None]) (simp_all add: rest quiet_simps records_bind records_return)
  show ?thesis
    unfolding scf_point_def Let_def by (intro records_bind quiet_steps, simp only: split_paired_all prod.case, intro records_bind quiet_steps run)
qed

lemma band_point_records:
  assumes "direction \<in> {''x'', ''y''}"
  shows "records (direction, round_point s) (\<lambda>b. b) (band_point se inputs direction s folder scf_dir band_dir)"
  unfolding band_point_def Let_def
  by (intro records_bind quiet_steps, clarsimp, intro records_bind quiet_steps run_substage_records [OF assms])

lemma edges_point_records:
  assumes "direction \<in> {''x'', ''y''}"
  shows "records (direction, round_point s) (\<lambda>_. False) (edges_point direction s folder scf_dir band_dir es)"
proof -
  let ?k = "(direction, round_point s)"
  have last: "records ?k (\<lambda>_. False) (act_bind (act_note (add_result (point_row direction s folder a b e r t))) (\<lambda>_.
      act_bind (act_io (io_change g)) (\<lambda>_. act_io (io_change h))))" for a b e r t g h
    using row_keys(2) [OF assms] by (simp add: records_def settles_def act_bind_def act_note_def act_io_def io_change_def add_result_def one_more_def)
  have "records ?k (\<lambda>_. False) (case ref of
         None \<Rightarrow> act_lift (Inl err)
       | Some r \<Rightarrow>
           act_bind (act_lift (fixed_edges ev r)) (\<lambda>t.
           act_bind (act_note (add_result (point_row direction s folder a b e r t))) (\<lambda>_.
           act_bind (act_io (io_change g)) (\<lambda>_. act_io (io_change h)))))" for ref err ev a b e g h
    by (cases ref) (simp_all only: option.case records_raise, intro records_bind quiet_steps last)
  then show ?thesis unfolding edges_point_def by (intro records_bind quiet_steps) simp_all
qed

lemma point_steps_records:
  assumes "direction \<in> {''x'', ''y''}"
  shows "records (direction, round_point s) (\<lambda>_. False) (point_steps se inputs direction s folder)"
proof -
  let ?k = "(direction, round_point s)"
  have band: "records ?k (\<lambda>_. False) (act_bind (band_point se inputs direction s folder a b) (\<lambda>ok.
      if \<not> ok then act_return () else edges_point direction s folder a b es))" for a b es
    by (rule records_then [OF band_point_records [OF assms], where y = "()"]) (simp_all add: edges_point_records [OF assms])
  have scf: "records ?k (\<lambda>_. False) (act_bind (scf_point se inputs direction s folder r a) (\<lambda>energies. case energies of
        None \<Rightarrow> act_return ()
      | Some ts \<Rightarrow> act_bind (band_point se inputs direction s folder a b) (\<lambda>ok.
          if \<not> ok then act_return () else edges_point direction s folder a b ts)))" for r a b
  proof (rule records_then [OF scf_point_records [OF assms], where y = "()"])
    fix es :: "(flt \<times> flt) option"
    show "es \<noteq> None \<Longrightarrow> records ?k (\<lambda>_. False) (case es of None \<Rightarrow> act_return ()
      | Some ts \<Rightarrow> act_bind (band_point se inputs direction s folder a b) (\<lambda>ok.
          if \<not> ok then act_return () else edges_point direction s folder a b ts))" by (cases es) (simp_all add: band)
    show "\<not> es \<noteq> None \<Longrightarrow> (case es of None \<Rightarrow> act_return ()
      | Some ts \<Rightarrow> act_bind (band_point se inputs direction s folder a b) (\<lambda>ok.
          if \<not> ok then act_return () else edges_point direction s folder a b ts)) = act_return ()" by (cases es) simp_all
  qed simp
  show ?thesis
    unfolding point_steps_def Let_def
    by (rule records_then [OF relax_point_records [OF assms], where y = "()"]) (simp_all add: scf)
qed

text \<open>Whatever happens to a point, it leaves exactly one row of its key.\<close>

lemma calculate_point_row:
  assumes "direction \<in> {''x'', ''y''}"
  shows "one_more (direction, round_point s) c (calculate_point se inputs base direction s c)"
proof -
  let ?folder = "point_folder base direction s"
  let ?c1 = "c\<lparr>ca_files := fold (\<lambda>d f. makedirs f d) (map (path_join ?folder) [''01_relax'', ''02_scf'', ''03_band'']) (ca_files c)\<rparr>"
  obtain c2 r where p: "point_steps se inputs direction s ?folder ?c1 = (c2, r)" by (cases "point_steps se inputs direction s ?folder ?c1")
  have "settles (direction, round_point s) (\<lambda>_. False) ?c1 (c2, r)"
    using point_steps_records [OF assms] unfolding records_def by (metis p)
  then show ?thesis
    using row_keys(1) [OF assms] unfolding calculate_point_def Let_def p
    by (cases r) (simp_all add: settles_def point_raised_def add_result_def add_event_def one_more_def Let_def)
qed

lemma skip_point_results [simp]: "ca_results (skip_point base direction c) = ca_results c"
  by (simp add: skip_point_def)

lemma found_completed: "row_index (map (\<lambda>k. (k, 0)) ks) j \<noteq> None \<Longrightarrow> j \<in> set ks"
  by (auto simp: row_index_def split: if_splits dest: map_of_SomeD)

lemma run_points_rows:
  assumes "direction \<in> {''x'', ''y''}"
  shows "\<exists>rows. ca_results (run_points se inputs base ks direction ss c) = ca_results c @ rows
    \<and> (\<forall>s\<in>set ss. (direction, round_point s) \<in> set ks \<or> (\<exists>row\<in>set rows. strain_key row = Some (direction, round_point s)))"
proof (induction ss arbitrary: c)
  case (Cons s ss)
  let ?key = "(direction, round_point s)"
  show ?case
  proof (cases "row_index (map (\<lambda>k. (k, 0)) ks) ?key = None")
    case True
    obtain row where row: "ca_results (calculate_point se inputs base direction s c) = ca_results c @ [row]" "strain_key row = Some ?key"
      using calculate_point_row [OF assms] unfolding one_more_def by blast
    obtain rows where rows: "ca_results (run_points se inputs base ks direction ss (calculate_point se inputs base direction s c))
          = ca_results (calculate_point se inputs base direction s c) @ rows"
        "\<forall>s\<in>set ss. (direction, round_point s) \<in> set ks \<or> (\<exists>row\<in>set rows. strain_key row = Some (direction, round_point s))"
      using Cons.IH by blast
    show ?thesis by (rule exI [of _ "row # rows"]) (use True row rows in auto)
  next
    case False
    from Cons.IH [of "skip_point base direction c"] found_completed [OF False] False show ?thesis by auto
  qed
qed simp

section \<open>Rounded strains\<close>

lemma round_even_int [simp]: "round_even (of_int n) = n"
  by (simp add: round_even_def Let_def)

lemma round_point_again [simp]: "round_point (round_point x) = round_point x"
  by (cases x) (simp_all add: round_rat_def)

lemma round_rat_zero [simp]: "round_rat 0 = 0"
  by (simp add: round_rat_def round_even_def)

lemma round_rat_small: "\<bar>round_rat q\<bar> \<le> 1 / 10 ^ 12 \<Longrightarrow> round_rat q = 0"
proof -
  let ?n = "round_even (q * 1000000)"
  assume "\<bar>round_rat q\<bar> \<le> 1 / 10 ^ 12"
  then have "\<bar>of_int ?n :: rat\<bar> < 1" by (simp add: round_rat_def)
  then have "?n = 0" by linarith
  then show ?thesis by (simp add: round_rat_def)
qed

lemma rounded_zero: "is_zero_strain (round_point x) \<longleftrightarrow> round_point x = Fin 0"
proof (cases x)
  case (Fin q)
  have "\<bar>round_rat q\<bar> \<le> 1 / 10 ^ 12 \<longleftrightarrow> round_rat q = 0" using round_rat_small [of q] by auto
  moreover have "flt_le (Fin a) (Fin b) \<longleftrightarrow> a \<le> b" for a b :: rat by (auto simp: flt_le_def)
  ultimately show ?thesis by (simp only: Fin is_zero_strain_def round_point.simps flt_abs.simps flt.inject)
qed (simp_all add: is_zero_strain_def flt_le_def)

lemma planned_rounded: "v \<in> set (planned_strains plan direction) \<Longrightarrow> round_point v = v"
  by (auto simp: planned_strains_def)

lemma planned_zero: "Fin 0 \<in> set (planned_strains plan direction)"
  by (simp add: planned_strains_def)

text \<open>Reordering keeps the planned strains.\<close>

lemma ordered_planned: "set (ordered_strains (planned_strains plan direction)) = set (planned_strains plan direction)"
proof -
  let ?p = "planned_strains plan direction"
  have zero: "is_zero_strain (Fin 0)" by (simp add: is_zero_strain_def flt_le_def)
  have only: "v = Fin 0" if "v \<in> set ?p" "is_zero_strain v" for v
    using rounded_zero [of v] planned_rounded [OF that(1)] that(2) by metis
  have "list_ex is_zero_strain ?p" unfolding list_ex_iff using planned_zero [of plan direction] zero by blast
  then have "set (ordered_strains ?p) = insert (Fin 0) (set (filter (\<lambda>v. \<not> is_zero_strain v) ?p))"
    by (simp only: ordered_strains_def on_def if_True set_append list.set Un_insert_left Un_empty_left)
  moreover have "insert (Fin 0) (set (filter (\<lambda>v. \<not> is_zero_strain v) ?p)) = set ?p"
  proof (intro equalityI subsetI)
    fix v assume "v \<in> insert (Fin 0) (set (filter (\<lambda>v. \<not> is_zero_strain v) ?p))"
    then show "v \<in> set ?p" using planned_zero [of plan direction] by (elim insertE) simp_all
  next
    fix v assume "v \<in> set ?p"
    then show "v \<in> insert (Fin 0) (set (filter (\<lambda>v. \<not> is_zero_strain v) ?p))"
      using only [of v] by (cases "is_zero_strain v") simp_all
  qed
  ultimately show ?thesis by simp
qed

section \<open>What the campaign reports\<close>

lemma merge_represents:
  assumes "row \<in> set seen" "strain_key row = Some k" "snd k \<noteq> NaN"
  shows "\<exists>r\<in>set (merge_loop [] [] seen). strain_key r = Some k \<and> (point_done row \<longrightarrow> point_done r)"
proof -
  obtain idx where inv: "index_sound (merge_loop [] [] seen) idx" "\<forall>r\<in>set seen. represents (merge_loop [] [] seen) idx r"
    using merge_loop_result [of seen] unfolding merge_inv_def by blast
  from inv(2) assms obtain i where i: "row_index idx k = Some i" "point_done row \<longrightarrow> point_done (merge_loop [] [] seen ! i)"
    unfolding represents_def by blast
  with inv(1) have "i < length (merge_loop [] [] seen)" "strain_key (merge_loop [] [] seen ! i) = Some k"
    unfolding index_sound_def by blast+
  with i(2) nth_mem show ?thesis by blast
qed

lemma as_row_dict [simp]: "as_row (PDict row) = Inr row"
  by (cases row) (simp_all add: as_row_def)

text \<open>The points that count as completed are points of the rows known before.\<close>

lemma done_keys:
  "mapR (key_if point_done) existing = Inr ks \<Longrightarrow> \<exists>old. existing = map PDict old \<and> mapR as_row existing = Inr old
     \<and> (\<forall>k\<in>set (concat ks). \<exists>row\<in>set old. strain_key row = Some k \<and> point_done row)"
proof (induction existing arbitrary: ks)
  case (Cons v existing)
  then obtain k1 ks' where v: "key_if point_done v = Inr k1" "mapR (key_if point_done) existing = Inr ks'" "ks = k1 # ks'" by auto
  from Cons.IH [OF v(2)] obtain old where old: "existing = map PDict old" "mapR as_row existing = Inr old"
    "\<forall>k\<in>set (concat ks'). \<exists>row\<in>set old. strain_key row = Some k \<and> point_done row" by blast
  from v(1) obtain row where row: "v = PDict row" by (cases v) (simp_all add: key_if_def)
  with v(1) have "\<forall>k\<in>set k1. strain_key row = Some k \<and> point_done row" by (auto simp: key_if_def split: option.splits if_splits)
  with old row v(3) show ?case by (intro exI [of _ "row # old"]) auto
qed simp

definition start_campaign :: "StrainToolInput \<Rightarrow> fs \<Rightarrow> campaign" where
  "start_campaign inputs f =
     \<lparr>ca_files = f, ca_ref = None, ca_results = [], ca_backups = map PStr (sti_backups inputs), ca_events = [], ca_plans = [], ca_trace = []\<rparr>"

definition settled_by :: "StrainToolInput \<Rightarrow> dict list \<Rightarrow> bool" where
  "settled_by inputs rows \<longleftrightarrow>
     (\<forall>key\<in>set (plan_keys inputs ''x'' @ plan_keys inputs ''y''). snd key \<noteq> NaN \<longrightarrow> (\<exists>row\<in>set rows. strain_key row = Some key))"

lemma run_direction_rows:
  assumes "direction \<in> {''x'', ''y''}"
  shows "\<exists>rows. ca_results (run_direction se inputs base ks direction c) = ca_results c @ rows
    \<and> (\<forall>s\<in>set (planned_strains (sti_plan inputs) direction).
         (direction, round_point s) \<in> set ks \<or> (\<exists>row\<in>set rows. strain_key row = Some (direction, round_point s)))"
proof -
  have same: "ca_results (c\<lparr>ca_ref := r\<rparr>) = ca_results c" for r by simp
  show ?thesis
    using run_points_rows [OF assms, of se inputs base ks "ordered_strains (planned_strains (sti_plan inputs) direction)"
        "c\<lparr>ca_ref := load_strain_reference (ca_files c) base direction\<rparr>"]
    unfolding ordered_planned same run_direction_def .
qed

lemma planned_settled:
  assumes ks: "\<forall>k\<in>set ks. \<exists>row\<in>set old. strain_key row = Some k \<and> point_done row"
    and c: "c = run_direction se inputs base ks ''y'' (run_direction se inputs base ks ''x'' c0)"
  shows "settled_by inputs (merge_loop [] [] (old @ ca_results c))"
proof -
  let ?c1 = "run_direction se inputs base ks ''x'' c0"
  have xy: "''x'' \<in> {''x'', ''y''}" "''y'' \<in> {''x'', ''y''}" by simp_all
  obtain rows1 where r1: "ca_results ?c1 = ca_results c0 @ rows1"
    "\<forall>s\<in>set (planned_strains (sti_plan inputs) ''x''). (''x'', round_point s) \<in> set ks \<or> (\<exists>row\<in>set rows1. strain_key row = Some (''x'', round_point s))"
    using run_direction_rows [OF xy(1), of se inputs base ks c0] by blast
  obtain rows2 where r2: "ca_results c = ca_results ?c1 @ rows2"
    "\<forall>s\<in>set (planned_strains (sti_plan inputs) ''y''). (''y'', round_point s) \<in> set ks \<or> (\<exists>row\<in>set rows2. strain_key row = Some (''y'', round_point s))"
    using run_direction_rows [OF xy(2), of se inputs base ks ?c1] unfolding c by blast
  have one: "\<exists>row\<in>set (old @ ca_results c). strain_key row = Some key" if "key \<in> set (plan_keys inputs ''x'' @ plan_keys inputs ''y'')" for key
  proof -
    from that consider (x) s where "key = (''x'', s)" "s \<in> set (planned_strains (sti_plan inputs) ''x'')"
      | (y) s where "key = (''y'', s)" "s \<in> set (planned_strains (sti_plan inputs) ''y'')" unfolding plan_keys_def set_append set_map by blast
    then have "key \<in> set ks \<or> (\<exists>row\<in>set (ca_results c). strain_key row = Some key)"
    proof cases
      case x
      with r1(2) planned_rounded [OF x(2)] show ?thesis unfolding r2(1) r1(1) set_append by (metis UnCI)
    next
      case y
      with r2(2) planned_rounded [OF y(2)] show ?thesis unfolding r2(1) set_append by (metis UnCI)
    qed
    with ks show ?thesis unfolding set_append by blast
  qed
  show ?thesis unfolding settled_by_def using one merge_represents by blast
qed

lemma strain_report_reads:
  assumes "strain_report inputs c rows t attempts = Inr raw"
  shows "\<exists>summary dx rx dy ry. dget0 raw ''strain_data'' = PList (map PDict rows) \<and> get_dict raw ''strain_summary'' = Inr summary
    \<and> direction_summary inputs rows t ''x'' = Inr (dx, rx) \<and> direction_summary inputs rows t ''y'' = Inr (dy, ry)
    \<and> map_of summary ''strain_completed'' = Some (PBool (rx \<and> ry \<and> ta_failed t = [] \<and> ta_missing t = []))
    \<and> map_of summary ''missing_points'' = Some (PInt (int (length (ta_missing t))))
    \<and> map_of summary ''failed_points'' = Some (PInt (int (length (ta_failed t))))
    \<and> map_of summary ''active_plan_missing_points'' = Some (PInt (int (length (ta_missing t))))
    \<and> map_of summary ''active_plan_failed_points'' = Some (PInt (int (length (ta_failed t))))
    \<and> (\<exists>n. map_of summary ''completed_points'' = Some n) \<and> (\<exists>n. map_of summary ''historical_failed_points'' = Some (PInt n))
    \<and> (\<exists>n. map_of summary ''historical_failure_attempts'' = Some n)
    \<and> get_list raw ''warnings'' = Inr [] \<and> get_list raw ''errors'' = Inr []"
proof -
  from assms obtain dx rx dy ry where d: "direction_summary inputs rows t ''x'' = Inr (dx, rx)" "direction_summary inputs rows t ''y'' = Inr (dy, ry)"
    by (auto simp: strain_report_def)
  show ?thesis
    using assms unfolding strain_report_def d
    by (simp add: Let_def d dget0_def dget_def get_dict_def get_list_def py_or_def) (drule sym, simp)
qed

lemma keys_of_in: "key \<in> set (keys_of rows) \<longleftrightarrow> (\<exists>row\<in>set rows. strain_key row = Some key)"
  unfolding keys_of_def set_remdups List.map_filter_def by force

lemma tally_missing:
  "key \<in> set (ta_missing (tally_points inputs rows h)) \<longleftrightarrow>
     key \<in> set (plan_keys inputs ''x'' @ plan_keys inputs ''y'') \<and> (\<forall>row\<in>set rows. strain_key row \<noteq> Some key)"
  unfolding tally_points_def Let_def tally.select_convs set_filter keys_of_in mem_Collect_eq by blast

lemma tally_failed:
  "key \<in> set (ta_failed (tally_points inputs rows h)) \<longleftrightarrow>
     key \<in> set (plan_keys inputs ''x'' @ plan_keys inputs ''y'') \<and> (\<exists>row\<in>set rows. \<not> point_done row \<and> strain_key row = Some key)"
  unfolding tally_points_def Let_def tally.select_convs set_filter keys_of_in mem_Collect_eq by blast

text \<open>The strains a direction has completed, and what a fit along it needs.\<close>

definition completed_at :: "dict list \<Rightarrow> string \<Rightarrow> flt \<Rightarrow> bool" where
  "completed_at rows direction v \<longleftrightarrow> (\<exists>row\<in>set rows. point_done row \<and> strain_key row = Some (direction, v))"

definition enough_for_fit :: "dict list \<Rightarrow> string \<Rightarrow> bool" where
  "enough_for_fit rows direction \<longleftrightarrow>
     (\<exists>vs. distinct vs \<and> 5 \<le> length vs \<and> list_all (completed_at rows direction) vs \<and> Fin 0 \<in> set vs
        \<and> list_ex (\<lambda>v. flt_lt v (Fin 0)) vs \<and> list_ex (\<lambda>v. flt_lt (Fin 0) v) vs)"

lemma completed_strain_at:
  assumes "direction \<in> {''x'', ''y''}" "completed_strain direction row = Inr xs" "v \<in> set xs"
  shows "point_done row \<and> strain_key row = Some (direction, v) \<and> (\<exists>x. v = round_point x)"
proof -
  have strip: "py_strip ''x'' = ''x''" "py_strip ''y'' = ''y''" by code_simp+
  from assms(2,3) have row: "get_str row ''direction'' = direction" "point_done row"
    by (auto simp: completed_strain_def split: if_splits)
  with assms(2) obtain x where x: "to_float (py_or (dget row ''strain'' (PFloat (Fin 0))) (PFloat (Fin 0))) = Inr x" "xs = [round_point x]"
    by (auto simp: completed_strain_def)
  from assms(1) strip have "py_strip direction = direction" "direction \<noteq> []" by auto
  with row x assms(3) show ?thesis by (auto simp: strain_key_def Let_def)
qed

lemma readiness_enough:
  assumes "direction \<in> {''x'', ''y''}" "direction_fit_readiness (filter point_done rows) direction = Inr r" "fr_ready r"
  shows "enough_for_fit rows direction"
proof -
  from assms(2) obtain xs where xs: "mapR (completed_strain direction) (filter point_done rows) = Inr xs" by (auto simp: direction_fit_readiness_def)
  let ?vs = "dedupe (concat xs)"
  from assms(2,3) xs have r: "5 \<le> length ?vs" "list_ex is_zero_strain ?vs" "list_ex (\<lambda>v. flt_lt v (Fin 0)) ?vs" "list_ex (\<lambda>v. flt_lt (Fin 0) v) ?vs"
    by (auto simp: direction_fit_readiness_def Let_def)
  have each: "completed_at rows direction v \<and> (\<exists>x. v = round_point x)" if v: "v \<in> set ?vs" for v
  proof -
    from v obtain ys where ys: "ys \<in> set xs" "v \<in> set ys" by auto
    from mapR_source [OF xs ys(1)] obtain row where "row \<in> set rows" "completed_strain direction row = Inr ys" by auto
    with completed_strain_at [OF assms(1) _ ys(2)] show ?thesis unfolding completed_at_def by blast
  qed
  from r(2) obtain z where z: "z \<in> set ?vs" "is_zero_strain z" unfolding list_ex_iff by blast
  with each [OF z(1)] rounded_zero have "Fin 0 \<in> set ?vs" by metis
  moreover have "list_all (completed_at rows direction) ?vs" unfolding list_all_iff using each by blast
  moreover have "distinct ?vs" using dedupe_by_distinct [of "\<lambda>x. x" "concat xs"] by (simp add: dedupe_def)
  ultimately show ?thesis using r unfolding enough_for_fit_def by blast
qed

lemma strain_execute_done:
  assumes "strain_execute se inputs f = (f', Inr raw)"
  obtains rows h c attempts where "strain_report inputs c rows (tally_points inputs rows h) attempts = Inr raw" "settled_by inputs rows"
proof -
  let ?base = "path_join (sti_base_dir inputs) ''05_strain''"
  from assms obtain physics prior existing ks c rows h attempts f1 where
    e: "mapR (key_if point_done) existing = Inr ks"
    and c: "c = run_direction se inputs ?base (concat ks) ''y'' (run_direction se inputs ?base (concat ks) ''x'' (start_campaign inputs f1))"
    and rows: "merge_strain_rows existing (ca_results c) = Inr rows"
    and r: "strain_report inputs c rows (tally_points inputs rows h) attempts = Inr raw"
    by (auto simp: strain_execute_def Let_def io_bind_Inr start_campaign_def)
  from done_keys [OF e] obtain old where old: "mapR as_row existing = Inr old" "\<forall>k\<in>set (concat ks). \<exists>row\<in>set old. strain_key row = Some k \<and> point_done row"
    by blast
  from rows old(1) have "rows = merge_loop [] [] (old @ ca_results c)" by (simp add: merge_strain_rows_def)
  with planned_settled [OF old(2) c] that [OF r] show thesis by metis
qed

lemma default_to_keeps: "map_of d j = Some x \<Longrightarrow> map_of (default_to k v d) j = Some x"
  by (auto simp: default_to_def map_add_Some_iff)

lemma completed_summary_keeps:
  "completed_summary d n m = Inr d' \<Longrightarrow> map_of d k = Some x \<Longrightarrow> map_of d' k = Some x"
  unfolding completed_summary_def Let_def bindR_eq_Inr
  by (elim exE conjE, drule Inr_inject, hypsubst, intro default_to_keeps)

lemma default_to_present: "map_of d k = Some x \<Longrightarrow> default_to k v d = d"
  by (simp add: default_to_def)

lemma completed_summary_full:
  assumes "map_of s ''completed_points'' = Some a" "map_of s ''active_plan_failed_points'' = Some (PInt nf)"
    "map_of s ''active_plan_missing_points'' = Some (PInt nm)" "map_of s ''failed_points'' = Some b" "map_of s ''missing_points'' = Some d"
    "map_of s ''historical_failed_points'' = Some (PInt nh)" "map_of s ''historical_failure_attempts'' = Some e"
    "map_of s ''strain_completed'' = Some g"
  shows "completed_summary s n m = Inr s"
proof -
  have i: "int_of (PInt k) = Inr k" for k by (simp add: int_of_def py_or_def)
  show ?thesis
    unfolding completed_summary_def Let_def default_to_present [OF assms(1)] default_to_present [OF assms(2)] default_to_present [OF assms(3)]
      default_to_present [OF assms(4)] default_to_present [OF assms(5)] default_to_present [OF assms(6)] default_to_present [OF assms(7)]
      default_to_present [OF assms(8)] dget0_def dget_def assms option.case i bindR_simps ..
qed

lemma rows_again: "mapR (\<lambda>v. case v of PDict row \<Rightarrow> Inr row | _ \<Rightarrow> Inl err) (map PDict rows) = Inr rows"
  by (induction rows) simp_all

lemma complete_reported:
  assumes "direction_summary inputs rows t ''x'' = Inr (dx, True)" "direction_summary inputs rows t ''y'' = Inr (dy, True)"
    and "ta_failed t = []" "ta_missing t = []"
  shows "\<exists>raw out. strain_report inputs c rows t attempts = Inr raw \<and> strain_build_output inputs f raw = Inr out \<and> to_success out"
proof -
  obtain raw where raw: "strain_report inputs c rows t attempts = Inr raw" by (simp add: strain_report_def assms(1,2) Let_def)
  from strain_report_reads [OF raw] assms obtain summary a nh e where
    r: "dget0 raw ''strain_data'' = PList (map PDict rows)" "get_dict raw ''strain_summary'' = Inr summary"
      "map_of summary ''strain_completed'' = Some (PBool True)" "map_of summary ''missing_points'' = Some (PInt 0)"
      "map_of summary ''failed_points'' = Some (PInt 0)" "map_of summary ''active_plan_missing_points'' = Some (PInt 0)"
      "map_of summary ''active_plan_failed_points'' = Some (PInt 0)" "map_of summary ''completed_points'' = Some a"
      "map_of summary ''historical_failed_points'' = Some (PInt nh)" "map_of summary ''historical_failure_attempts'' = Some e"
      "get_list raw ''warnings'' = Inr []" "get_list raw ''errors'' = Inr []" by auto
  have data: "get_list raw ''strain_data'' = Inr (map PDict rows)"
    using r(1) by (cases rows) (auto simp: get_list_def dget0_def dget_def py_or_def split: option.splits)
  have full: "completed_summary summary n m = Inr summary" for n m
    by (rule completed_summary_full [OF r(8,7,6,5,4,9,10,3)])
  have "\<exists>out. strain_build_output inputs f raw = Inr out \<and> to_success out"
    by (simp add: strain_build_output_def data rows_again r(2,11,12) full r(3,6,7) dget0_def dget_def int_of_def py_or_def incomplete_def on_def
        Let_def errors_text_def dedupe_def dedupe_by_def)
  with raw show ?thesis by blast
qed

text \<open>C30: A strain campaign loses no point of its plan: whatever fails or raises on the way, when the stage returns, every
  planned strain of both directions (that is a number) has a row in the reported data, so that none of them is
  counted as missing.\<close>

theorem no_planned_point_lost:
  assumes "strain_execute se inputs f = (f', Inr raw)"
    and "\<forall>key\<in>set (plan_keys inputs ''x'' @ plan_keys inputs ''y''). snd key \<noteq> NaN"
  shows "\<exists>rows summary. dget0 raw ''strain_data'' = PList (map PDict rows) \<and> get_dict raw ''strain_summary'' = Inr summary
    \<and> (\<forall>key\<in>set (plan_keys inputs ''x'' @ plan_keys inputs ''y''). \<exists>row\<in>set rows. strain_key row = Some key)
    \<and> dget0 summary ''missing_points'' = PInt 0"
proof -
  obtain rows h c attempts where
    r: "strain_report inputs c rows (tally_points inputs rows h) attempts = Inr raw" and s: "settled_by inputs rows"
    by (rule strain_execute_done [OF assms(1)])
  from s assms(2) have all: "\<forall>key\<in>set (plan_keys inputs ''x'' @ plan_keys inputs ''y''). \<exists>row\<in>set rows. strain_key row = Some key"
    unfolding settled_by_def by blast
  then have "ta_missing (tally_points inputs rows h) = []" using tally_missing [of _ inputs rows h] by (metis list.set_intros(1) neq_Nil_conv)
  with strain_report_reads [OF r] all show ?thesis by (auto simp: dget0_def dget_def)
qed

text \<open>C29: A campaign that reports success is one the mobility fits can use: every planned strain of both directions has a
  completed row in the data handed on, and either direction has at least five distinct completed strains, zero, a
  negative and a positive one among them.\<close>

theorem campaign_success_sound:
  assumes "strain_tool_run se inputs f = (f', out)" "to_success out"
  shows "\<exists>rows. dget0 (to_state_updates out) ''strain_data'' = PList (map PDict rows)
    \<and> (\<forall>direction\<in>{''x'', ''y''}. enough_for_fit rows direction
         \<and> (\<forall>s\<in>set (planned_strains (sti_plan inputs) direction). completed_at rows direction s))"
proof -
  from assms obtain raw where raw: "strain_execute se inputs f = (f', Inr raw)" "strain_build_output inputs f' raw = Inr out"
    by (auto simp: strain_tool_run_def tool_run_def failed_output_def split: prod.splits sum.splits)
  obtain rows h c attempts where
    r: "strain_report inputs c rows (tally_points inputs rows h) attempts = Inr raw" and s: "settled_by inputs rows"
    by (rule strain_execute_done [OF raw(1)])
  let ?t = "tally_points inputs rows h"
  from strain_report_reads [OF r] obtain summary dx rx dy ry where
    d: "dget0 raw ''strain_data'' = PList (map PDict rows)" "get_dict raw ''strain_summary'' = Inr summary"
    and x: "direction_summary inputs rows ?t ''x'' = Inr (dx, rx)" and y: "direction_summary inputs rows ?t ''y'' = Inr (dy, ry)"
    and complete: "map_of summary ''strain_completed'' = Some (PBool (rx \<and> ry \<and> ta_failed ?t = [] \<and> ta_missing ?t = []))" by blast
  from raw(2) d(2) assms(2) obtain n m summary' where s': "completed_summary summary n m = Inr summary'" "truthy (dget0 summary' ''strain_completed'')"
    and out: "to_state_updates out = raw"
    by (auto simp: strain_build_output_def Let_def)
  from completed_summary_keeps [OF s'(1) complete] s'(2) have all: "rx" "ry" "ta_failed ?t = []" "ta_missing ?t = []"
    by (auto simp: dget0_def dget_def)
  have fit: "enough_for_fit rows ''x''" "enough_for_fit rows ''y''"
    using readiness_enough [of "''x''" rows] readiness_enough [of "''y''" rows] x y all(1,2) by (auto simp: direction_summary_def)
  have "completed_at rows direction s" if "direction \<in> {''x'', ''y''}" "s \<in> set (planned_strains (sti_plan inputs) direction)" for direction s
  proof -
    from that have k: "(direction, s) \<in> set (plan_keys inputs ''x'' @ plan_keys inputs ''y'')" unfolding plan_keys_def by auto
    with tally_missing [of "(direction, s)" inputs rows h] all(4) obtain row where "row \<in> set rows" "strain_key row = Some (direction, s)" by auto
    with k tally_failed [of "(direction, s)" inputs rows h] all(3) show ?thesis unfolding completed_at_def by auto
  qed
  with fit d(1) show ?thesis unfolding out by blast
qed

section \<open>Concrete campaigns\<close>

definition demo_row :: "string \<Rightarrow> flt \<Rightarrow> bool \<Rightarrow> dict" where
  "demo_row direction s ok = [(''direction'', PStr direction), (''strain'', PFloat s), (''completed'', PBool ok)]"

definition demo_strains :: "flt list" where
  "demo_strains = [Fin (- 1 / 100), Fin (- 1 / 200), Fin 0, Fin (1 / 200), Fin (1 / 100)]"

definition demo_strain_env :: strain_env where
  "demo_strain_env =
     \<lparr>se_tool = demo_tool_env, se_readers = demo_readers, se_retry_env = None, se_engine = None,
      se_strained = (\<lambda>t axis s. Inl (ValueError ''no structure'')), se_process = (\<lambda>dir f. te_process demo_tool_env f),
      se_relax = (\<lambda>dir. demo_relax)\<rparr>"

definition demo_strain_input :: "flt list \<Rightarrow> dict list \<Rightarrow> StrainToolInput" where
  "demo_strain_input plan rows =
     \<lparr>sti_material_id = ''MoS2'', sti_base_dir = ''/w'', sti_relaxed_poscar = ''/w/CONTCAR'', sti_potcar_path = ''/w/POTCAR'',
      sti_plan = [(''x'', plan), (''y'', plan)], sti_no_relax_retry = False, sti_backups = [],
      sti_state_payload = [(''strain_data'', PList (map PDict rows))]\<rparr>"

text \<open>A completed point at strain 0.01 whose repetition failed.\<close>

theorem merge_keeps_completed_witness:
  "\<exists>r\<in>set (merge_loop [] [] [demo_row ''x'' (Fin (1 / 100)) True, demo_row ''x'' (Fin (1 / 100)) False]).
     strain_key r = Some (''x'', Fin (1 / 100)) \<and> point_done r"
proof -
  let ?r = "demo_row ''x'' (Fin (1 / 100)) True" and ?n = "demo_row ''x'' (Fin (1 / 100)) False"
  have p: "mapR as_row [PDict ?r] = Inr [?r]" by simp
  have m: "merge_strain_rows [PDict ?r] [?n] = Inr (merge_loop [] [] [?r, ?n])" by (simp add: merge_strain_rows_def)
  have k: "strain_key ?r = Some (''x'', Fin (1 / 100))" by code_simp
  have d: "point_done ?r" by code_simp
  have i: "?r \<in> set ([?r] @ [?n])" "snd (''x'', Fin (1 / 100)) \<noteq> NaN" by simp_all
  from merge_keeps_completed [OF p m i(1) k i(2)] d show ?thesis by blast
qed

text \<open>A campaign that finds all its points completed in the state.\<close>

definition demo_rows :: "dict list" where
  "demo_rows = map (\<lambda>s. demo_row ''x'' s True) demo_strains @ map (\<lambda>s. demo_row ''y'' s True) demo_strains"

definition demo_keys :: "point_key list" where
  "demo_keys = map (Pair ''x'') demo_strains @ map (Pair ''y'') demo_strains"

lemma run_points_done:
  "ca_ref c = load_strain_reference (ca_files c) base direction
     \<Longrightarrow> list_all (\<lambda>s. row_index (map (\<lambda>k. (k, 0)) ks) (direction, round_point s) \<noteq> None) ss
     \<Longrightarrow> run_points se inputs base ks direction ss c = c"
proof (induction ss)
  case (Cons s ss)
  then have "skip_point base direction c = c" by (simp add: skip_point_def)
  with Cons show ?case by simp
qed simp

lemma run_direction_done:
  assumes "ca_ref c = load_strain_reference (ca_files c) base direction"
    "list_all (\<lambda>s. row_index (map (\<lambda>k. (k, 0)) ks) (direction, round_point s) \<noteq> None) (ordered_strains (planned_strains (sti_plan inputs) direction))"
  shows "run_direction se inputs base ks direction c = c"
proof -
  have "c\<lparr>ca_ref := load_strain_reference (ca_files c) base direction\<rparr> = c" by (simp add: assms(1) [symmetric])
  with run_points_done [OF assms] show ?thesis by (simp add: run_direction_def)
qed

lemma demo_execute:
  "strain_execute demo_strain_env (demo_strain_input demo_strains demo_rows) [(''/w'', FDir)] =
     ([(''/w'', FDir), (''/w/05_strain'', FDir)],
      strain_report (demo_strain_input demo_strains demo_rows) (start_campaign (demo_strain_input demo_strains demo_rows) [(''/w'', FDir), (''/w/05_strain'', FDir)])
        demo_rows (tally_points (demo_strain_input demo_strains demo_rows) demo_rows []) 0)"
proof -
  let ?in = "demo_strain_input demo_strains demo_rows" and ?f = "[(''/w'', FDir), (''/w/05_strain'', FDir)]" and ?base = "''/w/05_strain''"
  let ?c = "start_campaign ?in ?f"
  have b: "path_join (sti_base_dir ?in) ''05_strain'' = ?base" by code_simp
  have g: "get_dict (sti_state_payload ?in) ''physics_results'' = Inr []" "get_dict (sti_state_payload ?in) ''diagnostics'' = Inr []"
    "get_dict [] ''strain_summary'' = Inr []" by code_simp+
  have f: "makedirs [(''/w'', FDir)] ?base = ?f" by code_simp
  have k: "known_rows demo_strain_env ?in [] ?f ?base = Inr (map PDict demo_rows)" by code_simp
  have d: "mapR (key_if point_done) (map PDict demo_rows) = Inr (map (\<lambda>k. [k]) demo_keys)" by code_simp
  have keys: "concat (map (\<lambda>k. [k]) demo_keys) = demo_keys" by code_simp
  have r: "load_strain_reference ?f ?base ''x'' = None" "load_strain_reference ?f ?base ''y'' = None" by code_simp+
  have all: "list_all (\<lambda>s. row_index (map (\<lambda>k. (k, 0)) demo_keys) (''x'', round_point s) \<noteq> None) (ordered_strains (planned_strains (sti_plan ?in) ''x''))"
    "list_all (\<lambda>s. row_index (map (\<lambda>k. (k, 0)) demo_keys) (''y'', round_point s) \<noteq> None) (ordered_strains (planned_strains (sti_plan ?in) ''y''))"
    by code_simp+
  have x: "run_direction demo_strain_env ?in ?base demo_keys ''x'' ?c = ?c"
    by (rule run_direction_done [OF _ all(1)]) (simp add: start_campaign_def r)
  have y: "run_direction demo_strain_env ?in ?base demo_keys ''y'' ?c = ?c"
    by (rule run_direction_done [OF _ all(2)]) (simp add: start_campaign_def r)
  have start: "\<lparr>ca_files = ?f, ca_ref = None, ca_results = [], ca_backups = map PStr (sti_backups ?in), ca_events = [], ca_plans = [], ca_trace = []\<rparr> = ?c"
    by (simp add: start_campaign_def)
  have c: "ca_results ?c = []" "ca_files ?c = ?f" by (simp_all add: start_campaign_def)
  have m: "merge_strain_rows (map PDict demo_rows) [] = Inr demo_rows" by code_simp
  have h: "failed_history [] (map PDict demo_rows) [] = Inr ([], 0)" by code_simp
  show ?thesis
    unfolding strain_execute_def Let_def b io_bind_def io_lift_def io_change_def g f prod.case sum.case k d keys start x y c m filter.simps h ..
qed

lemma demo_report:
  "\<exists>raw out. strain_report (demo_strain_input demo_strains demo_rows)
        (start_campaign (demo_strain_input demo_strains demo_rows) [(''/w'', FDir), (''/w/05_strain'', FDir)])
        demo_rows (tally_points (demo_strain_input demo_strains demo_rows) demo_rows []) 0 = Inr raw
     \<and> strain_build_output (demo_strain_input demo_strains demo_rows) [(''/w'', FDir), (''/w/05_strain'', FDir)] raw = Inr out \<and> to_success out"
proof -
  let ?in = "demo_strain_input demo_strains demo_rows"
  have none: "ta_failed (tally_points ?in demo_rows []) = []" "ta_missing (tally_points ?in demo_rows []) = []" by code_simp+
  have "case direction_summary ?in demo_rows (tally_points ?in demo_rows []) ''x'' of Inl _ \<Rightarrow> False | Inr (d, r) \<Rightarrow> r" by code_simp
  moreover have "case direction_summary ?in demo_rows (tally_points ?in demo_rows []) ''y'' of Inl _ \<Rightarrow> False | Inr (d, r) \<Rightarrow> r" by code_simp
  ultimately obtain dx dy where d: "direction_summary ?in demo_rows (tally_points ?in demo_rows []) ''x'' = Inr (dx, True)"
    "direction_summary ?in demo_rows (tally_points ?in demo_rows []) ''y'' = Inr (dy, True)"
    by (auto split: sum.splits prod.splits)
  show ?thesis by (rule complete_reported [OF d none])
qed

theorem no_planned_point_lost_witness:
  "\<exists>f' raw rows. strain_execute demo_strain_env (demo_strain_input demo_strains demo_rows) [(''/w'', FDir)] = (f', Inr raw)
     \<and> dget0 raw ''strain_data'' = PList (map PDict rows) \<and> (\<exists>row\<in>set rows. strain_key row = Some (''y'', Fin (1 / 100)))"
proof -
  let ?in = "demo_strain_input demo_strains demo_rows"
  obtain f' raw where raw: "strain_execute demo_strain_env ?in [(''/w'', FDir)] = (f', Inr raw)"
    using demo_report unfolding demo_execute by blast
  have keys: "plan_keys ?in ''x'' @ plan_keys ?in ''y'' = demo_keys" by code_simp
  have "list_all (\<lambda>key. snd key \<noteq> NaN) demo_keys" by code_simp
  then have "\<forall>key\<in>set (plan_keys ?in ''x'' @ plan_keys ?in ''y''). snd key \<noteq> NaN" unfolding keys list_all_iff .
  from no_planned_point_lost [OF raw this] obtain rows where rows: "dget0 raw ''strain_data'' = PList (map PDict rows)"
    "\<forall>key\<in>set demo_keys. \<exists>row\<in>set rows. strain_key row = Some key" unfolding keys by blast
  have "(''y'', Fin (1 / 100)) \<in> set demo_keys" unfolding demo_keys_def demo_strains_def by simp
  with rows raw show ?thesis by blast
qed

theorem campaign_success_sound_witness:
  "\<exists>rows. enough_for_fit rows ''y''
     \<and> dget0 (to_state_updates (snd (strain_tool_run demo_strain_env (demo_strain_input demo_strains demo_rows) [(''/w'', FDir)]))) ''strain_data''
         = PList (map PDict rows)"
proof -
  let ?r = "strain_tool_run demo_strain_env (demo_strain_input demo_strains demo_rows) [(''/w'', FDir)]"
  have s: "to_success (snd ?r)"
    using demo_report by (auto simp: strain_tool_run_def tool_run_def demo_execute split: sum.splits)
  have r: "?r = (fst ?r, snd ?r)" by simp
  from campaign_success_sound [OF r s] show ?thesis by blast
qed

text \<open>The keys of a campaign have six digits of the strain, the folders four: two planned strains may share a folder, and
  the second calculation then overwrites the files of the first.\<close>

theorem folders_collide:
  "round_point (Fin (372 / 100000)) \<noteq> round_point (Fin (374 / 100000))
    \<and> point_folder base direction (Fin (372 / 100000)) = point_folder base direction (Fin (374 / 100000))"
proof -
  have f: "signed_fixed 4 (Fin (372 / 100000)) = signed_fixed 4 (Fin (374 / 100000))" by code_simp
  have "round_point (Fin (372 / 100000)) \<noteq> round_point (Fin (374 / 100000))" by code_simp
  then show ?thesis unfolding point_folder_def f by simp
qed

end
