(* ===== verification/Mass.thy ===== *)
theory Mass
  imports Band_Edges
begin

text \<open>
  The effective masses (mobility_agent/tools/mass_tool.py and calculate_effective_mass of
  tools/physics_common.py): the k-points along a direction, the band edge that follows the carrier, the fit
  of one branch with every test that accepts or rejects it, and the stage over the four channels.

  scipy's fit of a parabola, the square root, the writers of KPOINTS and of the table of a channel, VASP and
  the policy engine are parameters, the record \<open>mass_env\<close>. Vectors and matrices are lists, numpy's checks of
  their shapes are written out.
\<close>

section \<open>The fit of a mass\<close>

definition BOHR_TO_ANGSTROM :: flt where
  "BOHR_TO_ANGSTROM = Fin (529177210903 / 10 ^ 12)"

definition HARTREE_TO_EV :: flt where
  "HARTREE_TO_EV = Fin (27211386245988 / 10 ^ 12)"

definition EV_TO_HARTREE :: flt where
  "EV_TO_HARTREE = flt_div (Fin 1) HARTREE_TO_EV"

definition parabola :: "flt \<times> flt \<times> flt \<Rightarrow> flt \<Rightarrow> flt" where
  "parabola = (\<lambda>(a, b, c) k. flt_add (flt_add (flt_mul a (flt_square k)) (flt_mul b k)) c)"

definition r_squared :: "flt list \<Rightarrow> flt list \<Rightarrow> flt" where
  "r_squared ys fit =
     (let res = flt_sum (map (\<lambda>(y, p). flt_square (flt_sub y p)) (zip ys fit)); mean = flt_mean ys;
          total = flt_sum (map (\<lambda>y. flt_square (flt_sub y mean)) ys)
      in if flt_lt (Fin 0) total then flt_sub (Fin 1) (flt_div res total) else Fin 0)"

type_synonym parabola_fit = "flt list \<Rightarrow> flt list \<Rightarrow> (flt \<times> flt \<times> flt) res"

definition calculate_effective_mass :: "parabola_fit \<Rightarrow> flt list \<Rightarrow> flt list \<Rightarrow> (flt \<times> flt \<times> flt) res" where
  "calculate_effective_mass curve_fit ks es =
     (let k_au = map (\<lambda>k. flt_mul k BOHR_TO_ANGSTROM) ks; e_au = map (\<lambda>e. flt_mul e EV_TO_HARTREE) es
      in bindR (curve_fit k_au e_au) (\<lambda>p.
         if flt_lt (flt_abs (fst p)) (Fin (1 / 10 ^ 18)) then Inl (ValueError ''curvature close to zero'')
         else Inr (flt_abs (flt_div (Fin 1) (flt_mul (Fin 2) (fst p))),
                   flt_mul (flt_mul (fst p) HARTREE_TO_EV) (flt_square BOHR_TO_ANGSTROM),
                   r_squared e_au (map (parabola p) k_au))))"

section \<open>The edge that follows the carrier\<close>

text \<open>The band picked at one k-point: by the Fermi level when it is known, by the occupation otherwise.\<close>

definition edge_mask :: "eigenval \<Rightarrow> flt \<Rightarrow> string \<Rightarrow> flt option \<Rightarrow> kstate list \<Rightarrow> kstate \<Rightarrow> bool" where
  "edge_mask ev tolerance carrier fermi ts =
     (let tol = flt_abs tolerance in
      if carrier = ''hole'' then
        (case fermi of
           Some ef \<Rightarrow> if list_ex (\<lambda>t. flt_le (energy ev t) (flt_sub ef tol)) ts then (\<lambda>t. flt_le (energy ev t) (flt_sub ef tol))
                      else (\<lambda>t. flt_le (energy ev t) (flt_add ef tol))
         | None \<Rightarrow> occupied_state ev)
      else
        (case fermi of
           Some ef \<Rightarrow> if list_ex (\<lambda>t. flt_le (flt_add ef tol) (energy ev t)) ts then (\<lambda>t. flt_le (flt_add ef tol) (energy ev t))
                      else (\<lambda>t. flt_le (flt_sub ef tol) (energy ev t))
         | None \<Rightarrow> unoccupied_state ev))"

definition edge_at :: "eigenval \<Rightarrow> flt \<Rightarrow> string \<Rightarrow> flt option \<Rightarrow> nat \<Rightarrow> nat \<Rightarrow> (flt \<times> nat) res" where
  "edge_at ev tolerance carrier fermi s k =
     (let ts = map (\<lambda>b. (s, k, b)) [0..<length (ev_bands ev ! k)]; sel = edge_mask ev tolerance carrier fermi ts
      in if \<not> list_ex sel ts then Inl (ValueError (''effective mass ('' @ carrier @ ''): no state on its side of the Fermi level''))
         else let t = (if carrier = ''hole'' then argmax (\<lambda>t. if sel t then energy ev t else NegInf) ts
                       else argmin (\<lambda>t. if sel t then energy ev t else PosInf) ts)
           in Inr (if sel t then energy ev t else if carrier = ''hole'' then NegInf else PosInf, snd (snd t)))"

definition dynamic_band_edge :: "eigenval \<Rightarrow> flt \<Rightarrow> string \<Rightarrow> flt option \<Rightarrow> nat \<Rightarrow> (flt list \<times> nat list \<times> string) res" where
  "dynamic_band_edge ev tolerance carrier fermi s =
     bindR (mapR (edge_at ev tolerance carrier fermi s) [0..<length (ev_bands ev)]) (\<lambda>xs.
       Inr (map fst xs, map snd xs, if fermi = None then ''occupancy'' else ''fermi_energy''))"

section \<open>The fit of one branch\<close>

record mass_config =
  mc_npoints :: int
  mc_delta_k :: flt
  mc_fit_kmax :: flt
  mc_min_r2 :: flt
  mc_min_mass :: flt
  mc_max_mass :: flt
  mc_max_jump :: flt
  mc_max_stability :: flt
  mc_fermi_tolerance :: flt

definition default_mass_config :: mass_config where
  "default_mass_config =
     \<lparr>mc_npoints = 21, mc_delta_k = Fin (1 / 100), mc_fit_kmax = Fin (3 / 100), mc_min_r2 = Fin (95 / 100),
      mc_min_mass = Fin (2 / 100), mc_max_mass = Fin 20, mc_max_jump = Fin (1 / 2), mc_max_stability = Fin 1,
      mc_fermi_tolerance = Fin (1 / 1000)\<rparr>"

text \<open>What is known of a branch: the sampled k-points and along them the energy and occupation of the fixed band and
  the edge that follows the carrier.\<close>

record branch =
  br_carrier :: string
  br_direction :: string
  br_k :: "flt list"
  br_energy :: "flt list"
  br_occupation :: "flt list"
  br_band :: nat
  br_edge :: "flt list"
  br_edge_bands :: "nat list"
  br_fermi :: "flt option"
  br_fermi_source :: string
  br_selector :: string

text \<open>\<open>xs[sel]\<close>\<close>

definition masked :: "bool list \<Rightarrow> 'a list \<Rightarrow> 'a list res" where
  "masked sel xs = (if length sel = length xs then Inr (map snd (filter fst (zip sel xs))) else Inl (IndexError ''boolean index did not match''))"

definition count_true :: "bool list \<Rightarrow> nat" where
  "count_true sel = length (filter (\<lambda>b. b) sel)"

definition near_center :: "flt \<Rightarrow> flt list \<Rightarrow> bool list" where
  "near_center limit ks = map (\<lambda>k. flt_le (flt_abs k) limit) ks"

definition fit_window :: "mass_config \<Rightarrow> flt list \<Rightarrow> bool list" where
  "fit_window mc ks =
     (let sel = near_center (mc_fit_kmax mc) ks in if count_true sel < 5 then map (\<lambda>_. True) ks else sel)"

definition jumps :: "flt list \<Rightarrow> flt list" where
  "jumps xs = map (\<lambda>(a, b). flt_abs (flt_sub b a)) (zip xs (tl xs))"

definition max_jump :: "flt list \<Rightarrow> flt" where
  "max_jump xs = (if jumps xs = [] then Fin 0 else np_max (jumps xs))"

definition right_curvature :: "string \<Rightarrow> flt \<Rightarrow> bool" where
  "right_curvature carrier a \<longleftrightarrow> (if carrier = ''electron'' then flt_lt (Fin 0) a else flt_lt a (Fin 0))"

definition center_extremal :: "string \<Rightarrow> flt \<Rightarrow> flt list \<Rightarrow> bool" where
  "center_extremal carrier e es \<longleftrightarrow>
     (if carrier = ''electron'' then flt_le e (flt_add (np_min es) (Fin (1 / 1000))) else flt_le (flt_sub (np_max es) (Fin (1 / 1000))) e)"

definition crosses_fermi :: "mass_config \<Rightarrow> string \<Rightarrow> flt list \<Rightarrow> flt \<Rightarrow> bool" where
  "crosses_fermi mc carrier es ef \<longleftrightarrow>
     (let tol = flt_abs (mc_fermi_tolerance mc) in
      if carrier = ''hole'' then list_ex (\<lambda>e. flt_lt (flt_add ef tol) e) es else list_ex (\<lambda>e. flt_lt e (flt_sub ef tol)) es)"

definition partly_occupied :: "flt list \<Rightarrow> bool" where
  "partly_occupied os = list_ex (\<lambda>q. flt_lt (Fin (1 / 1000)) q \<and> flt_lt q (Fin (999 / 1000))) os"

text \<open>The fit over the inner two thirds of the window: how far its mass is from the first, and whether it failed.\<close>

definition window_stability :: "parabola_fit \<Rightarrow> mass_config \<Rightarrow> flt list \<Rightarrow> flt list \<Rightarrow> flt \<Rightarrow> flt option \<times> string list" where
  "window_stability curve_fit mc ks es m =
     (let kmax = mc_fit_kmax mc;
          sel = near_center (py_min (flt_div (flt_mul kmax (Fin 2)) (Fin 3)) (flt_sub kmax (Fin (1 / 10 ^ 12)))) ks
      in if count_true sel < 5 then (None, [])
         else case bindR (masked sel ks) (\<lambda>iks. bindR (masked sel es) (calculate_effective_mass curve_fit iks)) of
           Inl _ \<Rightarrow> (None, [''inner_window_mass_fit_failed''])
         | Inr (inner, _) \<Rightarrow>
             (if is_finite inner \<and> flt_lt (Fin (1 / 10 ^ 12)) (flt_abs m)
              then Some (flt_div (flt_abs (flt_sub inner m)) (flt_abs m)) else None, []))"

text \<open>The tests of a fitted branch.\<close>

record branch_fit =
  bf_mass :: flt
  bf_curvature :: flt
  bf_r2 :: flt
  bf_k :: "flt list"
  bf_energy :: "flt list"
  bf_occupation :: "flt list"
  bf_edge :: "flt list"
  bf_edge_bands :: "nat list"
  bf_center :: flt
  bf_stability :: "flt option"
  bf_inner_warnings :: "string list"

definition rejection_reasons :: "mass_config \<Rightarrow> branch \<Rightarrow> branch_fit \<Rightarrow> string list" where
  "rejection_reasons mc br bf =
     on (flt_lt (mc_max_jump mc) (max_jump (bf_energy bf))) ''large_fixed_branch_energy_jump''
     @ on (case br_fermi br of None \<Rightarrow> False | Some ef \<Rightarrow> crosses_fermi mc (br_carrier br) (bf_energy bf) ef) ''fixed_branch_crosses_fermi''
     @ on (flt_lt (bf_r2 bf) (mc_min_r2 mc)) ''mass_fit_r2_below_threshold''
     @ on (\<not> right_curvature (br_carrier br) (bf_curvature bf)) ''wrong_curvature_sign''
     @ on (\<not> center_extremal (br_carrier br) (bf_center bf) (bf_energy bf)) ''center_not_band_extremum''
     @ on (flt_lt (bf_mass bf) (mc_min_mass mc)) ''anomalously_small_effective_mass''
     @ on (flt_lt (mc_max_mass mc) (bf_mass bf)) ''unusually_large_effective_mass''
     @ on (case bf_stability bf of None \<Rightarrow> False | Some x \<Rightarrow> flt_lt (mc_max_stability mc) x) ''mass_fit_window_unstable''"

definition branch_warnings :: "mass_config \<Rightarrow> branch \<Rightarrow> branch_fit \<Rightarrow> string list" where
  "branch_warnings mc br bf =
     bf_inner_warnings bf
     @ on (1 < length (remdups (bf_edge_bands bf))) (br_selector br @ ''_edge_selector_switch'')
     @ on (flt_lt (mc_max_jump mc) (max_jump (bf_edge bf))) ''large_dynamic_edge_energy_jump''
     @ on (bf_occupation bf \<noteq> [] \<and> partly_occupied (bf_occupation bf)) ''fixed_branch_partial_occupation_in_fit_window''"

definition py_opt :: "('a \<Rightarrow> py) \<Rightarrow> 'a option \<Rightarrow> py" where
  "py_opt f x = (case x of None \<Rightarrow> PNone | Some y \<Rightarrow> f y)"

definition py_nats :: "nat list \<Rightarrow> py" where
  "py_nats ns = PList (map (\<lambda>n. PInt (int n)) ns)"

definition channel_name :: "branch \<Rightarrow> string" where
  "channel_name br = br_carrier br @ ''_'' @ br_direction br"

definition thresholds :: "mass_config \<Rightarrow> dict" where
  "thresholds mc =
     [(''min_mass_fit_r2'', PFloat (mc_min_r2 mc)), (''min_effective_mass_m0'', PFloat (mc_min_mass mc)),
      (''max_effective_mass_m0'', PFloat (mc_max_mass mc)), (''max_branch_energy_jump_eV'', PFloat (mc_max_jump mc)),
      (''max_fit_window_stability_rel'', PFloat (mc_max_stability mc))]"

definition branch_diagnosis :: "mass_config \<Rightarrow> branch \<Rightarrow> branch_fit \<Rightarrow> dict" where
  "branch_diagnosis mc br bf =
     (let reasons = rejection_reasons mc br bf; crosses = map_option (crosses_fermi mc (br_carrier br) (bf_energy bf)) (br_fermi br);
          occ = bf_occupation bf
      in [(''channel'', PStr (channel_name br)), (''carrier'', PStr (br_carrier br)), (''direction'', PStr (br_direction br)),
          (''status'', PStr (if reasons = [] then ''accepted'' else ''rejected'')), (''rejection_reasons'', PList (map PStr reasons)),
          (''warnings'', PList (map PStr (branch_warnings mc br bf))), (''mass_m0'', PFloat (bf_mass bf)), (''a_fit_eVA2'', PFloat (bf_curvature bf)),
          (''mass_fit_R2'', PFloat (bf_r2 bf)), (''curvature_sign_ok'', PBool (right_curvature (br_carrier br) (bf_curvature bf))),
          (''center_is_extremum'', PBool (center_extremal (br_carrier br) (bf_center bf) (bf_energy bf))),
          (''fixed_band_index'', PInt (int (br_band br))), (''fixed_band_indices'', py_nats (map (\<lambda>_. br_band br) (bf_k bf))),
          (''dynamic_band_indices'', py_nats (bf_edge_bands bf)), (''dynamic_band_switch'', PBool (1 < length (remdups (bf_edge_bands bf)))),
          (''dynamic_selector_source'', PStr (br_selector br)), (''fermi_energy_eV'', py_opt PFloat (br_fermi br)),
          (''fermi_source'', PStr (br_fermi_source br)), (''fixed_branch_fermi_side_ok'', py_opt (\<lambda>b. PBool (\<not> b)) crosses),
          (''fixed_branch_crosses_fermi'', py_opt PBool crosses), (''fixed_branch_occ_min'', if occ = [] then PNone else PFloat (np_min occ)),
          (''fixed_branch_occ_max'', if occ = [] then PNone else PFloat (np_max occ)),
          (''partial_occupation_in_fit_window'', if occ = [] then PNone else PBool (partly_occupied occ)),
          (''fixed_branch_energy_jump_max_eV'', PFloat (max_jump (bf_energy bf))), (''dynamic_edge_energy_jump_max_eV'', PFloat (max_jump (bf_edge bf))),
          (''fit_window_kmax_Ainv'', if bf_k bf = [] then PNone else PFloat (np_max (map flt_abs (bf_k bf)))),
          (''fit_point_count'', PInt (int (length (bf_k bf)))), (''fit_window_stability_rel'', py_opt PFloat (bf_stability bf)),
          (''thresholds'', PDict (thresholds mc))])"

definition unfitted_diagnosis :: "branch \<Rightarrow> nat list \<Rightarrow> py_error \<Rightarrow> dict" where
  "unfitted_diagnosis br bands e =
     [(''channel'', PStr (channel_name br)), (''carrier'', PStr (br_carrier br)), (''direction'', PStr (br_direction br)),
      (''status'', PStr ''rejected''), (''rejection_reasons'', PList [PStr ''mass_fit_failed'']), (''error'', PStr (exc_text e)),
      (''fixed_band_index'', PInt (int (br_band br))), (''dynamic_band_indices'', py_nats bands)]"

definition centered :: "flt list \<Rightarrow> flt list" where
  "centered ks = map (\<lambda>k. flt_sub k (ks ! (length ks div 2))) ks"

definition fit_mass_branch :: "parabola_fit \<Rightarrow> mass_config \<Rightarrow> branch \<Rightarrow> (flt option \<times> dict) res" where
  "fit_mass_branch curve_fit mc br =
     (if br_k br = [] then Inl (IndexError ''index 0 is out of bounds'')
      else
        let ks = centered (br_k br); sel = fit_window mc ks
        in bindR (masked sel ks) (\<lambda>fit_k.
           bindR (masked sel (br_energy br)) (\<lambda>fit_e.
           bindR (masked sel (br_edge_bands br)) (\<lambda>fit_bands.
           bindR (masked sel (br_edge br)) (\<lambda>fit_edge.
           bindR (masked sel (br_occupation br)) (\<lambda>fit_occ.
             case calculate_effective_mass curve_fit fit_k fit_e of
               Inl e \<Rightarrow> Inr (None, unfitted_diagnosis br fit_bands e)
             | Inr (m, a, r2) \<Rightarrow>
                 (let st = window_stability curve_fit mc ks (br_energy br) m;
                      bf = \<lparr>bf_mass = m, bf_curvature = a, bf_r2 = r2, bf_k = fit_k, bf_energy = fit_e, bf_occupation = fit_occ,
                            bf_edge = fit_edge, bf_edge_bands = fit_bands, bf_center = br_energy br ! (length (br_k br) div 2),
                            bf_stability = fst st, bf_inner_warnings = snd st\<rparr>
                  in Inr (Some m, branch_diagnosis mc br bf))))))))"

section \<open>The stage\<close>

record MassToolInput =
  mi_base_dir :: string
  mi_poscar_path :: "string option"
  mi_potcar_path :: "string option"
  mi_reciprocal_lattice :: "flt list list"
  mi_vbm_kpoint :: "flt list"
  mi_cbm_kpoint :: "flt list"
  mi_vbm_band :: int
  mi_cbm_band :: int
  mi_vbm_spin :: "int option"
  mi_cbm_spin :: "int option"
  mi_fermi_energy :: "flt option"
  mi_state_payload :: dict

record mass_env =
  ms_tool :: tool_env
  ms_readers :: vasp_readers
  ms_config :: mass_config
  ms_engine :: "(string \<Rightarrow> dict \<Rightarrow> dict \<Rightarrow> dict \<Rightarrow> dict \<Rightarrow> ParameterPlan) option"
  ms_curve_fit :: parabola_fit
  ms_sqrt :: "flt \<Rightarrow> flt"
  ms_kpoints_text :: "string \<Rightarrow> flt list list \<Rightarrow> string"
  ms_table_text :: "flt list list \<Rightarrow> string"
  ms_process :: "string \<Rightarrow> fs \<Rightarrow> vasp_exit"

definition resolve_fermi_energy :: "vasp_readers \<Rightarrow> MassToolInput \<Rightarrow> fs \<Rightarrow> string \<Rightarrow> flt option \<times> string" where
  "resolve_fermi_energy vr inputs f work_dir =
     (case mi_fermi_energy inputs of
        Some ef \<Rightarrow> (Some ef, ''scf_state'')
      | None \<Rightarrow>
          (case read_fermi_energy vr f (path_join (mi_base_dir inputs) ''02_scf'') of
             Inr ef \<Rightarrow> (Some ef, ''scf_dir'')
           | Inl _ \<Rightarrow> (case read_fermi_energy vr f work_dir of
               Inr ef \<Rightarrow> (Some ef, ''effective_mass_dir'') | Inl _ \<Rightarrow> (None, ''unavailable''))))"

text \<open>\<open>u @ m\<close>\<close>

definition rectangular :: "flt list list \<Rightarrow> bool" where
  "rectangular m \<longleftrightarrow> list_all (\<lambda>row. length row = length (hd m)) m"

definition frac_to_cart_k :: "flt list \<Rightarrow> flt list list \<Rightarrow> flt list res" where
  "frac_to_cart_k u m =
     (if \<not> rectangular m then Inl (ValueError ''inhomogeneous shape'')
      else if m = [] \<or> length u \<noteq> length m then Inl (ValueError ''matmul: mismatch in its core dimension'')
      else Inr (map (\<lambda>j. flt_sum (map (\<lambda>(x, row). flt_mul x (row ! j)) (zip u m))) [0..<length (hd m)]))"

definition dot :: "flt list \<Rightarrow> flt list \<Rightarrow> flt" where
  "dot u v = flt_sum (map (\<lambda>(x, y). flt_mul x y) (zip u v))"

definition odd_points :: "int \<Rightarrow> int" where
  "odd_points n = (if n mod 2 = 0 then n + 1 else n)"

text \<open>The k-points along a reciprocal vector, with their signed distance from the edge.\<close>

definition sample_point :: "flt list \<Rightarrow> flt list \<Rightarrow> flt list list \<Rightarrow> nat \<Rightarrow> flt list \<Rightarrow> flt \<Rightarrow> int \<Rightarrow> (flt list \<times> flt) res" where
  "sample_point k0 k0_cart m direction b_unit delta i =
     (let k = k0[direction := flt_add (k0 ! direction) (flt_mul (Fin (of_int i)) delta)]
      in bindR (frac_to_cart_k k m) (\<lambda>k_cart.
           Inr (k, dot (map (\<lambda>(x, y). flt_sub x y) (zip k_cart k0_cart)) b_unit)))"

definition sample_line :: "mass_env \<Rightarrow> flt list \<Rightarrow> flt list \<Rightarrow> flt list list \<Rightarrow> nat \<Rightarrow> (flt list list \<times> flt list) res" where
  "sample_line me k0 k0_cart m direction =
     (if length m \<le> direction then Inl (IndexError ''index is out of bounds'')
      else
        let b = m ! direction; len = ms_sqrt me (flt_sum (map flt_square b))
        in if flt_lt len (Fin (1 / 10 ^ 8)) then Inl (ValueError ''reciprocal vector too short'')
           else
             let delta = flt_div (mc_delta_k (ms_config me)) len; b_unit = map (\<lambda>x. flt_div x len) b;
                 n = odd_points (mc_npoints (ms_config me))
             in bindR (mapR (\<lambda>i. sample_point k0 k0_cart m direction b_unit delta (int i - n div 2)) [0..<nat n]) (\<lambda>ps.
                  Inr (map fst ps, map snd ps)))"

definition mass_template :: "tool_env \<Rightarrow> dict \<Rightarrow> dict" where
  "mass_template te overrides =
     (let d = dmerge
        [(''ISTART'', PInt 0), (''ICHARG'', PInt 11), (''ISMEAR'', PInt 0), (''SIGMA'', PFloat (Fin (1 / 100))), (''LREAL'', PStr ''Auto''),
         (''PREC'', PStr ''Normal''), (''EDIFF'', PFloat (Fin (1 / 10 ^ 6))), (''ENCUT'', PInt 600), (''NELM'', PInt 300), (''IVDW'', PInt 12),
         (''NELMIN'', PInt 4), (''ALGO'', PStr ''Normal''), (''LCHARG'', PBool False), (''LWAVE'', PBool False), (''LELF'', PBool False)] overrides
      in if te_consider_spin te \<and> map_of d ''ISPIN'' = None then dset d ''ISPIN'' (PInt 2) else d)"

definition mass_plan :: "mass_env \<Rightarrow> MassToolInput \<Rightarrow> dict \<Rightarrow> ParameterPlan option res" where
  "mass_plan me inputs incar =
     (case ms_engine me of
        None \<Rightarrow> Inr None
      | Some plan \<Rightarrow> bindR (policy_stage_planning_allowed (PDict (mi_state_payload inputs)) ''effective_mass'' []) (\<lambda>allowed.
          Inr (if allowed then Some (plan ''effective_mass'' (mi_state_payload inputs) incar
            [(''line_mode_density'', PInt (mc_npoints (ms_config me)))]
            [(''charge_density_source'', PStr (path_join (path_join (mi_base_dir inputs) ''02_scf'') ''CHGCAR'')),
             (''nscf_requires_chgcar_grid_compatibility'', PBool True)]) else None)))"

definition channel_incar :: "tool_env \<Rightarrow> dict \<Rightarrow> string \<Rightarrow> string \<Rightarrow> dict" where
  "channel_incar te template carrier direction =
     (let d = dmerge template
        [(''SYSTEM'', PStr (''Effective Mass '' @ carrier @ '' '' @ direction)), (''ICHARG'', PInt 11), (''LCHARG'', PBool False),
         (''LWAVE'', PBool False), (''LELF'', PBool False)]
      in if te_consider_spin te then dset d ''ISPIN'' (PInt 2) else d)"

definition mass_keep :: "string list" where
  "mass_keep = [''INCAR'', ''KPOINTS'', ''POSCAR'', ''POTCAR'', ''EIGENVAL'', ''OUTCAR'', ''ek_data.txt'']"

text \<open>numpy's index of the spin channel: one too large is read as the first, a negative one counts from the end.\<close>

definition spin_index :: "eigenval \<Rightarrow> int \<Rightarrow> nat res" where
  "spin_index ev s =
     (let n = int (ev_spins ev) in
      if n \<le> s then Inr 0 else if 0 \<le> s then Inr (nat s) else if - n \<le> s then Inr (nat (n + s))
      else Inl (IndexError ''index is out of bounds''))"

definition band_count :: "eigenval \<Rightarrow> nat" where
  "band_count ev = (case ev_bands ev of [] \<Rightarrow> 0 | bs # _ \<Rightarrow> length bs)"

text \<open>The branch of one channel, read from the EIGENVAL of its directory.\<close>

definition read_branch ::
  "mass_env \<Rightarrow> MassToolInput \<Rightarrow> string \<Rightarrow> string \<Rightarrow> flt list \<Rightarrow> int \<Rightarrow> int \<Rightarrow> string \<Rightarrow> fs \<Rightarrow> branch res" where
  "read_branch me inputs carrier direction ks band spin work_dir f =
     bindR (read_eigenval f (path_join work_dir ''EIGENVAL'')) (\<lambda>ev.
     bindR (spin_index ev spin) (\<lambda>s.
       let fermi = resolve_fermi_energy (ms_readers me) inputs f work_dir
       in bindR (dynamic_band_edge ev (mc_fermi_tolerance (ms_config me)) carrier (fst fermi) s) (\<lambda>(edge, bands, selector).
          if band_count ev = 0 then Inl (IndexError ''index 0 is out of bounds'')
          else
            let b = nat (max 0 (min band (int (band_count ev) - 1))); ts = map (\<lambda>k. (s, k, b)) [0..<length (ev_bands ev)]
            in Inr \<lparr>br_carrier = carrier, br_direction = direction, br_k = ks, br_energy = map (energy ev) ts,
                    br_occupation = map (occupation ev) ts, br_band = b, br_edge = edge, br_edge_bands = bands, br_fermi = fst fermi,
                    br_fermi_source = snd fermi, br_selector = selector\<rparr>)))"

datatype channel_end =
    Measured flt dict
  | Unfitted dict
  | NotRun dict

definition channel_dir :: "MassToolInput \<Rightarrow> string \<Rightarrow> string \<Rightarrow> string" where
  "channel_dir inputs carrier direction = path_join (mi_base_dir inputs) (''04_effmass_'' @ carrier @ ''_'' @ direction)"

text \<open>The input files of a channel, and the signed distances of its k-points.\<close>

definition prepare_channel :: "mass_env \<Rightarrow> MassToolInput \<Rightarrow> dict \<Rightarrow> string \<Rightarrow> string \<Rightarrow> flt list io" where
  "prepare_channel me inputs template carrier direction =
     (let work_dir = channel_dir inputs carrier direction; m = mi_reciprocal_lattice inputs;
          k0 = (if carrier = ''electron'' then mi_cbm_kpoint inputs else mi_vbm_kpoint inputs);
          poscar = str_or (mi_poscar_path inputs) []; potcar = str_or (mi_potcar_path inputs) []
      in io_bind (io_lift (frac_to_cart_k k0 m)) (\<lambda>k0_cart.
         io_bind (io_change (\<lambda>f. makedirs f work_dir)) (\<lambda>_.
         io_bind (io_try_change (\<lambda>f. copy_file f poscar (path_join work_dir ''POSCAR''))) (\<lambda>_.
         io_bind (io_try_change (\<lambda>f. copy_file f potcar (path_join work_dir ''POTCAR''))) (\<lambda>_.
         io_bind (io_change (link_file (path_join (path_join (mi_base_dir inputs) ''02_scf'') ''CHGCAR'') (path_join work_dir ''CHGCAR''))) (\<lambda>_.
         io_bind (io_lift (sample_line me k0 k0_cart m (if direction = ''x'' then 0 else 1))) (\<lambda>(kpoints, ks).
         io_bind (io_change (\<lambda>f. write_file f (path_join work_dir ''KPOINTS'')
                               (ms_kpoints_text me (''Effective mass '' @ carrier @ '' '' @ direction) kpoints))) (\<lambda>_.
         io_bind (io_change (write_incar (ms_tool me) work_dir (channel_incar (ms_tool me) template carrier direction))) (\<lambda>_.
           io_return ks)))))))))"

definition mass_channel :: "mass_env \<Rightarrow> MassToolInput \<Rightarrow> dict \<Rightarrow> string \<Rightarrow> string \<Rightarrow> channel_end io" where
  "mass_channel me inputs template carrier direction =
     (let work_dir = channel_dir inputs carrier direction; te = (ms_tool me)\<lparr>te_process := ms_process me (channel_dir inputs carrier direction)\<rparr>;
          band = (if carrier = ''electron'' then mi_cbm_band inputs else mi_vbm_band inputs);
          spin = (case (if carrier = ''electron'' then mi_cbm_spin inputs else mi_vbm_spin inputs) of None \<Rightarrow> 0 | Some s \<Rightarrow> s)
      in io_bind (prepare_channel me inputs template carrier direction) (\<lambda>ks.
         io_bind (run_vasp_io te work_dir False) (\<lambda>ok.
         if \<not> ok then
           io_bind (io_read (\<lambda>f. summarize_vasp_failure f work_dir ''effective_mass'' (carrier @ '' '' @ direction @ '' effective mass failed'') None))
             (\<lambda>summary. io_return (NotRun summary))
         else
           io_bind (\<lambda>f. (f, read_branch me inputs carrier direction ks band spin work_dir f)) (\<lambda>br.
           io_bind (io_lift (fit_mass_branch (ms_curve_fit me) (ms_config me) br)) (\<lambda>(m, diag).
             case m of
               None \<Rightarrow> io_return (Unfitted diag)
             | Some x \<Rightarrow>
                 io_bind (io_change (\<lambda>f. write_file f (path_join work_dir ''ek_data.txt'')
                   (ms_table_text me [br_k br, centered (br_k br), br_energy br, br_occupation br, map (\<lambda>_. Fin (of_nat (br_band br))) (br_k br),
                      br_edge br, map (\<lambda>n. Fin (of_nat n)) (br_edge_bands br)]))) (\<lambda>_.
                 io_bind (io_change (\<lambda>f. prune_dir_keep_files f work_dir mass_keep)) (\<lambda>_.
                   io_return (Measured x diag))))))))"

text \<open>The channels in their order; the first that fails ends the stage with its report.\<close>

definition mass_failed :: "string \<Rightarrow> string \<Rightarrow> channel_end \<Rightarrow> dict" where
  "mass_failed carrier direction ended =
     (case ended of
        NotRun summary \<Rightarrow> [(''errors'', PList [PStr (py_str (dget0 summary ''error_summary''))]), (''recovery_summary'', PDict summary)]
      | Unfitted diag \<Rightarrow>
          [(''errors'', PList [PStr (carrier @ '' '' @ direction @ '' effective mass fit failed: '' @ py_str (dget diag ''error'' (PStr ''unknown'')))])]
      | Measured _ _ \<Rightarrow> [])"

fun mass_channels ::
  "mass_env \<Rightarrow> MassToolInput \<Rightarrow> dict \<Rightarrow> (string \<times> string) list \<Rightarrow> (dict + (string \<times> flt \<times> dict) list) io" where
  "mass_channels me inputs template [] = io_return (Inr [])"
| "mass_channels me inputs template ((carrier, direction) # cs) =
     io_bind (mass_channel me inputs template carrier direction) (\<lambda>ended.
       case ended of
         Measured x diag \<Rightarrow> io_bind (mass_channels me inputs template cs) (\<lambda>r.
           io_return (case r of Inl d \<Rightarrow> Inl d | Inr ms \<Rightarrow> Inr ((carrier @ ''_'' @ direction, x, diag) # ms)))
       | _ \<Rightarrow> io_return (Inl (mass_failed carrier direction ended)))"

definition mass_channel_list :: "(string \<times> string) list" where
  "mass_channel_list = [(''electron'', ''x''), (''electron'', ''y''), (''hole'', ''x''), (''hole'', ''y'')]"

definition mass_of :: "(string \<times> flt \<times> dict) list \<Rightarrow> string \<Rightarrow> flt" where
  "mass_of ms channel = (case map_of ms channel of None \<Rightarrow> NaN | Some p \<Rightarrow> fst p)"

definition mass_diagnostics :: "(string \<times> flt \<times> dict) list \<Rightarrow> dict" where
  "mass_diagnostics ms = map (\<lambda>(channel, _, diag). (channel, PDict diag)) ms"

definition mass_report :: "mass_env \<Rightarrow> (string \<times> flt \<times> dict) list \<Rightarrow> dict" where
  "mass_report me ms =
     (let dos = (\<lambda>carrier. ms_sqrt me (flt_mul (mass_of ms (carrier @ ''_x'')) (mass_of ms (carrier @ ''_y''))))
      in [(''effmass_completed'', PBool True), (''electron_mass_x'', PFloat (mass_of ms ''electron_x'')),
          (''electron_mass_y'', PFloat (mass_of ms ''electron_y'')), (''electron_mass_dos'', PFloat (dos ''electron'')),
          (''hole_mass_x'', PFloat (mass_of ms ''hole_x'')), (''hole_mass_y'', PFloat (mass_of ms ''hole_y'')),
          (''hole_mass_dos'', PFloat (dos ''hole'')), (''mass_diagnostics'', PDict (mass_diagnostics ms))])"

definition mass_execute :: "mass_env \<Rightarrow> MassToolInput \<Rightarrow> dict io" where
  "mass_execute me inputs =
     (if str_or (mi_poscar_path inputs) [] = [] \<or> str_or (mi_potcar_path inputs) [] = []
      then io_lift (Inl (ValueError ''mass tool requires poscar_path and potcar_path''))
      else if \<not> rectangular (mi_reciprocal_lattice inputs) then io_lift (Inl (ValueError ''inhomogeneous shape''))
      else
        io_bind (io_read (\<lambda>f. read_chgcar_compatible_incar_overrides (vr_incar (ms_readers me)) f (mi_base_dir inputs))) (\<lambda>overrides.
        let incar = mass_template (ms_tool me) overrides
        in io_bind (io_lift (mass_plan me inputs incar)) (\<lambda>plan.
           let template = (case plan of None \<Rightarrow> incar | Some p \<Rightarrow> dmerge (dmerge incar (pp_incar_overrides p)) overrides);
               updates = planned_updates ''effective_mass'' plan
           in io_bind (mass_channels me inputs template mass_channel_list) (\<lambda>r.
              case r of
                Inl failed \<Rightarrow> io_return (dmerge failed updates)
              | Inr ms \<Rightarrow>
                  io_bind (io_change (\<lambda>f. write_file f (path_join (mi_base_dir inputs) ''mass_diagnostics.json'')
                             (json_dumps (PDict (mass_diagnostics ms))))) (\<lambda>_.
                    io_return (dmerge (mass_report me ms) updates))))))"

definition mass_quality :: "dict \<Rightarrow> dict res" where
  "mass_quality diags =
     mapR (\<lambda>(channel, v). bindR (if truthy v then to_dict v else Inr []) (\<lambda>d. Inr (channel, dget0 d ''status''))) diags"

definition mass_build_output :: "MassToolInput \<Rightarrow> fs \<Rightarrow> dict \<Rightarrow> ToolOutput res" where
  "mass_build_output inputs f raw =
     bindR (get_dict raw ''mass_diagnostics'') (\<lambda>diags.
     bindR (mass_quality diags) (\<lambda>quality.
     bindR (get_list raw ''warnings'') (\<lambda>warnings.
     bindR (errors_text raw) (\<lambda>error_summary.
       Inr \<lparr>to_success = \<not> truthy (dget0 raw ''errors''), to_warnings = warnings,
            to_key_summary =
              [(''effmass_completed'', PBool (truthy (dget raw ''effmass_completed'' (PBool False)))),
               (''electron_mass_dos'', dget0 raw ''electron_mass_dos''), (''hole_mass_dos'', dget0 raw ''hole_mass_dos''),
               (''mass_quality'', PDict quality), (''mass_diagnostics'', PDict diags)],
            to_artifact_paths = build_artifact_map
              (map (\<lambda>(carrier, direction). path_join (channel_dir inputs carrier direction) ''ek_data.txt'') mass_channel_list
               @ [path_join (mi_base_dir inputs) ''mass_diagnostics.json'']),
            to_error_summary = error_summary, to_state_updates = raw\<rparr>))))"

definition mass_tool_run :: "mass_env \<Rightarrow> MassToolInput \<Rightarrow> fs \<Rightarrow> fs \<times> ToolOutput" where
  "mass_tool_run me inputs = tool_run (mass_execute me inputs) (mass_build_output inputs)"

section \<open>An accepted mass has passed every test\<close>

lemma on_empty: "on b x = [] \<longleftrightarrow> \<not> b"
  by (simp add: on_def)

lemma branch_diagnosis_reads:
  "dget0 (branch_diagnosis mc br bf) ''status'' = PStr (if rejection_reasons mc br bf = [] then ''accepted'' else ''rejected'')"
  "dget0 (branch_diagnosis mc br bf) ''mass_m0'' = PFloat (bf_mass bf)"
  by (simp_all add: branch_diagnosis_def Let_def dget0_def dget_def)

lemma no_reason_iff:
  "rejection_reasons mc br bf = [] \<longleftrightarrow>
     \<not> flt_lt (mc_max_jump mc) (max_jump (bf_energy bf)) \<and> (\<forall>ef. br_fermi br = Some ef \<longrightarrow> \<not> crosses_fermi mc (br_carrier br) (bf_energy bf) ef)
     \<and> \<not> flt_lt (bf_r2 bf) (mc_min_r2 mc) \<and> right_curvature (br_carrier br) (bf_curvature bf)
     \<and> center_extremal (br_carrier br) (bf_center bf) (bf_energy bf) \<and> \<not> flt_lt (bf_mass bf) (mc_min_mass mc)
     \<and> \<not> flt_lt (mc_max_mass mc) (bf_mass bf) \<and> (\<forall>y. bf_stability bf = Some y \<longrightarrow> \<not> flt_lt (mc_max_stability mc) y)"
  unfolding rejection_reasons_def append_is_Nil_conv on_empty by (cases "br_fermi br"; cases "bf_stability bf") simp_all

text \<open>C32: A mass is accepted exactly when its fit passes every test: the branch is smooth and stays on its side of the Fermi
  level, the fit is good enough, the curvature has the sign of the carrier, the sampled centre is the extremum, the
  mass lies within its bounds and the fit over the inner window agrees with it. The diagnosis carries the fitted mass.\<close>

theorem accepted_mass_iff:
  assumes "fit_mass_branch curve_fit mc br = Inr (Some x, diag)"
    and "masked (fit_window mc (centered (br_k br))) (centered (br_k br)) = Inr ks"
    and "masked (fit_window mc (centered (br_k br))) (br_energy br) = Inr es"
  shows "\<exists>a r2. calculate_effective_mass curve_fit ks es = Inr (x, a, r2) \<and> dget0 diag ''mass_m0'' = PFloat x
    \<and> (dget0 diag ''status'' = PStr ''accepted'' \<longleftrightarrow>
         \<not> flt_lt (mc_max_jump mc) (max_jump es) \<and> (\<forall>ef. br_fermi br = Some ef \<longrightarrow> \<not> crosses_fermi mc (br_carrier br) es ef)
         \<and> \<not> flt_lt r2 (mc_min_r2 mc) \<and> right_curvature (br_carrier br) a
         \<and> center_extremal (br_carrier br) (br_energy br ! (length (br_k br) div 2)) es
         \<and> \<not> flt_lt x (mc_min_mass mc) \<and> \<not> flt_lt (mc_max_mass mc) x
         \<and> (\<forall>y. fst (window_stability curve_fit mc (centered (br_k br)) (br_energy br) x) = Some y \<longrightarrow> \<not> flt_lt (mc_max_stability mc) y))"
proof -
  let ?w = "fit_window mc (centered (br_k br))" and ?st = "window_stability curve_fit mc (centered (br_k br)) (br_energy br)"
  have n: "br_k br \<noteq> []" using assms(1) by (auto simp: fit_mass_branch_def)
  obtain p where p: "calculate_effective_mass curve_fit ks es = Inr p"
  proof (cases "calculate_effective_mass curve_fit ks es")
    case (Inl e)
    with assms(1) have False
      unfolding fit_mass_branch_def Let_def if_not_P [OF n] assms(2,3) bindR_simps bindR_eq_Inr Inl sum.case by (elim exE conjE) simp
    then show thesis ..
  qed
  obtain m a r2 where mar: "p = (m, a, r2)" by (cases p)
  from assms(1) obtain fo fe fb where
    "Inr (Some m, branch_diagnosis mc br \<lparr>bf_mass = m, bf_curvature = a, bf_r2 = r2, bf_k = ks, bf_energy = es,
        bf_occupation = fo, bf_edge = fe, bf_edge_bands = fb, bf_center = br_energy br ! (length (br_k br) div 2),
        bf_stability = fst (?st m), bf_inner_warnings = snd (?st m)\<rparr>) = (Inr (Some x, diag) :: (flt option \<times> dict) res)"
    unfolding fit_mass_branch_def Let_def if_not_P [OF n] assms(2,3) bindR_simps bindR_eq_Inr p mar sum.case prod.case by blast
  then have m: "m = x" and d: "diag = branch_diagnosis mc br \<lparr>bf_mass = m, bf_curvature = a, bf_r2 = r2, bf_k = ks, bf_energy = es,
        bf_occupation = fo, bf_edge = fe, bf_edge_bands = fb, bf_center = br_energy br ! (length (br_k br) div 2),
        bf_stability = fst (?st m), bf_inner_warnings = snd (?st m)\<rparr>" by auto
  have c: "calculate_effective_mass curve_fit ks es = Inr (x, a, r2)" by (simp add: p mar m)
  show ?thesis
    by (intro exI conjI, rule c) (simp_all add: d m branch_diagnosis_reads no_reason_iff)
qed

section \<open>A successful stage\<close>

definition measured :: "mass_env \<Rightarrow> string \<Rightarrow> string \<Rightarrow> flt \<Rightarrow> dict \<Rightarrow> bool" where
  "measured me carrier direction x diag \<longleftrightarrow>
     (\<exists>br. fit_mass_branch (ms_curve_fit me) (ms_config me) br = Inr (Some x, diag) \<and> br_carrier br = carrier \<and> br_direction br = direction)"

lemma read_branch_names:
  "read_branch me inputs carrier direction ks band spin d f = Inr br \<Longrightarrow> br_carrier br = carrier \<and> br_direction br = direction"
  by (auto simp: read_branch_def Let_def split: if_splits)

lemma mass_channel_measured:
  assumes "mass_channel me inputs template carrier direction f = (f', Inr (Measured x diag))"
  shows "measured me carrier direction x diag"
  using assms unfolding mass_channel_def Let_def measured_def io_bind_Inr
  by (elim exE conjE) (auto simp: io_bind_Inr dest: read_branch_names split: if_splits option.splits)

lemma mass_channels_measured:
  "mass_channels me inputs template cs f = (f', Inr (Inr ms)) \<Longrightarrow>
     list_all2 (\<lambda>(c, d) (ch, x, diag). ch = c @ ''_'' @ d \<and> measured me c d x diag) cs ms"
proof (induction cs arbitrary: f f' ms)
  case (Cons cd cs)
  obtain c d where cd: "cd = (c, d)" by (cases cd)
  from Cons.prems obtain g ended where e: "mass_channel me inputs template c d f = (g, Inr ended)"
    "(case ended of Measured x diag \<Rightarrow> io_bind (mass_channels me inputs template cs) (\<lambda>r.
           io_return (case r of Inl d \<Rightarrow> Inl d | Inr ms \<Rightarrow> Inr ((c @ ''_'' @ d, x, diag) # ms)))
       | _ \<Rightarrow> io_return (Inl (mass_failed c d ended))) g = (f', Inr (Inr ms))"
    unfolding cd mass_channels.simps io_bind_Inr by blast
  show ?case
  proof (cases ended)
    case (Measured x diag)
    from e(2) obtain h r where r: "mass_channels me inputs template cs g = (h, Inr r)"
      "(case r of Inl d \<Rightarrow> Inl d | Inr ms \<Rightarrow> Inr ((c @ ''_'' @ d, x, diag) # ms)) = Inr ms"
      unfolding Measured channel_end.case io_bind_Inr by auto
    from r(2) obtain ms' where ms: "r = Inr ms'" "ms = (c @ ''_'' @ d, x, diag) # ms'" by (cases r) auto
    from Cons.IH [OF r(1) [unfolded ms(1)]] mass_channel_measured [OF e(1) [unfolded Measured]] show ?thesis
      unfolding ms(2) cd by simp
  qed (use e(2) in auto)
qed simp

lemma mass_execute_ends:
  assumes "mass_execute me inputs f = (f', Inr d)"
  shows "\<exists>template g h r plan. mass_channels me inputs template mass_channel_list g = (h, Inr r)
    \<and> d = dmerge (case r of Inl failed \<Rightarrow> failed | Inr ms \<Rightarrow> mass_report me ms) (planned_updates ''effective_mass'' plan)"
proof -
  have c1: "\<not> (str_or (mi_poscar_path inputs) [] = [] \<or> str_or (mi_potcar_path inputs) [] = [])"
  proof
    assume a: "str_or (mi_poscar_path inputs) [] = [] \<or> str_or (mi_potcar_path inputs) [] = []"
    show False using assms unfolding mass_execute_def if_P [OF a] by simp
  qed
  have c2: "rectangular (mi_reciprocal_lattice inputs)"
    using assms unfolding mass_execute_def if_not_P [OF c1] by (cases "rectangular (mi_reciprocal_lattice inputs)") simp_all
  from assms obtain template g h r plan where r: "mass_channels me inputs template mass_channel_list g = (h, Inr r)"
    and e: "(case r of
                Inl failed \<Rightarrow> io_return (dmerge failed (planned_updates ''effective_mass'' plan))
              | Inr ms \<Rightarrow>
                  io_bind (io_change (\<lambda>f. write_file f (path_join (mi_base_dir inputs) ''mass_diagnostics.json'')
                             (json_dumps (PDict (mass_diagnostics ms))))) (\<lambda>_.
                    io_return (dmerge (mass_report me ms) (planned_updates ''effective_mass'' plan)))) h = (f', Inr d)"
    unfolding mass_execute_def Let_def if_not_P [OF c1] by (simp only: c2 not_True_eq_False if_False io_bind_Inr) blast
  from e have "d = dmerge (case r of Inl failed \<Rightarrow> failed | Inr ms \<Rightarrow> mass_report me ms) (planned_updates ''effective_mass'' plan)"
    by (cases r) (simp_all add: io_bind_Inr)
  with r show ?thesis by blast
qed

lemma mass_failed_errors:
  "truthy (dget0 (mass_failed c d (Unfitted diag)) ''errors'')" "truthy (dget0 (mass_failed c d (NotRun summary)) ''errors'')"
  by (simp_all add: mass_failed_def dget0_def dget_def)

lemma mass_channels_failed:
  "mass_channels me inputs template cs f = (f', Inr (Inl d)) \<Longrightarrow> truthy (dget0 d ''errors'')"
proof (induction cs arbitrary: f f' d)
  case (Cons cd cs)
  obtain c k where cd: "cd = (c, k)" by (cases cd)
  from Cons.prems obtain g ended where e: 
    "(case ended of Measured x diag \<Rightarrow> io_bind (mass_channels me inputs template cs) (\<lambda>r.
           io_return (case r of Inl d \<Rightarrow> Inl d | Inr ms \<Rightarrow> Inr ((c @ ''_'' @ k, x, diag) # ms)))
       | _ \<Rightarrow> io_return (Inl (mass_failed c k ended))) g = (f', Inr (Inl d))"
    unfolding cd mass_channels.simps io_bind_Inr by blast
  show ?case
  proof (cases ended)
    case (Measured x diag)
    from e obtain h r where r: "mass_channels me inputs template cs g = (h, Inr r)"
      "(case r of Inl d \<Rightarrow> Inl d | Inr ms \<Rightarrow> Inr ((c @ ''_'' @ k, x, diag) # ms)) = Inl d"
      unfolding Measured channel_end.case io_bind_Inr by auto
    from r(2) have "r = Inl d" by (cases r) auto
    with Cons.IH r(1) show ?thesis by blast
  qed (use e mass_failed_errors in auto)
qed simp

lemma planned_updates_reads: "k \<noteq> ''services'' \<Longrightarrow> dget0 (dmerge d (planned_updates stage plan)) k = dget0 d k"
  by (cases plan) (simp_all add: planned_updates_def policy_updates_def dget0_def dget_def)

text \<open>C33: A successful mass stage has measured all four channels: for either carrier both directions have a fitted branch
  whose diagnosis is reported under the name of the channel, the transport masses are the fitted ones, and the
  density-of-states mass is the square root of their product.\<close>

theorem mass_success_sound:
  assumes "mass_tool_run me inputs f = (f', out)" "to_success out"
  shows "\<exists>diags. dget0 (to_state_updates out) ''mass_diagnostics'' = PDict diags
    \<and> (\<forall>carrier\<in>{''electron'', ''hole''}. \<exists>mx my dx dy.
         map_of diags (carrier @ ''_x'') = Some (PDict dx) \<and> measured me carrier ''x'' mx dx
         \<and> map_of diags (carrier @ ''_y'') = Some (PDict dy) \<and> measured me carrier ''y'' my dy
         \<and> dget0 (to_state_updates out) (carrier @ ''_mass_x'') = PFloat mx \<and> dget0 (to_state_updates out) (carrier @ ''_mass_y'') = PFloat my
         \<and> dget0 (to_state_updates out) (carrier @ ''_mass_dos'') = PFloat (ms_sqrt me (flt_mul mx my)))"
proof -
  from assms obtain d where d: "mass_execute me inputs f = (f', Inr d)" "mass_build_output inputs f' d = Inr out"
    by (auto simp: mass_tool_run_def tool_run_def failed_output_def split: prod.splits sum.splits)
  then have out: "to_state_updates out = d" "\<not> truthy (dget0 d ''errors'')"
    using assms(2) by (auto simp: mass_build_output_def)
  from mass_execute_ends [OF d(1)] obtain template g h r plan where r: "mass_channels me inputs template mass_channel_list g = (h, Inr r)"
    and e: "d = dmerge (case r of Inl failed \<Rightarrow> failed | Inr ms \<Rightarrow> mass_report me ms) (planned_updates ''effective_mass'' plan)" by blast
  have fields: "dget0 d k = dget0 (case r of Inl failed \<Rightarrow> failed | Inr ms \<Rightarrow> mass_report me ms) k" if "k \<noteq> ''services''" for k
    unfolding e using that by (rule planned_updates_reads)
  obtain ms where ms: "r = Inr ms"
  proof (cases r)
    case (Inl failed)
    from mass_channels_failed [OF r [unfolded Inl]] fields [of "''errors''"] out(2) Inl have False by simp
    then show thesis ..
  qed
  from mass_channels_measured [OF r [unfolded ms]] obtain x1 x2 x3 x4 d1 d2 d3 d4 where
    l: "ms = [(''electron_x'', x1, d1), (''electron_y'', x2, d2), (''hole_x'', x3, d3), (''hole_y'', x4, d4)]"
    and m: "measured me ''electron'' ''x'' x1 d1" "measured me ''electron'' ''y'' x2 d2" "measured me ''hole'' ''x'' x3 d3" "measured me ''hole'' ''y'' x4 d4"
    by (auto simp: mass_channel_list_def list_all2_Cons1)
  have reads: "dget0 d ''mass_diagnostics'' = PDict (mass_diagnostics ms)"
    "dget0 d ''electron_mass_x'' = PFloat x1" "dget0 d ''electron_mass_y'' = PFloat x2" "dget0 d ''electron_mass_dos'' = PFloat (ms_sqrt me (flt_mul x1 x2))"
    "dget0 d ''hole_mass_x'' = PFloat x3" "dget0 d ''hole_mass_y'' = PFloat x4" "dget0 d ''hole_mass_dos'' = PFloat (ms_sqrt me (flt_mul x3 x4))"
    by (simp_all add: fields ms) (simp_all add: l mass_report_def mass_of_def Let_def dget0_def dget_def)
  have diags: "map_of (mass_diagnostics ms) ''electron_x'' = Some (PDict d1)" "map_of (mass_diagnostics ms) ''electron_y'' = Some (PDict d2)"
    "map_of (mass_diagnostics ms) ''hole_x'' = Some (PDict d3)" "map_of (mass_diagnostics ms) ''hole_y'' = Some (PDict d4)"
    by (simp_all add: l mass_diagnostics_def)
  show ?thesis unfolding out(1)
    by (rule exI [of _ "mass_diagnostics ms"]) (use reads diags m in \<open>simp add: Ball_def\<close>; blast)
qed

section \<open>Concrete masses\<close>

text \<open>The parabola through the centre and the last of symmetric points.\<close>

definition demo_fit :: parabola_fit where
  "demo_fit ks es = Inr (flt_div (flt_sub (last es) (es ! (length es div 2))) (flt_square (last ks)), Fin 0, es ! (length es div 2))"

text \<open>Five points of a parabola, whose lengths and energies are simple in atomic units.\<close>

definition demo_k :: "flt list" where
  "demo_k = map (\<lambda>n. flt_div (Fin (of_int n / 200)) BOHR_TO_ANGSTROM) [-2, -1, 0, 1, 2]"

definition demo_e :: "flt list" where
  "demo_e = map (\<lambda>n. flt_div (Fin (of_int (n * n) / 4000)) EV_TO_HARTREE) [-2, -1, 0, 1, 2]"

definition demo_branch :: branch where
  "demo_branch =
     \<lparr>br_carrier = ''electron'', br_direction = ''x'', br_k = demo_k, br_energy = demo_e, br_occupation = map (\<lambda>_. Fin 0) demo_k, br_band = 1,
      br_edge = demo_e, br_edge_bands = map (\<lambda>_. 1) demo_k, br_fermi = Some (Fin (- 1)), br_fermi_source = ''scf_state'',
      br_selector = ''fermi_energy''\<rparr>"

definition demo_k_au :: "flt list" where
  "demo_k_au = map (\<lambda>n. Fin (of_int n / 200)) [-2, -1, 0, 1, 2]"

definition demo_e_au :: "flt list" where
  "demo_e_au = map (\<lambda>n. Fin (of_int (n * n) / 4000)) [-2, -1, 0, 1, 2]"

lemma demo_units: "map (\<lambda>k. flt_mul k BOHR_TO_ANGSTROM) demo_k = demo_k_au" "map (\<lambda>e. flt_mul e EV_TO_HARTREE) demo_e = demo_e_au"
  by (simp_all add: demo_k_def demo_e_def demo_k_au_def demo_e_au_def BOHR_TO_ANGSTROM_def EV_TO_HARTREE_def HARTREE_TO_EV_def)

lemma demo_fitted: "calculate_effective_mass demo_fit demo_k demo_e
    = Inr (Fin (1 / 20), flt_mul (flt_mul (Fin 10) HARTREE_TO_EV) (flt_square BOHR_TO_ANGSTROM), Fin 1)"
proof -
  have p: "demo_fit demo_k_au demo_e_au = Inr (Fin 10, Fin 0, Fin 0)" by code_simp
  have r: "r_squared demo_e_au (map (parabola (Fin 10, Fin 0, Fin 0)) demo_k_au) = Fin 1" by code_simp
  show ?thesis unfolding calculate_effective_mass_def Let_def demo_units p bindR_simps r by simp
qed

lemma masked_ok: "length sel = length xs \<Longrightarrow> masked sel xs = Inr (map snd (filter fst (zip sel xs)))"
  by (simp add: masked_def)

theorem accepted_mass_iff_witness:
  "\<exists>x diag. fit_mass_branch demo_fit default_mass_config demo_branch = Inr (Some x, diag) \<and> dget0 diag ''status'' = PStr ''accepted''"
proof -
  let ?br = demo_branch and ?mc = default_mass_config
  have br: "br_k ?br = demo_k" "br_energy ?br = demo_e" "br_carrier ?br = ''electron''" "br_fermi ?br = Some (Fin (- 1))"
    by (simp_all add: demo_branch_def)
  have c: "centered demo_k = demo_k" "demo_k \<noteq> []" by code_simp+
  have m: "masked (fit_window ?mc demo_k) demo_k = Inr demo_k" "masked (fit_window ?mc demo_k) demo_e = Inr demo_e" by code_simp+
  have l: "length (fit_window ?mc demo_k) = length (br_edge_bands ?br)" "length (fit_window ?mc demo_k) = length (br_edge ?br)"
    "length (fit_window ?mc demo_k) = length (br_occupation ?br)" by code_simp+
  note calc = demo_fitted
  let ?inner = "near_center (py_min (flt_div (flt_mul (mc_fit_kmax ?mc) (Fin 2)) (Fin 3)) (flt_sub (mc_fit_kmax ?mc) (Fin (1 / 10 ^ 12)))) demo_k"
  have inner: "\<not> count_true ?inner < 5" "masked ?inner demo_k = Inr demo_k" "masked ?inner demo_e = Inr demo_e" by code_simp+
  have st: "fst (window_stability demo_fit ?mc demo_k demo_e (Fin (1 / 20))) = Some (Fin 0)"
    unfolding window_stability_def Let_def if_not_P [OF inner(1)] inner(2,3) bindR_simps calc sum.case prod.case by (simp add: flt_sub_def)
  obtain diag where r: "fit_mass_branch demo_fit ?mc ?br = Inr (Some (Fin (1 / 20)), diag)"
    unfolding fit_mass_branch_def br Let_def c(1) m if_not_P [OF c(2)] masked_ok [OF l(1)] masked_ok [OF l(2)] masked_ok [OF l(3)] bindR_simps
      calc sum.case prod.case by blast
  have k: "mc_max_jump ?mc = Fin (1 / 2)" "mc_min_r2 ?mc = Fin (95 / 100)" "mc_min_mass ?mc = Fin (2 / 100)" "mc_max_mass ?mc = Fin 20"
    "mc_max_stability ?mc = Fin 1" by (simp_all add: default_mass_config_def)
  have tests: "\<not> flt_lt (mc_max_jump ?mc) (max_jump demo_e)" "\<not> crosses_fermi ?mc ''electron'' demo_e (Fin (- 1))"
    "center_extremal ''electron'' (demo_e ! (length demo_k div 2)) demo_e" by code_simp+
  have right: "right_curvature ''electron'' (flt_mul (flt_mul (Fin 10) HARTREE_TO_EV) (flt_square BOHR_TO_ANGSTROM))"
    by (simp add: right_curvature_def HARTREE_TO_EV_def BOHR_TO_ANGSTROM_def)
  from accepted_mass_iff [OF r, unfolded br c(1), OF m] obtain a r2 where
    a: "calculate_effective_mass demo_fit demo_k demo_e = Inr (Fin (1 / 20), a, r2)"
    and iff: "dget0 diag ''status'' = PStr ''accepted'' \<longleftrightarrow>
         \<not> flt_lt (mc_max_jump ?mc) (max_jump demo_e) \<and> (\<forall>ef. Some (Fin (- 1)) = Some ef \<longrightarrow> \<not> crosses_fermi ?mc ''electron'' demo_e ef)
         \<and> \<not> flt_lt r2 (mc_min_r2 ?mc) \<and> right_curvature ''electron'' a
         \<and> center_extremal ''electron'' (demo_e ! (length demo_k div 2)) demo_e
         \<and> \<not> flt_lt (Fin (1 / 20)) (mc_min_mass ?mc) \<and> \<not> flt_lt (mc_max_mass ?mc) (Fin (1 / 20))
         \<and> (\<forall>y. fst (window_stability demo_fit ?mc demo_k demo_e (Fin (1 / 20))) = Some y \<longrightarrow> \<not> flt_lt (mc_max_stability ?mc) y)" by blast
  from a calc have "r2 = Fin 1" "a = flt_mul (flt_mul (Fin 10) HARTREE_TO_EV) (flt_square BOHR_TO_ANGSTROM)" by simp_all
  with iff tests right have "dget0 diag ''status'' = PStr ''accepted''" unfolding st k by simp
  with r show ?thesis by (intro exI conjI)
qed

definition demo_mass_eigenval :: string where
  "demo_mass_eigenval = join [CHR 0x0A]
     [''h'', ''h'', ''h'', ''h'', ''h'', ''2 1 2'', [], '' 0.0 0.0 0.0 1.0'', '' 1 -1.5 1.0'', '' 2 1.0 0.0'']"

definition demo_mass_files :: fs where
  "demo_mass_files = [(''/w'', FDir), (''/w/P'', FFile ''p''), (''/w/Q'', FFile ''q'')]"

text \<open>A VASP process that leaves nothing but its EIGENVAL beside the files of the task.\<close>

definition demo_mass_env :: mass_env where
  "demo_mass_env =
     \<lparr>ms_tool = demo_tool_env, ms_readers = demo_readers, ms_config = default_mass_config\<lparr>mc_npoints := 1\<rparr>, ms_engine = None,
      ms_curve_fit = (\<lambda>ks es. Inr (Fin 1, Fin 0, Fin 0)), ms_sqrt = (\<lambda>x. x), ms_kpoints_text = (\<lambda>c ks. ''k''), ms_table_text = (\<lambda>t. ''t''),
      ms_process = (\<lambda>dir f. \<lparr>ve_files = demo_mass_files @ [(dir, FDir), (path_join dir ''EIGENVAL'', FFile demo_mass_eigenval)], ve_returncode = 0, ve_stdout = [], ve_stderr = []\<rparr>)\<rparr>"

definition demo_mass_input :: MassToolInput where
  "demo_mass_input =
     \<lparr>mi_base_dir = ''/w'', mi_poscar_path = Some ''/w/P'', mi_potcar_path = Some ''/w/Q'',
      mi_reciprocal_lattice = [[Fin 1, Fin 0, Fin 0], [Fin 0, Fin 1, Fin 0], [Fin 0, Fin 0, Fin 1]],
      mi_vbm_kpoint = [Fin 0, Fin 0, Fin 0], mi_cbm_kpoint = [Fin 0, Fin 0, Fin 0], mi_vbm_band = 0, mi_cbm_band = 1, mi_vbm_spin = None,
      mi_cbm_spin = None, mi_fermi_energy = Some (Fin 0), mi_state_payload = []\<rparr>"

lemma del_all_code [code_unfold]: "files.del_all f ks = fold (\<lambda>k g. fs_del g k) ks f"
  by (induction ks arbitrary: f) simp_all

definition demo_channel_files :: "string \<Rightarrow> string \<Rightarrow> fs" where
  "demo_channel_files carrier direction = (let d = channel_dir demo_mass_input carrier direction in
     demo_mass_files @ [(d, FDir), (path_join d ''EIGENVAL'', FFile demo_mass_eigenval), (path_join d ''ek_data.txt'', FFile ''t'')])"

definition demo_channel_ok :: "fs \<Rightarrow> string \<Rightarrow> string \<Rightarrow> bool" where
  "demo_channel_ok f carrier direction =
     (case mass_channel demo_mass_env demo_mass_input (mass_template demo_tool_env []) carrier direction f of
        (g, Inr (Measured x diag)) \<Rightarrow> g = demo_channel_files carrier direction | _ \<Rightarrow> False)"

lemma demo_channel_step:
  assumes "demo_channel_ok f carrier direction"
  shows "\<exists>x diag. mass_channel demo_mass_env demo_mass_input (mass_template demo_tool_env []) carrier direction f
    = (demo_channel_files carrier direction, Inr (Measured x diag))"
  using assms unfolding demo_channel_ok_def Let_def by (auto split: prod.splits sum.splits channel_end.splits)

lemma demo_electron_x: "demo_channel_ok demo_mass_files ''electron'' ''x''"
  by code_simp

lemma demo_electron_y: "demo_channel_ok (demo_channel_files ''electron'' ''x'') ''electron'' ''y''"
  by code_simp

lemma demo_hole_x: "demo_channel_ok (demo_channel_files ''electron'' ''y'') ''hole'' ''x''"
  by code_simp

lemma demo_hole_y: "demo_channel_ok (demo_channel_files ''hole'' ''x'') ''hole'' ''y''"
  by code_simp

lemma demo_channels: "\<exists>f ms. mass_channels demo_mass_env demo_mass_input (mass_template demo_tool_env []) mass_channel_list demo_mass_files = (f, Inr (Inr ms))"
proof -
  from demo_channel_step [OF demo_electron_x] obtain x1 d1 where e1:
    "mass_channel demo_mass_env demo_mass_input (mass_template demo_tool_env []) ''electron'' ''x'' demo_mass_files
      = (demo_channel_files ''electron'' ''x'', Inr (Measured x1 d1))" by blast
  from demo_channel_step [OF demo_electron_y] obtain x2 d2 where e2:
    "mass_channel demo_mass_env demo_mass_input (mass_template demo_tool_env []) ''electron'' ''y'' (demo_channel_files ''electron'' ''x'')
      = (demo_channel_files ''electron'' ''y'', Inr (Measured x2 d2))" by blast
  from demo_channel_step [OF demo_hole_x] obtain x3 d3 where e3:
    "mass_channel demo_mass_env demo_mass_input (mass_template demo_tool_env []) ''hole'' ''x'' (demo_channel_files ''electron'' ''y'')
      = (demo_channel_files ''hole'' ''x'', Inr (Measured x3 d3))" by blast
  from demo_channel_step [OF demo_hole_y] obtain x4 d4 where e4:
    "mass_channel demo_mass_env demo_mass_input (mass_template demo_tool_env []) ''hole'' ''y'' (demo_channel_files ''hole'' ''x'')
      = (demo_channel_files ''hole'' ''y'', Inr (Measured x4 d4))" by blast
  show ?thesis
    unfolding mass_channel_list_def mass_channels.simps io_bind_def e1 prod.case sum.case channel_end.case e2 e3 e4 io_return_def by blast
qed

lemma demo_mass_run: "to_success (snd (mass_tool_run demo_mass_env demo_mass_input demo_mass_files))"
proof -
  have ov: "read_chgcar_compatible_incar_overrides (vr_incar (ms_readers demo_mass_env)) demo_mass_files (mi_base_dir demo_mass_input) = []" by code_simp
  have plan: "mass_plan demo_mass_env demo_mass_input incar = Inr None" for incar by (simp add: mass_plan_def demo_mass_env_def)
  have tool: "ms_tool demo_mass_env = demo_tool_env" by (simp add: demo_mass_env_def)
  have c: "\<not> (str_or (mi_poscar_path demo_mass_input) [] = [] \<or> str_or (mi_potcar_path demo_mass_input) [] = [])"
    "rectangular (mi_reciprocal_lattice demo_mass_input)" by code_simp+
  obtain f ms where ms: "mass_channels demo_mass_env demo_mass_input (mass_template demo_tool_env []) mass_channel_list demo_mass_files = (f, Inr (Inr ms))"
    using demo_channels by blast
  have u: "planned_updates s None = []" "dmerge d [] = d" for s d by (simp_all add: planned_updates_def)
  have e: "\<exists>g. mass_execute demo_mass_env demo_mass_input demo_mass_files = (g, Inr (mass_report demo_mass_env ms))"
    unfolding mass_execute_def Let_def if_not_P [OF c(1)]
    by (simp add: c(2) io_bind_def io_read_def io_lift_def io_change_def io_return_def ov plan tool ms u)
  have raw: "\<not> truthy (dget0 (mass_report demo_mass_env ms) ''errors'')" "get_list (mass_report demo_mass_env ms) ''warnings'' = Inr []"
    "errors_text (mass_report demo_mass_env ms) = Inr None" "get_dict (mass_report demo_mass_env ms) ''mass_diagnostics'' = Inr (mass_diagnostics ms)"
    by (simp_all add: mass_report_def Let_def dget0_def dget_def get_list_def get_dict_def py_or_def errors_text_def)
  have q: "\<exists>quality. mass_quality (mass_diagnostics ms) = Inr quality"
    unfolding mass_quality_def mass_diagnostics_def by (induction ms) auto
  from e q raw show ?thesis by (auto simp: mass_tool_run_def tool_run_def mass_build_output_def)
qed

theorem mass_success_sound_witness:
  "\<exists>diags dx mx. dget0 (to_state_updates (snd (mass_tool_run demo_mass_env demo_mass_input demo_mass_files))) ''mass_diagnostics'' = PDict diags
     \<and> map_of diags ''hole_x'' = Some (PDict dx) \<and> measured demo_mass_env ''hole'' ''x'' mx dx"
proof -
  let ?r = "mass_tool_run demo_mass_env demo_mass_input demo_mass_files"
  have r: "?r = (fst ?r, snd ?r)" by simp
  from mass_success_sound [OF r demo_mass_run] show ?thesis by (elim exE conjE) (drule bspec [of _ _ "''hole''"], simp, elim exE conjE, intro exI conjI, assumption, simp, assumption)
qed
end
