(* ===== verification/Mobility.thy ===== *)
theory Mobility
  imports Strain Mass
begin

text \<open>
  The mobility stage (mobility_agent/tools/mobility_tool.py): the test of the strain data, the deformation
  potential and the elastic modulus fitted from it, the mobility of each channel with the verdict of the
  mass stage, the files it writes (the CSV writer among them) and its output.

  scipy's fits, the square root and the cell area pymatgen reads from a structure are parameters, the
  record \<open>mobility_env\<close>; a fit gives its coefficients and the variance of the first. A division by zero is an
  \<open>OverflowError\<close> with the text of \<open>ZeroDivisionError\<close>, of which the tool only keeps the text. The problems of the
  data are reported in Chinese and given here in English.

  The lemmas: the CSV writer is inverted by the reader of the strain campaign; rows that are enough for the fits by the
  campaign's account pass the test of this stage; what a reported mobility stands for.
\<close>

section \<open>Writing CSV\<close>

text \<open>\<open>csv.writer\<close> in its default dialect: a field with a separator, a quote or a line end is quoted, and so is an empty
  field that is alone in its row.\<close>

definition csv_special :: "char \<Rightarrow> bool" where
  "csv_special c \<longleftrightarrow> c = CHR '','' \<or> c = CHR 0x22 \<or> c = CHR 0x0A \<or> c = CHR 0x0D"

definition csv_quoted :: "string \<Rightarrow> string" where
  "csv_quoted s = CHR 0x22 # concat (map (\<lambda>c. if c = CHR 0x22 then [c, c] else [c]) s) @ [CHR 0x22]"

definition csv_field :: "string \<Rightarrow> string" where
  "csv_field s = (if list_ex csv_special s then csv_quoted s else s)"

definition csv_row :: "string list \<Rightarrow> string" where
  "csv_row cells = (if cells = [[]] then csv_quoted [] else join '','' (map csv_field cells)) @ [CHR 0x0D, CHR 0x0A]"

definition csv_text :: "string list list \<Rightarrow> string" where
  "csv_text rows = concat (map csv_row rows)"

definition csv_value :: "py \<Rightarrow> string" where
  "csv_value v = (if v = PNone then [] else py_str v)"

text \<open>\<open>csv.DictWriter\<close>, for rows whose keys are among the field names.\<close>

definition csv_dict_row :: "string list \<Rightarrow> dict \<Rightarrow> string list" where
  "csv_dict_row names row = map (\<lambda>k. case map_of row k of None \<Rightarrow> [] | Some v \<Rightarrow> csv_value v) names"

definition csv_dict_text :: "string list \<Rightarrow> dict list \<Rightarrow> string" where
  "csv_dict_text names rows = csv_text (names # map (csv_dict_row names) rows)"

section \<open>The input\<close>

record MobilityToolInput =
  bo_material_id :: string
  bo_base_dir :: string
  bo_strain_data :: "dict list"
  bo_electron_mass_x :: "flt option"
  bo_electron_mass_y :: "flt option"
  bo_electron_mass_dos :: "flt option"
  bo_hole_mass_x :: "flt option"
  bo_hole_mass_y :: "flt option"
  bo_hole_mass_dos :: "flt option"
  bo_mass_diagnostics :: dict
  bo_state_payload :: dict

record mobility_env =
  mb_temperature :: flt
  mb_prefactor :: flt
  mb_area :: "string \<Rightarrow> flt res"
  mb_quad_fit :: "flt list \<Rightarrow> flt list \<Rightarrow> ((flt \<times> flt \<times> flt) \<times> flt option) res"
  mb_linear_fit :: "flt list \<Rightarrow> flt list \<Rightarrow> ((flt \<times> flt) \<times> flt option) res"
  mb_sqrt :: "flt \<Rightarrow> flt"

definition resolve_structure_path :: "MobilityToolInput \<Rightarrow> string option res" where
  "resolve_structure_path inputs =
     (let payload = bo_state_payload inputs in
      bindR (get_dict payload ''physics_results'') (\<lambda>physics.
      bindR (get_dict payload ''material'') (\<lambda>material.
      let relaxed = py_or (py_or (py_or (dget0 payload ''relaxed_poscar'') (dget0 payload ''relaxed_structure_path''))
                      (dget0 physics ''relaxed_poscar'')) (dget0 physics ''relaxed_structure_path'');
          poscar = py_or (dget0 payload ''poscar_path'') (dget0 material ''poscar_path'');
          candidate = py_strip (py_str (py_or (py_or relaxed poscar) (PStr [])))
      in Inr (if candidate = [] then None else Some candidate))))"

text \<open>The files of the stage; the tables only when there are rows.\<close>

definition status_of_row :: "dict \<Rightarrow> dict" where
  "status_of_row row =
     [(''direction'', dget0 row ''direction''), (''strain'', dget0 row ''strain''), (''completed'', dget row ''completed'' (PBool False)),
      (''error'', dget0 row ''error''), (''folder'', dget0 row ''folder'')]"

definition status_columns :: "string list" where
  "status_columns = [''direction'', ''strain'', ''completed'', ''error'', ''folder'']"

definition mobility_file :: "MobilityToolInput \<Rightarrow> string \<Rightarrow> string" where
  "mobility_file inputs name = path_join (bo_base_dir inputs) name"

definition write_artifacts :: "MobilityToolInput \<Rightarrow> dict \<Rightarrow> dict \<Rightarrow> fs \<Rightarrow> fs" where
  "write_artifacts inputs results diagnostics f =
     (let rows = bo_strain_data inputs;
          f1 = write_file f (mobility_file inputs ''mobility_results.json'') (json_dumps (PDict results));
          f2 = write_file f1 (mobility_file inputs ''fit_diagnostics.json'') (json_dumps (PDict diagnostics))
      in if rows = [] then f2
         else write_file
           (write_file f2 (mobility_file inputs ''strain_data.csv'')
              (csv_dict_text (sort (remdups (concat (map (map fst) rows)))) rows))
           (mobility_file inputs ''strain_status.csv'') (csv_dict_text status_columns (map status_of_row rows)))"

section \<open>The verdict of the mass stage\<close>

definition mobility_mass_diagnostics :: "MobilityToolInput \<Rightarrow> dict res" where
  "mobility_mass_diagnostics inputs =
     (if bo_mass_diagnostics inputs \<noteq> [] then Inr (bo_mass_diagnostics inputs)
      else bindR (get_dict (bo_state_payload inputs) ''physics_results'') (\<lambda>physics.
           bindR (get_dict physics ''effective_mass_summary'') (\<lambda>summary. get_dict summary ''mass_diagnostics'')))"

definition mass_status :: "dict \<Rightarrow> string" where
  "mass_status d = py_str (py_or (dget0 d ''status'') (PStr ''missing''))"

definition mass_quality_for_channel :: "dict \<Rightarrow> string \<Rightarrow> string \<Rightarrow> dict res" where
  "mass_quality_for_channel diagnostics carrier direction =
     (if diagnostics = [] then
        Inr [(''mass_status'', PStr ''accepted''), (''mass_valid_for_mobility'', PBool True), (''mass_qc_available'', PBool False),
             (''mass_rejection_reasons'', PList [])]
      else
        let cross = (if direction = ''x'' then ''y'' else ''x'') in
        bindR (get_dict diagnostics (carrier @ ''_'' @ direction)) (\<lambda>current.
        bindR (get_dict diagnostics (carrier @ ''_'' @ cross)) (\<lambda>other.
        bindR (get_list current ''rejection_reasons'') (\<lambda>reasons.
        let ok = (mass_status current = ''accepted''); dos_ok = (mass_status other = ''accepted'');
            found = reasons @ map PStr (on (\<not> ok \<and> reasons = []) (''mass_status_'' @ mass_status current)
                      @ on (\<not> dos_ok) (''dos_mass_'' @ cross @ ''_status_'' @ mass_status other))
        in Inr
          [(''mass_status'', PStr (mass_status current)), (''mass_valid_for_mobility'', PBool (ok \<and> dos_ok)), (''mass_qc_available'', PBool True),
           (''mass_rejection_reasons'', PList found), (''mass_fit_R2'', dget0 current ''mass_fit_R2''),
           (''mass_curvature_sign_ok'', dget0 current ''curvature_sign_ok''), (''mass_center_is_extremum'', dget0 current ''center_is_extremum''),
           (''mass_dynamic_band_switch'', dget0 current ''dynamic_band_switch''),
           (''mass_fixed_branch_energy_jump_max_eV'', dget0 current ''fixed_branch_energy_jump_max_eV''),
           (''mass_dynamic_edge_energy_jump_max_eV'', dget0 current ''dynamic_edge_energy_jump_max_eV''),
           (''mass_fit_window_stability_rel'', dget0 current ''fit_window_stability_rel''), (''mass_fixed_band_index'', dget0 current ''fixed_band_index''),
           (''mass_dynamic_band_indices'', dget current ''dynamic_band_indices'' (PList []))]))))"

section \<open>The test of the strain data\<close>

definition direction_points :: "string \<Rightarrow> dict list \<Rightarrow> dict list" where
  "direction_points direction rows = filter (\<lambda>d. dget d ''direction'' (PStr ''x'') = PStr direction) (filter point_done rows)"

definition direction_problems :: "dict list \<Rightarrow> string \<Rightarrow> string list res" where
  "direction_problems rows direction =
     (let subset = direction_points direction rows; n = length subset in
      if n < 5 then Inr [direction @ '' direction: fewer than five completed points: '' @ show_int (int n)]
      else bindR (mapR (\<lambda>d. to_float (dget0 d ''strain'')) subset) (\<lambda>xs.
        let strains = sort (dedupe xs) in
        Inr (on (Fin 0 \<notin> set strains) (direction @ '' direction: no point at strain 0.0'')
             @ on (\<not> (flt_lt (min_list strains NaN) (Fin 0) \<and> flt_lt (Fin 0) (max_list strains NaN)))
                 (direction @ '' direction: points missing on one side''))))"

definition strain_data_problems :: "dict list \<Rightarrow> string list res" where
  "strain_data_problems rows =
     bindR (direction_problems rows ''x'') (\<lambda>px. bindR (direction_problems rows ''y'') (\<lambda>py. Inr (px @ py)))"

section \<open>The fits of a direction\<close>

definition E_CHARGE :: flt where "E_CHARGE = Fin (1602176634 / 10 ^ 28)"
definition EV_TO_J :: flt where "EV_TO_J = Fin (1602176634 / 10 ^ 28)"
definition ANGSTROM_TO_M :: flt where "ANGSTROM_TO_M = Fin (1 / 10 ^ 10)"
definition HBAR :: flt where "HBAR = Fin (1054571817 / 10 ^ 43)"
definition KB :: flt where "KB = Fin (1380649 / 10 ^ 29)"
definition M0 :: flt where "M0 = Fin (91093837015 / 10 ^ 41)"

definition py_div :: "flt \<Rightarrow> flt \<Rightarrow> flt res" where
  "py_div a b = (if b = Fin 0 then Inl (OverflowError ''float division by zero'') else Inr (flt_div a b))"

definition float_column :: "string \<Rightarrow> dict list \<Rightarrow> flt list res" where
  "float_column k rows = mapR (\<lambda>d. to_float (dget d k (PFloat (Fin 0)))) rows"

definition line :: "flt \<times> flt \<Rightarrow> flt \<Rightarrow> flt" where
  "line = (\<lambda>(a, b) x. flt_add (flt_mul a x) b)"

definition sigma :: "(flt \<Rightarrow> flt) \<Rightarrow> flt option \<Rightarrow> flt" where
  "sigma sq variance = (case variance of None \<Rightarrow> NaN | Some v \<Rightarrow> sq (py_max v (Fin 0)))"

definition finite_or_none :: "flt \<Rightarrow> py" where
  "finite_or_none x = (if is_finite x then PFloat x else PNone)"

record elastic_fit =
  el_curvature :: flt
  el_modulus :: flt
  el_sigma :: flt
  el_r2 :: flt

definition fit_elastic :: "mobility_env \<Rightarrow> flt \<Rightarrow> flt list \<Rightarrow> flt list \<Rightarrow> elastic_fit res" where
  "fit_elastic mb area strain etot =
     bindR (mb_quad_fit mb strain etot) (\<lambda>(p, variance).
     let d2 = flt_mul (Fin 2) (fst p); err = sigma (mb_sqrt mb) variance; d2_err = (if is_finite err then flt_mul (Fin 2) err else NaN);
         scale = (\<lambda>x. py_div (flt_mul (flt_mul (mb_prefactor mb) x) EV_TO_J) area)
     in bindR (scale d2) (\<lambda>c2d.
        bindR (if is_finite d2_err then scale d2_err else Inr NaN) (\<lambda>c2d_err.
          Inr \<lparr>el_curvature = d2, el_modulus = c2d, el_sigma = c2d_err, el_r2 = r_squared etot (map (parabola p) strain)\<rparr>)))"

record edge_fit =
  eg_e1 :: flt
  eg_sigma :: flt
  eg_r2 :: flt

definition fit_edge :: "mobility_env \<Rightarrow> flt list \<Rightarrow> flt list \<Rightarrow> edge_fit res" where
  "fit_edge mb strain edge =
     bindR (mb_linear_fit mb strain edge) (\<lambda>(p, variance).
       Inr \<lparr>eg_e1 = fst p, eg_sigma = sigma (mb_sqrt mb) variance, eg_r2 = r_squared edge (map (line p) strain)\<rparr>)"

definition transport_mass :: "MobilityToolInput \<Rightarrow> string \<Rightarrow> string \<Rightarrow> flt option" where
  "transport_mass inputs carrier direction =
     (if direction = ''x'' then (if carrier = ''electron'' then bo_electron_mass_x inputs else bo_hole_mass_x inputs)
      else (if carrier = ''electron'' then bo_electron_mass_y inputs else bo_hole_mass_y inputs))"

definition dos_mass :: "MobilityToolInput \<Rightarrow> string \<Rightarrow> flt option" where
  "dos_mass inputs carrier = (if carrier = ''electron'' then bo_electron_mass_dos inputs else bo_hole_mass_dos inputs)"

definition fit_fields :: "mobility_env \<Rightarrow> elastic_fit \<Rightarrow> edge_fit \<Rightarrow> dict" where
  "fit_fields mb el eg =
     [(''E1_eV'', PFloat (eg_e1 eg)), (''E1_eV_sigma'', finite_or_none (eg_sigma eg)), (''E1_fit_R2'', PFloat (eg_r2 eg)),
      (''C2D_J_m2'', PFloat (el_modulus el)), (''C2D_sigma_J_m2'', finite_or_none (el_sigma el)), (''C2D_fit_R2'', PFloat (el_r2 el)),
      (''d2E_dEps2_eV'', PFloat (el_curvature el)), (''C2D_prefactor'', PFloat (mb_prefactor mb))]"

text \<open>\<open>e \<hbar>\<^sup>3 C / (k T m m\<^sub>d E\<^sup>2)\<close>\<close>

definition deformation_mobility :: "mobility_env \<Rightarrow> flt \<Rightarrow> flt \<Rightarrow> flt \<Rightarrow> flt \<Rightarrow> flt res" where
  "deformation_mobility mb c2d m m_dos e1 =
     (let e1_si = flt_mul (flt_abs e1) EV_TO_J in
      py_div (flt_mul (flt_mul E_CHARGE (flt_mul HBAR (flt_square HBAR))) c2d)
        (flt_mul (flt_mul (flt_mul (flt_mul KB (mb_temperature mb)) (flt_mul m M0)) (flt_mul m_dos M0)) (flt_square e1_si)))"

definition channel_result ::
  "mobility_env \<Rightarrow> MobilityToolInput \<Rightarrow> dict \<Rightarrow> elastic_fit \<Rightarrow> edge_fit \<Rightarrow> string \<Rightarrow> string \<Rightarrow> dict res" where
  "channel_result mb inputs diagnostics el eg carrier direction =
     bindR (mass_quality_for_channel diagnostics carrier direction) (\<lambda>quality.
     let m = transport_mass inputs carrier direction; md = dos_mass inputs carrier in
     case (m, md) of
       (Some mt, Some d) \<Rightarrow>
         bindR (deformation_mobility mb (el_modulus el) mt d (eg_e1 eg)) (\<lambda>mu.
         let cm = PFloat (flt_mul mu (Fin 10000)); trusted = truthy (dget quality ''mass_valid_for_mobility'' (PBool True)) in
         Inr (dmerge
           ([(''mobility_cm2_Vs'', cm), (''mobility_m2_Vs'', PFloat mu), (''raw_mobility_cm2_Vs'', cm), (''raw_mobility_m2_Vs'', PFloat mu),
             (''mobility_qc_status'', PStr (if trusted then ''trusted'' else ''mass_qc_warning'')), (''m_transport'', PFloat mt), (''m_dos'', PFloat d)]
            @ fit_fields mb el eg) quality))
     | _ \<Rightarrow>
         bindR (get_list quality ''mass_rejection_reasons'') (\<lambda>reasons.
         Inr (dmerge (dmerge
           ([(''mobility_cm2_Vs'', PNone), (''mobility_m2_Vs'', PNone), (''raw_mobility_cm2_Vs'', PNone), (''raw_mobility_m2_Vs'', PNone),
             (''m_transport'', py_opt PFloat m), (''m_dos'', py_opt PFloat md)] @ fit_fields mb el eg) quality)
           [(''mass_valid_for_mobility'', PBool False), (''mass_rejection_reasons'', PList (reasons @ [PStr ''missing_effective_mass'']))])))"

record direction_result =
  dr_direction :: string
  dr_report :: dict
  dr_elastic :: elastic_fit
  dr_edges :: "edge_fit list"
  dr_points :: nat

definition by_strain :: "dict list \<Rightarrow> dict list res" where
  "by_strain rows = bindR (float_column ''strain'' rows) (\<lambda>ks. Inr (map snd (sort_key fst (zip ks rows))))"

text \<open>One direction: both carriers from the same rows, sorted by strain, with energies relative to the vacuum.\<close>

definition direction_mobility :: "mobility_env \<Rightarrow> MobilityToolInput \<Rightarrow> dict \<Rightarrow> flt \<Rightarrow> string \<Rightarrow> direction_result res" where
  "direction_mobility mb inputs diagnostics area2 direction =
     (let area = flt_mul area2 (flt_square ANGSTROM_TO_M); rel = (\<lambda>es vac. map (\<lambda>(e, v). flt_sub e v) (zip es vac))
      in bindR (by_strain (direction_points direction (bo_strain_data inputs))) (\<lambda>rows.
         bindR (float_column ''strain'' rows) (\<lambda>strain.
         bindR (float_column ''total_energy'' rows) (\<lambda>etot.
         bindR (float_column ''e_vbm'' rows) (\<lambda>vbm.
         bindR (float_column ''e_cbm'' rows) (\<lambda>cbm.
         bindR (float_column ''e_vacuum'' rows) (\<lambda>vac.
         bindR (fit_elastic mb area strain etot) (\<lambda>el.
         bindR (fit_edge mb strain (rel cbm vac)) (\<lambda>electron.
         bindR (channel_result mb inputs diagnostics el electron ''electron'' direction) (\<lambda>re.
         bindR (fit_edge mb strain (rel vbm vac)) (\<lambda>hole.
         bindR (channel_result mb inputs diagnostics el hole ''hole'' direction) (\<lambda>rh.
           Inr \<lparr>dr_direction = direction,
                dr_report = [(''electron'', PDict re), (''hole'', PDict rh), (''elastic_modulus_C2D_J_m2'', PFloat (el_modulus el)),
                  (''area_A2'', PFloat area2), (''n_points'', PInt (int (length rows)))],
                dr_elastic = el, dr_edges = [electron, hole], dr_points = length rows\<rparr>))))))))))))"

section \<open>The stage\<close>

definition edge_quality :: "direction_result \<Rightarrow> flt" where
  "edge_quality dr = min_list (map eg_r2 (dr_edges dr)) (Fin 1)"

definition effective_quality :: "direction_result \<Rightarrow> flt" where
  "effective_quality dr = min_list (el_r2 (dr_elastic dr) # map eg_r2 (dr_edges dr)) (Fin 1)"

definition direction_quality :: "direction_result \<Rightarrow> dict" where
  "direction_quality dr =
     [(''energy_fit_r2'', PFloat (el_r2 (dr_elastic dr))), (''edge_fit_r2'', PFloat (edge_quality dr)),
      (''effective_fit_quality'', PFloat (effective_quality dr)), (''n_points'', PInt (int (dr_points dr)))]"

definition fit_diagnostics :: "int \<Rightarrow> int \<Rightarrow> direction_result list \<Rightarrow> dict" where
  "fit_diagnostics completed failed drs =
     (let effective = min_list (map effective_quality drs) (Fin 1); edges = concat (map dr_edges drs) in
      [(''completed_points'', PInt completed), (''failed_points'', PInt failed), (''fit_r2_min'', PFloat effective),
       (''energy_fit_r2_min'', PFloat (min_list (map (\<lambda>d. el_r2 (dr_elastic d)) drs) (Fin 1))),
       (''edge_fit_r2_min'', PFloat (min_list (map eg_r2 edges) (Fin 1))), (''effective_fit_quality'', PFloat effective),
       (''e1_sigma_max'', PFloat (max_list (filter is_finite (map eg_sigma edges)) (Fin 0))),
       (''c2d_sigma_max'', PFloat (max_list (filter is_finite (map (\<lambda>d. el_sigma (dr_elastic d)) drs)) (Fin 0))),
       (''per_direction'', PDict (map (\<lambda>d. (dr_direction d, PDict (direction_quality d))) drs))])"

definition failed_mobility :: "int \<Rightarrow> dict" where
  "failed_mobility failed = [(''status_label'', PStr ''failed''), (''direction_count'', PInt 0), (''failed_points'', PInt failed)]"

definition mobility_results :: "mobility_env \<Rightarrow> MobilityToolInput \<Rightarrow> dict \<Rightarrow> flt \<Rightarrow> direction_result list \<Rightarrow> dict res" where
  "mobility_results mb inputs diagnostics area2 drs =
     bindR (get_list (bo_state_payload inputs) ''relax_retry_backups'') (\<lambda>backups.
       Inr [(''material_id'', PStr (bo_material_id inputs)), (''temperature_K'', PFloat (mb_temperature mb)),
            (''results_by_direction'', PDict (map (\<lambda>d. (dr_direction d, PDict (dr_report d))) drs)), (''area_A2'', PFloat area2),
            (''relax_retry_backups'', PList backups), (''mass_diagnostics'', PDict diagnostics)])"

definition direction_counts :: "dict list \<Rightarrow> py" where
  "direction_counts rows = PDict (map (\<lambda>d. (d, PInt (int (length (direction_points d rows))))) [''x'', ''y''])"

definition mobility_fits :: "mobility_env \<Rightarrow> MobilityToolInput \<Rightarrow> string \<Rightarrow> int \<Rightarrow> int \<Rightarrow> dict io" where
  "mobility_fits mb inputs path completed failed =
     io_bind (\<lambda>f. (f, bindR (read_text f path) (mb_area mb))) (\<lambda>area2.
     io_bind (io_lift (mobility_mass_diagnostics inputs)) (\<lambda>diagnostics.
     io_bind (io_lift (mapR (direction_mobility mb inputs diagnostics area2) [''x'', ''y''])) (\<lambda>drs.
     io_bind (io_lift (mobility_results mb inputs diagnostics area2 drs)) (\<lambda>results.
     let fits = fit_diagnostics completed failed drs
     in io_bind (io_change (write_artifacts inputs results fits)) (\<lambda>_.
        io_return
          [(''results'', PDict results), (''fit_diagnostics'', PDict fits),
           (''mobility_summary'', PDict
              [(''status_label'', PStr ''completed''), (''confidence_score'', dget0 (bo_state_payload inputs) ''confidence_score''),
               (''direction_count'', PInt (int (length drs))), (''failed_points'', PInt failed)])])))))"

definition mobility_execute :: "mobility_env \<Rightarrow> MobilityToolInput \<Rightarrow> dict io" where
  "mobility_execute mb inputs =
     (let rows = bo_strain_data inputs; completed = int (length (filter point_done rows)); failed = int (length (filter (\<lambda>d. \<not> point_done d) rows));
          diag = (\<lambda>problems. [(''completed_points'', PInt completed), (''failed_points'', PInt failed),
                    (''per_direction_completed'', direction_counts rows), (''problems'', PList (map PStr problems))])
      in io_bind (io_lift (strain_data_problems rows)) (\<lambda>problems.
         if problems \<noteq> [] then
           io_bind (io_change (write_artifacts inputs [] (diag problems))) (\<lambda>_.
           io_return [(''errors'', PList [PStr (join ''; '' problems)]), (''fit_diagnostics'', PDict (diag problems)),
             (''mobility_summary'', PDict (failed_mobility failed))])
         else
           io_bind (io_lift (resolve_structure_path inputs)) (\<lambda>path.
           io_bind (io_read (\<lambda>f. path_exists f (str_or path []))) (\<lambda>found.
           let p = str_or path [] in
           if p = [] \<or> \<not> found then
             io_return [(''errors'', PList [PStr (''missing_structure_path_for_mobility:'' @ str_or path ''none'')]),
               (''fit_diagnostics'', PDict (diag [''mobility stage missing structure path: '' @ str_or path ''none''])),
               (''mobility_summary'', PDict (failed_mobility failed))]
           else mobility_fits mb inputs p completed failed))))"

definition mobility_build_output :: "MobilityToolInput \<Rightarrow> fs \<Rightarrow> dict \<Rightarrow> ToolOutput res" where
  "mobility_build_output inputs f raw =
     bindR (get_dict raw ''results'') (\<lambda>results.
     bindR (get_dict raw ''fit_diagnostics'') (\<lambda>_.
     bindR (get_dict raw ''mobility_summary'') (\<lambda>summary.
     bindR (get_dict results ''results_by_direction'') (\<lambda>directions.
     bindR (get_list raw ''warnings'') (\<lambda>warnings.
     bindR (errors_text raw) (\<lambda>error_summary.
       Inr \<lparr>to_success = \<not> truthy (dget0 raw ''errors''), to_warnings = warnings,
            to_key_summary = [(''status_label'', dget0 summary ''status_label''), (''confidence_score'', dget0 summary ''confidence_score''),
              (''results_by_direction'', PList (map (PStr \<circ> fst) directions))],
            to_artifact_paths = build_artifact_map
              (map (mobility_file inputs) [''mobility_results.json'', ''strain_data.csv'', ''strain_status.csv'', ''fit_diagnostics.json'']),
            to_error_summary = error_summary, to_state_updates = raw\<rparr>))))))"

definition mobility_tool_run :: "mobility_env \<Rightarrow> MobilityToolInput \<Rightarrow> fs \<Rightarrow> fs \<times> ToolOutput" where
  "mobility_tool_run mb inputs = tool_run (mobility_execute mb inputs) (mobility_build_output inputs)"

section \<open>The tables are read back\<close>

lemma csv_rows_plain:
  "\<not> list_ex csv_special s \<Longrightarrow> s \<noteq> [] \<Longrightarrow> st \<in> {StartRecord, StartField, InField} \<Longrightarrow>
     csv_rows st acc row (s @ t) = csv_rows InField (rev s @ acc) row t"
proof (induction s arbitrary: st acc)
  case (Cons c s)
  then have "csv_rows st acc row ((c # s) @ t) = csv_rows InField (c # acc) row (s @ t)" by (auto simp: csv_special_def)
  with Cons show ?case by (cases "s = []") auto
qed simp

lemma csv_rows_quoted:
  "csv_rows InQuoted acc row (concat (map (\<lambda>c. if c = CHR 0x22 then [c, c] else [c]) s) @ CHR 0x22 # t) = csv_rows QuoteInQuoted (rev s @ acc) row t"
  by (induction s arbitrary: acc) simp_all

lemma csv_rows_cell:
  assumes "st \<in> {StartRecord, StartField}"
  shows "\<exists>st'. csv_rows st [] row (csv_field s @ t) = csv_rows st' (rev s) row t \<and> st' \<noteq> InQuoted \<and> (s \<noteq> [] \<or> st = StartField \<longrightarrow> st' \<noteq> StartRecord)"
proof (cases "list_ex csv_special s")
  case True
  then have "csv_rows st [] row (csv_field s @ t) = csv_rows QuoteInQuoted (rev s) row t"
    using assms csv_rows_quoted [of "[]" row s t] by (auto simp: csv_field_def csv_quoted_def)
  then show ?thesis by (intro exI [of _ QuoteInQuoted]) simp
next
  case False
  show ?thesis
  proof (cases "s = []")
    case True
    with False assms show ?thesis by (intro exI [of _ st]) (auto simp: csv_field_def)
  next
    case nonempty: False
    with csv_rows_plain [OF False nonempty, of st "[]" row t] assms have "csv_rows st [] row (csv_field s @ t) = csv_rows InField (rev s) row t"
      using False by (auto simp: csv_field_def)
    then show ?thesis by (intro exI [of _ InField]) simp
  qed
qed

lemma csv_rows_line:
  "cells \<noteq> [] \<Longrightarrow> st = StartField \<or> cells \<noteq> [[]] \<Longrightarrow> st \<in> {StartRecord, StartField} \<Longrightarrow>
     csv_rows st [] row (join '','' (map csv_field cells) @ CHR 0x0D # CHR 0x0A # t) = (rev row @ cells) # csv_rows StartRecord [] [] t"
proof (induction cells arbitrary: st row)
  case (Cons c cells)
  from csv_rows_cell [OF Cons.prems(3)] obtain st' where
    r: "csv_rows st [] row (csv_field c @ u) = csv_rows st' (rev c) row u" "st' \<noteq> InQuoted" "c \<noteq> [] \<or> st = StartField \<longrightarrow> st' \<noteq> StartRecord"
    if "u = (if cells = [] then CHR 0x0D # CHR 0x0A # t else '','' @ join '','' (map csv_field cells) @ CHR 0x0D # CHR 0x0A # t)" for u by blast
  show ?case
  proof (cases cells)
    case Nil
    with Cons.prems(2) have "c \<noteq> [] \<or> st = StartField" by auto
    with r Nil show ?thesis by simp
  next
    case (Cons d ds)
    have "csv_rows StartField [] (c # row) (join '','' (map csv_field cells) @ CHR 0x0D # CHR 0x0A # t) = (rev (c # row) @ cells) # csv_rows StartRecord [] [] t"
      by (rule Cons.IH) (simp_all add: Cons)
    with r Cons show ?thesis by simp
  qed
qed simp

lemma csv_rows_text: "[] \<notin> set rows \<Longrightarrow> csv_rows StartRecord [] [] (csv_text rows) = rows"
proof (induction rows)
  case (Cons cells rows)
  then have n: "cells \<noteq> []" and ih: "csv_rows StartRecord [] [] (csv_text rows) = rows" by auto
  show ?case
  proof (cases "cells = [[]]")
    case True
    then show ?thesis using ih by (simp add: csv_text_def csv_row_def csv_quoted_def)
  next
    case False
    with csv_rows_line [OF n, of StartRecord "[]" "csv_text rows"] show ?thesis using ih by (simp add: csv_text_def csv_row_def)
  qed
qed (simp add: csv_text_def)

lemma csv_dicts_text:
  "names \<noteq> [] \<Longrightarrow> csv_dicts (csv_dict_text names rows) = map (\<lambda>row. rev (zip names (csv_dict_row names row))) rows"
proof -
  assume n: "names \<noteq> []"
  then have c: "csv_dict_row names row \<noteq> []" for row by (simp add: csv_dict_row_def)
  with n have "csv_rows StartRecord [] [] (csv_dict_text names rows) = names # map (csv_dict_row names) rows"
    unfolding csv_dict_text_def by (intro csv_rows_text) (auto dest: sym [of "[]"])
  with c show ?thesis by (simp add: csv_dicts_def comp_def)
qed

lemma dirname_join: "base \<noteq> [] \<Longrightarrow> last base \<noteq> CHR ''/'' \<Longrightarrow> list_all (\<lambda>c. c \<noteq> CHR ''/'') name \<Longrightarrow> dirname (path_join base name) = base"
proof -
  assume b: "base \<noteq> []" "last base \<noteq> CHR ''/''" and n: "list_all (\<lambda>c. c \<noteq> CHR ''/'') name"
  have e: "\<not> endswith base ''/''" using b by (cases base rule: rev_cases) (simp_all add: endswith_def)
  have e': "\<not> startswith name ''/''" using n by (cases name) (simp_all add: startswith_def)
  have d: "dropWhile (\<lambda>c. c \<noteq> CHR ''/'') (rev name @ CHR ''/'' # rev base) = CHR ''/'' # rev base"
    using n by (subst dropWhile_append2) (simp_all add: list_all_iff)
  have "dropWhile (\<lambda>c. c = CHR ''/'') (rev base) = rev base"
    using b by (cases base rule: rev_cases) simp_all
  moreover have "\<not> (\<forall>x\<in>set base. x = CHR ''/'')" using b last_in_set by blast
  ultimately show "dirname (path_join base name) = base" using b(1) d by (simp add: dirname_def path_join_def e e' Let_def)
qed

text \<open>The texts of a status row, by column.\<close>

definition status_texts :: "dict \<Rightarrow> (string \<times> string) list" where
  "status_texts row = map (\<lambda>(k, v). (k, csv_value v)) (status_of_row row)"

lemma status_row_texts: "status_row base (rev (zip status_columns (csv_dict_row status_columns (status_of_row row)))) = status_row base (status_texts row)"
  by (simp add: status_row_def csv_get_def status_columns_def csv_dict_row_def status_of_row_def status_texts_def)


section \<open>What the strain campaign promises is what the fits need\<close>

text \<open>A row as the campaign writes it: a direction and a strain of six digits.\<close>

definition plain_point :: "dict \<Rightarrow> bool" where
  "plain_point row \<longleftrightarrow>
     (case (dget0 row ''direction'', dget0 row ''strain'') of
        (PStr d, PFloat v) \<Rightarrow> d \<noteq> [] \<and> py_strip d = d \<and> is_finite v \<and> round_point v = v
      | _ \<Rightarrow> False)"

lemma min_list_le: "list_all is_finite xs \<Longrightarrow> x \<in> set xs \<Longrightarrow> flt_le (min_list xs d) x"
proof -
  have "is_finite y \<Longrightarrow> list_all is_finite ys \<Longrightarrow> is_finite (foldl py_min y ys) \<and> flt_le (foldl py_min y ys) y \<and> (\<forall>x\<in>set ys. flt_le (foldl py_min y ys) x)" for y ys
  proof (induction ys arbitrary: y)
    case (Cons z ys)
    have m: "is_finite (py_min y z)" "flt_le (py_min y z) y" "flt_le (py_min y z) z" using Cons.prems by (auto simp: py_min_def is_finite_iff)
    have t: "flt_le a (py_min y z) \<Longrightarrow> flt_le a y \<and> flt_le a z" for a using m Cons.prems by (cases a) (auto simp: is_finite_iff flt_le_def)
    from Cons.IH [OF m(1)] Cons.prems(2) t show ?case by simp
  qed (auto simp: is_finite_iff)
  then show "list_all is_finite xs \<Longrightarrow> x \<in> set xs \<Longrightarrow> flt_le (min_list xs d) x" by (cases xs) (auto simp: min_list_def)
qed

lemma max_list_ge: "list_all is_finite xs \<Longrightarrow> x \<in> set xs \<Longrightarrow> flt_le x (max_list xs d)"
proof -
  have "is_finite y \<Longrightarrow> list_all is_finite ys \<Longrightarrow> is_finite (foldl py_max y ys) \<and> flt_le y (foldl py_max y ys) \<and> (\<forall>x\<in>set ys. flt_le x (foldl py_max y ys))" for y ys
  proof (induction ys arbitrary: y)
    case (Cons z ys)
    have m: "is_finite (py_max y z)" "flt_le y (py_max y z)" "flt_le z (py_max y z)" using Cons.prems by (auto simp: py_max_def is_finite_iff)
    have t: "flt_le (py_max y z) a \<Longrightarrow> flt_le y a \<and> flt_le z a" for a using m Cons.prems by (cases a) (auto simp: is_finite_iff flt_le_def)
    from Cons.IH [OF m(1)] Cons.prems(2) t show ?case by simp
  qed (auto simp: is_finite_iff)
  then show "list_all is_finite xs \<Longrightarrow> x \<in> set xs \<Longrightarrow> flt_le x (max_list xs d)" by (cases xs) (auto simp: max_list_def)
qed

lemma dget0_dget: "dget0 row k = w \<Longrightarrow> w \<noteq> PNone \<Longrightarrow> dget row k x = w"
  by (auto simp: dget0_def dget_def split: option.splits)

lemma plain_point_reads:
  assumes "plain_point row"
  obtains d v where "dget row ''direction'' x = PStr d" "dget0 row ''strain'' = PFloat v" "is_finite v" "strain_key row = Some (d, v)"
proof -
  from assms obtain d v where r: "dget0 row ''direction'' = PStr d" "dget0 row ''strain'' = PFloat v" "d \<noteq> []" "py_strip d = d" "is_finite v" "round_point v = v"
    unfolding plain_point_def by (auto split: py.splits)
  have v: "py_or (dget row ''strain'' (PFloat (Fin 0))) (PFloat (Fin 0)) = PFloat v"
    using dget0_dget [OF r(2), of "PFloat (Fin 0)"] r(5) by (auto simp: py_or_def)
  have k: "strain_key row = Some (d, v)" unfolding strain_key_def get_str_def r(1) v using r(3,4,6) by simp
  show thesis by (rule that [OF dget0_dget [OF r(1)] r(2) r(5) k]) simp
qed

lemma completed_in_points:
  assumes "\<forall>row\<in>set rows. plain_point row" "completed_at rows direction v"
  shows "\<exists>row\<in>set (direction_points direction rows). dget0 row ''strain'' = PFloat v"
proof -
  from assms(2) obtain row where r: "row \<in> set rows" "point_done row" "strain_key row = Some (direction, v)" unfolding completed_at_def by blast
  from assms(1) r(1) have "plain_point row" by blast
  then obtain d u where p: "dget row ''direction'' (PStr ''x'') = PStr d" "dget0 row ''strain'' = PFloat u" "strain_key row = Some (d, u)"
    by (rule plain_point_reads)
  with r(3) have "d = direction" "u = v" by simp_all
  with p r(1,2) have "row \<in> set (direction_points direction rows)" "dget0 row ''strain'' = PFloat v" unfolding direction_points_def by simp_all
  then show ?thesis by blast
qed

definition float_of :: "py \<Rightarrow> flt" where
  "float_of v = (case v of PFloat x \<Rightarrow> x | _ \<Rightarrow> NaN)"

lemma direction_accepted:
  assumes "\<forall>row\<in>set rows. plain_point row" "enough_for_fit rows direction"
  shows "direction_problems rows direction = Inr []"
proof -
  let ?sub = "direction_points direction rows" and ?xs = "map (\<lambda>d. float_of (dget0 d ''strain'')) (direction_points direction rows)"
  have each: "to_float (dget0 row ''strain'') = Inr (float_of (dget0 row ''strain'')) \<and> is_finite (float_of (dget0 row ''strain''))" if "row \<in> set ?sub" for row
  proof -
    from that assms(1) have "plain_point row" by (auto simp: direction_points_def)
    then obtain v where "dget0 row ''strain'' = PFloat v" "is_finite v" by (rule plain_point_reads)
    then show ?thesis by (simp add: float_of_def)
  qed
  then have m: "mapR (\<lambda>d. to_float (dget0 d ''strain'')) ?sub = Inr ?xs" by (intro mapR_total) blast
  let ?s = "sort (dedupe ?xs)"
  have fin: "list_all is_finite ?s" using each by (auto simp: list_all_iff)
  from assms(2) obtain vs where vs: "distinct vs" "5 \<le> length vs" "list_all (completed_at rows direction) vs" "Fin 0 \<in> set vs"
    "list_ex (\<lambda>v. flt_lt v (Fin 0)) vs" "list_ex (\<lambda>v. flt_lt (Fin 0) v) vs" unfolding enough_for_fit_def by blast
  have sub: "set vs \<subseteq> set ?s"
  proof
    fix v assume "v \<in> set vs"
    with vs(3) have "completed_at rows direction v" by (simp add: list_all_iff)
    from completed_in_points [OF assms(1) this] show "v \<in> set ?s" by (force simp: float_of_def)
  qed
  have "length vs \<le> card (set ?xs)" using sub distinct_card [OF vs(1)] card_mono [of "set ?s" "set vs"] by simp
  with vs(2) card_length [of ?xs] have n: "\<not> length ?sub < 5" by simp
  from vs(5) sub obtain a where "a \<in> set ?s" "flt_lt a (Fin 0)" unfolding list_ex_iff by blast
  with min_list_le [OF fin] have neg: "flt_lt (min_list ?s NaN) (Fin 0)" by (blast intro: flt_le_lt_trans)
  from vs(6) sub obtain b where "b \<in> set ?s" "flt_lt (Fin 0) b" unfolding list_ex_iff by blast
  with max_list_ge [OF fin] have pos: "flt_lt (Fin 0) (max_list ?s NaN)" by (blast intro: flt_lt_le_trans)
  from vs(4) sub have zero: "Fin 0 \<in> set ?s" by blast
  show ?thesis unfolding direction_problems_def Let_def if_not_P [OF n] m bindR_simps using neg pos zero by simp
qed

text \<open>C35: The promise of the campaign meets the test of the mobility stage, which is written against other code: rows with
  strains of six digits that are enough for the fits by the campaign's account raise no problem in either direction.\<close>

theorem fit_data_accepted:
  assumes "\<forall>row\<in>set rows. plain_point row" "enough_for_fit rows ''x''" "enough_for_fit rows ''y''"
  shows "strain_data_problems rows = Inr []"
  by (simp add: strain_data_problems_def direction_accepted [OF assms(1,2)] direction_accepted [OF assms(1,3)])

section \<open>The mobilities\<close>

definition mass_accepted :: "dict \<Rightarrow> string \<Rightarrow> string \<Rightarrow> bool" where
  "mass_accepted diagnostics carrier direction \<longleftrightarrow>
     (case get_dict diagnostics (carrier @ ''_'' @ direction) of Inl _ \<Rightarrow> False | Inr d \<Rightarrow> mass_status d = ''accepted'')"

text \<open>The fields a verdict adds to the report of a channel.\<close>

definition quality_names :: "string list" where
  "quality_names =
     [''mass_status'', ''mass_valid_for_mobility'', ''mass_qc_available'', ''mass_rejection_reasons'', ''mass_fit_R2'', ''mass_curvature_sign_ok'',
      ''mass_center_is_extremum'', ''mass_dynamic_band_switch'', ''mass_fixed_branch_energy_jump_max_eV'', ''mass_dynamic_edge_energy_jump_max_eV'',
      ''mass_fit_window_stability_rel'', ''mass_fixed_band_index'', ''mass_dynamic_band_indices'']"

lemma quality_reads:
  assumes "mass_quality_for_channel diagnostics carrier direction = Inr q" "direction \<in> {''x'', ''y''}"
  shows "distinct (map fst q)" "set (map fst q) \<subseteq> set quality_names"
    "truthy (dget q ''mass_valid_for_mobility'' (PBool True)) \<longleftrightarrow>
       diagnostics = [] \<or> mass_accepted diagnostics carrier ''x'' \<and> mass_accepted diagnostics carrier ''y''"
proof -
  have "distinct (map fst q) \<and> set (map fst q) \<subseteq> set quality_names \<and> (truthy (dget q ''mass_valid_for_mobility'' (PBool True)) \<longleftrightarrow>
       diagnostics = [] \<or> mass_accepted diagnostics carrier ''x'' \<and> mass_accepted diagnostics carrier ''y'')"
  proof (cases "diagnostics = []")
    case True
    with assms(1) have "q = [(''mass_status'', PStr ''accepted''), (''mass_valid_for_mobility'', PBool True), (''mass_qc_available'', PBool False),
             (''mass_rejection_reasons'', PList [])]" by (simp add: mass_quality_for_channel_def)
    then show ?thesis using True by (simp add: quality_names_def dget_def)
  next
    case False
    let ?cross = "if direction = ''x'' then ''y'' else ''x''"
    from assms(1) obtain c d reasons where r: "get_dict diagnostics (carrier @ ''_'' @ direction) = Inr c"
      "get_dict diagnostics (carrier @ ''_'' @ ?cross) = Inr d" "get_list c ''rejection_reasons'' = Inr reasons"
      unfolding mass_quality_for_channel_def Let_def if_not_P [OF False] bindR_eq_Inr by (elim exE conjE) (rule that)
    have "\<exists>rest. q = (''mass_status'', PStr (mass_status c)) # (''mass_valid_for_mobility'', PBool (mass_status c = ''accepted'' \<and> mass_status d = ''accepted'')) # rest
        \<and> map fst rest = drop 2 quality_names"
      using assms(1) unfolding mass_quality_for_channel_def Let_def if_not_P [OF False] r bindR_simps sum.inject
      by - (rule exI, rule conjI, erule sym, simp add: quality_names_def)
    then obtain rest where q: "q = (''mass_status'', PStr (mass_status c)) # (''mass_valid_for_mobility'', PBool (mass_status c = ''accepted'' \<and> mass_status d = ''accepted'')) # rest"
      and n: "map fst rest = drop 2 quality_names" by (elim exE conjE) (rule that)
    have k: "map fst q = quality_names" using n unfolding q by (simp add: quality_names_def)
    have v: "dget q ''mass_valid_for_mobility'' (PBool True) = PBool (mass_status c = ''accepted'' \<and> mass_status d = ''accepted'')" unfolding q by (simp add: dget_def)
    have a: "mass_accepted diagnostics carrier direction \<longleftrightarrow> mass_status c = ''accepted''"
      "mass_accepted diagnostics carrier ?cross \<longleftrightarrow> mass_status d = ''accepted''"
      unfolding mass_accepted_def r by simp_all
    have "distinct quality_names" by code_simp
    with k v a False assms(2) show ?thesis by (cases "direction = ''x''") (simp_all add: conj_commute)
  qed
  then show "distinct (map fst q)" "set (map fst q) \<subseteq> set quality_names"
    "truthy (dget q ''mass_valid_for_mobility'' (PBool True)) \<longleftrightarrow>
       diagnostics = [] \<or> mass_accepted diagnostics carrier ''x'' \<and> mass_accepted diagnostics carrier ''y''" by blast+
qed

lemma dget0_dmerge_away: "distinct (map fst q) \<Longrightarrow> k \<notin> set (map fst q) \<Longrightarrow> dget0 (dmerge d q) k = dget0 d k"
proof -
  assume d: "distinct (map fst q)" and "k \<notin> set (map fst q)"
  then have "map_of q k = None" by (simp add: map_of_eq_None_iff)
  then show "dget0 (dmerge d q) k = dget0 d k" by (simp add: dget0_def dget_def map_of_dmerge [OF d] map_add_def)
qed

text \<open>What the report of a channel says.\<close>

definition channel_sound :: "mobility_env \<Rightarrow> MobilityToolInput \<Rightarrow> dict \<Rightarrow> string \<Rightarrow> string \<Rightarrow> dict \<Rightarrow> bool" where
  "channel_sound mb inputs diagnostics carrier direction ch \<longleftrightarrow>
     (\<exists>c2d e1. dget0 ch ''C2D_J_m2'' = PFloat c2d \<and> dget0 ch ''E1_eV'' = PFloat e1
        \<and> (case (transport_mass inputs carrier direction, dos_mass inputs carrier) of
             (Some m, Some md) \<Rightarrow>
               (\<exists>mu. deformation_mobility mb c2d m md e1 = Inr mu \<and> dget0 ch ''mobility_m2_Vs'' = PFloat mu)
               \<and> (dget0 ch ''mobility_qc_status'' = PStr ''trusted'' \<longleftrightarrow>
                    diagnostics = [] \<or> mass_accepted diagnostics carrier ''x'' \<and> mass_accepted diagnostics carrier ''y'')
           | _ \<Rightarrow> dget0 ch ''mobility_m2_Vs'' = PNone \<and> dget0 ch ''mass_valid_for_mobility'' = PBool False))"

lemma channel_result_sound:
  assumes "channel_result mb inputs diagnostics el eg carrier direction = Inr ch" "direction \<in> {''x'', ''y''}"
  shows "channel_sound mb inputs diagnostics carrier direction ch"
proof -
  from assms(1) obtain q where q: "mass_quality_for_channel diagnostics carrier direction = Inr q"
    unfolding channel_result_def bindR_eq_Inr by blast
  note r = quality_reads [OF q assms(2)]
  have away: "k \<notin> set quality_names \<Longrightarrow> dget0 (dmerge d q) k = dget0 d k" for k d using r(2) by (intro dget0_dmerge_away [OF r(1)]) blast
  have names: "''C2D_J_m2'' \<notin> set quality_names" "''E1_eV'' \<notin> set quality_names" "''mobility_m2_Vs'' \<notin> set quality_names"
    "''mobility_qc_status'' \<notin> set quality_names" by code_simp+
  show ?thesis
  proof (cases "\<exists>m md. transport_mass inputs carrier direction = Some m \<and> dos_mass inputs carrier = Some md")
    case True
    then obtain m md where m: "transport_mass inputs carrier direction = Some m" "dos_mass inputs carrier = Some md" by blast
    from assms(1) obtain mu where mu: "deformation_mobility mb (el_modulus el) m md (eg_e1 eg) = Inr mu"
      unfolding channel_result_def q m bindR_simps Let_def prod.case option.case bindR_eq_Inr by blast
    let ?cm = "PFloat (flt_mul mu (Fin 10000))"
    let ?d = "[(''mobility_cm2_Vs'', ?cm), (''mobility_m2_Vs'', PFloat mu), (''raw_mobility_cm2_Vs'', ?cm), (''raw_mobility_m2_Vs'', PFloat mu),
             (''mobility_qc_status'', PStr (if truthy (dget q ''mass_valid_for_mobility'' (PBool True)) then ''trusted'' else ''mass_qc_warning'')),
             (''m_transport'', PFloat m), (''m_dos'', PFloat md)] @ fit_fields mb el eg"
    from assms(1) have ch: "dmerge ?d q = ch" unfolding channel_result_def q m mu bindR_simps Let_def prod.case option.case by simp
    have "dget0 ?d ''C2D_J_m2'' = PFloat (el_modulus el)" "dget0 ?d ''E1_eV'' = PFloat (eg_e1 eg)" "dget0 ?d ''mobility_m2_Vs'' = PFloat mu"
      "dget0 ?d ''mobility_qc_status'' = PStr (if truthy (dget q ''mass_valid_for_mobility'' (PBool True)) then ''trusted'' else ''mass_qc_warning'')"
      by (simp_all add: dget0_def dget_def fit_fields_def)
    then have "dget0 ch ''C2D_J_m2'' = PFloat (el_modulus el)" "dget0 ch ''E1_eV'' = PFloat (eg_e1 eg)" "dget0 ch ''mobility_m2_Vs'' = PFloat mu"
      "dget0 ch ''mobility_qc_status'' = PStr (if truthy (dget q ''mass_valid_for_mobility'' (PBool True)) then ''trusted'' else ''mass_qc_warning'')"
      unfolding ch [symmetric] by (simp_all only: away names not_False_eq_True)
    then show ?thesis unfolding channel_sound_def m prod.case option.case r(3) by (intro exI conjI) (assumption | rule mu | simp)+
  next
    case False
    let ?m = "transport_mass inputs carrier direction" and ?md = "dos_mass inputs carrier"
    have c: "(case (?m, ?md) of (Some m, Some md) \<Rightarrow> A m md | _ \<Rightarrow> B) = B" for A :: "flt \<Rightarrow> flt \<Rightarrow> 'z" and B
      using False by (cases ?m; cases ?md) simp_all
    let ?d = "[(''mobility_cm2_Vs'', PNone), (''mobility_m2_Vs'', PNone), (''raw_mobility_cm2_Vs'', PNone), (''raw_mobility_m2_Vs'', PNone),
             (''m_transport'', py_opt PFloat ?m), (''m_dos'', py_opt PFloat ?md)] @ fit_fields mb el eg"
    from assms(1) obtain reasons where
      ch: "dmerge (dmerge ?d q) [(''mass_valid_for_mobility'', PBool False), (''mass_rejection_reasons'', PList (reasons @ [PStr ''missing_effective_mass'']))] = ch"
      unfolding channel_result_def q bindR_simps Let_def c bindR_eq_Inr sum.inject by (elim exE conjE) (rule that)
    have "dget0 ?d ''C2D_J_m2'' = PFloat (el_modulus el)" "dget0 ?d ''E1_eV'' = PFloat (eg_e1 eg)" "dget0 ?d ''mobility_m2_Vs'' = PNone"
      by (simp_all add: dget0_def dget_def fit_fields_def)
    then have "dget0 (dmerge ?d q) ''C2D_J_m2'' = PFloat (el_modulus el)" "dget0 (dmerge ?d q) ''E1_eV'' = PFloat (eg_e1 eg)"
      "dget0 (dmerge ?d q) ''mobility_m2_Vs'' = PNone" by (simp_all only: away names not_False_eq_True)
    then have "dget0 ch ''C2D_J_m2'' = PFloat (el_modulus el)" "dget0 ch ''E1_eV'' = PFloat (eg_e1 eg)" "dget0 ch ''mobility_m2_Vs'' = PNone"
      "dget0 ch ''mass_valid_for_mobility'' = PBool False"
      unfolding ch [symmetric] by (simp_all add: dget0_def dget_def)
    then show ?thesis unfolding channel_sound_def c by (intro exI conjI) assumption+
  qed
qed

lemma by_strain_length: "by_strain rows = Inr rs \<Longrightarrow> length rs = length rows"
  by (auto simp: by_strain_def float_column_def dest: mapR_length)

lemma direction_mobility_sound:
  assumes "direction_mobility mb inputs diagnostics area2 direction = Inr dr" "direction \<in> {''x'', ''y''}"
  shows "dr_direction dr = direction \<and> dget0 (dr_report dr) ''n_points'' = PInt (int (length (direction_points direction (bo_strain_data inputs))))
    \<and> (\<forall>carrier\<in>{''electron'', ''hole''}. \<exists>ch. dget0 (dr_report dr) carrier = PDict ch \<and> channel_sound mb inputs diagnostics carrier direction ch)"
proof -
  from assms(1) obtain rows el eg eg' re rh where r: "by_strain (direction_points direction (bo_strain_data inputs)) = Inr rows"
    and e: "channel_result mb inputs diagnostics el eg ''electron'' direction = Inr re"
    and h: "channel_result mb inputs diagnostics el eg' ''hole'' direction = Inr rh"
    and d: "\<lparr>dr_direction = direction,
                dr_report = [(''electron'', PDict re), (''hole'', PDict rh), (''elastic_modulus_C2D_J_m2'', PFloat (el_modulus el)),
                  (''area_A2'', PFloat area2), (''n_points'', PInt (int (length rows)))],
                dr_elastic = el, dr_edges = [eg, eg'], dr_points = length rows\<rparr> = dr"
    unfolding direction_mobility_def Let_def bindR_eq_Inr sum.inject by (elim exE conjE) (rule that)
  have "dget0 (dr_report dr) ''electron'' = PDict re" "dget0 (dr_report dr) ''hole'' = PDict rh"
    "dget0 (dr_report dr) ''n_points'' = PInt (int (length rows))" "dr_direction dr = direction"
    unfolding d [symmetric] by (simp_all add: dget0_def dget_def)
  with channel_result_sound [OF e assms(2)] channel_result_sound [OF h assms(2)] by_strain_length [OF r] show ?thesis by simp
qed

lemma problems_count: "direction_problems rows direction = Inr [] \<Longrightarrow> 5 \<le> length (direction_points direction rows)"
  by (cases "length (direction_points direction rows) < 5") (simp_all add: direction_problems_def)

lemma strain_data_count:
  assumes "strain_data_problems rows = Inr []" "direction \<in> {''x'', ''y''}"
  shows "5 \<le> length (direction_points direction rows)"
proof -
  from assms(1) have "direction_problems rows ''x'' = Inr []" "direction_problems rows ''y'' = Inr []"
    unfolding strain_data_problems_def bindR_eq_Inr by (elim exE conjE, simp)+
  with assms(2) problems_count show ?thesis by blast
qed

lemma other_branch:
  "(if b then io_bind (io_change h) (\<lambda>_. io_return x) else m) f = (f', Inr y) \<Longrightarrow> y \<noteq> x \<Longrightarrow> \<not> b \<and> m f = (f', Inr y)"
  "(if b then io_return x else m) f = (f', Inr y) \<Longrightarrow> y \<noteq> x \<Longrightarrow> \<not> b \<and> m f = (f', Inr y)"
  by (cases b; simp add: io_bind_Inr)+

lemma mobility_execute_ends:
  assumes "mobility_execute mb inputs f = (f', Inr raw)" "\<not> truthy (dget0 raw ''errors'')"
  shows "strain_data_problems (bo_strain_data inputs) = Inr [] \<and> (\<exists>path c n g. mobility_fits mb inputs path c n g = (f', Inr raw))"
proof -
  have no_error: "raw \<noteq> (''errors'', PList (p # ps)) # rest" for p ps rest
  proof
    assume "raw = (''errors'', PList (p # ps)) # rest"
    with assms(2) show False by (simp add: dget0_def dget_def)
  qed
  from assms(1) show ?thesis
    unfolding mobility_execute_def Let_def io_bind_Inr [of "io_lift _"] io_Inr
    apply (elim exE conjE)
    apply (drule other_branch(1), rule no_error)
    apply (simp only: io_bind_Inr io_Inr not_not simp_thms)
    apply (elim exE conjE)
    apply (drule other_branch(2), rule no_error)
    apply (elim conjE)
    apply (intro conjI exI)
    apply assumption+
    done
qed

lemma mobility_fits_report:
  assumes "mobility_fits mb inputs path c n f = (f', Inr raw)"
  obtains area2 diagnostics dx dy results where "mobility_mass_diagnostics inputs = Inr diagnostics"
    "direction_mobility mb inputs diagnostics area2 ''x'' = Inr dx" "direction_mobility mb inputs diagnostics area2 ''y'' = Inr dy"
    "dget0 raw ''results'' = PDict results"
    "dget0 results ''results_by_direction'' = PDict [(dr_direction dx, PDict (dr_report dx)), (dr_direction dy, PDict (dr_report dy))]"
proof -
  from assms obtain area2 diagnostics drs results rest where d: "mobility_mass_diagnostics inputs = Inr diagnostics"
    and m: "mapR (direction_mobility mb inputs diagnostics area2) [''x'', ''y''] = Inr drs"
    and r: "mobility_results mb inputs diagnostics area2 drs = Inr results" and raw: "raw = (''results'', PDict results) # rest"
    unfolding mobility_fits_def Let_def io_bind_Inr io_Inr by (elim exE conjE) (rule that)
  from m obtain dx dy where x: "direction_mobility mb inputs diagnostics area2 ''x'' = Inr dx" "direction_mobility mb inputs diagnostics area2 ''y'' = Inr dy"
    and drs: "drs = [dx, dy]" by (auto simp: bindR_eq_Inr)
  from r have "dget0 results ''results_by_direction'' = PDict [(dr_direction dx, PDict (dr_report dx)), (dr_direction dy, PDict (dr_report dy))]"
    unfolding mobility_results_def bindR_eq_Inr sum.inject by (elim exE conjE) (drule sym, simp add: drs dget0_def dget_def)
  from that [OF d x _ this] show thesis by (simp add: raw dget0_def dget_def)
qed

text \<open>C34: A mobility stage that reports success had at least five completed points in either direction and reports, for either
  carrier in either direction, the mobility that the deformation-potential formula gives for the fitted modulus, the
  fitted potential and the masses it was given; a channel whose masses are known is called trusted exactly when the
  mass stage accepted the fits of both directions of the carrier or left no diagnosis, and one whose masses are not
  known has no mobility.\<close>

theorem mobility_success_sound:
  assumes "mobility_tool_run mb inputs f = (f', out)" "to_success out"
  shows "\<exists>results directions diagnostics. dget0 (to_state_updates out) ''results'' = PDict results
    \<and> dget0 results ''results_by_direction'' = PDict directions \<and> mobility_mass_diagnostics inputs = Inr diagnostics
    \<and> (\<forall>direction\<in>{''x'', ''y''}. 5 \<le> length (direction_points direction (bo_strain_data inputs))
         \<and> (\<exists>report. dget0 directions direction = PDict report
              \<and> dget0 report ''n_points'' = PInt (int (length (direction_points direction (bo_strain_data inputs))))
              \<and> (\<forall>carrier\<in>{''electron'', ''hole''}. \<exists>ch. dget0 report carrier = PDict ch
                   \<and> channel_sound mb inputs diagnostics carrier direction ch)))"
proof -
  from assms obtain raw where raw: "mobility_execute mb inputs f = (f', Inr raw)" "\<not> truthy (dget0 raw ''errors'')" "to_state_updates out = raw"
    by (auto simp: mobility_tool_run_def tool_run_def failed_output_def mobility_build_output_def split: prod.splits sum.splits)
  from mobility_execute_ends [OF raw(1,2)] obtain path c n g where
    p: "strain_data_problems (bo_strain_data inputs) = Inr []" and m: "mobility_fits mb inputs path c n g = (f', Inr raw)" by blast
  from m obtain area2 diagnostics dx dy results where d: "mobility_mass_diagnostics inputs = Inr diagnostics"
    "direction_mobility mb inputs diagnostics area2 ''x'' = Inr dx" "direction_mobility mb inputs diagnostics area2 ''y'' = Inr dy"
    "dget0 raw ''results'' = PDict results"
    "dget0 results ''results_by_direction'' = PDict [(dr_direction dx, PDict (dr_report dx)), (dr_direction dy, PDict (dr_report dy))]"
    by (rule mobility_fits_report)
  note x = direction_mobility_sound [OF d(2)] and y = direction_mobility_sound [OF d(3)]
  let ?ds = "[(dr_direction dx, PDict (dr_report dx)), (dr_direction dy, PDict (dr_report dy))]"
  have at: "dget0 ?ds ''x'' = PDict (dr_report dx)" "dget0 ?ds ''y'' = PDict (dr_report dy)" using x y by (simp_all add: dget0_def dget_def)
  show ?thesis unfolding raw(3)
    by (rule exI [of _ results], rule exI [of _ ?ds], rule exI [of _ diagnostics])
       (use d(1,4,5) at x y strain_data_count [OF p] in simp)
qed

section \<open>A run\<close>

definition demo_point :: "string \<Rightarrow> rat \<Rightarrow> dict" where
  "demo_point direction s =
     [(''direction'', PStr direction), (''strain'', PFloat (Fin s)), (''total_energy'', PFloat (Fin (s * s))), (''e_vbm'', PFloat (Fin (- s))),
      (''e_cbm'', PFloat (Fin s)), (''e_vacuum'', PFloat (Fin 0)), (''folder'', PStr (''/w/'' @ direction)), (''completed'', PBool True)]"

definition demo_points :: "dict list" where
  "demo_points = map (demo_point ''x'') [-2, -1, 0, 1, 2] @ map (demo_point ''y'') [-2, -1, 0, 1, 2]"

definition demo_mobility_env :: mobility_env where
  "demo_mobility_env =
     \<lparr>mb_temperature = Fin 300, mb_prefactor = Fin 1, mb_area = (\<lambda>_. Inr (Fin 12)),
      mb_quad_fit = (\<lambda>_ _. Inr ((Fin 1, Fin 0, Fin 0), Some (Fin 0))), mb_linear_fit = (\<lambda>_ _. Inr ((Fin 1, Fin 0), None)), mb_sqrt = (\<lambda>x. x)\<rparr>"

definition demo_verdict :: "string \<Rightarrow> py" where
  "demo_verdict s = PDict [(''status'', PStr s)]"

definition demo_mobility_input :: MobilityToolInput where
  "demo_mobility_input =
     \<lparr>bo_material_id = ''MoS2'', bo_base_dir = ''/w'', bo_strain_data = demo_points,
      bo_electron_mass_x = Some (Fin 1), bo_electron_mass_y = Some (Fin 1), bo_electron_mass_dos = Some (Fin 1),
      bo_hole_mass_x = Some (Fin 1), bo_hole_mass_y = Some (Fin 1), bo_hole_mass_dos = Some (Fin 1),
      bo_mass_diagnostics = [(''electron_x'', demo_verdict ''accepted''), (''electron_y'', demo_verdict ''accepted''),
        (''hole_x'', demo_verdict ''accepted''), (''hole_y'', demo_verdict ''rejected'')],
      bo_state_payload = [(''relaxed_poscar'', PStr ''/w/CONTCAR'')]\<rparr>"

definition demo_mobility_files :: fs where
  "demo_mobility_files = [(''/w'', FDir), (''/w/CONTCAR'', FFile ''MoS2'')]"


lemma demo_enough: "direction \<in> {''x'', ''y''} \<Longrightarrow> enough_for_fit demo_points direction"
proof -
  assume "direction \<in> {''x'', ''y''}"
  moreover have "list_all (completed_at demo_points d) (map Fin [-2, -1, 0, 1, 2])" if "d = ''x'' \<or> d = ''y''" for d
    using that by (elim disjE; hypsubst) code_simp+
  ultimately show ?thesis unfolding enough_for_fit_def by (intro exI [of _ "map Fin [-2, -1, 0, 1, 2]"]) simp
qed

lemma demo_plain: "\<forall>row\<in>set demo_points. plain_point row"
  by code_simp

theorem fit_data_accepted_witness: "strain_data_problems demo_points = Inr []"
  using fit_data_accepted [OF demo_plain demo_enough demo_enough] by simp

text \<open>Without a structure the stage stops before it writes anything and still names its four files.\<close>

lemma reported_files_missing:
  "case mobility_tool_run demo_mobility_env demo_mobility_input [(''/w'', FDir)] of (f, out) \<Rightarrow>
     map snd (to_artifact_paths out) = map (path_join ''/w'') [''mobility_results.json'', ''strain_data.csv'', ''strain_status.csv'', ''fit_diagnostics.json'']
     \<and> list_all (\<lambda>p. \<not> path_exists f p) (map snd (to_artifact_paths out)) \<and> f = [(''/w'', FDir)]"
  by code_simp

lemma demo_mobility: "\<exists>mu. deformation_mobility demo_mobility_env (Fin c) (Fin 1) (Fin 1) (Fin 1) = Inr mu"
  by (simp add: deformation_mobility_def py_div_def Let_def demo_mobility_env_def EV_TO_J_def E_CHARGE_def HBAR_def KB_def M0_def)

lemma demo_elastic: "\<exists>el. fit_elastic demo_mobility_env (flt_mul (Fin 12) (flt_square ANGSTROM_TO_M)) xs ys = Inr el \<and> is_finite (el_modulus el)"
  by (simp add: fit_elastic_def py_div_def Let_def demo_mobility_env_def sigma_def EV_TO_J_def ANGSTROM_TO_M_def py_max_def)

lemma demo_edge: "\<exists>eg. fit_edge demo_mobility_env xs ys = Inr eg \<and> eg_e1 eg = Fin 1"
  by (simp add: fit_edge_def demo_mobility_env_def)

lemma demo_mobility_channel:
  assumes "el_modulus el = Fin c" "eg_e1 eg = Fin 1" "(carrier, direction) \<in> set (List.product [''electron'', ''hole''] [''x'', ''y''])"
  shows "\<exists>ch. channel_result demo_mobility_env demo_mobility_input (bo_mass_diagnostics demo_mobility_input) el eg carrier direction = Inr ch"
proof -
  have m: "transport_mass demo_mobility_input carrier direction = Some (Fin 1)" "dos_mass demo_mobility_input carrier = Some (Fin 1)"
    by (simp_all add: transport_mass_def dos_mass_def demo_mobility_input_def)
  have "\<forall>(c, d)\<in>set (List.product [''electron'', ''hole''] [''x'', ''y'']). \<not> isl (mass_quality_for_channel (bo_mass_diagnostics demo_mobility_input) c d)"
    by code_simp
  with assms(3) have "\<not> isl (mass_quality_for_channel (bo_mass_diagnostics demo_mobility_input) carrier direction)" by blast
  then obtain q where q: "mass_quality_for_channel (bo_mass_diagnostics demo_mobility_input) carrier direction = Inr q" by (cases "mass_quality_for_channel (bo_mass_diagnostics demo_mobility_input) carrier direction") simp_all
  obtain mu where mu: "deformation_mobility demo_mobility_env (Fin c) (Fin 1) (Fin 1) (Fin 1) = Inr mu" using demo_mobility by blast
  show ?thesis unfolding channel_result_def q m Let_def prod.case option.case bindR_simps assms(1,2) mu by (rule exI, rule refl)
qed

lemma demo_direction:
  assumes "direction \<in> {''x'', ''y''}"
  shows "\<exists>dr. direction_mobility demo_mobility_env demo_mobility_input (bo_mass_diagnostics demo_mobility_input) (Fin 12) direction = Inr dr"
proof -
  let ?rows = "map (demo_point direction) [-2, -1, 0, 1, 2]"
  have d: "bo_strain_data demo_mobility_input = demo_points" by (simp add: demo_mobility_input_def)
  have at: "direction \<in> set [''x'', ''y'']" using assms by simp
  have "\<forall>d\<in>set [''x'', ''y'']. by_strain (direction_points d demo_points) = Inr (map (demo_point d) [-2, -1, 0, 1, 2])" by code_simp
  from bspec [OF this at] have r: "by_strain (direction_points direction demo_points) = Inr ?rows" .
  have cols: "\<forall>d\<in>set [''x'', ''y'']. \<forall>k\<in>set [''strain'', ''total_energy'', ''e_vbm'', ''e_cbm'', ''e_vacuum'']. \<not> isl (float_column k (map (demo_point d) [-2, -1, 0, 1, 2]))"
    by code_simp
  have col: "\<exists>x. float_column k ?rows = Inr x" if "k \<in> set [''strain'', ''total_energy'', ''e_vbm'', ''e_cbm'', ''e_vacuum'']" for k
    using bspec [OF bspec [OF cols at] that] by (cases "float_column k ?rows") simp_all
  obtain x1 where c1: "float_column ''strain'' ?rows = Inr x1" using col [of "''strain''"] by auto
  obtain x2 where c2: "float_column ''total_energy'' ?rows = Inr x2" using col [of "''total_energy''"] by auto
  obtain x3 where c3: "float_column ''e_vbm'' ?rows = Inr x3" using col [of "''e_vbm''"] by auto
  obtain x4 where c4: "float_column ''e_cbm'' ?rows = Inr x4" using col [of "''e_cbm''"] by auto
  obtain x5 where c5: "float_column ''e_vacuum'' ?rows = Inr x5" using col [of "''e_vacuum''"] by auto
  obtain el k where el: "fit_elastic demo_mobility_env (flt_mul (Fin 12) (flt_square ANGSTROM_TO_M)) x1 x2 = Inr el" "el_modulus el = Fin k"
    using demo_elastic [of x1 x2] unfolding is_finite_iff by blast
  let ?rel = "\<lambda>es vac. map (\<lambda>(e, v). flt_sub e v) (zip es vac)"
  obtain eg where eg: "fit_edge demo_mobility_env x1 (?rel x4 x5) = Inr eg" "eg_e1 eg = Fin 1" using demo_edge by blast
  obtain hg where hg: "fit_edge demo_mobility_env x1 (?rel x3 x5) = Inr hg" "eg_e1 hg = Fin 1" using demo_edge by blast
  have m: "(''electron'', direction) \<in> set (List.product [''electron'', ''hole''] [''x'', ''y''])" "(''hole'', direction) \<in> set (List.product [''electron'', ''hole''] [''x'', ''y''])"
    using assms by simp_all
  obtain re where re: "channel_result demo_mobility_env demo_mobility_input (bo_mass_diagnostics demo_mobility_input) el eg ''electron'' direction = Inr re"
    using demo_mobility_channel [OF el(2) eg(2) m(1)] by blast
  obtain rh where rh: "channel_result demo_mobility_env demo_mobility_input (bo_mass_diagnostics demo_mobility_input) el hg ''hole'' direction = Inr rh"
    using demo_mobility_channel [OF el(2) hg(2) m(2)] by blast
  show ?thesis unfolding direction_mobility_def Let_def d r c1 c2 c3 c4 c5 bindR_simps el(1) eg(1) hg(1) re rh by (rule exI, rule refl)
qed

lemma demo_mobility_run: "to_success (snd (mobility_tool_run demo_mobility_env demo_mobility_input demo_mobility_files))"
proof -
  let ?d = "bo_mass_diagnostics demo_mobility_input"
  have c: "strain_data_problems (bo_strain_data demo_mobility_input) = Inr []" by code_simp
  have c2: "resolve_structure_path demo_mobility_input = Inr (Some ''/w/CONTCAR'')" by code_simp
  have c3: "path_exists demo_mobility_files ''/w/CONTCAR''" by code_simp
  have c4: "read_text demo_mobility_files ''/w/CONTCAR'' = Inr ''MoS2''" by code_simp
  have c5: "mb_area demo_mobility_env t = Inr (Fin 12)" for t by (simp add: demo_mobility_env_def)
  have c6: "mobility_mass_diagnostics demo_mobility_input = Inr ?d" by (simp add: mobility_mass_diagnostics_def demo_mobility_input_def)
  have c7: "get_list (bo_state_payload demo_mobility_input) ''relax_retry_backups'' = Inr []" by code_simp
  obtain dx where x: "direction_mobility demo_mobility_env demo_mobility_input ?d (Fin 12) ''x'' = Inr dx" using demo_direction [of "''x''"] by auto
  obtain dy where y: "direction_mobility demo_mobility_env demo_mobility_input ?d (Fin 12) ''y'' = Inr dy" using demo_direction [of "''y''"] by auto
  have m: "mapR (direction_mobility demo_mobility_env demo_mobility_input ?d (Fin 12)) [''x'', ''y''] = Inr [dx, dy]" by (simp add: x y)
  obtain results where r: "mobility_results demo_mobility_env demo_mobility_input ?d (Fin 12) [dx, dy] = Inr results"
    unfolding mobility_results_def c7 bindR_simps by blast
  then have rd: "get_dict results ''results_by_direction'' = Inr [(dr_direction dx, PDict (dr_report dx)), (dr_direction dy, PDict (dr_report dy))]"
    unfolding mobility_results_def c7 bindR_simps sum.inject by (auto simp: get_dict_def dget_def)
  have "\<exists>g fits summary. mobility_execute demo_mobility_env demo_mobility_input demo_mobility_files =
      (g, Inr [(''results'', PDict results), (''fit_diagnostics'', PDict fits), (''mobility_summary'', PDict summary)])"
    unfolding mobility_execute_def mobility_fits_def Let_def
    by (simp add: io_bind_def io_read_def io_lift_def io_change_def io_return_def c c2 c3 c4 c5 c6 m r del: mapR.simps)
  then obtain raw g fits summary where e: "mobility_execute demo_mobility_env demo_mobility_input demo_mobility_files = (g, Inr raw)"
    and raw: "raw = [(''results'', PDict results), (''fit_diagnostics'', PDict fits), (''mobility_summary'', PDict summary)]" by blast
  have "mobility_build_output demo_mobility_input g raw = Inr out \<Longrightarrow> to_success out" for out
    unfolding mobility_build_output_def bindR_eq_Inr sum.inject by (elim exE conjE) (auto simp: raw dget0_def dget_def)
  moreover have "\<exists>out. mobility_build_output demo_mobility_input g raw = Inr out"
    unfolding mobility_build_output_def raw by (simp add: get_dict_def get_list_def dget_def dget0_def errors_text_def rd [unfolded get_dict_def dget_def])
  ultimately show ?thesis unfolding mobility_tool_run_def tool_run_def e by auto
qed

theorem mobility_success_sound_witness:
  "\<exists>results directions report ch ch'. dget0 (to_state_updates (snd (mobility_tool_run demo_mobility_env demo_mobility_input demo_mobility_files))) ''results'' = PDict results
     \<and> dget0 results ''results_by_direction'' = PDict directions \<and> dget0 directions ''x'' = PDict report
     \<and> dget0 report ''electron'' = PDict ch \<and> dget0 ch ''mobility_qc_status'' = PStr ''trusted''
     \<and> dget0 report ''hole'' = PDict ch' \<and> dget0 ch' ''mobility_qc_status'' \<noteq> PStr ''trusted''"
proof -
  let ?r = "mobility_tool_run demo_mobility_env demo_mobility_input demo_mobility_files" and ?d = "bo_mass_diagnostics demo_mobility_input"
  have r: "?r = (fst ?r, snd ?r)" by simp
  have d: "mobility_mass_diagnostics demo_mobility_input = Inr ?d" by (simp add: mobility_mass_diagnostics_def demo_mobility_input_def)
  have q: "channel_sound demo_mobility_env demo_mobility_input ?d ''electron'' ''x'' ch \<Longrightarrow> dget0 ch ''mobility_qc_status'' = PStr ''trusted''"
    "channel_sound demo_mobility_env demo_mobility_input ?d ''hole'' ''x'' ch \<Longrightarrow> dget0 ch ''mobility_qc_status'' \<noteq> PStr ''trusted''" for ch
  proof -
    have m: "transport_mass demo_mobility_input c ''x'' = Some (Fin 1)" "dos_mass demo_mobility_input c = Some (Fin 1)" for c
      by (simp_all add: transport_mass_def dos_mass_def demo_mobility_input_def)
    have a: "?d = [] \<or> mass_accepted ?d ''electron'' ''x'' \<and> mass_accepted ?d ''electron'' ''y''" "\<not> (?d = [] \<or> mass_accepted ?d ''hole'' ''x'' \<and> mass_accepted ?d ''hole'' ''y'')" by code_simp+
    show "channel_sound demo_mobility_env demo_mobility_input ?d ''electron'' ''x'' ch \<Longrightarrow> dget0 ch ''mobility_qc_status'' = PStr ''trusted''"
      unfolding channel_sound_def m prod.case option.case using a(1) by (elim exE conjE) (rule iffD2)
    show "channel_sound demo_mobility_env demo_mobility_input ?d ''hole'' ''x'' ch \<Longrightarrow> dget0 ch ''mobility_qc_status'' \<noteq> PStr ''trusted''"
      unfolding channel_sound_def m prod.case option.case using a(2) by (elim exE conjE) (rule notI, drule iffD1, assumption, erule notE)
  qed
  from mobility_success_sound [OF r demo_mobility_run] obtain results directions diagnostics report ch ch' where
    e: "dget0 (to_state_updates (snd ?r)) ''results'' = PDict results" "dget0 results ''results_by_direction'' = PDict directions"
      "mobility_mass_diagnostics demo_mobility_input = Inr diagnostics" "dget0 directions ''x'' = PDict report"
      "dget0 report ''electron'' = PDict ch" "channel_sound demo_mobility_env demo_mobility_input diagnostics ''electron'' ''x'' ch"
      "dget0 report ''hole'' = PDict ch'" "channel_sound demo_mobility_env demo_mobility_input diagnostics ''hole'' ''x'' ch'"
    apply (elim exE conjE) apply (drule bspec [of _ _ "''x''"], rule insertI1) apply (elim exE conjE)
    apply (frule bspec [of _ _ "''electron''"], rule insertI1) apply (drule bspec [of _ _ "''hole''"], rule insertI2, rule insertI1)
    apply (elim exE conjE) by (rule that)
  from e(3) d have s: "diagnostics = ?d" by simp
  show ?thesis using e(1,2,4,5) q(1) [OF e(6) [unfolded s]] e(7) q(2) [OF e(8) [unfolded s]] by (intro exI conjI)
qed

end
