(* ===== verification/Spec2Isabelle.thy ===== *)
theory Spec2Isabelle
  imports Human_Loop Validation Graph_Facts Mobility
begin

text \<open>
  A verification development for the runtime in src/mobility_agent: a program that computes the carrier
  mobility of a two-dimensional material. It relaxes the structure with VASP, computes the self-consistent
  field, the bands, the effective masses, a campaign of strained cells and at last the mobility. The stages
  are run by deterministic tools; what is done next is decided by a council of agents that ask a language
  model, within limits the code enforces. A graph (LangGraph) takes a run from node to node and keeps its
  state; a human is asked when the limits are reached.

  The theories follow the code: data, then operations in the order of the source, then their properties. Every
  function of Python is a HOL function of the same name where the name is free; a method or a nested function
  carries the name of its job.

  \<^bold>\<open>Values and effects\<close>
  \<^item> \<open>Prelude\<close>: Python's JSON-like values (\<open>py\<close>, a dict is an association list in insertion order), truth, \<open>or\<close>, \<open>get\<close>,
    \<open>str\<close>, \<open>float\<close> and \<open>int\<close>, errors as values (\<open>'a res\<close>, left the exception), utils.py; the locales for a chain of
    names and for a step function with an invariant.
  \<^item> \<open>Json\<close>: the JSON text that is written and read, with the round trip. \<open>Files\<close>: the file table, and the locale
    of tables it interprets. Tools are functions on the file table (\<open>'a io\<close> in \<open>Stage_Tools\<close>), the points of a strain
    campaign also on what the campaign has collected (\<open>'a act\<close> in \<open>Strain\<close>), so that what was done before an
    exception stays.

  \<^bold>\<open>State\<close> (graph/state.py)
  \<^item> \<open>State_Status\<close>: run, compute and decision statuses, terminal status, escalation rules (graph/termination.py,
    graph/escalation.py, graph/recovery_registry.py, graph/human_gate.py).
  \<^item> \<open>State_Model\<close>: the sections with their fields, types and defaults, validation and normalisation; \<open>State_Ops\<close>:
    loading, initial state, merge, patches, stage status, tool results, events, outcome; \<open>State_Reads\<close> and
    \<open>State_Updates\<close>: reading and writing fields of a loaded state without exceptions. Their lemmas show that a loaded
    state is well typed, that loading is idempotent up to the clock and that a patch takes one state to the other.

  \<^bold>\<open>Policies\<close>
  \<^item> \<open>Stage_Contracts\<close> (graph/stage_contracts.py) and \<open>Human_Loop\<close> (hitl/): contracts, resume requests, cleanup, the
    dialogue with the human and its decisions: what a cleanup may touch, that decisions are well formed, when the
    dialogue ends.
  \<^item> \<open>Task_Board\<close> (runtime/deliberation_loop.py and the registries): the board, its moves and the scheduler; its
    invariant along every sequence of moves and the progress of the scheduler.
  \<^item> \<open>Channels\<close>, \<open>Refinement\<close>, \<open>Validation\<close>: quality of channels, sampling plans and the validation report.
  \<^item> \<open>Policy\<close> (policy/): retrieval, parameter plans and failure diagnoses; what a language model proposes is cut down to
    allowed tags of the right type.

  \<^bold>\<open>The council and the graph\<close>
  \<^item> \<open>Messages\<close> (agents/schemas.py), \<open>Context\<close>, \<open>Memory\<close> (runtime/store.py), \<open>Agent_Tools\<close> (runtime/agent_tools.py):
    messages, prompts, memory and the legality check. \<open>Orchestrator\<close> and \<open>Arbitration\<close>: whatever the model answers, the
    selected action is a legal one.
  \<^item> \<open>Runtime_Nodes\<close>, \<open>Execute_Node\<close>, \<open>Graph_Nodes\<close> (graph/runtime_nodes.py): all nodes. \<open>Node_Facts\<close>: refused actions are
    inert, exceptions of tools are contained, results reach the state. \<open>Graph_Facts\<close>: the executor accepts what the
    arbitration routed to it. \<open>Material_Graph\<close> (graph/material_graph.py): the graph as an inductive step relation
    with the invariant of every run.
  \<^item> \<open>Checkpointing\<close> (runtime/checkpointing.py, runtime/database.py): the files beside the results and their round trips.

  \<^bold>\<open>The stages\<close> (tools/)
  \<^item> \<open>Vasp_Common\<close>, \<open>Relax_Retry\<close>, \<open>Stage_Tools\<close>: the shared helpers, the retry loop of the relaxation, the relaxation and
    SCF tools. \<open>Band_Edges\<close>: reading eigenvalues, the band edges and the band tool: the reported edges are extremal.
  \<^item> \<open>Strain\<close>: the campaign: merging rows loses no completed point, every planned point has a row whatever fails, and a
    reported success means that the fits have what they need.
  \<^item> \<open>Mass\<close>: the effective masses: exactly when a mass is accepted, and what a successful stage has measured.
  \<^item> \<open>Mobility\<close>: the last stage: it accepts what a successful campaign hands on, the mobilities it reports are those of
    its formula, trusted exactly when the masses were accepted, and the next campaign reads back the table it writes.

  \<^bold>\<open>What a model takes instead of the code\<close>
  \<^item> Floats are rationals with the infinities and NaN: no rounding; \<open>str\<close> of a float is an injective stand-in for the
    shortest decimal. NaN has a place in the order that sorting uses; comparisons are Python's.
  \<^item> Characters are Latin-1, a file has one byte per character. Messages and markers in Chinese are left out or given in
    English. Paths are absolute and normalised, links are copies, removing a directory succeeds.
  \<^item> The clock is read once per operation. Pydantic's coercion of a field, pickle, numpy's and scipy's fits, pymatgen's
    readers and writers, the vector store, the language model, the VASP processes and the human are parameters: arguments
    or records of functions (\<open>env\<close>, \<open>node_env\<close>, \<open>tool_env\<close>, \<open>relax_config\<close>, \<open>vasp_readers\<close>, \<open>strain_env\<close>,
    \<open>mass_env\<close>, \<open>mobility_env\<close>, \<open>council\<close>).
    The store of the memory is a locale with the laws LangGraph documents.
  \<^item> LangGraph merges the patch of a node into the values section by section and runs an interrupted node again from
    its start with the answer.
  \<^item> Fuel: a free backup name is searched as far as the file table is long, one of that many names is free; the search for
    a decimal exponent stops at 400, beyond the range of a double; reading JSON has the length of the text as fuel, which
    its depth cannot exceed; the evidence of a failed relaxation is searched nine levels deep as in the code. The command
    loop of the dialogue has the typed lines as its measure, and an end of file is the value None.

  \<^bold>\<open>Not modelled\<close>
  \<^item> runtime/agentic_controller.py, agents/base.py and the agents that only build a prompt and call a model: their
    answers enter the nodes as the parameters of the council, and every check of these answers is modelled where the
    nodes make it. The recovery of a payload from free text by regular expressions belongs to them.
  \<^item> runtime/batch_runner.py, runtime/mongo_batch.py and what goes with them: database calls around single runs.
  \<^item> web_console/, notifications/, telemetry, entry points: HTTP and process plumbing; terminal output.
  \<^item> rag/ and skills/: SQL and HTTP around an embedding service, loading of Markdown packages; nodes take what they
    return as a parameter.
  \<^item> Signals to a process group, the database checkpointers and the pickle readers: behaviour of the system and of libraries.
\<close>

end
